(* ===== verification/JsPrelude.thy ===== *)
theory JsPrelude
  imports Complex_Main
begin

text \<open>
  The fragment of JavaScript's run-time library that the modelled code uses, and the
  lemmas on lists, options, maps and strings that the component theories share.

  \<^item> Numbers.  IEEE doubles are idealised as exact reals (\<^typ>\<open>real\<close>); where a
    division by zero can reach a comparison or a stored field, the value is a
    \<open>jsnum\<close>, which adds the infinities and NaN.  Rounding errors and the
    sign of zero are not modelled.  Times in milliseconds are \<^typ>\<open>int\<close>.
  \<^item> Strings.  A JavaScript string is modelled by a \<^typ>\<open>string\<close> whose characters are
    its UTF-16 code units, so the model covers the strings with code units below 256
    (Latin-1).  \<open>js_lower\<close>, \<open>js_trim\<close> and \<open>js_space\<close> follow the
    Unicode tables on that range.
  \<^item> Optional properties and \<open>undefined\<close> are \<^typ>\<open>'a option\<close>.
\<close>

named_theorems js_simps "equations that evaluate the JavaScript library operations"
named_theorems inv_intros "introduction rules for the invariants of the components"

type_synonym millis = int

subsection \<open>Numbers with infinities and NaN\<close>

datatype jsnum = Fin real | PInf | NInf | NaN

fun js_div :: "real \<Rightarrow> real \<Rightarrow> jsnum" where
  "js_div a b =
     (if b \<noteq> 0 then Fin (a / b)
      else if a = 0 then NaN
      else if 0 < a then PInf else NInf)"

fun js_scale :: "jsnum \<Rightarrow> real \<Rightarrow> jsnum" where
  \<comment> \<open>multiplication by a positive constant\<close>
  "js_scale (Fin a) k = Fin (a * k)"
| "js_scale x k = x"

definition js_round_real :: "real \<Rightarrow> int" where
  \<comment> \<open>\<open>Math.round\<close>: the nearest integer, ties towards plus infinity\<close>
  "js_round_real x = \<lfloor>x + 1 / 2\<rfloor>"

fun js_round :: "jsnum \<Rightarrow> jsnum" where
  "js_round (Fin a) = Fin (of_int (js_round_real a))"
| "js_round x = x"

fun js_less :: "jsnum \<Rightarrow> jsnum \<Rightarrow> bool" where
  "js_less NaN y = False"
| "js_less x NaN = False"
| "js_less (Fin a) (Fin b) = (a < b)"
| "js_less x PInf = (x \<noteq> PInf)"
| "js_less NInf y = (y \<noteq> NInf)"
| "js_less x y = False"

fun js_le :: "jsnum \<Rightarrow> jsnum \<Rightarrow> bool" where
  "js_le NaN y = False"
| "js_le x NaN = False"
| "js_le (Fin a) (Fin b) = (a \<le> b)"
| "js_le x PInf = True"
| "js_le NInf y = True"
| "js_le x y = False"

definition js_max :: "jsnum \<Rightarrow> jsnum \<Rightarrow> jsnum" where
  "js_max x y = (if x = NaN \<or> y = NaN then NaN else if js_less x y then y else x)"

definition js_min :: "jsnum \<Rightarrow> jsnum \<Rightarrow> jsnum" where
  "js_min x y = (if x = NaN \<or> y = NaN then NaN else if js_less y x then y else x)"

definition in_range :: "real \<Rightarrow> real \<Rightarrow> jsnum \<Rightarrow> bool" where
  "in_range lo hi x \<longleftrightarrow> (case x of Fin a \<Rightarrow> lo \<le> a \<and> a \<le> hi | _ \<Rightarrow> False)"

lemma in_range_Fin [simp]: "in_range lo hi (Fin a) \<longleftrightarrow> lo \<le> a \<and> a \<le> hi"
  by (simp add: in_range_def)

lemma in_range_simps [simp]:
  "\<not> in_range lo hi NaN" "\<not> in_range lo hi PInf" "\<not> in_range lo hi NInf"
  by (simp_all add: in_range_def)

lemma clamp_in_range:
  assumes "lo \<le> hi" "x \<noteq> NaN"
  shows "in_range lo hi (js_min (Fin hi) (js_max (Fin lo) x))"
  using assms by (cases x) (auto simp: js_min_def js_max_def)

lemma clamp_id:
  assumes "in_range lo hi x"
  shows "js_min (Fin hi) (js_max (Fin lo) x) = x"
  using assms by (cases x) (auto simp: js_min_def js_max_def)

lemma clamp_NaN [simp]: "js_min (Fin hi) (js_max (Fin lo) NaN) = NaN"
  by (simp add: js_min_def js_max_def)

lemma js_round_int [simp]: "js_round_real (of_int n) = n"
proof -
  have "\<lfloor>of_int n + 1 / 2 :: real\<rfloor> = n" by (rule floor_unique) auto
  then show ?thesis by (simp add: js_round_real_def)
qed

lemma js_round_mono: "x \<le> y \<Longrightarrow> js_round_real x \<le> js_round_real y"
  by (simp add: js_round_real_def floor_mono)

subsection \<open>Strings\<close>

abbreviation code :: "char \<Rightarrow> nat" where
  "code c \<equiv> of_char c"

definition js_lower_char :: "char \<Rightarrow> char" where
  \<comment> \<open>\<open>A-Z\<close>, and the Latin-1 capitals \<open>0xC0-0xDE\<close> without the multiplication sign \<open>0xD7\<close>\<close>
  "js_lower_char c =
     (let n = code c
      in if (65 \<le> n \<and> n \<le> 90) \<or> (192 \<le> n \<and> n \<le> 222 \<and> n \<noteq> 215)
         then char_of (n + 32) else c)"

definition js_lower :: "string \<Rightarrow> string" where
  "js_lower s = map js_lower_char s"

definition js_space :: "char \<Rightarrow> bool" where
  \<comment> \<open>white space and line terminators below 256: TAB, LF, VT, FF, CR, SPACE, NBSP\<close>
  "js_space c = (code c \<in> {9, 10, 11, 12, 13, 32, 160})"

definition js_trim :: "string \<Rightarrow> string" where
  "js_trim s = rev (dropWhile js_space (rev (dropWhile js_space s)))"

fun starts_with :: "string \<Rightarrow> string \<Rightarrow> bool" where
  "starts_with s [] = True"
| "starts_with [] (c # cs) = False"
| "starts_with (d # ds) (c # cs) = (d = c \<and> starts_with ds cs)"

fun str_includes :: "string \<Rightarrow> string \<Rightarrow> bool" where
  "str_includes [] p = (p = [])"
| "str_includes (c # cs) p = (starts_with (c # cs) p \<or> str_includes cs p)"

fun split_char :: "char \<Rightarrow> string \<Rightarrow> string list" where
  \<comment> \<open>\<open>s.split(c)\<close> for a one-character separator\<close>
  "split_char c [] = [[]]"
| "split_char c (d # ds) =
     (if d = c then [] # split_char c ds
      else (case split_char c ds of
              [] \<Rightarrow> [[d]]
            | w # ws \<Rightarrow> (d # w) # ws))"

fun join :: "string \<Rightarrow> string list \<Rightarrow> string" where
  "join sep [] = []"
| "join sep [w] = w"
| "join sep (w # v # ws) = w @ sep @ join sep (v # ws)"

definition truthy_string :: "string option \<Rightarrow> bool" where
  \<comment> \<open>an optional string in a condition: neither \<open>undefined\<close> nor the empty string\<close>
  "truthy_string x = (case x of None \<Rightarrow> False | Some s \<Rightarrow> s \<noteq> [])"

definition or_string :: "string option \<Rightarrow> string \<Rightarrow> string" where
  \<comment> \<open>\<open>x || d\<close> on strings\<close>
  "or_string x d = (case x of None \<Rightarrow> d | Some s \<Rightarrow> if s = [] then d else s)"

definition or_undefined :: "string option \<Rightarrow> string option" where
  \<comment> \<open>\<open>x || undefined\<close> and \<open>x || null\<close>\<close>
  "or_undefined x = (if truthy_string x then x else None)"

lemma length_js_lower [simp]: "length (js_lower s) = length s"
  by (simp add: js_lower_def)

lemma js_lower_append [simp]: "js_lower (s @ t) = js_lower s @ js_lower t"
  by (simp add: js_lower_def)

lemma starts_with_iff: "starts_with s p \<longleftrightarrow> (\<exists>t. s = p @ t)"
  by (induction s p rule: starts_with.induct) auto

lemma includes_iff: "str_includes s p \<longleftrightarrow> (\<exists>u v. s = u @ p @ v)"
proof (induction s)
  case Nil
  then show ?case by auto
next
  case (Cons c cs)
  show ?case
  proof
    assume "str_includes (c # cs) p"
    then consider "starts_with (c # cs) p" | "str_includes cs p" by auto
    then show "\<exists>u v. c # cs = u @ p @ v"
    proof cases
      case 1
      then obtain t where "c # cs = [] @ p @ t" by (auto simp: starts_with_iff)
      then show ?thesis by blast
    next
      case 2
      then obtain u v where "cs = u @ p @ v" using Cons.IH by blast
      then have "c # cs = (c # u) @ p @ v" by simp
      then show ?thesis by blast
    qed
  next
    assume "\<exists>u v. c # cs = u @ p @ v"
    then obtain u v where uv: "c # cs = u @ p @ v" by blast
    show "str_includes (c # cs) p"
    proof (cases u)
      case Nil
      then have "starts_with (c # cs) p" using uv by (auto simp: starts_with_iff)
      then show ?thesis by simp
    next
      case (Cons d u')
      then have "cs = u' @ p @ v" using uv by simp
      then show ?thesis using Cons.IH by auto
    qed
  qed
qed

lemma includes_refl [simp]: "str_includes s s"
  by (auto simp: includes_iff intro: exI [of _ "[]"])

lemma includes_infix [simp]: "str_includes (u @ p @ v) p"
  by (auto simp: includes_iff)

lemma split_char_not_Nil [simp]: "split_char c s \<noteq> []"
  by (induction s) (auto split: list.splits)

lemma join_split_char: "join [c] (split_char c s) = s"
proof (induction s)
  case Nil
  then show ?case by simp
next
  case (Cons d ds)
  obtain w ws where sp: "split_char c ds = w # ws"
    by (cases "split_char c ds") auto
  show ?case
  proof (cases "d = c")
    case True
    with Cons sp show ?thesis by simp
  next
    case False
    with Cons sp show ?thesis by (cases ws) auto
  qed
qed

lemma split_char_no_sep: "c \<notin> set s \<Longrightarrow> split_char c s = [s]"
  by (induction s) auto

lemma split_char_append:
  "c \<notin> set s \<Longrightarrow> split_char c (s @ c # t) = s # split_char c t"
  by (induction s) auto

lemma set_split_char: "w \<in> set (split_char c s) \<Longrightarrow> c \<notin> set w"
  by (induction s arbitrary: w) (fastforce split: if_splits list.splits)+

lemma truthy_string_simps [simp]:
  "truthy_string None = False" "truthy_string (Some s) = (s \<noteq> [])"
  by (simp_all add: truthy_string_def)

lemma or_string_simps [simp]:
  "or_string None d = d" "or_string (Some s) d = (if s = [] then d else s)"
  by (simp_all add: or_string_def)

lemma or_undefined_simps [simp]:
  "or_undefined None = None" "or_undefined (Some s) = (if s = [] then None else Some s)"
  by (simp_all add: or_undefined_def)

subsection \<open>JSON values\<close>

datatype json =
    JNull
  | JBool bool
  | JNum real
  | JStr string
  | JArr "json list"
  | JObj "(string \<times> json) list"

type_synonym dict = "string \<rightharpoonup> json"

definition spread :: "dict option \<Rightarrow> (string \<times> json) list \<Rightarrow> dict" where
  \<comment> \<open>\<open>{ ...obj, k1: v1, k2: v2 }\<close>, where spreading \<open>undefined\<close> adds nothing\<close>
  "spread obj kvs = foldl (\<lambda>m (k, v). m(k \<mapsto> v)) (case obj of None \<Rightarrow> Map.empty | Some m \<Rightarrow> m) kvs"

definition prop_of :: "dict option \<Rightarrow> string \<Rightarrow> json option" where
  \<comment> \<open>\<open>obj?.[k]\<close>\<close>
  "prop_of obj k = (case obj of None \<Rightarrow> None | Some m \<Rightarrow> m k)"

lemma prop_of_simps [simp]: "prop_of None k = None" "prop_of (Some m) k = m k"
  by (simp_all add: prop_of_def)

subsection \<open>Decimal numerals\<close>

fun show_nat :: "nat \<Rightarrow> string" where
  "show_nat n =
     (if n < 10 then [char_of (48 + n)] else show_nat (n div 10) @ [char_of (48 + n mod 10)])"

declare show_nat.simps [simp del]

definition show_int :: "int \<Rightarrow> string" where
  \<comment> \<open>an integral number in a template literal\<close>
  "show_int i = (if i < 0 then CHR ''-'' # show_nat (nat (- i)) else show_nat (nat i))"

fun fraction_digits :: "nat \<Rightarrow> real \<Rightarrow> string" where
  "fraction_digits 0 x = []"
| "fraction_digits (Suc n) x =
     (if x = 0 then []
      else char_of (48 + nat \<lfloor>10 * x\<rfloor>) # fraction_digits n (10 * x - of_int \<lfloor>10 * x\<rfloor>))"

definition js_show_real :: "real \<Rightarrow> string" where
  \<comment> \<open>a number in a template literal, for the numbers whose shortest decimal form has at most 17
      digits after the point and no exponent\<close>
  "js_show_real x =
     (let a = \<bar>x\<bar>; n = \<lfloor>a\<rfloor>; ds = fraction_digits 17 (a - of_int n)
      in (if x < 0 then ''-'' else []) @ show_nat (nat n) @ (if ds = [] then [] else ''.'' @ ds))"

fun read_nat :: "nat \<Rightarrow> string \<Rightarrow> nat" where
  "read_nat acc [] = acc"
| "read_nat acc (c # cs) = read_nat (acc * 10 + (code c - 48)) cs"

lemma read_nat_append: "read_nat acc (s @ t) = read_nat (read_nat acc s) t"
  by (induction acc s rule: read_nat.induct) auto

lemma code_digit [simp]: "n < 10 \<Longrightarrow> code (char_of (48 + n)) = 48 + n"
  by simp

lemma read_show_nat: "read_nat 0 (show_nat n) = n"
proof (induction n rule: show_nat.induct)
  case (1 n)
  show ?case
  proof (cases "n < 10")
    case True
    then show ?thesis by (subst show_nat.simps) simp
  next
    case False
    then have "read_nat 0 (show_nat n) = read_nat 0 (show_nat (n div 10)) * 10 + n mod 10"
      by (subst show_nat.simps) (simp add: read_nat_append)
    also have "\<dots> = n div 10 * 10 + n mod 10" using 1 False by simp
    finally show ?thesis by simp
  qed
qed

lemma show_nat_inj: "show_nat m = show_nat n \<Longrightarrow> m = n"
  by (metis read_show_nat)

lemma show_nat_digits: "c \<in> set (show_nat n) \<Longrightarrow> 48 \<le> code c \<and> code c \<le> 57"
proof (induction n rule: show_nat.induct)
  case (1 n)
  show ?case
  proof (cases "n < 10")
    case True
    with 1 show ?thesis by (subst (asm) show_nat.simps) auto
  next
    case False
    then have "c \<in> set (show_nat (n div 10)) \<or> c = char_of (48 + n mod 10)"
      using 1 by (subst (asm) show_nat.simps) auto
    then show ?thesis
    proof
      assume "c \<in> set (show_nat (n div 10))"
      then show ?thesis using 1 False by blast
    next
      have "n mod 10 < 10" by simp
      moreover assume "c = char_of (48 + n mod 10)"
      ultimately show ?thesis by (simp only: code_digit) simp
    qed
  qed
qed

subsection \<open>Lists\<close>

definition push_capped :: "nat \<Rightarrow> 'a list \<Rightarrow> 'a \<Rightarrow> 'a list" where
  \<comment> \<open>the longest suffix of \<open>xs @ [x]\<close> with at most \<open>n\<close> elements\<close>
  "push_capped n xs x = drop (length xs + 1 - n) (xs @ [x])"

lemma length_push_capped [simp]: "length (push_capped n xs x) = min n (length xs + 1)"
  by (simp add: push_capped_def)

lemma last_push_capped: "0 < n \<Longrightarrow> last (push_capped n xs x) = x"
  by (simp add: push_capped_def)

lemma nth_last_push_capped:
  assumes "0 < n"
  shows "push_capped n xs x ! (length (push_capped n xs x) - 1) = x"
proof -
  have "push_capped n xs x \<noteq> []" using assms by (auto simp: push_capped_def)
  then show ?thesis using last_push_capped [OF assms] last_conv_nth by metis
qed

lemma push_capped_small: "length xs < n \<Longrightarrow> push_capped n xs x = xs @ [x]"
  by (simp add: push_capped_def)

lemma push_capped_full: "length xs = n \<Longrightarrow> 0 < n \<Longrightarrow> push_capped n xs x = tl xs @ [x]"
  by (cases xs) (simp_all add: push_capped_def)

subsection \<open>Maps as association lists\<close>

lemma map_of_swept:
  "distinct (map fst m) \<Longrightarrow>
   map_of (filter (\<lambda>(k, v). \<not> P v) m) k =
     (case map_of m k of None \<Rightarrow> None | Some v \<Rightarrow> if P v then None else Some v)"
  by (induction m) (auto split: option.splits simp: map_of_eq_None_iff image_iff)

end
