(* ===== verification/Goals.thy ===== *)
theory Goals
  imports JsPrelude
begin

text \<open>
  The entity \<open>ActiveGoal\<close> (\<open>api/src/domain/entities/ActiveGoal.ts\<close>): the goal of a
  bedtime session with its progress in per cent.  \<open>goal_props\<close> is the plain object that is
  stored in a session, \<open>active_goal\<close> the entity; \<open>ag_create\<close> and \<open>ag_toJSON\<close> convert
  between them.  Clock readings and the random suffix of an identifier are arguments.
\<close>

datatype goal_type = CHILD_ASLEEP | STORY_COMPLETED | RELAXATION_ACHIEVED

datatype goal_status = GActive | GAchieved | GAbandoned

record goal_props =
  gp_id :: string
  gp_type :: goal_type
  gp_targetTime :: millis
  gp_description :: string
  gp_status :: goal_status
  gp_progress :: jsnum
  gp_createdAt :: millis
  gp_achievedAt :: "millis option"

record create_goal_input =
  cg_type :: goal_type
  cg_targetMinutes :: int
  cg_description :: "string option"

record active_goal =
  ag_id :: string
  ag_type :: goal_type
  ag_targetTime :: millis
  ag_description :: string
  ag_status :: goal_status
  ag_progress :: jsnum
  ag_createdAt :: millis
  ag_achievedAt :: "millis option"

definition ag_create :: "goal_props \<Rightarrow> active_goal" where
  "ag_create p =
     \<lparr>ag_id = gp_id p, ag_type = gp_type p, ag_targetTime = gp_targetTime p,
      ag_description = gp_description p, ag_status = gp_status p,
      ag_progress = gp_progress p, ag_createdAt = gp_createdAt p,
      ag_achievedAt = gp_achievedAt p\<rparr>"

fun ag_default_description :: "goal_type \<Rightarrow> int \<Rightarrow> string" where
  "ag_default_description CHILD_ASLEEP m = ''Child asleep in '' @ show_int m @ '' minutes''"
| "ag_default_description STORY_COMPLETED m =
     ''Complete story within '' @ show_int m @ '' minutes''"
| "ag_default_description RELAXATION_ACHIEVED m =
     ''Achieve relaxation in '' @ show_int m @ '' minutes''"

definition ag_createNew :: "create_goal_input \<Rightarrow> millis \<Rightarrow> millis \<Rightarrow> string \<Rightarrow> active_goal" where
  \<comment> \<open>\<open>now\<close> is \<open>new Date()\<close>, \<open>now2\<close> the later \<open>Date.now()\<close> of the identifier,
      \<open>rnd\<close> the seven random base-36 digits\<close>
  "ag_createNew inp now now2 rnd =
     \<lparr>ag_id = ''goal_'' @ show_int now2 @ ''_'' @ rnd,
      ag_type = cg_type inp,
      ag_targetTime = now + cg_targetMinutes inp * 60 * 1000,
      ag_description =
        (case cg_description inp of
           None \<Rightarrow> ag_default_description (cg_type inp) (cg_targetMinutes inp)
         | Some d \<Rightarrow> d),
      ag_status = GActive,
      ag_progress = Fin 0,
      ag_createdAt = now,
      ag_achievedAt = None\<rparr>"

definition ag_updateProgress :: "jsnum \<Rightarrow> active_goal \<Rightarrow> active_goal" where
  "ag_updateProgress x g = g\<lparr>ag_progress := js_min (Fin 100) (js_max (Fin 0) x)\<rparr>"

definition ag_markAchieved :: "millis \<Rightarrow> active_goal \<Rightarrow> active_goal" where
  "ag_markAchieved now g =
     g\<lparr>ag_status := GAchieved, ag_progress := Fin 100, ag_achievedAt := Some now\<rparr>"

definition ag_toJSON :: "active_goal \<Rightarrow> goal_props" where
  "ag_toJSON g =
     \<lparr>gp_id = ag_id g, gp_type = ag_type g, gp_targetTime = ag_targetTime g,
      gp_description = ag_description g, gp_status = ag_status g,
      gp_progress = ag_progress g, gp_createdAt = ag_createdAt g,
      gp_achievedAt = ag_achievedAt g\<rparr>"

subsection \<open>The entity and its plain object are the same data\<close>

lemma ag_create_toJSON [simp]: "ag_create (ag_toJSON g) = g"
  by (simp add: ag_create_def ag_toJSON_def)

lemma ag_toJSON_create [simp]: "ag_toJSON (ag_create p) = p"
  by (simp add: ag_create_def ag_toJSON_def)

lemma ag_create_sel [simp]:
  "ag_status (ag_create p) = gp_status p" "ag_progress (ag_create p) = gp_progress p"
  "ag_id (ag_create p) = gp_id p" "ag_type (ag_create p) = gp_type p"
  "ag_description (ag_create p) = gp_description p"
  by (simp_all add: ag_create_def)

lemma ag_toJSON_sel [simp]:
  "gp_status (ag_toJSON g) = ag_status g" "gp_progress (ag_toJSON g) = ag_progress g"
  "gp_id (ag_toJSON g) = ag_id g" "gp_type (ag_toJSON g) = ag_type g"
  "gp_achievedAt (ag_toJSON g) = ag_achievedAt g"
  by (simp_all add: ag_toJSON_def)

subsection \<open>The invariant of a goal\<close>

definition goal_ok :: "goal_props \<Rightarrow> bool" where
  \<comment> \<open>progress is a number between 0 and 100 (or NaN, which the clamp lets through), and an
      achieved goal has all of it and a time stamp\<close>
  "goal_ok p \<longleftrightarrow>
     (in_range 0 100 (gp_progress p) \<or> gp_progress p = NaN) \<and>
     (gp_status p = GAchieved \<longrightarrow> gp_progress p = Fin 100 \<and> gp_achievedAt p \<noteq> None)"

lemma goal_ok_createNew [inv_intros]: "goal_ok (ag_toJSON (ag_createNew inp now now2 rnd))"
  by (simp add: goal_ok_def ag_createNew_def ag_toJSON_def)

lemma goal_ok_updateProgress [inv_intros]:
  assumes "ag_status g \<noteq> GAchieved"
  shows "goal_ok (ag_toJSON (ag_updateProgress x g))"
  using assms clamp_in_range [of 0 100 x]
  by (cases "x = NaN") (auto simp: goal_ok_def ag_updateProgress_def ag_toJSON_def)

lemma goal_ok_markAchieved [inv_intros]: "goal_ok (ag_toJSON (ag_markAchieved now g))"
  by (simp add: goal_ok_def ag_markAchieved_def ag_toJSON_def)

lemma ag_updateProgress_sel [simp]:
  "ag_status (ag_updateProgress x g) = ag_status g"
  "ag_description (ag_updateProgress x g) = ag_description g"
  "ag_id (ag_updateProgress x g) = ag_id g"
  by (simp_all add: ag_updateProgress_def)

lemma ag_markAchieved_sel [simp]:
  "ag_status (ag_markAchieved now g) = GAchieved"
  "ag_progress (ag_markAchieved now g) = Fin 100"
  "ag_achievedAt (ag_markAchieved now g) = Some now"
  "ag_id (ag_markAchieved now g) = ag_id g"
  by (simp_all add: ag_markAchieved_def)

text \<open>The target lies the requested number of minutes after the creation.\<close>

lemma ag_createNew_target:
  "ag_targetTime (ag_createNew inp now now2 rnd) - ag_createdAt (ag_createNew inp now now2 rnd)
     = 60000 * cg_targetMinutes inp"
  by (simp add: ag_createNew_def)

end
