(* ===== verification/Ambient.thy ===== *)
theory Ambient
  imports JsPrelude
begin

text \<open>
  The environment service \<open>AmbientContextService\<close>
  (\<open>api/src/infrastructure/services/AmbientContextService.ts\<close>) and its port: the
  classification of the local clock and of the weather report, the five-minute cache, and the
  theme suggestions.  The answer of the weather API is an argument (\<open>weather_reply\<close>), and so
  are the readings of the clock.
\<close>

datatype time_of_day = Morning | Afternoon | Evening | Night

fun tod_string :: "time_of_day \<Rightarrow> string" where
  "tod_string Morning = ''morning''"
| "tod_string Afternoon = ''afternoon''"
| "tod_string Evening = ''evening''"
| "tod_string Night = ''night''"

datatype condition = Clear | Cloudy | Rainy | Snowy | Stormy | UnknownWeather

fun condition_string :: "condition \<Rightarrow> string" where
  "condition_string Clear = ''clear''"
| "condition_string Cloudy = ''cloudy''"
| "condition_string Rainy = ''rainy''"
| "condition_string Snowy = ''snowy''"
| "condition_string Stormy = ''stormy''"
| "condition_string UnknownWeather = ''unknown''"

datatype season = Spring | Summer | Autumn | Winter

datatype ambient_mood = MoodCalm | MoodAdventurous | MoodCozy | MoodMagical

record weather =
  w_condition :: condition
  w_temperature :: real
  w_humidity :: real

record ambient_context =
  ac_timeOfDay :: time_of_day
  ac_weather :: weather
  ac_season :: season
  ac_isWeekend :: bool
  ac_suggestedMood :: ambient_mood

record local_time =
  lt_hour :: nat
  lt_day :: nat
  lt_month :: nat

datatype weather_reply =
    WeatherThrows
  | WeatherNotOk
  | WeatherOk "string option" real real
    \<comment> \<open>\<open>weather[0]?.main\<close>, \<open>main.temp\<close>, \<open>main.humidity\<close>\<close>

record ambient_service =
  as_apiKey :: "string option"
  as_cached :: "ambient_context option"
  as_expiry :: "millis option"

definition ambient_init :: "string option \<Rightarrow> string option \<Rightarrow> ambient_service" where
  \<comment> \<open>the constructor: \<open>apiKey || process.env['OPENWEATHER_API_KEY'] || null\<close>\<close>
  "ambient_init apiKey env =
     \<lparr>as_apiKey = (if truthy_string apiKey then apiKey else or_undefined env),
      as_cached = None, as_expiry = None\<rparr>"

definition time_of_day :: "nat \<Rightarrow> time_of_day" where
  "time_of_day hour =
     (if 5 \<le> hour \<and> hour < 12 then Morning
      else if 12 \<le> hour \<and> hour < 17 then Afternoon
      else if 17 \<le> hour \<and> hour < 21 then Evening
      else Night)"

definition season_of :: "nat \<Rightarrow> season" where
  "season_of month =
     (if 2 \<le> month \<and> month \<le> 4 then Spring
      else if 5 \<le> month \<and> month \<le> 7 then Summer
      else if 8 \<le> month \<and> month \<le> 10 then Autumn
      else Winter)"

definition default_weather :: weather where
  "default_weather = \<lparr>w_condition = Clear, w_temperature = 20, w_humidity = 50\<rparr>"

definition classify_weather :: "string \<Rightarrow> condition" where
  "classify_weather m =
     (if str_includes m ''clear'' \<or> str_includes m ''sun'' then Clear
      else if str_includes m ''cloud'' then Cloudy
      else if str_includes m ''rain'' \<or> str_includes m ''drizzle'' then Rainy
      else if str_includes m ''snow'' then Snowy
      else if str_includes m ''thunder'' \<or> str_includes m ''storm'' then Stormy
      else UnknownWeather)"

definition falsy_coord :: "real option \<Rightarrow> bool" where
  \<comment> \<open>\<open>!lat\<close>: an absent coordinate, and the coordinate 0\<close>
  "falsy_coord x = (case x of None \<Rightarrow> True | Some r \<Rightarrow> r = 0)"

definition fetchWeather ::
    "string option \<Rightarrow> real option \<Rightarrow> real option \<Rightarrow> weather_reply \<Rightarrow> weather" where
  "fetchWeather apiKey lat lon reply =
     (if \<not> truthy_string apiKey \<or> falsy_coord lat \<or> falsy_coord lon then default_weather
      else
        (case reply of
           WeatherThrows \<Rightarrow> default_weather
         | WeatherNotOk \<Rightarrow> default_weather
         | WeatherOk main temp hum \<Rightarrow>
             \<lparr>w_condition = classify_weather (or_string (map_option js_lower main) ''unknown''),
              w_temperature = of_int (js_round_real temp),
              w_humidity = hum\<rparr>))"

definition suggested_mood :: "condition \<Rightarrow> time_of_day \<Rightarrow> ambient_mood" where
  "suggested_mood c t =
     (if c = Rainy \<or> c = Stormy then MoodCozy
      else if c = Snowy then MoodMagical
      else if t = Night \<or> t = Evening then MoodCalm
      else MoodAdventurous)"

definition refresh_ambient ::
    "ambient_service \<Rightarrow> local_time \<Rightarrow> millis \<Rightarrow> real option \<Rightarrow> real option \<Rightarrow> weather_reply
     \<Rightarrow> ambient_service \<times> ambient_context" where
  "refresh_ambient s lt later lat lon reply =
     (let tod = time_of_day (lt_hour lt);
          w = fetchWeather (as_apiKey s) lat lon reply;
          c = \<lparr>ac_timeOfDay = tod, ac_weather = w, ac_season = season_of (lt_month lt),
               ac_isWeekend = (lt_day lt = 0 \<or> lt_day lt = 6),
               ac_suggestedMood = suggested_mood (w_condition w) tod\<rparr>
      in (s\<lparr>as_cached := Some c, as_expiry := Some (later + 5 * 60 * 1000)\<rparr>, c))"

definition getAmbientContext ::
    "ambient_service \<Rightarrow> millis \<Rightarrow> local_time \<Rightarrow> millis \<Rightarrow> real option \<Rightarrow> real option \<Rightarrow> weather_reply
     \<Rightarrow> ambient_service \<times> ambient_context" where
  \<comment> \<open>\<open>now\<close> is the reading of the cache check, \<open>lt\<close> the local clock, \<open>later\<close> the reading
      after the weather request\<close>
  "getAmbientContext s now lt later lat lon reply =
     (case (as_cached s, as_expiry s) of
        (Some c, Some e) \<Rightarrow>
          if now < e then (s, c) else refresh_ambient s lt later lat lon reply
      | _ \<Rightarrow> refresh_ambient s lt later lat lon reply)"

definition suggestThemes :: "ambient_context \<Rightarrow> string list" where
  "suggestThemes c =
     (let byWeather =
            (case w_condition (ac_weather c) of
               Rainy \<Rightarrow> [''cozy-indoors'', ''puddle-jumping'', ''rainbow'']
             | Snowy \<Rightarrow> [''winter-wonderland'', ''snowflakes'', ''warm-cocoa'']
             | Stormy \<Rightarrow> [''brave-knight'', ''safe-shelter'', ''thunder-friends'']
             | Clear \<Rightarrow> [''stargazing'', ''moonlit-adventure'', ''fireflies'']
             | _ \<Rightarrow> [''dream-clouds'', ''imagination'']);
          bySeason =
            (case ac_season c of
               Autumn \<Rightarrow> [''falling-leaves'', ''harvest'', ''forest-animals'']
             | Spring \<Rightarrow> [''butterflies'', ''baby-animals'', ''flowers'']
             | _ \<Rightarrow> []);
          themes = byWeather @ bySeason;
          themes = (if ac_timeOfDay c = Night then [''sleepy-stars'', ''moon-lullaby''] @ themes
                    else themes)
      in take 5 themes)"

subsection \<open>The cache answers for five minutes\<close>

lemma ambient_cache_hit:
  assumes "getAmbientContext s now lt later lat lon reply = (s', c)"
    and "as_expiry s = None \<or> as_cached s = None \<or> (\<exists>e. as_expiry s = Some e \<and> e \<le> now)"
    and "now' < later + 300000"
  shows "getAmbientContext s' now' lt' later' lat' lon' reply' = (s', c)"
proof -
  have "(s', c) = refresh_ambient s lt later lat lon reply"
    using assms(1,2) by (auto simp: getAmbientContext_def split: option.splits if_splits)
  then have "as_cached s' = Some c" "as_expiry s' = Some (later + 300000)"
    by (auto simp: refresh_ambient_def Let_def)
  then show ?thesis using assms(3) by (simp add: getAmbientContext_def)
qed

lemma ambient_cache_expired:
  assumes "as_expiry s = Some e" "e \<le> now"
  shows "getAmbientContext s now lt later lat lon reply = refresh_ambient s lt later lat lon reply"
  using assms by (simp add: getAmbientContext_def split: option.split)

lemma ambient_failure_is_default:
  "reply \<in> {WeatherThrows, WeatherNotOk} \<Longrightarrow> fetchWeather k lat lon reply = default_weather"
  by (auto simp: fetchWeather_def)

lemma suggestThemes_bound: "length (suggestThemes c) \<le> 5"
  by (simp add: suggestThemes_def Let_def)

lemma suggestThemes_nonempty: "suggestThemes c \<noteq> []"
  by (simp add: suggestThemes_def Let_def split: condition.splits)

lemma suggestThemes_night:
  "ac_timeOfDay c = Night \<Longrightarrow> take 2 (suggestThemes c) = [''sleepy-stars'', ''moon-lullaby'']"
  by (simp add: suggestThemes_def Let_def)

end
