(* ===== verification/Phases.thy ===== *)
theory Phases
  imports JsPrelude Ambient
begin

text \<open>
  The deterministic part of the agent's decisions: the phase machine of a session and the
  arbitration of a proposed thought (\<open>api/src/domain/services/AtomOfThoughtEngine.ts\<close>), and
  the agenda of \<open>api/src/domain/services/SessionPlanner.ts\<close>.  The signals of the phase machine
  are also given as an \<open>inductive\<close> step relation, so that what can be reached with a given
  set of signals is a question about reachability.
\<close>

datatype phase = IDLE | ONBOARDING | STORYTELLING | REFLECTION | WIND_DOWN | ASLEEP

datatype signal = START | STORY_START | STORY_END | SLEEP_DETECTED | WAKE_UP

fun transition :: "phase \<Rightarrow> signal \<Rightarrow> phase" where
  "transition IDLE s = (if s = START then ONBOARDING else IDLE)"
| "transition ONBOARDING s = (if s = STORY_START then STORYTELLING else ONBOARDING)"
| "transition STORYTELLING s =
     (if s = SLEEP_DETECTED then ASLEEP
      else if s = STORY_END then REFLECTION
      else STORYTELLING)"
| "transition REFLECTION s = (if s = SLEEP_DETECTED then ASLEEP else WIND_DOWN)"
| "transition WIND_DOWN s = (if s = SLEEP_DETECTED then ASLEEP else WIND_DOWN)"
| "transition ASLEEP s = (if s = WAKE_UP then IDLE else ASLEEP)"

datatype goal_kind = GRelaxation | GBonding | GEducation | GSafety

fun goal_kind_string :: "goal_kind \<Rightarrow> string" where
  "goal_kind_string GRelaxation = ''RELAXATION''"
| "goal_kind_string GBonding = ''BONDING''"
| "goal_kind_string GEducation = ''EDUCATION''"
| "goal_kind_string GSafety = ''SAFETY''"

record goal =
  goal_id :: string
  goal_kind :: goal_kind
  goal_priority :: int
  goal_description :: string

record arbitration_context =
  ar_timeOfDay :: string
  ar_childAge :: real
  ar_childMood :: string
  ar_activeGoals :: "goal list"
  ar_currentPhase :: phase

record thought_step =
  ts_goals :: "string list"
  ts_conflicts :: "string option"
  ts_tradeOff :: "string option"
  ts_thought :: string
  ts_action :: string
  ts_confidence :: real
  ts_parameters :: "dict option"

definition arb_wind_down :: "arbitration_context \<Rightarrow> thought_step \<Rightarrow> thought_step" where
  \<comment> \<open>Rule 0, first half: no high-energy action while winding down\<close>
  "arb_wind_down c v =
     (if ar_currentPhase c = WIND_DOWN \<and>
         (str_includes (ts_action v) ''ADVENTURE'' \<or>
          prop_of (ts_parameters v) ''energyLevel'' = Some (JStr ''high''))
      then v\<lparr>ts_conflicts := Some ''High energy action conflicts with WIND_DOWN phase.'',
             ts_tradeOff := Some ''Forced low-energy adaptation.'',
             ts_action := ''SOOTHING_TALK'',
             ts_parameters := Some (spread (ts_parameters v) [(''energyLevel'', JStr ''low'')]),
             ts_thought := ''Override: System in Wind Down. High energy actions blocked.''\<rparr>
      else v)"

definition arb_story_focus :: "arbitration_context \<Rightarrow> thought_step \<Rightarrow> thought_step" where
  \<comment> \<open>Rule 0, second half: storytelling keeps relaxation or education among the goals\<close>
  "arb_story_focus c v =
     (if ar_currentPhase c = STORYTELLING \<and>
         ''RELAXATION'' \<notin> set (ts_goals v) \<and> ''EDUCATION'' \<notin> set (ts_goals v)
      then v\<lparr>ts_goals := ts_goals v @ [''RELAXATION'']\<rparr> else v)"

definition arb_safety :: "thought_step \<Rightarrow> thought_step" where
  \<comment> \<open>Rule 1: safety is always considered\<close>
  "arb_safety v =
     (if ''SAFETY'' \<notin> set (ts_goals v) then v\<lparr>ts_goals := ''SAFETY'' # ts_goals v\<rparr> else v)"

definition arb_bedtime :: "arbitration_context \<Rightarrow> thought_step \<Rightarrow> thought_step" where
  \<comment> \<open>Rule 2: late in the day an adventure story becomes a calm one\<close>
  "arb_bedtime c v =
     (if (str_includes (ar_timeOfDay c) ''Night'' \<or> str_includes (ar_timeOfDay c) ''Evening'') \<and>
         ts_action v = ''ADVENTURE_STORY'' \<and> ts_confidence v > 0.5
      then v\<lparr>ts_conflicts :=
               Some ''Exciting adventure conflicts with bedtime relaxation needs.'',
             ts_tradeOff :=
               Some (''Downgraded excitement level to '' @ [CHR 0x22] @ ''Calm Adventure'' @
                     [CHR 0x22] @ '' to ensure sleep quality.''),
             ts_thought :=
               ''Detected late hour ('' @ ar_timeOfDay c @
               ''). Overriding high-energy adventure with soothing relaxation beats.'',
             ts_parameters :=
               Some (spread (ts_parameters v)
                       [(''energyLevel'', JStr ''low''), (''pacing'', JStr ''soothing'')])\<rparr>
      else v)"

definition arb_default_goals :: "arbitration_context \<Rightarrow> thought_step \<Rightarrow> thought_step" where
  \<comment> \<open>Rule 3\<close>
  "arb_default_goals c v =
     (if ts_goals v = [] then v\<lparr>ts_goals := map (goal_kind_string \<circ> goal_kind) (ar_activeGoals c)\<rparr>
      else v)"

definition arbitrate :: "thought_step \<Rightarrow> arbitration_context \<Rightarrow> thought_step" where
  "arbitrate proposed c =
     arb_default_goals c
       (arb_bedtime c (arb_safety (arb_story_focus c (arb_wind_down c proposed))))"

definition getStandardGoals :: "goal list" where
  "getStandardGoals =
     [\<lparr>goal_id = ''g1'', goal_kind = GRelaxation, goal_priority = 1,
       goal_description = ''Ensure the child is calm and ready for sleep.''\<rparr>,
      \<lparr>goal_id = ''g2'', goal_kind = GBonding, goal_priority = 2,
       goal_description = ''Strengthen the parent-child connection through shared ritual.''\<rparr>,
      \<lparr>goal_id = ''g3'', goal_kind = GEducation, goal_priority = 3,
       goal_description = ''Introduce gentle, age-appropriate learning moments.''\<rparr>,
      \<lparr>goal_id = ''g4'', goal_kind = GSafety, goal_priority = 0,
       goal_description =
         ''Protect the child from inappropriate content or overstimulation.''\<rparr>]"

datatype duration = Short | Medium | Long

fun duration_of :: "json option \<Rightarrow> duration option" where
  "duration_of (Some (JStr s)) =
     (if s = ''short'' then Some Short
      else if s = ''medium'' then Some Medium
      else if s = ''long'' then Some Long
      else None)"
| "duration_of _ = None"

record agenda_item =
  ai_id :: string
  ai_phase :: string
  ai_goal :: string
  ai_minutes :: int

definition item :: "string \<Rightarrow> string \<Rightarrow> string \<Rightarrow> int \<Rightarrow> agenda_item" where
  "item i p g m = \<lparr>ai_id = i, ai_phase = p, ai_goal = g, ai_minutes = m\<rparr>"

definition generateAgenda :: "duration option \<Rightarrow> agenda_item list" where
  \<comment> \<open>an absent duration is \<open>medium\<close>\<close>
  "generateAgenda d =
     item ''1'' ''ONBOARDING'' ''Establish rapport and get preferences'' 1 #
     (case d of
        Some Short \<Rightarrow>
          [item ''2'' ''STORYTELLING'' ''Tell a quick, engaging story'' 3,
           item ''3'' ''WIND_DOWN'' ''Quick soothing close'' 1]
      | Some Long \<Rightarrow>
          [item ''2'' ''STORYTELLING'' ''Tell an immersive multi-chapter story'' 8,
           item ''3'' ''REFLECTION'' ''Discuss the moral of the story'' 2,
           item ''4'' ''WIND_DOWN'' ''Deep relaxation exercise'' 3]
      | _ \<Rightarrow>
          [item ''2'' ''STORYTELLING'' ''Tell a balanced story'' 5,
           item ''3'' ''WIND_DOWN'' ''Soothing close'' 2])"

subsection \<open>What the phase machine can reach\<close>

inductive phase_reach :: "signal set \<Rightarrow> phase \<Rightarrow> phase \<Rightarrow> bool" for S where
  here: "phase_reach S p p"
| signalled: "phase_reach S p q \<Longrightarrow> s \<in> S \<Longrightarrow> phase_reach S p (transition q s)"

inductive_cases phase_reachE: "phase_reach S p q"

lemma phase_reach_mono: "phase_reach S p q \<Longrightarrow> S \<subseteq> T \<Longrightarrow> phase_reach T p q"
  by (induction rule: phase_reach.induct) (auto intro: phase_reach.intros)

lemma phase_reach_trans: "phase_reach S q r \<Longrightarrow> phase_reach S p q \<Longrightarrow> phase_reach S p r"
  by (induction rule: phase_reach.induct) (auto intro: phase_reach.intros)

fun run_signals :: "phase \<Rightarrow> signal list \<Rightarrow> phase" where
  "run_signals p [] = p"
| "run_signals p (s # ss) = run_signals (transition p s) ss"

lemma run_signals_append: "run_signals p (xs @ ys) = run_signals (run_signals p xs) ys"
  by (induction xs arbitrary: p) auto

lemma phase_reach_run: "phase_reach S p q \<longleftrightarrow> (\<exists>ss. set ss \<subseteq> S \<and> run_signals p ss = q)"
proof
  assume "phase_reach S p q"
  then show "\<exists>ss. set ss \<subseteq> S \<and> run_signals p ss = q"
  proof (induction rule: phase_reach.induct)
    case (here p)
    have "set [] \<subseteq> S \<and> run_signals p [] = p" by simp
    then show ?case by blast
  next
    case (signalled p q s)
    then obtain ss where "set ss \<subseteq> S" "run_signals p ss = q" by blast
    then have "set (ss @ [s]) \<subseteq> S \<and> run_signals p (ss @ [s]) = transition q s"
      using signalled.hyps by (simp add: run_signals_append)
    then show ?case by blast
  qed
next
  have "set ss \<subseteq> S \<Longrightarrow> phase_reach S p (run_signals p ss)" for ss
    by (induction ss rule: rev_induct) (auto simp: run_signals_append intro: phase_reach.intros)
  moreover assume "\<exists>ss. set ss \<subseteq> S \<and> run_signals p ss = q"
  ultimately show "phase_reach S p q" by auto
qed

lemma asleep_stays: "s \<noteq> WAKE_UP \<Longrightarrow> transition ASLEEP s = ASLEEP"
  by simp

lemma only_sleep_signal_sleeps: "transition p s = ASLEEP \<Longrightarrow> p = ASLEEP \<or> s = SLEEP_DETECTED"
  by (cases p) (auto split: if_splits)

subsection \<open>Arbitration\<close>

lemma arb_goals_mono:
  "set (ts_goals v) \<subseteq> set (ts_goals (arb_wind_down c v))"
  "set (ts_goals v) \<subseteq> set (ts_goals (arb_story_focus c v))"
  "set (ts_goals v) \<subseteq> set (ts_goals (arb_safety v))"
  "set (ts_goals v) \<subseteq> set (ts_goals (arb_bedtime c v))"
  "set (ts_goals v) \<subseteq> set (ts_goals (arb_default_goals c v))"
  by (auto simp: arb_wind_down_def arb_story_focus_def arb_safety_def arb_bedtime_def
      arb_default_goals_def)

lemma arb_safety_goals: "''SAFETY'' \<in> set (ts_goals (arb_safety v))"
  by (simp add: arb_safety_def)

lemma arb_default_goals_id: "ts_goals v \<noteq> [] \<Longrightarrow> arb_default_goals c v = v"
  by (simp add: arb_default_goals_def)

lemma arb_bedtime_goals [simp]: "ts_goals (arb_bedtime c v) = ts_goals v"
  by (simp add: arb_bedtime_def)

lemma arb_action_confidence [simp]:
  "ts_action (arb_story_focus c v) = ts_action v"
  "ts_action (arb_safety v) = ts_action v"
  "ts_action (arb_bedtime c v) = ts_action v"
  "ts_action (arb_default_goals c v) = ts_action v"
  "ts_confidence (arb_wind_down c v) = ts_confidence v"
  "ts_confidence (arb_story_focus c v) = ts_confidence v"
  "ts_confidence (arb_safety v) = ts_confidence v"
  "ts_confidence (arb_bedtime c v) = ts_confidence v"
  "ts_confidence (arb_default_goals c v) = ts_confidence v"
  by (simp_all add: arb_wind_down_def arb_story_focus_def arb_safety_def arb_bedtime_def
      arb_default_goals_def)

lemma arb_parameters [simp]:
  "ts_parameters (arb_story_focus c v) = ts_parameters v"
  "ts_parameters (arb_safety v) = ts_parameters v"
  "ts_parameters (arb_default_goals c v) = ts_parameters v"
  by (simp_all add: arb_story_focus_def arb_safety_def arb_default_goals_def)

text \<open>Rule 3 never applies, because Rule 1 leaves a goal in the list.\<close>

lemma arbitrate_rule3_idle:
  "arbitrate proposed c = arb_bedtime c (arb_safety (arb_story_focus c (arb_wind_down c proposed)))"
proof -
  have "ts_goals (arb_safety (arb_story_focus c (arb_wind_down c proposed))) \<noteq> []"
    using arb_safety_goals [of "arb_story_focus c (arb_wind_down c proposed)"] by auto
  then show ?thesis by (simp add: arbitrate_def arb_default_goals_id)
qed

lemma arbitrate_safety: "''SAFETY'' \<in> set (ts_goals (arbitrate proposed c))"
  using arb_safety_goals [of "arb_story_focus c (arb_wind_down c proposed)"]
  by (simp add: arbitrate_rule3_idle)

lemma arbitrate_keeps_goals: "set (ts_goals proposed) \<subseteq> set (ts_goals (arbitrate proposed c))"
  using arb_goals_mono by (simp add: arbitrate_rule3_idle) (meson subset_trans)

lemma arbitrate_confidence: "ts_confidence (arbitrate proposed c) = ts_confidence proposed"
  by (simp add: arbitrate_def)

lemma arbitrate_action:
  "ts_action (arbitrate proposed c) = ts_action proposed \<or>
   ts_action (arbitrate proposed c) = ''SOOTHING_TALK''"
  by (simp add: arbitrate_def) (simp add: arb_wind_down_def)

end
