(* ===== verification/SessionState.thy ===== *)
theory SessionState
  imports JsPrelude Goals Phases
begin

text \<open>
  The state of a bedtime session and the contract of its stores
  (\<open>api/src/application/ports/SessionStatePort.ts\<close>).  A \<open>snap\<close> is a session without its
  history; \<open>session\<close> adds the history.  Both are parametrised by the type of the
  \<open>context\<close> field: a dictionary where a session is a value, an address where it is an object
  of the heap (theory \<open>SessionMemory\<close>).

  The locale \<open>session_store\<close> is the part of the contract the agent relies on: what was stored
  under an identifier is read back, other sessions are not touched.  \<open>versioned_store\<close> extends
  it by the history: a write appends the state it overwrites, the history is bounded, and a
  rollback returns to the recorded state.  The stores of \<open>SessionRedis\<close> and
  \<open>SessionMemory\<close> interpret them.
\<close>

datatype intent = LISTEN | INTERRUPT | IDLE_INTENT

record 'c snap =
  ss_sessionId :: string
  ss_userId :: string
  ss_phase :: phase
  ss_activeIntent :: intent
  ss_emotionalTone :: real
  ss_activeGoal :: "goal_props option"
  ss_activeGoals :: "goal_props list option"
  ss_sessionStartTime :: "millis option"
  ss_lastSuggestedTheme :: "string option"
  ss_lastMomentTimestamp :: "millis option"
  ss_context :: 'c
  ss_updatedAt :: millis

record 'c session = "'c snap" +
  ss_history :: "dict snap list option"

type_synonym snapshot = "dict snap"

record session_patch =
  \<comment> \<open>\<open>None\<close>: the property is absent; \<open>Some v\<close>: present, for an optional property possibly with
      the value \<open>undefined\<close> (\<open>Some None\<close>)\<close>
  pt_phase :: "phase option"
  pt_activeIntent :: "intent option"
  pt_emotionalTone :: "real option"
  pt_activeGoal :: "goal_props option option"
  pt_activeGoals :: "goal_props list option option"
  pt_sessionStartTime :: "millis option option"
  pt_lastSuggestedTheme :: "string option option"
  pt_lastMomentTimestamp :: "millis option option"
  pt_context :: "dict option"

definition empty_patch :: session_patch where
  "empty_patch =
     \<lparr>pt_phase = None, pt_activeIntent = None, pt_emotionalTone = None, pt_activeGoal = None,
      pt_activeGoals = None, pt_sessionStartTime = None, pt_lastSuggestedTheme = None,
      pt_lastMomentTimestamp = None, pt_context = None\<rparr>"

fun upd :: "'a option \<Rightarrow> 'a \<Rightarrow> 'a" where
  "upd None x = x"
| "upd (Some y) x = y"

definition apply_patch :: "session_patch \<Rightarrow> ('c, 'z) snap_scheme \<Rightarrow> ('c, 'z) snap_scheme" where
  \<comment> \<open>\<open>{ ...current, ...partial }\<close> on all fields but \<open>context\<close>\<close>
  "apply_patch p s =
     s\<lparr>ss_phase := upd (pt_phase p) (ss_phase s),
       ss_activeIntent := upd (pt_activeIntent p) (ss_activeIntent s),
       ss_emotionalTone := upd (pt_emotionalTone p) (ss_emotionalTone s),
       ss_activeGoal := upd (pt_activeGoal p) (ss_activeGoal s),
       ss_activeGoals := upd (pt_activeGoals p) (ss_activeGoals s),
       ss_sessionStartTime := upd (pt_sessionStartTime p) (ss_sessionStartTime s),
       ss_lastSuggestedTheme := upd (pt_lastSuggestedTheme p) (ss_lastSuggestedTheme s),
       ss_lastMomentTimestamp := upd (pt_lastMomentTimestamp p) (ss_lastMomentTimestamp s)\<rparr>"

text \<open>The core of a state: all that a caller wrote, without the store's time stamp.\<close>

definition core :: "(dict, 'z) snap_scheme \<Rightarrow> snapshot" where
  "core s = (snap.truncate s)\<lparr>ss_updatedAt := 0\<rparr>"

definition history :: "'c session \<Rightarrow> snapshot list" where
  "history s = (case ss_history s of None \<Rightarrow> [] | Some h \<Rightarrow> h)"

definition same_core :: "(dict, 'y) snap_scheme \<Rightarrow> (dict, 'z) snap_scheme \<Rightarrow> bool" where
  "same_core s t \<longleftrightarrow> core s = core t"

lemma core_updatedAt [simp]: "core (s\<lparr>ss_updatedAt := t\<rparr>) = core s"
  by (simp add: core_def snap.truncate_def)

lemma core_history [simp]: "core (s\<lparr>ss_history := h\<rparr>) = core s"
  by (simp add: core_def snap.truncate_def)

lemma core_truncate [simp]: "core (snap.truncate s) = core s"
  by (simp add: core_def snap.truncate_def)

lemma core_extend [simp]: "core (snap.extend s x) = core (s :: snapshot)"
  by (simp add: core_def snap.truncate_def snap.extend_def)

lemma core_sel [simp]:
  "ss_sessionId (core s) = ss_sessionId s" "ss_userId (core s) = ss_userId s"
  "ss_phase (core s) = ss_phase s" "ss_context (core s) = ss_context s"
  "ss_activeGoal (core s) = ss_activeGoal s" "ss_activeGoals (core s) = ss_activeGoals s"
  "ss_lastSuggestedTheme (core s) = ss_lastSuggestedTheme s"
  "ss_sessionStartTime (core s) = ss_sessionStartTime s"
  "ss_activeIntent (core s) = ss_activeIntent s"
  "ss_emotionalTone (core s) = ss_emotionalTone s"
  "ss_lastMomentTimestamp (core s) = ss_lastMomentTimestamp s"
  by (simp_all add: core_def snap.truncate_def)

lemma core_eqD:
  assumes "core s = core t"
  shows "ss_sessionId s = ss_sessionId t" "ss_userId s = ss_userId t" "ss_phase s = ss_phase t"
    "ss_context s = ss_context t" "ss_activeGoal s = ss_activeGoal t"
    "ss_activeGoals s = ss_activeGoals t" "ss_lastSuggestedTheme s = ss_lastSuggestedTheme t"
    "ss_sessionStartTime s = ss_sessionStartTime t"
  using assms by (metis core_sel)+

lemma history_simps [simp]:
  "history (s\<lparr>ss_history := Some h\<rparr>) = h"
  "history (s\<lparr>ss_history := None\<rparr>) = []"
  "history (s\<lparr>ss_updatedAt := t\<rparr>) = history s"
  by (simp_all add: history_def)

lemma history_extend [simp]: "history (snap.extend s \<lparr>ss_history = h\<rparr>) = (case h of None \<Rightarrow> [] | Some x \<Rightarrow> x)"
  by (simp add: history_def snap.extend_def)

lemma apply_empty_patch [simp]: "apply_patch empty_patch s = s"
  by (simp add: apply_patch_def empty_patch_def)

subsection \<open>The contract\<close>

locale session_store =
  fixes get :: "'s \<Rightarrow> millis \<Rightarrow> string \<Rightarrow> dict session option"
    and put :: "'s \<Rightarrow> millis \<Rightarrow> string \<Rightarrow> dict session \<Rightarrow> 's"
    and ok :: "'s \<Rightarrow> bool"
    and idok :: "string \<Rightarrow> bool"
    and ttl :: int
  assumes ttl_pos: "0 < ttl"
    and put_ok: "\<lbrakk>ok s; idok sid; idok (ss_userId v)\<rbrakk> \<Longrightarrow> ok (put s now sid v)"
    and get_put_same: "\<lbrakk>ok s; idok sid; idok (ss_userId v); now \<le> t; t < now + ttl\<rbrakk>
      \<Longrightarrow> \<exists>w. get (put s now sid v) t sid = Some w \<and> core w = core v"
    and get_put_other: "\<lbrakk>ok s; idok sid; idok sid'; idok (ss_userId v); sid' \<noteq> sid\<rbrakk>
      \<Longrightarrow> get (put s now sid v) t sid' = get s t sid'"
    and get_earlier: "\<lbrakk>ok s; idok sid; t \<le> t'; get s t' sid = Some v\<rbrakk> \<Longrightarrow> get s t sid = Some v"
    and get_user: "\<lbrakk>ok s; idok sid; get s t sid = Some v\<rbrakk> \<Longrightarrow> idok (ss_userId v)"
begin

fun puts :: "'s \<Rightarrow> (millis \<times> string \<times> dict session) list \<Rightarrow> 's" where
  "puts s [] = s"
| "puts s ((now, sid, v) # ws) = puts (put s now sid v) ws"

definition writes_ok :: "(millis \<times> string \<times> dict session) list \<Rightarrow> bool" where
  "writes_ok ws \<longleftrightarrow> (\<forall>(now, sid, v) \<in> set ws. idok sid \<and> idok (ss_userId v))"

lemma writes_ok_Cons [simp]:
  "writes_ok ((now, sid, v) # ws) \<longleftrightarrow> idok sid \<and> idok (ss_userId v) \<and> writes_ok ws"
  by (auto simp: writes_ok_def)

lemma puts_ok: "ok s \<Longrightarrow> writes_ok ws \<Longrightarrow> ok (puts s ws)"
  by (induction s ws rule: puts.induct) (auto intro: put_ok)

lemma puts_other:
  "\<lbrakk>ok s; writes_ok ws; idok sid; \<forall>(now, sid', v) \<in> set ws. sid' \<noteq> sid\<rbrakk>
   \<Longrightarrow> get (puts s ws) t sid = get s t sid"
proof (induction s ws rule: puts.induct)
  case (1 s)
  then show ?case by simp
next
  case (2 s now sid' v ws)
  then have "get (puts (put s now sid' v) ws) t sid = get (put s now sid' v) t sid"
    by (auto intro: put_ok)
  also have "\<dots> = get s t sid" using 2 by (auto intro!: get_put_other)
  finally show ?case by simp
qed

text \<open>The last write to a session is what is read, whatever is written to the others.\<close>

lemma last_write_wins:
  assumes "ok s" "idok sid" "idok (ss_userId v)" "writes_ok ws" "now \<le> t" "t < now + ttl"
    and "\<forall>(now', sid', v') \<in> set ws. sid' \<noteq> sid"
  shows "\<exists>w. get (puts s ((now, sid, v) # ws)) t sid = Some w \<and> core w = core v"
proof -
  have "get (puts (put s now sid v) ws) t sid = get (put s now sid v) t sid"
    using assms by (intro puts_other) (auto intro: put_ok)
  then show ?thesis using get_put_same [of s sid v now t] assms by simp
qed

end

locale versioned_store = session_store +
  fixes rollback :: "'a \<Rightarrow> millis \<Rightarrow> string \<Rightarrow> int \<Rightarrow> 'a"
    and bounded :: "'a \<Rightarrow> bool"
  assumes history_put: "\<lbrakk>ok s; idok sid; idok (ss_userId v); bounded s; now \<le> t; t < now + ttl;
        get s now sid = Some w; ss_userId w = ss_userId v\<rbrakk>
      \<Longrightarrow> \<exists>w'. get (put s now sid v) t sid = Some w' \<and>
              history w' = push_capped 10 (history w) (snap.truncate w)"
    and bounded_put: "\<lbrakk>ok s; bounded s; length (history v) \<le> 10\<rbrakk> \<Longrightarrow> bounded (put s now sid v)"
    and bounded_length: "\<lbrakk>bounded s; get s t sid = Some w\<rbrakk> \<Longrightarrow> length (history w) \<le> 10"
    and rollback_one: "\<lbrakk>ok s; get s now sid = Some w; history w = hs @ [h]; idok sid;
        idok (ss_userId w); ss_userId h = ss_userId w\<rbrakk>
      \<Longrightarrow> \<exists>w'. get (rollback s now sid 1) now sid = Some w' \<and> core w' = core h \<and> history w' = hs"
begin

text \<open>A write can be undone: rolling back one step returns to the state that was there.\<close>

lemma rollback_undoes_put:
  assumes "ok s" "idok sid" "idok (ss_userId v)" "bounded s"
    and "get s now sid = Some w" "ss_userId w = ss_userId v"
    and "now \<le> t" "t < now + ttl"
  shows "\<exists>w'. get (rollback (put s now sid v) t sid 1) t sid = Some w' \<and> core w' = core w"
proof -
  obtain w' where w': "get (put s now sid v) t sid = Some w'"
    and h: "history w' = push_capped 10 (history w) (snap.truncate w)"
    using history_put [OF assms(1,2,3,4,7,8,5,6)] by blast
  obtain w'' where "get (put s now sid v) t sid = Some w''" "core w'' = core v"
    using get_put_same [OF assms(1,2,3,7,8)] by blast
  with w' have "core w' = core v" by simp
  then have u: "ss_userId w' = ss_userId v" by (rule core_eqD)
  define hs where "hs = butlast (history w')"
  have ne: "history w' \<noteq> []" using h by (simp add: push_capped_def)
  have l: "last (history w') = snap.truncate w"
    using h last_push_capped [of 10 "history w"] by simp
  have "history w' = hs @ [snap.truncate w]"
    using ne l unfolding hs_def by (metis append_butlast_last_id)
  moreover have "ss_userId (snap.truncate w) = ss_userId w'"
    using u assms(6) by (simp add: snap.truncate_def)
  moreover have "ok (put s now sid v)" using assms by (intro put_ok)
  ultimately show ?thesis
    using rollback_one [of "put s now sid v" t sid w' hs "snap.truncate w"] w' u assms by auto
qed

end

end
