(* ===== verification/SessionRedis.thy ===== *)
theory SessionRedis
  imports SessionState
begin

text \<open>
  The Redis session store (\<open>api/src/infrastructure/adapters/RedisSessionState.ts\<close>) with its
  three Lua scripts.  The database holds, under their string keys, the session records and the
  lookup entries (session identifier to user) with their expiry times, and the per-user index
  sets.  A record is kept decoded: the JSON text that the scripts decode and encode is not
  represented, nor is the representation of an empty Lua table.  \<open>rd_up = False\<close> is a
  connection on which every command fails; \<open>get\<close> and \<open>delete\<close> then swallow the
  error, the other operations throw.
\<close>

record redis_db =
  rd_sessions :: "string \<rightharpoonup> (dict session \<times> millis)"
  rd_lookup :: "string \<rightharpoonup> (string \<times> millis)"
  rd_index :: "string \<Rightarrow> string set"
  rd_up :: bool

datatype store_error = RedisError | SessionNotFound string

definition ttl_ms :: int where
  \<comment> \<open>\<open>TTL_SECONDS = 86400\<close>\<close>
  "ttl_ms = 86400 * 1000"

definition max_history :: nat where
  "max_history = 10"

definition live :: "('k \<rightharpoonup> ('v \<times> millis)) \<Rightarrow> millis \<Rightarrow> 'k \<Rightarrow> 'v option" where
  \<comment> \<open>\<open>GET\<close> on an entry with an expiry time\<close>
  "live m now k = (case m k of Some (v, e) \<Rightarrow> if now < e then Some v else None | None \<Rightarrow> None)"

definition legacy_key :: "string \<Rightarrow> string" where
  "legacy_key sid = ''dreamweaver:session:'' @ sid"

definition strict_key :: "string \<Rightarrow> string \<Rightarrow> string" where
  "strict_key uid sid = ''dreamweaver:session:'' @ uid @ '':'' @ sid"

definition user_index_key :: "string \<Rightarrow> string" where
  "user_index_key uid = ''dreamweaver:user:'' @ uid @ '':sessions''"

definition lookup_key :: "string \<Rightarrow> string" where
  "lookup_key sid = ''dreamweaver:lookup:'' @ sid"

definition resolveKey :: "redis_db \<Rightarrow> millis \<Rightarrow> string \<Rightarrow> string" where
  "resolveKey db now sid =
     (case live (rd_lookup db) now (lookup_key sid) of
        Some uid \<Rightarrow> if uid = [] then legacy_key sid else strict_key uid sid
      | None \<Rightarrow> legacy_key sid)"

definition lua_push :: "'a list \<Rightarrow> 'a \<Rightarrow> 'a list" where
  \<comment> \<open>\<open>table.insert\<close>, then \<open>table.remove(history, 1)\<close> above the maximum\<close>
  "lua_push h x =
     (let h' = h @ [x] in if length h' > max_history then tl h' else h')"

definition update_script ::
    "redis_db \<Rightarrow> millis \<Rightarrow> string \<Rightarrow> string \<Rightarrow> string \<Rightarrow> dict session \<Rightarrow> string \<Rightarrow> string \<Rightarrow> redis_db" where
  \<comment> \<open>\<open>UPDATE_SESSION_SCRIPT\<close>; the new state comes without a history\<close>
  "update_script db now sessionKey userIndexKey lookupKey newState sid uid =
     (let final =
            (case live (rd_sessions db) now sessionKey of
               None \<Rightarrow> newState
             | Some cur \<Rightarrow>
                 newState\<lparr>ss_history := Some (lua_push (history cur) (snap.truncate cur))\<rparr>)
      in db\<lparr>rd_sessions := (rd_sessions db)(sessionKey \<mapsto> (final, now + ttl_ms)),
            rd_index := (rd_index db)(userIndexKey := insert sid (rd_index db userIndexKey)),
            rd_lookup := (rd_lookup db)(lookupKey \<mapsto> (uid, now + ttl_ms))\<rparr>)"

definition json_patch :: "session_patch \<Rightarrow> session_patch" where
  \<comment> \<open>\<open>JSON.stringify\<close> drops the properties whose value is \<open>undefined\<close>\<close>
  "json_patch p =
     p\<lparr>pt_activeGoal := (if pt_activeGoal p = Some None then None else pt_activeGoal p),
       pt_activeGoals := (if pt_activeGoals p = Some None then None else pt_activeGoals p),
       pt_sessionStartTime :=
         (if pt_sessionStartTime p = Some None then None else pt_sessionStartTime p),
       pt_lastSuggestedTheme :=
         (if pt_lastSuggestedTheme p = Some None then None else pt_lastSuggestedTheme p),
       pt_lastMomentTimestamp :=
         (if pt_lastMomentTimestamp p = Some None then None else pt_lastMomentTimestamp p)\<rparr>"

definition patch_script ::
    "redis_db \<Rightarrow> millis \<Rightarrow> string \<Rightarrow> session_patch \<Rightarrow> millis \<Rightarrow> redis_db option" where
  \<comment> \<open>\<open>PATCH_SESSION_SCRIPT\<close>; \<open>None\<close> is the return value 0; \<open>upd_at\<close> is the
      \<open>updatedAt\<close> of the partial state\<close>
  "patch_script db now sessionKey partial upd_at =
     (case live (rd_sessions db) now sessionKey of
        None \<Rightarrow> None
      | Some cur \<Rightarrow>
          (let h = lua_push (history cur) (snap.truncate cur);
               merged = (apply_patch partial cur)
                 \<lparr>ss_context := upd (pt_context partial) (ss_context cur),
                  ss_history := Some h, ss_updatedAt := upd_at\<rparr>
           in Some (db\<lparr>rd_sessions := (rd_sessions db)(sessionKey \<mapsto> (merged, now + ttl_ms))\<rparr>)))"

fun rollback_loop :: "nat \<Rightarrow> 'a list \<Rightarrow> 'a option \<Rightarrow> 'a option \<times> 'a list" where
  \<comment> \<open>the \<open>for\<close> loop of \<open>ROLLBACK_SESSION_SCRIPT\<close>: take the last snapshot off,
      stop when the history is used up\<close>
  "rollback_loop 0 h target = (target, h)"
| "rollback_loop (Suc n) h target =
     (if h = [] then (None, h)
      else if butlast h = [] then (Some (last h), [])
      else rollback_loop n (butlast h) (Some (last h)))"

definition rollback_script :: "redis_db \<Rightarrow> millis \<Rightarrow> string \<Rightarrow> int \<Rightarrow> redis_db" where
  "rollback_script db now sessionKey steps =
     (case live (rd_sessions db) now sessionKey of
        None \<Rightarrow> db
      | Some cur \<Rightarrow>
          (if history cur = [] then db
           else
             (case rollback_loop (nat steps) (history cur) None of
                (None, _) \<Rightarrow> db
              | (Some target, h) \<Rightarrow>
                  db\<lparr>rd_sessions := (rd_sessions db)(sessionKey \<mapsto>
                       (snap.extend (target\<lparr>ss_updatedAt := ss_updatedAt cur\<rparr>)
                          \<lparr>ss_history = Some h\<rparr>, now + ttl_ms))\<rparr>)))"

definition redis_get :: "redis_db \<Rightarrow> millis \<Rightarrow> string \<Rightarrow> dict session option" where
  "redis_get db now sid =
     (if rd_up db then live (rd_sessions db) now (resolveKey db now sid) else None)"

definition redis_set ::
    "redis_db \<Rightarrow> millis \<Rightarrow> string \<Rightarrow> dict session \<Rightarrow> store_error + redis_db" where
  "redis_set db now sid state =
     (if rd_up db
      then Inr (update_script db now (strict_key (ss_userId state) sid)
             (user_index_key (ss_userId state)) (lookup_key sid)
             (state\<lparr>ss_history := None, ss_updatedAt := now\<rparr>) sid (ss_userId state))
      else Inl RedisError)"

definition redis_patch ::
    "redis_db \<Rightarrow> millis \<Rightarrow> string \<Rightarrow> session_patch \<Rightarrow> store_error + redis_db" where
  "redis_patch db now sid partial =
     (if \<not> rd_up db then Inl RedisError
      else
        (case patch_script db now (resolveKey db now sid) (json_patch partial) now of
           None \<Rightarrow> Inl (SessionNotFound sid)
         | Some db' \<Rightarrow> Inr db'))"

definition redis_rollback :: "redis_db \<Rightarrow> millis \<Rightarrow> string \<Rightarrow> int \<Rightarrow> store_error + redis_db" where
  "redis_rollback db now sid steps =
     (if \<not> rd_up db then Inl RedisError
      else Inr (rollback_script db now (resolveKey db now sid) steps))"

definition redis_delete :: "redis_db \<Rightarrow> millis \<Rightarrow> string \<Rightarrow> redis_db" where
  "redis_delete db now sid =
     (if \<not> rd_up db then db
      else
        (let key = resolveKey db now sid;
             parts = split_char CHR '':'' key;
             db' = db\<lparr>rd_sessions := (rd_sessions db)(key := None),
                      rd_lookup := (rd_lookup db)(lookup_key sid := None)\<rparr>
         in if length parts = 4 \<and> parts ! 2 \<noteq> []
            then db'\<lparr>rd_index := (rd_index db)(user_index_key (parts ! 2) :=
                       rd_index db (user_index_key (parts ! 2)) - {sid})\<rparr>
            else db'))"

subsection \<open>Keys\<close>

definition plain_id :: "string \<Rightarrow> bool" where
  \<comment> \<open>an identifier without the separator, as the UUIDs of users and sessions are\<close>
  "plain_id s \<longleftrightarrow> s \<noteq> [] \<and> CHR '':'' \<notin> set s"

lemma session_prefix:
  "''dreamweaver:session:'' @ x = ''dreamweaver'' @ CHR '':'' # ''session'' @ CHR '':'' # x"
  by simp

lemma split_session_prefix:
  "split_char CHR '':'' (''dreamweaver:session:'' @ x) =
     ''dreamweaver'' # ''session'' # split_char CHR '':'' x"
  by (simp only: session_prefix split_char_append [of "CHR '':''" "''dreamweaver''"]
      split_char_append [of "CHR '':''" "''session''"] list.set insert_iff empty_iff char.inject
      simp_thms)

lemma split_strict_key:
  assumes "plain_id uid" "plain_id sid"
  shows "split_char CHR '':'' (strict_key uid sid) = [''dreamweaver'', ''session'', uid, sid]"
proof -
  have "split_char CHR '':'' (uid @ '':'' @ sid) = [uid, sid]"
    using assms split_char_append [of "CHR '':''" uid sid] split_char_no_sep [of "CHR '':''" sid]
    by (simp add: plain_id_def)
  then show ?thesis by (simp only: strict_key_def split_session_prefix)
qed

lemma split_legacy_key:
  assumes "plain_id sid"
  shows "split_char CHR '':'' (legacy_key sid) = [''dreamweaver'', ''session'', sid]"
  using assms split_char_no_sep [of "CHR '':''" sid]
  by (simp only: legacy_key_def split_session_prefix plain_id_def simp_thms)

lemma strict_key_inj:
  assumes "plain_id u" "plain_id s" "plain_id u'" "plain_id s'" "strict_key u s = strict_key u' s'"
  shows "u = u' \<and> s = s'"
proof -
  have "[''dreamweaver'', ''session'', u, s] = [''dreamweaver'', ''session'', u', s']"
    using split_strict_key [OF assms(1,2)] split_strict_key [OF assms(3,4)]
    by (simp only: assms(5))
  then show ?thesis by (simp only: list.inject)
qed

lemma strict_legacy_disj:
  assumes "plain_id u" "plain_id s" "plain_id s'"
  shows "strict_key u s \<noteq> legacy_key s'"
proof
  assume "strict_key u s = legacy_key s'"
  then have "[''dreamweaver'', ''session'', u, s] = [''dreamweaver'', ''session'', s']"
    using split_strict_key [OF assms(1,2)] split_legacy_key [OF assms(3)] by (simp only:)
  then show False by simp
qed

lemma lookup_key_inj [simp]: "lookup_key s = lookup_key s' \<longleftrightarrow> s = s'"
  by (simp add: lookup_key_def)

lemma live_upd [simp]:
  "live (m(k \<mapsto> (v, e))) now k' = (if k' = k then if now < e then Some v else None
                                 else live m now k')"
  by (simp add: live_def)

lemma live_del [simp]: "live (m(k := None)) now k' = (if k' = k then None else live m now k')"
  by (simp add: live_def)

lemma live_Some: "live m now k = Some v \<longleftrightarrow> (\<exists>e. m k = Some (v, e) \<and> now < e)"
  by (auto simp: live_def split: option.splits if_splits)

subsection \<open>Histories\<close>

lemma lua_push_capped: "length h \<le> max_history \<Longrightarrow> lua_push h x = push_capped max_history h x"
proof (cases "length h < max_history")
  case True
  then show ?thesis by (simp add: lua_push_def Let_def push_capped_small)
next
  case False
  moreover assume "length h \<le> max_history"
  ultimately have "length h = max_history" by simp
  then show ?thesis
    by (cases h) (auto simp: lua_push_def Let_def push_capped_full max_history_def)
qed

lemma length_lua_push: "length h \<le> max_history \<Longrightarrow> length (lua_push h x) \<le> max_history"
  by (simp add: lua_push_def Let_def)

lemma rollback_loop_take:
  "\<lbrakk>0 < n; h \<noteq> []\<rbrakk> \<Longrightarrow>
   rollback_loop n h t = (Some (h ! (length h - min n (length h))), take (length h - min n (length h)) h)"
proof (induction n h t rule: rollback_loop.induct)
  case (1 h t)
  then show ?case by simp
next
  case (2 n h t)
  show ?case
  proof (cases "butlast h = [] \<or> n = 0")
    case True
    then show ?thesis
    proof
      assume b: "butlast h = []"
      then have "length h = 1" using 2(3)
        by (metis One_nat_def diff_is_0_eq length_0_conv length_butlast length_greater_0_conv
            less_one nat_less_le not_less)
      then obtain x where "h = [x]" by (auto simp: length_Suc_conv)
      then show ?thesis by simp
    next
      assume "n = 0"
      then show ?thesis using 2(3)
        by (auto simp: last_conv_nth butlast_conv_take min_def Suc_le_eq)
    qed
  next
    case False
    then have len: "length (butlast h) = length h - 1" "1 < length h"
      by (auto simp: butlast_conv_take)
    have IH: "rollback_loop n (butlast h) (Some (last h)) =
        (Some (butlast h ! (length (butlast h) - min n (length (butlast h)))),
         take (length (butlast h) - min n (length (butlast h))) (butlast h))"
      using 2 False by auto
    have i: "length (butlast h) - min n (length (butlast h)) = length h - min (Suc n) (length h)"
      using len by auto
    have lt: "length h - min (Suc n) (length h) < length h - 1"
      using len False by auto
    show ?thesis
      using False IH 2(3) i lt
      by (simp add: nth_butlast butlast_conv_take take_take min_def del: length_butlast)
  qed
qed

subsection \<open>The store fulfils the contract\<close>

definition redis_put :: "redis_db \<Rightarrow> millis \<Rightarrow> string \<Rightarrow> dict session \<Rightarrow> redis_db" where
  \<comment> \<open>the database after \<open>set\<close>, whether it threw or not\<close>
  "redis_put db now sid v = (case redis_set db now sid v of Inl _ \<Rightarrow> db | Inr db' \<Rightarrow> db')"

definition redis_back :: "redis_db \<Rightarrow> millis \<Rightarrow> string \<Rightarrow> int \<Rightarrow> redis_db" where
  "redis_back db now sid n = (case redis_rollback db now sid n of Inl _ \<Rightarrow> db | Inr db' \<Rightarrow> db')"

definition redis_ok :: "redis_db \<Rightarrow> bool" where
  "redis_ok db \<longleftrightarrow> rd_up db \<and>
     (\<forall>k u e. rd_lookup db k = Some (u, e) \<longrightarrow> plain_id u) \<and>
     (\<forall>u sid w e. plain_id u \<longrightarrow> plain_id sid \<longrightarrow> rd_sessions db (strict_key u sid) = Some (w, e)
        \<longrightarrow> ss_userId w = u) \<and>
     (\<forall>sid. plain_id sid \<longrightarrow> rd_sessions db (legacy_key sid) = None)"

definition redis_bounded :: "redis_db \<Rightarrow> bool" where
  "redis_bounded db \<longleftrightarrow>
     (\<forall>k w e. rd_sessions db k = Some (w, e) \<longrightarrow> length (history w) \<le> max_history)"

lemma redis_put_up: "rd_up db \<Longrightarrow> redis_put db now sid v =
    update_script db now (strict_key (ss_userId v) sid) (user_index_key (ss_userId v))
      (lookup_key sid) (v\<lparr>ss_history := None, ss_updatedAt := now\<rparr>) sid (ss_userId v)"
  by (simp add: redis_put_def redis_set_def)

definition update_result :: "redis_db \<Rightarrow> millis \<Rightarrow> string \<Rightarrow> dict session \<Rightarrow> dict session" where
  "update_result db now key v =
     (case live (rd_sessions db) now key of
        None \<Rightarrow> v
      | Some cur \<Rightarrow> v\<lparr>ss_history := Some (lua_push (history cur) (snap.truncate cur))\<rparr>)"

lemma update_script_simps [simp]:
  "rd_sessions (update_script db now k ik lk v sid uid) =
     (rd_sessions db)(k \<mapsto> (update_result db now k v, now + ttl_ms))"
  "rd_lookup (update_script db now k ik lk v sid uid) = (rd_lookup db)(lk \<mapsto> (uid, now + ttl_ms))"
  "rd_up (update_script db now k ik lk v sid uid) = rd_up db"
  "rd_index (update_script db now k ik lk v sid uid) =
     (rd_index db)(ik := insert sid (rd_index db ik))"
  by (simp_all add: update_script_def Let_def update_result_def)

lemma update_result_core [simp]: "core (update_result db now k v) = core v"
  by (simp add: update_result_def split: option.split)

lemma update_result_user [simp]: "ss_userId (update_result db now k v) = ss_userId v"
  by (simp add: update_result_def split: option.split)

lemma redis_okD:
  assumes "redis_ok db"
  shows "rd_up db"
    "live (rd_lookup db) now k = Some u \<Longrightarrow> plain_id u"
    "rd_lookup db k = Some (u, e) \<Longrightarrow> plain_id u"
    "\<lbrakk>plain_id u; plain_id sid; rd_sessions db (strict_key u sid) = Some (w, e)\<rbrakk> \<Longrightarrow> ss_userId w = u"
    "plain_id sid \<Longrightarrow> rd_sessions db (legacy_key sid) = None"
  using assms unfolding redis_ok_def live_Some by blast+

lemma redis_ok_put [inv_intros]:
  assumes "redis_ok db" "plain_id sid" "plain_id (ss_userId v)"
  shows "redis_ok (redis_put db now sid v)"
proof -
  have up: "rd_up db" by (rule redis_okD(1) [OF assms(1)])
  let ?k = "strict_key (ss_userId v) sid" and ?db = "redis_put db now sid v"
  have "plain_id u" if "rd_lookup ?db k = Some (u, e)" for k u e
    using that redis_okD(3) [OF assms(1)] assms(3)
    by (cases "k = lookup_key sid") (auto simp: redis_put_up [OF up])
  moreover have "ss_userId w = u"
    if "plain_id u" "plain_id sid'" "rd_sessions ?db (strict_key u sid') = Some (w, e)"
    for u sid' w e
  proof (cases "strict_key u sid' = ?k")
    case True
    then have "u = ss_userId v" using strict_key_inj [OF that(1,2) assms(3,2)] by blast
    then show ?thesis using that(3) True by (auto simp: redis_put_up [OF up])
  next
    case False
    then have "rd_sessions db (strict_key u sid') = Some (w, e)"
      using that(3) by (simp add: redis_put_up [OF up])
    then show ?thesis by (rule redis_okD(4) [OF assms(1) that(1,2)])
  qed
  moreover have "rd_sessions ?db (legacy_key sid') = None" if "plain_id sid'" for sid'
  proof -
    have "legacy_key sid' \<noteq> ?k" using strict_legacy_disj [OF assms(3,2) that] by metis
    moreover have "rd_sessions db (legacy_key sid') = None"
      by (rule redis_okD(5) [OF assms(1) that])
    ultimately show ?thesis by (simp add: redis_put_up [OF up])
  qed
  moreover have "rd_up ?db" using up by (simp add: redis_put_up)
  ultimately show ?thesis unfolding redis_ok_def by blast
qed

lemma redis_get_put_same:
  assumes "redis_ok db" "plain_id sid" "plain_id (ss_userId v)" "now \<le> t" "t < now + ttl_ms"
  shows "redis_get (redis_put db now sid v) t sid =
    Some (update_result db now (strict_key (ss_userId v) sid)
            (v\<lparr>ss_history := None, ss_updatedAt := now\<rparr>))"
proof -
  have up: "rd_up db" by (rule redis_okD(1) [OF assms(1)])
  show ?thesis
    using assms up by (auto simp: redis_get_def redis_put_up resolveKey_def plain_id_def)
qed

lemma redis_get_put_other:
  assumes "redis_ok db" "plain_id sid" "plain_id sid'" "plain_id (ss_userId v)" "sid' \<noteq> sid"
  shows "redis_get (redis_put db now sid v) t sid' = redis_get db t sid'"
proof -
  have up: "rd_up db" and pl: "\<And>k u. live (rd_lookup db) t k = Some u \<Longrightarrow> plain_id u"
    using redis_okD(1,2) [OF assms(1)] by blast+
  have key: "resolveKey (redis_put db now sid v) t sid' = resolveKey db t sid'"
    using assms up by (simp add: redis_put_up resolveKey_def)
  have "resolveKey db t sid' \<noteq> strict_key (ss_userId v) sid"
  proof (cases "live (rd_lookup db) t (lookup_key sid')")
    case None
    then show ?thesis using strict_legacy_disj [OF assms(4,2,3)] by (simp add: resolveKey_def)
  next
    case (Some u)
    then have "plain_id u" by (rule pl)
    then show ?thesis
      using Some assms strict_key_inj [of u sid' "ss_userId v" sid]
      by (auto simp: resolveKey_def plain_id_def)
  qed
  then show ?thesis using up key by (simp add: redis_get_def redis_put_up)
qed

lemma redis_bounded_put [inv_intros]: "redis_bounded db \<Longrightarrow> redis_bounded (redis_put db now sid v)"
  by (cases "rd_up db")
    (auto simp: redis_put_up redis_bounded_def update_result_def live_Some
      redis_put_def redis_set_def intro!: length_lua_push split: option.splits if_splits)

text \<open>In a well-formed database the state of a session is found under its owner's key.\<close>

lemma redis_get_strict:
  assumes "redis_ok db" "plain_id sid" "redis_get db now sid = Some w"
  shows "plain_id (ss_userId w)" "resolveKey db now sid = strict_key (ss_userId w) sid"
    "live (rd_sessions db) now (strict_key (ss_userId w) sid) = Some w"
proof -
  have l: "live (rd_sessions db) now (resolveKey db now sid) = Some w"
    using assms(3) redis_okD(1) [OF assms(1)] by (simp add: redis_get_def)
  then have "resolveKey db now sid \<noteq> legacy_key sid"
    using redis_okD(5) [OF assms(1,2)] by (auto simp: live_Some)
  then obtain u where u: "live (rd_lookup db) now (lookup_key sid) = Some u"
    and k: "resolveKey db now sid = strict_key u sid"
    by (auto simp: resolveKey_def split: option.splits if_splits)
  have pu: "plain_id u" by (rule redis_okD(2) [OF assms(1) u])
  then have "ss_userId w = u"
    using l k redis_okD(4) [OF assms(1) pu assms(2)] by (auto simp: live_Some)
  then show "plain_id (ss_userId w)" "resolveKey db now sid = strict_key (ss_userId w) sid"
    "live (rd_sessions db) now (strict_key (ss_userId w) sid) = Some w"
    using pu k l by simp_all
qed

lemma redis_get_earlier:
  assumes "redis_ok db" "plain_id sid" "t \<le> t'" "redis_get db t' sid = Some w"
  shows "redis_get db t sid = Some w"
proof -
  have up: "rd_up db" by (rule redis_okD(1) [OF assms(1)])
  have l: "live (rd_sessions db) t' (resolveKey db t' sid) = Some w"
    using assms(4) up by (simp add: redis_get_def)
  then have "resolveKey db t' sid \<noteq> legacy_key sid"
    using redis_okD(5) [OF assms(1,2)] by (auto simp: live_Some)
  then obtain u where u: "live (rd_lookup db) t' (lookup_key sid) = Some u" "u \<noteq> []"
    and k: "resolveKey db t' sid = strict_key u sid"
    by (auto simp: resolveKey_def split: option.splits if_splits)
  have "live (rd_lookup db) t (lookup_key sid) = Some u"
    using u assms(3) by (auto simp: live_Some)
  then have "resolveKey db t sid = strict_key u sid" using u by (simp add: resolveKey_def)
  then show ?thesis using l k up assms(3) by (auto simp: redis_get_def live_Some)
qed

lemma redis_history_put:
  assumes "redis_ok db" "plain_id sid" "plain_id (ss_userId v)" "redis_bounded db"
    "now \<le> t" "t < now + ttl_ms" "redis_get db now sid = Some w" "ss_userId w = ss_userId v"
  shows "\<exists>w'. redis_get (redis_put db now sid v) t sid = Some w' \<and>
           history w' = push_capped 10 (history w) (snap.truncate w)"
proof -
  have l: "live (rd_sessions db) now (strict_key (ss_userId v) sid) = Some w"
    using redis_get_strict(3) [OF assms(1,2,7)] assms(8) by simp
  then have "length (history w) \<le> max_history"
    using assms(4) by (auto simp: redis_bounded_def live_Some)
  then have "lua_push (history w) (snap.truncate w) = push_capped 10 (history w) (snap.truncate w)"
    by (simp add: lua_push_capped) (simp add: max_history_def)
  then show ?thesis
    using redis_get_put_same [OF assms(1,2,3,5,6)] l by (simp add: update_result_def)
qed

lemma rollback_loop_one: "rollback_loop (Suc 0) (hs @ [h]) t = (Some h, hs)"
  by simp

lemma redis_rollback_one:
  assumes "redis_ok db" "redis_get db now sid = Some w" "history w = hs @ [h]" "plain_id sid"
  shows "redis_get (redis_back db now sid 1) now sid =
    Some (snap.extend (h\<lparr>ss_updatedAt := ss_updatedAt w\<rparr>) \<lparr>ss_history = Some hs\<rparr>)"
proof -
  have up: "rd_up db" by (rule redis_okD(1) [OF assms(1)])
  have l: "live (rd_sessions db) now (resolveKey db now sid) = Some w"
    using assms up by (simp add: redis_get_def)
  have b: "redis_back db now sid 1 =
    db\<lparr>rd_sessions := (rd_sessions db)(resolveKey db now sid \<mapsto>
       (snap.extend (h\<lparr>ss_updatedAt := ss_updatedAt w\<rparr>) \<lparr>ss_history = Some hs\<rparr>, now + ttl_ms))\<rparr>"
    using up l assms(3)
    by (simp add: redis_back_def redis_rollback_def rollback_script_def rollback_loop_one
        del: rollback_loop.simps)
  have "resolveKey (redis_back db now sid 1) now sid = resolveKey db now sid"
    unfolding b by (simp add: resolveKey_def)
  then show ?thesis
    using up unfolding redis_get_def b by (simp add: ttl_ms_def)
qed

interpretation redis: versioned_store redis_get redis_put redis_ok plain_id ttl_ms redis_back redis_bounded
proof (unfold_locales, goal_cases)
  case 1
  then show ?case by (simp add: ttl_ms_def)
next
  case (2 s sid v now)
  then show ?case by (rule redis_ok_put)
next
  case (3 s sid v now t)
  then show ?case using redis_get_put_same [of s sid v now t] by simp
next
  case (4 s sid sid' v now t)
  then show ?case by (rule redis_get_put_other)
next
  case (5 s sid t t' v)
  then show ?case by (rule redis_get_earlier)
next
  case (6 s sid t v)
  then show ?case by (rule redis_get_strict(1))
next
  case (7 s sid v now t w)
  then show ?case by (intro redis_history_put)
next
  case (8 s v now sid)
  then show ?case by (intro redis_bounded_put)
next
  case (9 s t sid w)
  then show ?case
    by (auto simp: redis_bounded_def redis_get_def live_Some max_history_def split: if_splits)
next
  case (10 s now sid w hs h)
  then show ?case using redis_rollback_one [of s now sid w hs h] by simp
qed

end
