(* ===== verification/SessionMemory.thy ===== *)
theory SessionMemory
  imports SessionState
begin

text \<open>
  The in-memory session store (\<open>api/src/infrastructure/adapters/InMemorySessionState.ts\<close>).
  It hands out references: the object that \<open>get\<close> returns is the stored one, and a caller that
  assigns to its fields changes the store.  The model therefore has a heap.  An object of type
  \<^typ>\<open>nat session\<close> holds its own fields and the address of its \<open>context\<close> dictionary,
  which a shallow copy \<open>{ ...state }\<close> shares; the store maps identifiers to addresses.
  The snapshots of a history are deep copies (\<open>structuredClone\<close>), hence values.
  \<open>history.shift()\<close> works in place on the array of the previous state; the model shortens the
  history of that object.
\<close>

type_synonym addr = nat

record mem =
  m_store :: "string \<rightharpoonup> addr"
  m_objs :: "addr \<Rightarrow> addr session"
  m_ctxs :: "addr \<Rightarrow> dict"
  m_next :: addr

datatype mem_error = NotFoundForPatching string

definition with_context :: "'d \<Rightarrow> ('c, 'z) snap_scheme \<Rightarrow> ('d, 'z) snap_scheme" where
  "with_context d s =
     \<lparr>ss_sessionId = ss_sessionId s, ss_userId = ss_userId s, ss_phase = ss_phase s,
      ss_activeIntent = ss_activeIntent s, ss_emotionalTone = ss_emotionalTone s,
      ss_activeGoal = ss_activeGoal s, ss_activeGoals = ss_activeGoals s,
      ss_sessionStartTime = ss_sessionStartTime s,
      ss_lastSuggestedTheme = ss_lastSuggestedTheme s,
      ss_lastMomentTimestamp = ss_lastMomentTimestamp s, ss_context = d,
      ss_updatedAt = ss_updatedAt s, \<dots> = snap.more s\<rparr>"

definition deref :: "mem \<Rightarrow> addr \<Rightarrow> dict session" where
  \<comment> \<open>the value of the object at an address\<close>
  "deref m a = with_context (m_ctxs m (ss_context (m_objs m a))) (m_objs m a)"

definition new_obj :: "addr session \<Rightarrow> mem \<Rightarrow> addr \<times> mem" where
  "new_obj ob m =
     (m_next m, m\<lparr>m_objs := (m_objs m)(m_next m := ob), m_next := Suc (m_next m)\<rparr>)"

definition new_ctx :: "dict \<Rightarrow> mem \<Rightarrow> addr \<times> mem" where
  "new_ctx d m =
     (m_next m, m\<lparr>m_ctxs := (m_ctxs m)(m_next m := d), m_next := Suc (m_next m)\<rparr>)"

definition mem_new :: "dict session \<Rightarrow> mem \<Rightarrow> addr \<times> mem" where
  \<comment> \<open>an object literal of the caller, with an object literal as its context\<close>
  "mem_new v m = (case new_ctx (ss_context v) m of (c, m') \<Rightarrow> new_obj (with_context c v) m')"

definition mem_assign :: "addr \<Rightarrow> (addr session \<Rightarrow> addr session) \<Rightarrow> mem \<Rightarrow> mem" where
  \<comment> \<open>assignments \<open>state.field = e\<close> through a reference\<close>
  "mem_assign a f m = m\<lparr>m_objs := (m_objs m)(a := f (m_objs m a))\<rparr>"

definition mem_assign_ctx :: "addr \<Rightarrow> string \<Rightarrow> json \<Rightarrow> mem \<Rightarrow> mem" where
  \<comment> \<open>the assignment \<open>state.context[k] = v\<close> through a reference\<close>
  "mem_assign_ctx a k v m =
     (let c = ss_context (m_objs m a) in m\<lparr>m_ctxs := (m_ctxs m)(c := (m_ctxs m c)(k \<mapsto> v))\<rparr>)"

definition mem_get :: "mem \<Rightarrow> string \<Rightarrow> addr option" where
  "mem_get m sid = m_store m sid"

definition createSnapshot :: "mem \<Rightarrow> addr \<Rightarrow> snapshot" where
  "createSnapshot m a = snap.truncate (deref m a)"

definition mem_set :: "mem \<Rightarrow> string \<Rightarrow> addr \<Rightarrow> millis \<Rightarrow> mem" where
  "mem_set m sid a now =
     (let newItem = (m_objs m a)\<lparr>ss_updatedAt := now\<rparr>
      in (case m_store m sid of
            None \<Rightarrow>
              (case new_obj newItem m of (n, m1) \<Rightarrow> m1\<lparr>m_store := (m_store m1)(sid \<mapsto> n)\<rparr>)
          | Some p \<Rightarrow>
              (let previous = m_objs m p;
                   snapshot = createSnapshot m p;
                   h = history previous;
                   h' = (if 10 \<le> length h then tl h else h);
                   m1 = (if ss_history previous = None then m
                         else mem_assign p (\<lambda>ob. ob\<lparr>ss_history := Some h'\<rparr>) m)
               in (case new_obj (newItem\<lparr>ss_history := Some (h' @ [snapshot])\<rparr>) m1 of
                     (n, m2) \<Rightarrow> m2\<lparr>m_store := (m_store m2)(sid \<mapsto> n)\<rparr>))))"

definition mem_patch :: "mem \<Rightarrow> string \<Rightarrow> session_patch \<Rightarrow> millis \<Rightarrow> mem_error + mem" where
  "mem_patch m sid partial now =
     (case mem_get m sid of
        None \<Rightarrow> Inl (NotFoundForPatching sid)
      | Some cur \<Rightarrow>
          (let (c, m1) =
                 (case pt_context partial of
                    None \<Rightarrow> (ss_context (m_objs m cur), m)
                  | Some d \<Rightarrow> new_ctx d m);
               (a, m2) = new_obj ((apply_patch partial (m_objs m cur))\<lparr>ss_context := c\<rparr>) m1
           in Inr (mem_set m2 sid a now)))"

fun pop_loop :: "nat \<Rightarrow> 'a list \<Rightarrow> 'a option \<Rightarrow> 'a option \<times> 'a list" where
  \<comment> \<open>the \<open>for\<close> loop of \<open>rollback\<close>: \<open>pop()\<close> on the empty array is
      \<open>undefined\<close>, which ends the loop without a target\<close>
  "pop_loop 0 h target = (target, h)"
| "pop_loop (Suc n) h target =
     (if h = [] then (None, h) else pop_loop n (butlast h) (Some (last h)))"

definition mem_rollback :: "mem \<Rightarrow> string \<Rightarrow> int \<Rightarrow> millis \<Rightarrow> mem" where
  "mem_rollback m sid steps now =
     (case m_store m sid of
        None \<Rightarrow> m
      | Some cur \<Rightarrow>
          (if history (m_objs m cur) = [] then m
           else
             (case pop_loop (nat steps) (history (m_objs m cur)) None of
                (None, _) \<Rightarrow> m
              | (Some target, h) \<Rightarrow>
                  (case mem_new (snap.extend (target\<lparr>ss_updatedAt := now\<rparr>)
                                   \<lparr>ss_history = Some h\<rparr>) m of
                     (n, m') \<Rightarrow> m'\<lparr>m_store := (m_store m')(sid \<mapsto> n)\<rparr>))))"

definition mem_delete :: "mem \<Rightarrow> string \<Rightarrow> mem" where
  "mem_delete m sid = m\<lparr>m_store := (m_store m)(sid := None)\<rparr>"

definition mem_value :: "mem \<Rightarrow> string \<Rightarrow> dict session option" where
  \<comment> \<open>what a caller of \<open>get\<close> can read\<close>
  "mem_value m sid = map_option (deref m) (mem_get m sid)"

subsection \<open>The heap\<close>

definition mem_ok :: "mem \<Rightarrow> bool" where
  \<comment> \<open>stored objects and their contexts are allocated; two sessions never share an object\<close>
  "mem_ok m \<longleftrightarrow>
     (\<forall>sid a. m_store m sid = Some a \<longrightarrow> a < m_next m \<and> ss_context (m_objs m a) < m_next m) \<and>
     (\<forall>sid sid' a. m_store m sid = Some a \<longrightarrow> m_store m sid' = Some a \<longrightarrow> sid = sid')"

lemma with_context_simps [simp]:
  "ss_context (with_context d s) = d"
  "ss_userId (with_context d s) = ss_userId s"
  "ss_phase (with_context d s) = ss_phase s"
  "ss_lastSuggestedTheme (with_context d s) = ss_lastSuggestedTheme s"
  "snap.more (with_context d s) = snap.more s"
  by (simp_all add: with_context_def)

lemma with_context_updatedAt [simp]:
  "with_context d (s\<lparr>ss_updatedAt := t\<rparr>) = (with_context d s)\<lparr>ss_updatedAt := t\<rparr>"
  by (simp add: with_context_def)

lemma with_context_history [simp]:
  "with_context d (s\<lparr>ss_history := h\<rparr>) = (with_context d s)\<lparr>ss_history := h\<rparr>"
  by (cases s) (simp add: with_context_def)

lemma ss_history_with_context [simp]: "ss_history (with_context d s) = ss_history s"
  by (cases s) (simp add: with_context_def)

lemma history_with_context [simp]: "history (with_context d s) = history s"
  by (simp add: history_def)

lemma with_context_twice [simp]: "with_context d (with_context c s) = with_context d s"
  by (simp add: with_context_def)

lemma with_context_id [simp]: "with_context (ss_context s) s = s"
  by (cases s) (simp add: with_context_def)

lemma history_deref [simp]: "history (deref m a) = history (m_objs m a)"
  by (simp add: deref_def)

lemma pop_loop_le:
  "\<lbrakk>0 < n; n \<le> length h\<rbrakk> \<Longrightarrow>
   pop_loop n h t = (Some (h ! (length h - n)), take (length h - n) h)"
proof (induction n h t rule: pop_loop.induct)
  case (1 h t)
  then show ?case by simp
next
  case (2 n h t)
  then obtain ys y where h: "h = ys @ [y]" by (cases h rule: rev_cases) auto
  show ?case
  proof (cases "n = 0")
    case True
    with h show ?thesis by simp
  next
    case False
    then have "pop_loop n ys (Some y) = (Some (ys ! (length ys - n)), take (length ys - n) ys)"
      using 2 h by simp
    moreover have "length ys - n < length ys" using False 2(3) h by simp
    ultimately show ?thesis using h by (simp add: nth_append)
  qed
qed

lemma pop_loop_gt: "length h < n \<Longrightarrow> fst (pop_loop n h t) = None"
proof (induction n h t rule: pop_loop.induct)
  case (1 h t)
  then show ?case by simp
next
  case (2 n h t)
  then show ?case by (cases h) auto
qed

subsection \<open>What a write records\<close>

lemma mem_value_set_None:
  assumes "m_store m sid = None"
  shows "mem_value (mem_set m sid a now) sid = Some ((deref m a)\<lparr>ss_updatedAt := now\<rparr>)"
  using assms
  by (simp add: mem_value_def mem_get_def mem_set_def new_obj_def deref_def)

lemma mem_value_set_Some:
  assumes "m_store m sid = Some p"
  shows "mem_value (mem_set m sid a now) sid =
    Some ((deref m a)\<lparr>ss_updatedAt := now,
            ss_history := Some (let h = history (deref m p)
                                in (if 10 \<le> length h then tl h else h) @ [createSnapshot m p])\<rparr>)"
  using assms
  by (simp add: mem_value_def mem_get_def mem_set_def new_obj_def deref_def Let_def
      mem_assign_def)

lemma shift_push:
  "length h \<le> 10 \<Longrightarrow> (if 10 \<le> length h then tl h else h) @ [x] = push_capped 10 h x"
  by (cases "length h = 10") (simp_all add: push_capped_full push_capped_small)

lemma mem_okD:
  assumes "mem_ok m"
  shows "m_store m sid = Some a \<Longrightarrow> a < m_next m"
    "m_store m sid = Some a \<Longrightarrow> ss_context (m_objs m a) < m_next m"
    "m_store m sid = Some a \<Longrightarrow> m_store m sid' = Some a \<Longrightarrow> sid = sid'"
  using assms unfolding mem_ok_def by blast+

lemma mem_new_simps:
  assumes "mem_new v m = (a, m')"
  shows "a = Suc (m_next m)" "m_next m' = Suc (Suc (m_next m))" "m_store m' = m_store m"
    "deref m' a = v"
    "b < m_next m \<Longrightarrow> m_objs m' b = m_objs m b"
    "b < m_next m \<Longrightarrow> m_ctxs m' b = m_ctxs m b"
    "ss_context (m_objs m' a) = m_next m"
  using assms by (auto simp: mem_new_def new_ctx_def new_obj_def deref_def)

text \<open>New objects leave the stored values alone.\<close>

lemma mem_new_value:
  assumes "mem_ok m" "mem_new v m = (a, m')"
  shows "mem_value m' sid = mem_value m sid"
proof (cases "m_store m sid")
  case None
  then show ?thesis using mem_new_simps [OF assms(2)] by (simp add: mem_value_def mem_get_def)
next
  case (Some b)
  note n = mem_new_simps [OF assms(2)] and k = mem_okD(1,2) [OF assms(1) Some]
  have "deref m' b = deref m b" using n(5) [OF k(1)] n(6) [OF k(2)] by (simp add: deref_def)
  then show ?thesis using Some n(3) by (simp add: mem_value_def mem_get_def)
qed

lemma mem_ok_new:
  assumes "mem_ok m" "mem_new v m = (a, m')"
  shows "mem_ok m'"
proof -
  note n = mem_new_simps [OF assms(2)] and k = mem_okD [OF assms(1)]
  have "b < m_next m' \<and> ss_context (m_objs m' b) < m_next m'" if "m_store m' sid = Some b" for sid b
    using that n(2,3) n(5) [of b] k(1,2) [of sid b] by simp
  then show ?thesis using n(3) k(3) unfolding mem_ok_def by simp
qed

lemma mem_set_simps:
  "m_next (mem_set m sid a now) = Suc (m_next m)"
  "m_store (mem_set m sid a now) = (m_store m)(sid \<mapsto> m_next m)"
  "m_ctxs (mem_set m sid a now) = m_ctxs m"
  "ss_context (m_objs (mem_set m sid a now) (m_next m)) = ss_context (m_objs m a)"
  by (auto simp: mem_set_def new_obj_def mem_assign_def Let_def split: option.split)

lemma mem_set_objs:
  assumes "b < m_next m" "m_store m sid \<noteq> Some b"
  shows "m_objs (mem_set m sid a now) b = m_objs m b"
  using assms by (auto simp: mem_set_def new_obj_def mem_assign_def Let_def split: option.split)

lemma mem_ok_set:
  assumes "mem_ok m" "ss_context (m_objs m a) < m_next m"
  shows "mem_ok (mem_set m sid a now)"
proof -
  note k = mem_okD [OF assms(1)]
  have "b < Suc (m_next m) \<and> ss_context (m_objs (mem_set m sid a now) b) < Suc (m_next m)"
    if "((m_store m)(sid \<mapsto> m_next m)) sid' = Some b" for sid' b
  proof (cases "sid' = sid")
    case True
    then show ?thesis using that assms(2) mem_set_simps(4) [of m sid a now] by auto
  next
    case False
    then have st: "m_store m sid' = Some b" using that by simp
    then have "m_store m sid \<noteq> Some b" using False k(3) by blast
    then have "m_objs (mem_set m sid a now) b = m_objs m b"
      using mem_set_objs k(1) [OF st] by blast
    then show ?thesis using k(1,2) [OF st] by simp
  qed
  moreover have "s1 = s2"
    if "((m_store m)(sid \<mapsto> m_next m)) s1 = Some b" "((m_store m)(sid \<mapsto> m_next m)) s2 = Some b"
    for s1 s2 b
    using that k(1,3) by (auto split: if_splits)
  ultimately show ?thesis unfolding mem_ok_def mem_set_simps by blast
qed

lemma mem_set_other:
  assumes "mem_ok m" "sid' \<noteq> sid"
  shows "mem_value (mem_set m sid a now) sid' = mem_value m sid'"
proof (cases "m_store m sid'")
  case None
  then show ?thesis using assms(2) by (simp add: mem_value_def mem_get_def mem_set_simps)
next
  case (Some b)
  note k = mem_okD [OF assms(1)]
  have "m_store m sid \<noteq> Some b" using Some assms(2) k(3) by blast
  then have "m_objs (mem_set m sid a now) b = m_objs m b"
    using mem_set_objs k(1) [OF Some] by blast
  then show ?thesis
    using Some assms(2) by (simp add: mem_value_def mem_get_def mem_set_simps deref_def)
qed

subsection \<open>With callers that pass copies, the store fulfils the contract\<close>

definition mem_write :: "mem \<Rightarrow> millis \<Rightarrow> string \<Rightarrow> dict session \<Rightarrow> mem" where
  \<comment> \<open>\<open>set\<close> with an object built by the caller\<close>
  "mem_write m now sid v = (case mem_new v m of (a, m') \<Rightarrow> mem_set m' sid a now)"

definition mem_bounded :: "mem \<Rightarrow> bool" where
  "mem_bounded m \<longleftrightarrow> (\<forall>sid w. mem_value m sid = Some w \<longrightarrow> length (history w) \<le> 10)"

lemma mem_ok_write [inv_intros]:
  assumes "mem_ok m"
  shows "mem_ok (mem_write m now sid v)"
proof -
  obtain a m' where n: "mem_new v m = (a, m')" by fastforce
  have "ss_context (m_objs m' a) < m_next m'" using mem_new_simps [OF n] by simp
  then show ?thesis using mem_ok_set [OF mem_ok_new [OF assms n]] n by (simp add: mem_write_def)
qed

lemma mem_write_other:
  assumes "mem_ok m" "sid' \<noteq> sid"
  shows "mem_value (mem_write m now sid v) sid' = mem_value m sid'"
proof -
  obtain a m' where n: "mem_new v m = (a, m')" by fastforce
  show ?thesis
    using mem_set_other [OF mem_ok_new [OF assms(1) n] assms(2)] mem_new_value [OF assms(1) n] n
    by (simp add: mem_write_def)
qed

lemma mem_write_None:
  assumes "mem_value m sid = None"
  shows "mem_value (mem_write m now sid v) sid = Some (v\<lparr>ss_updatedAt := now\<rparr>)"
proof -
  obtain a m' where n: "mem_new v m = (a, m')" by fastforce
  have "m_store m' sid = None"
    using assms mem_new_simps(3) [OF n] by (simp add: mem_value_def mem_get_def)
  then show ?thesis
    using mem_value_set_None [of m' sid a now] mem_new_simps(4) [OF n] n
    by (simp add: mem_write_def)
qed

lemma mem_write_Some:
  assumes "mem_ok m" "mem_value m sid = Some w" "length (history w) \<le> 10"
  shows "mem_value (mem_write m now sid v) sid = Some (v\<lparr>ss_updatedAt := now,
           ss_history := Some (push_capped 10 (history w) (snap.truncate w))\<rparr>)"
proof -
  obtain a m' where n: "mem_new v m = (a, m')" by fastforce
  obtain p where p: "m_store m sid = Some p" and w: "w = deref m p"
    using assms(2) by (auto simp: mem_value_def mem_get_def)
  have p': "m_store m' sid = Some p" using p mem_new_simps(3) [OF n] by simp
  have w': "deref m' p = w"
    using mem_new_value [OF assms(1) n, of sid] p p' w by (simp add: mem_value_def mem_get_def)
  then show ?thesis
    using mem_value_set_Some [OF p', of a now] mem_new_simps(4) [OF n] n assms(3)
      shift_push [of "history w"]
    by (simp add: mem_write_def createSnapshot_def Let_def del: history_deref)
qed

lemma mem_write_core: "\<exists>w. mem_value (mem_write m now sid v) sid = Some w \<and> core w = core v"
proof -
  obtain a m' where n: "mem_new v m = (a, m')" by fastforce
  show ?thesis
    using mem_value_set_None [of m' sid a now] mem_value_set_Some [of m' sid _ a now]
      mem_new_simps(4) [OF n] n
    by (cases "m_store m' sid") (simp_all add: mem_write_def)
qed

definition mem_back :: "mem \<Rightarrow> millis \<Rightarrow> string \<Rightarrow> int \<Rightarrow> mem" where
  "mem_back m now sid n = mem_rollback m sid n now"

lemma mem_rollback_value:
  assumes "mem_value m sid = Some w" "0 < n" "n \<le> length (history w)"
  shows "mem_value (mem_rollback m sid (int n) now) sid =
    Some (snap.extend ((history w ! (length (history w) - n))\<lparr>ss_updatedAt := now\<rparr>)
            \<lparr>ss_history = Some (take (length (history w) - n) (history w))\<rparr>)"
proof -
  obtain p where p: "m_store m sid = Some p" and w: "history w = history (m_objs m p)"
    using assms(1) by (auto simp: mem_value_def mem_get_def)
  let ?t = "snap.extend ((history w ! (length (history w) - n))\<lparr>ss_updatedAt := now\<rparr>)
            \<lparr>ss_history = Some (take (length (history w) - n) (history w))\<rparr>"
  obtain a m' where nw: "mem_new ?t m = (a, m')" by fastforce
  have "history (m_objs m p) \<noteq> []" using assms w by auto
  then have "mem_rollback m sid (int n) now = m'\<lparr>m_store := (m_store m')(sid \<mapsto> a)\<rparr>"
    using p w nw pop_loop_le [OF assms(2,3), of None] by (simp add: mem_rollback_def)
  then show ?thesis
    using mem_new_simps(4) [OF nw] by (simp add: mem_value_def mem_get_def deref_def)
qed

interpretation memory: versioned_store "\<lambda>m t sid. mem_value m sid" mem_write mem_ok "\<lambda>_. True"
    "86400000" mem_back mem_bounded
proof (unfold_locales, goal_cases)
  case 1
  then show ?case by simp
next
  case (2 s sid v now)
  then show ?case by (simp add: mem_ok_write)
next
  case (3 s sid v now t)
  then show ?case using mem_write_core by simp
next
  case (4 s sid sid' v now t)
  then show ?case by (simp add: mem_write_other)
next
  case (5 s sid t t' v)
  then show ?case by simp
next
  case (6 s sid t v)
  then show ?case by simp
next
  case (7 s sid v now t w)
  then show ?case using mem_write_Some [of s sid w now v] by (simp add: mem_bounded_def)
next
  case (8 s v now sid)
  show ?case unfolding mem_bounded_def
  proof (intro allI impI)
    fix sid' w assume w: "mem_value (mem_write s now sid v) sid' = Some w"
    show "length (history w) \<le> 10"
    proof (cases "sid' = sid")
      case False
      then show ?thesis using w 8 by (simp add: mem_write_other mem_bounded_def)
    next
      case True
      then show ?thesis
        using w 8 mem_write_None [of s sid now v] mem_write_Some [of s sid _ now v]
        by (cases "mem_value s sid") (auto simp: mem_bounded_def)
    qed
  qed
next
  case (9 s t sid w)
  then show ?case by (simp add: mem_bounded_def)
next
  case (10 s now sid w hs h)
  then show ?case
    using mem_rollback_value [of s sid w 1 now] by (simp add: mem_back_def nth_append)
qed

subsection \<open>With callers that assign to the object they got, it does not\<close>

definition mem_update :: "mem \<Rightarrow> string \<Rightarrow> (addr session \<Rightarrow> addr session) \<Rightarrow> millis \<Rightarrow> mem" where
  \<comment> \<open>\<open>const state = await get(sid); state.field = \<dots>; await set(sid, state)\<close>\<close>
  "mem_update m sid f now =
     (case mem_get m sid of
        None \<Rightarrow> m
      | Some a \<Rightarrow> mem_set (mem_assign a f m) sid a now)"

definition field_update :: "(addr session \<Rightarrow> addr session) \<Rightarrow> bool" where
  \<comment> \<open>assignments that do not touch the context reference, the history and the time stamp\<close>
  "field_update f \<longleftrightarrow>
     (\<forall>ob. ss_context (f ob) = ss_context ob \<and> ss_history (f ob) = ss_history ob)"

lemma mem_update_value:
  assumes "mem_get m sid = Some a" "field_update f" "length (history (deref m a)) \<le> 10"
  shows "mem_value (mem_update m sid f now) sid =
    Some (let new = with_context (m_ctxs m (ss_context (m_objs m a))) (f (m_objs m a))
          in new\<lparr>ss_updatedAt := now,
                 ss_history := Some (push_capped 10 (history (deref m a)) (snap.truncate new))\<rparr>)"
proof -
  let ?m = "mem_assign a f m"
  let ?new = "with_context (m_ctxs m (ss_context (m_objs m a))) (f (m_objs m a))"
  have st: "m_store ?m sid = Some a" using assms(1) by (simp add: mem_get_def mem_assign_def)
  have d: "deref ?m a = ?new" using assms(2) by (simp add: deref_def mem_assign_def field_update_def)
  have h: "history ?new = history (deref m a)"
    using assms(2) by (simp add: history_def field_update_def deref_def)
  have "mem_update m sid f now = mem_set ?m sid a now"
    using assms(1) by (simp add: mem_update_def)
  then show ?thesis
    using mem_value_set_Some [OF st, of a now]
    by (simp only: createSnapshot_def Let_def d h shift_push [OF assms(3)])
qed

end
