(* ===== verification/SessionTheorems.thy ===== *)
theory SessionTheorems
  imports SessionRedis SessionMemory
begin

text \<open>
  The properties of the two session stores: what a write, a rollback and a deletion do to what is
  read, from the facts of the interpretations \<open>redis\<close> and \<open>memory\<close>, and where the two
  stores part from the contract and from each other.
\<close>

fun redis_sets :: "redis_db \<Rightarrow> (millis \<times> string \<times> dict session) list \<Rightarrow> store_error + redis_db" where
  \<comment> \<open>a sequence of \<open>set\<close> calls, up to the first that throws\<close>
  "redis_sets db [] = Inr db"
| "redis_sets db ((now, sid, v) # ws) =
     (case redis_set db now sid v of Inl e \<Rightarrow> Inl e | Inr db' \<Rightarrow> redis_sets db' ws)"

lemma redis_set_put: "rd_up db \<Longrightarrow> redis_set db now sid v = Inr (redis_put db now sid v)"
  by (simp add: redis_put_def redis_set_def)

lemma redis_put_keeps_up: "rd_up db \<Longrightarrow> rd_up (redis_put db now sid v)"
  by (simp add: redis_put_up)

lemma redis_sets_puts: "rd_up db \<Longrightarrow> redis_sets db ws = Inr (redis.puts db ws)"
  by (induction db ws rule: redis_sets.induct) (simp_all add: redis_set_put redis_put_keeps_up)

definition empty_redis :: redis_db where
  "empty_redis = \<lparr>rd_sessions = Map.empty, rd_lookup = Map.empty, rd_index = (\<lambda>_. {}), rd_up = True\<rparr>"

definition a_session :: "string \<Rightarrow> phase \<Rightarrow> dict session" where
  "a_session uid ph =
     \<lparr>ss_sessionId = ''s'', ss_userId = uid, ss_phase = ph, ss_activeIntent = IDLE_INTENT,
      ss_emotionalTone = 0.5, ss_activeGoal = None, ss_activeGoals = None,
      ss_sessionStartTime = None, ss_lastSuggestedTheme = None, ss_lastMomentTimestamp = None,
      ss_context = Map.empty, ss_updatedAt = 0, ss_history = None\<rparr>"

lemma a_session_sel [simp]: "ss_userId (a_session uid ph) = uid" "ss_phase (a_session uid ph) = ph"
  "history (a_session uid ph) = []"
  by (simp_all add: a_session_def history_def)

lemma empty_redis_ok: "redis_ok empty_redis" "redis_bounded empty_redis"
  by (simp_all add: redis_ok_def redis_bounded_def empty_redis_def)

lemma plain_samples: "plain_id ''u''" "plain_id ''s''" "plain_id ''t''" "''s'' \<noteq> ''t''"
  by (simp_all add: plain_id_def)



text \<open>C8: a write to Redis records the state it overwrites, in a history of at most ten, and
  rolling back one step returns to that state.\<close>

theorem redis_rollback_restores:
  assumes "redis_ok db" "redis_bounded db" "plain_id sid" "plain_id (ss_userId v)"
    and "redis_get db now sid = Some w" "ss_userId w = ss_userId v" "now \<le> t" "t < now + ttl_ms"
    and "redis_set db now sid v = Inr db1" "redis_rollback db1 t sid 1 = Inr db2"
  shows "\<exists>w1 w2. redis_get db1 t sid = Some w1 \<and> length (history w1) \<le> 10 \<and>
           last (history w1) = snap.truncate w \<and>
           redis_get db2 t sid = Some w2 \<and> core w2 = core w"
proof -
  have d1: "db1 = redis_put db now sid v" using assms(9) by (simp add: redis_put_def)
  have d2: "db2 = redis_back db1 t sid 1" using assms(10) by (simp add: redis_back_def)
  obtain w1 where w1: "redis_get db1 t sid = Some w1"
    "history w1 = push_capped 10 (history w) (snap.truncate w)"
    using redis_history_put [OF assms(1,3,4,2,7,8,5,6)] d1 by blast
  then have "length (history w1) \<le> 10" "last (history w1) = snap.truncate w"
    by (simp_all add: last_push_capped)
  then show ?thesis
    using w1(1) d1 d2 redis.rollback_undoes_put [OF assms(1,3,4,2,5,6,7,8)] by blast
qed

lemma sample_write: "redis_get (redis_put empty_redis 0 ''s'' (a_session ''u'' IDLE)) 5 ''s'' =
    Some (a_session ''u'' IDLE)"
  using redis_get_put_same [OF empty_redis_ok(1), of "''s''" "a_session ''u'' IDLE" 0 5] plain_samples
  by (simp add: ttl_ms_def update_result_def live_def empty_redis_def) (simp add: a_session_def)

theorem redis_rollback_restores_witness:
  "\<exists>db db1 db2 w2. redis_set empty_redis 0 ''s'' (a_session ''u'' IDLE) = Inr db \<and>
     redis_set db 5 ''s'' (a_session ''u'' ASLEEP) = Inr db1 \<and>
     redis_rollback db1 9 ''s'' 1 = Inr db2 \<and> redis_get db2 9 ''s'' = Some w2 \<and> ss_phase w2 = IDLE"
proof -
  let ?db = "redis_put empty_redis 0 ''s'' (a_session ''u'' IDLE)"
  let ?db1 = "redis_put ?db 5 ''s'' (a_session ''u'' ASLEEP)"
  let ?db2 = "redis_back ?db1 9 ''s'' 1"
  have up: "rd_up empty_redis" by (simp add: empty_redis_def)
  have ok: "redis_ok ?db" using redis_ok_put [OF empty_redis_ok(1)] plain_samples by simp
  have bd: "redis_bounded ?db" by (rule redis_bounded_put [OF empty_redis_ok(2)])
  have s: "redis_set empty_redis 0 ''s'' (a_session ''u'' IDLE) = Inr ?db"
    "redis_set ?db 5 ''s'' (a_session ''u'' ASLEEP) = Inr ?db1"
    using up redis_put_keeps_up [OF up] by (simp_all add: redis_set_put)
  have u1: "rd_up ?db1" by (intro redis_put_keeps_up up)
  then have r: "redis_rollback ?db1 9 ''s'' 1 = Inr ?db2"
    by (simp add: redis_back_def redis_rollback_def)
  have p: "plain_id (ss_userId (a_session ''u'' ASLEEP))"
    "ss_userId (a_session ''u'' IDLE) = ss_userId (a_session ''u'' ASLEEP)" using plain_samples by simp_all
  have t: "(5::int) \<le> 9" "9 < 5 + ttl_ms" by (simp_all add: ttl_ms_def)
  obtain w2 where "redis_get ?db2 9 ''s'' = Some w2" "core w2 = core (a_session ''u'' IDLE)"
    using redis_rollback_restores [OF ok bd plain_samples(2) p(1) sample_write p(2) t s(2) r] by blast
  moreover have "ss_phase w2 = IDLE" using core_eqD(3) [OF calculation(2)] by simp
  ultimately show ?thesis using s r by blast
qed

lemma redis_delete_result:
  assumes "redis_ok db" "plain_id sid" "redis_get db now sid = Some w"
  shows "redis_delete db now sid =
    db\<lparr>rd_sessions := (rd_sessions db)(strict_key (ss_userId w) sid := None),
       rd_lookup := (rd_lookup db)(lookup_key sid := None),
       rd_index := (rd_index db)(user_index_key (ss_userId w) :=
          rd_index db (user_index_key (ss_userId w)) - {sid})\<rparr>"
proof -
  have up: "rd_up db" by (rule redis_okD(1) [OF assms(1)])
  note k = redis_get_strict [OF assms]
  have "ss_userId w \<noteq> []" using k(1) by (simp add: plain_id_def)
  then show ?thesis
    using up split_strict_key [OF k(1) assms(2)] by (simp add: redis_delete_def k(2) Let_def)
qed

text \<open>Deleting a session makes it unreadable and takes it off its owner's index; the other
  sessions stay as they are.\<close>

lemma redis_delete_removes:
  assumes "redis_ok db" "plain_id sid" "plain_id sid'" "sid' \<noteq> sid"
    and "redis_get db now sid = Some w" "db' = redis_delete db now sid"
  shows "redis_get db' t sid = None \<and> sid \<notin> rd_index db' (user_index_key (ss_userId w)) \<and>
    redis_get db' t sid' = redis_get db t sid'"
proof -
  have up: "rd_up db" by (rule redis_okD(1) [OF assms(1)])
  note d = assms(6) [unfolded redis_delete_result [OF assms(1,2,5)]]
  note k = redis_get_strict [OF assms(1,2,5)]
  have leg: "rd_sessions db (legacy_key sid) = None" by (rule redis_okD(5) [OF assms(1,2)])
  have "resolveKey db' t sid = legacy_key sid" unfolding d by (simp add: resolveKey_def)
  moreover have "rd_sessions db' (legacy_key sid) = None" unfolding d using leg by simp
  ultimately have a: "redis_get db' t sid = None" by (simp add: redis_get_def live_def)
  have r: "resolveKey db' t sid' = resolveKey db t sid'"
    unfolding d using assms(4) by (simp add: resolveKey_def)
  have "resolveKey db t sid' \<noteq> strict_key (ss_userId w) sid"
  proof (cases "live (rd_lookup db) t (lookup_key sid')")
    case None
    then show ?thesis using strict_legacy_disj [OF k(1) assms(2,3)] by (simp add: resolveKey_def)
  next
    case (Some u)
    then have "plain_id u" by (rule redis_okD(2) [OF assms(1)])
    then show ?thesis
      using Some assms(4) strict_key_inj [OF _ assms(3) k(1) assms(2)]
      by (auto simp: resolveKey_def plain_id_def)
  qed
  then have b: "redis_get db' t sid' = redis_get db t sid'"
    using r up unfolding redis_get_def d by simp
  have "sid \<notin> rd_index db' (user_index_key (ss_userId w))" unfolding d by simp
  with a b show ?thesis by blast
qed

lemma redis_delete_removes_witness:
  "redis_get (redis_delete (redis_put empty_redis 0 ''s'' (a_session ''u'' IDLE)) 5 ''s'') 5 ''s'' = None"
proof -
  have ok: "redis_ok (redis_put empty_redis 0 ''s'' (a_session ''u'' IDLE))"
    using redis_ok_put [OF empty_redis_ok(1)] plain_samples by simp
  show ?thesis
    using redis_delete_removes [OF ok plain_samples(2,3) plain_samples(4) [symmetric] sample_write refl]
    by blast
qed

text \<open>Patching renews the expiry of the session record but not that of the lookup entry, so
  a session kept alive by patches alone becomes unreadable a day after its last full write,
  although its record is still there.\<close>

lemma redis_patch_loses_session:
  assumes "redis_ok db" "plain_id sid" "plain_id (ss_userId v)"
    and "redis_set db now sid v = Inr db1"
    and "now \<le> now1" "now1 < now + ttl_ms" "redis_patch db1 now1 sid pat = Inr db2"
    and "now + ttl_ms \<le> t" "t < now1 + ttl_ms"
  shows "redis_get db2 t sid = None \<and>
    live (rd_sessions db2) t (strict_key (ss_userId v) sid) \<noteq> None"
proof -
  have d1: "db1 = redis_put db now sid v" using assms(4) by (simp add: redis_put_def)
  have ok1: "redis_ok db1" unfolding d1 by (rule redis_ok_put [OF assms(1-3)])
  have up: "rd_up db" "rd_up db1" using redis_okD(1) assms(1) ok1 by blast+
  have lk: "rd_lookup db1 (lookup_key sid) = Some (ss_userId v, now + ttl_ms)"
    unfolding d1 by (simp add: redis_put_up [OF up(1)])
  have ne: "ss_userId v \<noteq> []" using assms(3) by (simp add: plain_id_def)
  have key: "resolveKey db1 now1 sid = strict_key (ss_userId v) sid"
    using lk ne assms(6) by (simp add: resolveKey_def live_def)
  obtain s where d2: "db2 = db1\<lparr>rd_sessions := (rd_sessions db1)
      (strict_key (ss_userId v) sid \<mapsto> (s, now1 + ttl_ms))\<rparr>"
    using assms(7) up(2) unfolding redis_patch_def key
    by (auto simp: patch_script_def Let_def split: option.splits)
  have "resolveKey db2 t sid = legacy_key sid"
    unfolding d2 using lk assms(8) by (simp add: resolveKey_def live_def)
  moreover have "rd_sessions db1 (legacy_key sid) = None" by (rule redis_okD(5) [OF ok1 assms(2)])
  then have "rd_sessions db2 (legacy_key sid) = None"
    using strict_legacy_disj [OF assms(3,2,2)] unfolding d2 by auto
  ultimately have "redis_get db2 t sid = None" by (simp add: redis_get_def live_def)
  then show ?thesis unfolding d2 using assms(9) by simp
qed

lemma redis_patch_loses_session_witness:
  "\<exists>db1 db2. redis_set empty_redis 0 ''s'' (a_session ''u'' IDLE) = Inr db1 \<and>
     redis_patch db1 3600000 ''s'' (empty_patch\<lparr>pt_phase := Some STORYTELLING\<rparr>) = Inr db2 \<and>
     redis_get db2 86400000 ''s'' = None"
proof -
  let ?db1 = "redis_put empty_redis 0 ''s'' (a_session ''u'' IDLE)"
  let ?p = "empty_patch\<lparr>pt_phase := Some STORYTELLING\<rparr>"
  have up: "rd_up empty_redis" by (simp add: empty_redis_def)
  have s: "redis_set empty_redis 0 ''s'' (a_session ''u'' IDLE) = Inr ?db1"
    by (rule redis_set_put [OF up])
  have pu: "plain_id (ss_userId (a_session ''u'' IDLE))" using plain_samples by simp
  have ok: "redis_ok ?db1" by (rule redis_ok_put [OF empty_redis_ok(1) plain_samples(2) pu])
  have g: "redis_get ?db1 3600000 ''s'' \<noteq> None"
    using redis_get_put_same [OF empty_redis_ok(1) plain_samples(2) pu, of 0 3600000]
    by (simp add: ttl_ms_def)
  then obtain db2 where p: "redis_patch ?db1 3600000 ''s'' ?p = Inr db2"
    using redis_okD(1) [OF ok]
    by (auto simp: redis_get_def redis_patch_def patch_script_def Let_def split: option.splits)
  have t: "(0::int) \<le> 3600000" "3600000 < 0 + ttl_ms" "0 + ttl_ms \<le> 86400000"
    "86400000 < 3600000 + ttl_ms" by (simp_all add: ttl_ms_def)
  have "redis_get db2 86400000 ''s'' = None"
    using redis_patch_loses_session [OF empty_redis_ok(1) plain_samples(2) pu s t(1,2) p t(3,4)] by blast
  then show ?thesis using s p by blast
qed

subsection \<open>The in-memory store\<close>

text \<open>With the in-memory store, an object built by the caller and written can be undone: rolling
  back one step returns to the state that was stored before.\<close>

lemma memory_rollback_restores:
  assumes "mem_ok m" "mem_value m sid = Some w" "length (history w) \<le> 10"
    and "mem_new v m = (a, m1)" "m2 = mem_set m1 sid a now" "m3 = mem_rollback m2 sid 1 t"
  shows "\<exists>w1 w2. mem_value m2 sid = Some w1 \<and> core w1 = core v \<and>
           mem_value m3 sid = Some w2 \<and> core w2 = core w"
proof -
  have m2: "m2 = mem_write m now sid v" using assms(4,5) by (simp add: mem_write_def)
  let ?h = "push_capped 10 (history w) (snap.truncate w)"
  have v2: "mem_value m2 sid = Some (v\<lparr>ss_updatedAt := now, ss_history := Some ?h\<rparr>)"
    unfolding m2 by (rule mem_write_Some [OF assms(1-3)])
  have l: "0 < length ?h" "?h ! (length ?h - 1) = snap.truncate w"
    using nth_last_push_capped [of 10 "history w" "snap.truncate w"] by simp_all
  have "mem_value m3 sid = Some (snap.extend ((?h ! (length ?h - 1))\<lparr>ss_updatedAt := t\<rparr>)
            \<lparr>ss_history = Some (take (length ?h - 1) ?h)\<rparr>)"
    using mem_rollback_value [OF v2, of 1 t] l(1) assms(6) by simp
  then show ?thesis using v2 l(2) by simp
qed

definition empty_mem :: mem where
  "empty_mem = \<lparr>m_store = Map.empty, m_objs = (\<lambda>_. with_context 0 (a_session [] IDLE)),
     m_ctxs = (\<lambda>_. Map.empty), m_next = 1\<rparr>"

definition one_session :: mem where
  "one_session = mem_write empty_mem 0 ''s'' (a_session ''u'' IDLE)"

lemma one_session_ok: "mem_ok one_session"
  unfolding one_session_def by (rule mem_ok_write) (simp add: mem_ok_def empty_mem_def)

lemma one_session_value: "mem_value one_session ''s'' = Some (a_session ''u'' IDLE)"
proof -
  have "mem_value empty_mem ''s'' = None" by (simp add: mem_value_def mem_get_def empty_mem_def)
  then show ?thesis
    unfolding one_session_def using mem_write_None [of empty_mem "''s''" 0 "a_session ''u'' IDLE"]
    by (simp add: a_session_def)
qed

lemma memory_rollback_restores_witness:
  "\<exists>a m1 w2. mem_new (a_session ''u'' ASLEEP) one_session = (a, m1) \<and>
     mem_value (mem_rollback (mem_set m1 ''s'' a 5) ''s'' 1 9) ''s'' = Some w2 \<and> ss_phase w2 = IDLE"
proof -
  obtain a m1 where n: "mem_new (a_session ''u'' ASLEEP) one_session = (a, m1)" by fastforce
  have l: "length (history (a_session ''u'' IDLE)) \<le> 10" by simp
  obtain w2 where w: "mem_value (mem_rollback (mem_set m1 ''s'' a 5) ''s'' 1 9) ''s'' = Some w2"
    "core w2 = core (a_session ''u'' IDLE)"
    using memory_rollback_restores [OF one_session_ok one_session_value l n refl refl] by blast
  have "ss_phase w2 = IDLE" using core_eqD(3) [OF w(2)] by simp
  then show ?thesis using n w(1) by blast
qed

text \<open>A caller that assigns to the object \<open>get\<close> returned and then calls \<open>set\<close>, as the
  conductor does, cannot undo the write: the recorded snapshot already has the assignment, so
  rolling back one step returns the written state.\<close>

lemma memory_rollback_keeps_assignment:
  assumes "mem_get m sid = Some a" "field_update f" "length (history (deref m a)) \<le> 10"
    and "m' = mem_update m sid f now"
  shows "\<exists>w1 w2. mem_value m' sid = Some w1 \<and>
    mem_value (mem_rollback m' sid 1 t) sid = Some w2 \<and> core w2 = core w1 \<and>
    ss_phase w2 = ss_phase (f (m_objs m a))"
proof -
  let ?new = "with_context (m_ctxs m (ss_context (m_objs m a))) (f (m_objs m a))"
  let ?h = "push_capped 10 (history (deref m a)) (snap.truncate ?new)"
  have v: "mem_value m' sid = Some (?new\<lparr>ss_updatedAt := now, ss_history := Some ?h\<rparr>)"
    using mem_update_value [OF assms(1-3), of now] assms(4) by (simp add: Let_def)
  have l: "0 < length ?h" "?h ! (length ?h - 1) = snap.truncate ?new"
    using nth_last_push_capped [of 10 "history (deref m a)" "snap.truncate ?new"] by simp_all
  have r: "mem_value (mem_rollback m' sid 1 t) sid = Some (snap.extend ((?h ! (length ?h - 1))\<lparr>ss_updatedAt := t\<rparr>)
            \<lparr>ss_history = Some (take (length ?h - 1) ?h)\<rparr>)"
    using mem_rollback_value [OF v, of 1 t] l(1) by simp
  have c: "core (snap.extend ((?h ! (length ?h - 1))\<lparr>ss_updatedAt := t\<rparr>)
            \<lparr>ss_history = Some (take (length ?h - 1) ?h)\<rparr>) = core ?new"
    unfolding l(2) by simp
  then show ?thesis using v r core_eqD(3) [OF c] by simp
qed

lemma memory_rollback_keeps_assignment_witness:
  "\<exists>w2. mem_value (mem_rollback (mem_update one_session ''s'' (\<lambda>ob. ob\<lparr>ss_phase := ASLEEP\<rparr>) 5)
      ''s'' 1 9) ''s'' = Some w2 \<and> ss_phase w2 = ASLEEP"
proof -
  obtain a where a: "mem_get one_session ''s'' = Some a" "deref one_session a = a_session ''u'' IDLE"
    using one_session_value by (auto simp: mem_value_def)
  have f: "field_update (\<lambda>ob. ob\<lparr>ss_phase := ASLEEP\<rparr>)" by (simp add: field_update_def)
  have l: "length (history (deref one_session a)) \<le> 10" unfolding a(2) by simp
  show ?thesis
    using memory_rollback_keeps_assignment [OF a(1) f l refl, of 5 9] by auto
qed

text \<open>The two stores differ on a rollback of more steps than were recorded: the in-memory store
  changes nothing, Redis goes back to the oldest recorded state.\<close>

lemma rollback_beyond_history:
  assumes "mem_value m sid = Some v" "length (history v) < n"
    and "redis_ok db" "redis_get db now sid = Some w" "history w \<noteq> []" "length (history w) < n"
    and "redis_rollback db now sid (int n) = Inr db'"
  shows "mem_rollback m sid (int n) t = m \<and>
    (\<exists>w'. redis_get db' now sid = Some w' \<and> core w' = core (hd (history w)) \<and> history w' = [])"
proof
  obtain p where p: "m_store m sid = Some p" "history (m_objs m p) = history v"
    using assms(1) by (auto simp: mem_value_def mem_get_def)
  have "fst (pop_loop n (history v) None) = None" by (rule pop_loop_gt [OF assms(2)])
  then show "mem_rollback m sid (int n) t = m"
    using p by (auto simp: mem_rollback_def split: prod.split)
  have up: "rd_up db" by (rule redis_okD(1) [OF assms(3)])
  have l: "live (rd_sessions db) now (resolveKey db now sid) = Some w"
    using assms(4) up by (simp add: redis_get_def)
  have "rollback_loop n (history w) None = (Some (hd (history w)), [])"
    using rollback_loop_take [of n "history w" None] assms(5,6) by (simp add: hd_conv_nth min_def)
  then have d: "db' = db\<lparr>rd_sessions := (rd_sessions db)(resolveKey db now sid \<mapsto>
      (snap.extend ((hd (history w))\<lparr>ss_updatedAt := ss_updatedAt w\<rparr>) \<lparr>ss_history = Some []\<rparr>,
       now + ttl_ms))\<rparr>"
    using assms(5,7) up l by (simp add: redis_rollback_def rollback_script_def)
  have "resolveKey db' now sid = resolveKey db now sid" unfolding d by (simp add: resolveKey_def)
  then show "\<exists>w'. redis_get db' now sid = Some w' \<and> core w' = core (hd (history w)) \<and> history w' = []"
    using up unfolding redis_get_def d by (simp add: ttl_ms_def)
qed

lemma rollback_beyond_history_witness:
  "\<exists>m db db' w'. mem_rollback m ''s'' 3 0 = m \<and> redis_rollback db 6 ''s'' 3 = Inr db' \<and>
     redis_get db' 6 ''s'' = Some w' \<and> ss_phase w' = IDLE"
proof -
  let ?db = "redis_put empty_redis 0 ''s'' (a_session ''u'' IDLE)"
  let ?db1 = "redis_put ?db 5 ''s'' (a_session ''u'' ASLEEP)"
  have pu: "plain_id (ss_userId (a_session ''u'' ph))" for ph using plain_samples by simp
  have ok: "redis_ok ?db" by (rule redis_ok_put [OF empty_redis_ok(1) plain_samples(2) pu])
  have ok1: "redis_ok ?db1" by (rule redis_ok_put [OF ok plain_samples(2) pu])
  have sw: "redis_get ?db 5 ''s'' = Some (a_session ''u'' IDLE)" by (rule sample_write)
  have t: "(5::int) \<le> 6" "(6::int) < 5 + ttl_ms" by (simp_all add: ttl_ms_def)
  have bd: "redis_bounded ?db" by (rule redis_bounded_put [OF empty_redis_ok(2)])
  obtain w where w: "redis_get ?db1 6 ''s'' = Some w"
    "history w = push_capped 10 (history (a_session ''u'' IDLE)) (snap.truncate (a_session ''u'' IDLE))"
    using redis_history_put [OF ok plain_samples(2) pu bd t sw] by auto
  then have h: "history w = [snap.truncate (a_session ''u'' IDLE)]" by (simp add: push_capped_def)
  then have hh: "history w \<noteq> []" "length (history w) < 3" by simp_all
  obtain db' where r: "redis_rollback ?db1 6 ''s'' (int 3) = Inr db'"
    using redis_okD(1) [OF ok1] by (simp add: redis_rollback_def)
  have lv: "length (history (a_session ''u'' IDLE)) < 3" by simp
  obtain w' where w': "mem_rollback one_session ''s'' (int 3) 0 = one_session"
    "redis_get db' 6 ''s'' = Some w'" "core w' = core (hd (history w))"
    using rollback_beyond_history [OF one_session_value lv ok1 w(1) hh r] by blast
  have "ss_phase w' = IDLE" using core_eqD(3) [OF w'(3)] h by (simp add: snap.truncate_def)
  then show ?thesis using w' r by auto
qed

end
