(* ===== verification/Effects.thy ===== *)
theory Effects
  imports JsPrelude
begin

text \<open>
  Asynchronous code that reads and changes the world around it.  An \<open>eff\<close> is a function from a
  world to the thrown error or the result, and the world afterwards; \<open>ebind\<close> is \<open>await\<close>
  followed by the rest of the function, \<open>ethrow\<close> is \<open>throw\<close> and \<open>etry\<close> is
  \<open>try ... catch\<close>.  What was done before an error stays done.  \<open>hoare I m Q\<close> says that
  \<open>m\<close> keeps the invariant \<open>I\<close> of the world on every path, errors included, and that its
  result satisfies \<open>Q\<close>.
\<close>

datatype js_error = Err (err_name: string) (err_message: string)

definition error_string :: "js_error \<Rightarrow> string" where
  \<comment> \<open>\<open>String(error)\<close> for an \<open>Error\<close>\<close>
  "error_string e =
     (if err_message e = [] then err_name e else err_name e @ '': '' @ err_message e)"

type_synonym ('w, 'a) eff = "'w \<Rightarrow> (js_error + 'a) \<times> 'w"

definition ereturn :: "'a \<Rightarrow> ('w, 'a) eff" where
  "ereturn a w = (Inr a, w)"

definition ethrow :: "js_error \<Rightarrow> ('w, 'a) eff" where
  "ethrow e w = (Inl e, w)"

definition ebind :: "('w, 'a) eff \<Rightarrow> ('a \<Rightarrow> ('w, 'b) eff) \<Rightarrow> ('w, 'b) eff" where
  "ebind m f w = (case m w of (Inl e, w') \<Rightarrow> (Inl e, w') | (Inr a, w') \<Rightarrow> f a w')"

definition ethen :: "('w, 'a) eff \<Rightarrow> ('w, 'b) eff \<Rightarrow> ('w, 'b) eff" where
  "ethen m k = ebind m (\<lambda>_. k)"

definition etry :: "('w, 'a) eff \<Rightarrow> (js_error \<Rightarrow> ('w, 'a) eff) \<Rightarrow> ('w, 'a) eff" where
  "etry m h w = (case m w of (Inl e, w') \<Rightarrow> h e w' | (Inr a, w') \<Rightarrow> (Inr a, w'))"

definition ewhen :: "bool \<Rightarrow> ('w, unit) eff \<Rightarrow> ('w, unit) eff" where
  "ewhen b m = (if b then m else ereturn ())"

definition eread :: "('w \<Rightarrow> 'a \<times> 'w) \<Rightarrow> ('w, 'a) eff" where
  \<comment> \<open>a reading that cannot fail, of the clock or of a random source\<close>
  "eread r w = (case r w of (a, w') \<Rightarrow> (Inr a, w'))"

subsection \<open>Evaluation\<close>

lemma ereturn_run [simp]: "ereturn a w = (Inr a, w)"
  by (simp add: ereturn_def)

lemma ethrow_run [simp]: "ethrow e w = (Inl e, w)"
  by (simp add: ethrow_def)

lemma ebind_Inl [simp]: "m w = (Inl e, w') \<Longrightarrow> ebind m f w = (Inl e, w')"
  by (simp add: ebind_def)

lemma ebind_Inr [simp]: "m w = (Inr a, w') \<Longrightarrow> ebind m f w = f a w'"
  by (simp add: ebind_def)

lemma ethen_Inl [simp]: "m w = (Inl e, w') \<Longrightarrow> ethen m k w = (Inl e, w')"
  by (simp add: ethen_def)

lemma ethen_Inr [simp]: "m w = (Inr a, w') \<Longrightarrow> ethen m k w = k w'"
  by (simp add: ethen_def)

lemma etry_Inl [simp]: "m w = (Inl e, w') \<Longrightarrow> etry m h w = h e w'"
  by (simp add: etry_def)

lemma etry_Inr [simp]: "m w = (Inr a, w') \<Longrightarrow> etry m h w = (Inr a, w')"
  by (simp add: etry_def)

lemma ewhen_simps [simp]: "ewhen True m = m" "ewhen False m = ereturn ()"
  by (simp_all add: ewhen_def)

lemma eread_run [simp]: "r w = (a, w') \<Longrightarrow> eread r w = (Inr a, w')"
  by (simp add: eread_def)

lemma ebind_ereturn [simp]: "ebind (ereturn a) f = f a"
  by (simp add: ebind_def fun_eq_iff)

lemma ebind_ethrow [simp]: "ebind (ethrow e) f = ethrow e"
  by (simp add: ebind_def fun_eq_iff)

lemma ebind_assoc: "ebind (ebind m f) g = ebind m (\<lambda>x. ebind (f x) g)"
  by (auto simp: ebind_def fun_eq_iff split: prod.splits sum.splits)

lemma ebind_right_unit [simp]: "ebind m ereturn = m"
  by (auto simp: ebind_def fun_eq_iff split: prod.splits sum.splits)

lemma ethen_ereturn [simp]: "ethen (ereturn a) k = k"
  by (simp add: ethen_def)

subsection \<open>Invariants of the world\<close>

definition hoare :: "('w \<Rightarrow> bool) \<Rightarrow> ('w, 'a) eff \<Rightarrow> ('a \<Rightarrow> bool) \<Rightarrow> bool" where
  "hoare I m Q \<longleftrightarrow> (\<forall>w r w'. I w \<longrightarrow> m w = (r, w') \<longrightarrow> I w' \<and> (\<forall>a. r = Inr a \<longrightarrow> Q a))"

named_theorems hoare_rules "rules of the invariant calculus"

lemma hoareD: "\<lbrakk>hoare I m Q; I w; m w = (r, w')\<rbrakk> \<Longrightarrow> I w'"
  by (simp add: hoare_def)

lemma hoare_result: "\<lbrakk>hoare I m Q; I w; m w = (Inr a, w')\<rbrakk> \<Longrightarrow> Q a"
  by (simp add: hoare_def)

lemma hoare_snd: "\<lbrakk>hoare I m Q; I w\<rbrakk> \<Longrightarrow> I (snd (m w))"
  by (cases "m w") (simp add: hoare_def)

lemma hoare_ereturn [hoare_rules]: "Q a \<Longrightarrow> hoare I (ereturn a) Q"
  by (simp add: hoare_def)

lemma hoare_ethrow [hoare_rules]: "hoare I (ethrow e) Q"
  by (simp add: hoare_def)

lemma hoare_ebind [hoare_rules]:
  assumes "hoare I m P" "\<And>a. P a \<Longrightarrow> hoare I (f a) Q"
  shows "hoare I (ebind m f) Q"
  unfolding hoare_def
proof (intro allI impI)
  fix w r w' assume w: "I w" "ebind m f w = (r, w')"
  obtain x w1 where m: "m w = (x, w1)" by fastforce
  show "I w' \<and> (\<forall>a. r = Inr a \<longrightarrow> Q a)"
  proof (cases x)
    case (Inl e)
    then show ?thesis using w m assms(1) by (auto simp: hoare_def)
  next
    case (Inr a)
    then have "I w1" "P a" using w m assms(1) by (auto simp: hoare_def)
    moreover have "f a w1 = (r, w')" using w m Inr by simp
    ultimately show ?thesis using assms(2) unfolding hoare_def by blast
  qed
qed

lemma hoare_ethen [hoare_rules]:
  "\<lbrakk>hoare I m (\<lambda>_. True); hoare I k Q\<rbrakk> \<Longrightarrow> hoare I (ethen m k) Q"
  unfolding ethen_def by (rule hoare_ebind)

lemma hoare_etry [hoare_rules]:
  assumes "hoare I m Q" "\<And>e. hoare I (h e) Q"
  shows "hoare I (etry m h) Q"
  unfolding hoare_def
proof (intro allI impI)
  fix w r w' assume w: "I w" "etry m h w = (r, w')"
  obtain x w1 where m: "m w = (x, w1)" by fastforce
  show "I w' \<and> (\<forall>a. r = Inr a \<longrightarrow> Q a)"
  proof (cases x)
    case (Inl e)
    then have "I w1" using w m assms(1) by (auto simp: hoare_def)
    moreover have "h e w1 = (r, w')" using w m Inl by simp
    ultimately show ?thesis using assms(2) unfolding hoare_def by blast
  next
    case (Inr a)
    then show ?thesis using w m assms(1) by (auto simp: hoare_def)
  qed
qed

lemma hoare_ewhen [hoare_rules]: "(b \<Longrightarrow> hoare I m (\<lambda>_. True)) \<Longrightarrow> hoare I (ewhen b m) (\<lambda>_. True)"
  by (cases b) (auto intro: hoare_rules)

lemma hoare_eread: "(\<And>w. I w \<Longrightarrow> I (snd (r w))) \<Longrightarrow> hoare I (eread r) (\<lambda>_. True)"
  by (force simp: hoare_def eread_def split: prod.splits)

lemma hoare_weaken: "\<lbrakk>hoare I m P; \<And>a. P a \<Longrightarrow> Q a\<rbrakk> \<Longrightarrow> hoare I m Q"
  by (simp add: hoare_def)

lemma hoare_True: "hoare I m P \<Longrightarrow> hoare I m (\<lambda>_. True)"
  by (erule hoare_weaken) simp

lemma hoare_If [hoare_rules]:
  "\<lbrakk>b \<Longrightarrow> hoare I m Q; \<not> b \<Longrightarrow> hoare I k Q\<rbrakk> \<Longrightarrow> hoare I (if b then m else k) Q"
  by simp

lemma hoare_option [hoare_rules]:
  "\<lbrakk>x = None \<Longrightarrow> hoare I m Q; \<And>a. x = Some a \<Longrightarrow> hoare I (f a) Q\<rbrakk>
   \<Longrightarrow> hoare I (case x of None \<Rightarrow> m | Some a \<Rightarrow> f a) Q"
  by (cases x) simp_all

lemma hoare_sum [hoare_rules]:
  "\<lbrakk>\<And>a. x = Inl a \<Longrightarrow> hoare I (f a) Q; \<And>a. x = Inr a \<Longrightarrow> hoare I (g a) Q\<rbrakk>
   \<Longrightarrow> hoare I (case x of Inl a \<Rightarrow> f a | Inr a \<Rightarrow> g a) Q"
  by (cases x) simp_all

lemma hoare_prod [hoare_rules]:
  "(\<And>a b. x = (a, b) \<Longrightarrow> hoare I (f a b) Q) \<Longrightarrow> hoare I (case x of (a, b) \<Rightarrow> f a b) Q"
  by (cases x) simp

lemma hoare_Let [hoare_rules]: "hoare I (f a) Q \<Longrightarrow> hoare I (Let a f) Q"
  by (simp add: Let_def)

text \<open>Computations that never throw.\<close>

definition total_eff :: "('w, 'a) eff \<Rightarrow> bool" where
  "total_eff m \<longleftrightarrow> (\<forall>w. \<exists>a w'. m w = (Inr a, w'))"

lemma total_ereturn [hoare_rules]: "total_eff (ereturn a)"
  by (simp add: total_eff_def)

lemma total_eread [hoare_rules]: "total_eff (eread r)"
  by (simp add: total_eff_def eread_def split: prod.split)

lemma total_ebind [hoare_rules]: "total_eff m \<Longrightarrow> (\<And>a. total_eff (f a)) \<Longrightarrow> total_eff (ebind m f)"
  unfolding total_eff_def by (metis ebind_Inr)

lemma total_ethen [hoare_rules]: "total_eff m \<Longrightarrow> total_eff k \<Longrightarrow> total_eff (ethen m k)"
  unfolding ethen_def by (rule total_ebind)

lemma total_etry [hoare_rules]: "(\<And>e. total_eff (h e)) \<Longrightarrow> total_eff (etry m h)"
  unfolding total_eff_def etry_def by (auto split: prod.splits sum.splits)

lemma total_effE:
  assumes "total_eff m"
  obtains a w' where "m w = (Inr a, w')"
  using assms unfolding total_eff_def by blast

lemma total_unitE:
  fixes m :: "('w, unit) eff"
  assumes "total_eff m"
  obtains w' where "m w = (Inr (), w')"
  using total_effE [OF assms, of w] by (metis (full_types) old.unit.exhaust)

end
