(* ===== verification/Resilience.thy ===== *)
theory Resilience
  imports JsPrelude
begin

text \<open>
  What the agent does about failures: the recovery strategy
  (\<open>api/src/domain/services/ResilienceEngine.ts\<close>, the engine the service container builds, and
  its copy \<open>api/src/infrastructure/services/ResilienceEngine.ts\<close>; the port is
  \<open>api/src/application/ports/ResilienceStrategyPort.ts\<close>) and the quality gate
  (\<open>api/src/domain/services/QualityGate.ts\<close>).  The entry \<open>error\<close> of an event's context is
  a string in every call of the program, and \<open>None\<close> where it is absent; logging is left out.
  The locale \<open>recovery_strategy\<close> states what the caller's retry loop needs of a strategy.
\<close>

datatype failure_type =
    NETWORK_TIMEOUT | SCHEMA_DRIFT | SAFETY_VIOLATION | TOKEN_LIMIT | API_RATE_LIMIT
  | API_AUTH_ERROR | API_SERVER_ERROR | API_BAD_REQUEST | QUALITY_BREACH | UNKNOWN

datatype recovery_action = RETRY | SELF_CORRECT | FALLBACK | ABORT | DEGRADE_SERVICE

datatype recovery_model = Flash | Pro | Edge

record resilience_event =
  re_type :: failure_type
  re_error :: "string option"
  re_attempt :: int
  re_costSoFar :: real

record correction_plan =
  cp_action :: recovery_action
  cp_model :: recovery_model
  cp_parameters :: "dict option"
  cp_estimatedCost :: real

definition mapErrorToFailureType :: "string \<Rightarrow> failure_type" where
  "mapErrorToFailureType msg =
     (let m = js_lower msg; has = str_includes m in
      if has ''429'' \<or> has ''rate limit'' \<or> has ''quota'' then API_RATE_LIMIT
      else if has ''401'' \<or> has ''403'' \<or> has ''auth'' \<or> has ''permission'' then API_AUTH_ERROR
      else if has ''500'' \<or> has ''503'' \<or> has ''internal'' \<or> has ''unavailable''
        then API_SERVER_ERROR
      else if has ''400'' \<or> has ''bad request'' \<or> has ''invalid argument'' then API_BAD_REQUEST
      else if has ''json'' \<or> has ''parse'' then SCHEMA_DRIFT
      else if has ''safety'' \<or> has ''blocked'' then SAFETY_VIOLATION
      else if has ''timeout'' then NETWORK_TIMEOUT
      else if has ''quality gate'' \<or> has ''breach'' then QUALITY_BREACH
      else UNKNOWN)"

definition plan :: "recovery_action \<Rightarrow> recovery_model \<Rightarrow> dict option \<Rightarrow> real \<Rightarrow> correction_plan" where
  "plan a m ps c =
     \<lparr>cp_action = a, cp_model = m, cp_parameters = ps, cp_estimatedCost = c\<rparr>"

definition error_json :: "string option \<Rightarrow> (string \<times> json) list" where
  \<comment> \<open>\<open>errorContext: event.context['error']\<close>, absent when undefined\<close>
  "error_json e = (case e of None \<Rightarrow> [] | Some m \<Rightarrow> [(''errorContext'', JStr m)])"

fun strategy :: "failure_type \<Rightarrow> resilience_event \<Rightarrow> correction_plan" where
  "strategy SCHEMA_DRIFT ev =
     plan SELF_CORRECT Flash
       (Some (spread None ((''instruction'', JStr ''Fix the JSON syntax'') # error_json (re_error ev))))
       0.00005"
| "strategy NETWORK_TIMEOUT ev =
     plan RETRY Flash
       (Some (spread None [(''timeoutMs'', JNum (5000 * (of_int (re_attempt ev) + 1)))])) 0"
| "strategy API_SERVER_ERROR ev =
     plan RETRY Flash
       (Some (spread None [(''timeoutMs'', JNum (5000 * (of_int (re_attempt ev) + 1)))])) 0"
| "strategy API_RATE_LIMIT ev =
     plan RETRY Flash
       (Some (spread None [(''timeoutMs'', JNum (1000 * 2 powi (re_attempt ev)))])) 0"
| "strategy SAFETY_VIOLATION ev = plan FALLBACK Edge None 0"
| "strategy API_AUTH_ERROR ev = plan FALLBACK Edge None 0"
| "strategy API_BAD_REQUEST ev = plan FALLBACK Edge None 0"
| "strategy TOKEN_LIMIT ev = plan ABORT Edge None 0"
| "strategy QUALITY_BREACH ev = plan DEGRADE_SERVICE Edge None 0"
| "strategy UNKNOWN ev = plan FALLBACK Edge None 0"

definition refine_type :: "resilience_event \<Rightarrow> failure_type" where
  "refine_type ev =
     (case re_error ev of
        Some m \<Rightarrow>
          if re_type ev = UNKNOWN \<and> m \<noteq> [] then mapErrorToFailureType m else re_type ev
      | None \<Rightarrow> re_type ev)"

definition assessFailure :: "resilience_event \<Rightarrow> correction_plan" where
  "assessFailure ev =
     (if re_costSoFar ev > 0.05 then plan ABORT Edge None 0
      else if re_attempt ev \<ge> 3 then plan FALLBACK Edge None 0
      else strategy (refine_type ev) ev)"

definition assessFailure_infra :: "resilience_event \<Rightarrow> correction_plan" where
  \<comment> \<open>the copy under \<open>infrastructure/\<close>, which inlines the refinement of the type\<close>
  "assessFailure_infra ev =
     (let refinedType =
            (if re_type ev = UNKNOWN \<and> truthy_string (re_error ev)
             then mapErrorToFailureType (the (re_error ev)) else re_type ev)
      in if re_costSoFar ev > 0.05 then plan ABORT Edge None 0
         else if re_attempt ev \<ge> 3 then plan FALLBACK Edge None 0
         else strategy refinedType ev)"

lemma plan_sel [simp]:
  "cp_action (plan a m ps c) = a" "cp_model (plan a m ps c) = m"
  "cp_parameters (plan a m ps c) = ps" "cp_estimatedCost (plan a m ps c) = c"
  by (simp_all add: plan_def)

lemma spread_simps [simp]:
  "spread None kvs = foldl (\<lambda>m (k, v). m(k \<mapsto> v)) Map.empty kvs"
  by (simp add: spread_def)

lemma assessFailure_infra_eq: "assessFailure_infra ev = assessFailure ev"
  by (auto simp: assessFailure_infra_def assessFailure_def refine_type_def Let_def
      split: option.split)

subsection \<open>The retry loop's requirements\<close>

definition continues :: "correction_plan \<Rightarrow> bool" where
  \<comment> \<open>the actions after which the caller tries again\<close>
  "continues p \<longleftrightarrow> cp_action p = RETRY \<or> cp_action p = SELF_CORRECT"

definition timeout_of :: "correction_plan \<Rightarrow> real option" where
  "timeout_of p =
     (case prop_of (cp_parameters p) ''timeoutMs'' of Some (JNum r) \<Rightarrow> Some r | _ \<Rightarrow> None)"

locale recovery_strategy =
  fixes assess :: "resilience_event \<Rightarrow> correction_plan"
    and max_attempts :: int
    and unit_cost :: real
    and budget :: real
  assumes gives_up: "max_attempts \<le> re_attempt ev \<Longrightarrow> \<not> continues (assess ev)"
    and over_budget: "budget < re_costSoFar ev \<Longrightarrow> \<not> continues (assess ev)"
    and cost_nonneg: "0 \<le> cp_estimatedCost (assess ev)"
    and cost_bound: "cp_estimatedCost (assess ev) \<le> unit_cost"
begin

fun attempts_cost :: "(int \<Rightarrow> resilience_event) \<Rightarrow> nat \<Rightarrow> int \<Rightarrow> real \<Rightarrow> int \<times> real" where
  \<comment> \<open>the accounting of a caller that meets a failure in every attempt: the number of
      attempts made and the cost charged\<close>
  "attempts_cost evs 0 n c = (n, c)"
| "attempts_cost evs (Suc fuel) n c =
     (let p = assess ((evs n)\<lparr>re_attempt := n, re_costSoFar := c\<rparr>); c' = c + cp_estimatedCost p
      in if continues p then attempts_cost evs fuel (n + 1) c' else (n, c'))"

lemma attempts_cost_bound:
  assumes "n \<le> max_attempts"
  shows "fst (attempts_cost evs fuel n c) \<le> max_attempts"
  using assms
proof (induction fuel arbitrary: n c)
  case 0
  then show ?case by simp
next
  case (Suc fuel)
  show ?case
  proof (cases "continues (assess ((evs n)\<lparr>re_attempt := n, re_costSoFar := c\<rparr>))")
    case True
    then have "n \<noteq> max_attempts" using gives_up [of "(evs n)\<lparr>re_attempt := n, re_costSoFar := c\<rparr>"] by auto
    then have "n + 1 \<le> max_attempts" using Suc.prems by simp
    then show ?thesis using Suc.IH True by (simp add: Let_def)
  next
    case False
    then show ?thesis using Suc.prems by (simp add: Let_def)
  qed
qed

lemma attempts_cost_charge:
  assumes "1 \<le> n" "n \<le> max_attempts" "0 \<le> unit_cost"
  shows "snd (attempts_cost evs fuel n c) \<le> c + of_int (max_attempts - n + 1) * unit_cost"
  using assms
proof (induction fuel arbitrary: n c)
  case 0
  then show ?case by simp
next
  case (Suc fuel)
  let ?p = "assess ((evs n)\<lparr>re_attempt := n, re_costSoFar := c\<rparr>)"
  have cb: "cp_estimatedCost ?p \<le> unit_cost" by (rule cost_bound)
  show ?case
  proof (cases "continues ?p")
    case True
    then have lt: "n + 1 \<le> max_attempts"
      using gives_up [of "(evs n)\<lparr>re_attempt := n, re_costSoFar := c\<rparr>"] Suc.prems by force
    have "snd (attempts_cost evs fuel (n + 1) (c + cp_estimatedCost ?p))
        \<le> c + cp_estimatedCost ?p + of_int (max_attempts - (n + 1) + 1) * unit_cost"
      using Suc.IH [of "n + 1"] Suc.prems lt by simp
    also have "\<dots> \<le> c + of_int (max_attempts - n + 1) * unit_cost"
      using cb by (simp add: algebra_simps)
    finally show ?thesis using True by (simp add: Let_def)
  next
    case False
    have "unit_cost * 1 \<le> unit_cost * of_int (max_attempts - n + 1)"
      using Suc.prems by (intro mult_left_mono) auto
    then show ?thesis using False cb by (simp add: Let_def algebra_simps)
  qed
qed

end

lemma strategy_cost:
  "0 \<le> cp_estimatedCost (strategy t ev)" "cp_estimatedCost (strategy t ev) \<le> 0.00005"
  by (cases t; simp)+

lemma assessFailure_cost:
  "0 \<le> cp_estimatedCost (assessFailure ev)" "cp_estimatedCost (assessFailure ev) \<le> 0.00005"
  using strategy_cost [of "refine_type ev" ev] by (simp_all add: assessFailure_def)

lemma assessFailure_stops:
  "3 \<le> re_attempt ev \<Longrightarrow> \<not> continues (assessFailure ev)"
  "0.05 < re_costSoFar ev \<Longrightarrow> \<not> continues (assessFailure ev)"
  by (simp_all add: assessFailure_def continues_def)

interpretation engine: recovery_strategy assessFailure 3 "0.00005" "0.05"
  by unfold_locales (rule assessFailure_stops assessFailure_cost, assumption?)+

lemma strategy_continues:
  "continues (strategy t ev) \<longleftrightarrow>
     t \<in> {SCHEMA_DRIFT, NETWORK_TIMEOUT, API_SERVER_ERROR, API_RATE_LIMIT}"
  by (cases t) (simp_all add: continues_def)

lemma assessFailure_continues:
  "continues (assessFailure ev) \<longleftrightarrow>
     re_costSoFar ev \<le> 0.05 \<and> re_attempt ev < 3 \<and>
     refine_type ev \<in> {SCHEMA_DRIFT, NETWORK_TIMEOUT, API_SERVER_ERROR, API_RATE_LIMIT}"
  by (auto simp: assessFailure_def strategy_continues) (auto simp: continues_def)

lemma retry_timeout:
  assumes "cp_action (assessFailure ev) = RETRY" "1 \<le> re_attempt ev"
  shows "\<exists>r. timeout_of (assessFailure ev) = Some r \<and> 2000 \<le> r \<and> r \<le> 15000"
proof -
  have c: "continues (assessFailure ev)" using assms by (simp add: continues_def)
  then have lt: "re_costSoFar ev \<le> 0.05" "re_attempt ev < 3" by (simp_all add: assessFailure_continues)
  then have a: "assessFailure ev = strategy (refine_type ev) ev" by (simp add: assessFailure_def)
  have "re_attempt ev = 1 \<or> re_attempt ev = 2" using assms(2) lt by linarith
  then show ?thesis
    using assms(1) unfolding a
    by (cases "refine_type ev") (auto simp: timeout_of_def power_int_def)
qed

subsection \<open>The quality gate\<close>

datatype metric = UCR | ORR | MTTH | LATENCY_MS | ERROR_RATE

datatype severity = WARNING | CRITICAL

datatype direction = Above | Below

record threshold =
  th_warn :: real
  th_critical :: real
  th_direction :: direction

record quality_alert =
  qa_metric :: metric
  qa_currentValue :: real
  qa_threshold :: real
  qa_severity :: severity

fun thresholds :: "metric \<Rightarrow> threshold" where
  "thresholds UCR = \<lparr>th_warn = 0.85, th_critical = 0.70, th_direction = Below\<rparr>"
| "thresholds ORR = \<lparr>th_warn = 0.50, th_critical = 0.20, th_direction = Below\<rparr>"
| "thresholds MTTH = \<lparr>th_warn = 300, th_critical = 60, th_direction = Below\<rparr>"
| "thresholds LATENCY_MS = \<lparr>th_warn = 1500, th_critical = 3000, th_direction = Above\<rparr>"
| "thresholds ERROR_RATE = \<lparr>th_warn = 0.05, th_critical = 0.10, th_direction = Above\<rparr>"

definition quality_alert_for :: "metric \<Rightarrow> real \<Rightarrow> quality_alert option" where
  "quality_alert_for m v =
     (let r = thresholds m;
          alert = (\<lambda>t s. Some \<lparr>qa_metric = m, qa_currentValue = v, qa_threshold = t, qa_severity = s\<rparr>)
      in case th_direction r of
           Below \<Rightarrow>
             if v < th_critical r then alert (th_critical r) CRITICAL
             else if v < th_warn r then alert (th_warn r) WARNING
             else None
         | Above \<Rightarrow>
             if v > th_critical r then alert (th_critical r) CRITICAL
             else if v > th_warn r then alert (th_warn r) WARNING
             else None)"

definition handleAlert :: "quality_alert \<Rightarrow> quality_alert + unit" where
  \<comment> \<open>\<open>Inl\<close>: throws the \<open>QualityGateError\<close> of the alert; a warning is only logged\<close>
  "handleAlert al = (if qa_severity al = CRITICAL then Inl al else Inr ())"

definition checkMetric :: "metric \<Rightarrow> real \<Rightarrow> quality_alert + unit" where
  "checkMetric m v =
     (case quality_alert_for m v of None \<Rightarrow> Inr () | Some al \<Rightarrow> handleAlert al)"

definition qa_error_message :: "string" where
  \<comment> \<open>the start of the message of a \<open>QualityGateError\<close>\<close>
  "qa_error_message = ''Quality Gate Breach: ''"

lemma checkMetric_throws:
  "(\<exists>al. checkMetric m v = Inl al) \<longleftrightarrow>
     (if th_direction (thresholds m) = Below then v < th_critical (thresholds m)
      else v > th_critical (thresholds m))"
  by (cases "th_direction (thresholds m)")
    (auto simp: checkMetric_def quality_alert_for_def handleAlert_def Let_def)

lemma checkMetric_UCR: "checkMetric UCR v = Inr () \<longleftrightarrow> 0.7 \<le> v"
  by (auto simp: checkMetric_def quality_alert_for_def handleAlert_def Let_def)

lemma checkMetric_LATENCY: "checkMetric LATENCY_MS v = Inr () \<longleftrightarrow> v \<le> 3000"
  by (auto simp: checkMetric_def quality_alert_for_def handleAlert_def Let_def)

end
