(* ===== verification/AgentMemory.thy ===== *)
theory AgentMemory
  imports JsPrelude "HOL-Library.Multiset"
begin

text \<open>
  The agent's memory (\<open>api/src/application/ports/AgentMemoryPort.ts\<close>) in its two local
  implementations: \<open>InMemoryAgentMemory\<close> (prefix \<open>im_\<close>) and the file-backed
  \<open>PersistedAgentMemory\<close> (prefix \<open>pm_\<close>), both under \<open>api/src/infrastructure/memory/\<close>.
  JavaScript's \<open>Map\<close> and plain objects keep their keys in the order of insertion, so the theme
  scores are association lists (themes that look like array indices, which a plain object would
  list first, are outside the model).  The file is modelled by its parsed content
  (\<open>None\<close>: missing or unreadable); whether a read or a write succeeds is an argument.
\<close>

datatype memory_type = EPISODIC | SEMANTIC | PROCEDURAL | PREFERENCE

datatype outcome = POSITIVE | NEGATIVE

record memory_context =
  mc_userId :: string
  mc_sessionId :: "string option"

record memory_record =
  mr_id :: string
  mr_type :: memory_type
  mr_content :: string
  mr_confidence :: real
  mr_timestamp :: millis
  mr_metadata :: "dict option"

type_synonym scores = "(string \<times> real) list"

fun assoc_get :: "scores \<Rightarrow> string \<Rightarrow> real option" where
  "assoc_get [] k = None"
| "assoc_get ((k', v) # xs) k = (if k' = k then Some v else assoc_get xs k)"

fun assoc_set :: "scores \<Rightarrow> string \<Rightarrow> real \<Rightarrow> scores" where
  "assoc_set [] k v = [(k, v)]"
| "assoc_set ((k', v') # xs) k v = (if k' = k then (k, v) # xs else (k', v') # assoc_set xs k v)"

definition or_number :: "real option \<Rightarrow> real \<Rightarrow> real" where
  \<comment> \<open>\<open>x || d\<close> on numbers: 0 counts as absent\<close>
  "or_number x d = (case x of None \<Rightarrow> d | Some r \<Rightarrow> if r = 0 then d else r)"

definition top_scores :: "scores \<Rightarrow> nat \<Rightarrow> scores" where
  \<comment> \<open>the stable sort by descending score, then \<open>slice(0, limit)\<close>\<close>
  "top_scores xs limit = take limit (sort_key (\<lambda>(k, v). - v) xs)"

definition memory_filter ::
    "string \<Rightarrow> memory_context \<Rightarrow> memory_type option \<Rightarrow> memory_record \<Rightarrow> bool" where
  \<comment> \<open>the predicate of \<open>retrieve\<close>, the same in both classes\<close>
  "memory_filter query ctx type m =
     ((case type of None \<Rightarrow> True | Some t \<Rightarrow> mr_type m = t) \<and>
      (type = Some EPISODIC \<and> truthy_string (mc_sessionId ctx) \<longrightarrow>
         prop_of (mr_metadata m) ''sessionId'' = map_option JStr (mc_sessionId ctx)) \<and>
      (query = ''*'' \<or> str_includes (js_lower (mr_content m)) (js_lower query)))"

definition procedural_defaults :: "millis \<Rightarrow> memory_record list" where
  "procedural_defaults now =
     [\<lparr>mr_id = ''proc_1'', mr_type = PROCEDURAL,
       mr_content = ''If time is past 8 PM, bias towards CALMING themes.'',
       mr_confidence = 0.9, mr_timestamp = now, mr_metadata = None\<rparr>,
      \<lparr>mr_id = ''proc_2'', mr_type = PROCEDURAL,
       mr_content = ''If child age < 5, limit story duration to SHORT.'',
       mr_confidence = 0.95, mr_timestamp = now, mr_metadata = None\<rparr>]"

definition memory_entry ::
    "string \<Rightarrow> memory_type \<Rightarrow> string \<Rightarrow> millis \<Rightarrow> dict option \<Rightarrow> memory_record" where
  "memory_entry i t c now md =
     \<lparr>mr_id = i, mr_type = t, mr_content = c, mr_confidence = 1, mr_timestamp = now,
      mr_metadata = md\<rparr>"

definition memory_id :: "millis \<Rightarrow> string \<Rightarrow> string" where
  "memory_id now rnd = ''mem_'' @ show_int now @ ''_'' @ rnd"

subsection \<open>The volatile memory\<close>

record im_memory =
  im_memories :: "memory_record list"
  im_themeScores :: scores

definition im_init :: "millis \<Rightarrow> im_memory" where
  "im_init now = \<lparr>im_memories = procedural_defaults now, im_themeScores = []\<rparr>"

definition im_retrieve ::
    "im_memory \<Rightarrow> string \<Rightarrow> memory_context \<Rightarrow> memory_type option \<Rightarrow> nat option \<Rightarrow> memory_record list" where
  "im_retrieve s query ctx type limit =
     take (case limit of None \<Rightarrow> 5 | Some n \<Rightarrow> n)
       (filter (memory_filter query ctx type) (im_memories s))"

definition im_store ::
    "im_memory \<Rightarrow> string \<Rightarrow> memory_type \<Rightarrow> memory_context \<Rightarrow> dict option \<Rightarrow> millis \<Rightarrow> string \<Rightarrow> im_memory" where
  "im_store s content type ctx md now rnd =
     s\<lparr>im_memories := im_memories s @ [memory_entry (memory_id now rnd) type content now md]\<rparr>"

definition im_trackOutcome :: "im_memory \<Rightarrow> string \<Rightarrow> outcome \<Rightarrow> memory_context \<Rightarrow> im_memory" where
  "im_trackOutcome s theme oc ctx =
     (let current = or_number (assoc_get (im_themeScores s) theme) 1;
          delta = (if oc = POSITIVE then 1 else - 0.5)
      in s\<lparr>im_themeScores := assoc_set (im_themeScores s) theme (current + delta)\<rparr>)"

definition im_getThemeStats :: "im_memory \<Rightarrow> memory_context \<Rightarrow> nat option \<Rightarrow> scores" where
  "im_getThemeStats s ctx limit =
     top_scores (im_themeScores s) (case limit of None \<Rightarrow> 3 | Some n \<Rightarrow> n)"

definition im_trackPreferencePair ::
    "im_memory \<Rightarrow> string \<Rightarrow> string \<Rightarrow> memory_context \<Rightarrow> im_memory" where
  "im_trackPreferencePair s win lose ctx = s"

subsection \<open>The file-backed memory\<close>

record preference_pair =
  pp_win :: string
  pp_lose :: string
  pp_timestamp :: millis

record memory_db =
  db_memories :: "memory_record list"
  db_themeScores :: "scores option"
  db_preferencePairs :: "preference_pair list option"
  db_version :: nat

record pm_memory =
  pm_memories :: "memory_record list"
  pm_themeScores :: scores
  pm_preferencePairs :: "preference_pair list"
  pm_initialized :: bool
  pm_file :: "memory_db option"

datatype io_error = PersistFailed

record io =
  \<comment> \<open>whether the file operations of one call succeed\<close>
  io_read :: bool
  io_write :: bool

definition pm_new :: "memory_db option \<Rightarrow> pm_memory" where
  "pm_new file =
     \<lparr>pm_memories = [], pm_themeScores = [], pm_preferencePairs = [], pm_initialized = False,
      pm_file = file\<rparr>"

definition pm_persist :: "pm_memory \<Rightarrow> io \<Rightarrow> (io_error + unit) \<times> pm_memory" where
  \<comment> \<open>written to a temporary file that replaces the database by a rename, so a failed write
      leaves the old content\<close>
  "pm_persist s w =
     (if io_write w
      then (Inr (), s\<lparr>pm_file := Some \<lparr>db_memories = pm_memories s,
              db_themeScores = Some (pm_themeScores s),
              db_preferencePairs = Some (pm_preferencePairs s), db_version = 2\<rparr>\<rparr>)
      else (Inl PersistFailed, s))"

definition pm_init :: "pm_memory \<Rightarrow> millis \<Rightarrow> io \<Rightarrow> (io_error + unit) \<times> pm_memory" where
  "pm_init s now w =
     (if pm_initialized s then (Inr (), s)
      else
        (case (if io_read w then pm_file s else None) of
           Some db \<Rightarrow>
             (Inr (), s\<lparr>pm_memories := db_memories db,
                pm_themeScores := (case db_themeScores db of None \<Rightarrow> [] | Some x \<Rightarrow> x),
                pm_preferencePairs := (case db_preferencePairs db of None \<Rightarrow> [] | Some x \<Rightarrow> x),
                pm_initialized := True\<rparr>)
         | None \<Rightarrow>
             (case pm_persist (s\<lparr>pm_memories := procedural_defaults now, pm_themeScores := [],
                        pm_preferencePairs := []\<rparr>) w of
                (Inl e, s') \<Rightarrow> (Inl e, s')
              | (Inr _, s') \<Rightarrow> (Inr (), s'\<lparr>pm_initialized := True\<rparr>))))"

definition pm_retrieve ::
    "pm_memory \<Rightarrow> string \<Rightarrow> memory_context \<Rightarrow> memory_type option \<Rightarrow> nat option \<Rightarrow> millis \<Rightarrow> io
     \<Rightarrow> (io_error + memory_record list) \<times> pm_memory" where
  "pm_retrieve s query ctx type limit now w =
     (case pm_init s now w of
        (Inl e, s') \<Rightarrow> (Inl e, s')
      | (Inr _, s') \<Rightarrow>
          (Inr (take (case limit of None \<Rightarrow> 5 | Some n \<Rightarrow> n)
             (sort_key (\<lambda>m. - mr_timestamp m)
               (filter (memory_filter query ctx type) (pm_memories s')))), s'))"

definition pm_store ::
    "pm_memory \<Rightarrow> string \<Rightarrow> memory_type \<Rightarrow> memory_context \<Rightarrow> dict option \<Rightarrow> millis \<Rightarrow> string \<Rightarrow> io
     \<Rightarrow> (io_error + unit) \<times> pm_memory" where
  "pm_store s content type ctx md now rnd w =
     (case pm_init s now w of
        (Inl e, s') \<Rightarrow> (Inl e, s')
      | (Inr _, s') \<Rightarrow>
          pm_persist (s'\<lparr>pm_memories := pm_memories s' @
             [memory_entry (memory_id now rnd) type content now md]\<rparr>) w)"

definition pm_trackOutcome ::
    "pm_memory \<Rightarrow> string \<Rightarrow> outcome \<Rightarrow> memory_context \<Rightarrow> millis \<Rightarrow> io
     \<Rightarrow> (io_error + unit) \<times> pm_memory" where
  "pm_trackOutcome s theme oc ctx now w =
     (case pm_init s now w of
        (Inl e, s') \<Rightarrow> (Inl e, s')
      | (Inr _, s') \<Rightarrow>
          (let current = or_number (assoc_get (pm_themeScores s') theme) 0;
               delta = (if oc = POSITIVE then 1 else - 0.5);
               score = of_int (js_round_real ((current + delta) * 10)) / 10
           in pm_persist (s'\<lparr>pm_themeScores := assoc_set (pm_themeScores s') theme score\<rparr>) w))"

definition pm_getThemeStats ::
    "pm_memory \<Rightarrow> memory_context \<Rightarrow> nat option \<Rightarrow> millis \<Rightarrow> io \<Rightarrow> (io_error + scores) \<times> pm_memory" where
  "pm_getThemeStats s ctx limit now w =
     (case pm_init s now w of
        (Inl e, s') \<Rightarrow> (Inl e, s')
      | (Inr _, s') \<Rightarrow>
          (Inr (top_scores (pm_themeScores s') (case limit of None \<Rightarrow> 3 | Some n \<Rightarrow> n)), s'))"

definition pm_trackPreferencePair ::
    "pm_memory \<Rightarrow> string \<Rightarrow> string \<Rightarrow> memory_context \<Rightarrow> millis \<Rightarrow> millis \<Rightarrow> io
     \<Rightarrow> (io_error + unit) \<times> pm_memory" where
  "pm_trackPreferencePair s win lose ctx now later w =
     (case pm_init s now w of
        (Inl e, s') \<Rightarrow> (Inl e, s')
      | (Inr _, s') \<Rightarrow>
          pm_persist (s'\<lparr>pm_preferencePairs := pm_preferencePairs s' @
             [\<lparr>pp_win = win, pp_lose = lose, pp_timestamp = later\<rparr>]\<rparr>) w)"

subsection \<open>Association lists and rankings\<close>

lemma assoc_get_set [simp]:
  "assoc_get (assoc_set xs k v) k' = (if k' = k then Some v else assoc_get xs k')"
  by (induction xs k v rule: assoc_set.induct) auto

lemma keys_assoc_set: "fst ` set (assoc_set xs k v) = insert k (fst ` set xs)"
  by (induction xs k v rule: assoc_set.induct) auto

lemma distinct_assoc_set: "distinct (map fst xs) \<Longrightarrow> distinct (map fst (assoc_set xs k v))"
  by (induction xs k v rule: assoc_set.induct) (auto simp: keys_assoc_set image_iff)

lemma assoc_get_in: "assoc_get xs k = Some v \<Longrightarrow> (k, v) \<in> set xs"
  by (induction xs k rule: assoc_get.induct) (auto split: if_splits)

lemma assoc_get_iff: "distinct (map fst xs) \<Longrightarrow> assoc_get xs k = Some v \<longleftrightarrow> (k, v) \<in> set xs"
  by (induction xs k rule: assoc_get.induct) (force simp: image_iff)+

lemma assoc_get_None: "assoc_get xs k = None \<longleftrightarrow> k \<notin> fst ` set xs"
  by (induction xs k rule: assoc_get.induct) auto

lemma length_top_scores: "length (top_scores xs n) \<le> n"
  by (simp add: top_scores_def)

lemma set_top_scores: "set (top_scores xs n) \<subseteq> set xs"
  using set_take_subset [of n "sort_key (\<lambda>(k, v). - v) xs"] by (simp add: top_scores_def)

lemma sorted_top_scores: "sorted (map (\<lambda>(k, v). - v) (top_scores xs n))"
proof -
  let ?s = "sort_key (\<lambda>(k, v). - v) xs"
  have "sorted (map (\<lambda>(k, v). - v) ?s)" by (rule sorted_sort_key)
  then have "sorted (take n (map (\<lambda>(k, v). - v) ?s))" by (rule sorted_wrt_take)
  then show ?thesis by (simp only: top_scores_def take_map)
qed

text \<open>What is cut off scores no better than what is kept.\<close>

lemma top_scores_best:
  assumes "(k, v) \<in> set (top_scores xs n)" "(k', v') \<in> set xs" "(k', v') \<notin> set (top_scores xs n)"
  shows "v' \<le> v"
proof -
  let ?s = "sort_key (\<lambda>(k, v). - v) xs"
  have "(k', v') \<in> set ?s" using assms(2) by simp
  then have d: "(k', v') \<in> set (drop n ?s)"
    using assms(3) by (metis append_take_drop_id Un_iff set_append top_scores_def)
  have t: "(k, v) \<in> set (take n ?s)" using assms(1) by (simp only: top_scores_def)
  have "sorted (map (\<lambda>(k, v). - v) (take n ?s @ drop n ?s))"
    by (simp only: append_take_drop_id sorted_sort_key)
  then have "\<forall>x\<in>set (take n ?s). \<forall>y\<in>set (drop n ?s). (case x of (k, v) \<Rightarrow> - v) \<le> (case y of (k, v) \<Rightarrow> - v)"
    by (simp only: map_append sorted_append) simp
  from bspec [OF bspec [OF this t] d] show ?thesis by simp
qed

subsection \<open>The contract of the port\<close>

text \<open>
  What the callers of \<open>AgentMemoryPort\<close> rely on: \<open>store\<close> appends one record of
  confidence 1, and \<open>retrieve\<close> returns at most \<open>limit\<close> stored records, each passing the
  filter, and all of them when they fit.
\<close>

locale agent_memory =
  fixes retrieve :: "'m \<Rightarrow> string \<Rightarrow> memory_context \<Rightarrow> memory_type option \<Rightarrow> nat option \<Rightarrow> memory_record list"
    and store :: "'m \<Rightarrow> string \<Rightarrow> memory_type \<Rightarrow> memory_context \<Rightarrow> dict option \<Rightarrow> millis \<Rightarrow> string \<Rightarrow> 'm"
    and contents :: "'m \<Rightarrow> memory_record list"
    and ready :: "'m \<Rightarrow> bool"
  assumes store_ready: "ready s \<Longrightarrow> ready (store s c t ctx md now rnd)"
    and store_contents: "ready s \<Longrightarrow>
      contents (store s c t ctx md now rnd) = contents s @ [memory_entry (memory_id now rnd) t c now md]"
    and retrieve_length: "ready s \<Longrightarrow>
      length (retrieve s q ctx ty l) = min (case l of None \<Rightarrow> 5 | Some n \<Rightarrow> n)
        (length (filter (memory_filter q ctx ty) (contents s)))"
    and retrieve_subset: "ready s \<Longrightarrow>
      set (retrieve s q ctx ty l) \<subseteq> set (filter (memory_filter q ctx ty) (contents s))"
    and retrieve_all: "\<lbrakk>ready s;
      length (filter (memory_filter q ctx ty) (contents s)) \<le> (case l of None \<Rightarrow> 5 | Some n \<Rightarrow> n)\<rbrakk>
      \<Longrightarrow> set (retrieve s q ctx ty l) = set (filter (memory_filter q ctx ty) (contents s))"
begin

lemma stored_is_found:
  assumes "ready s"
    and "memory_filter q ctx ty (memory_entry (memory_id now rnd) t c now md)"
    and "length (filter (memory_filter q ctx ty) (contents s)) < n"
  shows "memory_entry (memory_id now rnd) t c now md
           \<in> set (retrieve (store s c t ctx' md now rnd) q ctx ty (Some n))"
proof -
  let ?s = "store s c t ctx' md now rnd"
  have r: "ready ?s" using assms(1) by (rule store_ready)
  have c: "contents ?s = contents s @ [memory_entry (memory_id now rnd) t c now md]"
    using assms(1) by (rule store_contents)
  have "set (retrieve ?s q ctx ty (Some n)) = set (filter (memory_filter q ctx ty) (contents ?s))"
    by (rule retrieve_all [OF r]) (use assms(2,3) in \<open>simp add: c\<close>)
  then show ?thesis using assms(2) by (simp add: c)
qed

lemma retrieve_filtered:
  "\<lbrakk>ready s; m \<in> set (retrieve s q ctx ty l)\<rbrakk> \<Longrightarrow> m \<in> set (contents s) \<and> memory_filter q ctx ty m"
  using retrieve_subset [of s q ctx ty l] by auto

end

interpretation im: agent_memory im_retrieve im_store im_memories "\<lambda>_. True"
  by unfold_locales (auto simp: im_retrieve_def im_store_def dest: in_set_takeD split: option.splits)

definition pm_retrieved ::
    "millis \<Rightarrow> io \<Rightarrow> pm_memory \<Rightarrow> string \<Rightarrow> memory_context \<Rightarrow> memory_type option \<Rightarrow> nat option
     \<Rightarrow> memory_record list" where
  \<comment> \<open>the records a call of \<open>pm_retrieve\<close> returns (none when it throws)\<close>
  "pm_retrieved now w s q ctx ty l =
     (case fst (pm_retrieve s q ctx ty l now w) of Inl _ \<Rightarrow> [] | Inr ms \<Rightarrow> ms)"

definition pm_stored ::
    "io \<Rightarrow> pm_memory \<Rightarrow> string \<Rightarrow> memory_type \<Rightarrow> memory_context \<Rightarrow> dict option \<Rightarrow> millis \<Rightarrow> string
     \<Rightarrow> pm_memory" where
  "pm_stored w s c t ctx md now rnd = snd (pm_store s c t ctx md now rnd w)"

lemmas pm_defs = pm_init_def pm_persist_def pm_store_def pm_retrieve_def

lemma pm_stored_memories:
  assumes "pm_initialized s"
  shows "pm_memories (pm_stored w s c t ctx md now rnd)
           = pm_memories s @ [memory_entry (memory_id now rnd) t c now md]"
    and "pm_initialized (pm_stored w s c t ctx md now rnd)"
  using assms by (simp_all add: pm_stored_def pm_defs)

lemma pm_retrieved_eq:
  assumes "pm_initialized s"
  shows "pm_retrieved now w s q ctx ty l = take (case l of None \<Rightarrow> 5 | Some n \<Rightarrow> n)
     (sort_key (\<lambda>m. - mr_timestamp m) (filter (memory_filter q ctx ty) (pm_memories s)))"
  using assms by (simp add: pm_retrieved_def pm_defs)

interpretation pm: agent_memory "pm_retrieved now w" "pm_stored w" pm_memories pm_initialized
  for now w
  by unfold_locales
    (auto simp: pm_stored_memories pm_retrieved_eq dest!: in_set_takeD split: option.splits)

subsection \<open>Scores\<close>

lemma im_trackOutcome_get:
  "assoc_get (im_themeScores (im_trackOutcome s th oc ctx)) th' =
     (if th' = th
      then Some (or_number (assoc_get (im_themeScores s) th) 1 + (if oc = POSITIVE then 1 else - 0.5))
      else assoc_get (im_themeScores s) th')"
  by (simp add: im_trackOutcome_def Let_def assoc_get_set)

lemma pm_persist_ok: "io_write w \<Longrightarrow> fst (pm_persist s w) = Inr ()"
  by (simp add: pm_persist_def)

end
