(* ===== verification/JsRegex.thy ===== *)
theory JsRegex
  imports JsPrelude
begin

text \<open>
  Regular-expression tests as the code uses them (\<open>pattern.test(s)\<close> and the truth value of
  \<open>s.match(pattern)\<close>): characters and classes, sequence, alternative, star, the word boundary
  \<open>\b\<close> and the start of the input.  \<open>rmatch\<close> is an executable matcher; a position is the
  character before it and the rest of the input.  \<open>matches\<close> is the declarative reading of a
  pattern, and the two agree (\<open>rmatch_iff\<close>).
\<close>

datatype rx =
    REps
  | RChr "char \<Rightarrow> bool"
  | RSeq rx rx
  | RAlt rx rx
  | RStar rx
  | RWordB
  | RBol

type_synonym pos = "char option \<times> string"

definition word_char :: "char \<Rightarrow> bool" where
  "word_char c =
     (let n = code c in (48 \<le> n \<and> n \<le> 57) \<or> (65 \<le> n \<and> n \<le> 90) \<or> n = 95 \<or> (97 \<le> n \<and> n \<le> 122))"

definition at_word_boundary :: "pos \<Rightarrow> bool" where
  "at_word_boundary st =
     ((case fst st of None \<Rightarrow> False | Some c \<Rightarrow> word_char c) \<noteq>
      (case snd st of [] \<Rightarrow> False | c # _ \<Rightarrow> word_char c))"

fun star_iter :: "nat \<Rightarrow> (pos \<Rightarrow> pos list) \<Rightarrow> pos \<Rightarrow> pos list" where
  "star_iter 0 m st = [st]"
| "star_iter (Suc n) m st =
     concat (map (star_iter n m) (filter (\<lambda>st'. length (snd st') < length (snd st)) (m st))) @ [st]"

primrec rmatch :: "rx \<Rightarrow> pos \<Rightarrow> pos list" where
  "rmatch REps st = [st]"
| "rmatch (RChr f) st =
     (case snd st of [] \<Rightarrow> [] | c # cs \<Rightarrow> if f c then [(Some c, cs)] else [])"
| "rmatch (RSeq a b) st = concat (map (rmatch b) (rmatch a st))"
| "rmatch (RAlt a b) st = rmatch a st @ rmatch b st"
| "rmatch (RStar a) st = star_iter (length (snd st)) (rmatch a) st"
| "rmatch RWordB st = (if at_word_boundary st then [st] else [])"
| "rmatch RBol st = (if fst st = None then [st] else [])"

fun rsearch :: "rx \<Rightarrow> char option \<Rightarrow> string \<Rightarrow> bool" where
  "rsearch r p [] = (rmatch r (p, []) \<noteq> [])"
| "rsearch r p (c # cs) = (rmatch r (p, c # cs) \<noteq> [] \<or> rsearch r (Some c) cs)"

definition rtest :: "rx \<Rightarrow> string \<Rightarrow> bool" where
  "rtest r s = rsearch r None s"

text \<open>Building blocks of the patterns.\<close>

definition same_ci :: "char \<Rightarrow> char \<Rightarrow> bool" where
  \<comment> \<open>the \<open>i\<close> flag on an ASCII letter\<close>
  "same_ci c d = (js_lower_char c = js_lower_char d)"

definition rlit :: "string \<Rightarrow> rx" where
  "rlit s = foldr (\<lambda>c r. RSeq (RChr ((=) c)) r) s REps"

definition rlit_ci :: "string \<Rightarrow> rx" where
  "rlit_ci s = foldr (\<lambda>c r. RSeq (RChr (same_ci c)) r) s REps"

definition rseq :: "rx list \<Rightarrow> rx" where
  "rseq rs = foldr RSeq rs REps"

fun ralt :: "rx list \<Rightarrow> rx" where
  "ralt [] = RChr (\<lambda>_. False)"
| "ralt [r] = r"
| "ralt (r # rs) = RAlt r (ralt rs)"

definition rplus :: "rx \<Rightarrow> rx" where
  "rplus r = RSeq r (RStar r)"

definition ropt :: "rx \<Rightarrow> rx" where
  "ropt r = RAlt r REps"

definition rspaces :: rx where
  \<comment> \<open>\<open>\s+\<close>\<close>
  "rspaces = rplus (RChr js_space)"

definition rspaces0 :: rx where
  \<comment> \<open>\<open>\s*\<close>\<close>
  "rspaces0 = RStar (RChr js_space)"

subsection \<open>The declarative reading\<close>

inductive matches :: "rx \<Rightarrow> pos \<Rightarrow> pos \<Rightarrow> bool" where
  m_eps: "matches REps st st"
| m_chr: "f c \<Longrightarrow> matches (RChr f) (p, c # cs) (Some c, cs)"
| m_seq: "matches a st st1 \<Longrightarrow> matches b st1 st2 \<Longrightarrow> matches (RSeq a b) st st2"
| m_alt1: "matches a st st1 \<Longrightarrow> matches (RAlt a b) st st1"
| m_alt2: "matches b st st1 \<Longrightarrow> matches (RAlt a b) st st1"
| m_star0: "matches (RStar a) st st"
| m_star: "matches a st st1 \<Longrightarrow> matches (RStar a) st1 st2 \<Longrightarrow> matches (RStar a) st st2"
| m_word: "at_word_boundary st \<Longrightarrow> matches RWordB st st"
| m_bol: "matches RBol (None, s) (None, s)"

inductive_cases m_epsE [elim!]: "matches REps st st'"
inductive_cases m_chrE [elim!]: "matches (RChr f) st st'"
inductive_cases m_seqE [elim!]: "matches (RSeq a b) st st'"
inductive_cases m_altE [elim!]: "matches (RAlt a b) st st'"
inductive_cases m_wordE [elim!]: "matches RWordB st st'"
inductive_cases m_bolE [elim!]: "matches RBol st st'"

text \<open>A match consumes a prefix of the input; what it does not consume, it leaves as it was.\<close>

lemma matches_consumes:
  "matches r st st' \<Longrightarrow>
   (\<exists>u. snd st = u @ snd st' \<and> (u = [] \<longrightarrow> st' = st) \<and> (u \<noteq> [] \<longrightarrow> fst st' = Some (last u)))"
proof (induction rule: matches.induct)
  case (m_chr f c p cs)
  have "snd (p, c # cs) = [c] @ snd (Some c, cs)" by simp
  then show ?case by auto
next
  case (m_seq a st st1 b st2)
  then obtain u v where "snd st = u @ snd st1" "u = [] \<longrightarrow> st1 = st"
    "u \<noteq> [] \<longrightarrow> fst st1 = Some (last u)" "snd st1 = v @ snd st2" "v = [] \<longrightarrow> st2 = st1"
    "v \<noteq> [] \<longrightarrow> fst st2 = Some (last v)" by blast
  then show ?case by (intro exI [of _ "u @ v"]) auto
next
  case (m_star a st st1 st2)
  then obtain u v where "snd st = u @ snd st1" "u = [] \<longrightarrow> st1 = st"
    "u \<noteq> [] \<longrightarrow> fst st1 = Some (last u)" "snd st1 = v @ snd st2" "v = [] \<longrightarrow> st2 = st1"
    "v \<noteq> [] \<longrightarrow> fst st2 = Some (last v)" by blast
  then show ?case by (intro exI [of _ "u @ v"]) auto
qed auto

lemma matches_shrinks:
  assumes "matches r st st'" "\<not> length (snd st') < length (snd st)"
  shows "st' = st"
  using matches_consumes [OF assms(1)] assms(2) by auto

lemma star_iter_sound:
  assumes "\<And>st st'. st' \<in> set (m st) \<Longrightarrow> matches a st st'"
  shows "st' \<in> set (star_iter n m st) \<Longrightarrow> matches (RStar a) st st'"
proof (induction n arbitrary: st)
  case 0
  then show ?case by (auto intro: m_star0)
next
  case (Suc n)
  then show ?case by (auto intro: m_star0 m_star dest: assms)
qed

lemma star_iter_complete:
  assumes "\<And>st st'. matches a st st' \<Longrightarrow> st' \<in> set (m st)"
  shows "matches r st st' \<Longrightarrow> r = RStar a \<Longrightarrow> length (snd st) \<le> n \<Longrightarrow> st' \<in> set (star_iter n m st)"
proof (induction arbitrary: n rule: matches.induct)
  case (m_star0 b st)
  then show ?case by (cases n) auto
next
  case (m_star b st st1 st2)
  then have m1: "matches a st st1" by simp
  show ?case
  proof (cases "length (snd st1) < length (snd st)")
    case True
    then obtain k where n: "n = Suc k" using m_star.prems by (cases n) auto
    have "st2 \<in> set (star_iter k m st1)" using m_star.IH(2) m_star.prems True n by auto
    moreover have "st1 \<in> set (m st)" by (rule assms [OF m1])
    ultimately show ?thesis using True n by (cases st1) auto
  next
    case False
    then have "st1 = st" by (rule matches_shrinks [OF m1])
    then show ?thesis using m_star.IH(2) m_star.prems by blast
  qed
qed auto

lemma rmatch_iff: "st' \<in> set (rmatch r st) \<longleftrightarrow> matches r st st'"
proof (induction r arbitrary: st st')
  case (RStar a)
  show ?case
  proof
    assume "st' \<in> set (rmatch (RStar a) st)"
    then show "matches (RStar a) st st'"
      using star_iter_sound [of "rmatch a" a] RStar by simp
  next
    assume "matches (RStar a) st st'"
    then show "st' \<in> set (rmatch (RStar a) st)"
      using star_iter_complete [of a "rmatch a" "RStar a" st st'] RStar by simp
  qed
next
  case (RChr f)
  show ?case by (cases st) (auto intro: m_chr split: list.splits)
next
  case RBol
  show ?case by (cases st) (auto intro: m_bol)
qed (auto intro: matches.intros)

lemma rsearch_iff:
  "rsearch r p s \<longleftrightarrow>
     (\<exists>u v st'. s = u @ v \<and> matches r ((if u = [] then p else Some (last u)), v) st')"
proof (induction r p s rule: rsearch.induct)
  case (1 r p)
  have "rmatch r (p, []) \<noteq> [] \<longleftrightarrow> (\<exists>st'. matches r (p, []) st')"
    by (metis list.set_sel(1) rmatch_iff empty_iff list.set(1))
  then show ?case by simp
next
  case (2 r p c cs)
  have here: "rmatch r (p, c # cs) \<noteq> [] \<longleftrightarrow> (\<exists>st'. matches r (p, c # cs) st')"
    by (metis list.set_sel(1) rmatch_iff empty_iff list.set(1))
  show ?case (is "?l \<longleftrightarrow> ?r")
  proof
    assume ?l
    then consider "\<exists>st'. matches r (p, c # cs) st'" | "rsearch r (Some c) cs" using here by auto
    then show ?r
    proof cases
      case 1
      then show ?thesis by (intro exI [of _ "[]"] exI [of _ "c # cs"]) simp
    next
      case 2
      then obtain u v st' where "cs = u @ v"
        "matches r ((if u = [] then Some c else Some (last u)), v) st'"
        using "2.IH" by blast
      then have "c # cs = (c # u) @ v \<and>
          matches r ((if c # u = [] then p else Some (last (c # u))), v) st'"
        by (auto split: if_splits)
      then show ?thesis by blast
    qed
  next
    assume ?r
    then obtain u v st' where uv: "c # cs = u @ v"
      and m: "matches r ((if u = [] then p else Some (last u)), v) st'" by blast
    show ?l
    proof (cases u)
      case Nil
      then show ?thesis using here uv m by (cases st') auto
    next
      case (Cons d u')
      then have "cs = u' @ v \<and> matches r ((if u' = [] then Some c else Some (last u')), v) st'"
        using uv m by (auto split: if_splits)
      then have "rsearch r (Some c) cs" using "2.IH" by blast
      then show ?thesis by simp
    qed
  qed
qed

text \<open>A test succeeds exactly when some factor of the input, in its context, matches.\<close>

lemma rtest_iff:
  "rtest r s \<longleftrightarrow>
     (\<exists>u v st'. s = u @ v \<and> matches r ((if u = [] then None else Some (last u)), v) st')"
  by (simp add: rtest_def rsearch_iff)

lemma rmatch_rlit: "rmatch (rlit w) (p, w @ v) \<noteq> []"
proof (induction w arbitrary: p)
  case Nil
  then show ?case by (simp add: rlit_def)
next
  case (Cons c w)
  then show ?case by (simp add: rlit_def)
qed

lemma set_rmatch_rlit:
  "rmatch (rlit w) (p, s) = (if starts_with s w then [(if w = [] then p else Some (last w), drop (length w) s)] else [])"
proof (induction w arbitrary: p s)
  case Nil
  then show ?case by (simp add: rlit_def)
next
  case (Cons c w)
  show ?case
  proof (cases s)
    case Nil
    then show ?thesis by (simp add: rlit_def)
  next
    case (Cons d ds)
    then show ?thesis using Cons.IH [of "Some d" ds] by (auto simp: rlit_def)
  qed
qed

end
