(* ===== verification/Conductor.thy ===== *)
theory Conductor
  imports Effects SessionState Resilience AgentMemory JsRegex
begin

text \<open>
  The agent that runs a bedtime session
  (\<open>api/src/domain/agents/BedtimeConductorAgent.ts\<close>).  Its collaborators are the record
  \<open>ports\<close>: the session store, the optional memory, the language model (\<open>po_think\<close>), the
  prompt templates, the resilience engine, the optional quality gate and trace repository, the
  clock, and the UUID check and error text of the schema library.  A handler is an effect on a
  world \<^typ>\<open>'w\<close> that the ports read and change.  A session state read from the store is a
  value; the aliasing of the in-memory store, whose \<open>get\<close> hands out a reference, is the
  subject of theory \<open>SessionMemory\<close>.  Logging is left out.
\<close>

subsection \<open>Data\<close>

record session_config =
  sc_theme :: string
  sc_duration :: "duration option"
  sc_style :: "string option"
  sc_childName :: "string option"
  sc_childAge :: "real option"

record agent_context =
  cx_childName :: "string option"
  cx_childAge :: "real option"
  cx_currentMood :: "string option"
  cx_userId :: "string option"
  cx_sessionId :: "string option"
  cx_traceId :: "string option"
  cx_envContext :: "ambient_context option"

record resilience_meta =
  rm_failure :: "string option"
  rm_corrected :: "bool option"
  rm_cost :: "real option"

record reasoning_trace =
  rt_goals :: "string list"
  rt_conflict :: bool
  rt_conflicts :: "string option"
  rt_tradeOff :: "string option"
  rt_thought :: string
  rt_action :: string
  rt_confidence :: real
  rt_timestamp :: millis
  rt_meta :: "resilience_meta option"

record conduct_result =
  cr_request :: session_config
  cr_trace :: "reasoning_trace list"
  cr_notes :: "string option"

record suggestion =
  sg_id :: string
  sg_title :: string
  sg_theme :: string
  sg_reasoning :: string
  sg_confidence :: real

record observation_vars =
  ov_userMessage :: string
  ov_childName :: "string option"
  ov_childAge :: "real option"
  ov_currentMood :: "string option"
  ov_activeGoal :: "string option"
  ov_envContext :: "string option"
  ov_memoryContext :: string

record payload_context =
  pc_sessionId :: "string option"
  pc_userId :: "string option"

record beat_payload =
  bp_context :: "payload_context option"
  bp_sessionId :: "string option"
  bp_userId :: "string option"
  bp_beatIndex :: real
  bp_totalBeats :: real

datatype set_goal_call =
  \<comment> \<open>the two overloads of \<open>setGoal\<close>\<close>
    SetGoal string string goal_type int
  | SetGoalLegacy goal_type int

record 'w memory_port =
  mp_retrieve ::
    "string \<Rightarrow> memory_context \<Rightarrow> memory_type option \<Rightarrow> nat option \<Rightarrow> ('w, memory_record list) eff"
  mp_trackOutcome :: "string \<Rightarrow> outcome \<Rightarrow> memory_context \<Rightarrow> ('w, unit) eff"
  mp_getThemeStats :: "memory_context \<Rightarrow> nat option \<Rightarrow> ('w, scores) eff"
  mp_trackPreferencePair :: "string \<Rightarrow> string \<Rightarrow> memory_context \<Rightarrow> ('w, unit) eff"

record 'w ports =
  po_now :: "'w \<Rightarrow> millis \<times> 'w"
  po_random :: "'w \<Rightarrow> string \<times> 'w"
  po_get :: "string \<Rightarrow> ('w, dict session option) eff"
  po_set :: "string \<Rightarrow> dict session \<Rightarrow> ('w, unit) eff"
  po_memory :: "'w memory_port option"
  po_think :: "string \<Rightarrow> string option \<Rightarrow> ('w, thought_step) eff"
    \<comment> \<open>\<open>generateAgentThought\<close> with the conductor's system prompt: observation, trace id\<close>
  po_save_trace :: "(reasoning_trace \<Rightarrow> ('w, unit) eff) option"
  po_assess :: "resilience_event \<Rightarrow> ('w, correction_plan) eff"
  po_wait :: "real \<Rightarrow> 'w \<Rightarrow> 'w"
  po_gate :: bool
  po_observation :: "observation_vars \<Rightarrow> string"
  po_start_trigger :: "string \<Rightarrow> string"
  po_uuid :: "string \<Rightarrow> bool"
  po_schema_error :: string

fun goal_type_string :: "goal_type \<Rightarrow> string" where
  "goal_type_string CHILD_ASLEEP = ''CHILD_ASLEEP''"
| "goal_type_string STORY_COMPLETED = ''STORY_COMPLETED''"
| "goal_type_string RELAXATION_ACHIEVED = ''RELAXATION_ACHIEVED''"

subsection \<open>Input validation (\<open>domain/schemas/AgentSchemas.ts\<close>)\<close>

definition valid_config :: "session_config \<Rightarrow> bool" where
  \<comment> \<open>\<open>SessionConfigSchema\<close>\<close>
  "valid_config c \<longleftrightarrow>
     sc_theme c \<noteq> [] \<and>
     (case sc_childAge c of None \<Rightarrow> True | Some a \<Rightarrow> 0 \<le> a \<and> a \<le> 18)"

definition valid_context :: "(string \<Rightarrow> bool) \<Rightarrow> agent_context \<Rightarrow> bool" where
  \<comment> \<open>\<open>AgentContextSchema\<close>\<close>
  "valid_context uuid c \<longleftrightarrow>
     (case cx_userId c of None \<Rightarrow> True | Some u \<Rightarrow> uuid u) \<and>
     (case cx_currentMood c of None \<Rightarrow> True
      | Some m \<Rightarrow> m \<in> {''energetic'', ''calm'', ''tired'', ''fussy''})"

definition parse_schema :: "'w ports \<Rightarrow> bool \<Rightarrow> ('w, unit) eff" where
  \<comment> \<open>\<open>schema.parse\<close> throws a \<open>ZodError\<close> when the value is invalid\<close>
  "parse_schema p ok = (if ok then ereturn () else ethrow (Err ''ZodError'' (po_schema_error p)))"

subsection \<open>The state of a session\<close>

definition initial_state :: "string \<Rightarrow> string \<Rightarrow> millis \<Rightarrow> dict session" where
  "initial_state sid uid now =
     \<lparr>ss_sessionId = sid, ss_userId = uid, ss_phase = IDLE, ss_activeIntent = IDLE_INTENT,
      ss_emotionalTone = 0.5, ss_activeGoal = None, ss_activeGoals = None,
      ss_sessionStartTime = None, ss_lastSuggestedTheme = None, ss_lastMomentTimestamp = None,
      ss_context = Map.empty, ss_updatedAt = now, ss_history = None\<rparr>"

definition getOrInitState :: "'w ports \<Rightarrow> string \<Rightarrow> string \<Rightarrow> ('w, dict session) eff" where
  "getOrInitState p sid uid =
     ebind (po_get p sid) (\<lambda>found.
       case found of
         None \<Rightarrow>
           ebind (eread (po_now p)) (\<lambda>now.
             let state = initial_state sid uid now
             in ethen (po_set p sid state) (ereturn state))
       | Some state \<Rightarrow>
           (case (ss_activeGoals state, ss_activeGoal state) of
              (None, Some g) \<Rightarrow>
                (let state' = state\<lparr>ss_activeGoals := Some [g]\<rparr>
                 in ethen (po_set p sid state') (ereturn state'))
            | _ \<Rightarrow> ereturn state))"

definition current_goal :: "(dict, 'z) snap_scheme \<Rightarrow> goal_props option" where
  \<comment> \<open>\<open>state.activeGoals?.[0] ?? state.activeGoal\<close>\<close>
  "current_goal s =
     (case ss_activeGoals s of
        Some (g # _) \<Rightarrow> Some g
      | _ \<Rightarrow> ss_activeGoal s)"

definition hydrateActiveGoal ::
    "'w ports \<Rightarrow> string \<Rightarrow> string \<Rightarrow> ('w, dict session \<times> active_goal option) eff" where
  "hydrateActiveGoal p sid uid =
     ebind (getOrInitState p sid uid) (\<lambda>state.
       ereturn (state, map_option ag_create (current_goal state)))"

definition goal_text :: "active_goal \<Rightarrow> string" where
  "goal_text g = goal_type_string (ag_type g) @ '' ('' @ ag_description g @ '')''"

subsection \<open>Story beats\<close>

definition beat_session :: "beat_payload \<Rightarrow> string" where
  "beat_session e =
     or_string (case bp_context e of None \<Rightarrow> None | Some c \<Rightarrow> pc_sessionId c)
       (or_string (bp_sessionId e) ''session_default'')"

definition beat_user :: "beat_payload \<Rightarrow> string" where
  "beat_user e =
     or_string (case bp_context e of None \<Rightarrow> None | Some c \<Rightarrow> pc_userId c)
       (or_string (bp_userId e) ''anon'')"

definition beat_progress :: "beat_payload \<Rightarrow> jsnum" where
  "beat_progress e = js_round (js_scale (js_div (bp_beatIndex e + 1) (bp_totalBeats e)) 100)"

definition beat_goal :: "jsnum \<Rightarrow> millis \<Rightarrow> active_goal \<Rightarrow> active_goal" where
  "beat_goal progress now g =
     (let g' = ag_updateProgress progress g
      in if js_le (Fin 100) progress then ag_markAchieved now g' else g')"

definition beat_stack :: "jsnum \<Rightarrow> goal_props \<Rightarrow> goal_props list \<Rightarrow> goal_props list" where
  "beat_stack progress updated stack =
     (let stack' = (case stack of [] \<Rightarrow> [updated] | _ # gs \<Rightarrow> updated # gs)
      in if js_le (Fin 100) progress then tl stack' else stack')"

definition with_stack :: "goal_props list \<Rightarrow> dict session \<Rightarrow> dict session" where
  \<comment> \<open>\<open>activeGoals = stack or undefined\<close>, \<open>activeGoal = stack[0] || undefined\<close>\<close>
  "with_stack stack s =
     s\<lparr>ss_activeGoals := (if stack = [] then None else Some stack),
       ss_activeGoal := (case stack of [] \<Rightarrow> None | g # _ \<Rightarrow> Some g)\<rparr>"

definition stack_of :: "(dict, 'z) snap_scheme \<Rightarrow> goal_props list" where
  "stack_of s = (case ss_activeGoals s of None \<Rightarrow> [] | Some gs \<Rightarrow> gs)"

definition handleStoryBeat :: "'w ports \<Rightarrow> beat_payload \<Rightarrow> ('w, unit) eff" where
  "handleStoryBeat p e =
     (let sid = beat_session e; progress = beat_progress e in
      ebind (hydrateActiveGoal p sid (beat_user e)) (\<lambda>(state, activeGoal).
        case activeGoal of
          None \<Rightarrow> ereturn ()
        | Some g \<Rightarrow>
            if ag_status g \<noteq> GActive then ereturn ()
            else
              ebind (if js_le (Fin 100) progress then eread (po_now p) else ereturn 0) (\<lambda>now.
                po_set p sid
                  (with_stack
                    (beat_stack progress (ag_toJSON (beat_goal progress now g)) (stack_of state))
                    state))))"

subsection \<open>Sleep cues\<close>

definition handleSleepCueDetected :: "'w ports \<Rightarrow> payload_context option \<Rightarrow> ('w, unit) eff" where
  \<comment> \<open>the payload's \<open>context\<close>; the elapsed time is only logged\<close>
  "handleSleepCueDetected p pc =
     (let sid = or_undefined (case pc of None \<Rightarrow> None | Some c \<Rightarrow> pc_sessionId c);
          uid = or_undefined (case pc of None \<Rightarrow> None | Some c \<Rightarrow> pc_userId c)
      in case (sid, uid) of
           (Some sessionId, Some userId) \<Rightarrow>
             ebind (hydrateActiveGoal p sessionId userId) (\<lambda>(state, activeGoal).
               case (or_undefined (ss_lastSuggestedTheme state), po_memory p) of
                 (Some theme, Some mem) \<Rightarrow>
                   (let state' =
                          (if ss_sessionStartTime state \<noteq> None
                           then state\<lparr>ss_phase := transition (ss_phase state) SLEEP_DETECTED\<rparr>
                           else state);
                        ctx = \<lparr>mc_userId = userId, mc_sessionId = Some sessionId\<rparr>
                    in ethen (mp_trackOutcome mem theme POSITIVE ctx)
                        (ethen (mp_trackOutcome mem theme POSITIVE ctx)
                          (po_set p sessionId (state'\<lparr>ss_lastSuggestedTheme := None\<rparr>))))
               | _ \<Rightarrow> ereturn ())
         | _ \<Rightarrow> ereturn ())"

subsection \<open>Goals\<close>

fun set_goal_args :: "set_goal_call \<Rightarrow> string \<times> string \<times> goal_type \<times> int" where
  "set_goal_args (SetGoal sid uid t m) = (sid, uid, t, m)"
| "set_goal_args (SetGoalLegacy t m) = (''session_default'', ''anon'', t, m)"

definition push_goal :: "goal_props \<Rightarrow> dict session \<Rightarrow> dict session" where
  "push_goal g s =
     (let existing =
            (case ss_activeGoals s of
               Some gs \<Rightarrow> gs
             | None \<Rightarrow> (case ss_activeGoal s of None \<Rightarrow> [] | Some a \<Rightarrow> [a]));
          goals = take 5 (g # existing)
      in s\<lparr>ss_activeGoals := Some goals, ss_activeGoal := Some (hd goals)\<rparr>)"

definition setGoal :: "'w ports \<Rightarrow> set_goal_call \<Rightarrow> ('w, unit) eff" where
  "setGoal p call =
     (case set_goal_args call of
        (sid, uid, type, minutes) \<Rightarrow>
          ebind (getOrInitState p sid uid) (\<lambda>state.
            ebind (eread (po_now p)) (\<lambda>now.
              ebind (eread (po_now p)) (\<lambda>now2.
                ebind (eread (po_random p)) (\<lambda>rnd.
                  po_set p sid
                    (push_goal (ag_toJSON (ag_createNew
                         \<lparr>cg_type = type, cg_targetMinutes = minutes, cg_description = None\<rparr>
                         now now2 rnd)) state))))))"

subsection \<open>Conducting a session\<close>

definition retrievePreferenceContext :: "'w ports \<Rightarrow> memory_context \<Rightarrow> ('w, string) eff" where
  "retrievePreferenceContext p ctx =
     (case po_memory p of
        None \<Rightarrow> ereturn ''No preference data.''
      | Some mem \<Rightarrow>
          etry
            (ebind (mp_getThemeStats mem ctx (Some 3)) (\<lambda>stats.
              let topThemes = join '', ''
                    (map (\<lambda>(theme, score). theme @ '' (score: '' @ js_show_real score @ '')'') stats);
                  statsContext =
                    (if topThemes \<noteq> [] then ''Historical Top Interests: '' @ topThemes
                     else ''No historical interests yet.'')
              in ereturn (''[PREFERENCE_CONTEXT]: '' @ statsContext)))
            (\<lambda>e. ereturn ''Preference retrieval degraded.''))"

definition observe_memory ::
    "'w ports \<Rightarrow> session_config \<Rightarrow> agent_context \<Rightarrow> string \<Rightarrow> string \<Rightarrow> ('w, string) eff" where
  "observe_memory p config ctx sid uid =
     (case po_memory p of
        Some mem \<Rightarrow>
          if uid \<noteq> ''anon''
          then ebind (retrievePreferenceContext p
                       \<lparr>mc_userId = uid, mc_sessionId = cx_sessionId ctx\<rparr>) (\<lambda>preferences.
                 ebind (mp_retrieve mem (sc_theme config)
                         \<lparr>mc_userId = uid, mc_sessionId = Some sid\<rparr> (Some PREFERENCE) (Some 3))
                   (\<lambda>memories.
                     ereturn (preferences @ [CHR 0x0A] @ ''Other facts: '' @
                       join ''; '' (map mr_content memories))))
          else ereturn []
      | None \<Rightarrow> ereturn [])"

definition start_session :: "'w ports \<Rightarrow> string \<Rightarrow> dict session \<Rightarrow> ('w, dict session) eff" where
  "start_session p sid state =
     (if ss_sessionStartTime state = None
      then ebind (eread (po_now p)) (\<lambda>now.
             let state' = state\<lparr>ss_sessionStartTime := Some now,
                               ss_phase := transition (ss_phase state) START\<rparr>
             in ethen (po_set p sid state') (ereturn state'))
      else ereturn state)"

record prepared =
  pr_sessionId :: string
  pr_userId :: string
  pr_state :: "dict session"
  pr_memory :: string
  pr_observation :: string

definition conduct_prepare :: "'w ports \<Rightarrow> session_config \<Rightarrow> agent_context \<Rightarrow> ('w, prepared) eff" where
  \<comment> \<open>\<open>conductStorySession\<close> up to the observation\<close>
  "conduct_prepare p config ctx =
     ethen (parse_schema p (valid_config config))
     (ethen (parse_schema p (valid_context (po_uuid p) ctx))
     (ebind (if truthy_string (cx_sessionId ctx) then ereturn (the (cx_sessionId ctx))
             else ebind (eread (po_now p)) (\<lambda>now. ereturn (''session_'' @ show_int now))) (\<lambda>sid.
       let uid = or_string (cx_userId ctx) ''anon'' in
       ebind (getOrInitState p sid uid) (\<lambda>state0.
         let activeGoal = map_option ag_create (current_goal state0) in
         ebind (start_session p sid state0) (\<lambda>state.
           ebind (observe_memory p config ctx sid uid) (\<lambda>memoryContext.
             ereturn
               \<lparr>pr_sessionId = sid, pr_userId = uid, pr_state = state, pr_memory = memoryContext,
                pr_observation = po_observation p
                  \<lparr>ov_userMessage = po_start_trigger p (sc_theme config),
                   ov_childName = cx_childName ctx, ov_childAge = cx_childAge ctx,
                   ov_currentMood = cx_currentMood ctx,
                   ov_activeGoal = map_option goal_text activeGoal,
                   ov_envContext = Some (case cx_envContext ctx of
                       None \<Rightarrow> ''Unknown''
                     | Some a \<Rightarrow> tod_string (ac_timeOfDay a) @ '', '' @
                         condition_string (w_condition (ac_weather a))),
                   ov_memoryContext = (if memoryContext = [] then ''None'' else memoryContext)\<rparr>\<rparr>))))))"

definition arbitration_of :: "agent_context \<Rightarrow> phase \<Rightarrow> arbitration_context" where
  "arbitration_of ctx ph =
     \<lparr>ar_timeOfDay = (case cx_envContext ctx of None \<Rightarrow> ''Unknown''
                      | Some a \<Rightarrow> tod_string (ac_timeOfDay a)),
      ar_childAge = or_number (cx_childAge ctx) 5,
      ar_childMood = or_string (cx_currentMood ctx) ''calm'',
      ar_activeGoals = getStandardGoals, ar_currentPhase = ph\<rparr>"

definition trace_of :: "thought_step \<Rightarrow> millis \<Rightarrow> reasoning_trace" where
  "trace_of a now =
     \<lparr>rt_goals = ts_goals a, rt_conflict = truthy_string (ts_conflicts a),
      rt_conflicts = or_undefined (ts_conflicts a), rt_tradeOff = or_undefined (ts_tradeOff a),
      rt_thought = ts_thought a, rt_action = ts_action a, rt_confidence = ts_confidence a,
      rt_timestamp = now, rt_meta = None\<rparr>"

definition save_trace :: "'w ports \<Rightarrow> reasoning_trace \<Rightarrow> ('w, unit) eff" where
  "save_trace p t =
     (case po_save_trace p of
        None \<Rightarrow> ereturn ()
      | Some save \<Rightarrow> etry (save t) (\<lambda>_. ereturn ()))"

definition recovery_meta :: "js_error option \<Rightarrow> real \<Rightarrow> resilience_meta option" where
  "recovery_meta err cost =
     (case err of
        None \<Rightarrow> None
      | Some e \<Rightarrow> Some \<lparr>rm_failure = Some (error_string e), rm_corrected = Some True, rm_cost = Some cost\<rparr>)"

definition refine_request :: "session_config \<Rightarrow> thought_step \<Rightarrow> session_config" where
  "refine_request config a =
     (case duration_of (prop_of (ts_parameters a) ''duration'') of
        None \<Rightarrow> config
      | Some d \<Rightarrow> config\<lparr>sc_duration := Some d\<rparr>)"

definition conduct_attempt ::
    "'w ports \<Rightarrow> session_config \<Rightarrow> agent_context \<Rightarrow> prepared \<Rightarrow> dict session \<Rightarrow> js_error option \<Rightarrow> real
     \<Rightarrow> ('w, dict session \<times> (js_error + conduct_result)) eff" where
  \<comment> \<open>the \<open>try\<close> block of the loop; it yields the value of the variable \<open>state\<close> beside the
      thrown error or the returned result\<close>
  "conduct_attempt p config ctx pr state err cost =
     etry
       (ebind (po_think p (pr_observation pr) (cx_traceId ctx)) (\<lambda>raw.
         let arbitrated = arbitrate raw (arbitration_of ctx (ss_phase state)) in
         ebind (eread (po_now p)) (\<lambda>now.
           let trace = trace_of arbitrated now in
           ethen (save_trace p trace)
           (ebind (getOrInitState p (pr_sessionId pr) (pr_userId pr)) (\<lambda>fresh.
             let fresh' = fresh\<lparr>ss_lastSuggestedTheme := Some (sc_theme config)\<rparr> in
             etry
               (ethen (po_set p (pr_sessionId pr) fresh')
                 (ereturn (fresh', Inr
                   \<lparr>cr_request = refine_request config arbitrated,
                    cr_trace = [trace\<lparr>rt_meta := recovery_meta err cost\<rparr>],
                    cr_notes = Some (pr_memory pr)\<rparr>)))
               (\<lambda>e. ereturn (fresh', Inl e)))))))
       (\<lambda>e. ereturn (state, Inl e))"

definition failure_of :: "js_error \<Rightarrow> failure_type" where
  "failure_of e = (if err_name e = ''QualityGateError'' then QUALITY_BREACH else UNKNOWN)"

definition backoff_ms :: "dict option \<Rightarrow> real option" where
  "backoff_ms ps =
     (case ps of
        None \<Rightarrow> None
      | Some d \<Rightarrow>
          (case d ''backoffMs'' of
             Some (JNum r) \<Rightarrow> Some r
           | _ \<Rightarrow> (case d ''timeoutMs'' of Some (JNum r) \<Rightarrow> Some r | _ \<Rightarrow> None)))"

definition safe_wait :: "real \<Rightarrow> real" where
  "safe_wait ms = min 30000 (max 50 (of_int \<lfloor>ms\<rfloor>))"

definition backoff :: "'w ports \<Rightarrow> dict option \<Rightarrow> ('w, unit) eff" where
  "backoff p ps =
     (case backoff_ms ps of
        Some ms \<Rightarrow> if 0 < ms then eread (\<lambda>w. ((), po_wait p (safe_wait ms) w)) else ereturn ()
      | None \<Rightarrow> ereturn ())"

definition safe_mode_result :: "session_config \<Rightarrow> millis \<Rightarrow> conduct_result" where
  "safe_mode_result config now =
     \<lparr>cr_request = config,
      cr_trace = [\<lparr>rt_goals = [''SAFETY'', ''RECOVERY''], rt_conflict = True, rt_conflicts = None,
        rt_tradeOff = None, rt_thought = ''Quality Gate Breached. Engaging Safe Mode.'',
        rt_action = ''SAFE_MODE'', rt_confidence = 1, rt_timestamp = now,
        rt_meta = Some \<lparr>rm_failure = Some ''QUALITY_BREACH'', rm_corrected = Some True, rm_cost = None\<rparr>\<rparr>],
      cr_notes = Some ''Safe Mode active.''\<rparr>"

definition undefined_or_error :: "js_error option \<Rightarrow> string" where
  "undefined_or_error e = (case e of None \<Rightarrow> ''null'' | Some x \<Rightarrow> error_string x)"

definition fallback_result ::
    "session_config \<Rightarrow> nat \<Rightarrow> js_error option \<Rightarrow> real \<Rightarrow> millis \<Rightarrow> conduct_result" where
  "fallback_result config attempts err cost now =
     \<lparr>cr_request = config,
      cr_trace = [\<lparr>rt_goals = [''RECOVERY''], rt_conflict = True, rt_conflicts = None,
        rt_tradeOff = None,
        rt_thought = ''Brain failed after '' @ show_nat attempts @
          '' attempts. Falling back to defaults. Error: '' @ undefined_or_error err,
        rt_action = ''START_STORY'', rt_confidence = 0.1, rt_timestamp = now,
        rt_meta = Some \<lparr>rm_failure = Some (undefined_or_error err),
                        rm_corrected = Some (1 < attempts), rm_cost = Some cost\<rparr>\<rparr>],
      cr_notes = None\<rparr>"

datatype loop_step = Again real | Stop real | Done conduct_result

definition recover ::
    "'w ports \<Rightarrow> session_config \<Rightarrow> nat \<Rightarrow> js_error \<Rightarrow> real \<Rightarrow> ('w, loop_step) eff" where
  \<comment> \<open>the \<open>catch\<close> block of the loop: try again, leave the loop, or return\<close>
  "recover p config attempts e cost =
     etry
       (ebind (po_assess p \<lparr>re_type = failure_of e, re_error = Some (err_message e),
                             re_attempt = int attempts, re_costSoFar = cost\<rparr>) (\<lambda>plan.
         let cost' = cost + cp_estimatedCost plan in
         case cp_action plan of
           ABORT \<Rightarrow> ereturn (Stop cost')
         | FALLBACK \<Rightarrow> ereturn (Stop cost')
         | DEGRADE_SERVICE \<Rightarrow>
             ebind (eread (po_now p)) (\<lambda>now. ereturn (Done (safe_mode_result config now)))
         | RETRY \<Rightarrow> ethen (backoff p (cp_parameters plan)) (ereturn (Again cost'))
         | SELF_CORRECT \<Rightarrow> ethen (backoff p (cp_parameters plan)) (ereturn (Again cost'))))
       (\<lambda>_. ereturn (Stop cost))"

definition fall_back ::
    "'w ports \<Rightarrow> session_config \<Rightarrow> nat \<Rightarrow> js_error option \<Rightarrow> real \<Rightarrow> ('w, conduct_result) eff" where
  "fall_back p config attempts err cost =
     ebind (eread (po_now p)) (\<lambda>now. ereturn (fallback_result config attempts err cost now))"

fun conduct_loop ::
    "'w ports \<Rightarrow> session_config \<Rightarrow> agent_context \<Rightarrow> prepared \<Rightarrow> nat \<Rightarrow> nat \<Rightarrow> dict session
     \<Rightarrow> js_error option \<Rightarrow> real \<Rightarrow> ('w, conduct_result) eff" where
  \<comment> \<open>the first number counts the attempts left, the second the attempts made\<close>
  "conduct_loop p config ctx pr 0 attempts state err cost = fall_back p config attempts err cost"
| "conduct_loop p config ctx pr (Suc left) attempts state err cost =
     ebind (conduct_attempt p config ctx pr state err cost) (\<lambda>(state', r).
       case r of
         Inr res \<Rightarrow> ereturn res
       | Inl e \<Rightarrow>
           ebind (recover p config (Suc attempts) e cost) (\<lambda>step.
             case step of
               Again cost' \<Rightarrow> conduct_loop p config ctx pr left (Suc attempts) state' (Some e) cost'
             | Stop cost' \<Rightarrow> fall_back p config (Suc attempts) (Some e) cost'
             | Done res \<Rightarrow> ereturn res))"

definition max_attempts :: nat where
  "max_attempts = 3"

definition conductStorySession ::
    "'w ports \<Rightarrow> session_config \<Rightarrow> agent_context \<Rightarrow> ('w, conduct_result) eff" where
  "conductStorySession p config ctx =
     ebind (conduct_prepare p config ctx) (\<lambda>pr.
       conduct_loop p config ctx pr max_attempts 0 (pr_state pr) None 0)"

subsection \<open>A conversational turn\<close>

definition words :: "string list \<Rightarrow> rx" where
  \<comment> \<open>\<open>\b(w1|w2|...)\b\<close>\<close>
  "words ws = rseq [RWordB, ralt (map rlit ws), RWordB]"

definition negative_words :: rx where
  "negative_words = words [''no'', ''hate'', ''dislike'', ''stop'', ''bad'', ''don't'']"

definition positive_words :: rx where
  "positive_words = words [''yes'', ''love'', ''like'', ''good'', ''great'', ''ok'', ''okay'']"

definition counter :: "dict \<Rightarrow> string \<Rightarrow> real" where
  \<comment> \<open>\<open>(state.context[k] as number) || 0\<close>\<close>
  "counter d k = (case d k of Some (JNum r) \<Rightarrow> r | _ \<Rightarrow> 0)"

definition user_ctx :: "string \<Rightarrow> memory_context" where
  "user_ctx uid = \<lparr>mc_userId = uid, mc_sessionId = None\<rparr>"

definition learn_feedback ::
    "'w ports \<Rightarrow> string \<Rightarrow> string \<Rightarrow> dict session \<Rightarrow> ('w, dict session \<times> string option \<times> bool) eff" where
  \<comment> \<open>the new state, the rejected theme, and whether the message counts as an intervention\<close>
  "learn_feedback p message uid state =
     (case (or_undefined (ss_lastSuggestedTheme state), po_memory p) of
        (Some theme, Some mem) \<Rightarrow>
          (let lower = js_lower message; cleared = state\<lparr>ss_lastSuggestedTheme := None\<rparr> in
           if rtest negative_words lower
           then ethen (mp_trackOutcome mem theme NEGATIVE (user_ctx uid))
                  (ereturn (cleared, Some theme, True))
           else if rtest positive_words lower
           then ethen (mp_trackOutcome mem theme POSITIVE (user_ctx uid))
                  (ereturn (cleared, None, False))
           else ereturn (state, None, False))
      | _ \<Rightarrow> ereturn (state, None, False))"

definition turn_counts :: "dict session \<Rightarrow> bool \<Rightarrow> real \<times> real" where
  "turn_counts state intervened =
     (counter (ss_context state) ''interactions'' + 1,
      counter (ss_context state) ''interventions'' + (if intervened then 1 else 0))"

definition with_counts :: "real \<times> real \<Rightarrow> dict session \<Rightarrow> dict session" where
  "with_counts c s =
     s\<lparr>ss_context := (ss_context s)(''interactions'' \<mapsto> JNum (fst c), ''interventions'' \<mapsto> JNum (snd c))\<rparr>"

fun metric_string :: "metric \<Rightarrow> string" where
  "metric_string UCR = ''UCR''"
| "metric_string ORR = ''ORR''"
| "metric_string MTTH = ''MTTH''"
| "metric_string LATENCY_MS = ''LATENCY_MS''"
| "metric_string ERROR_RATE = ''ERROR_RATE''"

definition gate_error :: "quality_alert \<Rightarrow> js_error" where
  \<comment> \<open>\<open>QualityGateError\<close>\<close>
  "gate_error a = Err ''QualityGateError''
     (qa_error_message @ metric_string (qa_metric a) @ '' = '' @ js_show_real (qa_currentValue a) @
      '' (Threshold: '' @ js_show_real (qa_threshold a) @ '')'')"

definition gate_check :: "'w ports \<Rightarrow> metric \<Rightarrow> real \<Rightarrow> ('w, unit) eff" where
  "gate_check p m v =
     (if po_gate p
      then (case checkMetric m v of Inl al \<Rightarrow> ethrow (gate_error al) | Inr _ \<Rightarrow> ereturn ())
      else ereturn ())"

definition turn_trace :: "thought_step \<Rightarrow> millis \<Rightarrow> reasoning_trace" where
  "turn_trace t now = (trace_of t now)\<lparr>rt_confidence := or_number (Some (ts_confidence t)) 0.9\<rparr>"

definition turn_reply :: "thought_step \<Rightarrow> string" where
  "turn_reply t =
     or_string (case prop_of (ts_parameters t) ''reply'' of Some (JStr r) \<Rightarrow> Some r | _ \<Rightarrow> None)
       (or_string (Some (ts_thought t)) ''I'm here.'')"

definition suggested_theme :: "thought_step \<Rightarrow> string option" where
  "suggested_theme t =
     (if ts_action t = ''SUGGEST''
      then (case prop_of (ts_parameters t) ''theme'' of Some (JStr th) \<Rightarrow> Some th | _ \<Rightarrow> None)
      else None)"

definition record_suggestion ::
    "'w ports \<Rightarrow> string \<Rightarrow> string \<Rightarrow> string option \<Rightarrow> thought_step \<Rightarrow> ('w, unit) eff" where
  "record_suggestion p sid uid rejected t =
     (case suggested_theme t of
        None \<Rightarrow> ereturn ()
      | Some theme \<Rightarrow>
          ebind (getOrInitState p sid uid) (\<lambda>state.
            ethen (po_set p sid (state\<lparr>ss_lastSuggestedTheme := Some theme\<rparr>))
              (case (or_undefined rejected, po_memory p) of
                 (Some lose, Some mem) \<Rightarrow> mp_trackPreferencePair mem theme lose (user_ctx uid)
               | _ \<Rightarrow> ereturn ())))"

definition safe_mode_turn :: "js_error \<Rightarrow> millis \<Rightarrow> string \<times> reasoning_trace list" where
  "safe_mode_turn e now =
     (''I'm having trouble thinking right now, but I'm here. Let's just relax.'',
      [\<lparr>rt_goals = [''SAFETY'', ''RECOVERY''], rt_conflict = True, rt_conflicts = None,
        rt_tradeOff = None,
        rt_thought = ''Critical System Failure (Outer Catch): '' @ error_string e @
          ''. Engaging Emergency Safe Mode.'',
        rt_action = ''SAFE_MODE'', rt_confidence = 1, rt_timestamp = now,
        rt_meta = Some \<lparr>rm_failure = Some ''CRITICAL_SYSTEM_FAILURE'', rm_corrected = Some False,
                        rm_cost = Some 0\<rparr>\<rparr>])"

definition turn_reason ::
    "'w ports \<Rightarrow> agent_context \<Rightarrow> string \<Rightarrow> string \<Rightarrow> real \<times> real \<Rightarrow> string option \<Rightarrow> string
     \<Rightarrow> ('w, string \<times> reasoning_trace list) eff" where
  \<comment> \<open>the \<open>try\<close> block of \<open>processTurn\<close> and its \<open>catch\<close>\<close>
  "turn_reason p ctx sid uid counts rejected observation =
     etry
       (ethen (ewhen (0 < fst counts) (gate_check p UCR (1 - snd counts / fst counts)))
       (ebind (eread (po_now p)) (\<lambda>start.
       (ebind (po_think p observation (cx_traceId ctx)) (\<lambda>thought.
       (ebind (eread (po_now p)) (\<lambda>fin.
       (ethen (gate_check p LATENCY_MS (of_int (fin - start)))
       (ebind (eread (po_now p)) (\<lambda>now.
         let trace = turn_trace thought now in
         ethen (save_trace p trace)
         (ethen (record_suggestion p sid uid rejected thought)
           (ereturn (turn_reply thought, [trace])))))))))))))
       (\<lambda>e. ebind (eread (po_now p)) (\<lambda>now. ereturn (safe_mode_turn e now)))"

definition processTurn ::
    "'w ports \<Rightarrow> string \<Rightarrow> agent_context \<Rightarrow> ('w, string \<times> reasoning_trace list) eff" where
  \<comment> \<open>the session and user identifiers of the context are present in every call (their type says
      so)\<close>
  "processTurn p message ctx =
     (let sid = (case cx_sessionId ctx of None \<Rightarrow> [] | Some x \<Rightarrow> x);
          uid = (case cx_userId ctx of None \<Rightarrow> [] | Some x \<Rightarrow> x) in
      ethen (parse_schema p (valid_context (po_uuid p) ctx))
      (ebind (hydrateActiveGoal p sid uid) (\<lambda>(state, activeGoal).
       ebind (learn_feedback p message uid state) (\<lambda>(state', rejected, intervened).
         let counts = turn_counts state intervened in
         ethen (po_set p sid (with_counts counts state'))
         (ebind (case po_memory p of
                   None \<Rightarrow> ereturn []
                 | Some mem \<Rightarrow>
                     ebind (mp_retrieve mem message \<lparr>mc_userId = uid, mc_sessionId = Some sid\<rparr>
                              (Some EPISODIC) (Some 3))
                       (\<lambda>memories. ereturn (join ''; '' (map mr_content memories))))
           (\<lambda>memoryContext.
             turn_reason p ctx sid uid counts rejected
               (po_observation p
                  \<lparr>ov_userMessage = message, ov_childName = cx_childName ctx,
                   ov_childAge = cx_childAge ctx, ov_currentMood = cx_currentMood ctx,
                   ov_activeGoal = map_option goal_text activeGoal, ov_envContext = None,
                   ov_memoryContext =
                     (if memoryContext = [] then ''None'' else memoryContext)\<rparr>)))))))"

subsection \<open>Suggestions\<close>

definition default_suggestion :: suggestion where
  "default_suggestion =
     \<lparr>sg_id = ''sugg_def_space'', sg_title = ''Space Adventure'', sg_theme = ''Space'',
      sg_reasoning = ''A classic favorite.'', sg_confidence = 0.5\<rparr>"

fun stat_suggestions :: "'w ports \<Rightarrow> string \<Rightarrow> scores \<Rightarrow> ('w, suggestion list) eff" where
  "stat_suggestions p uid [] = ereturn []"
| "stat_suggestions p uid ((theme, score) # stats) =
     ebind (eread (po_now p)) (\<lambda>now.
       ebind (stat_suggestions p uid stats) (\<lambda>rest.
         ereturn (\<lparr>sg_id = ''sugg_mem_'' @ show_int now @ ''_'' @ uid @ ''_'' @ theme,
                   sg_title = ''A story about '' @ theme, sg_theme = theme,
                   sg_reasoning = ''You loved this before! (Score: '' @ js_show_real score @ '')'',
                   sg_confidence = 0.9\<rparr> # rest)))"

definition generateSuggestions :: "'w ports \<Rightarrow> agent_context \<Rightarrow> ('w, suggestion list) eff" where
  "generateSuggestions p ctx =
     ebind
       (case (or_undefined (cx_userId ctx), po_memory p) of
          (Some uid, Some mem) \<Rightarrow>
            ebind (mp_getThemeStats mem \<lparr>mc_userId = uid, mc_sessionId = cx_sessionId ctx\<rparr> (Some 2))
              (stat_suggestions p uid)
        | _ \<Rightarrow> ereturn [])
       (\<lambda>suggestions.
         ereturn (if suggestions = [] then [default_suggestion] else suggestions))"

subsection \<open>Events\<close>

datatype conductor_event =
    Conduct session_config agent_context
  | Turn string agent_context
  | StoryBeat beat_payload
  | SleepCue "payload_context option"
  | Goal set_goal_call

fun handle_event :: "'w ports \<Rightarrow> conductor_event \<Rightarrow> ('w, unit) eff" where
  "handle_event p (Conduct config ctx) = ethen (conductStorySession p config ctx) (ereturn ())"
| "handle_event p (Turn message ctx) = ethen (processTurn p message ctx) (ereturn ())"
| "handle_event p (StoryBeat e) = handleStoryBeat p e"
| "handle_event p (SleepCue pc) = handleSleepCueDetected p pc"
| "handle_event p (Goal call) = setGoal p call"

fun run_events :: "'w ports \<Rightarrow> conductor_event list \<Rightarrow> 'w \<Rightarrow> 'w" where
  \<comment> \<open>one event after the other, errors of a handler going to its caller\<close>
  "run_events p [] w = w"
| "run_events p (e # es) w = run_events p es (snd (handle_event p e w))"

fun event_ids :: "conductor_event \<Rightarrow> string list" where
  \<comment> \<open>the session and user identifiers an event brings to the store\<close>
  "event_ids (Conduct config ctx) =
     (case cx_sessionId ctx of None \<Rightarrow> [] | Some x \<Rightarrow> [x]) @
     (case or_undefined (cx_userId ctx) of None \<Rightarrow> [] | Some x \<Rightarrow> [x])"
| "event_ids (Turn message ctx) =
     [case cx_sessionId ctx of None \<Rightarrow> [] | Some x \<Rightarrow> x,
      case cx_userId ctx of None \<Rightarrow> [] | Some x \<Rightarrow> x]"
| "event_ids (StoryBeat e) = [beat_session e, beat_user e]"
| "event_ids (SleepCue pc) =
     (case pc of None \<Rightarrow> []
      | Some c \<Rightarrow> (case pc_sessionId c of None \<Rightarrow> [] | Some x \<Rightarrow> [x]) @
                   (case pc_userId c of None \<Rightarrow> [] | Some x \<Rightarrow> [x]))"
| "event_ids (Goal call) = (case set_goal_args call of (sid, uid, _) \<Rightarrow> [sid, uid])"

end
