(* ===== verification/ConductorStore.thy ===== *)
theory ConductorStore
  imports Conductor
begin

text \<open>
  What the conductor's handlers do to the stored sessions, over any store that fulfils the
  contract \<open>session_store\<close>.  The locale \<open>conducted\<close> connects the ports of the agent to a
  store \<open>st w\<close> and a clock that never runs backwards; \<open>quiet\<close> says that the other ports
  leave the store alone.  The invariant \<open>goals_ok\<close> of a session is kept by every handler on
  every path, so by every sequence of events (\<open>run_events\<close>).
\<close>

subsection \<open>The invariant of a session's goals\<close>

definition goals_ok :: "(dict, 'z) snap_scheme \<Rightarrow> bool" where
  \<comment> \<open>at most five goals, each well-formed; the active goal is the first of them (a state without
      the list may still hold a single goal, as older records do)\<close>
  "goals_ok s \<longleftrightarrow>
     length (stack_of s) \<le> 5 \<and> (\<forall>g \<in> set (stack_of s). goal_ok g) \<and>
     (\<forall>g. ss_activeGoal s = Some g \<longrightarrow> goal_ok g) \<and>
     (\<forall>gs. ss_activeGoals s = Some gs \<longrightarrow> gs \<noteq> [] \<and> ss_activeGoal s = Some (hd gs))"

definition migrate :: "dict session \<Rightarrow> dict session" where
  \<comment> \<open>what \<open>getOrInitState\<close> makes of a stored state\<close>
  "migrate s =
     (case (ss_activeGoals s, ss_activeGoal s) of
        (None, Some g) \<Rightarrow> s\<lparr>ss_activeGoals := Some [g]\<rparr>
      | _ \<Rightarrow> s)"

lemma stack_of_core [simp]: "stack_of (core s) = stack_of s"
  by (simp add: stack_of_def)

lemma goals_ok_core:
  assumes "core s = core t"
  shows "goals_ok s = goals_ok t"
proof -
  note c = core_eqD(5,6) [OF assms]
  show ?thesis unfolding goals_ok_def stack_of_def c ..
qed

lemma goals_ok_initial [inv_intros]: "goals_ok (initial_state sid uid now)"
  by (simp add: goals_ok_def initial_state_def stack_of_def)

lemma goals_ok_migrate [inv_intros]: "goals_ok s \<Longrightarrow> goals_ok (migrate s)"
  by (auto simp: goals_ok_def migrate_def stack_of_def split: option.splits)

lemma goals_ok_fields [simp]:
  "goals_ok (s\<lparr>ss_lastSuggestedTheme := x\<rparr>) = goals_ok s"
  "goals_ok (s\<lparr>ss_phase := ph\<rparr>) = goals_ok s"
  "goals_ok (s\<lparr>ss_context := d\<rparr>) = goals_ok s"
  "goals_ok (s\<lparr>ss_sessionStartTime := t\<rparr>) = goals_ok s"
  by (simp_all add: goals_ok_def stack_of_def)

lemma with_stack_sel [simp]:
  "ss_userId (with_stack gs s) = ss_userId s" "ss_phase (with_stack gs s) = ss_phase s"
  "stack_of (with_stack gs s) = gs"
  "ss_activeGoal (with_stack gs s) = (case gs of [] \<Rightarrow> None | g # _ \<Rightarrow> Some g)"
  "ss_activeGoals (with_stack gs s) = (if gs = [] then None else Some gs)"
  "ss_lastSuggestedTheme (with_stack gs s) = ss_lastSuggestedTheme s"
  by (simp_all add: with_stack_def stack_of_def)

lemma goals_ok_with_stack:
  "length gs \<le> 5 \<Longrightarrow> \<forall>g \<in> set gs. goal_ok g \<Longrightarrow> goals_ok (with_stack gs s)"
  by (cases gs) (auto simp: goals_ok_def)

lemma length_beat_stack: "length gs \<le> 5 \<Longrightarrow> length (beat_stack x g gs) \<le> 5"
  by (cases gs) (auto simp: beat_stack_def Let_def)

lemma set_beat_stack: "set (beat_stack x g gs) \<subseteq> insert g (set gs)"
  by (cases gs) (auto simp: beat_stack_def Let_def)

lemma goal_ok_beat [inv_intros]:
  "ag_status g = GActive \<Longrightarrow> goal_ok (ag_toJSON (beat_goal x now g))"
  by (auto simp: beat_goal_def Let_def intro: inv_intros)

lemma goals_ok_beat:
  assumes "goals_ok s" "ag_status g = GActive"
  shows "goals_ok (with_stack (beat_stack x (ag_toJSON (beat_goal x now g)) (stack_of s)) s)"
proof (rule goals_ok_with_stack)
  let ?g = "ag_toJSON (beat_goal x now g)"
  show "length (beat_stack x ?g (stack_of s)) \<le> 5"
    using assms(1) by (simp add: goals_ok_def length_beat_stack)
  have "goal_ok ?g" using assms(2) by (rule goal_ok_beat)
  then show "\<forall>g' \<in> set (beat_stack x ?g (stack_of s)). goal_ok g'"
    using assms(1) set_beat_stack [of x ?g "stack_of s"] by (auto simp: goals_ok_def)
qed

lemma push_goal_sel [simp]: "ss_userId (push_goal g s) = ss_userId s"
  by (simp add: push_goal_def Let_def)

lemma push_goal_stack: "ss_activeGoals s \<noteq> None \<or> ss_activeGoal s = None \<Longrightarrow>
    ss_activeGoals (push_goal g s) = Some (g # take 4 (stack_of s))"
  by (auto simp: push_goal_def Let_def stack_of_def split: option.splits)

lemma goals_ok_push [inv_intros]: "goals_ok s \<Longrightarrow> goal_ok g \<Longrightarrow> goals_ok (push_goal g s)"
  by (auto simp: goals_ok_def push_goal_def Let_def stack_of_def
      split: option.splits dest: in_set_takeD)

lemma migrate_user [simp]: "ss_userId (migrate s) = ss_userId s"
  by (simp add: migrate_def split: option.split)

lemma migrate_shape: "ss_activeGoals (migrate s) \<noteq> None \<or> ss_activeGoal (migrate s) = None"
  by (auto simp: migrate_def split: option.split)

subsection \<open>The agent on a store\<close>

locale conducted = session_store get put ok idok ttl
  for get :: "'s \<Rightarrow> millis \<Rightarrow> string \<Rightarrow> dict session option"
    and put :: "'s \<Rightarrow> millis \<Rightarrow> string \<Rightarrow> dict session \<Rightarrow> 's"
    and ok :: "'s \<Rightarrow> bool"
    and idok :: "string \<Rightarrow> bool"
    and ttl :: int +
  fixes p :: "'w ports"
    and st :: "'w \<Rightarrow> 's"
    and clock :: "'w \<Rightarrow> millis"
  assumes get_port: "ok (st w) \<Longrightarrow> po_get p sid w = (Inr (get (st w) (clock w) sid), w)"
    and set_port: "ok (st w) \<Longrightarrow>
      \<exists>w'. po_set p sid v w = (Inr (), w') \<and> st w' = put (st w) (clock w) sid v \<and> clock w' = clock w"
    and now_quiet: "st (snd (po_now p w)) = st w \<and> clock w \<le> clock (snd (po_now p w))"
    and random_quiet: "st (snd (po_random p w)) = st w \<and> clock w \<le> clock (snd (po_random p w))"
    and think_quiet: "st (snd (po_think p o' tr w)) = st w \<and> clock w \<le> clock (snd (po_think p o' tr w))"
    and assess_quiet: "st (snd (po_assess p ev w)) = st w \<and> clock w \<le> clock (snd (po_assess p ev w))"
    and wait_quiet: "st (po_wait p ms w) = st w \<and> clock w \<le> clock (po_wait p ms w)"
    and trace_quiet: "po_save_trace p = Some save \<Longrightarrow>
      st (snd (save t w)) = st w \<and> clock w \<le> clock (snd (save t w))"
    and retrieve_quiet: "po_memory p = Some mem \<Longrightarrow>
      st (snd (mp_retrieve mem q c ty l w)) = st w \<and> clock w \<le> clock (snd (mp_retrieve mem q c ty l w))"
    and outcome_quiet: "po_memory p = Some mem \<Longrightarrow>
      st (snd (mp_trackOutcome mem th oc c w)) = st w \<and> clock w \<le> clock (snd (mp_trackOutcome mem th oc c w))"
    and stats_quiet: "po_memory p = Some mem \<Longrightarrow>
      st (snd (mp_getThemeStats mem c l w)) = st w \<and> clock w \<le> clock (snd (mp_getThemeStats mem c l w))"
    and pair_quiet: "po_memory p = Some mem \<Longrightarrow>
      st (snd (mp_trackPreferencePair mem a b c w)) = st w \<and>
      clock w \<le> clock (snd (mp_trackPreferencePair mem a b c w))"
    and default_ids: "idok ''session_default''" "idok ''anon''" "idok (''session_'' @ show_int n)"
begin

definition view :: "'w \<Rightarrow> string \<Rightarrow> dict session option" where
  "view w sid = get (st w) (clock w) sid"

definition sessions_ok :: "'w \<Rightarrow> bool" where
  "sessions_ok w \<longleftrightarrow> ok (st w) \<and> (\<forall>sid v. idok sid \<longrightarrow> view w sid = Some v \<longrightarrow> goals_ok v)"

definition loaded :: "dict session \<Rightarrow> bool" where
  \<comment> \<open>what a handler holds after reading a state\<close>
  "loaded v \<longleftrightarrow> goals_ok v \<and> idok (ss_userId v)"

lemma quiet_keeps:
  assumes "sessions_ok w" "st w' = st w" "clock w \<le> clock w'"
  shows "sessions_ok w'"
proof -
  have "goals_ok v" if "idok sid" "view w' sid = Some v" for sid v
  proof -
    have "get (st w) (clock w) sid = Some v"
      using get_earlier [of "st w" sid "clock w" "clock w'" v] assms that
      by (auto simp: sessions_ok_def view_def)
    then show ?thesis using assms(1) that(1) by (auto simp: sessions_ok_def view_def)
  qed
  then show ?thesis using assms(1,2) by (auto simp: sessions_ok_def)
qed

lemma hoare_quiet:
  "(\<And>w. st (snd (m w)) = st w \<and> clock w \<le> clock (snd (m w))) \<Longrightarrow> hoare sessions_ok m (\<lambda>_. True)"
  unfolding hoare_def by (metis quiet_keeps snd_conv)

lemma eread_quiet:
  assumes "\<And>w. st (snd (r w)) = st w \<and> clock w \<le> clock (snd (r w))"
  shows "hoare sessions_ok (eread r) (\<lambda>_. True)"
proof (rule hoare_quiet)
  fix w show "st (snd (eread r w)) = st w \<and> clock w \<le> clock (snd (eread r w))"
    using assms [of w] by (cases "r w") simp
qed

lemmas port_hoare =
  eread_quiet [OF now_quiet] eread_quiet [OF random_quiet] hoare_quiet [OF think_quiet]
  hoare_quiet [OF assess_quiet] hoare_quiet [OF trace_quiet] hoare_quiet [OF retrieve_quiet]
  hoare_quiet [OF outcome_quiet] hoare_quiet [OF stats_quiet] hoare_quiet [OF pair_quiet]

lemma hoare_get:
  assumes "idok sid"
  shows "hoare sessions_ok (po_get p sid) (\<lambda>r. \<forall>v. r = Some v \<longrightarrow> loaded v)"
  using assms get_user
  by (auto simp: hoare_def sessions_ok_def get_port view_def loaded_def)

lemma hoare_set:
  assumes "idok sid" "loaded v"
  shows "hoare sessions_ok (po_set p sid v) (\<lambda>_. True)"
  unfolding hoare_def
proof (intro allI impI)
  fix w r w' assume w: "sessions_ok w" "po_set p sid v w = (r, w')"
  then have ok: "ok (st w)" by (simp add: sessions_ok_def)
  have w': "st w' = put (st w) (clock w) sid v" "clock w' = clock w"
    using set_port [OF ok, of sid v] w(2) by auto
  have u: "idok (ss_userId v)" using assms(2) by (simp add: loaded_def)
  have "goals_ok x" if x: "idok sid'" "view w' sid' = Some x" for sid' x
  proof (cases "sid' = sid")
    case True
    obtain y where "get (put (st w) (clock w) sid v) (clock w) sid = Some y" "core y = core v"
      using get_put_same [OF ok assms(1) u order.refl] ttl_pos by force
    then have "core x = core v" using x True by (simp add: view_def w')
    then show ?thesis using assms(2) goals_ok_core [of x v] by (simp add: loaded_def)
  next
    case False
    then have "get (st w) (clock w) sid' = Some x"
      using x get_put_other [OF ok assms(1) x(1) u False] by (simp add: view_def w')
    then show ?thesis using w(1) x(1) by (auto simp: sessions_ok_def view_def)
  qed
  moreover have "ok (st w')" unfolding w' by (rule put_ok [OF ok assms(1) u])
  ultimately show "sessions_ok w' \<and> (\<forall>a. r = Inr a \<longrightarrow> True)" by (simp add: sessions_ok_def)
qed

lemma loaded_initial: "idok uid \<Longrightarrow> loaded (initial_state sid uid now)"
  by (simp add: loaded_def goals_ok_initial) (simp add: initial_state_def)

lemma loaded_migrate: "loaded v \<Longrightarrow> loaded (migrate v)"
  by (simp add: loaded_def goals_ok_migrate)

lemma loaded_fields [simp]:
  "loaded (s\<lparr>ss_lastSuggestedTheme := x\<rparr>) = loaded s"
  "loaded (s\<lparr>ss_phase := ph\<rparr>) = loaded s"
  "loaded (s\<lparr>ss_context := d\<rparr>) = loaded s"
  "loaded (s\<lparr>ss_sessionStartTime := t\<rparr>) = loaded s"
  by (simp_all add: loaded_def)

lemma getOrInitState_eq:
  "getOrInitState p sid uid =
     ebind (po_get p sid) (\<lambda>found.
       case found of
         None \<Rightarrow> ebind (eread (po_now p)) (\<lambda>now.
             ethen (po_set p sid (initial_state sid uid now)) (ereturn (initial_state sid uid now)))
       | Some s \<Rightarrow>
           if migrate s = s then ereturn s
           else ethen (po_set p sid (migrate s)) (ereturn (migrate s)))"
proof -
  have "(case (ss_activeGoals s, ss_activeGoal s) of
           (None, Some g) \<Rightarrow>
             let s' = s\<lparr>ss_activeGoals := Some [g]\<rparr> in ethen (po_set p sid s') (ereturn s')
         | _ \<Rightarrow> ereturn s) =
        (if migrate s = s then ereturn s
         else ethen (po_set p sid (migrate s)) (ereturn (migrate s)))" for s
  proof (cases "\<exists>g. ss_activeGoals s = None \<and> ss_activeGoal s = Some g")
    case True
    then obtain g where g: "ss_activeGoals s = None" "ss_activeGoal s = Some g" by blast
    then have m: "migrate s = s\<lparr>ss_activeGoals := Some [g]\<rparr>" by (simp add: migrate_def)
    then have "ss_activeGoals (migrate s) = Some [g]" by simp
    then have "migrate s \<noteq> s" using g by auto
    then show ?thesis using g m by (simp add: Let_def)
  next
    case False
    then show ?thesis by (auto simp: migrate_def split: option.splits)
  qed
  then show ?thesis by (simp add: getOrInitState_def Let_def cong: option.case_cong)
qed

lemma hoare_getOrInit:
  assumes "idok sid" "idok uid"
  shows "hoare sessions_ok (getOrInitState p sid uid) loaded"
  unfolding getOrInitState_eq
proof (rule hoare_ebind [OF hoare_get [OF assms(1)]])
  fix found assume f: "\<forall>v. found = Some v \<longrightarrow> loaded v"
  show "hoare sessions_ok (case found of
         None \<Rightarrow> ebind (eread (po_now p)) (\<lambda>now.
             ethen (po_set p sid (initial_state sid uid now)) (ereturn (initial_state sid uid now)))
       | Some s \<Rightarrow>
           if migrate s = s then ereturn s
           else ethen (po_set p sid (migrate s)) (ereturn (migrate s))) loaded"
    using f assms
    by (intro hoare_option hoare_If hoare_ebind [OF port_hoare(1)] hoare_ethen [OF hoare_set]
        hoare_ereturn loaded_initial loaded_migrate) auto
qed

lemma hoare_hydrate:
  assumes "idok sid" "idok uid"
  shows "hoare sessions_ok (hydrateActiveGoal p sid uid) (\<lambda>(s, g). loaded s)"
  unfolding hydrateActiveGoal_def
  by (rule hoare_ebind [OF hoare_getOrInit [OF assms]]) (simp add: hoare_ereturn)

lemma hoare_storyBeat:
  assumes "idok (beat_session e)" "idok (beat_user e)"
  shows "hoare sessions_ok (handleStoryBeat p e) (\<lambda>_. True)"
  unfolding handleStoryBeat_def Let_def
proof (rule hoare_ebind [OF hoare_hydrate [OF assms]], safe)
  fix s g assume l: "loaded s"
  have "loaded (with_stack (beat_stack x (ag_toJSON (beat_goal x now g')) (stack_of s)) s)"
    if "ag_status g' = GActive" for x now g'
    using l goals_ok_beat that by (simp add: loaded_def)
  then show "hoare sessions_ok
     (case g of None \<Rightarrow> ereturn ()
      | Some g \<Rightarrow> if ag_status g \<noteq> GActive then ereturn ()
          else ebind (if js_le (Fin 100) (beat_progress e) then eread (po_now p) else ereturn 0)
             (\<lambda>now. po_set p (beat_session e) (with_stack (beat_stack (beat_progress e)
                 (ag_toJSON (beat_goal (beat_progress e) now g)) (stack_of s)) s))) (\<lambda>_. True)"
    using assms
    by (intro hoare_option hoare_If hoare_ereturn hoare_set TrueI
        hoare_ebind [where P = "\<lambda>_. True"] port_hoare(1)) auto
qed

lemma hoare_sleep:
  assumes "\<And>c sid. pc = Some c \<Longrightarrow> pc_sessionId c = Some sid \<Longrightarrow> idok sid"
    and "\<And>c uid. pc = Some c \<Longrightarrow> pc_userId c = Some uid \<Longrightarrow> idok uid"
  shows "hoare sessions_ok (handleSleepCueDetected p pc) (\<lambda>_. True)"
proof (cases "\<exists>c sid uid. pc = Some c \<and> pc_sessionId c = Some sid \<and> pc_userId c = Some uid \<and>
    sid \<noteq> [] \<and> uid \<noteq> []")
  case False
  then have "handleSleepCueDetected p pc = ereturn ()"
    by (auto simp: handleSleepCueDetected_def Let_def or_undefined_def truthy_string_def
        split: option.split)
  then show ?thesis by (simp add: hoare_ereturn)
next
  case True
  then obtain c sid uid where c: "pc = Some c" "pc_sessionId c = Some sid"
    "pc_userId c = Some uid" "sid \<noteq> []" "uid \<noteq> []" by blast
  then have ids: "idok sid" "idok uid" using assms by blast+
  show ?thesis
    unfolding handleSleepCueDetected_def Let_def
    by (simp add: c)
      (rule hoare_ebind [OF hoare_hydrate [OF ids]],
        clarify, intro hoare_option hoare_prod hoare_ethen hoare_ereturn TrueI hoare_If hoare_set ids
          port_hoare(7), auto)
qed

lemma hoare_setGoal:
  assumes "set_goal_args call = (sid, uid, t, m)" "idok sid" "idok uid"
  shows "hoare sessions_ok (setGoal p call) (\<lambda>_. True)"
proof -
  have "loaded (push_goal (ag_toJSON (ag_createNew inp now now2 rnd)) s)"
    if "loaded s" for inp now now2 rnd s
    using that by (simp add: loaded_def goals_ok_push goal_ok_createNew)
  then show ?thesis
    unfolding setGoal_def assms(1) prod.case
    by (intro hoare_ebind [OF hoare_getOrInit [OF assms(2,3)]] hoare_set [OF assms(2)]
        hoare_ebind [OF port_hoare(1)] hoare_ebind [OF port_hoare(2)])
qed

lemma hoare_preference: "hoare sessions_ok (retrievePreferenceContext p c) (\<lambda>_. True)"
  unfolding retrievePreferenceContext_def Let_def
  by (intro hoare_option hoare_ereturn TrueI hoare_etry hoare_ebind [OF port_hoare(8)])

lemma hoare_observe: "hoare sessions_ok (observe_memory p config ctx sid uid) (\<lambda>_. True)"
  unfolding observe_memory_def
  by (intro hoare_option hoare_If hoare_ereturn TrueI hoare_ebind [OF hoare_preference]
      hoare_ebind [OF port_hoare(6)])

lemma hoare_start:
  assumes "idok sid" "loaded s"
  shows "hoare sessions_ok (start_session p sid s) loaded"
  unfolding start_session_def Let_def
  by (intro hoare_If hoare_ebind [OF port_hoare(1)] hoare_ethen hoare_set hoare_ereturn)
    (use assms in simp_all)

lemma hoare_parse: "hoare sessions_ok (parse_schema p b) (\<lambda>_. True)"
  unfolding parse_schema_def by (intro hoare_If hoare_ereturn hoare_ethrow TrueI)

lemma hoare_save: "hoare sessions_ok (save_trace p t) (\<lambda>_. True)"
  unfolding save_trace_def
  by (intro hoare_option hoare_ereturn hoare_etry TrueI port_hoare(5))

lemma hoare_backoff: "hoare sessions_ok (backoff p ps) (\<lambda>_. True)"
  unfolding backoff_def
  by (intro hoare_option hoare_If hoare_ereturn TrueI eread_quiet) (simp add: wait_quiet)

lemma hoare_prepare:
  assumes "\<And>sid. cx_sessionId ctx = Some sid \<Longrightarrow> idok sid"
    and "\<And>uid. cx_userId ctx = Some uid \<Longrightarrow> uid \<noteq> [] \<Longrightarrow> idok uid"
  shows "hoare sessions_ok (conduct_prepare p config ctx)
    (\<lambda>pr. loaded (pr_state pr) \<and> idok (pr_sessionId pr) \<and> idok (pr_userId pr))"
proof -
  let ?uid = "or_string (cx_userId ctx) ''anon''"
  have u: "idok ?uid" using assms(2) default_ids by (cases "cx_userId ctx") auto
  have s: "hoare sessions_ok
     (if truthy_string (cx_sessionId ctx) then ereturn (the (cx_sessionId ctx))
      else ebind (eread (po_now p)) (\<lambda>now. ereturn (''session_'' @ show_int now))) idok"
    by (intro hoare_If hoare_ereturn hoare_ebind [OF port_hoare(1)])
      (use assms(1) default_ids in \<open>auto simp: truthy_string_def split: option.splits\<close>)
  show ?thesis
    unfolding conduct_prepare_def Let_def
    by (intro hoare_ethen [OF hoare_parse] hoare_ebind [OF s] hoare_ebind [OF hoare_getOrInit]
        hoare_ebind [OF hoare_start] hoare_ebind [OF hoare_observe] hoare_ereturn)
      (use u in simp_all)
qed

lemma hoare_attempt:
  assumes "loaded s" "idok (pr_sessionId pr)" "idok (pr_userId pr)"
  shows "hoare sessions_ok (conduct_attempt p config ctx pr s err cost) (\<lambda>(s', r). loaded s')"
  unfolding conduct_attempt_def Let_def
  by (intro hoare_etry hoare_ebind [OF hoare_quiet [OF think_quiet]] hoare_ebind [OF port_hoare(1)]
      hoare_ethen [OF hoare_save] hoare_ebind [OF hoare_getOrInit] hoare_ethen [OF hoare_set]
      hoare_ereturn)
    (use assms in simp_all)

lemma hoare_recover: "hoare sessions_ok (recover p config n e cost) (\<lambda>_. True)"
proof -
  have "hoare sessions_ok
     (case a of
           ABORT \<Rightarrow> ereturn (Stop c)
         | FALLBACK \<Rightarrow> ereturn (Stop c)
         | DEGRADE_SERVICE \<Rightarrow>
             ebind (eread (po_now p)) (\<lambda>now. ereturn (Done (safe_mode_result config now)))
         | RETRY \<Rightarrow> ethen (backoff p ps) (ereturn (Again c))
         | SELF_CORRECT \<Rightarrow> ethen (backoff p ps) (ereturn (Again c))) (\<lambda>_. True)" for a c ps
    by (cases a)
      (simp_all add: hoare_ereturn hoare_ethen [OF hoare_backoff] hoare_ebind [OF port_hoare(1)])
  then show ?thesis
    unfolding recover_def Let_def
    by (intro hoare_etry hoare_ebind [OF hoare_quiet [OF assess_quiet]] hoare_ereturn TrueI)
qed

lemma hoare_fall_back: "hoare sessions_ok (fall_back p config n e cost) (\<lambda>_. True)"
  unfolding fall_back_def by (intro hoare_ebind [OF port_hoare(1)] hoare_ereturn TrueI)

lemma hoare_loop:
  assumes "loaded s" "idok (pr_sessionId pr)" "idok (pr_userId pr)"
  shows "hoare sessions_ok (conduct_loop p config ctx pr n k s err cost) (\<lambda>_. True)"
  using assms(1)
proof (induction n arbitrary: k s err cost)
  case 0
  then show ?case by (simp add: hoare_fall_back)
next
  case (Suc n)
  have "hoare sessions_ok
     (case r of Inr res \<Rightarrow> ereturn res
      | Inl e \<Rightarrow> ebind (recover p config (Suc k) e cost) (\<lambda>step.
             case step of
               Again cost' \<Rightarrow> conduct_loop p config ctx pr n (Suc k) s' (Some e) cost'
             | Stop cost' \<Rightarrow> fall_back p config (Suc k) (Some e) cost'
             | Done res \<Rightarrow> ereturn res)) (\<lambda>_. True)" if "loaded s'" for s' r
  proof (cases r)
    case (Inl e)
    have "hoare sessions_ok (case step of
               Again cost' \<Rightarrow> conduct_loop p config ctx pr n (Suc k) s' (Some e) cost'
             | Stop cost' \<Rightarrow> fall_back p config (Suc k) (Some e) cost'
             | Done res \<Rightarrow> ereturn res) (\<lambda>_. True)" for step
      using Suc.IH [OF that] by (cases step) (simp_all add: hoare_fall_back hoare_ereturn)
    then show ?thesis using Inl by (simp add: hoare_ebind [OF hoare_recover])
  qed (simp add: hoare_ereturn)
  then show ?case
    by (simp only: conduct_loop.simps)
      (rule hoare_ebind [OF hoare_attempt [OF Suc.prems assms(2,3)]], auto)
qed

lemma hoare_conduct:
  assumes "\<And>sid. cx_sessionId ctx = Some sid \<Longrightarrow> idok sid"
    and "\<And>uid. cx_userId ctx = Some uid \<Longrightarrow> uid \<noteq> [] \<Longrightarrow> idok uid"
  shows "hoare sessions_ok (conductStorySession p config ctx) (\<lambda>_. True)"
  unfolding conductStorySession_def
  by (rule hoare_ebind [OF hoare_prepare [OF assms]]) (auto intro: hoare_loop)

lemma hoare_learn:
  assumes "loaded s"
  shows "hoare sessions_ok (learn_feedback p msg uid s) (\<lambda>(s', r). loaded s')"
  unfolding learn_feedback_def Let_def prod.case
  by (intro hoare_option hoare_If hoare_ethen hoare_ereturn port_hoare(7)) (use assms in simp_all)

lemma hoare_gate: "hoare sessions_ok (gate_check p m v) (\<lambda>_. True)"
  unfolding gate_check_def by (intro hoare_If hoare_sum hoare_ethrow hoare_ereturn TrueI)

lemma hoare_suggest:
  assumes "idok sid" "idok uid"
  shows "hoare sessions_ok (record_suggestion p sid uid rej t) (\<lambda>_. True)"
  unfolding record_suggestion_def prod.case
  by (intro hoare_option hoare_ereturn TrueI hoare_ebind [OF hoare_getOrInit]
      hoare_ethen [OF hoare_set] port_hoare(9))
    (use assms in simp_all)

lemma hoare_reason:
  assumes "idok sid" "idok uid"
  shows "hoare sessions_ok (turn_reason p ctx sid uid counts rej obs) (\<lambda>_. True)"
  unfolding turn_reason_def Let_def
  by (intro hoare_etry hoare_ethen [OF hoare_ewhen] hoare_gate hoare_ebind [OF port_hoare(1)]
      hoare_ebind [OF hoare_quiet [OF think_quiet]] hoare_ethen [OF hoare_gate]
      hoare_ethen [OF hoare_save] hoare_ethen [OF hoare_suggest [OF assms]] hoare_ereturn TrueI)

lemma loaded_counts [simp]: "loaded (with_counts c s) = loaded s"
  by (simp add: with_counts_def)

lemma hoare_turn:
  assumes "idok (case cx_sessionId ctx of None \<Rightarrow> [] | Some x \<Rightarrow> x)"
    and "idok (case cx_userId ctx of None \<Rightarrow> [] | Some x \<Rightarrow> x)"
  shows "hoare sessions_ok (processTurn p msg ctx) (\<lambda>_. True)"
  unfolding processTurn_def Let_def
  by (intro hoare_ethen [OF hoare_parse] hoare_ebind [OF hoare_hydrate [OF assms]] hoare_prod
      hoare_ebind [OF hoare_learn] hoare_ethen [OF hoare_set [OF assms(1)]]
      hoare_ebind [where P = "\<lambda>_. True"] hoare_option hoare_ereturn TrueI port_hoare(6)
      hoare_reason [OF assms]) auto

lemma hoare_event:
  assumes "list_all idok (event_ids e)"
  shows "hoare sessions_ok (handle_event p e) (\<lambda>_. True)"
proof (cases e)
  case (Conduct config ctx)
  have "hoare sessions_ok (conductStorySession p config ctx) (\<lambda>_. True)"
    by (rule hoare_conduct) (use assms Conduct in auto)
  then show ?thesis using Conduct by (simp add: hoare_ethen hoare_ereturn)
next
  case (Turn message ctx)
  have "hoare sessions_ok (processTurn p message ctx) (\<lambda>_. True)"
    by (rule hoare_turn) (use assms Turn in auto)
  then show ?thesis using Turn by (simp add: hoare_ethen hoare_ereturn)
next
  case (StoryBeat b)
  then show ?thesis using assms by (simp add: hoare_storyBeat)
next
  case (SleepCue pc)
  have "hoare sessions_ok (handleSleepCueDetected p pc) (\<lambda>_. True)"
    by (rule hoare_sleep) (use assms SleepCue in auto)
  then show ?thesis using SleepCue by simp
next
  case (Goal call)
  obtain sid uid t m where a: "set_goal_args call = (sid, uid, t, m)"
    by (cases "set_goal_args call") auto
  show ?thesis using Goal a assms by (simp add: hoare_setGoal [OF a])
qed

lemma run_events_ok:
  "\<lbrakk>sessions_ok w; \<forall>e \<in> set es. list_all idok (event_ids e)\<rbrakk> \<Longrightarrow> sessions_ok (run_events p es w)"
proof (induction es arbitrary: w)
  case Nil
  then show ?case by simp
next
  case (Cons e es)
  have "sessions_ok (snd (handle_event p e w))"
    using Cons.prems by (intro hoare_snd [OF hoare_event]) auto
  then show ?case using Cons by simp
qed

subsubsection \<open>Results of the handlers\<close>

lemma set_run:
  assumes "ok (st w)" "idok sid" "idok (ss_userId v)"
  obtains w' y where "po_set p sid v w = (Inr (), w')" "clock w' = clock w" "ok (st w')"
    "view w' sid = Some y" "core y = core v"
    "\<And>sid' t. idok sid' \<Longrightarrow> sid' \<noteq> sid \<Longrightarrow> get (st w') t sid' = get (st w) t sid'"
proof -
  obtain w' where w': "po_set p sid v w = (Inr (), w')" "st w' = put (st w) (clock w) sid v"
    "clock w' = clock w" using set_port [OF assms(1)] by blast
  obtain y where "get (put (st w) (clock w) sid v) (clock w) sid = Some y" "core y = core v"
    using get_put_same [OF assms order.refl] ttl_pos by force
  then show thesis
    using that [OF w'(1,3), of y] w' put_ok [OF assms] get_put_other [OF assms(1,2) _ assms(3)]
    by (simp add: view_def)
qed

lemma now_run:
  obtains t w' where "eread (po_now p) w = (Inr t, w')" "st w' = st w" "clock w \<le> clock w'"
  using now_quiet [of w] by (cases "po_now p w") auto

lemma random_run:
  obtains t w' where "eread (po_random p) w = (Inr t, w')" "st w' = st w" "clock w \<le> clock w'"
  using random_quiet [of w] by (cases "po_random p w") auto

lemma getOrInit_run:
  assumes "ok (st w)" "idok sid" "idok uid"
  obtains s w' where "getOrInitState p sid uid w = (Inr s, w')" "ok (st w')" "clock w \<le> clock w'"
    "idok (ss_userId s)"
    "case view w sid of None \<Rightarrow> \<exists>t. s = initial_state sid uid t | Some s0 \<Rightarrow> s = migrate s0"
    "\<And>sid' t. idok sid' \<Longrightarrow> sid' \<noteq> sid \<Longrightarrow> get (st w') t sid' = get (st w) t sid'"
proof (cases "view w sid")
  case None
  have g: "po_get p sid w = (Inr None, w)"
    using None assms(1) by (simp add: get_port view_def)
  obtain t w1 where n: "eread (po_now p) w = (Inr t, w1)" "st w1 = st w" "clock w \<le> clock w1"
    by (rule now_run)
  let ?s = "initial_state sid uid t"
  have u: "idok (ss_userId ?s)" using assms(3) by (simp add: initial_state_def)
  obtain w2 y where s: "po_set p sid ?s w1 = (Inr (), w2)" "clock w2 = clock w1" "ok (st w2)"
    "\<And>sid' t. idok sid' \<Longrightarrow> sid' \<noteq> sid \<Longrightarrow> get (st w2) t sid' = get (st w1) t sid'"
    using set_run [of w1 sid ?s] assms n(2) u by metis
  have "getOrInitState p sid uid w = (Inr ?s, w2)"
    using g n(1) s(1) by (simp add: getOrInitState_eq)
  then show thesis using that [of ?s w2] s(2-4) n(2,3) u None by auto
next
  case (Some s0)
  have g: "po_get p sid w = (Inr (Some s0), w)"
    using Some assms(1) by (simp add: get_port view_def)
  have u: "idok (ss_userId (migrate s0))"
    using get_user [OF assms(1,2)] Some by (simp add: view_def)
  show thesis
  proof (cases "migrate s0 = s0")
    case True
    then have "getOrInitState p sid uid w = (Inr (migrate s0), w)"
      using g by (simp add: getOrInitState_eq)
    then show thesis using that [of "migrate s0" w] assms(1) u Some by simp
  next
    case False
    obtain w2 y where s: "po_set p sid (migrate s0) w = (Inr (), w2)" "clock w2 = clock w"
      "ok (st w2)"
      "\<And>sid' t. idok sid' \<Longrightarrow> sid' \<noteq> sid \<Longrightarrow> get (st w2) t sid' = get (st w) t sid'"
      using set_run [OF assms(1,2) u] by metis
    have "getOrInitState p sid uid w = (Inr (migrate s0), w2)"
      using g s(1) False by (simp add: getOrInitState_eq)
    then show thesis using that [of "migrate s0" w2] s u Some by simp
  qed
qed

definition goals_before :: "'w \<Rightarrow> string \<Rightarrow> goal_props list" where
  "goals_before w sid = (case view w sid of None \<Rightarrow> [] | Some s \<Rightarrow> stack_of (migrate s))"

lemma setGoal_run:
  assumes "ok (st w)" "set_goal_args call = (sid, uid, t, m)" "idok sid" "idok uid"
  obtains w' v g where "setGoal p call w = (Inr (), w')" "view w' sid = Some v"
    "ss_activeGoals v = Some (g # take 4 (goals_before w sid))" "ss_activeGoal v = Some g"
    "gp_type g = t" "gp_status g = GActive" "gp_progress g = Fin 0"
    "gp_targetTime g = gp_createdAt g + 60000 * m"
    "\<And>sid' t. idok sid' \<Longrightarrow> sid' \<noteq> sid \<Longrightarrow> get (st w') t sid' = get (st w) t sid'"
proof -
  obtain s w1 where s: "getOrInitState p sid uid w = (Inr s, w1)" "ok (st w1)" "idok (ss_userId s)"
    "case view w sid of None \<Rightarrow> \<exists>t. s = initial_state sid uid t | Some s0 \<Rightarrow> s = migrate s0"
    "\<And>sid' t. idok sid' \<Longrightarrow> sid' \<noteq> sid \<Longrightarrow> get (st w1) t sid' = get (st w) t sid'"
    using getOrInit_run [OF assms(1,3,4)] by metis
  obtain t1 w2 where n1: "eread (po_now p) w1 = (Inr t1, w2)" "st w2 = st w1" by (rule now_run)
  obtain t2 w3 where n2: "eread (po_now p) w2 = (Inr t2, w3)" "st w3 = st w2" by (rule now_run)
  obtain r w4 where n3: "eread (po_random p) w3 = (Inr r, w4)" "st w4 = st w3" by (rule random_run)
  let ?g = "ag_toJSON (ag_createNew \<lparr>cg_type = t, cg_targetMinutes = m, cg_description = None\<rparr> t1 t2 r)"
  let ?v = "push_goal ?g s"
  have o4: "ok (st w4)" using s(2) n1(2) n2(2) n3(2) by simp
  have u: "idok (ss_userId ?v)" using s(3) by simp
  obtain w5 y where w5: "po_set p sid ?v w4 = (Inr (), w5)" "view w5 sid = Some y" "core y = core ?v"
    "\<And>sid' t. idok sid' \<Longrightarrow> sid' \<noteq> sid \<Longrightarrow> get (st w5) t sid' = get (st w4) t sid'"
    using set_run [OF o4 assms(3) u] by metis
  have run: "setGoal p call w = (Inr (), w5)"
    using assms(2) s(1) n1(1) n2(1) n3(1) w5(1) by (simp add: setGoal_def)
  have shape: "ss_activeGoals s \<noteq> None \<or> ss_activeGoal s = None"
    and st: "stack_of s = goals_before w sid"
    using s(4) migrate_shape
    by (auto simp: goals_before_def initial_state_def stack_of_def split: option.splits)
  have gs: "ss_activeGoals y = Some (?g # take 4 (goals_before w sid))"
    using core_eqD(6) [OF w5(3)] push_goal_stack [OF shape] st by simp
  have "ss_activeGoal y = Some ?g"
    using core_eqD(5) [OF w5(3)] by (simp add: push_goal_def Let_def)
  then show thesis
    using that [OF run w5(2) gs] w5(4) s(5) n1(2) n2(2) n3(2)
    by (simp add: ag_toJSON_def ag_createNew_def)
qed

lemma beat_run:
  assumes "ok (st w)" "idok (beat_session e)" "idok (beat_user e)"
    and "view w (beat_session e) = Some s0" "stack_of (migrate s0) = g # gs" "gp_status g = GActive"
  obtains w' v where "handleStoryBeat p e w = (Inr (), w')" "view w' (beat_session e) = Some v"
    "js_le (Fin 100) (beat_progress e) \<Longrightarrow> stack_of v = gs"
    "\<not> js_le (Fin 100) (beat_progress e) \<Longrightarrow>
       stack_of v = g\<lparr>gp_progress := js_min (Fin 100) (js_max (Fin 0) (beat_progress e))\<rparr> # gs"
    "ss_activeGoal v = (case stack_of v of [] \<Rightarrow> None | g' # _ \<Rightarrow> Some g')"
    "\<And>sid' t. idok sid' \<Longrightarrow> sid' \<noteq> beat_session e \<Longrightarrow> get (st w') t sid' = get (st w) t sid'"
proof -
  let ?x = "beat_progress e" and ?sid = "beat_session e"
  obtain s w1 where s: "getOrInitState p ?sid (beat_user e) w = (Inr s, w1)" "ok (st w1)"
    "clock w \<le> clock w1" "idok (ss_userId s)"
    "case view w ?sid of None \<Rightarrow> \<exists>t. s = initial_state ?sid (beat_user e) t | Some s0 \<Rightarrow> s = migrate s0"
    "\<And>sid' t. idok sid' \<Longrightarrow> sid' \<noteq> ?sid \<Longrightarrow> get (st w1) t sid' = get (st w) t sid'"
    using getOrInit_run [OF assms(1-3)] by blast
  have m: "s = migrate s0" using s(5) assms(4) by simp
  have cg: "current_goal s = Some g"
    using assms(5) m by (auto simp: current_goal_def stack_of_def split: option.splits)
  obtain t w2 where n: "(if js_le (Fin 100) ?x then eread (po_now p) else ereturn 0) w1 = (Inr t, w2)"
    "st w2 = st w1"
  proof (cases "js_le (Fin 100) ?x")
    case True
    then show thesis using now_run [of w1 thesis] that by auto
  next
    case False
    then show thesis using that [of 0 w1] by simp
  qed
  let ?g = "ag_toJSON (beat_goal ?x t (ag_create g))"
  let ?v = "with_stack (beat_stack ?x ?g (stack_of s)) s"
  have o2: "ok (st w2)" using s(2) n(2) by simp
  have u: "idok (ss_userId ?v)" using s(4) by simp
  obtain w3 y where w3: "po_set p ?sid ?v w2 = (Inr (), w3)" "view w3 ?sid = Some y"
    "core y = core ?v"
    "\<And>sid' t. idok sid' \<Longrightarrow> sid' \<noteq> ?sid \<Longrightarrow> get (st w3) t sid' = get (st w2) t sid'"
    using set_run [OF o2 assms(2) u] by metis
  have run: "handleStoryBeat p e w = (Inr (), w3)"
    using s(1) cg n(1) w3(1) assms(6)
    by (simp add: handleStoryBeat_def hydrateActiveGoal_def Let_def)
  have "stack_of y = stack_of (core y)" by simp
  also have "\<dots> = beat_stack ?x ?g (g # gs)" using w3(3) m assms(5) by simp
  finally have st: "stack_of y = beat_stack ?x ?g (g # gs)" .
  have a: "ss_activeGoal y = (case stack_of y of [] \<Rightarrow> None | g' # _ \<Rightarrow> Some g')"
    using core_eqD(5) [OF w3(3)] by (simp only: with_stack_sel st m assms(5))
  have g: "\<not> js_le (Fin 100) ?x \<Longrightarrow>
      ?g = g\<lparr>gp_progress := js_min (Fin 100) (js_max (Fin 0) ?x)\<rparr>"
    by (cases g) (simp add: beat_goal_def ag_updateProgress_def ag_toJSON_def ag_create_def)
  show thesis
    using that [OF run w3(2) _ _ a] st g w3(4) s(6) n(2) by (simp add: beat_stack_def)
qed

end

end
