(* ===== verification/ConductorRedis.thy ===== *)
theory ConductorRedis
  imports ConductorStore SessionRedis
begin

text \<open>
  The conductor in the configuration of production: sessions in Redis, the resilience engine of
  the domain layer, and a memory that answers like \<open>InMemoryAgentMemory\<close>.  The world holds the
  database, a clock that advances while the language model answers and while the agent backs off,
  and the script of the model's replies (\<open>wd_reply n\<close>: latency and outcome of the \<open>n\<close>-th
  call).  \<open>deployment\<close> collects what stays fixed: which optional collaborators there are, the prompt
  templates and the texts of library errors.  The ports interpret the locale \<open>conducted\<close>.
\<close>

record world =
  wd_db :: redis_db
  wd_now :: millis
  wd_memory :: im_memory
  wd_calls :: nat
  wd_reply :: "nat \<Rightarrow> nat \<times> (js_error + thought_step)"
  wd_draws :: nat
  wd_random :: "nat \<Rightarrow> string"
  wd_waits :: "real list"

record deployment =
  su_memory :: bool
  su_gate :: bool
  su_observation :: "observation_vars \<Rightarrow> string"
  su_start_trigger :: "string \<Rightarrow> string"
  su_uuid :: "string \<Rightarrow> bool"
  su_schema_error :: string
  su_redis_error :: string

definition im_port :: "world memory_port" where
  "im_port =
     \<lparr>mp_retrieve = (\<lambda>q c ty l w. (Inr (im_retrieve (wd_memory w) q c ty l), w)),
      mp_trackOutcome = (\<lambda>th oc c w.
        (Inr (), w\<lparr>wd_memory := im_trackOutcome (wd_memory w) th oc c\<rparr>)),
      mp_getThemeStats = (\<lambda>c l w. (Inr (im_getThemeStats (wd_memory w) c l), w)),
      mp_trackPreferencePair = (\<lambda>a b c w.
        (Inr (), w\<lparr>wd_memory := im_trackPreferencePair (wd_memory w) a b c\<rparr>))\<rparr>"

definition redis_ports :: "deployment \<Rightarrow> world ports" where
  "redis_ports su =
     \<lparr>po_now = (\<lambda>w. (wd_now w, w)),
      po_random = (\<lambda>w. (wd_random w (wd_draws w), w\<lparr>wd_draws := Suc (wd_draws w)\<rparr>)),
      po_get = (\<lambda>sid w. (Inr (redis_get (wd_db w) (wd_now w) sid), w)),
      po_set = (\<lambda>sid v w.
        case redis_set (wd_db w) (wd_now w) sid v of
          Inl _ \<Rightarrow> (Inl (Err ''Error'' (su_redis_error su)), w)
        | Inr db \<Rightarrow> (Inr (), w\<lparr>wd_db := db\<rparr>)),
      po_memory = (if su_memory su then Some im_port else None),
      po_think = (\<lambda>obs tr w.
        case wd_reply w (wd_calls w) of (latency, r) \<Rightarrow>
          (r, w\<lparr>wd_calls := Suc (wd_calls w), wd_now := wd_now w + int latency\<rparr>)),
      po_save_trace = None,
      po_assess = (\<lambda>ev w. (Inr (assessFailure ev), w)),
      po_wait = (\<lambda>ms w. w\<lparr>wd_now := wd_now w + int (nat \<lceil>ms\<rceil>), wd_waits := wd_waits w @ [ms]\<rparr>),
      po_gate = su_gate su,
      po_observation = su_observation su,
      po_start_trigger = su_start_trigger su,
      po_uuid = su_uuid su,
      po_schema_error = su_schema_error su\<rparr>"

lemma redis_ports_simps [simp]:
  "po_now (redis_ports su) w = (wd_now w, w)"
  "po_random (redis_ports su) w = (wd_random w (wd_draws w), w\<lparr>wd_draws := Suc (wd_draws w)\<rparr>)"
  "po_get (redis_ports su) sid w = (Inr (redis_get (wd_db w) (wd_now w) sid), w)"
  "po_memory (redis_ports su) = (if su_memory su then Some im_port else None)"
  "po_save_trace (redis_ports su) = None"
  "po_assess (redis_ports su) ev w = (Inr (assessFailure ev), w)"
  "po_wait (redis_ports su) ms w =
     w\<lparr>wd_now := wd_now w + int (nat \<lceil>ms\<rceil>), wd_waits := wd_waits w @ [ms]\<rparr>"
  "po_gate (redis_ports su) = su_gate su"
  "po_uuid (redis_ports su) = su_uuid su"
  by (simp_all add: redis_ports_def)

lemma redis_set_port:
  "rd_up (wd_db w) \<Longrightarrow> po_set (redis_ports su) sid v w =
     (Inr (), w\<lparr>wd_db := redis_put (wd_db w) (wd_now w) sid v\<rparr>)"
  by (simp add: redis_ports_def redis_set_def redis_put_def)

lemma redis_think_port:
  "po_think (redis_ports su) obs tr w =
     (snd (wd_reply w (wd_calls w)),
      w\<lparr>wd_calls := Suc (wd_calls w), wd_now := wd_now w + int (fst (wd_reply w (wd_calls w)))\<rparr>)"
  by (simp add: redis_ports_def split: prod.split)

lemma im_port_simps [simp]:
  "mp_retrieve im_port q c ty l w = (Inr (im_retrieve (wd_memory w) q c ty l), w)"
  "mp_trackOutcome im_port th oc c w =
     (Inr (), w\<lparr>wd_memory := im_trackOutcome (wd_memory w) th oc c\<rparr>)"
  "mp_getThemeStats im_port c l w = (Inr (im_getThemeStats (wd_memory w) c l), w)"
  "mp_trackPreferencePair im_port a b c w =
     (Inr (), w\<lparr>wd_memory := im_trackPreferencePair (wd_memory w) a b c\<rparr>)"
  by (simp_all add: im_port_def)

lemma plain_show_int: "CHR '':'' \<notin> set (show_int n)"
  using show_nat_digits [of "CHR '':''"] by (auto simp: show_int_def)

interpretation night: conducted redis_get redis_put redis_ok plain_id ttl_ms
    "redis_ports su" wd_db wd_now for su
proof (unfold_locales, goal_cases)
  case (2 w sid v)
  then show ?case using redis_set_port [of w su sid v] redis_okD(1) [of "wd_db w"] by auto
next
  case (15 n)
  then show ?case using plain_show_int [of n] by (simp add: plain_id_def)
qed (simp_all add: redis_think_port plain_id_def split: if_splits)

lemma session_view: "night.view w sid = redis_get (wd_db w) (wd_now w) sid"
  by (simp add: night.view_def)

subsection \<open>Reading and writing a session\<close>

lemma redis_store:
  assumes "redis_ok (wd_db w)" "plain_id sid" "plain_id (ss_userId v)"
  obtains db y where "po_set (redis_ports su) sid v w = (Inr (), w\<lparr>wd_db := db\<rparr>)" "redis_ok db"
    "core y = core v" "\<And>t. wd_now w \<le> t \<Longrightarrow> t < wd_now w + ttl_ms \<Longrightarrow> redis_get db t sid = Some y"
proof -
  let ?db = "redis_put (wd_db w) (wd_now w) sid v"
  let ?y = "update_result (wd_db w) (wd_now w) (strict_key (ss_userId v) sid)
              (v\<lparr>ss_history := None, ss_updatedAt := wd_now w\<rparr>)"
  have "po_set (redis_ports su) sid v w = (Inr (), w\<lparr>wd_db := ?db\<rparr>)"
    by (rule redis_set_port) (rule redis_okD(1) [OF assms(1)])
  moreover have "redis_ok ?db" by (rule redis_ok_put [OF assms])
  moreover have "core ?y = core v" by simp
  ultimately show thesis using that redis_get_put_same [OF assms] by blast
qed

lemma redis_load:
  assumes "redis_ok (wd_db w)" "plain_id sid" "plain_id uid"
  obtains s db where "getOrInitState (redis_ports su) sid uid w = (Inr s, w\<lparr>wd_db := db\<rparr>)"
    "redis_ok db" "plain_id (ss_userId s)"
    "s = (case redis_get (wd_db w) (wd_now w) sid of None \<Rightarrow> initial_state sid uid (wd_now w)
          | Some s0 \<Rightarrow> migrate s0)"
    "\<exists>y. redis_get db (wd_now w) sid = Some y \<and> core y = core s"
proof (cases "redis_get (wd_db w) (wd_now w) sid")
  case None
  let ?s = "initial_state sid uid (wd_now w)"
  have u: "plain_id (ss_userId ?s)" using assms(3) by (simp add: initial_state_def)
  obtain db y where d: "po_set (redis_ports su) sid ?s w = (Inr (), w\<lparr>wd_db := db\<rparr>)" "redis_ok db"
    "core y = core ?s" "\<And>t. wd_now w \<le> t \<Longrightarrow> t < wd_now w + ttl_ms \<Longrightarrow> redis_get db t sid = Some y"
    using redis_store [OF assms(1,2) u] by blast
  have "eread (po_now (redis_ports su)) w = (Inr (wd_now w), w)" by (rule eread_run) simp
  then have "getOrInitState (redis_ports su) sid uid w = (Inr ?s, w\<lparr>wd_db := db\<rparr>)"
    using None d(1) by (simp add: night.getOrInitState_eq)
  moreover have "redis_get db (wd_now w) sid = Some y" using d(4) by (simp add: ttl_ms_def)
  ultimately show thesis using that d(2,3) u None by simp
next
  case (Some s0)
  have u: "plain_id (ss_userId (migrate s0))"
    using redis_get_strict(1) [OF assms(1,2) Some] by simp
  show thesis
  proof (cases "migrate s0 = s0")
    case True
    then have "getOrInitState (redis_ports su) sid uid w = (Inr (migrate s0), w\<lparr>wd_db := wd_db w\<rparr>)"
      using Some by (simp add: night.getOrInitState_eq)
    moreover have "\<exists>y. redis_get (wd_db w) (wd_now w) sid = Some y \<and> core y = core (migrate s0)"
      using Some True by simp
    moreover have "migrate s0 = (case redis_get (wd_db w) (wd_now w) sid of
        None \<Rightarrow> initial_state sid uid (wd_now w) | Some s0 \<Rightarrow> migrate s0)" by (simp only: Some option.case)
    ultimately show thesis using that assms(1) u by blast
  next
    case False
    obtain db y where d: "po_set (redis_ports su) sid (migrate s0) w = (Inr (), w\<lparr>wd_db := db\<rparr>)"
      "redis_ok db" "core y = core (migrate s0)"
      "\<And>t. wd_now w \<le> t \<Longrightarrow> t < wd_now w + ttl_ms \<Longrightarrow> redis_get db t sid = Some y"
      using redis_store [OF assms(1,2) u] by blast
    have "getOrInitState (redis_ports su) sid uid w = (Inr (migrate s0), w\<lparr>wd_db := db\<rparr>)"
      using Some d(1) False by (simp add: night.getOrInitState_eq)
    moreover have "redis_get db (wd_now w) sid = Some y"
      by (rule d(4)) (simp_all add: ttl_ms_def)
    moreover have "migrate s0 = (case redis_get (wd_db w) (wd_now w) sid of
        None \<Rightarrow> initial_state sid uid (wd_now w) | Some s0 \<Rightarrow> migrate s0)" by (simp only: Some option.case)
    ultimately show thesis using that d(2,3) u by blast
  qed
qed

lemma migrate_fields [simp]:
  "ss_lastSuggestedTheme (migrate s) = ss_lastSuggestedTheme s"
  "ss_sessionStartTime (migrate s) = ss_sessionStartTime s" "ss_phase (migrate s) = ss_phase s"
  "ss_context (migrate s) = ss_context s"
  by (simp_all add: migrate_def split: option.split)

lemma read_now: "eread (po_now (redis_ports su)) w = (Inr (wd_now w), w)"
  by (rule eread_run) simp

lemma sleep_run:
  assumes "redis_ok (wd_db w)" "plain_id sid" "plain_id uid" "su_memory su"
    and "redis_get (wd_db w) (wd_now w) sid = Some s"
    and "ss_lastSuggestedTheme s = Some th" "th \<noteq> []" "ss_sessionStartTime s \<noteq> None"
  obtains db y where
    "handleSleepCueDetected (redis_ports su)
       (Some \<lparr>pc_sessionId = Some sid, pc_userId = Some uid\<rparr>) w =
     (Inr (), w\<lparr>wd_db := db, wd_memory :=
        im_trackOutcome (im_trackOutcome (wd_memory w) th POSITIVE
          \<lparr>mc_userId = uid, mc_sessionId = Some sid\<rparr>) th POSITIVE
          \<lparr>mc_userId = uid, mc_sessionId = Some sid\<rparr>\<rparr>)"
    "redis_ok db" "redis_get db (wd_now w) sid = Some y" "ss_lastSuggestedTheme y = None"
    "ss_phase y = transition (ss_phase s) SLEEP_DETECTED"
    "ss_activeGoals y \<noteq> None \<or> ss_activeGoal y = None"
proof -
  obtain s1 db where l: "getOrInitState (redis_ports su) sid uid w = (Inr s1, w\<lparr>wd_db := db\<rparr>)"
    "redis_ok db" "plain_id (ss_userId s1)"
    and e: "s1 = (case redis_get (wd_db w) (wd_now w) sid of None \<Rightarrow> initial_state sid uid (wd_now w)
          | Some s0 \<Rightarrow> migrate s0)"
    using redis_load [OF assms(1-3)] by blast
  have s1: "s1 = migrate s" using e assms(5) by simp
  let ?c = "\<lparr>mc_userId = uid, mc_sessionId = Some sid\<rparr>"
  let ?w = "w\<lparr>wd_db := db, wd_memory :=
     im_trackOutcome (im_trackOutcome (wd_memory w) th POSITIVE ?c) th POSITIVE ?c\<rparr>"
  let ?v = "s1\<lparr>ss_phase := transition (ss_phase s1) SLEEP_DETECTED, ss_lastSuggestedTheme := None\<rparr>"
  have pre: "redis_ok (wd_db ?w)" "plain_id (ss_userId ?v)" using l by simp_all
  obtain db' y where d: "po_set (redis_ports su) sid ?v ?w = (Inr (), ?w\<lparr>wd_db := db'\<rparr>)"
    "redis_ok db'" "core y = core ?v"
    "\<And>t. wd_now ?w \<le> t \<Longrightarrow> t < wd_now ?w + ttl_ms \<Longrightarrow> redis_get db' t sid = Some y"
    using redis_store [OF pre(1) assms(2) pre(2)] by blast
  have "handleSleepCueDetected (redis_ports su)
       (Some \<lparr>pc_sessionId = Some sid, pc_userId = Some uid\<rparr>) w = (Inr (), ?w\<lparr>wd_db := db'\<rparr>)"
    using assms l(1) d(1) s1
    by (simp add: handleSleepCueDetected_def hydrateActiveGoal_def plain_id_def Let_def)
  moreover have "redis_get db' (wd_now w) sid = Some y" using d(4) by (simp add: ttl_ms_def)
  moreover have "ss_lastSuggestedTheme y = None" using core_eqD(7) [OF d(3)] by simp
  moreover have "ss_phase y = transition (ss_phase s) SLEEP_DETECTED"
    using core_eqD(3) [OF d(3)] s1 by simp
  moreover have "ss_activeGoals y \<noteq> None \<or> ss_activeGoal y = None"
    using core_eqD(5,6) [OF d(3)] s1 migrate_shape [of s] by simp
  ultimately show thesis using that [of db' y] d(2) by simp
qed

lemma migrate_id: "ss_activeGoals s \<noteq> None \<or> ss_activeGoal s = None \<Longrightarrow> migrate s = s"
  by (auto simp: migrate_def split: option.split)

lemma sleep_nothing:
  assumes "redis_ok (wd_db w)" "plain_id sid" "plain_id uid"
    and "redis_get (wd_db w) (wd_now w) sid = Some s" "ss_lastSuggestedTheme s = None"
    and "ss_activeGoals s \<noteq> None \<or> ss_activeGoal s = None"
  shows "handleSleepCueDetected (redis_ports su)
     (Some \<lparr>pc_sessionId = Some sid, pc_userId = Some uid\<rparr>) w = (Inr (), w)"
proof -
  have "migrate s = s" using assms(6) by (rule migrate_id)
  then have "getOrInitState (redis_ports su) sid uid w = (Inr s, w)"
    using assms(4) by (simp add: night.getOrInitState_eq)
  then show ?thesis
    using assms by (simp add: handleSleepCueDetected_def hydrateActiveGoal_def plain_id_def)
qed

end
