(* ===== verification/ConductorRuns.thy ===== *)
theory ConductorRuns
  imports ConductorRedis
begin

text \<open>
  How the agent's two entry points end.  \<open>conduct_loop\<close> returns a result whatever its ports do,
  and changes nothing of the request but the duration; \<open>spends\<close> counts calls of the language
  model.  A conversational turn answers even when the model fails, and the quality gate decides
  whether the model is asked at all.
\<close>

subsection \<open>The attempt loop always returns\<close>

lemma total_attempt: "total_eff (conduct_attempt p config ctx pr s err cost)"
  unfolding conduct_attempt_def by (intro total_etry total_ereturn)

lemma total_recover: "total_eff (recover p config n e cost)"
  unfolding recover_def by (intro total_etry total_ereturn)

lemma total_fall_back: "total_eff (fall_back p config n e cost)"
  unfolding fall_back_def by (intro total_ebind total_eread total_ereturn)

lemma total_loop: "total_eff (conduct_loop p config ctx pr n k s err cost)"
proof (induction n arbitrary: k s err cost)
  case 0
  then show ?case by (simp add: total_fall_back)
next
  case (Suc n)
  have "total_eff (case step of
            Again cost' \<Rightarrow> conduct_loop p config ctx pr n (Suc k) s' (Some e) cost'
          | Stop cost' \<Rightarrow> fall_back p config (Suc k) (Some e) cost'
          | Done res \<Rightarrow> ereturn res)" for step s' e
    by (cases step) (simp_all add: Suc.IH total_fall_back total_ereturn)
  then have "total_eff (case x of (s', r) \<Rightarrow> (case r of Inr res \<Rightarrow> ereturn res
      | Inl e \<Rightarrow> ebind (recover p config (Suc k) e cost) (\<lambda>step. case step of
            Again cost' \<Rightarrow> conduct_loop p config ctx pr n (Suc k) s' (Some e) cost'
          | Stop cost' \<Rightarrow> fall_back p config (Suc k) (Some e) cost'
          | Done res \<Rightarrow> ereturn res)))" for x
    by (cases x; cases "snd x") (simp_all add: total_ebind [OF total_recover] total_ereturn)
  then show ?case by (simp only: conduct_loop.simps) (rule total_ebind [OF total_attempt])
qed

subsection \<open>What becomes of the request\<close>

definition refines :: "session_config \<Rightarrow> session_config \<Rightarrow> bool" where
  \<comment> \<open>the same request but for the duration\<close>
  "refines config c \<longleftrightarrow> c\<lparr>sc_duration := sc_duration config\<rparr> = config"

lemma refines_refl [simp]: "refines config config"
  by (simp add: refines_def)

lemma refines_request [simp]: "refines config (refine_request config a)"
  by (simp add: refines_def refine_request_def split: option.split)

abbreviation returns :: "('w, 'a) eff \<Rightarrow> ('a \<Rightarrow> bool) \<Rightarrow> bool" where
  "returns m Q \<equiv> hoare (\<lambda>_. True) m Q"

lemma returns_any: "returns m (\<lambda>_. True)"
  by (simp add: hoare_def)

lemma returns_attempt:
  "returns (conduct_attempt p config ctx pr s err cost)
     (\<lambda>(s', r). \<forall>res. r = Inr res \<longrightarrow> refines config (cr_request res))"
  unfolding conduct_attempt_def Let_def
  by (intro hoare_etry hoare_ebind [OF returns_any] hoare_ethen [OF returns_any] hoare_ereturn)
    simp_all

lemma returns_fall_back:
  "returns (fall_back p config n e cost) (\<lambda>r. refines config (cr_request r))"
  unfolding fall_back_def
  by (intro hoare_ebind [OF returns_any] hoare_ereturn) (simp add: fallback_result_def)

lemma returns_recover:
  "returns (recover p config n e cost)
     (\<lambda>step. \<forall>res. step = Done res \<longrightarrow> refines config (cr_request res))"
proof -
  have "returns (case a of
           ABORT \<Rightarrow> ereturn (Stop c)
         | FALLBACK \<Rightarrow> ereturn (Stop c)
         | DEGRADE_SERVICE \<Rightarrow>
             ebind (eread (po_now p)) (\<lambda>now. ereturn (Done (safe_mode_result config now)))
         | RETRY \<Rightarrow> ethen (backoff p ps) (ereturn (Again c))
         | SELF_CORRECT \<Rightarrow> ethen (backoff p ps) (ereturn (Again c)))
      (\<lambda>step. \<forall>res. step = Done res \<longrightarrow> refines config (cr_request res))" for a c ps
    by (cases a) (simp_all add: hoare_ereturn hoare_ethen [OF returns_any]
        hoare_ebind [OF returns_any] safe_mode_result_def)
  then show ?thesis
    unfolding recover_def Let_def
    by (intro hoare_etry hoare_ebind [OF returns_any] hoare_ereturn) simp_all
qed

lemma returns_loop:
  "returns (conduct_loop p config ctx pr n k s err cost) (\<lambda>r. refines config (cr_request r))"
proof (induction n arbitrary: k s err cost)
  case 0
  then show ?case by (simp add: returns_fall_back)
next
  case (Suc n)
  have "returns (case step of
            Again cost' \<Rightarrow> conduct_loop p config ctx pr n (Suc k) s' (Some e) cost'
          | Stop cost' \<Rightarrow> fall_back p config (Suc k) (Some e) cost'
          | Done res \<Rightarrow> ereturn res) (\<lambda>r. refines config (cr_request r))"
    if "\<forall>res. step = Done res \<longrightarrow> refines config (cr_request res)" for step s' e
    using that by (cases step) (simp_all add: Suc.IH returns_fall_back hoare_ereturn)
  then have "returns (case r of Inr res \<Rightarrow> ereturn res
      | Inl e \<Rightarrow> ebind (recover p config (Suc k) e cost) (\<lambda>step. case step of
            Again cost' \<Rightarrow> conduct_loop p config ctx pr n (Suc k) s' (Some e) cost'
          | Stop cost' \<Rightarrow> fall_back p config (Suc k) (Some e) cost'
          | Done res \<Rightarrow> ereturn res)) (\<lambda>r. refines config (cr_request r))"
    if "\<forall>res. r = Inr res \<longrightarrow> refines config (cr_request res)" for r s'
    using that by (cases r) (simp_all add: hoare_ebind [OF returns_recover] hoare_ereturn)
  then show ?case
    by (simp only: conduct_loop.simps) (rule hoare_ebind [OF returns_attempt], auto)
qed

subsection \<open>Calls of the language model\<close>

definition spends :: "nat \<Rightarrow> (world, 'a) eff \<Rightarrow> bool" where
  "spends k m \<longleftrightarrow> (\<forall>w. wd_calls (snd (m w)) \<le> wd_calls w + k)"

lemma spends_ereturn [simp]: "spends k (ereturn a)"
  by (simp add: spends_def)

lemma spends_ethrow [simp]: "spends k (ethrow e)"
  by (simp add: spends_def)

lemma spends_le: "spends j m \<Longrightarrow> j \<le> k \<Longrightarrow> spends k m"
  unfolding spends_def by (meson add_left_mono le_trans)

lemma spends_ebind:
  assumes "spends j m" "\<And>a. spends k (f a)"
  shows "spends (j + k) (ebind m f)"
  unfolding spends_def
proof
  fix w obtain r w1 where m: "m w = (r, w1)" by fastforce
  have j: "wd_calls w1 \<le> wd_calls w + j" using assms(1) m by (metis spends_def snd_conv)
  show "wd_calls (snd (ebind m f w)) \<le> wd_calls w + (j + k)"
  proof (cases r)
    case (Inl e)
    then show ?thesis using m j by simp
  next
    case (Inr a)
    have "wd_calls (snd (f a w1)) \<le> wd_calls w1 + k" using assms(2) by (simp add: spends_def)
    then show ?thesis using m j Inr by simp
  qed
qed

lemma spends_etry:
  assumes "spends j m" "\<And>e. spends k (h e)"
  shows "spends (j + k) (etry m h)"
  unfolding spends_def
proof
  fix w obtain r w1 where m: "m w = (r, w1)" by fastforce
  have j: "wd_calls w1 \<le> wd_calls w + j" using assms(1) m by (metis spends_def snd_conv)
  show "wd_calls (snd (etry m h w)) \<le> wd_calls w + (j + k)"
  proof (cases r)
    case (Inl e)
    have "wd_calls (snd (h e w1)) \<le> wd_calls w1 + k" using assms(2) by (simp add: spends_def)
    then show ?thesis using m j Inl by simp
  next
    case (Inr a)
    then show ?thesis using m j by simp
  qed
qed

text \<open>Everything but the call itself is free.\<close>

lemma free_ebind: "spends 0 m \<Longrightarrow> (\<And>a. spends k (f a)) \<Longrightarrow> spends k (ebind m f)"
  using spends_ebind [of 0 m k f] by simp

lemma free_ethen: "spends 0 m \<Longrightarrow> spends k n \<Longrightarrow> spends k (ethen m n)"
  unfolding ethen_def by (rule free_ebind)

lemma free_etry: "spends k m \<Longrightarrow> (\<And>e. spends 0 (h e)) \<Longrightarrow> spends k (etry m h)"
  using spends_etry [of k m 0 h] by simp

lemma free_If: "spends k m \<Longrightarrow> spends k n \<Longrightarrow> spends k (if b then m else n)"
  by simp

lemma free_option:
  "spends k m \<Longrightarrow> (\<And>a. spends k (f a)) \<Longrightarrow> spends k (case x of None \<Rightarrow> m | Some a \<Rightarrow> f a)"
  by (simp split: option.split)

lemmas free_rules = free_ebind free_ethen free_etry free_If free_option

lemma free_ports:
  "spends 0 (eread (po_now (redis_ports su)))" "spends 0 (po_get (redis_ports su) sid)"
  "spends 0 (po_set (redis_ports su) sid v)" "spends 0 (po_assess (redis_ports su) ev)"
  "spends 0 (eread (\<lambda>w. ((), po_wait (redis_ports su) ms w)))"
  by (simp_all add: spends_def eread_def redis_ports_def split: sum.split)

lemma free_getOrInit: "spends 0 (getOrInitState (redis_ports su) sid uid)"
  unfolding night.getOrInitState_eq by (intro free_rules free_ports spends_ereturn)

lemma spends_think: "spends 1 (po_think (redis_ports su) obs tr)"
  by (simp add: spends_def redis_think_port)

lemma free_save: "spends 0 (save_trace (redis_ports su) t)"
  by (simp add: save_trace_def)

lemma spends_think_then:
  "(\<And>a. spends 0 (f a)) \<Longrightarrow> spends 1 (ebind (po_think (redis_ports su) obs tr) f)"
  using spends_ebind [OF spends_think, of 0 f] by simp

lemma spends_attempt: "spends 1 (conduct_attempt (redis_ports su) config ctx pr s err cost)"
  unfolding conduct_attempt_def Let_def
  by (intro free_etry spends_think_then free_ebind [OF free_ports(1)] free_ethen [OF free_save]
      free_ebind [OF free_getOrInit] free_ethen [OF free_ports(3)] spends_ereturn)

lemma free_recover: "spends 0 (recover (redis_ports su) config n e cost)"
proof -
  have b: "spends 0 (backoff (redis_ports su) ps)" for ps
    unfolding backoff_def by (intro free_rules free_ports spends_ereturn)
  have "spends 0 (case a of
           ABORT \<Rightarrow> ereturn (Stop c)
         | FALLBACK \<Rightarrow> ereturn (Stop c)
         | DEGRADE_SERVICE \<Rightarrow> ebind (eread (po_now (redis_ports su)))
             (\<lambda>now. ereturn (Done (safe_mode_result config now)))
         | RETRY \<Rightarrow> ethen (backoff (redis_ports su) ps) (ereturn (Again c))
         | SELF_CORRECT \<Rightarrow> ethen (backoff (redis_ports su) ps) (ereturn (Again c)))" for a c ps
    by (cases a) (simp_all add: free_ebind free_ethen b free_ports(1))
  then show ?thesis
    unfolding recover_def Let_def by (intro free_rules free_ports spends_ereturn)
qed

lemma free_fall_back: "spends 0 (fall_back (redis_ports su) config n e cost)"
  unfolding fall_back_def by (intro free_rules free_ports spends_ereturn)

lemma spends_loop: "spends n (conduct_loop (redis_ports su) config ctx pr n k s err cost)"
proof (induction n arbitrary: k s err cost)
  case 0
  then show ?case by (simp add: free_fall_back)
next
  case (Suc n)
  have "spends n (case step of
            Again cost' \<Rightarrow> conduct_loop (redis_ports su) config ctx pr n (Suc k) s' (Some e) cost'
          | Stop cost' \<Rightarrow> fall_back (redis_ports su) config (Suc k) (Some e) cost'
          | Done res \<Rightarrow> ereturn res)" for step s' e
    using spends_le [OF free_fall_back] by (cases step) (simp_all add: Suc.IH)
  then have "spends n (case x of (s', r) \<Rightarrow> (case r of Inr res \<Rightarrow> ereturn res
      | Inl e \<Rightarrow> ebind (recover (redis_ports su) config (Suc k) e cost) (\<lambda>step. case step of
            Again cost' \<Rightarrow> conduct_loop (redis_ports su) config ctx pr n (Suc k) s' (Some e) cost'
          | Stop cost' \<Rightarrow> fall_back (redis_ports su) config (Suc k) (Some e) cost'
          | Done res \<Rightarrow> ereturn res)))" for x
    by (cases x; cases "snd x") (simp_all add: free_ebind [OF free_recover])
  then have "spends (1 + n) (conduct_loop (redis_ports su) config ctx pr (Suc n) k s err cost)"
    by (simp only: conduct_loop.simps) (rule spends_ebind [OF spends_attempt])
  then show ?case by simp
qed

subsection \<open>A turn\<close>

lemma total_reason: "total_eff (turn_reason p ctx sid uid counts rej obs)"
  unfolding turn_reason_def by (intro total_etry total_ebind total_eread total_ereturn)

lemma turn_reply_nonempty: "turn_reply t \<noteq> []"
  by (simp add: turn_reply_def or_string_def split: option.split json.split)

lemma returns_reason: "returns (turn_reason p ctx sid uid counts rej obs) (\<lambda>(reply, trace). reply \<noteq> [])"
  unfolding turn_reason_def Let_def
  by (intro hoare_etry hoare_ethen [OF returns_any] hoare_ebind [OF returns_any] hoare_ereturn)
    (simp_all add: turn_reply_nonempty safe_mode_turn_def)

definition feedback :: "deployment \<Rightarrow> string \<Rightarrow> dict session \<Rightarrow> outcome option" where
  \<comment> \<open>what a message says about the theme suggested last\<close>
  "feedback su message s =
     (if \<not> su_memory su \<or> \<not> truthy_string (ss_lastSuggestedTheme s) then None
      else if rtest negative_words (js_lower message) then Some NEGATIVE
      else if rtest positive_words (js_lower message) then Some POSITIVE
      else None)"

definition learned :: "outcome option \<Rightarrow> string \<Rightarrow> dict session \<Rightarrow> im_memory \<Rightarrow> im_memory" where
  "learned fb uid s m =
     (case fb of None \<Rightarrow> m
      | Some oc \<Rightarrow> im_trackOutcome m (the (ss_lastSuggestedTheme s)) oc (user_ctx uid))"

definition after_feedback :: "outcome option \<Rightarrow> dict session \<Rightarrow> dict session" where
  "after_feedback fb s = (if fb = None then s else s\<lparr>ss_lastSuggestedTheme := None\<rparr>)"

lemma learn_run:
  "learn_feedback (redis_ports su) msg uid s w =
     (Inr (after_feedback (feedback su msg s) s,
           if feedback su msg s = Some NEGATIVE then ss_lastSuggestedTheme s else None,
           feedback su msg s = Some NEGATIVE),
      w\<lparr>wd_memory := learned (feedback su msg s) uid s (wd_memory w)\<rparr>)"
  by (cases "ss_lastSuggestedTheme s")
    (simp_all add: learn_feedback_def feedback_def learned_def after_feedback_def Let_def)

lemma after_feedback_sel [simp]:
  "ss_userId (after_feedback fb s) = ss_userId s" "ss_context (after_feedback fb s) = ss_context s"
  by (simp_all add: after_feedback_def)

lemma with_counts_user [simp]: "ss_userId (with_counts c s) = ss_userId s"
  by (simp add: with_counts_def)

definition loaded_state :: "world \<Rightarrow> string \<Rightarrow> string \<Rightarrow> dict session" where
  \<comment> \<open>the state a handler works on\<close>
  "loaded_state w sid uid =
     (case redis_get (wd_db w) (wd_now w) sid of
        None \<Rightarrow> initial_state sid uid (wd_now w) | Some s0 \<Rightarrow> migrate s0)"

lemma turn_run:
  fixes msg :: string
  assumes "redis_ok (wd_db w)" "plain_id sid" "plain_id uid"
    and "cx_sessionId ctx = Some sid" "cx_userId ctx = Some uid" "valid_context (su_uuid su) ctx"
    and s_def: "s = loaded_state w sid uid" and fb_def: "fb = feedback su msg s"
  obtains db obs y where
    "processTurn (redis_ports su) msg ctx w =
       turn_reason (redis_ports su) ctx sid uid
         (turn_counts s (fb = Some NEGATIVE))
         (if fb = Some NEGATIVE then ss_lastSuggestedTheme s else None) obs
         (w\<lparr>wd_memory := learned fb uid s (wd_memory w), wd_db := db\<rparr>)"
    "redis_ok db" "redis_get db (wd_now w) sid = Some y"
    "core y = core (with_counts (turn_counts s (fb = Some NEGATIVE)) (after_feedback fb s))"
proof -
  obtain db1 where l: "getOrInitState (redis_ports su) sid uid w = (Inr s, w\<lparr>wd_db := db1\<rparr>)"
    "redis_ok db1" "plain_id (ss_userId s)"
    using redis_load [OF assms(1-3), of su thesis] unfolding s_def loaded_state_def by blast
  define neg where "neg = (fb = Some NEGATIVE)"
  define rej where "rej = (if fb = Some NEGATIVE then ss_lastSuggestedTheme s else None)"
  define s' where "s' = after_feedback fb s"
  define m where "m = learned fb uid s (wd_memory w)"
  let ?v = "with_counts (turn_counts s neg) s'"
  let ?w = "w\<lparr>wd_db := db1, wd_memory := m\<rparr>"
  have pre: "redis_ok (wd_db ?w)" "plain_id (ss_userId ?v)" using l by (simp_all add: s'_def)
  obtain db y where d: "po_set (redis_ports su) sid ?v ?w = (Inr (), ?w\<lparr>wd_db := db\<rparr>)"
    "redis_ok db" "core y = core ?v"
    "\<And>t. wd_now ?w \<le> t \<Longrightarrow> t < wd_now ?w + ttl_ms \<Longrightarrow> redis_get db t sid = Some y"
    using redis_store [OF pre(1) assms(2) pre(2)] by blast
  have g: "redis_get db (wd_now w) sid = Some y" using d(4) by (simp add: ttl_ms_def)
  have h: "hydrateActiveGoal (redis_ports su) sid uid w =
      (Inr (s, map_option ag_create (current_goal s)), w\<lparr>wd_db := db1\<rparr>)"
    using l(1) by (simp add: hydrateActiveGoal_def)
  have f: "learn_feedback (redis_ports su) msg uid s (w\<lparr>wd_db := db1\<rparr>) = (Inr (s', rej, neg), ?w)"
    unfolding learn_run fb_def neg_def rej_def s'_def m_def by simp
  obtain obs where "processTurn (redis_ports su) msg ctx w =
       turn_reason (redis_ports su) ctx sid uid (turn_counts s neg) rej obs (?w\<lparr>wd_db := db\<rparr>)"
  proof (cases "su_memory su")
    case True
    show thesis
      by (rule that) (simp add: processTurn_def Let_def parse_schema_def assms(4-6) h f d(1) True)
  next
    case False
    show thesis
      by (rule that) (simp add: processTurn_def Let_def parse_schema_def assms(4-6) h f d(1) False)
  qed
  then show thesis
    using that [of obs db y] d(2,3) g by (simp add: neg_def rej_def s'_def m_def)
qed

lemma gate_trips:
  assumes "su_gate su" "0 < n" "1 - k / n < 0.7"
  obtains e where "\<And>w. turn_reason (redis_ports su) ctx sid uid (n, k) rej obs w =
      (Inr (safe_mode_turn e (wd_now w)), w)"
proof -
  have "checkMetric UCR (1 - k / n) \<noteq> Inr ()" using assms(3) by (simp add: checkMetric_UCR)
  then obtain al where al: "checkMetric UCR (1 - k / n) = Inl al"
    by (cases "checkMetric UCR (1 - k / n)") auto
  have "gate_check (redis_ports su) UCR (1 - k / n) w = (Inl (gate_error al), w)" for w
    using assms(1) al by (simp add: gate_check_def)
  then have "turn_reason (redis_ports su) ctx sid uid (n, k) rej obs w =
      (Inr (safe_mode_turn (gate_error al) (wd_now w)), w)" for w
    using assms(2) by (simp add: turn_reason_def read_now)
  then show thesis by (rule that)
qed

lemma model_fails:
  assumes "snd (wd_reply w (wd_calls w)) = Inl e"
  obtains e' now w' where "turn_reason (redis_ports su) ctx sid uid counts rej obs w =
      (Inr (safe_mode_turn e' now), w')" "wd_db w' = wd_db w" "wd_memory w' = wd_memory w"
proof (cases "fst (ewhen (0 < fst counts)
    (gate_check (redis_ports su) UCR (1 - snd counts / fst counts)) w)")
  have same: "snd (ewhen b (gate_check (redis_ports su) m v) w) = w" for b m v
    by (cases b) (auto simp: gate_check_def split: sum.split)
  let ?g = "ewhen (0 < fst counts) (gate_check (redis_ports su) UCR (1 - snd counts / fst counts))"
  case (Inl e1)
  then have "?g w = (Inl e1, w)" using same by (metis prod.collapse)
  then show thesis using that by (simp add: turn_reason_def read_now)
next
  have same: "snd (ewhen b (gate_check (redis_ports su) m v) w) = w" for b m v
    by (cases b) (auto simp: gate_check_def split: sum.split)
  let ?g = "ewhen (0 < fst counts) (gate_check (redis_ports su) UCR (1 - snd counts / fst counts))"
  case (Inr u)
  then have "?g w = (Inr u, w)" using same by (metis prod.collapse)
  then show thesis
    using that assms by (simp add: turn_reason_def read_now redis_think_port)
qed

end
