(* ===== verification/ConductorTheorems.thy ===== *)
theory ConductorTheorems
  imports ConductorRuns
begin

text \<open>
  The properties of the conductor on the Redis store, from the facts of the interpretation
  \<open>night\<close> and of \<open>ConductorRuns\<close>, each with an instance on a small world (a session
  \<open>s1\<close> of user \<open>u1\<close> whose last suggestion was \<open>dragons\<close>).
\<close>

definition redis_empty :: redis_db where
  "redis_empty = \<lparr>rd_sessions = Map.empty, rd_lookup = Map.empty, rd_index = (\<lambda>_. {}), rd_up = True\<rparr>"

definition sample_setup :: deployment where
  "sample_setup = \<lparr>su_memory = True, su_gate = True, su_observation = (\<lambda>_. []),
     su_start_trigger = (\<lambda>t. t), su_uuid = (\<lambda>_. True), su_schema_error = [], su_redis_error = []\<rparr>"

definition sample_goal :: "string \<Rightarrow> goal_props" where
  "sample_goal i = ag_toJSON (ag_createNew
     \<lparr>cg_type = CHILD_ASLEEP, cg_targetMinutes = 10, cg_description = None\<rparr> 0 0 i)"

definition sample_state :: "dict session" where
  "sample_state = (push_goal (sample_goal ''a'') (push_goal (sample_goal ''b'')
     (initial_state ''s1'' ''u1'' 0)))
     \<lparr>ss_lastSuggestedTheme := Some ''dragons'', ss_sessionStartTime := Some 0,
      ss_phase := STORYTELLING\<rparr>"

definition sample_world :: world where
  "sample_world = \<lparr>wd_db = redis_put redis_empty 0 ''s1'' sample_state, wd_now = 1000,
     wd_memory = im_init 0, wd_calls = 0, wd_reply = (\<lambda>n. (100, Inl (Err ''Error'' ''timeout''))),
     wd_draws = 0, wd_random = (\<lambda>_. ''x''), wd_waits = []\<rparr>"

definition sample_context :: agent_context where
  "sample_context = \<lparr>cx_childName = None, cx_childAge = None, cx_currentMood = None,
     cx_userId = Some ''u1'', cx_sessionId = Some ''s1'', cx_traceId = None, cx_envContext = None\<rparr>"

definition sample_stored :: "dict session" where
  "sample_stored = sample_state\<lparr>ss_history := None, ss_updatedAt := 0\<rparr>"

lemma redis_empty_ok: "redis_ok redis_empty"
  by (simp add: redis_ok_def redis_empty_def)

lemma sample_ids: "plain_id ''s1''" "plain_id ''u1''" "ss_userId sample_state = ''u1''"
  by (simp_all add: plain_id_def sample_state_def initial_state_def)

lemma sample_ok: "redis_ok (wd_db sample_world)"
  using redis_ok_put [OF redis_empty_ok sample_ids(1), of sample_state 0] sample_ids
  by (simp add: sample_world_def)

lemma sample_get: "redis_get (wd_db sample_world) (wd_now sample_world) ''s1'' = Some sample_stored"
  using redis_get_put_same [OF redis_empty_ok sample_ids(1), of sample_state 0 1000] sample_ids
  by (simp add: sample_world_def ttl_ms_def update_result_def live_def redis_empty_def
      sample_stored_def)

lemma sample_goals: "stack_of sample_stored = [sample_goal ''a'', sample_goal ''b'']"
    "ss_activeGoals sample_stored = Some [sample_goal ''a'', sample_goal ''b'']"
    "gp_status (sample_goal i) = GActive"
  by (simp_all add: sample_stored_def sample_state_def push_goal_def stack_of_def initial_state_def
      sample_goal_def ag_createNew_def ag_toJSON_def)

lemma sample_fields:
  "ss_lastSuggestedTheme sample_stored = Some ''dragons''"
  "ss_sessionStartTime sample_stored = Some 0" "ss_phase sample_stored = STORYTELLING"
  "ss_context sample_stored = Map.empty"
  by (simp_all add: sample_stored_def sample_state_def push_goal_def initial_state_def)

subsection \<open>The goals of a session\<close>

definition all_goals_ok :: "world \<Rightarrow> bool" where
  "all_goals_ok w \<longleftrightarrow>
     (\<forall>sid v. plain_id sid \<longrightarrow> redis_get (wd_db w) (wd_now w) sid = Some v \<longrightarrow> goals_ok v)"

lemma sessions_ok_iff: "night.sessions_ok w \<longleftrightarrow> redis_ok (wd_db w) \<and> all_goals_ok w"
  by (simp add: night.sessions_ok_def session_view all_goals_ok_def)

lemma sample_all_ok: "all_goals_ok sample_world"
  unfolding all_goals_ok_def
proof (intro allI impI)
  fix sid v
  assume s: "plain_id sid" "redis_get (wd_db sample_world) (wd_now sample_world) sid = Some v"
  have e: "redis_get redis_empty t sid = None" for t
    by (simp add: redis_get_def redis_empty_def live_def)
  have "sid = ''s1''"
  proof (rule ccontr)
    assume "sid \<noteq> ''s1''"
    then have "redis_get (wd_db sample_world) (wd_now sample_world) sid = None"
      using redis_get_put_other [OF redis_empty_ok sample_ids(1) s(1), of sample_state 0] sample_ids e
      by (simp add: sample_world_def)
    then show False using s(2) by simp
  qed
  then have "v = sample_stored" using s(2) sample_get by simp
  moreover have "ss_activeGoal sample_stored = Some (sample_goal ''a'')"
    by (simp add: sample_stored_def sample_state_def push_goal_def)
  moreover have "goal_ok (sample_goal i)" for i
    unfolding sample_goal_def by (rule goal_ok_createNew)
  ultimately show "goals_ok v" by (simp add: goals_ok_def sample_goals)
qed


definition sample_beat :: "real \<Rightarrow> beat_payload" where
  "sample_beat i = \<lparr>bp_context = Some \<lparr>pc_sessionId = Some ''s1'', pc_userId = Some ''u1''\<rparr>,
     bp_sessionId = None, bp_userId = None, bp_beatIndex = i, bp_totalBeats = 4\<rparr>"

definition sample_events :: "conductor_event list" where
  "sample_events =
     [Goal (SetGoal ''s1'' ''u1'' STORY_COMPLETED 20), StoryBeat (sample_beat 3),
      SleepCue (Some \<lparr>pc_sessionId = Some ''s1'', pc_userId = Some ''u1''\<rparr>)]"

lemma sample_event_ids: "\<forall>e \<in> set sample_events. list_all plain_id (event_ids e)"
  by (simp add: sample_events_def sample_beat_def beat_session_def beat_user_def sample_ids)


text \<open>Setting a goal puts a fresh active goal on top, due the requested number of minutes
  after its creation; at most four earlier goals stay below it in their order; no other session
  changes.\<close>

lemma setGoal_pushes:
  assumes "redis_ok (wd_db w)" "set_goal_args call = (sid, uid, t, m)" "plain_id sid" "plain_id uid"
  shows "\<exists>w' v g. setGoal (redis_ports su) call w = (Inr (), w') \<and>
    redis_get (wd_db w') (wd_now w') sid = Some v \<and>
    ss_activeGoals v = Some (g # take 4 (stack_of (loaded_state w sid uid))) \<and>
    ss_activeGoal v = Some g \<and> gp_type g = t \<and> gp_status g = GActive \<and> gp_progress g = Fin 0 \<and>
    gp_targetTime g = gp_createdAt g + 60000 * m \<and>
    (\<forall>sid' t. plain_id sid' \<longrightarrow> sid' \<noteq> sid \<longrightarrow>
       redis_get (wd_db w') t sid' = redis_get (wd_db w) t sid')"
proof -
  have gb: "night.goals_before w sid = stack_of (loaded_state w sid uid)"
    by (simp add: night.goals_before_def session_view loaded_state_def initial_state_def
        stack_of_def split: option.split)
  show ?thesis
  proof (rule night.setGoal_run [OF assms, of su], goal_cases)
    case (1 w' v g)
    then show ?case
      by (intro exI [of _ w'] exI [of _ v] exI [of _ g]) (simp add: session_view gb)
  qed
qed

lemma setGoal_pushes_witness:
  "\<exists>w' v g. setGoal (redis_ports sample_setup) (SetGoal ''s1'' ''u1'' CHILD_ASLEEP 20) sample_world = (Inr (), w') \<and>
    redis_get (wd_db w') (wd_now w') ''s1'' = Some v \<and>
    ss_activeGoals v = Some [g, sample_goal ''a'', sample_goal ''b''] \<and> gp_type g = CHILD_ASLEEP"
proof -
  have "loaded_state sample_world ''s1'' ''u1'' = sample_stored"
    using sample_get sample_goals by (simp add: loaded_state_def migrate_def)
  then show ?thesis
    using setGoal_pushes [OF sample_ok _ sample_ids(1,2),
        of "SetGoal ''s1'' ''u1'' CHILD_ASLEEP 20" CHILD_ASLEEP 20 sample_setup] sample_goals
    by auto
qed

text \<open>C2: a story beat moves the active goal's progress to the rounded percentage of beats told,
  clamped to 0..100, and the beat that completes the story takes the goal off the stack, so that
  the goal below it becomes the active one.\<close>

theorem storyBeat_progress:
  assumes "redis_ok (wd_db w)" "plain_id (beat_session e)" "plain_id (beat_user e)"
    and "redis_get (wd_db w) (wd_now w) (beat_session e) = Some s"
    and "stack_of (migrate s) = g # gs" "gp_status g = GActive"
  shows "\<exists>w' v. handleStoryBeat (redis_ports su) e w = (Inr (), w') \<and>
    redis_get (wd_db w') (wd_now w') (beat_session e) = Some v \<and>
    stack_of v =
      (if js_le (Fin 100) (beat_progress e) then gs
       else g\<lparr>gp_progress := js_min (Fin 100) (js_max (Fin 0) (beat_progress e))\<rparr> # gs) \<and>
    ss_activeGoal v = (case stack_of v of [] \<Rightarrow> None | g' # _ \<Rightarrow> Some g')"
proof -
  have v: "night.view w (beat_session e) = Some s" using assms(4) by (simp add: session_view)
  show ?thesis
    by (rule night.beat_run [OF assms(1-3) v assms(5,6), of su]) (simp add: session_view)
qed

theorem storyBeat_progress_witness:
  "\<exists>w' v. handleStoryBeat (redis_ports sample_setup) (sample_beat 3) sample_world = (Inr (), w') \<and>
    redis_get (wd_db w') (wd_now w') ''s1'' = Some v \<and> stack_of v = [sample_goal ''b'']"
proof -
  have b: "beat_session (sample_beat 3) = ''s1''" "beat_user (sample_beat 3) = ''u1''"
    by (simp_all add: sample_beat_def beat_session_def beat_user_def)
  have x: "js_le (Fin 100) (beat_progress (sample_beat 3))"
    by (simp add: beat_progress_def sample_beat_def js_round_real_def)
  have m: "stack_of (migrate sample_stored) = sample_goal ''a'' # [sample_goal ''b'']"
    using sample_goals by (simp add: migrate_id)
  show ?thesis
    using storyBeat_progress [OF sample_ok, of "sample_beat 3" sample_stored "sample_goal ''a''"
        "[sample_goal ''b'']" sample_setup] sample_ids sample_get sample_goals m x
    unfolding b by auto
qed

subsection \<open>Sleep cues and feedback\<close>

text \<open>C3: a sleep cue credits the theme suggested last with two positive outcomes, clears it and
  moves the session by the sleep signal; a second cue finds nothing to credit and changes
  nothing.\<close>

theorem sleep_credits_once:
  assumes "redis_ok (wd_db w)" "plain_id sid" "plain_id uid" "su_memory su"
    and "redis_get (wd_db w) (wd_now w) sid = Some s"
    and "ss_lastSuggestedTheme s = Some th" "th \<noteq> []" "ss_sessionStartTime s \<noteq> None"
    and pc: "pc = Some \<lparr>pc_sessionId = Some sid, pc_userId = Some uid\<rparr>"
  shows "\<exists>w' v. handleSleepCueDetected (redis_ports su) pc w = (Inr (), w') \<and>
    redis_get (wd_db w') (wd_now w') sid = Some v \<and> ss_lastSuggestedTheme v = None \<and>
    ss_phase v = transition (ss_phase s) SLEEP_DETECTED \<and>
    assoc_get (im_themeScores (wd_memory w')) th =
      Some (or_number (Some (or_number (assoc_get (im_themeScores (wd_memory w)) th) 1 + 1)) 1 + 1) \<and>
    handleSleepCueDetected (redis_ports su) pc w' = (Inr (), w')"
proof (rule sleep_run [OF assms(1-8)], goal_cases)
  case (1 db y)
  let ?w = "w\<lparr>wd_db := db, wd_memory :=
        im_trackOutcome (im_trackOutcome (wd_memory w) th POSITIVE
          \<lparr>mc_userId = uid, mc_sessionId = Some sid\<rparr>) th POSITIVE
          \<lparr>mc_userId = uid, mc_sessionId = Some sid\<rparr>\<rparr>"
  have "handleSleepCueDetected (redis_ports su) pc ?w = (Inr (), ?w)"
    unfolding pc by (rule sleep_nothing [of _ _ _ y]) (use 1 assms in simp_all)
  then show ?case
    using 1 by (intro exI [of _ ?w] exI [of _ y]) (simp add: pc im_trackOutcome_get)
qed

theorem sleep_credits_once_witness:
  "\<exists>w' v. handleSleepCueDetected (redis_ports sample_setup)
      (Some \<lparr>pc_sessionId = Some ''s1'', pc_userId = Some ''u1''\<rparr>) sample_world = (Inr (), w') \<and>
    redis_get (wd_db w') (wd_now w') ''s1'' = Some v \<and> ss_phase v = ASLEEP \<and>
    assoc_get (im_themeScores (wd_memory w')) ''dragons'' = Some 3"
proof -
  have m: "su_memory sample_setup" "im_themeScores (wd_memory sample_world) = []"
    by (simp_all add: sample_setup_def sample_world_def im_init_def)
  have t: "''dragons'' \<noteq> []" "ss_sessionStartTime sample_stored \<noteq> None"
    by (simp_all add: sample_fields)
  show ?thesis
    using sleep_credits_once [OF sample_ok sample_ids(1,2) m(1) sample_get sample_fields(1) t refl]
    by (simp add: m(2) or_number_def sample_fields) blast
qed


lemma sample_valid: "valid_context (su_uuid sample_setup) sample_context"
  "cx_sessionId sample_context = Some ''s1''" "cx_userId sample_context = Some ''u1''"
  by (simp_all add: valid_context_def sample_context_def sample_setup_def)


text \<open>When the language model fails, the child's message is still learned from and counted:
  the stored state has the counters of the turn and, after praise or a refusal, no suggested theme
  any more; the reply is that of the emergency safe mode.\<close>

lemma turn_model_failure:
  assumes "redis_ok (wd_db w)" "plain_id sid" "plain_id uid"
    and "cx_sessionId ctx = Some sid" "cx_userId ctx = Some uid" "valid_context (su_uuid su) ctx"
    and "snd (wd_reply w (wd_calls w)) = Inl e" and s: "s = loaded_state w sid uid"
  shows "\<exists>reply trace w' v. processTurn (redis_ports su) msg ctx w = (Inr (reply, trace), w') \<and>
    map rt_action trace = [''SAFE_MODE''] \<and>
    redis_get (wd_db w') (wd_now w) sid = Some v \<and>
    ss_context v = (ss_context s)
      (''interactions'' \<mapsto> JNum (counter (ss_context s) ''interactions'' + 1),
       ''interventions'' \<mapsto> JNum (counter (ss_context s) ''interventions'' +
          (if feedback su msg s = Some NEGATIVE then 1 else 0))) \<and>
    ss_lastSuggestedTheme v =
      (if feedback su msg s = None then ss_lastSuggestedTheme s else None) \<and>
    wd_memory w' = learned (feedback su msg s) uid s (wd_memory w)"
proof (rule turn_run [OF assms(1-6) refl refl, of msg], goal_cases)
  case (1 db obs y)
  let ?fb = "feedback su msg s"
  let ?w = "w\<lparr>wd_memory := learned ?fb uid s (wd_memory w), wd_db := db\<rparr>"
  have mf: "snd (wd_reply ?w (wd_calls ?w)) = Inl e" using assms(7) by simp
  obtain e' now w' where m: "processTurn (redis_ports su) msg ctx w = (Inr (safe_mode_turn e' now), w')"
    "wd_db w' = wd_db ?w" "wd_memory w' = wd_memory ?w"
    unfolding 1(1) s [symmetric] using model_fails [OF mf] by blast
  then have r: "processTurn (redis_ports su) msg ctx w = (Inr (safe_mode_turn e' now), w')"
    "wd_db w' = db" "wd_memory w' = learned ?fb uid s (wd_memory w)" by simp_all
  have "ss_context y = ss_context (with_counts (turn_counts s (?fb = Some NEGATIVE)) (after_feedback ?fb s))"
    by (rule core_eqD(4)) (use 1(4) s in simp)
  moreover have "ss_lastSuggestedTheme y =
      ss_lastSuggestedTheme (with_counts (turn_counts s (?fb = Some NEGATIVE)) (after_feedback ?fb s))"
    by (rule core_eqD(7)) (use 1(4) s in simp)
  ultimately show ?case
    using r 1(3)
    by (intro exI [of _ "fst (safe_mode_turn e' now)"] exI [of _ "snd (safe_mode_turn e' now)"]
        exI [of _ w'] exI [of _ y])
      (simp add: safe_mode_turn_def with_counts_def turn_counts_def after_feedback_def)
qed

lemma sample_loaded: "loaded_state sample_world ''s1'' ''u1'' = sample_stored"
  using sample_get sample_goals by (simp add: loaded_state_def migrate_def)

lemma no_is_negative: "rtest negative_words (js_lower ''No, thanks'')"
  by code_simp

lemma sample_feedback: "feedback sample_setup ''No, thanks'' sample_stored = Some NEGATIVE"
  using no_is_negative by (simp add: feedback_def sample_fields) (simp add: sample_setup_def)

lemma turn_model_failure_witness:
  "\<exists>reply trace w' v. processTurn (redis_ports sample_setup) ''No, thanks'' sample_context sample_world
      = (Inr (reply, trace), w') \<and> map rt_action trace = [''SAFE_MODE''] \<and>
    redis_get (wd_db w') (wd_now sample_world) ''s1'' = Some v \<and> ss_lastSuggestedTheme v = None \<and>
    counter (ss_context v) ''interventions'' = 1"
proof -
  have m: "snd (wd_reply sample_world (wd_calls sample_world)) = Inl (Err ''Error'' ''timeout'')"
    by (simp add: sample_world_def)
  show ?thesis
    using turn_model_failure [OF sample_ok sample_ids(1,2) sample_valid(2,3,1) m
        sample_loaded [symmetric], of "''No, thanks''"]
    by (elim exE conjE) (intro exI conjI, assumption+,
        simp_all add: sample_feedback sample_fields counter_def)
qed

text \<open>When the refusals of a session reach more than three in ten turns, the quality gate stops
  the turn before the language model is asked, and the child gets the safe-mode reply; the
  refusal is learned all the same.  With fresh counters a single ``no'' is enough.\<close>

lemma refusal_trips_gate:
  assumes "redis_ok (wd_db w)" "plain_id sid" "plain_id uid"
    and "cx_sessionId ctx = Some sid" "cx_userId ctx = Some uid" "valid_context (su_uuid su) ctx"
    and s: "s = loaded_state w sid uid" and "su_gate su" and fb: "feedback su msg s = Some NEGATIVE"
    and n: "n = counter (ss_context s) ''interactions'' + 1" "0 < n"
    and k: "k = counter (ss_context s) ''interventions'' + 1" "3 * n < 10 * k"
  shows "\<exists>reply trace w'. processTurn (redis_ports su) msg ctx w = (Inr (reply, trace), w') \<and>
    map rt_action trace = [''SAFE_MODE''] \<and> wd_calls w' = wd_calls w \<and> wd_now w' = wd_now w \<and>
    wd_memory w' = learned (Some NEGATIVE) uid s (wd_memory w)"
proof (rule turn_run [OF assms(1-6) refl refl, of msg], goal_cases)
  case (1 db obs y)
  have "1 - k / n < 0.7" using n(2) k(2) by (simp add: field_simps)
  then obtain e where
    "\<And>w'. turn_reason (redis_ports su) ctx sid uid (n, k) (ss_lastSuggestedTheme s) obs w' =
      (Inr (safe_mode_turn e (wd_now w')), w')"
    using gate_trips [OF assms(8) n(2)] by blast
  then show ?case
    using 1(1) fb n(1) k(1)
    by (simp add: s [symmetric] turn_counts_def safe_mode_turn_def)
qed

lemma refusal_trips_gate_witness:
  "\<exists>reply trace w'. processTurn (redis_ports sample_setup) ''No, thanks'' sample_context sample_world
      = (Inr (reply, trace), w') \<and> map rt_action trace = [''SAFE_MODE''] \<and>
    wd_calls w' = wd_calls sample_world"
proof -
  have g: "su_gate sample_setup" by (simp add: sample_setup_def)
  have c: "1 = counter (ss_context sample_stored) ''interactions'' + 1" "(0::real) < 1"
    "1 = counter (ss_context sample_stored) ''interventions'' + 1" "3 * 1 < 10 * (1::real)"
    by (simp_all add: sample_fields counter_def)
  show ?thesis
    using refusal_trips_gate [OF sample_ok sample_ids(1,2) sample_valid(2,3,1)
        sample_loaded [symmetric] g sample_feedback c(1,2,3,4)]
    by (elim exE conjE) (intro exI conjI, assumption+)
qed

subsection \<open>Conducting a session\<close>

definition started :: "millis \<Rightarrow> dict session \<Rightarrow> dict session" where
  "started now s =
     (if ss_sessionStartTime s = None
      then s\<lparr>ss_sessionStartTime := Some now, ss_phase := transition (ss_phase s) START\<rparr> else s)"

lemma observe_run: "\<exists>m. observe_memory (redis_ports su) config ctx sid uid w = (Inr m, w)"
  by (simp add: observe_memory_def retrievePreferenceContext_def Let_def)

lemma prepare_run:
  assumes "redis_ok (wd_db w)" "plain_id sid" "plain_id uid"
    and "cx_sessionId ctx = Some sid" "cx_userId ctx = Some uid"
    and "valid_config config" "valid_context (su_uuid su) ctx"
  obtains pr db where "conduct_prepare (redis_ports su) config ctx w = (Inr pr, w\<lparr>wd_db := db\<rparr>)"
    "redis_ok db" "pr_sessionId pr = sid" "pr_userId pr = uid"
    "pr_state pr = started (wd_now w) (loaded_state w sid uid)"
proof -
  let ?s = "loaded_state w sid uid"
  obtain db1 where l: "getOrInitState (redis_ports su) sid uid w = (Inr ?s, w\<lparr>wd_db := db1\<rparr>)"
    "redis_ok db1" "plain_id (ss_userId ?s)"
    using redis_load [OF assms(1-3), of su thesis] unfolding loaded_state_def by blast
  obtain db where st: "start_session (redis_ports su) sid ?s (w\<lparr>wd_db := db1\<rparr>) =
      (Inr (started (wd_now w) ?s), w\<lparr>wd_db := db\<rparr>)" and ok: "redis_ok db"
  proof (cases "ss_sessionStartTime ?s = None")
    case False
    then obtain t0 where "ss_sessionStartTime ?s = Some t0" by auto
    then show thesis using that [of db1] l(2) by (simp add: start_session_def started_def)
  next
    case True
    let ?v = "?s\<lparr>ss_sessionStartTime := Some (wd_now w), ss_phase := transition (ss_phase ?s) START\<rparr>"
    have pre: "redis_ok (wd_db (w\<lparr>wd_db := db1\<rparr>))" "plain_id (ss_userId ?v)" using l by simp_all
    obtain db where "po_set (redis_ports su) sid ?v (w\<lparr>wd_db := db1\<rparr>) =
        (Inr (), w\<lparr>wd_db := db1\<rparr>\<lparr>wd_db := db\<rparr>)" "redis_ok db"
      using redis_store [OF pre(1) assms(2) pre(2)] by blast
    then show thesis
      using that [of db] True by (simp add: start_session_def started_def read_now Let_def)
  qed
  obtain m where m: "observe_memory (redis_ports su) config ctx sid uid (w\<lparr>wd_db := db\<rparr>)
      = (Inr m, w\<lparr>wd_db := db\<rparr>)" using observe_run by blast
  have ne: "sid \<noteq> []" "uid \<noteq> []" using assms(2,3) by (simp_all add: plain_id_def)
  show thesis
    by (rule that)
      (simp add: conduct_prepare_def Let_def parse_schema_def assms(4-7) ne l(1) st m, rule ok, simp_all)
qed

lemma conducting_returns:
  assumes "redis_ok (wd_db w)" "plain_id sid" "plain_id uid"
    and "cx_sessionId ctx = Some sid" "cx_userId ctx = Some uid"
    and "valid_config config" "valid_context (su_uuid su) ctx"
  shows "\<exists>r w'. conductStorySession (redis_ports su) config ctx w = (Inr r, w') \<and>
    refines config (cr_request r) \<and> wd_calls w' \<le> wd_calls w + 3"
proof (rule prepare_run [OF assms], goal_cases)
  case (1 pr db)
  let ?loop = "conduct_loop (redis_ports su) config ctx pr max_attempts 0 (pr_state pr) None 0"
  obtain r w' where r: "?loop (w\<lparr>wd_db := db\<rparr>) = (Inr r, w')" by (rule total_effE [OF total_loop])
  have "refines config (cr_request r)" by (rule hoare_result [OF returns_loop TrueI r])
  moreover have "wd_calls (snd (?loop (w\<lparr>wd_db := db\<rparr>))) \<le> wd_calls (w\<lparr>wd_db := db\<rparr>) + max_attempts"
    using spends_loop [of max_attempts su config ctx pr 0 "pr_state pr" None 0]
    unfolding spends_def by (rule spec)
  ultimately show ?case
    using 1(1) r
    by (intro exI [of _ r] exI [of _ w']) (simp add: conductStorySession_def max_attempts_def)
qed


definition sample_config :: session_config where
  "sample_config = \<lparr>sc_theme = ''dragons'', sc_duration = None, sc_style = None,
     sc_childName = None, sc_childAge = Some 5\<rparr>"

lemma sample_config_valid: "valid_config sample_config"
  by (simp add: valid_config_def sample_config_def)


text \<open>C6: a first reply of the model decides the session: the theme is stored as the last
  suggestion, the result carries the arbitrated thought, and the duration is the one the thought
  names, if it names one.\<close>

theorem conduct_success:
  assumes "redis_ok (wd_db w)" "plain_id sid" "plain_id uid"
    and "cx_sessionId ctx = Some sid" "cx_userId ctx = Some uid"
    and "valid_config config" "valid_context (su_uuid su) ctx"
    and reply: "wd_reply w (wd_calls w) = (latency, Inr t)"
    and a: "a = arbitrate t (arbitration_of ctx (ss_phase (started (wd_now w) (loaded_state w sid uid))))"
  shows "\<exists>r w' v. conductStorySession (redis_ports su) config ctx w = (Inr r, w') \<and>
    cr_request r = refine_request config a \<and>
    map rt_action (cr_trace r) = [ts_action a] \<and> map rt_goals (cr_trace r) = [ts_goals a] \<and>
    wd_calls w' = wd_calls w + 1 \<and> wd_now w' = wd_now w + int latency \<and>
    redis_get (wd_db w') (wd_now w') sid = Some v \<and> ss_lastSuggestedTheme v = Some (sc_theme config)"
proof (rule prepare_run [OF assms(1-7)], goal_cases)
  case (1 pr db)
  let ?w = "w\<lparr>wd_db := db, wd_calls := Suc (wd_calls w), wd_now := wd_now w + int latency\<rparr>"
  have "redis_ok (wd_db ?w)" using 1(2) by simp
  then obtain f db2 where l: "getOrInitState (redis_ports su) sid uid ?w = (Inr f, ?w\<lparr>wd_db := db2\<rparr>)"
    "redis_ok db2" "plain_id (ss_userId f)"
    using redis_load [of ?w sid uid, OF _ assms(2,3), of su thesis] by blast
  let ?v = "f\<lparr>ss_lastSuggestedTheme := Some (sc_theme config)\<rparr>" and ?w2 = "?w\<lparr>wd_db := db2\<rparr>"
  have pre: "redis_ok (wd_db ?w2)" "plain_id (ss_userId ?v)" using l by simp_all
  obtain db3 z where d: "po_set (redis_ports su) sid ?v ?w2 = (Inr (), ?w2\<lparr>wd_db := db3\<rparr>)"
    "core z = core ?v"
    "\<And>t. wd_now ?w2 \<le> t \<Longrightarrow> t < wd_now ?w2 + ttl_ms \<Longrightarrow> redis_get db3 t sid = Some z"
    using redis_store [OF pre(1) assms(2) pre(2)] by blast
  have g: "redis_get db3 (wd_now ?w2) sid = Some z" by (rule d(3)) (simp_all add: ttl_ms_def)
  have th: "ss_lastSuggestedTheme z = Some (sc_theme config)" using core_eqD(7) [OF d(2)] by simp
  let ?r = "\<lparr>cr_request = refine_request config a, cr_trace = [trace_of a (wd_now ?w)],
             cr_notes = Some (pr_memory pr)\<rparr>"
  have tr: "trace_of a (wd_now ?w)\<lparr>rt_meta := None\<rparr> = trace_of a (wd_now ?w)"
    by (simp add: trace_of_def)
  have at: "conduct_attempt (redis_ports su) config ctx pr (pr_state pr) None 0 (w\<lparr>wd_db := db\<rparr>) =
      (Inr (?v, Inr ?r), ?w2\<lparr>wd_db := db3\<rparr>)"
    using reply l(1) d(1) 1(3-5) a tr
    by (simp add: conduct_attempt_def redis_think_port read_now save_trace_def Let_def recovery_meta_def)
  have "conductStorySession (redis_ports su) config ctx w = (Inr ?r, ?w2\<lparr>wd_db := db3\<rparr>)"
    using 1(1) at by (simp add: conductStorySession_def max_attempts_def eval_nat_numeral)
  then show ?case
    using g th by (intro exI [of _ ?r] exI [of _ "?w2\<lparr>wd_db := db3\<rparr>"] exI [of _ z])
      (simp add: trace_of_def)
qed

definition sample_thought :: thought_step where
  "sample_thought = \<lparr>ts_goals = [''EDUCATION''], ts_conflicts = None, ts_tradeOff = None,
     ts_thought = ''t'', ts_action = ''START_STORY'', ts_confidence = 0.9,
     ts_parameters = Some [''duration'' \<mapsto> JStr ''long'']\<rparr>"

definition sample_world_replying :: world where
  "sample_world_replying = sample_world\<lparr>wd_reply := (\<lambda>n. (100, Inr sample_thought))\<rparr>"

theorem conduct_success_witness:
  "\<exists>r w' v. conductStorySession (redis_ports sample_setup) sample_config sample_context
      sample_world_replying = (Inr r, w') \<and>
    sc_duration (cr_request r) = Some Long \<and> map rt_goals (cr_trace r) = [[''SAFETY'', ''EDUCATION'']] \<and>
    redis_get (wd_db w') (wd_now w') ''s1'' = Some v \<and> ss_lastSuggestedTheme v = Some ''dragons''"
proof -
  have db: "redis_ok (wd_db sample_world_replying)"
    using sample_ok by (simp add: sample_world_replying_def)
  have rep: "wd_reply sample_world_replying (wd_calls sample_world_replying) = (100, Inr sample_thought)"
    by (simp add: sample_world_replying_def)
  have ld: "loaded_state sample_world_replying ''s1'' ''u1'' = sample_stored"
    using sample_get sample_goals
    by (simp add: sample_world_replying_def loaded_state_def migrate_def)
  let ?a = "arbitrate sample_thought (arbitration_of sample_context
     (ss_phase (started (wd_now sample_world_replying) (loaded_state sample_world_replying ''s1'' ''u1''))))"
  have a: "?a = sample_thought\<lparr>ts_goals := [''SAFETY'', ''EDUCATION'']\<rparr>"
    unfolding ld
    by (simp add: started_def sample_fields arbitrate_def arbitration_of_def sample_thought_def
        arb_wind_down_def arb_story_focus_def arb_safety_def arb_bedtime_def arb_default_goals_def)
  have d: "sc_duration (refine_request sample_config ?a) = Some Long" "sc_theme sample_config = ''dragons''"
    unfolding a by (simp_all add: refine_request_def sample_thought_def sample_config_def)
  obtain r w' v where
    "conductStorySession (redis_ports sample_setup) sample_config sample_context
      sample_world_replying = (Inr r, w')"
    "cr_request r = refine_request sample_config ?a" "map rt_goals (cr_trace r) = [ts_goals ?a]"
    "redis_get (wd_db w') (wd_now w') ''s1'' = Some v"
    "ss_lastSuggestedTheme v = Some (sc_theme sample_config)"
    using conduct_success [OF db sample_ids(1,2) sample_valid(2,3) sample_config_valid
        sample_valid(1) rep refl] by (elim exE conjE) (rule that)
  then show ?thesis using d a by (intro exI [of _ r] exI [of _ w'] exI [of _ v]) simp
qed

end
