(* ===== verification/DecisionTheorems.thy ===== *)
theory DecisionTheorems
  imports ConductorTheorems
begin

text \<open>
  The properties of what the agent decides without the language model: phases, arbitration,
  recovery from failures and the scores of its memory.
\<close>

subsection \<open>Phases and arbitration\<close>

text \<open>With the two signals the agent sends (\<open>START\<close> when a session is conducted,
  \<open>SLEEP_DETECTED\<close> on a sleep cue), a new session only ever gets to \<open>ONBOARDING\<close>: the
  phases of storytelling, reflection, winding down and sleep are never entered.\<close>

lemma agent_phases:
  "phase_reach {START, SLEEP_DETECTED} IDLE q \<longleftrightarrow> q = IDLE \<or> q = ONBOARDING"
proof
  assume "phase_reach {START, SLEEP_DETECTED} IDLE q"
  then show "q = IDLE \<or> q = ONBOARDING"
    by (induction IDLE q rule: phase_reach.induct) auto
next
  have "phase_reach {START, SLEEP_DETECTED} IDLE (transition IDLE START)"
    by (rule phase_reach.signalled [OF phase_reach.here]) simp
  then show "q = IDLE \<or> q = ONBOARDING \<Longrightarrow> phase_reach {START, SLEEP_DETECTED} IDLE q"
    by (auto intro: phase_reach.here)
qed

text \<open>Arbitration always considers safety, drops no goal of the model's, keeps its confidence,
  and replaces its action only to calm down a session that is winding down.\<close>

lemma arbitration_contract:
  "''SAFETY'' \<in> set (ts_goals (arbitrate t c)) \<and> set (ts_goals t) \<subseteq> set (ts_goals (arbitrate t c)) \<and>
   ts_confidence (arbitrate t c) = ts_confidence t \<and>
   ts_action (arbitrate t c) =
     (if ar_currentPhase c = WIND_DOWN \<and>
         (str_includes (ts_action t) ''ADVENTURE'' \<or>
          prop_of (ts_parameters t) ''energyLevel'' = Some (JStr ''high''))
      then ''SOOTHING_TALK'' else ts_action t)"
proof -
  have "ts_action (arbitrate t c) = ts_action (arb_wind_down c t)" by (simp add: arbitrate_def)
  then have "ts_action (arbitrate t c) =
     (if ar_currentPhase c = WIND_DOWN \<and>
         (str_includes (ts_action t) ''ADVENTURE'' \<or>
          prop_of (ts_parameters t) ''energyLevel'' = Some (JStr ''high''))
      then ''SOOTHING_TALK'' else ts_action t)" by (auto simp: arb_wind_down_def)
  then show ?thesis using arbitrate_safety arbitrate_keeps_goals arbitrate_confidence by blast
qed

text \<open>While a session winds down, no arbitrated thought is an adventure or asks for high
  energy.\<close>

lemma wind_down_is_calm:
  assumes "ar_currentPhase c = WIND_DOWN"
  shows "\<not> str_includes (ts_action (arbitrate t c)) ''ADVENTURE'' \<and>
    prop_of (ts_parameters (arbitrate t c)) ''energyLevel'' \<noteq> Some (JStr ''high'')"
proof -
  let ?v = "arb_wind_down c t"
  have s: "\<not> str_includes ''SOOTHING_TALK'' ''ADVENTURE''" by simp
  have v: "\<not> str_includes (ts_action ?v) ''ADVENTURE''"
    "prop_of (ts_parameters ?v) ''energyLevel'' \<noteq> Some (JStr ''high'')"
    using assms s by (auto simp: arb_wind_down_def spread_def)
  have "prop_of (ts_parameters (arb_bedtime c u)) ''energyLevel'' \<noteq> Some (JStr ''high'')"
    if "prop_of (ts_parameters u) ''energyLevel'' \<noteq> Some (JStr ''high'')" for u
    using that by (simp add: arb_bedtime_def spread_def)
  then show ?thesis using v by (simp add: arbitrate_rule3_idle)
qed

definition winding_down :: arbitration_context where
  "winding_down = \<lparr>ar_timeOfDay = ''Night'', ar_childAge = 5, ar_childMood = ''calm'',
     ar_activeGoals = getStandardGoals, ar_currentPhase = WIND_DOWN\<rparr>"

lemma wind_down_is_calm_witness:
  "\<not> str_includes (ts_action (arbitrate (sample_thought\<lparr>ts_action := ''ADVENTURE_STORY''\<rparr>) winding_down))
      ''ADVENTURE''"
proof -
  have "ar_currentPhase winding_down = WIND_DOWN" by (simp add: winding_down_def)
  from wind_down_is_calm [OF this, of "sample_thought\<lparr>ts_action := ''ADVENTURE_STORY''\<rparr>"]
  show ?thesis by blast
qed

text \<open>The bedtime rule never applies in a conducted session: it looks for \<open>Night\<close> and
  \<open>Evening\<close>, but the ambient context names the times of day in lower case.\<close>

lemma bedtime_rule_idle:
  "arb_bedtime (arbitration_of ctx ph) t = t"
proof -
  have "\<not> str_includes (tod_string tod) ''Night'' \<and> \<not> str_includes (tod_string tod) ''Evening''" for tod
    by (cases tod) simp_all
  moreover have "\<not> str_includes ''Unknown'' ''Night'' \<and> \<not> str_includes ''Unknown'' ''Evening''" by simp
  ultimately show ?thesis
    by (simp add: arb_bedtime_def arbitration_of_def split: option.split)
qed

subsection \<open>Recovery\<close>

text \<open>The cost that a conducted session reports is within the charges of its attempts.\<close>

definition cost_le :: "real \<Rightarrow> conduct_result \<Rightarrow> bool" where
  "cost_le b r \<longleftrightarrow> (\<forall>tr \<in> set (cr_trace r). \<forall>m x. rt_meta tr = Some m \<longrightarrow> rm_cost m = Some x \<longrightarrow> x \<le> b)"

lemma cost_le_mono: "cost_le b r \<Longrightarrow> b \<le> b' \<Longrightarrow> cost_le b' r"
  unfolding cost_le_def by (meson order_trans)

definition step_cost_le :: "real \<Rightarrow> loop_step \<Rightarrow> bool" where
  "step_cost_le b st =
     (case st of Again c \<Rightarrow> c \<le> b | Stop c \<Rightarrow> c \<le> b | Done r \<Rightarrow> cost_le b r)"

context recovery_strategy
begin

lemma returns_attempt_cost:
  "returns (conduct_attempt p config ctx pr s err cost) (\<lambda>(s', r). \<forall>res. r = Inr res \<longrightarrow> cost_le cost res)"
  unfolding conduct_attempt_def Let_def
  by (intro hoare_etry hoare_ebind [OF returns_any] hoare_ethen [OF returns_any] hoare_ereturn)
    (auto simp: cost_le_def recovery_meta_def split: option.splits)

lemma returns_fall_back_cost: "returns (fall_back p config n e cost) (cost_le cost)"
  unfolding fall_back_def
  by (intro hoare_ebind [OF returns_any] hoare_ereturn) (simp add: fallback_result_def cost_le_def)

lemma returns_recover_cost:
  assumes "\<And>ev. po_assess p ev = ereturn (assess ev)" "0 \<le> unit_cost"
  shows "returns (recover p config n e cost) (step_cost_le (cost + unit_cost))"
proof -
  have plan: "returns (case cp_action plan of
           ABORT \<Rightarrow> ereturn (Stop (cost + cp_estimatedCost plan))
         | FALLBACK \<Rightarrow> ereturn (Stop (cost + cp_estimatedCost plan))
         | DEGRADE_SERVICE \<Rightarrow>
             ebind (eread (po_now p)) (\<lambda>now. ereturn (Done (safe_mode_result config now)))
         | RETRY \<Rightarrow> ethen (backoff p (cp_parameters plan)) (ereturn (Again (cost + cp_estimatedCost plan)))
         | SELF_CORRECT \<Rightarrow> ethen (backoff p (cp_parameters plan)) (ereturn (Again (cost + cp_estimatedCost plan))))
      (step_cost_le (cost + unit_cost))" if "cp_estimatedCost plan \<le> unit_cost" for plan
    using that by (cases "cp_action plan") (simp_all add: hoare_ereturn hoare_ethen [OF returns_any]
        hoare_ebind [OF returns_any] step_cost_le_def cost_le_def safe_mode_result_def)
  show ?thesis
    unfolding recover_def Let_def assms(1) ebind_ereturn
    by (intro hoare_etry plan cost_bound)
      (use assms(2) in \<open>simp_all add: hoare_ereturn step_cost_le_def cost_bound\<close>)
qed

lemma returns_loop_cost:
  assumes "\<And>ev. po_assess p ev = ereturn (assess ev)" "0 \<le> unit_cost"
  shows "returns (conduct_loop p config ctx pr n k s err cost) (cost_le (cost + real n * unit_cost))"
proof (induction n arbitrary: k s err cost)
  case 0
  then show ?case by (simp add: returns_fall_back_cost)
next
  case (Suc n)
  let ?B = "cost_le (cost + real (Suc n) * unit_cost)"
  have grow: "cost \<le> cost + real (Suc n) * unit_cost" using assms(2) by simp
  have "unit_cost * 1 \<le> unit_cost * real (Suc n)" using assms(2) by (intro mult_left_mono) auto
  then have grow1: "cost + unit_cost \<le> cost + real (Suc n) * unit_cost" by (simp add: mult.commute)
  have "returns (case step of
            Again cost' \<Rightarrow> conduct_loop p config ctx pr n (Suc k) s' (Some e) cost'
          | Stop cost' \<Rightarrow> fall_back p config (Suc k) (Some e) cost'
          | Done res \<Rightarrow> ereturn res) ?B"
    if st: "step_cost_le (cost + unit_cost) step" for step s' e
  proof (cases step)
    case (Again c)
    then have "c + real n * unit_cost \<le> cost + real (Suc n) * unit_cost"
      using st by (simp add: step_cost_le_def algebra_simps)
    then show ?thesis
      unfolding Again loop_step.case by (blast intro: hoare_weaken [OF Suc.IH] cost_le_mono)
  next
    case (Stop c)
    then have "c \<le> cost + real (Suc n) * unit_cost"
      using st Stop grow1 by (simp add: step_cost_le_def)
    then show ?thesis
      unfolding Stop loop_step.case by (blast intro: hoare_weaken [OF returns_fall_back_cost] cost_le_mono)
  next
    case (Done r)
    then show ?thesis using st cost_le_mono [OF _ grow1] by (simp add: step_cost_le_def hoare_ereturn)
  qed
  then have "returns (case r of Inr res \<Rightarrow> ereturn res
      | Inl e \<Rightarrow> ebind (recover p config (Suc k) e cost) (\<lambda>step. case step of
            Again cost' \<Rightarrow> conduct_loop p config ctx pr n (Suc k) s' (Some e) cost'
          | Stop cost' \<Rightarrow> fall_back p config (Suc k) (Some e) cost'
          | Done res \<Rightarrow> ereturn res)) ?B"
    if "\<forall>res. r = Inr res \<longrightarrow> cost_le cost res" for r s'
    using that cost_le_mono [OF _ grow]
    by (cases r) (simp_all add: hoare_ebind [OF returns_recover_cost [OF assms]] hoare_ereturn)
  then show ?case
    by (simp only: conduct_loop.simps) (rule hoare_ebind [OF returns_attempt_cost], auto)
qed

end

text \<open>A conducted session reports at most three charges of the recovery engine, 0.00015 dollars
  in all, so the budget of 0.05 dollars is never reached.\<close>

lemma conduct_cost:
  assumes "conductStorySession (redis_ports su) config ctx w = (Inr r, w')"
  shows "cost_le 0.00015 r"
proof -
  have a: "po_assess (redis_ports su) ev = ereturn (assessFailure ev)" for ev
    by (simp add: fun_eq_iff)
  have "returns (conduct_loop (redis_ports su) config ctx pr max_attempts 0 (pr_state pr) None 0)
      (cost_le (0 + real max_attempts * 0.00005))" for pr
    by (rule engine.returns_loop_cost [OF a]) simp
  then have "returns (conductStorySession (redis_ports su) config ctx) (cost_le 0.00015)"
    unfolding conductStorySession_def
    by (intro hoare_ebind [OF returns_any]) (simp add: max_attempts_def)
  from hoare_result [OF this TrueI assms] show ?thesis .
qed

lemma conduct_cost_witness:
  "\<exists>r. fst (conductStorySession (redis_ports sample_setup) sample_config sample_context sample_world) = Inr r
     \<and> cost_le 0.00015 r"
proof -
  have db: "redis_ok (wd_db sample_world)" by (rule sample_ok)
  obtain pr dbx where pr: "conduct_prepare (redis_ports sample_setup) sample_config sample_context
      sample_world = (Inr pr, sample_world\<lparr>wd_db := dbx\<rparr>)"
    by (rule prepare_run [OF sample_ok sample_ids(1,2) sample_valid(2,3) sample_config_valid
        sample_valid(1)])
  obtain r w' where "conduct_loop (redis_ports sample_setup) sample_config sample_context pr max_attempts 0
      (pr_state pr) None 0 (sample_world\<lparr>wd_db := dbx\<rparr>) = (Inr r, w')"
    by (rule total_effE [OF total_loop])
  then have "conductStorySession (redis_ports sample_setup) sample_config sample_context sample_world
      = (Inr r, w')" using pr by (simp add: conductStorySession_def)
  then show ?thesis using conduct_cost by fastforce
qed

text \<open>The two copies of the recovery engine, in the domain layer and in the infrastructure
  layer, make the same plan for every failure.\<close>

lemma engines_agree:
  "assessFailure_infra ev = assessFailure ev"
  by (rule assessFailure_infra_eq)

subsection \<open>Memory\<close>

definition tracked :: "im_memory \<Rightarrow> (string \<times> outcome) list \<Rightarrow> im_memory" where
  \<comment> \<open>a sequence of \<open>trackOutcome\<close> calls\<close>
  "tracked m ocs = foldl (\<lambda>m (th, oc). im_trackOutcome m th oc (user_ctx [])) m ocs"

lemma tracked_half:
  "\<exists>n::nat. assoc_get (im_themeScores (tracked (im_init now) ocs)) th \<in> {None, Some (real n / 2)}"
proof (induction ocs arbitrary: th rule: rev_induct)
  case Nil
  then show ?case by (simp add: tracked_def im_init_def)
next
  case (snoc x ocs)
  obtain th' oc where x: "x = (th', oc)" by (cases x)
  let ?m = "tracked (im_init now) ocs"
  have step: "tracked (im_init now) (ocs @ [x]) = im_trackOutcome ?m th' oc (user_ctx [])"
    by (simp add: tracked_def x)
  show ?case
  proof (cases "th = th'")
    case False
    then show ?thesis using snoc.IH [of th] unfolding step by (simp add: im_trackOutcome_get)
  next
    case True
    obtain n :: nat where "assoc_get (im_themeScores ?m) th' \<in> {None, Some (real n / 2)}"
      using snoc.IH by blast
    then have "\<exists>k::nat. or_number (assoc_get (im_themeScores ?m) th') 1 = real (Suc k) / 2"
    proof (cases "assoc_get (im_themeScores ?m) th' = None \<or> n = 0")
      case True
      then have "or_number (assoc_get (im_themeScores ?m) th') 1 = real (Suc 1) / 2"
        using \<open>_ \<in> {None, _}\<close> by (auto simp: or_number_def)
      then show ?thesis by blast
    next
      case False
      then obtain k where "n = Suc k" by (cases n) auto
      then have "or_number (assoc_get (im_themeScores ?m) th') 1 = real (Suc k) / 2"
        using \<open>_ \<in> {None, _}\<close> False by (auto simp: or_number_def)
      then show ?thesis by blast
    qed
    then obtain k :: nat where k: "or_number (assoc_get (im_themeScores ?m) th') 1 = real (Suc k) / 2"
      by blast
    have "or_number (assoc_get (im_themeScores ?m) th') 1 + (if oc = POSITIVE then 1 else - 0.5)
        = real (if oc = POSITIVE then Suc k + 2 else k) / 2"
      unfolding k by (simp add: field_simps)
    then show ?thesis unfolding step True im_trackOutcome_get by auto
  qed
qed

text \<open>The volatile memory never scores a theme below zero, however often it is rejected: a score
  that has come down to 0 counts as unknown, that is as 1, at the next outcome.\<close>

lemma volatile_scores_nonneg:
  assumes "assoc_get (im_themeScores (tracked (im_init now) ocs)) th = Some r"
  shows "0 \<le> r"
  using tracked_half [of now ocs th] assms by auto

lemma volatile_scores_nonneg_witness:
  "\<exists>r. assoc_get (im_themeScores (tracked (im_init 0)
      [(''a'', NEGATIVE), (''a'', NEGATIVE), (''a'', NEGATIVE)])) ''a'' = Some r \<and> r = 0.5 \<and> 0 \<le> r"
proof -
  have "assoc_get (im_themeScores (tracked (im_init 0)
      [(''a'', NEGATIVE), (''a'', NEGATIVE), (''a'', NEGATIVE)])) ''a'' = Some 0.5"
    by (simp add: tracked_def im_trackOutcome_get or_number_def im_init_def)
  from this volatile_scores_nonneg [OF this] show ?thesis by blast
qed

text \<open>What the file-backed memory stored successfully is found after a restart, by any query
  its filter accepts and whose limit covers the matches.\<close>

lemma stored_memory_survives_restart:
  assumes "pm_store s c t ctx md now rnd w = (Inr (), s')" "io_read w2"
    and "memory_filter q ctx2 ty (memory_entry (memory_id now rnd) t c now md)"
    and "length (filter (memory_filter q ctx2 ty) (pm_memories s')) \<le> n"
  shows "\<exists>ms s2. pm_retrieve (pm_new (pm_file s')) q ctx2 ty (Some n) now2 w2 = (Inr ms, s2) \<and>
    memory_entry (memory_id now rnd) t c now md \<in> set ms"
proof -
  obtain s1 where i: "pm_init s now w = (Inr (), s1)"
    using assms(1) by (cases "pm_init s now w") (auto simp: pm_store_def split: sum.splits)
  let ?e = "memory_entry (memory_id now rnd) t c now md"
  have wr: "io_write w" and s': "pm_file s' = Some \<lparr>db_memories = pm_memories s',
      db_themeScores = Some (pm_themeScores s'), db_preferencePairs = Some (pm_preferencePairs s'),
      db_version = 2\<rparr>" and e: "?e \<in> set (pm_memories s')"
    using assms(1) i by (auto simp: pm_store_def pm_persist_def split: if_splits)
  have "pm_retrieve (pm_new (pm_file s')) q ctx2 ty (Some n) now2 w2 =
      (Inr (take n (sort_key (\<lambda>m. - mr_timestamp m) (filter (memory_filter q ctx2 ty) (pm_memories s')))),
       snd (pm_init (pm_new (pm_file s')) now2 w2))"
    using assms(2) s' by (simp add: pm_retrieve_def pm_init_def pm_new_def)
  moreover have "?e \<in> set (take n (sort_key (\<lambda>m. - mr_timestamp m)
      (filter (memory_filter q ctx2 ty) (pm_memories s'))))"
    using assms(3,4) e by simp
  ultimately show ?thesis by blast
qed

definition io_fine :: io where
  "io_fine = \<lparr>io_read = True, io_write = True\<rparr>"

lemma stored_memory_survives_restart_witness:
  "\<exists>s' ms s2. pm_store (pm_new None) ''likes owls'' PREFERENCE (user_ctx ''u'') None 7 ''r'' io_fine
      = (Inr (), s') \<and>
    pm_retrieve (pm_new (pm_file s')) ''OWL'' (user_ctx ''u'') (Some PREFERENCE) (Some 3) 9 io_fine
      = (Inr ms, s2) \<and> ms \<noteq> []"
proof -
  let ?e = "memory_entry (memory_id 7 ''r'') PREFERENCE ''likes owls'' 7 None"
  obtain s' where st: "pm_store (pm_new None) ''likes owls'' PREFERENCE (user_ctx ''u'') None 7 ''r'' io_fine
      = (Inr (), s')" "pm_memories s' = procedural_defaults 7 @ [?e]"
    by (simp add: pm_store_def pm_init_def pm_new_def pm_persist_def io_fine_def)
  have f: "memory_filter ''OWL'' (user_ctx ''u'') (Some PREFERENCE) ?e"
    unfolding memory_filter_def memory_entry_def by code_simp
  have l: "length (filter (memory_filter ''OWL'' (user_ctx ''u'') (Some PREFERENCE)) (pm_memories s')) \<le> 3"
    unfolding st(2) by (rule order_trans [OF length_filter_le]) (simp add: procedural_defaults_def)
  have "io_read io_fine" by (simp add: io_fine_def)
  from stored_memory_survives_restart [OF st(1) this f l, of 9]
  obtain ms s2 where "pm_retrieve (pm_new (pm_file s')) ''OWL'' (user_ctx ''u'') (Some PREFERENCE) (Some 3) 9 io_fine
      = (Inr ms, s2)" "?e \<in> set ms" by blast
  then show ?thesis using st(1) by force
qed

end
