(* ===== verification/Sentinel.thy ===== *)
theory Sentinel
  imports JsPrelude "HOL-Library.Word"
begin

text \<open>
  The sleep sentinel (\<open>api/src/domain/agents/SleepSentinelAgent.ts\<close>) and the use case that
  reports its state (\<open>api/src/application/use-cases/ManageSleepCycleUseCase.ts\<close>).  A chunk
  of audio is a list of 16-bit samples; root mean square, variance, the envelope buffer and the
  spectral analysis (Hann window and the in-place radix-2 transform) are those of the code, over
  the reals.  A number that may be NaN is a \<open>real option\<close> (\<open>None\<close>: NaN): the analysis
  reads past a slice that is too short.  \<open>updateConfidenceFromAudio\<close> is not awaited: it runs
  synchronously up to the publication of a cue (\<open>on_audio\<close>) and resumes when the publication is
  done (\<open>cue_done\<close>), so chunks may arrive in between; the relation \<open>sentinel_step\<close>
  interleaves them.
\<close>

subsection \<open>Arithmetic with NaN\<close>

type_synonym nan_real = "real option"

fun nan2 :: "(real \<Rightarrow> real \<Rightarrow> real) \<Rightarrow> nan_real \<Rightarrow> nan_real \<Rightarrow> nan_real" where
  "nan2 f (Some a) (Some b) = Some (f a b)"
| "nan2 f _ _ = None"

definition nth_or_nan :: "real list \<Rightarrow> nat \<Rightarrow> nan_real" where
  \<comment> \<open>an index past the end is \<open>undefined\<close>, which arithmetic turns into NaN\<close>
  "nth_or_nan xs i = (if i < length xs then Some (xs ! i) else None)"

fun nan_greater :: "nan_real \<Rightarrow> real \<Rightarrow> bool" where
  "nan_greater None b = False"
| "nan_greater (Some a) b = (b < a)"

subsection \<open>Measures of a chunk\<close>

type_synonym pcm = "16 word list"

definition sample :: "16 word \<Rightarrow> real" where
  "sample x = of_int (sint x) / 32768"

definition calculateRms :: "pcm \<Rightarrow> real" where
  "calculateRms xs =
     (if xs = [] then 0
      else sqrt (sum_list (map (\<lambda>x. sample x * sample x) xs) / real (length xs)))"

definition calculateVariance :: "pcm \<Rightarrow> real" where
  "calculateVariance xs =
     (if xs = [] then 0
      else
        (let mean = sum_list (map (\<lambda>x. \<bar>sample x\<bar>) xs) / real (length xs)
         in sum_list (map (\<lambda>x. (\<bar>sample x\<bar> - mean) * (\<bar>sample x\<bar> - mean)) xs) / real (length xs)))"

definition chunk_ms :: "pcm \<Rightarrow> real" where
  "chunk_ms xs = (if xs = [] then 0 else real (length xs) / 16000 * 1000)"

subsection \<open>The transform\<close>

type_synonym spectrum = "nan_real list \<times> nan_real list"

definition swap :: "nat \<Rightarrow> nat \<Rightarrow> 'a list \<Rightarrow> 'a list" where
  "swap i j xs = xs[i := xs ! j, j := xs ! i]"

function rev_carry :: "nat \<Rightarrow> nat \<Rightarrow> nat" where
  \<comment> \<open>\<open>while (j >= m && m > 0) { j -= m; m >>= 1 }; j += m\<close>\<close>
  "rev_carry j m = (if m \<le> j \<and> 0 < m then rev_carry (j - m) (m div 2) else j + m)"
  by pat_completeness auto
termination by (relation "measure snd") auto

declare rev_carry.simps [simp del]

definition bit_reverse_step :: "nat \<Rightarrow> nat \<times> spectrum \<Rightarrow> nat \<Rightarrow> nat \<times> spectrum" where
  "bit_reverse_step n s i =
     (case s of (j, re, im) \<Rightarrow>
        (let (re', im') = (if i < j then (swap i j re, swap i j im) else (re, im))
         in (rev_carry j (n div 2), re', im')))"

definition bit_reverse :: "spectrum \<Rightarrow> spectrum" where
  "bit_reverse s =
     (let n = length (fst s) in snd (foldl (bit_reverse_step n) (0, s) [0..<n]))"

definition butterfly ::
    "nat \<Rightarrow> nat \<Rightarrow> real \<times> real \<Rightarrow> (real \<times> real) \<times> spectrum \<Rightarrow> nat \<Rightarrow> (real \<times> real) \<times> spectrum" where
  \<comment> \<open>one pass of the innermost loop: block start, half length, twiddle increment\<close>
  "butterfly i h wlen s k =
     (case s of ((wRe, wIm), re, im) \<Rightarrow>
        (let uRe = re ! (i + k); uIm = im ! (i + k);
             xRe = re ! (i + k + h); xIm = im ! (i + k + h);
             vRe = nan2 (-) (map_option ((*) wRe) xRe) (map_option ((*) wIm) xIm);
             vIm = nan2 (+) (map_option ((*) wIm) xRe) (map_option ((*) wRe) xIm)
         in ((wRe * fst wlen - wIm * snd wlen, wRe * snd wlen + wIm * fst wlen),
             re[i + k := nan2 (+) uRe vRe, i + k + h := nan2 (-) uRe vRe],
             im[i + k := nan2 (+) uIm vIm, i + k + h := nan2 (-) uIm vIm])))"

definition fft_block :: "nat \<Rightarrow> real \<times> real \<Rightarrow> spectrum \<Rightarrow> nat \<Rightarrow> spectrum" where
  "fft_block h wlen s i = snd (foldl (butterfly i h wlen) ((1, 0), s) [0..<h])"

definition fft_stage :: "nat \<Rightarrow> nat \<Rightarrow> spectrum \<Rightarrow> spectrum" where
  \<comment> \<open>the blocks start at the multiples of \<open>len\<close> below \<open>n\<close>\<close>
  "fft_stage n len s =
     (let ang = - 2 * pi / real len
      in foldl (fft_block (len div 2) (cos ang, sin ang)) s
           (map (\<lambda>b. b * len) [0..<(n + len - 1) div len]))"

function fft_stages :: "nat \<Rightarrow> nat \<Rightarrow> spectrum \<Rightarrow> spectrum" where
  "fft_stages n len s =
     (if 0 < len \<and> len \<le> n then fft_stages n (2 * len) (fft_stage n len s) else s)"
  by pat_completeness auto
termination by (relation "measure (\<lambda>(n, len, s). Suc n - len)") auto

declare fft_stages.simps [simp del]

definition fftMagnitudes :: "nan_real list \<Rightarrow> nan_real list" where
  "fftMagnitudes input =
     (let n = length input;
          (re, im) = fft_stages n 2 (bit_reverse (input, replicate n (Some 0)))
      in map (\<lambda>i. nan2 (\<lambda>a b. sqrt (a * a + b * b) / real n) (re ! i) (im ! i)) [0..<n div 2 + 1])"

subsection \<open>Breathing cadence\<close>

record breathing =
  br_stable :: bool
  br_frequency :: "real option"
  br_strength :: "real option"

definition no_breathing :: breathing where
  "no_breathing = \<lparr>br_stable = False, br_frequency = None, br_strength = None\<rparr>"

function pow2_from :: "nat \<Rightarrow> nat \<Rightarrow> nat" where
  "pow2_from p n = (if 0 < p \<and> p < n then pow2_from (2 * p) n else p)"
  by pat_completeness auto
termination by (relation "measure (\<lambda>(p, n). n - p)") auto

declare pow2_from.simps [simp del]

definition nextPowerOfTwo :: "nat \<Rightarrow> nat" where
  "nextPowerOfTwo n = pow2_from 1 n"

definition js_slice_from :: "'a list \<Rightarrow> int \<Rightarrow> 'a list" where
  \<comment> \<open>\<open>xs.slice(k)\<close>: a negative start counts from the end\<close>
  "js_slice_from xs k =
     drop (if k < 0 then nat (max 0 (int (length xs) + k)) else nat k) xs"

definition windowed :: "real list \<Rightarrow> nat \<Rightarrow> nan_real list" where
  \<comment> \<open>the mean-free slice times the Hann window; positions past the slice are NaN\<close>
  "windowed seg n =
     (let mean = sum_list seg / real (length seg)
      in map (\<lambda>i. map_option
            (\<lambda>x. (x - mean) * (0.5 * (1 - cos (2 * pi * real i / (real n - 1)))))
            (nth_or_nan seg i)) [0..<n])"

definition peak_step :: "nan_real list \<Rightarrow> real \<times> nat \<Rightarrow> nat \<Rightarrow> real \<times> nat" where
  "peak_step mags s i =
     (if nan_greater (mags ! i) (fst s) then (the (mags ! i), i) else s)"

definition sort_numbers :: "nan_real list \<Rightarrow> nan_real list" where
  \<comment> \<open>\<open>sort((a, b) => a - b)\<close>; a comparison with NaN is no order, so such a list is kept\<close>
  "sort_numbers xs = (if None \<in> set xs then xs else map Some (sort (map the xs)))"

definition analyzeBreathingCadence :: "real list \<Rightarrow> real \<Rightarrow> breathing" where
  "analyzeBreathingCadence envelope rate =
     (let n = nextPowerOfTwo (min 512 (length envelope)) in
      if n < 256 then no_breathing
      else
        (let seg = js_slice_from envelope (int (length envelope) - int n);
             mags = fftMagnitudes (windowed seg n);
             binHz = rate / real n;
             startBin = max 1 \<lfloor>0.12 / binHz\<rfloor>;
             endBin = min (int (length mags) - 1) \<lceil>0.65 / binHz\<rceil>
         in if endBin \<le> startBin then no_breathing
            else
              (let bins = [nat startBin..<nat endBin + 1];
                   (peak, peakBin) = foldl (peak_step mags) (0, nat startBin) bins;
                   band = sort_numbers (map (\<lambda>i. mags ! i) bins);
                   median = (case band ! (length band div 2) of None \<Rightarrow> 0 | Some r \<Rightarrow> r);
                   ratio = (if 0 < median then peak / median else 0);
                   frequencyHz = real peakBin * binHz;
                   isStable = (0.0005 < peak \<and> 6 \<le> ratio)
               in \<lparr>br_stable = isStable,
                   br_frequency = (if isStable then Some frequencyHz else None),
                   br_strength = (if isStable then Some ratio else None)\<rparr>)))"

subsection \<open>The agent\<close>

record sentinel =
  sn_isMonitoring :: bool
  sn_confidence :: real
  sn_silenceCounter :: nat
  sn_sessionId :: "string option"
  sn_userId :: "string option"
  sn_traceId :: "string option"
  sn_lastCueAt :: millis
  sn_envelope :: "real list"
  sn_lastRate :: real
  sn_breathing :: "breathing option"
  sn_sinceAnalysis :: nat

datatype cue_kind = Breathing | Silence

record sleep_cue =
  cue_at :: millis
  cue_session :: string
  cue_user :: string
  cue_trace :: "string option"
  cue_confidence :: real
  cue_kind :: cue_kind
  cue_breathingHz :: "real option"
  cue_breathingStrength :: "real option"

definition sentinel_init :: sentinel where
  "sentinel_init =
     \<lparr>sn_isMonitoring = False, sn_confidence = 0, sn_silenceCounter = 0, sn_sessionId = None,
      sn_userId = None, sn_traceId = None, sn_lastCueAt = 0, sn_envelope = [],
      sn_lastRate = 50, sn_breathing = None, sn_sinceAnalysis = 0\<rparr>"

definition monitorLiveSession ::
    "string \<Rightarrow> string option \<Rightarrow> string option \<Rightarrow> sentinel \<Rightarrow> sentinel" where
  \<comment> \<open>the callbacks it registers are \<open>on_audio\<close> and \<open>on_interruption\<close>\<close>
  "monitorLiveSession sid uid tr s =
     s\<lparr>sn_isMonitoring := True, sn_sessionId := Some sid, sn_userId := or_undefined uid,
       sn_traceId := or_undefined tr\<rparr>"

definition max_envelope :: "real \<Rightarrow> nat" where
  "max_envelope rate = nat (max 64 \<lfloor>rate * 16\<rfloor>)"

definition observeEnvelope :: "real \<Rightarrow> real \<Rightarrow> sentinel \<Rightarrow> sentinel" where
  "observeEnvelope rms dt s =
     (let rate = (if 0 < dt then 1000 / dt else sn_lastRate s);
          pushed = sn_envelope s @ [rms];
          env = drop (length pushed - max_envelope rate) pushed;
          since = Suc (sn_sinceAnalysis s);
          due = (256 \<le> length env \<and> max 16 \<lfloor>rate\<rfloor> \<le> int since)
      in s\<lparr>sn_lastRate := rate, sn_envelope := env,
           sn_sinceAnalysis := (if due then 0 else since),
           sn_breathing := (if due then Some (analyzeBreathingCadence env rate)
                            else sn_breathing s)\<rparr>)"

definition breathing_stable :: "sentinel \<Rightarrow> bool" where
  "breathing_stable s = (case sn_breathing s of None \<Rightarrow> False | Some b \<Rightarrow> br_stable b)"

definition confidence_after :: "real \<Rightarrow> real \<Rightarrow> sentinel \<Rightarrow> sentinel" where
  \<comment> \<open>the first half of \<open>updateConfidenceFromAudio\<close>\<close>
  "confidence_after volume variance s =
     (let isQuiet = (volume < 0.05);
          isStable = (variance < 0.01);
          silence = (if isQuiet then Suc (sn_silenceCounter s) else 0);
          c1 = (if isQuiet
                then min 1 (sn_confidence s + 0.01 + min 0.4 (real silence * 0.02) * 0.01)
                else max 0 (sn_confidence s - 0.05));
          c2 = (if isQuiet \<and> isStable \<and> 10 < silence then min 1 (c1 + 0.02)
                else if \<not> isStable \<and> 0.1 < volume then max 0 (c1 - 0.1)
                else c1);
          c3 = (if isQuiet \<and> breathing_stable s \<and> 20 < silence then min 1 (c2 + 0.02) else c2)
      in s\<lparr>sn_silenceCounter := silence, sn_confidence := c3\<rparr>)"

definition cue_due :: "millis \<Rightarrow> sentinel \<Rightarrow> sleep_cue option" where
  "cue_due now s =
     (if 0.85 < sn_confidence s \<and> 30000 < now - sn_lastCueAt s
      then Some \<lparr>cue_at = now, cue_session = or_string (sn_sessionId s) ''unknown'',
                 cue_user = or_string (sn_userId s) ''unknown'',
                 cue_trace = or_undefined (sn_traceId s), cue_confidence = sn_confidence s,
                 cue_kind = (if breathing_stable s then Breathing else Silence),
                 cue_breathingHz = Option.bind (sn_breathing s) br_frequency,
                 cue_breathingStrength = Option.bind (sn_breathing s) br_strength\<rparr>
      else None)"

definition on_audio :: "pcm \<Rightarrow> millis \<Rightarrow> sentinel \<Rightarrow> sleep_cue option \<times> sentinel" where
  \<comment> \<open>a chunk up to the publication of the cue it may cause\<close>
  "on_audio xs now s =
     (let rms = calculateRms xs;
          s1 = confidence_after rms (calculateVariance xs) (observeEnvelope rms (chunk_ms xs) s)
      in (cue_due now s1, s1))"

definition cue_done :: "millis \<Rightarrow> sentinel \<Rightarrow> sentinel" where
  \<comment> \<open>after the publication of a cue\<close>
  "cue_done now s = s\<lparr>sn_confidence := 0.8, sn_lastCueAt := now\<rparr>"

definition on_interruption :: "sentinel \<Rightarrow> sentinel" where
  "on_interruption s =
     s\<lparr>sn_silenceCounter := 0, sn_confidence := max 0 (sn_confidence s - 0.3)\<rparr>"

definition on_chunk :: "pcm \<Rightarrow> millis \<Rightarrow> sentinel \<Rightarrow> sleep_cue option \<times> sentinel" where
  \<comment> \<open>a chunk whose cue is published before anything else happens\<close>
  "on_chunk xs now s =
     (case on_audio xs now s of
        (None, s') \<Rightarrow> (None, s')
      | (Some c, s') \<Rightarrow> (Some c, cue_done now s'))"

text \<open>The state with the publications under way, and the cues published so far.\<close>

inductive sentinel_step ::
    "sentinel \<times> millis list \<times> sleep_cue list \<Rightarrow> sentinel \<times> millis list \<times> sleep_cue list \<Rightarrow> bool" where
  audio_quiet: "on_audio xs now s = (None, s') \<Longrightarrow> sentinel_step (s, ps, cs) (s', ps, cs)"
| audio_cue: "on_audio xs now s = (Some c, s') \<Longrightarrow>
    sentinel_step (s, ps, cs) (s', ps @ [now], cs @ [c])"
| published: "sentinel_step (s, now # ps, cs) (cue_done now s, ps, cs)"
| interrupted: "sentinel_step (s, ps, cs) (on_interruption s, ps, cs)"
| monitored: "sentinel_step (s, ps, cs) (monitorLiveSession sid uid tr s, ps, cs)"

inductive_cases sentinel_stepE: "sentinel_step st st'"

subsection \<open>The report\<close>

datatype cycle_status = Monitoring | ActionTaken

record cycle_report =
  cy_status :: cycle_status
  cy_action :: string
  cy_confidence :: real

definition manageSleepCycle :: "sentinel \<Rightarrow> cycle_report" where
  \<comment> \<open>the thought text, a rounded rendering of the confidence, is left out\<close>
  "manageSleepCycle s =
     (let c = sn_confidence s;
          action = (if 0.8 < c then ''ALERT_SLEEP'' else ''CONTINUE_MONITORING'')
      in \<lparr>cy_status = (if action = ''ALERT_SLEEP'' then ActionTaken else Monitoring),
          cy_action = action, cy_confidence = c\<rparr>)"

end
