(* ===== verification/SentinelTheorems.thy ===== *)
theory SentinelTheorems
  imports Sentinel
begin

text \<open>
  The properties of the sleep sentinel: the range of its confidence under every interleaving of
  its callbacks, the spacing of its cues when publications complete at once and its loss when
  they do not, and the chunk sizes for which breathing is never analysed.
\<close>

subsection \<open>Confidence\<close>

definition confident :: "sentinel \<Rightarrow> bool" where
  "confident s \<longleftrightarrow> 0 \<le> sn_confidence s \<and> sn_confidence s \<le> 1"

lemma observe_sel [simp]:
  "sn_confidence (observeEnvelope r dt s) = sn_confidence s"
  "sn_silenceCounter (observeEnvelope r dt s) = sn_silenceCounter s"
  "sn_lastCueAt (observeEnvelope r dt s) = sn_lastCueAt s"
  "sn_sessionId (observeEnvelope r dt s) = sn_sessionId s"
  by (simp_all add: observeEnvelope_def Let_def)

lemma confidence_sel [simp]:
  "sn_lastCueAt (confidence_after v a s) = sn_lastCueAt s"
  "sn_breathing (confidence_after v a s) = sn_breathing s"
  "sn_envelope (confidence_after v a s) = sn_envelope s"
  by (simp_all add: confidence_after_def Let_def)

lemma confident_after [inv_intros]: "confident s \<Longrightarrow> confident (confidence_after v a s)"
  by (auto simp: confident_def confidence_after_def Let_def)

lemma confident_observe [inv_intros]: "confident s \<Longrightarrow> confident (observeEnvelope r dt s)"
  by (simp add: confident_def)

lemma confident_on_audio [inv_intros]: "confident s \<Longrightarrow> confident (snd (on_audio xs now s))"
  by (simp add: on_audio_def Let_def confident_after confident_observe)

lemma confident_on_audio_eq: "on_audio xs now s = (r, s') \<Longrightarrow> confident s \<Longrightarrow> confident s'"
  by (metis confident_on_audio snd_conv)

lemma confident_others [inv_intros]:
  "confident (cue_done now s)" "confident s \<Longrightarrow> confident (on_interruption s)"
  "confident s \<Longrightarrow> confident (monitorLiveSession sid uid tr s)"
  by (auto simp: confident_def cue_done_def on_interruption_def monitorLiveSession_def)

lemma confident_step:
  "sentinel_step (s, ps, cs) (s', ps', cs') \<Longrightarrow> confident s \<Longrightarrow> confident s'"
  by (auto elim!: sentinel_stepE intro: confident_on_audio_eq confident_others)

lemma on_audio_confidence:
  "on_audio xs now s = (Some c, s') \<Longrightarrow> cue_confidence c = sn_confidence s' \<and> 0.85 < sn_confidence s'"
  by (auto simp: on_audio_def Let_def cue_due_def split: if_splits)


lemma quiet_chunk: "calculateRms [] = 0" "calculateVariance [] = 0" "chunk_ms [] = 0"
  by (simp_all add: calculateRms_def calculateVariance_def chunk_ms_def)


subsection \<open>Spacing of the cues\<close>

fun run_chunks :: "(pcm \<times> millis) list \<Rightarrow> sentinel \<Rightarrow> sleep_cue list" where
  \<comment> \<open>the cues of a sequence of chunks, each publication completing before the next chunk\<close>
  "run_chunks [] s = []"
| "run_chunks ((xs, now) # rest) s =
     (case on_chunk xs now s of
        (None, s') \<Rightarrow> run_chunks rest s'
      | (Some c, s') \<Rightarrow> c # run_chunks rest s')"

lemma on_chunk_cases:
  obtains (none) s' where "on_chunk xs now s = (None, s')" "sn_lastCueAt s' = sn_lastCueAt s"
  | (cue) c s' where "on_chunk xs now s = (Some c, s')" "cue_at c = now" "sn_lastCueAt s' = now"
      "sn_lastCueAt s + 30000 < now" "0.85 < cue_confidence c"
proof (cases "fst (on_audio xs now s)")
  case None
  then show thesis using none by (cases "on_audio xs now s") (auto simp: on_chunk_def on_audio_def Let_def)
next
  case (Some c)
  then show thesis
    using cue by (cases "on_audio xs now s")
      (auto simp: on_chunk_def on_audio_def Let_def cue_due_def cue_done_def split: if_splits)
qed

lemma run_chunks_spaced:
  "list_all (\<lambda>c. sn_lastCueAt s + 30000 < cue_at c) (run_chunks chunks s) \<and>
   sorted_wrt (\<lambda>c d. cue_at c + 30000 < cue_at d) (run_chunks chunks s)"
proof (induction chunks arbitrary: s)
  case Nil
  then show ?case by simp
next
  case (Cons ch rest)
  obtain xs now where ch: "ch = (xs, now)" by (cases ch)
  show ?case
  proof (rule on_chunk_cases [of xs now s])
    fix s' assume "on_chunk xs now s = (None, s')" "sn_lastCueAt s' = sn_lastCueAt s"
    then show ?thesis using Cons.IH [of s'] by (simp add: ch)
  next
    fix c s' assume c: "on_chunk xs now s = (Some c, s')" "cue_at c = now" "sn_lastCueAt s' = now"
      "sn_lastCueAt s + 30000 < now"
    then have "list_all (\<lambda>d. cue_at c + 30000 < cue_at d) (run_chunks rest s')"
      "sorted_wrt (\<lambda>c d. cue_at c + 30000 < cue_at d) (run_chunks rest s')"
      using Cons.IH [of s'] by simp_all
    then show ?thesis using c by (auto simp: ch list_all_iff)
  qed
qed

text \<open>When each publication completes before the next chunk, any two cues are more than 30
  seconds apart.\<close>

lemma cues_are_spaced:
  "sorted_wrt (\<lambda>c d. cue_at c + 30000 < cue_at d) (run_chunks chunks s)"
  using run_chunks_spaced by blast

definition raise :: "bool \<Rightarrow> real \<Rightarrow> real" where
  "raise b c = (if b then min 1 (c + 0.02) else c)"

lemma raise_high: "0.85 < c \<Longrightarrow> 0.85 < raise b c"
  unfolding raise_def by (simp only: min_less_iff_conj split: if_split) auto

lemma quiet_confidence:
  "sn_confidence (confidence_after 0 0 s) =
     raise (breathing_stable s \<and> 20 < Suc (sn_silenceCounter s)) (raise (10 < Suc (sn_silenceCounter s))
       (min 1 (sn_confidence s + 0.01 + min 0.4 (real (Suc (sn_silenceCounter s)) * 0.02) * 0.01)))"
  by (simp add: confidence_after_def Let_def raise_def)

lemma quiet_audio:
  assumes "0.85 < sn_confidence s" "30000 < now - sn_lastCueAt s"
  obtains c s' where "on_audio [] now s = (Some c, s')" "0.85 < sn_confidence s'"
    "sn_lastCueAt s' = sn_lastCueAt s"
proof -
  let ?s = "confidence_after 0 0 (observeEnvelope 0 0 s)"
  let ?c1 = "min 1 (sn_confidence s + 0.01 + min 0.4 (real (Suc (sn_silenceCounter s)) * 0.02) * 0.01)"
  have "0 \<le> min 0.4 (real (Suc (sn_silenceCounter s)) * 0.02) * (0.01::real)" by simp
  moreover have "0 \<le> b \<Longrightarrow> 0.85 < c \<Longrightarrow> 0.85 < min 1 (c + 0.01 + b)" for b c :: real
    by (simp only: min_less_iff_conj) auto
  ultimately have c1: "0.85 < ?c1" using assms(1) by blast
  have c: "0.85 < sn_confidence ?s"
    unfolding quiet_confidence observe_sel by (intro raise_high c1)
  obtain cue where "cue_due now ?s = Some cue" using assms(2) c by (simp add: cue_due_def)
  then have "on_audio [] now s = (Some cue, ?s)" by (simp add: on_audio_def Let_def quiet_chunk)
  then show thesis using that c by simp
qed

text \<open>While the publication of a cue is still under way, the cooldown does not hold: every
  further quiet chunk publishes another cue, so any number of cues can be in flight, all within
  the same instant.\<close>

lemma cues_flood_while_publishing:
  assumes "0.85 < sn_confidence s" "30000 < now - sn_lastCueAt s"
  shows "\<exists>s' ps cs. sentinel_step\<^sup>*\<^sup>* (s, [], []) (s', ps, cs) \<and> length cs = n \<and>
    list_all (\<lambda>c. cue_at c = now) cs"
proof -
  have "\<exists>s' ps cs. sentinel_step\<^sup>*\<^sup>* (s, [], []) (s', ps, cs) \<and> length cs = n \<and>
    list_all (\<lambda>c. cue_at c = now) cs \<and> 0.85 < sn_confidence s' \<and> sn_lastCueAt s' = sn_lastCueAt s"
  proof (induction n)
    case 0
    then show ?case using assms by (intro exI [of _ s] exI [of _ "[]"]) simp
  next
    case (Suc n)
    then obtain s1 ps cs where r: "sentinel_step\<^sup>*\<^sup>* (s, [], []) (s1, ps, cs)" "length cs = n"
      "list_all (\<lambda>c. cue_at c = now) cs" "0.85 < sn_confidence s1" "sn_lastCueAt s1 = sn_lastCueAt s"
      by blast
    then obtain c s2 where c: "on_audio [] now s1 = (Some c, s2)" "0.85 < sn_confidence s2"
      "sn_lastCueAt s2 = sn_lastCueAt s1"
      using quiet_audio [of s1 now] assms(2) by auto
    have "sentinel_step\<^sup>*\<^sup>* (s, [], []) (s2, ps @ [now], cs @ [c])"
      using r(1) sentinel_step.audio_cue [OF c(1)] by (rule rtranclp.rtrancl_into_rtrancl)
    moreover have "cue_at c = now"
      using c(1) by (auto simp: on_audio_def Let_def cue_due_def split: if_splits)
    ultimately show ?case
      using r c by (intro exI [of _ s2] exI [of _ "ps @ [now]"] exI [of _ "cs @ [c]"]) simp
  qed
  then show ?thesis by blast
qed

lemma cues_flood_while_publishing_witness:
  "\<exists>s' ps cs. sentinel_step\<^sup>*\<^sup>* (sentinel_init\<lparr>sn_confidence := 0.9\<rparr>, [], []) (s', ps, cs) \<and>
     length cs = 100"
proof -
  have "0.85 < sn_confidence (sentinel_init\<lparr>sn_confidence := 0.9\<rparr>)"
    "30000 < 40000 - sn_lastCueAt (sentinel_init\<lparr>sn_confidence := 0.9\<rparr>)"
    by (simp_all add: sentinel_init_def)
  from cues_flood_while_publishing [OF this, of 100] show ?thesis by blast
qed

subsection \<open>Chunk sizes\<close>

lemma slow_envelope:
  assumes "1000 < length xs" "length (sn_envelope s) \<le> 255" "sn_breathing s = None"
  shows "length (sn_envelope (snd (on_audio xs now s))) \<le> 255 \<and> sn_breathing (snd (on_audio xs now s)) = None"
proof -
  have dt: "0 < chunk_ms xs" using assms(1) by (auto simp: chunk_ms_def)
  have "1000 / chunk_ms xs = 16000 / real (length xs)" using assms(1) by (auto simp: chunk_ms_def)
  also have "\<dots> < 16" using assms(1) by (simp add: divide_less_eq)
  finally have "\<lfloor>1000 / chunk_ms xs * 16\<rfloor> \<le> 255" by linarith
  then have m: "max_envelope (1000 / chunk_ms xs) \<le> 255" unfolding max_envelope_def by linarith
  let ?env = "drop (length (sn_envelope s @ [calculateRms xs]) - max_envelope (1000 / chunk_ms xs))
                (sn_envelope s @ [calculateRms xs])"
  have l: "length ?env \<le> 255" using m by simp
  then have n: "\<not> 256 \<le> length ?env" by linarith
  have e: "sn_envelope (observeEnvelope (calculateRms xs) (chunk_ms xs) s) = ?env"
    using dt by (simp add: observeEnvelope_def Let_def)
  have "sn_breathing (observeEnvelope (calculateRms xs) (chunk_ms xs) s) = None"
    using assms(3) n by (simp only: observeEnvelope_def Let_def dt if_True if_False simp_thms) simp
  then show ?thesis using e l by (simp add: on_audio_def Let_def)
qed

fun after_chunks :: "(pcm \<times> millis) list \<Rightarrow> sentinel \<Rightarrow> sentinel" where
  "after_chunks [] s = s"
| "after_chunks ((xs, now) # rest) s = after_chunks rest (snd (on_chunk xs now s))"

lemma on_chunk_audio:
  "sn_envelope (snd (on_chunk xs now s)) = sn_envelope (snd (on_audio xs now s))"
  "sn_breathing (snd (on_chunk xs now s)) = sn_breathing (snd (on_audio xs now s))"
  by (simp_all add: on_chunk_def cue_done_def split: prod.split option.split)

text \<open>With chunks of more than 1000 samples (62.5 ms) the envelope buffer never holds the 256
  values the spectral analysis needs, so breathing is never analysed and cannot contribute to the
  confidence.\<close>

lemma long_chunks_never_analysed:
  assumes "list_all (\<lambda>(xs, now). 1000 < length xs) chunks"
  shows "sn_breathing (after_chunks chunks sentinel_init) = None"
proof -
  have "length (sn_envelope s) \<le> 255 \<Longrightarrow> sn_breathing s = None \<Longrightarrow>
      list_all (\<lambda>(xs, now). 1000 < length xs) chunks \<Longrightarrow> sn_breathing (after_chunks chunks s) = None" for s
    by (induction chunks s rule: after_chunks.induct) (use slow_envelope on_chunk_audio in auto)
  then show ?thesis using assms by (simp add: sentinel_init_def)
qed

lemma long_chunks_never_analysed_witness:
  "sn_breathing (after_chunks [(replicate 4096 0, 0), (replicate 4096 0, 256)] sentinel_init) = None"
  by (rule long_chunks_never_analysed) simp

end
