(* ===== verification/RateLimit.thy ===== *)
theory RateLimit
  imports JsPrelude "HOL-Library.AList"
begin

text \<open>
  The rate limiter (\<open>api/src/middleware/rateLimit.ts\<close>): the in-memory store, the
  Upstash store, the choice between them and the middleware's decision.

  A \<open>Map\<close> is an association list in insertion order.  Upstash is outside the repository:
  its answer to the pipeline of \<open>INCR\<close> and \<open>EXPIRE\<close> is a parameter, and
  \<open>upstash_reply\<close> lists the shapes of the answer which the code tells apart.  The
  locale \<open>rate_store\<close> states what a client may count on, through the live window of a
  key; console output is left out.
\<close>

subsection \<open>Configuration\<close>

definition WINDOW_MS :: millis where "WINDOW_MS = 60 * 1000"

definition MAX_REQUESTS :: nat where "MAX_REQUESTS = 30"

type_synonym environment = "string \<Rightarrow> string option"

definition is_production :: "environment \<Rightarrow> bool" where
  "is_production env \<longleftrightarrow> env ''NODE_ENV'' = Some ''production''"

subsection \<open>The in-memory store\<close>

record rate_window =
  rw_count :: nat
  rw_start :: millis

type_synonym windows = "(string \<times> rate_window) list"

definition mem_increment :: "millis \<Rightarrow> millis \<Rightarrow> string \<Rightarrow> windows \<Rightarrow> (nat \<times> int) \<times> windows" where
  "mem_increment windowMs now key m =
     (let r0 = (case map_of m key of Some r \<Rightarrow> r | None \<Rightarrow> \<lparr>rw_count = 0, rw_start = now\<rparr>);
          r1 = (if now - rw_start r0 > windowMs then \<lparr>rw_count = 0, rw_start = now\<rparr> else r0);
          r = r1\<lparr>rw_count := rw_count r1 + 1\<rparr>;
          m1 = AList.update key r m;
          m2 = (if length m1 > 10000
                then filter (\<lambda>(k, v). \<not> now - rw_start v > windowMs * 2) m1 else m1);
          ttl = \<lceil>real_of_int (rw_start r + windowMs - now) / 1000\<rceil>
      in ((rw_count r, ttl), m2))"

subsection \<open>The Upstash store\<close>

datatype upstash_reply =
    Results "int option list"   \<comment> \<open>the \<open>result\<close> of each command, \<open>None\<close> where it is missing\<close>
  | HttpError                   \<comment> \<open>\<open>!response.ok\<close>\<close>
  | RequestFailed               \<comment> \<open>the request or the decoding of its body throws\<close>

text \<open>The service: address, token, key and expiry in seconds, with its own state.\<close>

type_synonym 'u upstash = "string \<Rightarrow> string \<Rightarrow> string \<Rightarrow> nat \<Rightarrow> 'u \<Rightarrow> upstash_reply \<times> 'u"

definition upstash_count :: "environment \<Rightarrow> upstash_reply \<Rightarrow> int" where
  "upstash_count env reply =
     (case reply of
        Results rs \<Rightarrow> (case rs of Some c # _ \<Rightarrow> c | _ \<Rightarrow> 1)
      | _ \<Rightarrow> if is_production env then int MAX_REQUESTS + 1 else 1)"

definition upstash_increment ::
    "environment \<Rightarrow> 'u upstash \<Rightarrow> string \<Rightarrow> string \<Rightarrow> millis \<Rightarrow> string \<Rightarrow> 'u
      \<Rightarrow> (int \<times> int) \<times> 'u" where
  "upstash_increment env post url token windowMs key u =
     (let windowSec = \<lceil>real_of_int windowMs / 1000\<rceil>
      in case post url token (''ratelimit:'' @ key) (nat windowSec) u of
           (reply, u') \<Rightarrow> ((upstash_count env reply, windowSec), u'))"

subsection \<open>The store in use\<close>

datatype rate_backend = UpstashStore string string | MemoryStore windows

record 'u limiter =
  li_store :: "rate_backend option"   \<comment> \<open>\<open>None\<close> until it is initialised\<close>
  li_upstash :: 'u

definition validateRateLimitConfig :: "environment \<Rightarrow> bool" where
  \<comment> \<open>false where it throws\<close>
  "validateRateLimitConfig env \<longleftrightarrow>
     (if env ''NODE_ENV'' \<noteq> Some ''production'' then True
      else if \<not> truthy_string (env ''UPSTASH_REDIS_REST_URL'')
              \<or> \<not> truthy_string (env ''UPSTASH_REDIS_REST_TOKEN'')
      then env ''ALLOW_INMEMORY_RATELIMIT'' = Some ''true''
      else True)"

definition getStore :: "environment \<Rightarrow> 'u limiter \<Rightarrow> rate_backend option" where
  \<comment> \<open>\<open>None\<close> where it throws\<close>
  "getStore env L =
     (case li_store L of
        Some b \<Rightarrow> Some b
      | None \<Rightarrow>
          if \<not> validateRateLimitConfig env then None
          else if truthy_string (env ''UPSTASH_REDIS_REST_URL'')
                  \<and> truthy_string (env ''UPSTASH_REDIS_REST_TOKEN'')
          then Some (UpstashStore (the (env ''UPSTASH_REDIS_REST_URL''))
                                  (the (env ''UPSTASH_REDIS_REST_TOKEN'')))
          else Some (MemoryStore []))"

subsection \<open>The decision\<close>

datatype verdict = Allowed | Limited int | Misconfigured

definition verdict_of :: "int \<times> int \<Rightarrow> verdict" where
  "verdict_of ct = (if fst ct > int MAX_REQUESTS then Limited (snd ct) else Allowed)"

definition verifyRateLimit ::
    "environment \<Rightarrow> 'u upstash \<Rightarrow> millis \<Rightarrow> string \<Rightarrow> 'u limiter \<Rightarrow> verdict \<times> 'u limiter" where
  "verifyRateLimit env post now clientIp L =
     (case getStore env L of
        None \<Rightarrow> (Misconfigured, L)
      | Some (MemoryStore m) \<Rightarrow>
          (case mem_increment WINDOW_MS now clientIp m of
             ((count, ttl), m') \<Rightarrow>
               (verdict_of (int count, ttl), L\<lparr>li_store := Some (MemoryStore m')\<rparr>))
      | Some (UpstashStore url token) \<Rightarrow>
          (case upstash_increment env post url token WINDOW_MS clientIp (li_upstash L) of
             (ct, u') \<Rightarrow>
               (verdict_of ct, L\<lparr>li_store := Some (UpstashStore url token), li_upstash := u'\<rparr>)))"

definition extractClientIp :: "(string \<Rightarrow> string option) \<Rightarrow> string" where
  "extractClientIp headers =
     (if truthy_string (headers ''x-real-ip'') then the (headers ''x-real-ip'')
      else if truthy_string (headers ''cf-connecting-ip'') then the (headers ''cf-connecting-ip'')
      else if truthy_string (headers ''x-forwarded-for'')
      then (let firstIp = js_trim (hd (split_char (CHR '','') (the (headers ''x-forwarded-for''))))
            in if firstIp \<noteq> [] then firstIp else ''unknown'')
      else ''unknown'')"

definition rateLimitMiddleware ::
    "environment \<Rightarrow> 'u upstash \<Rightarrow> (string \<Rightarrow> string option) \<Rightarrow> millis \<Rightarrow> 'u limiter
      \<Rightarrow> verdict \<times> 'u limiter" where
  \<comment> \<open>\<open>Allowed\<close> is the call of \<open>next\<close>, \<open>Limited\<close> the answer 429\<close>
  "rateLimitMiddleware env post headers now L =
     verifyRateLimit env post now (extractClientIp headers) L"

subsection \<open>Sequences of requests\<close>

type_synonym request = "millis \<times> string"

fun run_limiter ::
    "environment \<Rightarrow> 'u upstash \<Rightarrow> request list \<Rightarrow> 'u limiter \<Rightarrow> verdict list" where
  "run_limiter env post [] L = []"
| "run_limiter env post ((now, ip) # rs) L =
     (case verifyRateLimit env post now ip L of
        (v, L') \<Rightarrow> v # run_limiter env post rs L')"

fun counts :: "(millis \<Rightarrow> string \<Rightarrow> 's \<Rightarrow> (nat \<times> int) \<times> 's) \<Rightarrow> request list \<Rightarrow> 's \<Rightarrow> nat list" where
  \<comment> \<open>the counts a store answers\<close>
  "counts inc [] s = []"
| "counts inc ((now, k) # rs) s =
     (case inc now k s of ((c, t), s') \<Rightarrow> c # counts inc rs s')"

fun admitted :: "(request \<Rightarrow> bool) \<Rightarrow> request list \<Rightarrow> nat list \<Rightarrow> nat" where
  \<comment> \<open>how many requests that satisfy \<open>P\<close> are admitted\<close>
  "admitted P (r # rs) (c # cs) = (if P r \<and> c \<le> MAX_REQUESTS then 1 else 0) + admitted P rs cs"
| "admitted P rs cs = 0"

fun keep :: "('a \<Rightarrow> bool) \<Rightarrow> 'a list \<Rightarrow> 'b list \<Rightarrow> 'b list" where
  \<comment> \<open>the answers to the requests that satisfy \<open>P\<close>\<close>
  "keep P (r # rs) (v # vs) = (if P r then v # keep P rs vs else keep P rs vs)"
| "keep P rs vs = []"

abbreviation in_order :: "request list \<Rightarrow> bool" where
  "in_order rs \<equiv> sorted (map fst rs)"

subsection \<open>The contract of a store\<close>

text \<open>\<open>live now k s\<close> is the window that a request of \<open>k\<close> at time \<open>now\<close> would count into.\<close>

definition aged :: "millis \<Rightarrow> (nat \<times> millis) option \<Rightarrow> (nat \<times> millis) option" where
  "aged now x =
     (case x of None \<Rightarrow> None | Some (n, w) \<Rightarrow> if now - w > WINDOW_MS then None else Some (n, w))"

definition bumped :: "millis \<Rightarrow> (nat \<times> millis) option \<Rightarrow> nat \<times> millis" where
  "bumped now x = (case x of None \<Rightarrow> (1, now) | Some (n, w) \<Rightarrow> (Suc n, w))"

text \<open>
  The requests of \<open>k\<close> in a minute that starts at \<open>t\<close>: at most two windows serve them.
  \<open>room t now x\<close> bounds the admissions to come when \<open>x\<close> is the live window at \<open>now\<close>.
\<close>

definition room :: "millis \<Rightarrow> millis \<Rightarrow> (nat \<times> millis) option \<Rightarrow> nat" where
  "room t now x =
     (case x of
        None \<Rightarrow> if t \<le> now then MAX_REQUESTS else 2 * MAX_REQUESTS - 1
      | Some (n, w) \<Rightarrow> if t \<le> w then MAX_REQUESTS - n
                      else if w + WINDOW_MS < t then 2 * MAX_REQUESTS - 1
                      else MAX_REQUESTS + (MAX_REQUESTS - n))"

definition in_minute :: "string \<Rightarrow> millis \<Rightarrow> request \<Rightarrow> bool" where
  "in_minute k t r \<longleftrightarrow> snd r = k \<and> t \<le> fst r \<and> fst r \<le> t + WINDOW_MS"

lemma past_the_minute:
  "\<forall>r \<in> set rs. now \<le> fst r \<Longrightarrow> t + WINDOW_MS < now \<Longrightarrow> admitted (in_minute k t) rs cs = 0"
  by (induction "in_minute k t" rs cs rule: admitted.induct) (auto simp: in_minute_def)

lemma room_other:
  "t0 \<le> now \<Longrightarrow> room t now (aged now x) \<le> room t t0 x \<or> t + WINDOW_MS < now"
  by (auto simp: aged_def room_def WINDOW_MS_def MAX_REQUESTS_def split: option.splits)

lemma room_same:
  "t0 \<le> now \<Longrightarrow>
   (if in_minute k t (now, k) \<and> fst (bumped now (aged now x)) \<le> MAX_REQUESTS then 1 else 0)
     + room t now (Some (bumped now (aged now x))) \<le> room t t0 x \<or> t + WINDOW_MS < now"
  by (auto simp: aged_def room_def bumped_def in_minute_def WINDOW_MS_def MAX_REQUESTS_def
           split: option.splits)

locale rate_store =
  fixes increment :: "millis \<Rightarrow> string \<Rightarrow> 's \<Rightarrow> (nat \<times> int) \<times> 's"
    and live :: "millis \<Rightarrow> string \<Rightarrow> 's \<Rightarrow> (nat \<times> millis) option"
    and wf :: "'s \<Rightarrow> bool"
  assumes wf_increment: "wf s \<Longrightarrow> wf (snd (increment now k s))"
    and counted: "wf s \<Longrightarrow> fst (fst (increment now k s)) = fst (bumped now (live now k s))"
    and bumps: "wf s \<Longrightarrow> live now k (snd (increment now k s)) = Some (bumped now (live now k s))"
    and others: "wf s \<Longrightarrow> j \<noteq> k \<Longrightarrow> live now j (snd (increment now k s)) = live now j s"
    and ages: "now \<le> now' \<Longrightarrow> live now' k s = aged now' (live now k s)"
begin

definition same_key :: "string \<Rightarrow> 's \<Rightarrow> 's \<Rightarrow> millis \<Rightarrow> bool" where
  "same_key k s s' t \<longleftrightarrow> wf s \<and> wf s' \<and> (\<forall>now \<ge> t. live now k s = live now k s')"

lemma same_key_later: "same_key k s s' t \<Longrightarrow> t \<le> t' \<Longrightarrow> same_key k s s' t'"
  by (auto simp: same_key_def)

lemma same_key_at:
  assumes "wf s" "wf s'" "live t k s = live t k s'"
  shows "same_key k s s' t"
  using assms ages by (simp add: same_key_def)

lemma same_key_other:
  assumes "same_key k s s' t" "j \<noteq> k"
  shows "same_key k (snd (increment t j s)) s' t"
  using assms by (intro same_key_at) (auto simp: same_key_def wf_increment others [of s])

lemma same_key_both:
  assumes "same_key k s s' t"
  shows "same_key k (snd (increment t k s)) (snd (increment t k s')) t"
    and "fst (fst (increment t k s)) = fst (fst (increment t k s'))"
proof -
  have s: "wf s" "wf s'" "live t k s = live t k s'" using assms by (auto simp: same_key_def)
  show "same_key k (snd (increment t k s)) (snd (increment t k s')) t"
    using s by (intro same_key_at) (simp_all add: wf_increment bumps)
  show "fst (fst (increment t k s)) = fst (fst (increment t k s'))"
    using s by (simp add: counted)
qed

lemma isolation:
  assumes "in_order rs" "\<forall>r \<in> set rs. t \<le> fst r" "same_key k s s' t"
  shows "keep (\<lambda>r. snd r = k) rs (counts increment rs s)
       = counts increment (filter (\<lambda>r. snd r = k) rs) s'"
  using assms
proof (induction rs arbitrary: s s' t)
  case Nil
  then show ?case by simp
next
  case (Cons r rs)
  obtain now j where r: "r = (now, j)" by force
  have tail: "in_order rs" "\<forall>r \<in> set rs. now \<le> fst r" using Cons.prems r by auto
  have here: "same_key k s s' now" using Cons.prems r same_key_later by auto
  show ?case
  proof (cases "j = k")
    case True
    have "same_key k (snd (increment now k s)) (snd (increment now k s')) now"
      by (rule same_key_both [OF here])
    from Cons.IH [OF tail this] same_key_both(2) [OF here] show ?thesis
      using True r by (simp add: case_prod_beta)
  next
    case False
    from Cons.IH [OF tail same_key_other [OF here False]] show ?thesis
      using False r by (simp add: case_prod_beta)
  qed
qed

lemma two_windows:
  assumes "in_order rs" "wf s" "\<forall>r \<in> set rs. t0 \<le> fst r"
  shows "admitted (in_minute k t) rs (counts increment rs s) \<le> room t t0 (live t0 k s)"
  using assms
proof (induction rs arbitrary: s t0)
  case Nil
  then show ?case by simp
next
  case (Cons r rs)
  obtain now j where r: "r = (now, j)" by force
  let ?s = "snd (increment now j s)"
  have tail: "in_order rs" "wf ?s" "\<forall>r \<in> set rs. now \<le> fst r"
    using Cons.prems r wf_increment by auto
  have le: "t0 \<le> now" and wf: "wf s" using Cons.prems r by auto
  note IH = Cons.IH [OF tail] and now = ages [OF le, of k s]
  show ?case
  proof (cases "t + WINDOW_MS < now")
    case True
    have "\<forall>r \<in> set (r # rs). now \<le> fst r" using tail(3) r by simp
    from past_the_minute [OF this True] show ?thesis by simp
  next
    case early: False
    show ?thesis
    proof (cases "j = k")
      case False
      have "room t now (live now k ?s) \<le> room t t0 (live t0 k s)"
        using room_other [OF le, of t "live t0 k s"] early others [OF wf] False now by auto
      then show ?thesis using IH False r by (simp add: case_prod_beta in_minute_def)
    next
      case True
      have "(if in_minute k t (now, k) \<and> fst (fst (increment now k s)) \<le> MAX_REQUESTS then 1 else 0)
          + room t now (live now k ?s) \<le> room t t0 (live t0 k s)"
        using room_same [OF le, of k t "live t0 k s"] early bumps [OF wf] counted [OF wf] now True
        by simp
      then show ?thesis using IH True r by (simp add: case_prod_beta)
    qed
  qed
qed

end

subsection \<open>The in-memory store keeps the contract\<close>

definition mem_live :: "millis \<Rightarrow> string \<Rightarrow> windows \<Rightarrow> (nat \<times> millis) option" where
  "mem_live now k m = aged now (map_option (\<lambda>r. (rw_count r, rw_start r)) (map_of m k))"

definition mem_wf :: "windows \<Rightarrow> bool" where
  "mem_wf m \<longleftrightarrow> distinct (map fst m)"

lemma aged_aged: "now \<le> now' \<Longrightarrow> aged now' (aged now x) = aged now' x"
  by (auto simp: aged_def split: option.splits)

lemma swept_live:
  assumes "distinct (map fst m)"
  shows "mem_live now k (filter (\<lambda>(k, v). \<not> now - rw_start v > WINDOW_MS * 2) m) = mem_live now k m"
proof -
  have "WINDOW_MS * 2 < d \<Longrightarrow> WINDOW_MS < d" for d by (simp add: WINDOW_MS_def)
  then show ?thesis
    by (auto simp: mem_live_def map_of_swept [OF assms, where P = "\<lambda>v. now - rw_start v > WINDOW_MS * 2"]
        aged_def split: option.splits)
qed

lemma mem_increment_live:
  assumes "mem_wf m"
  shows "mem_live now j (snd (mem_increment WINDOW_MS now k m)) =
     (if j = k then Some (bumped now (mem_live now k m)) else mem_live now j m)"
    and "fst (fst (mem_increment WINDOW_MS now k m)) = fst (bumped now (mem_live now k m))"
    and "mem_wf (snd (mem_increment WINDOW_MS now k m))"
proof -
  define r0 where "r0 = (case map_of m k of Some r \<Rightarrow> r | None \<Rightarrow> \<lparr>rw_count = 0, rw_start = now\<rparr>)"
  define r where "r = (if now - rw_start r0 > WINDOW_MS then \<lparr>rw_count = 0, rw_start = now\<rparr> else r0)
                        \<lparr>rw_count := rw_count (if now - rw_start r0 > WINDOW_MS then \<lparr>rw_count = 0, rw_start = now\<rparr> else r0) + 1\<rparr>"
  have r: "(rw_count r, rw_start r) = bumped now (mem_live now k m)"
    by (auto simp: r_def r0_def bumped_def mem_live_def aged_def WINDOW_MS_def split: option.splits)
  have fresh: "aged now (Some (bumped now (mem_live now k m))) = Some (bumped now (mem_live now k m))"
    by (auto simp: bumped_def mem_live_def aged_def WINDOW_MS_def split: option.splits)
  have d: "distinct (map fst (AList.update k r m))"
    using assms by (simp add: mem_wf_def distinct_update)
  have r': "aged now (Some (rw_count r, rw_start r)) = Some (bumped now (mem_live now k m))"
    using fresh by (simp only: r)
  have upd: "mem_live now j (AList.update k r m) =
     (if j = k then Some (bumped now (mem_live now k m)) else mem_live now j m)"
    using r' by (auto simp: mem_live_def update_conv')
  have inc: "mem_increment WINDOW_MS now k m =
     ((rw_count r, \<lceil>real_of_int (rw_start r + WINDOW_MS - now) / 1000\<rceil>),
      if length (AList.update k r m) > 10000
      then filter (\<lambda>(k, v). \<not> now - rw_start v > WINDOW_MS * 2) (AList.update k r m)
      else AList.update k r m)"
    by (simp add: mem_increment_def r_def r0_def Let_def)
  show "mem_live now j (snd (mem_increment WINDOW_MS now k m)) =
     (if j = k then Some (bumped now (mem_live now k m)) else mem_live now j m)"
    unfolding upd [symmetric] inc snd_conv using swept_live [OF d] by (simp split: if_split)
  show "fst (fst (mem_increment WINDOW_MS now k m)) = fst (bumped now (mem_live now k m))"
    unfolding r [symmetric] by (simp add: inc)
  show "mem_wf (snd (mem_increment WINDOW_MS now k m))"
    using d by (auto simp: inc mem_wf_def intro: distinct_map_filter)
qed

interpretation memory_limit: rate_store "mem_increment WINDOW_MS" mem_live mem_wf
proof
  show "mem_live now' k s = aged now' (mem_live now k s)" if "now \<le> now'" for now now' k s
    using aged_aged [OF that] by (simp add: mem_live_def)
qed (simp_all add: mem_increment_live)

end
