(* ===== verification/RateLimitTheorems.thy ===== *)
theory RateLimitTheorems
  imports RateLimit
begin

text \<open>
  The properties of the rate limiter: the tight bound on what a client can get through in a
  minute, the isolation of clients, what an outage of Upstash does, and which header names
  the client.  \<open>dev_limiter\<close> is the limiter outside production without Upstash.
\<close>

definition dev_env :: environment where "dev_env = (\<lambda>_. None)"

definition no_upstash :: "unit upstash" where
  "no_upstash url token key secs u = (RequestFailed, u)"

definition dev_limiter :: "unit limiter" where
  "dev_limiter = \<lparr>li_store = None, li_upstash = ()\<rparr>"

definition is_allowed :: "verdict \<Rightarrow> bool" where
  "is_allowed v \<longleftrightarrow> v = Allowed"

definition served :: "(request \<Rightarrow> bool) \<Rightarrow> request list \<Rightarrow> verdict list \<Rightarrow> nat" where
  \<comment> \<open>how many requests that satisfy \<open>P\<close> are allowed\<close>
  "served P rs vs = length (filter (\<lambda>(r, v). P r \<and> v = Allowed) (zip rs vs))"

lemma in_memory_step:
  assumes "li_store L = Some (MemoryStore m)"
  shows "verifyRateLimit env post now k L =
     (verdict_of (int (fst (fst (mem_increment WINDOW_MS now k m))),
                  snd (fst (mem_increment WINDOW_MS now k m))),
      L\<lparr>li_store := Some (MemoryStore (snd (mem_increment WINDOW_MS now k m)))\<rparr>)"
  using assms by (simp add: verifyRateLimit_def getStore_def case_prod_beta)

lemma allowed_count: "verdict_of (int c, t) = Allowed \<longleftrightarrow> c \<le> MAX_REQUESTS"
  by (simp add: verdict_of_def)

lemma run_served:
  "li_store L = Some (MemoryStore m) \<Longrightarrow>
   served P rs (run_limiter env post rs L) = admitted P rs (counts (mem_increment WINDOW_MS) rs m)"
proof (induction rs arbitrary: L m)
  case Nil
  then show ?case by (simp add: served_def)
next
  case (Cons r rs)
  obtain now k where r: "r = (now, k)" by force
  have "li_store (L\<lparr>li_store := Some (MemoryStore (snd (mem_increment WINDOW_MS now k m)))\<rparr>)
      = Some (MemoryStore (snd (mem_increment WINDOW_MS now k m)))" by simp
  from Cons.IH [OF this] show ?case
    using r Cons.prems by (simp add: in_memory_step case_prod_beta served_def allowed_count)
qed

lemma mem_wf_Nil [simp]: "mem_wf []"
  by (simp add: mem_wf_def)

lemma start_memory:
  assumes "validateRateLimitConfig env" "li_store L = None"
    "\<not> (truthy_string (env ''UPSTASH_REDIS_REST_URL'') \<and> truthy_string (env ''UPSTASH_REDIS_REST_TOKEN''))"
  shows "run_limiter env post rs L = run_limiter env post rs (L\<lparr>li_store := Some (MemoryStore [])\<rparr>)"
proof -
  have "getStore env L = Some (MemoryStore [])" using assms by (auto simp: getStore_def)
  then show ?thesis
    by (cases rs) (auto simp: verifyRateLimit_def getStore_def case_prod_beta)
qed

lemma room_empty: "room t t0 (mem_live t0 k []) \<le> 2 * MAX_REQUESTS - 1"
  by (simp add: mem_live_def aged_def room_def MAX_REQUESTS_def)

lemma no_requests_yet: "\<exists>t0. \<forall>r \<in> set (rs :: request list). t0 \<le> fst r"
proof (induction rs)
  case Nil
  then show ?case by simp
next
  case (Cons r rs)
  then obtain t0 where "\<forall>r \<in> set rs. t0 \<le> fst r" by blast
  then have "\<forall>x \<in> set (r # rs). min t0 (fst r) \<le> fst x" by auto
  then show ?case by blast
qed

lemma in_memory_bound:
  assumes "in_order rs" "li_store L = Some (MemoryStore [])"
  shows "served (in_minute k t) rs (run_limiter env post rs L) \<le> 2 * MAX_REQUESTS - 1"
proof -
  obtain t0 where "\<forall>r \<in> set rs. t0 \<le> fst r" using no_requests_yet by blast
  from memory_limit.two_windows [OF assms(1) mem_wf_Nil this, of k t]
  have "admitted (in_minute k t) rs (counts (mem_increment WINDOW_MS) rs [])
      \<le> room t t0 (mem_live t0 k [])" .
  also have "\<dots> \<le> 2 * MAX_REQUESTS - 1" by (rule room_empty)
  finally show ?thesis using run_served [OF assms(2)] by simp
qed

lemma keep_decided:
  "li_store L = Some (MemoryStore m) \<Longrightarrow>
   map is_allowed (run_limiter env post rs L)
     = map (\<lambda>c. c \<le> MAX_REQUESTS) (counts (mem_increment WINDOW_MS) rs m)"
proof (induction rs arbitrary: L m)
  case Nil
  then show ?case by simp
next
  case (Cons r rs)
  obtain now k where r: "r = (now, k)" by force
  have "li_store (L\<lparr>li_store := Some (MemoryStore (snd (mem_increment WINDOW_MS now k m)))\<rparr>)
      = Some (MemoryStore (snd (mem_increment WINDOW_MS now k m)))" by simp
  from Cons.IH [OF this] show ?case
    using r Cons.prems by (simp add: in_memory_step case_prod_beta is_allowed_def allowed_count)
qed

lemma keep_map: "keep P rs (map f vs) = map f (keep P rs vs)"
  by (induction P rs vs rule: keep.induct) auto

text \<open>C14: In-memory rate limiting, from an empty store and for requests in the order of time: of the
  requests of one client that fall into a minute, at most 59 are let through, whatever the
  other clients do and whenever the store is swept; and the bound is tight.
\<close>

theorem rate_limit_per_minute:
  assumes "in_order rs" "validateRateLimitConfig env" "li_store L = None"
    "\<not> (truthy_string (env ''UPSTASH_REDIS_REST_URL'') \<and> truthy_string (env ''UPSTASH_REDIS_REST_TOKEN''))"
  shows "served (in_minute k t) rs (run_limiter env post rs L) \<le> 59"
proof -
  have "served (in_minute k t) rs (run_limiter env post rs (L\<lparr>li_store := Some (MemoryStore [])\<rparr>))
      \<le> 2 * MAX_REQUESTS - 1"
    using assms(1) by (intro in_memory_bound) simp_all
  then show ?thesis using start_memory [OF assms(2-4)] by (simp add: MAX_REQUESTS_def)
qed

text \<open>A client that waits for the end of its window: 29 requests just before it, 31 just after.\<close>

definition burst :: "request list" where
  "burst = (0, ''ip'') # replicate 29 (60000, ''ip'') @ replicate 31 (60001, ''ip'')"

lemma counts_repeated:
  assumes "mem_wf m" "mem_live now k m = Some (n, w)"
  shows "\<exists>m'. mem_wf m' \<and> mem_live now k m' = Some (n + j, w) \<and>
    counts (mem_increment WINDOW_MS) (replicate j (now, k) @ rs) m
      = map (\<lambda>i. n + i + 1) [0..<j] @ counts (mem_increment WINDOW_MS) rs m'"
  using assms
proof (induction j arbitrary: m n)
  case 0
  then show ?case by auto
next
  case (Suc j)
  let ?m = "snd (mem_increment WINDOW_MS now k m)"
  have "mem_wf ?m" "mem_live now k ?m = Some (Suc n, w)"
      "fst (fst (mem_increment WINDOW_MS now k m)) = Suc n"
    using Suc.prems by (simp_all add: mem_increment_live bumped_def)
  moreover have "map (\<lambda>i. n + i + 1) [0..<Suc j] = Suc n # map (\<lambda>i. Suc n + i + 1) [0..<j]"
    by (subst upt_conv_Cons) (simp_all add: map_Suc_upt [symmetric] del: upt_Suc)
  ultimately show ?case
    using Suc.IH [of ?m "Suc n"] by (simp add: case_prod_beta del: upt_Suc)
qed

lemma counts_first:
  assumes "mem_wf m" "mem_live now k m = None"
  shows "\<exists>m'. mem_wf m' \<and> mem_live now k m' = Some (1, now) \<and>
    counts (mem_increment WINDOW_MS) ((now, k) # rs) m = 1 # counts (mem_increment WINDOW_MS) rs m'"
  using assms
  by (intro exI [of _ "snd (mem_increment WINDOW_MS now k m)"])
     (simp add: mem_increment_live bumped_def case_prod_beta)

lemma burst_counts:
  "counts (mem_increment WINDOW_MS) burst [] = [1] @ map (\<lambda>i. i + 2) [0..<29] @ [1] @ map (\<lambda>i. i + 2) [0..<30]"
proof -
  have burst: "burst = (0, ''ip'') # replicate 29 (60000, ''ip'') @ (60001, ''ip'')
      # replicate 30 (60001, ''ip'') @ []"
    by (simp add: burst_def flip: replicate_Suc)
  have "mem_live 0 ''ip'' [] = None" by (simp add: mem_live_def aged_def)
  from counts_first [OF mem_wf_Nil this, of "replicate 29 (60000, ''ip'') @ (60001, ''ip'')
      # replicate 30 (60001, ''ip'') @ []"]
  obtain m1 where m1: "mem_wf m1" "mem_live 0 ''ip'' m1 = Some (1, 0)"
      "counts (mem_increment WINDOW_MS) ((0, ''ip'') # replicate 29 (60000, ''ip'') @ (60001, ''ip'')
      # replicate 30 (60001, ''ip'') @ []) [] = 1 # counts (mem_increment WINDOW_MS)
      (replicate 29 (60000, ''ip'') @ (60001, ''ip'') # replicate 30 (60001, ''ip'') @ []) m1"
    by blast
  have "mem_live 60000 ''ip'' m1 = Some (1, 0)"
    using memory_limit.ages [of 0 60000 "''ip''" m1] m1(2) by (simp add: aged_def WINDOW_MS_def)
  from counts_repeated [OF m1(1) this, of 29 "(60001, ''ip'') # replicate 30 (60001, ''ip'') @ []"]
  obtain m2 where m2: "mem_wf m2" "mem_live 60000 ''ip'' m2 = Some (1 + 29, 0)"
      "counts (mem_increment WINDOW_MS) (replicate 29 (60000, ''ip'') @ (60001, ''ip'')
        # replicate 30 (60001, ''ip'') @ []) m1
      = map (\<lambda>i. 1 + i + 1) [0..<29]
        @ counts (mem_increment WINDOW_MS) ((60001, ''ip'') # replicate 30 (60001, ''ip'') @ []) m2"
    by blast
  have "mem_live 60001 ''ip'' m2 = None"
    using memory_limit.ages [of 60000 60001 "''ip''" m2] m2(2) by (simp add: aged_def WINDOW_MS_def)
  from counts_first [OF m2(1) this, of "replicate 30 (60001, ''ip'') @ []"]
  obtain m3 where m3: "mem_wf m3" "mem_live 60001 ''ip'' m3 = Some (1, 60001)"
      "counts (mem_increment WINDOW_MS) ((60001, ''ip'') # replicate 30 (60001, ''ip'') @ []) m2
      = 1 # counts (mem_increment WINDOW_MS) (replicate 30 (60001, ''ip'') @ []) m3"
    by blast
  from counts_repeated [OF m3(1,2), of 30 "[]"]
  have "counts (mem_increment WINDOW_MS) (replicate 30 (60001, ''ip'') @ []) m3
      = map (\<lambda>i. 1 + i + 1) [0..<30]" by auto
  then show ?thesis unfolding burst m1(3) m2(3) m3(3) by simp
qed

lemma burst_served:
  "served (in_minute ''ip'' 1) burst (run_limiter dev_env no_upstash burst dev_limiter) = 59"
proof -
  have "run_limiter dev_env no_upstash burst dev_limiter
      = run_limiter dev_env no_upstash burst (dev_limiter\<lparr>li_store := Some (MemoryStore [])\<rparr>)"
    by (rule start_memory) (simp_all add: dev_env_def dev_limiter_def validateRateLimitConfig_def)
  moreover have "admitted (in_minute ''ip'' 1) burst
      ([1] @ map (\<lambda>i. i + 2) [0..<29] @ [1] @ map (\<lambda>i. i + 2) [0..<30]) = 59"
    by code_simp
  ultimately show ?thesis by (simp add: run_served burst_counts)
qed

theorem rate_limit_per_minute_witness:
  "served (in_minute ''ip'' 1) burst (run_limiter dev_env no_upstash burst dev_limiter) \<le> 59
   \<and> served (in_minute ''ip'' 1) burst (run_limiter dev_env no_upstash burst dev_limiter) = 59"
proof
  have "in_order burst" by (simp add: burst_def sorted_append)
  then show "served (in_minute ''ip'' 1) burst (run_limiter dev_env no_upstash burst dev_limiter) \<le> 59"
    by (rule rate_limit_per_minute)
       (simp_all add: dev_env_def dev_limiter_def validateRateLimitConfig_def)
qed (rule burst_served)

text \<open>C15: Isolation: with the in-memory store, which requests of a client are let through does not
  depend on the requests of other clients, although the store drops old windows when other
  clients have filled it.
\<close>

theorem rate_limit_isolation:
  assumes "in_order rs" "li_store L = Some (MemoryStore m)" "mem_wf m"
  shows "keep (\<lambda>r. snd r = k) rs (map is_allowed (run_limiter env post rs L))
       = map is_allowed (run_limiter env post (filter (\<lambda>r. snd r = k) rs) L)"
proof -
  obtain t where t: "\<forall>r \<in> set rs. t \<le> fst r" using no_requests_yet by blast
  have "memory_limit.same_key k m m t" using assms(3) by (simp add: memory_limit.same_key_def)
  from memory_limit.isolation [OF assms(1) t this] show ?thesis
    by (simp add: keep_decided [OF assms(2)] keep_map)
qed

definition two_clients :: "request list" where
  "two_clients = (0, ''b'') # replicate 3 (1, ''a'') @ [(2, ''b'')]"

theorem rate_limit_isolation_witness:
  "keep (\<lambda>r. snd r = ''b'') two_clients
     (map is_allowed (run_limiter dev_env no_upstash two_clients
        (dev_limiter\<lparr>li_store := Some (MemoryStore [])\<rparr>))) = [True, True]"
proof -
  have "in_order two_clients" by (simp add: two_clients_def sorted_append)
  moreover have "map is_allowed (run_limiter dev_env no_upstash (filter (\<lambda>r. snd r = ''b'') two_clients)
      (dev_limiter\<lparr>li_store := Some (MemoryStore [])\<rparr>)) = [True, True]"
    by (simp add: two_clients_def in_memory_step mem_increment_def is_allowed_def verdict_of_def
        MAX_REQUESTS_def WINDOW_MS_def)
  ultimately show ?thesis
    using rate_limit_isolation [of two_clients "dev_limiter\<lparr>li_store := Some (MemoryStore [])\<rparr>" "[]"
        "''b''" dev_env no_upstash]
    by simp
qed

text \<open>The middleware with Upstash configured and unreachable or answering with an HTTP error:
  every request is refused for a minute in production and let through otherwise; an answer
  without the result of \<open>INCR\<close> (the shape of a command error) lets the request through in
  production too.  The client is named by the platform header, so a forged
  \<open>x-forwarded-for\<close> beside it changes nothing.
\<close>

lemma rate_limit_outage:
  assumes "env ''UPSTASH_REDIS_REST_URL'' = Some url" "url \<noteq> []"
    "env ''UPSTASH_REDIS_REST_TOKEN'' = Some token" "token \<noteq> []" "li_store L = None"
    "headers ''x-real-ip'' = Some ip" "ip \<noteq> []"
    "post url token (''ratelimit:'' @ ip) 60 (li_upstash L) = (reply, u)"
  shows "fst (rateLimitMiddleware env post headers now L)
       = (case reply of
            Results (Some c # rs) \<Rightarrow> if c > 30 then Limited 60 else Allowed
          | Results rs \<Rightarrow> Allowed
          | _ \<Rightarrow> if is_production env then Limited 60 else Allowed)
     \<and> fst (rateLimitMiddleware env post (headers(''x-forwarded-for'' := forged)) now L)
       = fst (rateLimitMiddleware env post headers now L)"
  using assms
  by (auto simp: rateLimitMiddleware_def extractClientIp_def verifyRateLimit_def getStore_def
      validateRateLimitConfig_def upstash_increment_def upstash_count_def verdict_of_def
      WINDOW_MS_def MAX_REQUESTS_def split: upstash_reply.splits option.splits list.splits)

definition prod_env :: environment where
  "prod_env = [''NODE_ENV'' \<mapsto> ''production'', ''UPSTASH_REDIS_REST_URL'' \<mapsto> ''https://u'',
               ''UPSTASH_REDIS_REST_TOKEN'' \<mapsto> ''t'']"

lemma rate_limit_outage_witness:
  "fst (rateLimitMiddleware prod_env no_upstash [''x-real-ip'' \<mapsto> ''10.0.0.1''] 0 dev_limiter)
     = Limited 60"
  using rate_limit_outage [where env = prod_env and url = "''https://u''" and token = "''t''"
      and L = dev_limiter and headers = "[''x-real-ip'' \<mapsto> ''10.0.0.1'']" and ip = "''10.0.0.1''"
      and post = no_upstash and reply = RequestFailed and u = "()" and now = 0]
  by (simp add: prod_env_def dev_limiter_def no_upstash_def is_production_def)

end
