(* ===== verification/Tickets.thy ===== *)
theory Tickets
  imports JsPrelude "HOL-Library.AList"
begin

text \<open>
  The one-time tickets that authorise a WebSocket upgrade: the in-memory store
  (\<open>api/src/infrastructure/memory/InMemoryTicketStore.ts\<close>) and the Supabase store
  (\<open>api/src/infrastructure/tickets/SupabaseTicketStore.ts\<close>) over the table and the function
  \<open>consume_ws_ticket\<close> of \<open>supabase/migrations/20260128000003_ws_tickets.sql\<close>.

  The random identifiers of \<open>randomUUID\<close> and the times are arguments.  A request to Supabase
  may fail in transport before it is executed (\<open>fault\<close>); which users exist in
  \<open>auth.users\<close> is a parameter.  The locale \<open>ticket_store\<close> is the contract of
  \<open>TicketStorePort\<close>: both stores are interpreted in it.
\<close>

definition default_ttl :: nat where "default_ttl = 90"

definition ticket_ttl_ms :: "nat option \<Rightarrow> millis" where
  "ticket_ttl_ms ttl = int (case ttl of None \<Rightarrow> default_ttl | Some n \<Rightarrow> n) * 1000"

subsection \<open>The in-memory store\<close>

record ticket =
  tk_userId :: string
  tk_expiresAt :: millis

type_synonym tickets = "(string \<times> ticket) list"

definition mem_issue :: "millis \<Rightarrow> string \<Rightarrow> nat option \<Rightarrow> string \<Rightarrow> tickets \<Rightarrow> tickets" where
  "mem_issue now userId ttl ticketId T =
     AList.update ticketId \<lparr>tk_userId = userId, tk_expiresAt = now + ticket_ttl_ms ttl\<rparr> T"

definition mem_validate :: "millis \<Rightarrow> string \<Rightarrow> tickets \<Rightarrow> string option \<times> tickets" where
  "mem_validate now ticketId T =
     (case map_of T ticketId of
        None \<Rightarrow> (None, T)
      | Some t \<Rightarrow>
          if now > tk_expiresAt t then (None, AList.delete ticketId T)
          else (Some (tk_userId t), AList.delete ticketId T))"

definition mem_cleanup :: "millis \<Rightarrow> tickets \<Rightarrow> tickets" where
  "mem_cleanup now T = filter (\<lambda>(i, t). \<not> tk_expiresAt t < now) T"

subsection \<open>The Supabase store\<close>

record ws_ticket =
  wt_user_id :: string
  wt_expires_at :: millis
  wt_consumed_at :: "millis option"

type_synonym ws_tickets = "(string \<times> ws_ticket) list"

datatype db_error = Transport string | DuplicateKey | UnknownUser

datatype ticket_error = NoServiceRole | IssueFailed db_error | ValidateFailed db_error

definition insert_ticket ::
    "(string \<Rightarrow> bool) \<Rightarrow> string \<Rightarrow> string \<Rightarrow> millis \<Rightarrow> ws_tickets \<Rightarrow> db_error option \<times> ws_tickets" where
  \<comment> \<open>the insertion under the table's primary key and foreign key\<close>
  "insert_ticket users ticket user expires T =
     (if map_of T ticket \<noteq> None then (Some DuplicateKey, T)
      else if \<not> users user then (Some UnknownUser, T)
      else (None, T @ [(ticket, \<lparr>wt_user_id = user, wt_expires_at = expires, wt_consumed_at = None\<rparr>)]))"

definition consume_ws_ticket :: "millis \<Rightarrow> string \<Rightarrow> ws_tickets \<Rightarrow> string option \<times> ws_tickets" where
  "consume_ws_ticket now p_ticket T =
     (case map_of T p_ticket of
        None \<Rightarrow> (None, T)
      | Some t \<Rightarrow>
          if wt_consumed_at t = None \<and> wt_expires_at t > now
          then (Some (wt_user_id t), AList.update p_ticket (t\<lparr>wt_consumed_at := Some now\<rparr>) T)
          else (None, T))"

definition sb_issue ::
    "(string \<Rightarrow> bool) \<Rightarrow> bool \<Rightarrow> string option \<Rightarrow> millis \<Rightarrow> string \<Rightarrow> nat option \<Rightarrow> string
      \<Rightarrow> ws_tickets \<Rightarrow> (ticket_error + string) \<times> ws_tickets" where
  "sb_issue users admin fault now userId ttl ticket T =
     (if \<not> admin then (Inl NoServiceRole, T)
      else case fault of
        Some msg \<Rightarrow> (Inl (IssueFailed (Transport msg)), T)
      | None \<Rightarrow>
          (case insert_ticket users ticket userId (now + ticket_ttl_ms ttl) T of
             (Some e, T') \<Rightarrow> (Inl (IssueFailed e), T')
           | (None, T') \<Rightarrow> (Inr ticket, T')))"

definition sb_validate ::
    "bool \<Rightarrow> string option \<Rightarrow> millis \<Rightarrow> string \<Rightarrow> ws_tickets
      \<Rightarrow> (ticket_error + string option) \<times> ws_tickets" where
  "sb_validate admin fault now ticketId T =
     (if \<not> admin then (Inl NoServiceRole, T)
      else case fault of
        Some msg \<Rightarrow> (Inl (ValidateFailed (Transport msg)), T)
      | None \<Rightarrow>
          (case consume_ws_ticket now ticketId T of
             (data, T') \<Rightarrow> (Inr (or_undefined data), T')))"

subsection \<open>Histories\<close>

text \<open>A history of a store, in the order of time.\<close>

datatype ticket_event =
    Issue millis string "nat option" string   \<comment> \<open>time, user, time to live, the new identifier\<close>
  | Validate millis string
  | Sweep millis

fun event_time :: "ticket_event \<Rightarrow> millis" where
  "event_time (Issue now u ttl t) = now"
| "event_time (Validate now t) = now"
| "event_time (Sweep now) = now"

fun new_tickets :: "ticket_event list \<Rightarrow> string list" where
  "new_tickets [] = []"
| "new_tickets (Issue now u ttl t # es) = t # new_tickets es"
| "new_tickets (e # es) = new_tickets es"

fun run_tickets ::
    "(millis \<Rightarrow> string \<Rightarrow> nat option \<Rightarrow> string \<Rightarrow> 's \<Rightarrow> 's)
      \<Rightarrow> (millis \<Rightarrow> string \<Rightarrow> 's \<Rightarrow> string option \<times> 's) \<Rightarrow> (millis \<Rightarrow> 's \<Rightarrow> 's)
      \<Rightarrow> ticket_event list \<Rightarrow> 's \<Rightarrow> (string \<times> string) list" where
  \<comment> \<open>the admissions of a history: the ticket and the user it was good for\<close>
  "run_tickets iss val swp [] s = []"
| "run_tickets iss val swp (Issue now u ttl t # es) s = run_tickets iss val swp es (iss now u ttl t s)"
| "run_tickets iss val swp (Validate now t # es) s =
     (case val now t s of
        (None, s') \<Rightarrow> run_tickets iss val swp es s'
      | (Some u, s') \<Rightarrow> (t, u) # run_tickets iss val swp es s')"
| "run_tickets iss val swp (Sweep now # es) s = run_tickets iss val swp es (swp now s)"

text \<open>The abstract store: the tickets still good, with their holders.\<close>

fun spec_tickets ::
    "(millis \<Rightarrow> millis \<Rightarrow> bool) \<Rightarrow> ticket_event list \<Rightarrow> (string \<rightharpoonup> string \<times> millis) \<Rightarrow> (string \<times> string) list"
where
  "spec_tickets intime [] S = []"
| "spec_tickets intime (Issue now u ttl t # es) S =
     spec_tickets intime es (S(t \<mapsto> (u, now + ticket_ttl_ms ttl)))"
| "spec_tickets intime (Validate now t # es) S =
     (case S t of None \<Rightarrow> [] | Some (u, e) \<Rightarrow> if intime now e then [(t, u)] else [])
       @ spec_tickets intime es (S(t := None))"
| "spec_tickets intime (Sweep now # es) S = spec_tickets intime es S"

fun issuances :: "ticket_event list \<Rightarrow> (string \<times> string) list" where
  "issuances [] = []"
| "issuances (Issue now u ttl t # es) = (t, u) # issuances es"
| "issuances (e # es) = issuances es"

lemma new_tickets_issuances: "new_tickets es = map fst (issuances es)"
  by (induction es rule: new_tickets.induct) auto

abbreviation chronological :: "ticket_event list \<Rightarrow> bool" where
  "chronological es \<equiv> sorted (map event_time es)"

lemma spec_admissions:
  "(t, u) \<in> set (spec_tickets intime es S) \<Longrightarrow>
   (t, u) \<in> set (issuances es) \<or> (\<exists>e. S t = Some (u, e))"
  by (induction intime es S rule: spec_tickets.induct)
     (auto split: option.splits if_splits, metis)

lemma spec_single_use:
  "distinct (new_tickets es) \<Longrightarrow> \<forall>t \<in> set (new_tickets es). S t = None \<Longrightarrow>
   distinct (map fst (spec_tickets intime es S))"
proof (induction intime es S rule: spec_tickets.induct)
  case (2 intime now u ttl t es S)
  have "\<forall>t' \<in> set (new_tickets es). (S(t \<mapsto> (u, now + ticket_ttl_ms ttl))) t' = None"
    using 2 by auto
  then show ?case unfolding spec_tickets.simps by (rule "2.IH" [rotated]) (use 2 in simp)
next
  case (3 intime now t es S)
  have "distinct (map fst (spec_tickets intime es (S(t := None))))"
    by (rule "3.IH") (use 3 in auto)
  moreover have "t \<notin> fst ` set (spec_tickets intime es (S(t := None)))" if "S t \<noteq> None"
    using that 3(3) spec_admissions [of t _ intime es "S(t := None)"]
    by (force simp: new_tickets_issuances)
  ultimately show ?case by (auto split: option.splits)
qed auto

subsection \<open>The contract\<close>

text \<open>
  \<open>holder now t s\<close> is the user that ticket \<open>t\<close> would admit at time \<open>now\<close>.  A store
  issues a ticket it has never seen to a user that is \<open>known\<close> to it, and \<open>in_time\<close> says
  whether a ticket with a given expiry is still good.
\<close>

locale ticket_store =
  fixes issue :: "millis \<Rightarrow> string \<Rightarrow> nat option \<Rightarrow> string \<Rightarrow> 's \<Rightarrow> 's"
    and validate :: "millis \<Rightarrow> string \<Rightarrow> 's \<Rightarrow> string option \<times> 's"
    and sweep :: "millis \<Rightarrow> 's \<Rightarrow> 's"
    and holder :: "millis \<Rightarrow> string \<Rightarrow> 's \<Rightarrow> string option"
    and in_time :: "millis \<Rightarrow> millis \<Rightarrow> bool"
    and issued :: "string \<Rightarrow> 's \<Rightarrow> bool"
    and known :: "string \<Rightarrow> bool"
    and wf :: "'s \<Rightarrow> bool"
  assumes holder_issued: "holder now t s = Some u \<Longrightarrow> issued t s"
    and issue_holder: "\<not> issued t s \<Longrightarrow> known u \<Longrightarrow>
          holder now' j (issue now u ttl t s)
            = (if j = t then if in_time now' (now + ticket_ttl_ms ttl) then Some u else None
               else holder now' j s)"
    and issue_issued: "issued j (issue now u ttl t s) \<Longrightarrow> j = t \<or> issued j s"
    and validate_result: "fst (validate now t s) = holder now t s"
    and validate_holder: "now \<le> now' \<Longrightarrow>
          holder now' j (snd (validate now t s)) = (if j = t then None else holder now' j s)"
    and validate_issued: "issued j (snd (validate now t s)) \<Longrightarrow> issued j s"
    and sweep_holder: "wf s \<Longrightarrow> now \<le> now' \<Longrightarrow> holder now' j (sweep now s) = holder now' j s"
    and sweep_issued: "wf s \<Longrightarrow> issued j (sweep now s) \<Longrightarrow> issued j s"
    and wf_issue: "wf s \<Longrightarrow> wf (issue now u ttl t s)"
    and wf_validate: "wf s \<Longrightarrow> wf (snd (validate now t s))"
    and wf_sweep: "wf s \<Longrightarrow> wf (sweep now s)"
begin

definition open_as :: "millis \<Rightarrow> (string \<times> millis) option \<Rightarrow> string option" where
  "open_as now x = (case x of None \<Rightarrow> None | Some (u, e) \<Rightarrow> if in_time now e then Some u else None)"

lemma open_as_simps [simp]:
  "open_as now None = None" "open_as now (Some (u, e)) = (if in_time now e then Some u else None)"
  by (simp_all add: open_as_def)

definition abstracts :: "millis \<Rightarrow> 's \<Rightarrow> (string \<rightharpoonup> string \<times> millis) \<Rightarrow> bool" where
  "abstracts now s S \<longleftrightarrow> wf s \<and> (\<forall>now' \<ge> now. \<forall>t. holder now' t s = open_as now' (S t))"

lemma abstracts_later: "abstracts now s S \<Longrightarrow> now \<le> now' \<Longrightarrow> abstracts now' s S"
  by (auto simp: abstracts_def)

lemma abstracts_issue:
  assumes "abstracts now s S" "\<not> issued t s" "known u"
  shows "abstracts now (issue now u ttl t s) (S(t \<mapsto> (u, now + ticket_ttl_ms ttl)))"
  using assms issue_holder [of t s u] by (simp add: abstracts_def wf_issue)

lemma abstracts_validate:
  assumes "abstracts now s S"
  shows "abstracts now (snd (validate now t s)) (S(t := None))"
  using assms by (simp add: abstracts_def validate_holder wf_validate)

lemma abstracts_sweep: "abstracts now s S \<Longrightarrow> abstracts now (sweep now s) S"
  by (simp add: abstracts_def sweep_holder wf_sweep)

theorem refines_spec:
  assumes "chronological es" "\<forall>e \<in> set es. t0 \<le> event_time e" "distinct (new_tickets es)"
    "\<forall>t \<in> set (new_tickets es). \<not> issued t s" "\<forall>(t, u) \<in> set (issuances es). known u"
    "abstracts t0 s S"
  shows "run_tickets issue validate sweep es s = spec_tickets in_time es S"
  using assms
proof (induction es arbitrary: s S t0)
  case Nil
  then show ?case by simp
next
  case (Cons e es)
  have tail: "chronological es" "\<forall>e' \<in> set es. event_time e \<le> event_time e'"
    using Cons.prems(1) by auto
  have here: "abstracts (event_time e) s S"
    by (rule abstracts_later [OF Cons.prems(6)]) (use Cons.prems(2) in simp)
  note IH = Cons.IH [OF tail]
  show ?case
  proof (cases e)
    case (Issue now u ttl t)
    have "\<forall>j \<in> set (new_tickets es). \<not> issued j (issue now u ttl t s)"
      using Cons.prems(3,4) Issue issue_issued by fastforce
    moreover have "abstracts now (issue now u ttl t s) (S(t \<mapsto> (u, now + ticket_ttl_ms ttl)))"
      using abstracts_issue here Cons.prems(4,5) Issue by simp
    ultimately show ?thesis using IH Cons.prems(3,5) Issue by simp
  next
    case (Validate now t)
    have v: "fst (validate now t s) = open_as now (S t)"
      using here Validate by (simp add: validate_result abstracts_def)
    have "\<forall>j \<in> set (new_tickets es). \<not> issued j (snd (validate now t s))"
      using Cons.prems(4) Validate validate_issued by fastforce
    moreover have "abstracts now (snd (validate now t s)) (S(t := None))"
      using abstracts_validate here Validate by simp
    ultimately have rest: "run_tickets issue validate sweep es (snd (validate now t s))
        = spec_tickets in_time es (S(t := None))"
      using IH Cons.prems(3,5) Validate by simp
    then show ?thesis using v Validate
      by (cases "validate now t s") (auto split: option.splits)
  next
    case (Sweep now)
    have "\<forall>j \<in> set (new_tickets es). \<not> issued j (sweep now s)"
      using Cons.prems(4) Sweep sweep_issued here by (fastforce simp: abstracts_def)
    then show ?thesis using IH abstracts_sweep here Cons.prems(3,5) Sweep by simp
  qed
qed

corollary single_use:
  assumes "chronological es" "distinct (new_tickets es)"
    "\<forall>t \<in> set (new_tickets es). \<not> issued t s" "\<forall>(t, u) \<in> set (issuances es). known u"
    "\<forall>now t. holder now t s = None" "wf s"
  shows "distinct (map fst (run_tickets issue validate sweep es s))
       \<and> set (run_tickets issue validate sweep es s) \<subseteq> set (issuances es)"
proof -
  have "\<exists>t0. \<forall>e \<in> set es. t0 \<le> event_time e" using assms(1) by (cases es) auto
  then obtain t0 where t0: "\<forall>e \<in> set es. t0 \<le> event_time e" by blast
  have "abstracts t0 s Map.empty" using assms(5,6) by (simp add: abstracts_def)
  from refines_spec [OF assms(1) t0 assms(2-4) this] show ?thesis
    using spec_single_use [OF assms(2), of Map.empty] spec_admissions by fastforce
qed

end

subsection \<open>The stores keep the contract\<close>

definition mem_holder :: "millis \<Rightarrow> string \<Rightarrow> tickets \<Rightarrow> string option" where
  "mem_holder now t T =
     (case map_of T t of
        None \<Rightarrow> None
      | Some k \<Rightarrow> if now \<le> tk_expiresAt k then Some (tk_userId k) else None)"

definition mem_issued :: "string \<Rightarrow> tickets \<Rightarrow> bool" where
  "mem_issued t T \<longleftrightarrow> map_of T t \<noteq> None"

lemma cleanup_holder:
  assumes "distinct (map fst T)" "now \<le> now'"
  shows "mem_holder now' j (mem_cleanup now T) = mem_holder now' j T"
  using assms(2) map_of_swept [OF assms(1), of "\<lambda>t. tk_expiresAt t < now" j]
  by (simp add: mem_holder_def mem_cleanup_def split: option.split)

interpretation mem: ticket_store mem_issue mem_validate mem_cleanup mem_holder "\<lambda>now e. now \<le> e"
    mem_issued "\<lambda>u. True" "\<lambda>T. distinct (map fst T)"
proof
  show "mem_holder now' j (mem_cleanup now s) = mem_holder now' j s"
    if "distinct (map fst s)" "now \<le> now'" for s now now' j
    by (rule cleanup_holder) (use that in auto)
  show "mem_issued j s" if "distinct (map fst s)" "mem_issued j (mem_cleanup now s)" for s j now
    using that(2) map_of_swept [OF that(1), of "\<lambda>t. tk_expiresAt t < now" j]
    by (auto simp: mem_issued_def mem_cleanup_def split: option.splits)
  show "distinct (map fst (mem_cleanup now s))" if "distinct (map fst s)" for s now
    unfolding mem_cleanup_def by (rule distinct_map_filter [OF that])
qed (auto simp: mem_issue_def mem_holder_def mem_validate_def mem_issued_def delete_conv'
       update_conv' distinct_update distinct_delete split: option.splits if_splits)

definition sb_holder :: "millis \<Rightarrow> string \<Rightarrow> ws_tickets \<Rightarrow> string option" where
  "sb_holder now t T =
     (case map_of T t of
        None \<Rightarrow> None
      | Some k \<Rightarrow> if wt_consumed_at k = None \<and> now < wt_expires_at k \<and> wt_user_id k \<noteq> []
                   then Some (wt_user_id k) else None)"

definition sb_store_issue ::
    "(string \<Rightarrow> bool) \<Rightarrow> millis \<Rightarrow> string \<Rightarrow> nat option \<Rightarrow> string \<Rightarrow> ws_tickets \<Rightarrow> ws_tickets" where
  "sb_store_issue users now u ttl t T = snd (sb_issue users True None now u ttl t T)"

definition sb_store_validate :: "millis \<Rightarrow> string \<Rightarrow> ws_tickets \<Rightarrow> string option \<times> ws_tickets" where
  "sb_store_validate now t T =
     (case sb_validate True None now t T of
        (Inl e, T') \<Rightarrow> (None, T')
      | (Inr x, T') \<Rightarrow> (x, T'))"

definition sb_issued :: "string \<Rightarrow> ws_tickets \<Rightarrow> bool" where
  "sb_issued t T \<longleftrightarrow> map_of T t \<noteq> None"

lemma sb_store_validate_simp:
  "sb_store_validate now t T = (or_undefined (fst (consume_ws_ticket now t T)), snd (consume_ws_ticket now t T))"
  by (simp add: sb_store_validate_def sb_validate_def split: prod.split)

interpretation sb: ticket_store "sb_store_issue users" sb_store_validate "\<lambda>_ T. T"
    sb_holder "\<lambda>now e. now < e" sb_issued "\<lambda>u. users u \<and> u \<noteq> []"
    "\<lambda>_. True" for users
proof
  show "fst (sb_store_validate now t s) = sb_holder now t s" for now t s
    by (auto simp: sb_store_validate_simp consume_ws_ticket_def sb_holder_def split: option.splits)
  show "sb_holder now' j (snd (sb_store_validate now t s)) = (if j = t then None else sb_holder now' j s)"
    if "now \<le> now'" for now now' t j s
    using that by (auto simp: sb_store_validate_simp consume_ws_ticket_def sb_holder_def update_conv'
        split: option.splits)
  show "sb_issued j s" if "sb_issued j (snd (sb_store_validate now t s))" for j now t s
    using that by (auto simp: sb_store_validate_simp consume_ws_ticket_def sb_issued_def update_conv'
        split: option.splits if_splits)
qed (auto simp: sb_store_issue_def sb_issue_def insert_ticket_def sb_holder_def sb_issued_def
       split: option.splits if_splits)

subsection \<open>Properties\<close>

abbreviation mem_history :: "ticket_event list \<Rightarrow> (string \<times> string) list" where
  "mem_history es \<equiv> run_tickets mem_issue mem_validate mem_cleanup es []"

abbreviation sb_history :: "(string \<Rightarrow> bool) \<Rightarrow> ticket_event list \<Rightarrow> (string \<times> string) list" where
  "sb_history users es \<equiv> run_tickets (sb_store_issue users) sb_store_validate (\<lambda>_ T. T) es []"

lemma nothing_issued [simp]:
  "mem_issued t [] = False" "sb_issued t [] = False"
  "mem_holder now t [] = None" "sb_holder now t [] = None"
  by (simp_all add: mem_issued_def sb_issued_def mem_holder_def sb_holder_def)

text \<open>C16: over any history with fresh identifiers, started from empty stores, a ticket admits
  at most once, and only the user it was issued to: in memory, with the periodic cleanup at any
  moment, and in Supabase.\<close>

theorem tickets_single_use:
  assumes "chronological es" "distinct (new_tickets es)"
    "\<forall>(t, u) \<in> set (issuances es). users u \<and> u \<noteq> []"
  shows "distinct (map fst (mem_history es)) \<and> set (mem_history es) \<subseteq> set (issuances es)
       \<and> distinct (map fst (sb_history users es)) \<and> set (sb_history users es) \<subseteq> set (issuances es)"
proof -
  have "distinct (map fst (mem_history es)) \<and> set (mem_history es) \<subseteq> set (issuances es)"
    by (rule mem.single_use) (use assms in auto)
  moreover have "distinct (map fst (sb_history users es)) \<and> set (sb_history users es) \<subseteq> set (issuances es)"
    by (rule sb.single_use) (use assms in auto)
  ultimately show ?thesis by blast
qed

definition ticket_sample :: "ticket_event list" where
  "ticket_sample =
     [Issue 0 ''u'' None ''t'', Validate 5 ''x'', Issue 6 ''v'' (Some 1) ''s'', Validate 7 ''t'',
      Validate 8 ''t'', Sweep 60000, Validate 60001 ''s'']"

theorem tickets_single_use_witness:
  "distinct (map fst (mem_history ticket_sample)) \<and> mem_history ticket_sample = [(''t'', ''u'')]"
proof
  have "chronological ticket_sample" by (simp add: ticket_sample_def)
  then show "distinct (map fst (mem_history ticket_sample))"
    using tickets_single_use [of ticket_sample "\<lambda>_. True"] by (simp add: ticket_sample_def)
  show "mem_history ticket_sample = [(''t'', ''u'')]" by code_simp
qed

text \<open>C17: both stores implement the abstract store of unused tickets, which forgets a ticket when
  it is presented; they differ in one instant, the expiry itself, at which the in-memory store
  still admits and the database no longer does.\<close>

theorem tickets_refine_spec:
  assumes "chronological es" "distinct (new_tickets es)"
    "\<forall>(t, u) \<in> set (issuances es). users u \<and> u \<noteq> []"
  shows "mem_history es = spec_tickets (\<lambda>now e. now \<le> e) es Map.empty
       \<and> sb_history users es = spec_tickets (\<lambda>now e. now < e) es Map.empty"
proof -
  have "\<exists>t0. \<forall>e \<in> set es. t0 \<le> event_time e" using assms(1) by (cases es) auto
  then obtain t0 where t0: "\<forall>e \<in> set es. t0 \<le> event_time e" by blast
  have "mem_history es = spec_tickets (\<lambda>now e. now \<le> e) es Map.empty"
    by (rule mem.refines_spec [OF assms(1) t0 assms(2)]) (auto simp: mem.abstracts_def)
  moreover have "sb_history users es = spec_tickets (\<lambda>now e. now < e) es Map.empty"
    by (rule sb.refines_spec [OF assms(1) t0 assms(2)]) (use assms(3) in \<open>auto simp: sb.abstracts_def\<close>)
  ultimately show ?thesis by blast
qed

definition at_expiry :: "ticket_event list" where
  "at_expiry = [Issue 0 ''u'' None ''t'', Validate 90000 ''t'']"

theorem tickets_refine_spec_witness:
  "mem_history at_expiry = spec_tickets (\<lambda>now e. now \<le> e) at_expiry Map.empty
   \<and> mem_history at_expiry = [(''t'', ''u'')] \<and> sb_history (\<lambda>_. True) at_expiry = []"
proof -
  have "chronological at_expiry" by (simp add: at_expiry_def)
  with tickets_refine_spec [of at_expiry "\<lambda>_. True"]
  have "mem_history at_expiry = spec_tickets (\<lambda>now e. now \<le> e) at_expiry Map.empty"
    by (simp add: at_expiry_def)
  moreover have "mem_history at_expiry = [(''t'', ''u'')]" "sb_history (\<lambda>_. True) at_expiry = []"
    by code_simp+
  ultimately show ?thesis by blast
qed

end
