(* ===== verification/Caches.thy ===== *)
theory Caches
  imports Effects
begin

text \<open>
  The cache behind the model gateway (\<open>api/src/application/ports/CachePort.ts\<close>): the in-memory
  adapter (\<open>InMemoryCacheAdapter.ts\<close>) and the Upstash adapter (\<open>RedisCacheAdapter.ts\<close>).

  \<open>cache_port\<close> holds the operations a client calls, as effects on the client's world.
  The in-memory operations are functions of the time and the state;
  \<open>timed_port\<close> makes them a port over a state with a clock.  The locale \<open>cache\<close> states
  what a client may rely on; the Upstash adapter is modelled over the answer of the service, which
  is outside the repository.  Expiry times are reals, as \<open>ttlSeconds\<close> may be a fraction.
\<close>

subsection \<open>The port\<close>

record 'w cache_port =
  cp_get :: "string \<Rightarrow> ('w, string option) eff"
  cp_set :: "string \<Rightarrow> string \<Rightarrow> real option \<Rightarrow> ('w, unit) eff"
  cp_increment :: "string \<Rightarrow> real option \<Rightarrow> ('w, real) eff"
  cp_delete :: "string \<Rightarrow> ('w, unit) eff"

subsection \<open>The in-memory adapter\<close>

record 'v cache_item =
  ci_value :: 'v
  ci_expiry :: real

record mem_cache =
  mc_store :: "string \<rightharpoonup> string cache_item"
  mc_counters :: "string \<rightharpoonup> real cache_item"

definition mc_empty :: mem_cache where
  "mc_empty = \<lparr>mc_store = Map.empty, mc_counters = Map.empty\<rparr>"

definition expired :: "millis \<Rightarrow> 'v cache_item \<Rightarrow> bool" where
  "expired now it \<longleftrightarrow> ci_expiry it > 0 \<and> ci_expiry it < of_int now"

definition expiry_of :: "millis \<Rightarrow> real option \<Rightarrow> real" where
  "expiry_of now ttl = (case ttl of None \<Rightarrow> 0 | Some s \<Rightarrow> if s \<noteq> 0 then of_int now + s * 1000 else 0)"

definition mc_get :: "millis \<Rightarrow> string \<Rightarrow> mem_cache \<Rightarrow> string option \<times> mem_cache" where
  "mc_get now key C =
     (case mc_store C key of
        None \<Rightarrow> (None, C)
      | Some it \<Rightarrow>
          if expired now it then (None, C\<lparr>mc_store := (mc_store C)(key := None)\<rparr>)
          else (Some (ci_value it), C))"

definition mc_set :: "millis \<Rightarrow> string \<Rightarrow> string \<Rightarrow> real option \<Rightarrow> mem_cache \<Rightarrow> mem_cache" where
  "mc_set now key v ttl C =
     C\<lparr>mc_store := (mc_store C)(key \<mapsto> \<lparr>ci_value = v, ci_expiry = expiry_of now ttl\<rparr>)\<rparr>"

definition mc_increment :: "millis \<Rightarrow> string \<Rightarrow> real option \<Rightarrow> mem_cache \<Rightarrow> real \<times> mem_cache" where
  "mc_increment now key ttl C =
     (let found = (case mc_counters C key of
                     None \<Rightarrow> None
                   | Some it \<Rightarrow> if expired now it then None else Some it);
          it0 = (case found of None \<Rightarrow> \<lparr>ci_value = 0, ci_expiry = expiry_of now ttl\<rparr> | Some it \<Rightarrow> it);
          it = it0\<lparr>ci_value := ci_value it0 + 1\<rparr>
      in (ci_value it, C\<lparr>mc_counters := (mc_counters C)(key \<mapsto> it)\<rparr>))"

definition mc_delete :: "string \<Rightarrow> mem_cache \<Rightarrow> mem_cache" where
  "mc_delete key C =
     C\<lparr>mc_store := (mc_store C)(key := None), mc_counters := (mc_counters C)(key := None)\<rparr>"

subsection \<open>The Upstash adapter\<close>

datatype redis_value = RNil | RText string | RNumber real

datatype upstash_answer =
    Executed "string option" redis_value   \<comment> \<open>the \<open>error\<close> and the \<open>result\<close> of the one command\<close>
  | HttpFailure string                     \<comment> \<open>\<open>!response.ok\<close>, with the status text\<close>
  | Broken js_error                        \<comment> \<open>the request or the decoding of the body throws\<close>

type_synonym 'w upstash_service = "string \<Rightarrow> string \<Rightarrow> string list \<Rightarrow> 'w \<Rightarrow> upstash_answer \<times> 'w"

definition rc_command ::
    "'w upstash_service \<Rightarrow> string \<Rightarrow> string \<Rightarrow> string list \<Rightarrow> ('w, redis_value) eff" where
  "rc_command post url token args =
     ebind (eread (post url token args)) (\<lambda>a.
       case a of
         HttpFailure st \<Rightarrow> ethrow (Err ''Error'' (''Upstash error: '' @ st))
       | Broken e \<Rightarrow> ethrow e
       | Executed err v \<Rightarrow>
           (if truthy_string err then ethrow (Err ''Error'' (''Redis command error: '' @ the err))
            else ereturn v))"

definition rc_get :: "'w upstash_service \<Rightarrow> string \<Rightarrow> string \<Rightarrow> string \<Rightarrow> ('w, string option) eff" where
  \<comment> \<open>the service answers \<open>GET\<close> with a text or nil\<close>
  "rc_get post url token key =
     ebind (rc_command post url token [''GET'', key]) (\<lambda>v.
       ereturn (case v of RText s \<Rightarrow> Some s | _ \<Rightarrow> None))"

definition truthy_ttl :: "real option \<Rightarrow> bool" where
  "truthy_ttl ttl \<longleftrightarrow> ttl \<noteq> None \<and> ttl \<noteq> Some 0"

definition rc_set ::
    "'w upstash_service \<Rightarrow> string \<Rightarrow> string \<Rightarrow> string \<Rightarrow> string \<Rightarrow> real option \<Rightarrow> ('w, unit) eff" where
  "rc_set post url token key v ttl =
     ethen (rc_command post url token
              (if truthy_ttl ttl then [''SET'', key, v, ''EX'', js_show_real (the ttl)]
               else [''SET'', key, v]))
           (ereturn ())"

definition rc_increment ::
    "'w upstash_service \<Rightarrow> string \<Rightarrow> string \<Rightarrow> string \<Rightarrow> real option \<Rightarrow> ('w, real) eff" where
  \<comment> \<open>the service answers \<open>INCR\<close> with a number\<close>
  "rc_increment post url token key ttl =
     ebind (rc_command post url token [''INCR'', key]) (\<lambda>v.
       let n = (case v of RNumber n \<Rightarrow> n | _ \<Rightarrow> 0)
       in ethen (ewhen (truthy_ttl ttl \<and> v = RNumber 1)
                  (ethen (rc_command post url token [''EXPIRE'', key, js_show_real (the ttl)]) (ereturn ())))
            (ereturn n))"

definition rc_delete :: "'w upstash_service \<Rightarrow> string \<Rightarrow> string \<Rightarrow> string \<Rightarrow> ('w, unit) eff" where
  "rc_delete post url token key = ethen (rc_command post url token [''DEL'', key]) (ereturn ())"

definition redis_cache :: "'w upstash_service \<Rightarrow> string \<Rightarrow> string \<Rightarrow> 'w cache_port" where
  "redis_cache post url token =
     \<lparr>cp_get = rc_get post url token, cp_set = rc_set post url token,
      cp_increment = rc_increment post url token, cp_delete = rc_delete post url token\<rparr>"

subsection \<open>The contract\<close>

text \<open>
  \<open>peek now k s\<close> is what \<open>get\<close> would answer, \<open>tally now k s\<close> the counter that
  \<open>increment\<close> would add to, with its expiry time (zero for none).
\<close>

definition outlived :: "millis \<Rightarrow> ('v \<times> real) option \<Rightarrow> ('v \<times> real) option" where
  "outlived now x =
     (case x of None \<Rightarrow> None | Some (v, e) \<Rightarrow> if e > 0 \<and> e < of_int now then None else Some (v, e))"

definition added :: "millis \<Rightarrow> real option \<Rightarrow> (real \<times> real) option \<Rightarrow> real \<times> real" where
  "added now ttl x = (case x of None \<Rightarrow> (1, expiry_of now ttl) | Some (n, e) \<Rightarrow> (n + 1, e))"

locale cache =
  fixes get :: "millis \<Rightarrow> string \<Rightarrow> 's \<Rightarrow> string option \<times> 's"
    and put :: "millis \<Rightarrow> string \<Rightarrow> string \<Rightarrow> real option \<Rightarrow> 's \<Rightarrow> 's"
    and increment :: "millis \<Rightarrow> string \<Rightarrow> real option \<Rightarrow> 's \<Rightarrow> real \<times> 's"
    and remove :: "string \<Rightarrow> 's \<Rightarrow> 's"
    and held :: "millis \<Rightarrow> string \<Rightarrow> 's \<Rightarrow> (string \<times> real) option"
    and tally :: "millis \<Rightarrow> string \<Rightarrow> 's \<Rightarrow> (real \<times> real) option"
  assumes get_result: "fst (get now k s) = map_option fst (held now k s)"
    and get_held: "now \<le> now' \<Longrightarrow> held now' j (snd (get now k s)) = held now' j s"
    and get_tally: "tally now' j (snd (get now k s)) = tally now' j s"
    and put_held: "now \<le> now' \<Longrightarrow> held now' j (put now k v ttl s)
          = (if j = k then outlived now' (Some (v, expiry_of now ttl)) else held now' j s)"
    and put_tally: "tally now' j (put now k v ttl s) = tally now' j s"
    and increment_result: "fst (increment now k ttl s) = fst (added now ttl (tally now k s))"
    and increment_tally: "now \<le> now' \<Longrightarrow> tally now' j (snd (increment now k ttl s))
          = (if j = k then outlived now' (Some (added now ttl (tally now k s))) else tally now' j s)"
    and increment_held: "held now' j (snd (increment now k ttl s)) = held now' j s"
    and remove_held: "held now' j (remove k s) = (if j = k then None else held now' j s)"
    and remove_tally: "tally now' j (remove k s) = (if j = k then None else tally now' j s)"
    and held_ages: "now \<le> now' \<Longrightarrow> held now' k s = outlived now' (held now k s)"
    and tally_ages: "now \<le> now' \<Longrightarrow> tally now' k s = outlived now' (tally now k s)"

definition mc_held :: "millis \<Rightarrow> string \<Rightarrow> mem_cache \<Rightarrow> (string \<times> real) option" where
  "mc_held now k C = outlived now (map_option (\<lambda>it. (ci_value it, ci_expiry it)) (mc_store C k))"

definition mc_tally :: "millis \<Rightarrow> string \<Rightarrow> mem_cache \<Rightarrow> (real \<times> real) option" where
  "mc_tally now k C = outlived now (map_option (\<lambda>it. (ci_value it, ci_expiry it)) (mc_counters C k))"

lemma outlived_outlived: "now \<le> now' \<Longrightarrow> outlived now' (outlived now x) = outlived now' x"
  by (auto simp: outlived_def split: option.splits)

interpretation mc: cache mc_get mc_set mc_increment mc_delete mc_held mc_tally
proof
  show "mc_held now' k s = outlived now' (mc_held now k s)" if "now \<le> now'" for now now' k s
    by (simp add: mc_held_def outlived_outlived that)
  show "mc_tally now' k s = outlived now' (mc_tally now k s)" if "now \<le> now'" for now now' k s
    by (simp add: mc_tally_def outlived_outlived that)
  show "fst (mc_increment now k ttl s) = fst (added now ttl (mc_tally now k s))" for now k ttl s
    by (auto simp: mc_increment_def mc_tally_def outlived_def expired_def added_def Let_def
        split: option.splits)
  show "mc_tally now' j (snd (mc_increment now k ttl s))
      = (if j = k then outlived now' (Some (added now ttl (mc_tally now k s))) else mc_tally now' j s)"
    if "now \<le> now'" for now now' j k ttl s
    by (auto simp: mc_increment_def mc_tally_def outlived_def expired_def added_def Let_def
        split: option.splits)
qed (auto simp: mc_get_def mc_set_def mc_increment_def mc_delete_def mc_held_def mc_tally_def
       outlived_def expired_def Let_def split: option.splits)

subsection \<open>A port over a state with a clock\<close>

definition timed_port ::
    "(millis \<Rightarrow> string \<Rightarrow> 's \<Rightarrow> string option \<times> 's)
      \<Rightarrow> (millis \<Rightarrow> string \<Rightarrow> string \<Rightarrow> real option \<Rightarrow> 's \<Rightarrow> 's)
      \<Rightarrow> (millis \<Rightarrow> string \<Rightarrow> real option \<Rightarrow> 's \<Rightarrow> real \<times> 's) \<Rightarrow> (string \<Rightarrow> 's \<Rightarrow> 's)
      \<Rightarrow> ('w \<Rightarrow> 's) \<Rightarrow> (('s \<Rightarrow> 's) \<Rightarrow> 'w \<Rightarrow> 'w) \<Rightarrow> ('w \<Rightarrow> millis) \<Rightarrow> 'w cache_port" where
  "timed_port get put inc del st upd clk =
     \<lparr>cp_get = (\<lambda>k w. case get (clk w) k (st w) of (v, s) \<Rightarrow> (Inr v, upd (\<lambda>_. s) w)),
      cp_set = (\<lambda>k v ttl w. (Inr (), upd (put (clk w) k v ttl) w)),
      cp_increment = (\<lambda>k ttl w. case inc (clk w) k ttl (st w) of (n, s) \<Rightarrow> (Inr n, upd (\<lambda>_. s) w)),
      cp_delete = (\<lambda>k w. (Inr (), upd (del k) w))\<rparr>"

end
