(* ===== verification/JsNumbers.thy ===== *)
theory JsNumbers
  imports JsPrelude
begin

text \<open>
  Numbers as text: \<open>toFixed\<close>, \<open>parseInt\<close> and \<open>parseFloat\<close>, and the round trip between them.
  Exact reals stand for doubles.  \<open>js_to_fixed\<close> is for numbers below \<open>10^21\<close>, where
  JavaScript writes no exponent; the parsers read a sign, digits and a fraction, and no exponent
  and no \<open>Infinity\<close>.  \<open>None\<close> is NaN.
\<close>

fun fixed_digits :: "nat \<Rightarrow> nat \<Rightarrow> string" where
  "fixed_digits 0 n = []"
| "fixed_digits (Suc k) n = fixed_digits k (n div 10) @ [char_of (48 + n mod 10)]"

definition js_to_fixed :: "nat \<Rightarrow> real \<Rightarrow> string" where
  \<comment> \<open>\<open>x.toFixed(k)\<close>: the nearest multiple of \<open>1 / 10^k\<close>, ties away from zero\<close>
  "js_to_fixed k x =
     (let n = nat \<lfloor>\<bar>x\<bar> * 10 ^ k + 1 / 2\<rfloor>;
          s = show_nat (n div 10 ^ k) @ (if k = 0 then [] else CHR ''.'' # fixed_digits k (n mod 10 ^ k))
      in if x < 0 then CHR ''-'' # s else s)"

definition is_digit :: "char \<Rightarrow> bool" where
  "is_digit c \<longleftrightarrow> 48 \<le> code c \<and> code c \<le> 57"

definition split_sign :: "string \<Rightarrow> real \<times> string" where
  "split_sign s =
     (case dropWhile js_space s of
        [] \<Rightarrow> (1, [])
      | c # cs \<Rightarrow> if c = CHR ''-'' then (-1, cs) else if c = CHR ''+'' then (1, cs) else (1, c # cs))"

definition js_parse_float :: "string \<Rightarrow> real option" where
  "js_parse_float s =
     (case split_sign s of (sg, t) \<Rightarrow>
        let whole = takeWhile is_digit t;
            frac = (case dropWhile is_digit t of
                      [] \<Rightarrow> []
                    | c # cs \<Rightarrow> if c = CHR ''.'' then takeWhile is_digit cs else [])
        in if whole = [] \<and> frac = [] then None
           else Some (sg * (real (read_nat 0 whole) + real (read_nat 0 frac) / 10 ^ length frac)))"

definition js_parse_int :: "string \<Rightarrow> real option" where
  "js_parse_int s =
     (case split_sign s of (sg, t) \<Rightarrow>
        let whole = takeWhile is_digit t
        in if whole = [] then None else Some (sg * real (read_nat 0 whole)))"

lemma length_fixed_digits [simp]: "length (fixed_digits k n) = k"
  by (induction k arbitrary: n) simp_all

lemma is_digit_char [simp]: "n < 10 \<Longrightarrow> is_digit (char_of (48 + n :: nat))"
  unfolding is_digit_def by (simp only: code_digit) simp

lemma fixed_digits_digits: "c \<in> set (fixed_digits k n) \<Longrightarrow> is_digit c"
  by (induction k arbitrary: n) auto

lemma read_fixed_digits: "n < 10 ^ k \<Longrightarrow> read_nat 0 (fixed_digits k n) = n"
proof (induction k arbitrary: n)
  case 0
  then show ?case by simp
next
  case (Suc k)
  then have "n div 10 < 10 ^ k" by auto
  then show ?case using Suc.IH by (simp add: read_nat_append)
qed

lemma show_nat_is_digit: "c \<in> set (show_nat n) \<Longrightarrow> is_digit c"
  using show_nat_digits by (auto simp: is_digit_def)

lemma show_nat_not_Nil [simp]: "show_nat n \<noteq> []"
  by (subst show_nat.simps) simp

lemma digit_not_space: "is_digit c \<Longrightarrow> \<not> js_space c \<and> c \<noteq> CHR ''-'' \<and> c \<noteq> CHR ''+''"
  by (auto simp: is_digit_def js_space_def)

lemma split_sign_digits:
  assumes "\<forall>c \<in> set s. is_digit c" "s \<noteq> []"
  shows "split_sign (s @ t) = (1, s @ t)"
  using assms digit_not_space by (cases s) (auto simp: split_sign_def)

lemma takeWhile_digits:
  "\<forall>c \<in> set s. is_digit c \<Longrightarrow> takeWhile is_digit (s @ t) = s @ takeWhile is_digit t"
  "\<forall>c \<in> set s. is_digit c \<Longrightarrow> dropWhile is_digit (s @ t) = dropWhile is_digit t"
  by (induction s) auto

lemma takeWhile_show_nat [simp]: "takeWhile is_digit (show_nat n) = show_nat n"
  using show_nat_is_digit by simp

lemma takeWhile_fixed_digits [simp]: "takeWhile is_digit (fixed_digits k n) = fixed_digits k n"
  using fixed_digits_digits by simp

lemma dot_no_digit [simp]: "\<not> is_digit CHR ''.''"
  by (simp add: is_digit_def)

lemma parse_int_show_nat [simp]: "js_parse_int (show_nat n) = Some (real n)"
  using split_sign_digits [of "show_nat n" "[]"]
  by (simp add: js_parse_int_def Let_def show_nat_is_digit read_show_nat)

theorem parse_to_fixed:
  assumes "0 \<le> x" "0 < k"
  shows "js_parse_float (js_to_fixed k x) = Some (of_int \<lfloor>x * 10 ^ k + 1 / 2\<rfloor> / 10 ^ k)"
proof -
  define n where "n = nat \<lfloor>x * 10 ^ k + 1 / 2\<rfloor>"
  have n: "real n = of_int \<lfloor>x * 10 ^ k + 1 / 2\<rfloor>" using assms by (simp add: n_def)
  let ?w = "show_nat (n div 10 ^ k)" and ?f = "fixed_digits k (n mod 10 ^ k)"
  have s: "js_to_fixed k x = ?w @ CHR ''.'' # ?f"
    using assms by (simp add: js_to_fixed_def n_def Let_def)
  have d: "\<forall>c \<in> set ?w. is_digit c" "\<forall>c \<in> set ?f. is_digit c"
    using show_nat_is_digit fixed_digits_digits by blast+
  have "js_parse_float (js_to_fixed k x)
      = Some (real (n div 10 ^ k) + real (n mod 10 ^ k) / 10 ^ k)"
    using s d takeWhile_digits [OF d(1)] split_sign_digits [OF d(1)]
    by (simp add: js_parse_float_def Let_def read_show_nat read_fixed_digits)
  also have "real (n div 10 ^ k) + real (n mod 10 ^ k) / 10 ^ k = real n / 10 ^ k"
  proof -
    have "real n = real (n div 10 ^ k) * 10 ^ k + real (n mod 10 ^ k)"
      by (metis (no_types, lifting) div_mult_mod_eq of_nat_add of_nat_mult of_nat_numeral of_nat_power)
    then show ?thesis by (simp add: field_simps)
  qed
  finally show ?thesis by (simp add: n)
qed

end
