(* ===== verification/Gateway.thy ===== *)
theory Gateway
  imports Caches JsNumbers "HOL-Library.Word"
begin

text \<open>
  The gateway to the language model (\<open>api/src/infrastructure/adapters/GeminiAIGateway.ts\<close>): the
  circuit breaker with its budget kept in the cache, the prompt-addressed story cache, the
  validation of the replies and the three kinds of call.

  The Gemini client is outside the repository: \<open>gp_call\<close> is a call raced against the
  time-out, and \<open>gp_open\<close> opens a stream, given by its chunks with their arrival times.
  \<open>JSON.parse\<close> and \<open>JSON.stringify\<close> and the text of a schema error are parameters as
  well; what the two \<open>zod\<close> schemas of the file accept is modelled.  Token counts are natural
  numbers; console output is left out.
\<close>

unbundle bit_operations_syntax

subsection \<open>Cost of a call\<close>

record usage =
  us_prompt :: "nat option"
  us_candidates :: "nat option"
  us_total :: "nat option"

record finops =
  fo_input :: nat
  fo_output :: nat
  fo_total :: nat
  fo_cost :: real

definition or_zero :: "nat option \<Rightarrow> nat" where
  "or_zero x = (case x of None \<Rightarrow> 0 | Some n \<Rightarrow> n)"

definition estimateFinOpsCost :: "usage option \<Rightarrow> finops option" where
  "estimateFinOpsCost u =
     (case u of
        None \<Rightarrow> None
      | Some us \<Rightarrow>
          (let i = or_zero (us_prompt us); t = or_zero (us_candidates us)
           in Some \<lparr>fo_input = i, fo_output = t,
                    fo_total = (case us_total us of Some n \<Rightarrow> n | None \<Rightarrow> i + t),
                    fo_cost = real i * 0.000000075 + real t * 0.0000003\<rparr>))"

definition logFinOps :: "usage option \<Rightarrow> (nat \<times> real) option" where
  "logFinOps u = map_option (\<lambda>f. (fo_total f, fo_cost f)) (estimateFinOpsCost u)"

subsection \<open>Configuration\<close>

record ai_config =
  ac_modelName :: "string option"
  ac_modelFlash :: "string option"
  ac_modelPro :: "string option"
  ac_enableThinkingLevel :: "bool option"
  ac_thinkingLevelFlash :: "string option"
  ac_thinkingLevelPro :: "string option"
  ac_timeoutMs :: "nat option"
  ac_tokenBudgetPerSession :: "nat option"
  ac_costThresholdUsd :: "real option"
  ac_failureThreshold :: "nat option"
  ac_circuitResetMs :: "nat option"

record gateway =
  gw_apiKey :: "string option"
  gw_client :: bool
  gw_modelFlash :: string
  gw_modelPro :: string
  gw_thinkingFlash :: "string option"   \<comment> \<open>where it is enabled and not empty\<close>
  gw_thinkingPro :: "string option"
  gw_timeoutMs :: nat
  gw_tokenBudget :: nat
  gw_costThreshold :: real
  gw_failureThreshold :: nat
  gw_circuitResetMs :: nat

definition or_else :: "string option \<Rightarrow> string option \<Rightarrow> string option" where
  \<comment> \<open>\<open>a || b\<close> on optional strings\<close>
  "or_else a b = (if truthy_string a then a else b)"

definition or_default :: "'a::zero option \<Rightarrow> 'a \<Rightarrow> 'a" where
  \<comment> \<open>\<open>x || d\<close> on optional numbers\<close>
  "or_default x d = (case x of None \<Rightarrow> d | Some n \<Rightarrow> if n = 0 then d else n)"

definition new_gateway ::
    "(string \<Rightarrow> string option) \<Rightarrow> string option \<Rightarrow> ai_config \<Rightarrow> gateway" where
  "new_gateway env apiKey c =
     (let key = or_undefined (or_else apiKey (env ''GEMINI_API_KEY''));
          name = or_string (or_else (ac_modelName c) (env ''GEMINI_MODEL'')) ''gemini-3-flash-preview'';
          enabled = (case ac_enableThinkingLevel c of
                       Some b \<Rightarrow> b
                     | None \<Rightarrow> env ''GEMINI_ENABLE_THINKING_LEVEL'' = Some ''true'');
          flash = or_undefined (or_else (ac_thinkingLevelFlash c) (env ''GEMINI_THINKING_LEVEL_FLASH''));
          pro = or_undefined (or_else (ac_thinkingLevelPro c) (env ''GEMINI_THINKING_LEVEL_PRO''))
      in \<lparr>gw_apiKey = key, gw_client = (key \<noteq> None),
          gw_modelFlash = or_string (or_else (ac_modelFlash c) (env ''GEMINI_MODEL_FLASH'')) name,
          gw_modelPro = or_string (or_else (ac_modelPro c) (env ''GEMINI_MODEL_PRO'')) name,
          gw_thinkingFlash = (if enabled then flash else None),
          gw_thinkingPro = (if enabled then pro else None),
          gw_timeoutMs = or_default (ac_timeoutMs c) 15000,
          gw_tokenBudget = or_default (ac_tokenBudgetPerSession c) 50000,
          gw_costThreshold = or_default (ac_costThresholdUsd c) 0.5,
          gw_failureThreshold = or_default (ac_failureThreshold c) 5,
          gw_circuitResetMs = or_default (ac_circuitResetMs c) 60000\<rparr>)"

subsection \<open>The schemas of the replies\<close>

definition jfield :: "string \<Rightarrow> (string \<times> json) list \<Rightarrow> json option" where
  \<comment> \<open>the value of a property of a parsed object: of duplicate keys the last\<close>
  "jfield k kvs = map_of (rev kvs) k"

fun all_strings :: "json list \<Rightarrow> string list option" where
  "all_strings [] = Some []"
| "all_strings (JStr s # js) = map_option ((#) s) (all_strings js)"
| "all_strings (j # js) = None"

definition optional_string :: "string \<Rightarrow> (string \<times> json) list \<Rightarrow> string option option" where
  \<comment> \<open>\<open>z.string().optional()\<close>: \<open>None\<close> where it is violated\<close>
  "optional_string k kvs =
     (case jfield k kvs of None \<Rightarrow> Some None | Some (JStr s) \<Rightarrow> Some (Some s) | _ \<Rightarrow> None)"

definition nullable_string :: "string \<Rightarrow> (string \<times> json) list \<Rightarrow> string option option" where
  \<comment> \<open>\<open>z.string().nullable()\<close>: the property must be there\<close>
  "nullable_string k kvs =
     (case jfield k kvs of Some JNull \<Rightarrow> Some None | Some (JStr s) \<Rightarrow> Some (Some s) | _ \<Rightarrow> None)"

record story_data =
  sd_title :: string
  sd_content :: string
  sd_sleepScore :: real
  sd_metadata :: "(string option \<times> string option) option"   \<comment> \<open>theme and tone\<close>

definition storyResponseSchema :: "json \<Rightarrow> story_data option" where
  "storyResponseSchema j =
     (case j of
        JObj kvs \<Rightarrow>
          (case (jfield ''title'' kvs, jfield ''content'' kvs) of
             (Some (JStr t), Some (JStr c)) \<Rightarrow>
               (case (case jfield ''sleepScore'' kvs of
                        None \<Rightarrow> Some 0 | Some (JNum x) \<Rightarrow> Some x | _ \<Rightarrow> None) of
                  None \<Rightarrow> None
                | Some score \<Rightarrow>
                    (case jfield ''metadata'' kvs of
                       None \<Rightarrow> Some \<lparr>sd_title = t, sd_content = c, sd_sleepScore = score, sd_metadata = None\<rparr>
                     | Some (JObj m) \<Rightarrow>
                         (case (optional_string ''theme'' m, optional_string ''tone'' m) of
                            (Some th, Some tn) \<Rightarrow>
                              Some \<lparr>sd_title = t, sd_content = c, sd_sleepScore = score,
                                    sd_metadata = Some (th, tn)\<rparr>
                          | _ \<Rightarrow> None)
                     | _ \<Rightarrow> None))
           | _ \<Rightarrow> None)
      | _ \<Rightarrow> None)"

record agent_thought =
  at_goals_considered :: "string list"
  at_conflicts_identified :: "string option"
  at_trade_off_made :: "string option"
  at_thought :: string
  at_reasoning :: string
  at_action :: string
  at_confidence :: real
  at_parameters :: "(string \<times> json) list option"

definition agentThoughtSchema :: "json \<Rightarrow> agent_thought option" where
  "agentThoughtSchema j =
     (case j of
        JObj kvs \<Rightarrow>
          (case (Option.bind (jfield ''goals_considered'' kvs)
                   (\<lambda>g. case g of JArr js \<Rightarrow> all_strings js | _ \<Rightarrow> None),
                 nullable_string ''conflicts_identified'' kvs, nullable_string ''trade_off_made'' kvs,
                 jfield ''thought'' kvs, jfield ''action'' kvs, jfield ''confidence'' kvs,
                 (case jfield ''parameters'' kvs of
                    None \<Rightarrow> Some None | Some (JObj p) \<Rightarrow> Some (Some p) | _ \<Rightarrow> None)) of
             (Some gs, Some ci, Some tr, Some (JStr th), Some (JStr ac), Some (JNum cf), Some ps) \<Rightarrow>
               Some \<lparr>at_goals_considered = gs, at_conflicts_identified = ci, at_trade_off_made = tr,
                     at_thought = th, at_reasoning = th, at_action = ac, at_confidence = cf,
                     at_parameters = ps\<rparr>
           | _ \<Rightarrow> None)
      | _ \<Rightarrow> None)"

subsection \<open>The schemas sent with a request\<close>

datatype response_schema =
    SString bool   \<comment> \<open>nullable?\<close>
  | SNumber
  | SArray response_schema
  | SObject "(string \<times> response_schema) list" "string list"   \<comment> \<open>properties, required\<close>

definition story_schema :: response_schema where
  "story_schema =
     SObject [(''title'', SString False), (''content'', SString False), (''sleepScore'', SNumber),
              (''metadata'', SObject [(''theme'', SString False), (''tone'', SString False)] [])]
       [''title'', ''content'', ''sleepScore'']"

definition thought_schema :: response_schema where
  "thought_schema =
     SObject [(''goals_considered'', SArray (SString False)), (''conflicts_identified'', SString True),
              (''trade_off_made'', SString True), (''thought'', SString False),
              (''action'', SString False), (''confidence'', SNumber), (''parameters'', SObject [] [])]
       [''goals_considered'', ''thought'', ''action'', ''confidence'']"

text \<open>What it means that a reply obeys the schema it was asked for, as the service documents it.\<close>

fun conforms :: "response_schema \<Rightarrow> json \<Rightarrow> bool" where
  "conforms (SString n) j = (case j of JStr s \<Rightarrow> True | JNull \<Rightarrow> n | _ \<Rightarrow> False)"
| "conforms SNumber j = (case j of JNum x \<Rightarrow> True | _ \<Rightarrow> False)"
| "conforms (SArray s) j = (case j of JArr js \<Rightarrow> list_all (conforms s) js | _ \<Rightarrow> False)"
| "conforms (SObject ps req) j =
     (case j of
        JObj kvs \<Rightarrow>
          list_all (\<lambda>k. jfield k kvs \<noteq> None) req
          \<and> list_all (\<lambda>p. case jfield (fst p) kvs of None \<Rightarrow> True | Some v \<Rightarrow> conforms (snd p) v) ps
      | _ \<Rightarrow> False)"

subsection \<open>The surroundings\<close>

record ai_request =
  rq_model :: string
  rq_system :: "string option"
  rq_thinking :: "string option"
  rq_schema :: "response_schema option"
  rq_history :: "(string \<times> string) list"
  rq_prompt :: string

datatype ai_reply =
    Reply string "usage option"   \<comment> \<open>the text and the usage metadata\<close>
  | CallFailed js_error           \<comment> \<open>the call, or the reading of its text, throws\<close>
  | TimedOut                      \<comment> \<open>the time-out wins the race\<close>

datatype ai_stream =
    NoStream js_error
  | Chunks "(millis \<times> (js_error + string)) list" "js_error + usage option"
      \<comment> \<open>the chunks with their times of arrival, and the usage of the complete response\<close>

record story_output =
  so_title :: string
  so_content :: string
  so_theme :: string
  so_readingLevel :: string
  so_tone :: string

record story_input =
  si_theme :: string
  si_childAge :: "real option"
  si_style :: "string option"
  si_customPrompt :: "string option"

record 'w gateway_ports =
  gp_cache :: "'w cache_port"
  gp_now :: "'w \<Rightarrow> millis \<times> 'w"
  gp_call :: "ai_request \<Rightarrow> 'w \<Rightarrow> ai_reply \<times> 'w"
  gp_open :: "ai_request \<Rightarrow> 'w \<Rightarrow> ai_stream \<times> 'w"
  gp_parse :: "string \<Rightarrow> js_error + json"
  gp_zodError :: "json \<Rightarrow> js_error"
  gp_stringify :: "story_output \<Rightarrow> string"
  gp_parseStory :: "string \<Rightarrow> js_error + story_output"

abbreviation cget :: "'w gateway_ports \<Rightarrow> string \<Rightarrow> ('w, string option) eff" where
  "cget P \<equiv> cp_get (gp_cache P)"

abbreviation cset :: "'w gateway_ports \<Rightarrow> string \<Rightarrow> string \<Rightarrow> real option \<Rightarrow> ('w, unit) eff" where
  "cset P \<equiv> cp_set (gp_cache P)"

definition cb :: "string \<Rightarrow> string" where
  \<comment> \<open>\<open>CB_KEY_prefix\<close>\<close>
  "cb k = ''cb:gemini:'' @ k"

definition plain_error :: "string \<Rightarrow> js_error" where
  "plain_error msg = Err ''Error'' msg"

subsection \<open>The circuit breaker\<close>

definition openCircuit :: "'w gateway_ports \<Rightarrow> gateway \<Rightarrow> ('w, unit) eff" where
  "openCircuit P G = cset P (cb ''open'') ''true'' (Some (real (gw_circuitResetMs G) / 1000))"

definition number_or_zero :: "(string \<Rightarrow> real option) \<Rightarrow> string option \<Rightarrow> real option" where
  \<comment> \<open>\<open>s ? parse(s) : 0\<close>\<close>
  "number_or_zero parse s = (if truthy_string s then parse (the s) else Some 0)"

definition reaches :: "real option \<Rightarrow> real \<Rightarrow> bool" where
  "reaches x limit = (case x of None \<Rightarrow> False | Some a \<Rightarrow> limit \<le> a)"

definition open_message :: string where
  "open_message =
     ''[CircuitBreaker] Circuit is OPEN - AI calls temporarily blocked due to failures or cost threshold''"

definition checkCircuitBreaker :: "'w gateway_ports \<Rightarrow> gateway \<Rightarrow> ('w, unit) eff" where
  "checkCircuitBreaker P G =
     ebind (cget P (cb ''open'')) (\<lambda>isOpen.
       if truthy_string isOpen then ethrow (plain_error open_message)
       else ebind (cget P (cb ''cost'')) (\<lambda>c.
         let totalCost = number_or_zero js_parse_float c
         in if reaches totalCost (gw_costThreshold G)
            then ethen (openCircuit P G)
                   (ethrow (plain_error (''[CircuitBreaker] Cost threshold exceeded: $''
                      @ js_to_fixed 4 (the totalCost) @ '' >= $'' @ js_show_real (gw_costThreshold G))))
            else ebind (cget P (cb ''tokens'')) (\<lambda>t.
              let tokensUsed = number_or_zero js_parse_int t
              in if reaches tokensUsed (real (gw_tokenBudget G))
                 then ethen (openCircuit P G)
                        (ethrow (plain_error (''[CircuitBreaker] Token budget exceeded: ''
                           @ js_show_real (the tokensUsed) @ '' >= '' @ show_nat (gw_tokenBudget G))))
                 else ereturn ())))"

definition day_sec :: real where "day_sec = 60 * 60 * 24"

definition text_of :: "(real \<Rightarrow> string) \<Rightarrow> real option \<Rightarrow> string" where
  "text_of show x = (case x of None \<Rightarrow> ''NaN'' | Some a \<Rightarrow> show a)"

definition plus_number :: "real option \<Rightarrow> real \<Rightarrow> real option" where
  "plus_number x a = map_option (\<lambda>b. b + a) x"

definition recordSuccess :: "'w gateway_ports \<Rightarrow> nat \<Rightarrow> real \<Rightarrow> ('w, unit) eff" where
  "recordSuccess P tokensUsed costUsd =
     ethen (cp_delete (gp_cache P) (cb ''failures''))
     (ethen (cp_increment (gp_cache P) (cb ''tokens'') None)
     (ebind (cget P (cb ''tokens'')) (\<lambda>t.
        ethen (cset P (cb ''tokens'')
                 (text_of js_show_real (plus_number (number_or_zero js_parse_int t) (real tokensUsed)))
                 (Some day_sec))
        (ebind (cget P (cb ''cost'')) (\<lambda>c.
           cset P (cb ''cost'')
             (text_of (js_to_fixed 6) (plus_number (number_or_zero js_parse_float c) costUsd))
             (Some day_sec))))))"

definition recordFailure :: "'w gateway_ports \<Rightarrow> gateway \<Rightarrow> ('w, unit) eff" where
  "recordFailure P G =
     ebind (cp_increment (gp_cache P) (cb ''failures'') (Some (real (gw_circuitResetMs G) / 1000)))
       (\<lambda>failures. ewhen (real (gw_failureThreshold G) \<le> failures) (openCircuit P G))"

definition resetCircuitBreaker :: "'w gateway_ports \<Rightarrow> ('w, unit) eff" where
  "resetCircuitBreaker P =
     ethen (cp_delete (gp_cache P) (cb ''open'')) (ethen (cp_delete (gp_cache P) (cb ''failures''))
     (ethen (cp_delete (gp_cache P) (cb ''tokens'')) (cp_delete (gp_cache P) (cb ''cost''))))"

record circuit_status =
  cs_isOpen :: bool
  cs_failures :: "real option"
  cs_totalCostUsd :: "real option"
  cs_totalTokensUsed :: "real option"

definition getCircuitStatus :: "'w gateway_ports \<Rightarrow> ('w, circuit_status) eff" where
  "getCircuitStatus P =
     ebind (cget P (cb ''open'')) (\<lambda>isOpen. ebind (cget P (cb ''failures'')) (\<lambda>f.
     ebind (cget P (cb ''cost'')) (\<lambda>c. ebind (cget P (cb ''tokens'')) (\<lambda>t.
       ereturn \<lparr>cs_isOpen = (isOpen = Some ''true''), cs_failures = number_or_zero js_parse_int f,
                cs_totalCostUsd = number_or_zero js_parse_float c,
                cs_totalTokensUsed = number_or_zero js_parse_int t\<rparr>))))"

subsection \<open>Calls\<close>

definition no_key_error :: js_error where
  "no_key_error = plain_error ''Gemini API Key not configured''"

definition timeout_error :: js_error where
  "timeout_error = plain_error ''AI Service Timeout''"

definition model_text :: "'w gateway_ports \<Rightarrow> ai_request \<Rightarrow> ('w, string \<times> usage option) eff" where
  "model_text P rq =
     ebind (eread (gp_call P rq)) (\<lambda>r. case r of
       Reply t u \<Rightarrow> ereturn (t, u) | CallFailed e \<Rightarrow> ethrow e | TimedOut \<Rightarrow> ethrow timeout_error)"

definition account :: "'w gateway_ports \<Rightarrow> usage option \<Rightarrow> ('w, unit) eff" where
  "account P u =
     (case logFinOps u of None \<Rightarrow> ereturn () | Some (n, c) \<Rightarrow> recordSuccess P n c)"

definition parse_json :: "'w gateway_ports \<Rightarrow> string \<Rightarrow> ('w, json) eff" where
  "parse_json P t = (case gp_parse P t of Inl e \<Rightarrow> ethrow e | Inr j \<Rightarrow> ereturn j)"

definition validated :: "'w gateway_ports \<Rightarrow> (json \<Rightarrow> 'a option) \<Rightarrow> json \<Rightarrow> ('w, 'a) eff" where
  "validated P schema j = (case schema j of None \<Rightarrow> ethrow (gp_zodError P j) | Some a \<Rightarrow> ereturn a)"

definition failing :: "'w gateway_ports \<Rightarrow> gateway \<Rightarrow> ('w, 'a) eff \<Rightarrow> ('w, 'a) eff" where
  \<comment> \<open>\<open>try { m } catch (error) { await this.recordFailure(); throw error }\<close>\<close>
  "failing P G m = etry m (\<lambda>e. ethen (recordFailure P G) (ethrow e))"

definition hashPrompt :: "string \<Rightarrow> string" where
  "hashPrompt prompt =
     ''story_'' @ show_int (sint (foldl (\<lambda>h c. (push_bit 5 h - h) + of_nat (code c)) (0 :: 32 word) prompt))"

definition story_result :: "story_input \<Rightarrow> story_data \<Rightarrow> story_output" where
  "story_result input d =
     (let md = (case sd_metadata d of None \<Rightarrow> (None, None) | Some m \<Rightarrow> m)
      in \<lparr>so_title = sd_title d, so_content = sd_content d,
          so_theme = (case fst md of Some t \<Rightarrow> t | None \<Rightarrow> si_theme input),
          so_readingLevel = (case si_childAge input of
                               None \<Rightarrow> ''General''
                             | Some a \<Rightarrow> if a = 0 then ''General'' else ''Age '' @ js_show_real a),
          so_tone = (case snd md of Some t \<Rightarrow> t | None \<Rightarrow> or_string (si_style input) ''bedtime'')\<rparr>)"

definition cacheStoryResponse :: "'w gateway_ports \<Rightarrow> string \<Rightarrow> story_output \<Rightarrow> ('w, unit) eff" where
  "cacheStoryResponse P key s = cset P key (gp_stringify P s) (Some (60 * 30))"

definition generateStory :: "'w gateway_ports \<Rightarrow> gateway \<Rightarrow> story_input \<Rightarrow> ('w, story_output) eff" where
  "generateStory P G input =
     (if \<not> gw_client G then ethrow no_key_error
      else if \<not> truthy_string (si_customPrompt input)
      then ethrow (plain_error ''GeminiAIGateway requires customPrompt (Prompt-as-Code violation)'')
      else
        let prompt = the (si_customPrompt input); key = hashPrompt prompt
        in ebind (cget P key) (\<lambda>cached.
          if truthy_string cached
          then (case gp_parseStory P (the cached) of Inl e \<Rightarrow> ethrow e | Inr s \<Rightarrow> ereturn s)
          else ethen (checkCircuitBreaker P G)
            (failing P G
              (ebind (model_text P \<lparr>rq_model = gw_modelFlash G, rq_system = None,
                                    rq_thinking = gw_thinkingFlash G, rq_schema = Some story_schema,
                                    rq_history = [], rq_prompt = prompt\<rparr>)
                (\<lambda>(response, u).
                  ethen (account P u)
                  (etry
                    (ebind (parse_json P response) (\<lambda>raw.
                     ebind (validated P storyResponseSchema raw) (\<lambda>d.
                       ethen (cacheStoryResponse P key (story_result input d))
                             (ereturn (story_result input d)))))
                    (\<lambda>e. ethrow (plain_error (''Failed to validate Gemini response: '' @ error_string e)))))))))"

fun drain :: "millis \<Rightarrow> millis \<Rightarrow> (millis \<times> (js_error + string)) list \<Rightarrow> string list \<times> js_error option" where
  \<comment> \<open>the loop over the chunks: what is yielded, and the error that ends it\<close>
  "drain start limit [] = ([], None)"
| "drain start limit ((now, Inl e) # cs) = ([], Some e)"
| "drain start limit ((now, Inr t) # cs) =
     (if now - start > limit then ([], Some timeout_error)
      else case drain start limit cs of (ys, e) \<Rightarrow> (t # ys, e))"

definition stream_body ::
    "'w gateway_ports \<Rightarrow> gateway \<Rightarrow> string \<Rightarrow> millis \<Rightarrow> 'w \<Rightarrow> (string list \<times> js_error option) \<times> 'w" where
  \<comment> \<open>the \<open>try\<close> block, for a consumer that reads to the end\<close>
  "stream_body P G prompt start w =
     (case gp_open P \<lparr>rq_model = gw_modelFlash G, rq_system = None, rq_thinking = None,
                      rq_schema = None, rq_history = [], rq_prompt = prompt\<rparr> w of
        (NoStream e, w1) \<Rightarrow> (([], Some e), w1)
      | (Chunks cs final, w1) \<Rightarrow>
          (case drain start (int (gw_timeoutMs G)) cs of
             (ys, Some e) \<Rightarrow> ((ys, Some e), w1)
           | (ys, None) \<Rightarrow>
               (case final of
                  Inl e \<Rightarrow> ((ys, Some e), w1)
                | Inr u \<Rightarrow>
                    (case account P u w1 of
                       (Inl e, w2) \<Rightarrow> ((ys, Some e), w2)
                     | (Inr _, w2) \<Rightarrow> ((ys, None), w2)))))"

definition generateStoryStream ::
    "'w gateway_ports \<Rightarrow> gateway \<Rightarrow> story_input \<Rightarrow> 'w \<Rightarrow> (string list \<times> js_error option) \<times> 'w" where
  "generateStoryStream P G input w =
     (if \<not> gw_client G then (([], Some no_key_error), w)
      else case checkCircuitBreaker P G w of
        (Inl e, w1) \<Rightarrow> (([], Some e), w1)
      | (Inr _, w1) \<Rightarrow>
          if \<not> truthy_string (si_customPrompt input)
          then (([], Some (plain_error ''GeminiAIGateway: Streaming requires customPrompt'')), w1)
          else case gp_now P w1 of (start, w2) \<Rightarrow>
            (case stream_body P G (the (si_customPrompt input)) start w2 of
               ((ys, None), w3) \<Rightarrow> ((ys, None), w3)
             | ((ys, Some e), w3) \<Rightarrow>
                 (case recordFailure P G w3 of
                    (Inl e', w4) \<Rightarrow> ((ys, Some e'), w4)
                  | (Inr _, w4) \<Rightarrow> ((ys, Some e), w4))))"

record thought_input =
  ti_systemPrompt :: string
  ti_userMessage :: "string option"
  ti_history :: "(string \<times> string) list"

definition generateAgentThought ::
    "'w gateway_ports \<Rightarrow> gateway \<Rightarrow> thought_input \<Rightarrow> ('w, agent_thought) eff" where
  "generateAgentThought P G input =
     (if \<not> gw_client G then ethrow no_key_error
      else ethen (checkCircuitBreaker P G)
        (failing P G
          (ebind (model_text P
                    \<lparr>rq_model = gw_modelPro G, rq_system = Some (ti_systemPrompt input),
                     rq_thinking = gw_thinkingPro G, rq_schema = Some thought_schema, rq_history = ti_history input,
                     rq_prompt = or_string (ti_userMessage input)
                       (if ti_history input \<noteq> [] then [] else ''Evaluate current state.'')\<rparr>)
            (\<lambda>(response, u).
              ethen (account P u)
              (ebind (parse_json P response) (validated P agentThoughtSchema))))))"

definition generateStructured ::
    "'w gateway_ports \<Rightarrow> gateway \<Rightarrow> string option \<Rightarrow> string \<Rightarrow> response_schema \<Rightarrow> ('w, json) eff" where
  "generateStructured P G systemPrompt userMessage schema =
     (if \<not> gw_client G then ethrow no_key_error
      else ethen (checkCircuitBreaker P G)
        (failing P G
          (ebind (model_text P
                    \<lparr>rq_model = gw_modelPro G, rq_system = systemPrompt, rq_thinking = gw_thinkingPro G,
                     rq_schema = Some schema, rq_history = [], rq_prompt = userMessage\<rparr>)
            (\<lambda>(response, u). ethen (account P u) (parse_json P response)))))"

definition live_key :: "(string \<Rightarrow> string option) \<Rightarrow> gateway \<Rightarrow> (js_error + string) \<times> gateway" where
  \<comment> \<open>the key with which \<open>startLiveSession\<close> opens its session\<close>
  "live_key env G =
     (let key = or_else (gw_apiKey G) (env ''GEMINI_API_KEY'')
      in if \<not> truthy_string key
         then (Inl (plain_error ''Gemini API Key not configured (checked constructor and process.env)''), G)
         else (Inr (the key), if truthy_string (gw_apiKey G) then G else G\<lparr>gw_apiKey := key\<rparr>))"

end
