(* ===== verification/GatewayRuns.thy ===== *)
theory GatewayRuns
  imports Gateway
begin

text \<open>
  What the circuit breaker does over any cache that keeps the contract of \<^theory_text>\<open>locale cache\<close>.
  The world is the state of the cache, the clock and the rest; \<open>same t s s'\<close> says that two
  states of the cache answer alike from time \<open>t\<close> on.
\<close>

abbreviation clocked ::
    "(millis \<Rightarrow> string \<Rightarrow> 's \<Rightarrow> string option \<times> 's)
      \<Rightarrow> (millis \<Rightarrow> string \<Rightarrow> string \<Rightarrow> real option \<Rightarrow> 's \<Rightarrow> 's)
      \<Rightarrow> (millis \<Rightarrow> string \<Rightarrow> real option \<Rightarrow> 's \<Rightarrow> real \<times> 's) \<Rightarrow> (string \<Rightarrow> 's \<Rightarrow> 's)
      \<Rightarrow> ('s \<times> millis \<times> 'x) cache_port" where
  "clocked get put inc del \<equiv> timed_port get put inc del fst apfst (\<lambda>w. fst (snd w))"

lemma cb_inj [simp]: "cb j = cb k \<longleftrightarrow> j = k"
  by (simp add: cb_def)

lemma hash_not_cb [simp]: "hashPrompt p \<noteq> cb k" "cb k \<noteq> hashPrompt p"
  by (auto simp: hashPrompt_def cb_def)

context cache
begin

abbreviation val :: "millis \<Rightarrow> string \<Rightarrow> 's \<Rightarrow> string option" where
  "val t k s \<equiv> map_option fst (held t k s)"

definition same :: "millis \<Rightarrow> 's \<Rightarrow> 's \<Rightarrow> bool" where
  "same t s s' \<longleftrightarrow> (\<forall>t' \<ge> t. \<forall>k. held t' k s' = held t' k s \<and> tally t' k s' = tally t' k s)"

lemma same_trans: "same t s s' \<Longrightarrow> same t s' s'' \<Longrightarrow> same t s s''"
  by (simp add: same_def)

lemma same_refl: "same t s s"
  by (simp add: same_def)

lemma same_get: "same t s (snd (get t k s))"
  by (simp add: same_def get_held get_tally)

lemma same_held: "same t s s' \<Longrightarrow> t \<le> t' \<Longrightarrow> held t' k s' = held t' k s"
  by (simp add: same_def)

lemma same_tally: "same t s s' \<Longrightarrow> t \<le> t' \<Longrightarrow> tally t' k s' = tally t' k s"
  by (simp add: same_def)

lemma same_later: "same t s s' \<Longrightarrow> t \<le> t' \<Longrightarrow> same t' s s'"
  by (simp add: same_def)

lemma run_get: "cp_get (clocked get put increment remove) k (s, t, x)
    = (Inr (val t k s), (snd (get t k s), t, x))"
  by (simp add: timed_port_def case_prod_beta get_result)

lemma run_set: "cp_set (clocked get put increment remove) k v ttl (s, t, x)
    = (Inr (), (put t k v ttl s, t, x))"
  by (simp add: timed_port_def)

lemma run_increment: "cp_increment (clocked get put increment remove) k ttl (s, t, x)
    = (Inr (fst (added t ttl (tally t k s))), (snd (increment t k ttl s), t, x))"
  by (simp add: timed_port_def case_prod_beta increment_result)

lemma run_delete: "cp_delete (clocked get put increment remove) k (s, t, x)
    = (Inr (), (remove k s, t, x))"
  by (simp add: timed_port_def)

lemmas run_cache = run_get run_set run_increment run_delete

text \<open>The check.\<close>

definition passes :: "gateway \<Rightarrow> millis \<Rightarrow> 's \<Rightarrow> bool" where
  "passes G t s \<longleftrightarrow> \<not> truthy_string (val t (cb ''open'') s)
     \<and> \<not> reaches (number_or_zero js_parse_float (val t (cb ''cost'') s)) (gw_costThreshold G)
     \<and> \<not> reaches (number_or_zero js_parse_int (val t (cb ''tokens'') s)) (real (gw_tokenBudget G))"

lemma passes_same: "same t s s' \<Longrightarrow> t \<le> t' \<Longrightarrow> passes G t' s' = passes G t' s"
  by (simp add: passes_def same_held)

lemma check_passes:
  assumes "gp_cache P = clocked get put increment remove" "passes G t s"
  shows "\<exists>s'. checkCircuitBreaker P G (s, t, x) = (Inr (), (s', t, x)) \<and> same t s s'"
proof -
  let ?s1 = "snd (get t (cb ''open'') s)"
  let ?s2 = "snd (get t (cb ''cost'') ?s1)"
  let ?s3 = "snd (get t (cb ''tokens'') ?s2)"
  have "same t s ?s3"
    using same_get same_trans by blast
  moreover have "checkCircuitBreaker P G (s, t, x) = (Inr (), (?s3, t, x))"
    using assms(2)
    by (simp add: checkCircuitBreaker_def assms(1) run_cache passes_def get_held Let_def)
  ultimately show ?thesis by blast
qed

lemma check_open:
  assumes "gp_cache P = clocked get put increment remove" "truthy_string (val t (cb ''open'') s)"
  shows "\<exists>s'. checkCircuitBreaker P G (s, t, x) = (Inl (plain_error open_message), (s', t, x)) \<and> same t s s'"
  using assms(2) same_get
  by (intro exI [of _ "snd (get t (cb ''open'') s)"])
     (simp add: checkCircuitBreaker_def assms(1) run_cache)

lemma run_openCircuit:
  assumes "gp_cache P = clocked get put increment remove"
  shows "openCircuit P G (s, t, x)
       = (Inr (), (put t (cb ''open'') ''true'' (Some (real (gw_circuitResetMs G) / 1000)) s, t, x))"
  by (simp add: openCircuit_def assms run_cache)

lemma check_blocks:
  assumes "gp_cache P = clocked get put increment remove"
    "reaches (number_or_zero js_parse_int (val t (cb ''tokens'') s)) (real (gw_tokenBudget G))"
  shows "\<exists>e s'. checkCircuitBreaker P G (s, t, x) = (Inl e, (s', t, x))"
  using assms(2)
  by (auto simp: checkCircuitBreaker_def assms(1) run_cache Let_def get_held run_openCircuit [OF assms(1)])

lemma check_result:
  assumes "gp_cache P = clocked get put increment remove"
  shows "fst (checkCircuitBreaker P G (s, t, x)) = Inr () \<longleftrightarrow> passes G t s"
  by (simp add: checkCircuitBreaker_def assms(1) run_cache Let_def get_held passes_def
      run_openCircuit [OF assms(1)])

text \<open>The records.\<close>

lemma failure_run:
  fixes G :: gateway and s :: 's and t :: millis
  assumes "gp_cache P = clocked get put increment remove"
  defines "n \<equiv> added t (Some (real (gw_circuitResetMs G) / 1000)) (tally t (cb ''failures'') s)"
  shows "\<exists>s'. recordFailure P G (s, t, x) = (Inr (), (s', t, x))
    \<and> (\<forall>t' \<ge> t. tally t' (cb ''failures'') s' = outlived t' (Some n)
        \<and> held t' (cb ''open'') s' =
            (if real (gw_failureThreshold G) \<le> fst n
             then outlived t' (Some (''true'', expiry_of t (Some (real (gw_circuitResetMs G) / 1000))))
             else held t' (cb ''open'') s)
        \<and> (\<forall>k. k \<noteq> cb ''open'' \<longrightarrow> held t' k s' = held t' k s))"
proof -
  let ?s1 = "snd (increment t (cb ''failures'') (Some (real (gw_circuitResetMs G) / 1000)) s)"
  have eq: "recordFailure P G (s, t, x) =
      ewhen (real (gw_failureThreshold G) \<le> fst n) (openCircuit P G) (?s1, t, x)"
    by (simp add: recordFailure_def assms run_cache)
  show ?thesis
  proof (cases "real (gw_failureThreshold G) \<le> fst n")
    case True
    then show ?thesis
      unfolding eq
      by (simp add: run_openCircuit [OF assms(1)] put_held put_tally increment_held increment_tally n_def)
  next
    case False
    then show ?thesis
      unfolding eq by (simp add: increment_held increment_tally n_def)
  qed
qed

lemma success_run:
  assumes "gp_cache P = clocked get put increment remove"
  shows "\<exists>s'. recordSuccess P n c (s, t, x) = (Inr (), (s', t, x))
    \<and> (\<forall>t' \<ge> t. tally t' (cb ''failures'') s' = None
        \<and> held t' (cb ''open'') s' = held t' (cb ''open'') s
        \<and> held t' (cb ''tokens'') s' = outlived t' (Some
            (text_of js_show_real (plus_number
               (number_or_zero js_parse_int (val t (cb ''tokens'') s)) (real n)),
             expiry_of t (Some day_sec)))
        \<and> (\<forall>p. held t' (hashPrompt p) s' = held t' (hashPrompt p) s))"
  by (simp add: recordSuccess_def assms(1) run_cache put_held put_tally get_held get_tally
      increment_held increment_tally remove_held remove_tally)


text \<open>A call between the check and the record of its failure.\<close>

definition counted_failure :: "gateway \<Rightarrow> millis \<Rightarrow> 's \<Rightarrow> 's \<Rightarrow> bool" where
  \<comment> \<open>\<open>s'\<close> is \<open>s\<close> with one more failure at time \<open>t\<close>\<close>
  "counted_failure G t s s' \<longleftrightarrow>
     (let reset = Some (real (gw_circuitResetMs G) / 1000);
          n = added t reset (tally t (cb ''failures'') s)
      in \<forall>t' \<ge> t. tally t' (cb ''failures'') s' = outlived t' (Some n)
        \<and> held t' (cb ''open'') s' =
            (if real (gw_failureThreshold G) \<le> fst n
             then outlived t' (Some (''true'', expiry_of t reset)) else held t' (cb ''open'') s)
        \<and> (\<forall>k. k \<noteq> cb ''open'' \<longrightarrow> held t' k s' = held t' k s))"

lemma counted_failure_same:
  "same t0 s0 s \<Longrightarrow> t0 \<le> t \<Longrightarrow> counted_failure G t s s' \<Longrightarrow> counted_failure G t s0 s'"
  by (simp add: counted_failure_def same_def Let_def)

lemma blocked_call:
  assumes "gp_cache P = clocked get put increment remove" "truthy_string (val t (cb ''open'') s)"
  shows "\<exists>s'. ethen (checkCircuitBreaker P G) m (s, t, x)
           = (Inl (plain_error open_message), (s', t, x)) \<and> same t s s'"
proof -
  obtain s' where "checkCircuitBreaker P G (s, t, x) = (Inl (plain_error open_message), (s', t, x))"
      "same t s s'"
    using check_open [OF assms, of G x] by blast
  then show ?thesis by auto
qed

lemma over_budget_call:
  assumes "gp_cache P = clocked get put increment remove"
    "reaches (number_or_zero js_parse_int (val t (cb ''tokens'') s)) (real (gw_tokenBudget G))"
  shows "\<exists>e s'. ethen (checkCircuitBreaker P G) m (s, t, x) = (Inl e, (s', t, x))"
proof -
  obtain e s' where "checkCircuitBreaker P G (s, t, x) = (Inl e, (s', t, x))"
    using check_blocks [OF assms, of x] by blast
  then show ?thesis by auto
qed

lemma failing_call:
  assumes P: "gp_cache P = clocked get put increment remove" and "passes G t s" and t: "t \<le> t'"
    and m: "\<And>s1. same t s s1 \<Longrightarrow> \<exists>s2. m (s1, t, x) = (Inl e, (s2, t', x')) \<and> R s1 s2"
  shows "\<exists>s1 s2 s'. ethen (checkCircuitBreaker P G) (failing P G m) (s, t, x) = (Inl e, (s', t', x'))
           \<and> same t s s1 \<and> R s1 s2 \<and> counted_failure G t' s2 s'"
proof -
  obtain s1 where s1: "checkCircuitBreaker P G (s, t, x) = (Inr (), (s1, t, x))" "same t s s1"
    using check_passes [OF P assms(2), of x] by blast
  obtain s2 where s2: "m (s1, t, x) = (Inl e, (s2, t', x'))" "R s1 s2" using m [OF s1(2)] by blast
  obtain s' where s': "recordFailure P G (s2, t', x') = (Inr (), (s', t', x'))"
      "counted_failure G t' s2 s'"
    using failure_run [OF P, of G s2 t' x'] unfolding counted_failure_def Let_def by blast
  have "failing P G m (s1, t, x) = (Inl e, (s', t', x'))"
    using s2(1) s'(1) by (simp add: failing_def)
  then have "ethen (checkCircuitBreaker P G) (failing P G m) (s, t, x) = (Inl e, (s', t', x'))"
    using s1(1) by simp
  then show ?thesis using s1(2) s2(2) s'(2) by blast
qed

lemma passing_call:
  assumes P: "gp_cache P = clocked get put increment remove" and "passes G t s"
    and m: "\<And>s1. same t s s1 \<Longrightarrow> \<exists>s2. m (s1, t, x) = (Inr a, (s2, t', x')) \<and> R s1 s2"
  shows "\<exists>s1 s2. ethen (checkCircuitBreaker P G) (failing P G m) (s, t, x) = (Inr a, (s2, t', x'))
           \<and> same t s s1 \<and> R s1 s2"
proof -
  obtain s1 where s1: "checkCircuitBreaker P G (s, t, x) = (Inr (), (s1, t, x))" "same t s s1"
    using check_passes [OF P assms(2), of x] by blast
  obtain s2 where s2: "m (s1, t, x) = (Inr a, (s2, t', x'))" "R s1 s2" using m [OF s1(2)] by blast
  have "failing P G m (s1, t, x) = (Inr a, (s2, t', x'))"
    using s2(1) by (simp add: failing_def)
  then show ?thesis using s1 s2(2) by auto
qed

text \<open>A reply with usage metadata, on its way to the parser.\<close>

definition counted_success :: "nat \<Rightarrow> millis \<Rightarrow> 's \<Rightarrow> 's \<Rightarrow> bool" where
  "counted_success n t s s' \<longleftrightarrow>
     (\<forall>t' \<ge> t. tally t' (cb ''failures'') s' = None
        \<and> held t' (cb ''open'') s' = held t' (cb ''open'') s
        \<and> held t' (cb ''tokens'') s' = outlived t' (Some
            (text_of js_show_real (plus_number
               (number_or_zero js_parse_int (val t (cb ''tokens'') s)) (real n)),
             expiry_of t (Some day_sec)))
        \<and> (\<forall>p. held t' (hashPrompt p) s' = held t' (hashPrompt p) s))"

lemma account_run:
  assumes P: "gp_cache P = clocked get put increment remove" and u: "estimateFinOpsCost u = Some f"
  shows "\<exists>s'. account P u (s, t, x) = (Inr (), (s', t, x)) \<and> counted_success (fo_total f) t s s'"
  using success_run [OF P, of "fo_total f" "fo_cost f" s t x] u
  by (simp add: account_def logFinOps_def counted_success_def)

lemma account_keeps_stories:
  assumes P: "gp_cache P = clocked get put increment remove"
  shows "\<exists>s'. account P u (s, t, x) = (Inr (), (s', t, x))
    \<and> (\<forall>t' \<ge> t. \<forall>p. held t' (hashPrompt p) s' = held t' (hashPrompt p) s)"
proof (cases "estimateFinOpsCost u")
  case None
  then show ?thesis by (simp add: account_def logFinOps_def)
next
  case (Some f)
  from account_run [OF P Some, of s t x] show ?thesis unfolding counted_success_def by blast
qed

end

end
