(* ===== verification/GatewayTheorems.thy ===== *)
theory GatewayTheorems
  imports GatewayRuns
begin

text \<open>
  The properties of the model gateway over the in-memory cache: the circuit opens after the
  configured number of consecutive failures, a malformed reply never adds up to it, the tokens
  are charged, and stories are cached under a 32-bit hash of the prompt.  \<open>desk\<close> is a gateway
  whose model answers from a script of delays and replies and notes what it was asked.
\<close>

type_synonym desk_rest = "(millis \<times> ai_reply) list \<times> ai_request list"
type_synonym desk_world = "mem_cache \<times> millis \<times> desk_rest"

fun ask :: "ai_request \<Rightarrow> desk_world \<Rightarrow> ai_reply \<times> desk_world" where
  "ask rq (s, t, [], qs) = (TimedOut, (s, t, [], qs @ [rq]))"
| "ask rq (s, t, (d, r) # sc, qs) = (r, (s, t + d, sc, qs @ [rq]))"

definition desk ::
    "(string \<Rightarrow> js_error + json) \<Rightarrow> (json \<Rightarrow> js_error) \<Rightarrow> (story_output \<Rightarrow> string)
      \<Rightarrow> (string \<Rightarrow> js_error + story_output) \<Rightarrow> desk_world gateway_ports" where
  "desk parse zod str ps =
     \<lparr>gp_cache = clocked mc_get mc_set mc_increment mc_delete, gp_now = (\<lambda>w. (fst (snd w), w)),
      gp_call = ask, gp_open = (\<lambda>rq w. (NoStream timeout_error, w)), gp_parse = parse,
      gp_zodError = zod, gp_stringify = str, gp_parseStory = ps\<rparr>"

lemma desk_cache: "gp_cache (desk parse zod str ps) = clocked mc_get mc_set mc_increment mc_delete"
  by (simp add: desk_def)

fun asked :: "desk_world \<Rightarrow> ai_request list" where
  "asked (s, t, sc, qs) = qs"

fun wait :: "millis \<Rightarrow> desk_world \<Rightarrow> desk_world" where
  "wait d (s, t, r) = (s, t + d, r)"

definition is_failure :: "ai_reply \<Rightarrow> bool" where
  "is_failure r \<longleftrightarrow> (case r of Reply t u \<Rightarrow> False | _ \<Rightarrow> True)"

definition reply_error :: "ai_reply \<Rightarrow> js_error" where
  "reply_error r = (case r of CallFailed e \<Rightarrow> e | _ \<Rightarrow> timeout_error)"

lemma model_text_failure:
  "is_failure r \<Longrightarrow> gp_call P rq w = (r, w') \<Longrightarrow> model_text P rq w = (Inl (reply_error r), w')"
  by (cases r) (auto simp: model_text_def is_failure_def reply_error_def)

fun attempts :: "'w gateway_ports \<Rightarrow> gateway \<Rightarrow> response_schema \<Rightarrow> string list \<Rightarrow> 'w \<Rightarrow> 'w" where
  \<comment> \<open>structured calls one after the other, whatever they answer\<close>
  "attempts P G sch [] w = w"
| "attempts P G sch (m # ms) w = attempts P G sch ms (snd (generateStructured P G None m sch w))"

definition structured_request :: "response_schema \<Rightarrow> gateway \<Rightarrow> string \<Rightarrow> ai_request" where
  "structured_request sch G m =
     \<lparr>rq_model = gw_modelPro G, rq_system = None, rq_thinking = gw_thinkingPro G, rq_schema = Some sch, rq_history = [],
      rq_prompt = m\<rparr>"

lemma structured_failure:
  assumes G: "gw_client G" "mc.passes G t s" and r: "is_failure r" "0 \<le> d"
  shows "\<exists>s1 s'. generateStructured (desk parse zod str ps) G None m sch (s, t, (d, r) # sc, qs)
      = (Inl (reply_error r), (s', t + d, sc, qs @ [structured_request sch G m]))
      \<and> mc.same t s s1 \<and> mc.counted_failure G (t + d) s1 s'"
proof -
  let ?P = "desk parse zod str ps"
  let ?body = "ebind (model_text ?P (structured_request sch G m))
      (\<lambda>(response, u). ethen (account ?P u) (parse_json ?P response))"
  have "\<exists>s2. ?body (s1, t, (d, r) # sc, qs)
      = (Inl (reply_error r), (s2, t + d, sc, qs @ [structured_request sch G m])) \<and> s2 = s1" for s1
  proof -
    have "gp_call ?P (structured_request sch G m) (s1, t, (d, r) # sc, qs)
        = (r, (s1, t + d, sc, qs @ [structured_request sch G m]))"
      by (simp add: desk_def)
    from model_text_failure [OF r(1) this] show ?thesis by simp
  qed
  then have "\<exists>s1 s2 s'. ethen (checkCircuitBreaker ?P G) (failing ?P G ?body) (s, t, (d, r) # sc, qs)
      = (Inl (reply_error r), (s', t + d, sc, qs @ [structured_request sch G m]))
      \<and> mc.same t s s1 \<and> s2 = s1 \<and> mc.counted_failure G (t + d) s2 s'"
    by (intro mc.failing_call [OF desk_cache G(2)]) (use r(2) in auto)
  then show ?thesis using G(1) by (auto simp: generateStructured_def structured_request_def)
qed

text \<open>\<open>failed G i e t s\<close>: after \<open>i\<close> failures, counted until \<open>e\<close>, within all budgets.\<close>

definition failed :: "gateway \<Rightarrow> nat \<Rightarrow> real \<Rightarrow> millis \<Rightarrow> mem_cache \<Rightarrow> bool" where
  "failed G i e t s \<longleftrightarrow>
     mc_tally t (cb ''failures'') s = (if i = 0 then None else Some (real i, e))
     \<and> mc_held t (cb ''open'') s = None \<and> mc_held t (cb ''cost'') s = None
     \<and> mc_held t (cb ''tokens'') s = None"

lemma outlived_None [simp]: "outlived t None = None"
  by (simp add: outlived_def)

lemma outlived_in_time: "of_int t \<le> e \<Longrightarrow> outlived t (Some (v, e)) = Some (v, e)"
  by (simp add: outlived_def)

lemma failed_passes:
  "failed G i e t s \<Longrightarrow> 0 < gw_costThreshold G \<Longrightarrow> 0 < gw_tokenBudget G \<Longrightarrow> mc.passes G t s"
  by (simp add: failed_def mc.passes_def number_or_zero_def reaches_def)

definition reset_ms :: "gateway \<Rightarrow> real" where
  "reset_ms G = real (gw_circuitResetMs G)"

lemma expiry_reset: "0 < gw_circuitResetMs G \<Longrightarrow>
    expiry_of t (Some (real (gw_circuitResetMs G) / 1000)) = of_int t + reset_ms G"
  by (simp add: expiry_of_def reset_ms_def)

lemma failure_step:
  assumes G: "gw_client G" "0 < gw_circuitResetMs G" "0 < gw_costThreshold G" "0 < gw_tokenBudget G"
    and st: "failed G i e t s" and r: "is_failure r" "0 \<le> d"
    and e: "0 < i \<Longrightarrow> of_int (t + d) \<le> e"
  defines "e' \<equiv> if i = 0 then of_int (t + d) + reset_ms G else e"
  shows "\<exists>s'. snd (generateStructured (desk parse zod str ps) G None m sch (s, t, (d, r) # sc, qs))
       = (s', t + d, sc, qs @ [structured_request sch G m])
     \<and> (if Suc i < gw_failureThreshold G then failed G (Suc i) e' (t + d) s'
        else \<forall>t' \<ge> t + d. of_int t' \<le> of_int (t + d) + reset_ms G \<longrightarrow>
               mc_held t' (cb ''open'') s' = Some (''true'', of_int (t + d) + reset_ms G))"
proof -
  obtain s1 s' where call: "generateStructured (desk parse zod str ps) G None m sch (s, t, (d, r) # sc, qs)
      = (Inl (reply_error r), (s', t + d, sc, qs @ [structured_request sch G m]))"
    and s1: "mc.same t s s1" and s': "mc.counted_failure G (t + d) s1 s'"
    using structured_failure [OF G(1) failed_passes [OF st G(3,4)] r] by blast
  have le: "t \<le> t + d" using r(2) by simp
  have old: "mc_tally (t + d) (cb ''failures'') s1 = (if i = 0 then None else Some (real i, e))"
      "mc_held (t + d) (cb ''open'') s1 = None" "mc_held (t + d) (cb ''cost'') s1 = None"
      "mc_held (t + d) (cb ''tokens'') s1 = None"
    using mc.same_tally [OF s1 le] mc.same_held [OF s1 le] mc.tally_ages [OF le] mc.held_ages [OF le]
      st e by (simp_all add: failed_def outlived_in_time)
  have n: "added (t + d) (Some (real (gw_circuitResetMs G) / 1000)) (mc_tally (t + d) (cb ''failures'') s1)
      = (real (Suc i), e')"
    by (simp add: old added_def e'_def expiry_reset [OF G(2)])
  have e': "of_int (t + d) \<le> e'" using e by (auto simp: e'_def reset_ms_def)
  note after = s' [unfolded mc.counted_failure_def Let_def n fst_conv expiry_reset [OF G(2)]]
  show ?thesis
  proof (cases "Suc i < gw_failureThreshold G")
    case True
    then have "failed G (Suc i) e' (t + d) s'"
      using after old e' by (simp add: failed_def outlived_in_time)
    with True call show ?thesis by simp
  next
    case False
    then have "\<forall>t' \<ge> t + d. of_int t' \<le> of_int (t + d) + reset_ms G \<longrightarrow>
        mc_held t' (cb ''open'') s' = Some (''true'', of_int (t + d) + reset_ms G)"
      using after by (simp add: outlived_in_time)
    with False call show ?thesis by simp
  qed
qed

definition in_window :: "gateway \<Rightarrow> nat \<Rightarrow> real \<Rightarrow> millis \<Rightarrow> (millis \<times> ai_reply) list \<Rightarrow> bool" where
  "in_window G i e t sc \<longleftrightarrow>
     (if i = 0 then of_int (sum_list (map fst (tl sc))) \<le> reset_ms G
      else of_int (t + sum_list (map fst sc)) \<le> e)"

lemma in_window_next:
  assumes "in_window G i e t ((d, r) # sc)"
  shows "in_window G (Suc i) (if i = 0 then of_int (t + d) + reset_ms G else e) (t + d) sc"
  using assms by (auto simp: in_window_def add.assoc)

lemma in_window_now:
  assumes "in_window G i e t ((d, r) # sc)" "0 < i" "\<forall>(d, r) \<in> set sc. 0 \<le> d"
  shows "of_int (t + d) \<le> e"
proof -
  have "0 \<le> sum_list (map fst sc)" using assms(3) by (intro sum_list_nonneg) auto
  then have "(of_int (t + d) :: real) \<le> of_int (t + (d + sum_list (map fst sc)))" by linarith
  also have "\<dots> \<le> e" using assms(1,2) by (simp add: in_window_def)
  finally show ?thesis .
qed

lemma attempts_open:
  assumes G: "gw_client G" "0 < gw_circuitResetMs G" "0 < gw_costThreshold G" "0 < gw_tokenBudget G"
    and "failed G i e t s" "length ms = gw_failureThreshold G - i" "length sc = length ms" "ms \<noteq> []"
    "\<forall>(d, r) \<in> set sc. 0 \<le> d \<and> is_failure r" "in_window G i e t sc"
  shows "\<exists>s' T. attempts (desk parse zod str ps) G sch ms (s, t, sc @ rest, qs)
       = (s', T, rest, qs @ map (structured_request sch G) ms)
     \<and> (\<forall>t' \<ge> T. of_int t' \<le> of_int T + reset_ms G \<longrightarrow>
          mc_held t' (cb ''open'') s' = Some (''true'', of_int T + reset_ms G))"
  using assms(5-)
proof (induction ms arbitrary: i e t s sc qs)
  case Nil
  then show ?case by simp
next
  case (Cons m ms)
  obtain d r sc' where sc: "sc = (d, r) # sc'" using Cons.prems(3) by (cases sc) auto
  have r: "is_failure r" "0 \<le> d" and nn: "\<forall>(d, r) \<in> set sc'. 0 \<le> d" using Cons.prems(5) sc by auto
  let ?e = "if i = 0 then of_int (t + d) + reset_ms G else e"
  have e: "of_int (t + d) \<le> e" if "0 < i"
    using in_window_now [OF _ that nn] Cons.prems(6) sc by blast
  obtain s' where step: "snd (generateStructured (desk parse zod str ps) G None m sch
        (s, t, (d, r) # sc' @ rest, qs)) = (s', t + d, sc' @ rest, qs @ [structured_request sch G m])"
    and s': "if Suc i < gw_failureThreshold G then failed G (Suc i) ?e (t + d) s'
        else \<forall>t' \<ge> t + d. of_int t' \<le> of_int (t + d) + reset_ms G \<longrightarrow>
               mc_held t' (cb ''open'') s' = Some (''true'', of_int (t + d) + reset_ms G)"
    using failure_step [OF G Cons.prems(1) r e, of parse zod str ps m sch "sc' @ rest" qs] by blast
  have run: "attempts (desk parse zod str ps) G sch (m # ms) (s, t, sc @ rest, qs)
      = attempts (desk parse zod str ps) G sch ms (s', t + d, sc' @ rest, qs @ [structured_request sch G m])"
    using step sc by simp
  show ?case
  proof (cases "ms = []")
    case True
    then have "\<not> Suc i < gw_failureThreshold G" using Cons.prems(2) by simp
    with s' have "\<forall>t' \<ge> t + d. of_int t' \<le> of_int (t + d) + reset_ms G \<longrightarrow>
        mc_held t' (cb ''open'') s' = Some (''true'', of_int (t + d) + reset_ms G)" by simp
    moreover have "sc' = []" using True Cons.prems(3) sc by simp
    then have "attempts (desk parse zod str ps) G sch (m # ms) (s, t, sc @ rest, qs)
        = (s', t + d, rest, qs @ map (structured_request sch G) (m # ms))"
      using run True by (simp del: attempts.simps(2))
    ultimately show ?thesis by blast
  next
    case False
    have "Suc i < gw_failureThreshold G" using Cons.prems(2) False by (cases ms) auto
    then have "failed G (Suc i) ?e (t + d) s'" using s' by simp
    from Cons.IH [OF this _ _ False _ in_window_next [OF Cons.prems(6) [unfolded sc]],
        of "qs @ [structured_request sch G m]"]
    show ?thesis unfolding run using Cons.prems sc by auto
  qed
qed

lemma blocked_at_desk:
  assumes "truthy_string (mc.val t (cb ''open'') s)"
  shows "fst (ethen (checkCircuitBreaker (desk parse zod str ps) G) m (s, t, sc, qs))
       = Inl (plain_error open_message)"
    and "asked (snd (ethen (checkCircuitBreaker (desk parse zod str ps) G) m (s, t, sc, qs))) = qs"
  using mc.blocked_call [OF desk_cache assms, of parse zod str ps G m "(sc, qs)"] by auto


text \<open>Five time-outs in a row with the default configuration.\<close>

definition default_gateway :: gateway where
  "default_gateway = new_gateway (\<lambda>_. None) (Some ''key'')
     \<lparr>ac_modelName = None, ac_modelFlash = None, ac_modelPro = None, ac_enableThinkingLevel = None,
      ac_thinkingLevelFlash = None, ac_thinkingLevelPro = None, ac_timeoutMs = None,
      ac_tokenBudgetPerSession = None, ac_costThresholdUsd = None, ac_failureThreshold = None,
      ac_circuitResetMs = None\<rparr>"

lemma default_gateway_simps [simp]:
  "gw_client default_gateway" "gw_failureThreshold default_gateway = 5"
  "gw_circuitResetMs default_gateway = 60000" "gw_tokenBudget default_gateway = 50000"
  "gw_costThreshold default_gateway = 0.5"
  by (simp_all add: default_gateway_def new_gateway_def or_default_def or_else_def Let_def)

abbreviation sample_desk :: "desk_world gateway_ports" where
  "sample_desk \<equiv> desk (\<lambda>t. Inl (plain_error t)) (\<lambda>_. plain_error []) so_title
     (\<lambda>t. Inr \<lparr>so_title = t, so_content = [], so_theme = [], so_readingLevel = [], so_tone = []\<rparr>)"


text \<open>A structured call that is answered with usage metadata.\<close>

lemma structured_reply:
  assumes G: "gw_client G" "mc.passes G t s" and u: "estimateFinOpsCost u = Some f" and d: "0 \<le> d"
  shows "\<exists>s1 s2 s'. generateStructured (desk parse zod str ps) G None m sch (s, t, (d, Reply tx u) # sc, qs)
      = (parse tx, (s', t + d, sc, qs @ [structured_request sch G m]))
      \<and> mc.same t s s1 \<and> mc.counted_success (fo_total f) (t + d) s1 s2
      \<and> (case parse tx of Inl e \<Rightarrow> mc.counted_failure G (t + d) s2 s' | Inr j \<Rightarrow> s' = s2)"
proof -
  let ?P = "desk parse zod str ps" and ?R = "mc.counted_success (fo_total f) (t + d)"
  let ?body = "ebind (model_text ?P (structured_request sch G m))
      (\<lambda>(response, u). ethen (account ?P u) (parse_json ?P response))"
  have body: "\<exists>s2. ?body (s1, t, (d, Reply tx u) # sc, qs)
      = (parse tx, (s2, t + d, sc, qs @ [structured_request sch G m])) \<and> ?R s1 s2" for s1
  proof -
    have "model_text ?P (structured_request sch G m) (s1, t, (d, Reply tx u) # sc, qs)
        = (Inr (tx, u), (s1, t + d, sc, qs @ [structured_request sch G m]))"
      by (simp add: model_text_def desk_def)
    moreover obtain s2 where "account ?P u (s1, t + d, sc, qs @ [structured_request sch G m])
        = (Inr (), (s2, t + d, sc, qs @ [structured_request sch G m]))" "?R s1 s2"
      using mc.account_run [OF desk_cache u] by blast
    moreover have "parse_json ?P tx w = (parse tx, w)" for w
      by (simp add: parse_json_def desk_def split: sum.split)
    ultimately show ?thesis by auto
  qed
  have call: "generateStructured ?P G None m sch = ethen (checkCircuitBreaker ?P G) (failing ?P G ?body)"
    using G(1) by (simp add: generateStructured_def structured_request_def)
  show ?thesis
  proof (cases "parse tx")
    case (Inl e)
    then have "\<And>s1. mc.same t s s1 \<Longrightarrow> \<exists>s2. ?body (s1, t, (d, Reply tx u) # sc, qs)
      = (Inl e, (s2, t + d, sc, qs @ [structured_request sch G m])) \<and> ?R s1 s2" using body by simp
    from mc.failing_call [where m = ?body and R = ?R and e = e and x' = "(sc, qs @ [structured_request sch G m])"
        and t' = "t + d", OF desk_cache G(2) _ this] d Inl call show ?thesis by simp
  next
    case (Inr j)
    then have "\<And>s1. mc.same t s s1 \<Longrightarrow> \<exists>s2. ?body (s1, t, (d, Reply tx u) # sc, qs)
      = (Inr j, (s2, t + d, sc, qs @ [structured_request sch G m])) \<and> ?R s1 s2" using body by simp
    from mc.passing_call [where m = ?body and R = ?R and a = j and x' = "(sc, qs @ [structured_request sch G m])"
        and t' = "t + d", OF desk_cache G(2) this] Inr call show ?thesis by auto
  qed
qed

text \<open>A reply that is not valid JSON is an error for the caller, but it never adds up: with
  usage metadata the call first clears the failure count, so after it the count is 1, however
  many malformed replies came before, and the circuit is not opened.\<close>

lemma malformed_never_adds_up:
  assumes "gw_client G" "2 \<le> gw_failureThreshold G" "0 < gw_circuitResetMs G" "0 \<le> d"
    and "fst (checkCircuitBreaker (desk parse zod str ps) G (s, t, (d, Reply tx (Some u)) # sc, qs)) = Inr ()"
    and "parse tx = Inl e"
    and w': "generateStructured (desk parse zod str ps) G None m sch (s, t, (d, Reply tx (Some u)) # sc, qs)
      = (r, (s', t', rest))"
  shows "r = Inl e \<and> map_option fst (mc_tally t' (cb ''failures'') s') = Some 1
    \<and> \<not> truthy_string (fst (mc_get t' (cb ''open'') s'))"
proof -
  have ok: "mc.passes G t s" using assms(5) mc.check_result [OF desk_cache] by blast
  obtain f where f: "estimateFinOpsCost (Some u) = Some f" by (simp add: estimateFinOpsCost_def Let_def)
  obtain s1 s2 where eq: "r = Inl e" "t' = t + d" and s1: "mc.same t s s1"
    and s2: "mc.counted_success (fo_total f) (t + d) s1 s2" and s': "mc.counted_failure G (t + d) s2 s'"
    using structured_reply [OF assms(1) ok f assms(4), of parse zod str ps m sch tx sc qs] assms(6) w'
    by auto
  have le: "t \<le> t + d" using assms(4) by simp
  have "mc_tally (t + d) (cb ''failures'') s2 = None"
      "mc_held (t + d) (cb ''open'') s2 = mc_held (t + d) (cb ''open'') s1"
    using s2 by (simp_all add: mc.counted_success_def)
  then have "mc_tally (t + d) (cb ''failures'') s' = Some (1, of_int (t + d) + reset_ms G)"
      "mc_held (t + d) (cb ''open'') s' = mc_held (t + d) (cb ''open'') s"
    using s' assms(2) mc.same_held [OF s1 le]
    by (simp_all add: mc.counted_failure_def Let_def added_def expiry_reset [OF assms(3)]
        outlived_in_time reset_ms_def)
  moreover have "\<not> truthy_string (map_option fst (mc_held (t + d) (cb ''open'') s))"
    using ok mc.held_ages [OF le, of "cb ''open''" s]
    by (auto simp: mc.passes_def outlived_def truthy_string_def split: option.splits if_splits)
  ultimately show ?thesis using eq by (simp add: mc.get_result)
qed

lemma malformed_never_adds_up_witness:
  "\<exists>s' t' rest. generateStructured sample_desk default_gateway None ''q'' SNumber
      (mc_empty, 0, [(500, Reply ''oops'' (Some \<lparr>us_prompt = Some 3, us_candidates = None, us_total = None\<rparr>))], [])
      = (Inl (plain_error ''oops''), (s', t', rest))
    \<and> map_option fst (mc_tally t' (cb ''failures'') s') = Some 1"
proof -
  let ?w = "(mc_empty, 0, [(500, Reply ''oops'' (Some \<lparr>us_prompt = Some 3, us_candidates = None, us_total = None\<rparr>))], []) :: desk_world"
  obtain r s' t' rest where run: "generateStructured sample_desk default_gateway None ''q'' SNumber ?w
      = (r, (s', t', rest))" by (metis surj_pair)
  have "mc.passes default_gateway 0 mc_empty"
    by (rule failed_passes [of _ 0 0]) (simp_all add: failed_def mc_tally_def mc_held_def mc_empty_def)
  then have "fst (checkCircuitBreaker sample_desk default_gateway ?w) = Inr ()"
    using mc.check_result [OF desk_cache] by blast
  from malformed_never_adds_up [OF _ _ _ _ this _ run] show ?thesis using run by auto
qed

lemma fraction_digits_0 [simp]: "fraction_digits n 0 = []"
  by (cases n) simp_all

lemma show_real_nat [simp]: "js_show_real (real n) = show_nat n"
  by (simp add: js_show_real_def Let_def)

lemma text_not_Nil [simp]: "truthy_string (Some (show_nat n))"
  by simp

lemma tokens_before:
  "c = map_option (\<lambda>k. show_nat k) k \<Longrightarrow>
   text_of js_show_real (plus_number (number_or_zero js_parse_int c) (real n))
     = show_nat ((case k of None \<Rightarrow> 0 | Some i \<Rightarrow> i) + n)"
proof -
  assume "c = map_option (\<lambda>k. show_nat k) k"
  then have "number_or_zero js_parse_int c = Some (real (case k of None \<Rightarrow> 0 | Some i \<Rightarrow> i))"
    by (cases k) (simp_all add: number_or_zero_def)
  then show ?thesis
    by (simp add: text_of_def plus_number_def flip: of_nat_add)
qed



lemma hash_step: "push_bit 5 h - h = 31 * (h :: 32 word)"
  by (simp add: push_bit_eq_mult)

lemma hash_collision: "hashPrompt (u @ ''Aa'' @ v) = hashPrompt (u @ ''BB'' @ v)"
  by (simp add: hashPrompt_def hash_step algebra_simps)

lemma story_call:
  assumes G: "gw_client G" "mc.passes G t s" and d: "0 \<le> d"
    and i: "si_customPrompt input = Some p" "p \<noteq> []"
    and cold: "fst (mc_get t (hashPrompt p) s) = None"
    and reply: "parse tx = Inr j" "storyResponseSchema j = Some sd"
  shows "\<exists>s' rq. generateStory (desk parse zod str ps) G input (s, t, (d, Reply tx u) # sc, qs)
      = (Inr (story_result input sd), (s', t + d, sc, qs @ [rq]))
    \<and> (\<forall>t' \<ge> t + d. of_int t' \<le> of_int (t + d) + (1800000 :: real) \<longrightarrow>
         map_option fst (mc_held t' (hashPrompt p) s') = Some (str (story_result input sd)))"
proof -
  let ?P = "desk parse zod str ps" and ?k = "hashPrompt p" and ?o = "story_result input sd"
  let ?rq = "\<lparr>rq_model = gw_modelFlash G, rq_system = None, rq_thinking = gw_thinkingFlash G,
      rq_schema = Some story_schema, rq_history = [], rq_prompt = p\<rparr>"
  let ?s0 = "snd (mc_get t ?k s)"
  define R where "R s1 s2 \<longleftrightarrow> (\<forall>t' \<ge> t + d. mc_held t' ?k s2 =
      outlived t' (Some (str ?o, expiry_of (t + d) (Some (60 * 30)))))" for s1 s2 :: mem_cache
  let ?body = "ebind (model_text ?P ?rq) (\<lambda>(response, u). ethen (account ?P u)
      (etry (ebind (parse_json ?P response) (\<lambda>raw. ebind (validated ?P storyResponseSchema raw)
         (\<lambda>d. ethen (cacheStoryResponse ?P ?k (story_result input d)) (ereturn (story_result input d)))))
       (\<lambda>e. ethrow (plain_error (''Failed to validate Gemini response: '' @ error_string e)))))"
  have body: "\<exists>s2. ?body (s1, t, (d, Reply tx u) # sc, qs)
      = (Inr ?o, (s2, t + d, sc, qs @ [?rq])) \<and> R s1 s2" for s1
  proof -
    have "model_text ?P ?rq (s1, t, (d, Reply tx u) # sc, qs)
        = (Inr (tx, u), (s1, t + d, sc, qs @ [?rq]))"
      by (simp add: model_text_def desk_def)
    moreover obtain s2 where "account ?P u (s1, t + d, sc, qs @ [?rq])
        = (Inr (), (s2, t + d, sc, qs @ [?rq]))"
      using mc.account_keeps_stories [OF desk_cache] by blast
    moreover have "parse_json ?P tx = ereturn j" "validated ?P storyResponseSchema j = ereturn sd"
      using reply by (simp_all add: parse_json_def validated_def desk_def)
    moreover have "gp_stringify ?P = str" by (simp add: desk_def)
    ultimately show ?thesis
      by (simp add: cacheStoryResponse_def desk_cache mc.run_cache mc.put_held R_def)
  qed
  have ok: "mc.passes G t ?s0"
    using G(2) mc.passes_same [OF mc.same_get [of t s ?k] order_refl] by simp
  obtain s' where run: "ethen (checkCircuitBreaker ?P G) (failing ?P G ?body)
        (?s0, t, (d, Reply tx u) # sc, qs) = (Inr ?o, (s', t + d, sc, qs @ [?rq]))"
    and s': "\<exists>s1. R s1 s'"
    using mc.passing_call [where m = ?body and R = R and a = ?o and x' = "(sc, qs @ [?rq])"
        and t' = "t + d", OF desk_cache ok body] by blast
  have held: "map_option fst (mc_held t' ?k s') = Some (str ?o)"
    if "t + d \<le> t'" "of_int t' \<le> of_int (t + d) + (1800000 :: real)" for t'
    using s' that by (auto simp: R_def expiry_of_def outlived_in_time)
  have "cp_get (gp_cache ?P) ?k (s, t, (d, Reply tx u) # sc, qs)
      = (Inr None, (?s0, t, (d, Reply tx u) # sc, qs))"
    using cold by (simp add: desk_cache mc.run_cache mc.get_result)
  then have "generateStory ?P G input (s, t, (d, Reply tx u) # sc, qs)
      = (Inr ?o, (s', t + d, sc, qs @ [?rq]))"
    using G(1) i run by (simp add: generateStory_def Let_def)
  then show ?thesis using held by blast
qed

text \<open>Two prompts with the same 32-bit hash share a cache entry, and such pairs are easy to
  write: after a story has been generated for a prompt that contains Aa, the prompt with BB in
  its place is answered with that story for half an hour, and the model is not asked.\<close>

lemma colliding_prompts_share_stories:
  assumes "gw_client G" "0 \<le> d" "0 \<le> d'" "real_of_int d' \<le> 1800000"
    and check: "fst (checkCircuitBreaker (desk parse zod str ps) G (s, t, (d, Reply tx u) # sc, qs)) = Inr ()"
    and "si_customPrompt first = Some (x @ ''Aa'' @ y)" "si_customPrompt second = Some (x @ ''BB'' @ y)"
    and "fst (mc_get t (hashPrompt (x @ ''Aa'' @ y)) s) = None"
    and "parse tx = Inr j" "storyResponseSchema j = Some sd"
    and json: "ps (str (story_result first sd)) = Inr (story_result first sd)"
      "str (story_result first sd) \<noteq> []"
    and call: "generateStory (desk parse zod str ps) G first (s, t, (d, Reply tx u) # sc, qs) = (r, w')"
  shows "r = Inr (story_result first sd)
    \<and> fst (generateStory (desk parse zod str ps) G second (wait d' w')) = Inr (story_result first sd)
    \<and> asked (snd (generateStory (desk parse zod str ps) G second (wait d' w'))) = asked w'"
proof -
  let ?P = "desk parse zod str ps" and ?k = "hashPrompt (x @ ''BB'' @ y)"
  have ok: "mc.passes G t s" using check mc.check_result [OF desk_cache] by blast
  have ne: "x @ ''Aa'' @ y \<noteq> []" by simp
  obtain s' rq where run: "r = Inr (story_result first sd)" "w' = (s', t + d, sc, qs @ [rq])"
    and "\<forall>t' \<ge> t + d. of_int t' \<le> of_int (t + d) + (1800000 :: real) \<longrightarrow>
         map_option fst (mc_held t' ?k s') = Some (str (story_result first sd))"
    using story_call [where parse = parse and tx = tx and j = j and sd = sd and d = d and G = G,
        OF assms(1) ok assms(2,6) ne assms(8-10), of zod str ps u sc qs] call
    unfolding hash_collision by auto
  then have "cp_get (gp_cache ?P) ?k (s', t + d + d', sc, qs @ [rq])
      = (Inr (Some (str (story_result first sd))), (snd (mc_get (t + d + d') ?k s'), t + d + d', sc, qs @ [rq]))"
    using assms(3,4) by (simp add: desk_cache mc.run_cache)
  moreover have "gp_parseStory ?P = ps" by (simp add: desk_def)
  ultimately have "generateStory ?P G second (wait d' w')
      = (Inr (story_result first sd), (snd (mc_get (t + d + d') ?k s'), t + d + d', sc, qs @ [rq]))"
    using assms(1,7) json run(2) by (simp add: generateStory_def Let_def)
  then show ?thesis using run by simp
qed

definition moon_story :: story_output where
  "moon_story = \<lparr>so_title = ''Moon'', so_content = ''Once'', so_theme = ''sky'',
     so_readingLevel = ''General'', so_tone = ''calm''\<rparr>"

definition moon_input :: "string \<Rightarrow> story_input" where
  "moon_input p = \<lparr>si_theme = ''sky'', si_childAge = None, si_style = None, si_customPrompt = Some p\<rparr>"

definition moon_json :: json where
  "moon_json = JObj [(''title'', JStr ''Moon''), (''content'', JStr ''Once''),
     (''metadata'', JObj [(''tone'', JStr ''calm'')])]"

definition moon_desk :: "desk_world gateway_ports" where
  "moon_desk = desk (\<lambda>_. Inr moon_json) (\<lambda>_. plain_error []) so_title (\<lambda>_. Inr moon_story)"

lemma colliding_prompts_share_stories_witness:
  "\<exists>w'. generateStory moon_desk default_gateway (moon_input ''A story for Aaron'')
      (mc_empty, 0, [(500, Reply ''{}'' None)], []) = (Inr moon_story, w')
    \<and> fst (generateStory moon_desk default_gateway (moon_input ''A story for BBron'') (wait 60000 w'))
      = Inr moon_story"
proof -
  let ?w = "(mc_empty, 0, [(500, Reply ''{}'' None)], []) :: desk_world"
  let ?sd = "\<lparr>sd_title = ''Moon'', sd_content = ''Once'', sd_sleepScore = 0,
      sd_metadata = Some (None, Some ''calm'')\<rparr>"
  obtain r w' where run: "generateStory moon_desk default_gateway (moon_input (''A story for '' @ ''Aa'' @ ''ron'')) ?w = (r, w')"
    by (metis surj_pair)
  have "mc.passes default_gateway 0 mc_empty"
    by (rule failed_passes [of _ 0 0]) (simp_all add: failed_def mc_tally_def mc_held_def mc_empty_def)
  then have check: "fst (checkCircuitBreaker moon_desk default_gateway ?w) = Inr ()"
    unfolding moon_desk_def using mc.check_result [OF desk_cache] by blast
  have d: "gw_client default_gateway" "(0 :: millis) \<le> 500" "(0 :: millis) \<le> 60000" "real_of_int 60000 \<le> 1800000"
    by simp_all
  have i: "si_customPrompt (moon_input p) = Some p" for p by (simp add: moon_input_def)
  have old: "fst (mc_get 0 k mc_empty) = None" for k
    by (simp add: mc_get_def mc_empty_def)
  have sd: "storyResponseSchema moon_json = Some ?sd"
    by (simp add: storyResponseSchema_def moon_json_def jfield_def optional_string_def)
  have res: "story_result (moon_input p) ?sd = moon_story" for p
    by (simp add: story_result_def moon_input_def moon_story_def)
  have js: "(\<lambda>_. Inr moon_story :: js_error + story_output) (so_title (story_result (moon_input p) ?sd))
      = Inr (story_result (moon_input p) ?sd)" "so_title (story_result (moon_input p) ?sd) \<noteq> []" for p
    by (simp_all add: res moon_story_def)
  from colliding_prompts_share_stories [OF d check [unfolded moon_desk_def] i i old refl sd js
      run [unfolded moon_desk_def]] run
  show ?thesis by (simp add: res moon_desk_def)
qed

lemma conforms_cases:
  "conforms (SString False) j \<Longrightarrow> \<exists>s. j = JStr s"
  "conforms (SString True) j \<Longrightarrow> j = JNull \<or> (\<exists>s. j = JStr s)"
  "conforms SNumber j \<Longrightarrow> \<exists>x. j = JNum x"
  "conforms (SArray c) j \<Longrightarrow> \<exists>js. j = JArr js \<and> list_all (conforms c) js"
  "conforms (SObject ps req) j \<Longrightarrow> \<exists>kvs. j = JObj kvs"
  by (cases j; simp)+

lemma all_strings_conform:
  "list_all (conforms (SString False)) js \<Longrightarrow> all_strings js \<noteq> None"
proof (induction js)
  case (Cons j js)
  then show ?case by (cases j) auto
qed simp

lemma required_field:
  "conforms (SObject ps req) (JObj kvs) \<Longrightarrow> k \<in> set req \<Longrightarrow> (k, c) \<in> set ps \<Longrightarrow>
   \<exists>v. jfield k kvs = Some v \<and> conforms c v"
  by (fastforce simp: list_all_iff split: option.splits)

lemma present_field:
  "conforms (SObject ps req) (JObj kvs) \<Longrightarrow> (k, c) \<in> set ps \<Longrightarrow> jfield k kvs = Some v \<Longrightarrow> conforms c v"
  by (fastforce simp: list_all_iff split: option.splits)

lemma required_string:
  "conforms (SObject ps req) (JObj kvs) \<Longrightarrow> k \<in> set req \<Longrightarrow> (k, SString False) \<in> set ps \<Longrightarrow>
   \<exists>s. jfield k kvs = Some (JStr s)"
  using required_field [of ps req kvs k "SString False"] conforms_cases(1) by blast

lemma required_number:
  "conforms (SObject ps req) (JObj kvs) \<Longrightarrow> k \<in> set req \<Longrightarrow> (k, SNumber) \<in> set ps \<Longrightarrow>
   \<exists>x. jfield k kvs = Some (JNum x)"
  using required_field [of ps req kvs k SNumber] conforms_cases(3) by blast

lemma optional_string_conforms:
  assumes "conforms (SObject ps req) (JObj kvs)" "(k, SString False) \<in> set ps"
  shows "optional_string k kvs \<noteq> None"
proof (cases "jfield k kvs")
  case None
  then show ?thesis by (simp add: optional_string_def)
next
  case (Some v)
  then obtain s where "v = JStr s" using present_field [OF assms Some] conforms_cases(1) by blast
  then show ?thesis using Some by (simp add: optional_string_def)
qed

lemma nullable_string_conforms:
  assumes "conforms (SObject ps req) (JObj kvs)" "(k, SString True) \<in> set ps"
  shows "nullable_string k kvs \<noteq> None \<longleftrightarrow> jfield k kvs \<noteq> None"
proof (cases "jfield k kvs")
  case None
  then show ?thesis by (simp add: nullable_string_def)
next
  case (Some v)
  then have "v = JNull \<or> (\<exists>s. v = JStr s)" using present_field [OF assms Some] conforms_cases(2) by blast
  then show ?thesis using Some by (auto simp: nullable_string_def)
qed

lemma story_conforms:
  assumes "conforms story_schema j"
  shows "storyResponseSchema j \<noteq> None"
proof -
  obtain kvs where j: "j = JObj kvs" using assms conforms_cases(5) unfolding story_schema_def by blast
  note c = assms [unfolded j story_schema_def]
  obtain t where t: "jfield ''title'' kvs = Some (JStr t)"
    using required_string [OF c, of "''title''"] by auto
  obtain ct where ct: "jfield ''content'' kvs = Some (JStr ct)"
    using required_string [OF c, of "''content''"] by auto
  obtain sc where sc: "jfield ''sleepScore'' kvs = Some (JNum sc)"
    using required_number [OF c, of "''sleepScore''"] by auto
  note f = t ct sc
  show ?thesis
  proof (cases "jfield ''metadata'' kvs")
    case None
    with f show ?thesis by (simp add: storyResponseSchema_def j)
  next
    case (Some v)
    let ?m = "SObject [(''theme'', SString False), (''tone'', SString False)] []"
    have cv: "conforms ?m v" by (rule present_field [OF c _ Some]) simp
    then obtain m where m: "v = JObj m" using conforms_cases(5) by blast
    obtain th tn where "optional_string ''theme'' m = Some th" "optional_string ''tone'' m = Some tn"
      using optional_string_conforms [OF cv [unfolded m], of "''theme''"]
        optional_string_conforms [OF cv [unfolded m], of "''tone''"] by auto
    with f Some m show ?thesis by (simp add: storyResponseSchema_def j)
  qed
qed

lemma thought_conforms:
  assumes "conforms thought_schema (JObj kvs)"
  shows "agentThoughtSchema (JObj kvs) \<noteq> None \<longleftrightarrow>
     jfield ''conflicts_identified'' kvs \<noteq> None \<and> jfield ''trade_off_made'' kvs \<noteq> None"
proof -
  note c = assms [unfolded thought_schema_def]
  obtain v where v: "jfield ''goals_considered'' kvs = Some v" "conforms (SArray (SString False)) v"
    using required_field [OF c, of "''goals_considered''" "SArray (SString False)"] by auto
  obtain js where js: "v = JArr js" "list_all (conforms (SString False)) js"
    using conforms_cases(4) [OF v(2)] by blast
  obtain th where th: "jfield ''thought'' kvs = Some (JStr th)"
    using required_string [OF c, of "''thought''"] by auto
  obtain ac where ac: "jfield ''action'' kvs = Some (JStr ac)"
    using required_string [OF c, of "''action''"] by auto
  obtain cf where cf: "jfield ''confidence'' kvs = Some (JNum cf)"
    using required_number [OF c, of "''confidence''"] by auto
  note f = v(1) [unfolded js(1)] th ac cf
  have ps: "jfield ''parameters'' kvs = None \<or> (\<exists>p. jfield ''parameters'' kvs = Some (JObj p))"
    using present_field [OF c, of "''parameters''" "SObject [] []"] conforms_cases(5)
    by (cases "jfield ''parameters'' kvs") auto
  have ns: "nullable_string ''conflicts_identified'' kvs \<noteq> None \<longleftrightarrow> jfield ''conflicts_identified'' kvs \<noteq> None"
      "nullable_string ''trade_off_made'' kvs \<noteq> None \<longleftrightarrow> jfield ''trade_off_made'' kvs \<noteq> None"
    by (rule nullable_string_conforms [OF c]; simp)+
  obtain gs where "all_strings js = Some gs" using all_strings_conform [OF js(2)] by auto
  with f ps have "agentThoughtSchema (JObj kvs) \<noteq> None \<longleftrightarrow>
      nullable_string ''conflicts_identified'' kvs \<noteq> None \<and> nullable_string ''trade_off_made'' kvs \<noteq> None"
    by (auto simp: agentThoughtSchema_def split: option.splits)
  then show ?thesis using ns by simp
qed

text \<open>A reply that obeys the schema sent with a story request is always accepted; a reply that
  obeys the schema sent with an agent thought is accepted exactly when it also has the two
  nullable properties that the sent schema does not require.\<close>

lemma schemas_agree:
  assumes "conforms story_schema j" "conforms thought_schema (JObj kvs)"
  shows "storyResponseSchema j \<noteq> None
    \<and> (agentThoughtSchema (JObj kvs) \<noteq> None \<longleftrightarrow>
         jfield ''conflicts_identified'' kvs \<noteq> None \<and> jfield ''trade_off_made'' kvs \<noteq> None)"
  using story_conforms [OF assms(1)] thought_conforms [OF assms(2)] by blast

definition bare_thought :: "(string \<times> json) list" where
  "bare_thought = [(''goals_considered'', JArr [JStr ''CALM'']), (''thought'', JStr ''t''),
     (''action'', JStr ''CONTINUE''), (''confidence'', JNum 1)]"

lemma schemas_agree_witness:
  "conforms thought_schema (JObj bare_thought) \<and> agentThoughtSchema (JObj bare_thought) = None"
proof
  show c: "conforms thought_schema (JObj bare_thought)"
    by (simp add: thought_schema_def bare_thought_def jfield_def)
  have "conforms story_schema (JObj [(''title'', JStr ''T''), (''content'', JStr ''C''), (''sleepScore'', JNum 0)])"
    by (simp add: story_schema_def jfield_def)
  from schemas_agree [OF this c] show "agentThoughtSchema (JObj bare_thought) = None"
    by (simp add: bare_thought_def jfield_def)
qed

end
