(* ===== verification/Safety.thy ===== *)
theory Safety
  imports Effects JsRegex
begin

text \<open>
  The checks on what a child gets to hear: \<open>SafetyGuardian.checkContent\<close> with its patterns, its
  question to the model and its sanitisation, \<open>VerificationPipeline\<close> for what needs a second
  opinion, and \<open>IntentClassifier\<close> (\<open>api/src/domain/services/\<close>).  The model and the prompts are
  parameters; a reply of the model is a \<^typ>\<open>json\<close> value, checked as the code's strict schemas
  check it.  Logging is left out.
\<close>

subsection \<open>Patterns\<close>

definition back_slash :: char where "back_slash = char_of (92 :: nat)"

definition alternatives :: "string list \<Rightarrow> rx" where
  \<comment> \<open>\<open>(w1|w2|...)\<close> with the flag \<open>i\<close>\<close>
  "alternatives ws = ralt (map rlit_ci ws)"

definition an_opt :: rx where
  \<comment> \<open>\<open>(?:a|an)?\<close>\<close>
  "an_opt = ropt (alternatives [''a'', ''an''])"

text \<open>A banned pattern with its source, which the reason quotes.\<close>

definition BANNED_PATTERNS :: "(string \<times> rx) list" where
  "BANNED_PATTERNS =
     [(''/'' @ [back_slash] @ ''b(violence|blood|killing|death|monster'' @ [back_slash] @ ''s+under''
          @ [back_slash] @ ''s+the'' @ [back_slash] @ ''s+bed)'' @ [back_slash] @ ''b/i'',
       rseq [RWordB,
             ralt [rlit_ci ''violence'', rlit_ci ''blood'', rlit_ci ''killing'', rlit_ci ''death'',
                   rseq [rlit_ci ''monster'', rspaces, rlit_ci ''under'', rspaces, rlit_ci ''the'',
                         rspaces, rlit_ci ''bed'']],
             RWordB]),
      (''/'' @ [back_slash] @ ''b(scary|fright|terror|nightmare)'' @ [back_slash] @ ''b/i'',
       rseq [RWordB, alternatives [''scary'', ''fright'', ''terror'', ''nightmare''], RWordB]),
      (''/'' @ [back_slash] @ ''b(bad'' @ [back_slash] @ ''s+words|adult'' @ [back_slash]
          @ ''s+themes)'' @ [back_slash] @ ''b/i'',
       rseq [RWordB,
             ralt [rseq [rlit_ci ''bad'', rspaces, rlit_ci ''words''],
                   rseq [rlit_ci ''adult'', rspaces, rlit_ci ''themes'']],
             RWordB])]"

definition dan_or_developer :: rx where
  "dan_or_developer =
     RAlt (rseq [RWordB, rlit_ci ''DAN'', RWordB])
          (rseq [RWordB, rlit_ci ''Developer'', rspaces, rlit_ci ''Mode'', RWordB])"

definition INJECTION_PATTERNS :: "rx list" where
  "INJECTION_PATTERNS =
     [rseq [rlit_ci ''ignore'', rspaces, alternatives [''previous'', ''all'', ''above''], rspaces,
            rlit_ci ''instruction'', ropt (rlit_ci ''s'')],
      rseq [rlit_ci ''disregard'', rspaces, alternatives [''your'', ''the''], rspaces,
            alternatives [''rules'', ''guidelines'', ''instructions'']],
      rseq [rlit_ci ''you'', rspaces, rlit_ci ''are'', rspaces, rlit_ci ''now'', rspaces, an_opt,
            rspaces0, rplus (RChr word_char)],
      rseq [rlit_ci ''pretend'', rspaces,
            ralt [rseq [rlit_ci ''to'', rspaces, rlit_ci ''be''],
                  rseq [rlit_ci ''you'', rspaces, rlit_ci ''are'']]],
      dan_or_developer,
      rseq [rlit ''['', rspaces0, rlit_ci ''SYSTEM'', rspaces0, rlit '']''],
      rseq [rlit ''{'', rspaces0, rlit_ci [CHR 0x22, CHR ''r'', CHR ''o'', CHR ''l'', CHR ''e'', CHR 0x22],
            rspaces0, rlit '':'', rspaces0,
            rlit_ci [CHR 0x22, CHR ''s'', CHR ''y'', CHR ''s'', CHR ''t'', CHR ''e'', CHR ''m'', CHR 0x22]],
      rseq [rlit ''<'', ropt (rlit ''/''), alternatives [''system'', ''assistant'', ''user''], rlit ''>''],
      rseq [rlit_ci ''roleplay'', rspaces, rlit_ci ''as'', rspaces, an_opt, rspaces0,
            alternatives [''evil'', ''malicious'', ''bad'']]]"

subsection \<open>Sanitisation\<close>

fun starts_ci :: "string \<Rightarrow> string \<Rightarrow> bool" where
  "starts_ci s [] = True"
| "starts_ci [] (c # cs) = False"
| "starts_ci (d # ds) (c # cs) = (same_ci c d \<and> starts_ci ds cs)"

fun after_ci :: "string \<Rightarrow> string \<Rightarrow> string option" where
  \<comment> \<open>what follows the first occurrence\<close>
  "after_ci p [] = (if p = [] then Some [] else None)"
| "after_ci p (c # cs) =
     (if starts_ci (c # cs) p then Some (drop (length p) (c # cs)) else after_ci p cs)"

lemma after_ci_length: "after_ci p s = Some r \<Longrightarrow> length r \<le> length s"
  by (induction p s rule: after_ci.induct) (auto split: if_splits)

function strip_thinking :: "string \<Rightarrow> string" where
  \<comment> \<open>\<open>text.replace(/<thinking>[\s\S]*?<\/thinking>/gi, '')\<close>\<close>
  "strip_thinking [] = []"
| "strip_thinking (c # cs) =
     (if starts_ci (c # cs) ''<thinking>''
      then (case after_ci ''</thinking>'' (drop 10 (c # cs)) of
              Some rest \<Rightarrow> strip_thinking rest
            | None \<Rightarrow> c # strip_thinking cs)
      else c # strip_thinking cs)"
  by pat_completeness auto
termination
  by (relation "measure length") (auto dest!: after_ci_length)

subsection \<open>SafetyGuardian\<close>

record safety_result =
  sf_isSafe :: bool
  sf_reason :: "string option"
  sf_fallback :: "string option"
  sf_sanitized :: "string option"

record 'w safety_ports =
  sp_prompt :: "real \<Rightarrow> string"   \<comment> \<open>\<open>getSafetyValidatorSystemPrompt\<close>\<close>
  sp_structured :: "string \<Rightarrow> string \<Rightarrow> ('w, json) eff"   \<comment> \<open>system prompt and message\<close>

definition parse_safety :: "json \<Rightarrow> (bool \<times> string option) option" where
  \<comment> \<open>\<open>safetySchema.parse\<close>, strict\<close>
  "parse_safety j =
     (case j of
        JObj kvs \<Rightarrow>
          if set (map fst kvs) \<subseteq> {''isSafe'', ''reason''}
          then (case map_of kvs ''isSafe'' of
                  Some (JBool b) \<Rightarrow>
                    (case map_of kvs ''reason'' of
                       None \<Rightarrow> Some (b, None)
                     | Some (JStr r) \<Rightarrow> Some (b, Some r)
                     | _ \<Rightarrow> None)
                | _ \<Rightarrow> None)
          else None
      | _ \<Rightarrow> None)"

definition unsafe :: "string \<Rightarrow> string option \<Rightarrow> safety_result" where
  "unsafe reason fallback =
     \<lparr>sf_isSafe = False, sf_reason = Some reason, sf_fallback = fallback, sf_sanitized = None\<rparr>"

definition injected :: "string \<Rightarrow> bool" where
  "injected s \<longleftrightarrow> list_ex (\<lambda>r. rtest r s) INJECTION_PATTERNS"

definition banned_by :: "string \<Rightarrow> string option" where
  \<comment> \<open>the source of the first banned pattern that is found\<close>
  "banned_by s = map_option fst (find (\<lambda>p. rtest (snd p) s) BANNED_PATTERNS)"

definition complex_words :: "string list" where
  "complex_words = [''existential'', ''misery'', ''taxes'', ''politics'']"

definition too_complex :: "string \<Rightarrow> bool" where
  "too_complex s \<longleftrightarrow> list_ex (\<lambda>w. str_includes (js_lower s) w) complex_words"

definition last_layers :: "string \<Rightarrow> real \<Rightarrow> string option \<Rightarrow> safety_result" where
  \<comment> \<open>layers 3 and 4\<close>
  "last_layers s childAge fallback =
     (if childAge < 5 \<and> too_complex s
      then unsafe (''Layer 3 Violation: Content too complex for age '' @ js_show_real childAge) fallback
      else (let sanitized = js_trim (strip_thinking s)
            in \<lparr>sf_isSafe = True, sf_reason = None, sf_fallback = None,
                sf_sanitized = Some (if sanitized \<noteq> js_trim s then sanitized else s)\<rparr>))"

definition ask_model :: "'w safety_ports \<Rightarrow> string \<Rightarrow> real \<Rightarrow> ('w, json) eff" where
  "ask_model P s childAge =
     sp_structured P (sp_prompt P childAge) (''Content: '' @ take 2000 s)"

definition child_age :: "real option \<Rightarrow> real" where
  \<comment> \<open>the default of the parameter\<close>
  "child_age age = (case age of None \<Rightarrow> 5 | Some a \<Rightarrow> a)"

definition checkContent ::
    "'w safety_ports \<Rightarrow> string \<Rightarrow> real option \<Rightarrow> string option \<Rightarrow> ('w, safety_result) eff" where
  "checkContent P s age fallback w =
     (let childAge = child_age age
      in if injected s
         then (Inr (unsafe ''Layer 0 Violation: Prompt injection attempt detected''
                 (Some (or_string fallback ''Content blocked for security.''))), w)
         else (case banned_by s of
           Some src \<Rightarrow>
             (Inr (unsafe (''Layer 1 Violation: Found prohibited pattern: '' @ src)
                (Some (or_string fallback ''Story removed for safety.''))), w)
         | None \<Rightarrow>
             (case ask_model P s childAge w of
                (Inl e, w') \<Rightarrow>
                  (Inr (unsafe ''Safety Validation System Error (Fail Closed)''
                     (Some (or_string fallback ''Content unavailable due to safety system error.''))), w')
              | (Inr j, w') \<Rightarrow>
                  (case parse_safety j of
                     None \<Rightarrow>
                       (Inr (unsafe ''Safety Validation System Error (Fail Closed)''
                          (Some (or_string fallback ''Content unavailable due to safety system error.''))), w')
                   | Some (False, reason) \<Rightarrow>
                       (Inr (unsafe (''Layer 2 Violation: '' @ or_string reason ''AI Flagged Content'')
                          (Some (or_string fallback ''Content filtered.''))), w')
                   | Some (True, reason) \<Rightarrow> (Inr (last_layers s childAge fallback), w')))))"


subsection \<open>VerificationPipeline\<close>

datatype item_type = GoldenMoment | SafetyAction
datatype stage = Rule | Model | Human

record verifiable =
  vi_type :: item_type
  vi_content :: json
  vi_metadata :: dict

record verification_result =
  ve_approved :: bool
  ve_stage :: stage
  ve_reason :: string
  ve_confidence :: real

record 'w verification_ports =
  vq_ask :: "verifiable \<Rightarrow> ('w, json) eff"   \<comment> \<open>the model, asked about the item\<close>
  vq_enqueue :: "verifiable \<Rightarrow> string \<Rightarrow> real \<Rightarrow> ('w, unit) eff"   \<comment> \<open>item, reason, confidence\<close>

definition passedRuleCheck :: "verifiable \<Rightarrow> bool" where
  "passedRuleCheck v \<longleftrightarrow>
     (vi_type v = GoldenMoment \<longrightarrow>
       (case vi_content v of
          JObj kvs \<Rightarrow> (case map_of kvs ''description'' of Some (JStr d) \<Rightarrow> 10 \<le> length d | _ \<Rightarrow> False)
        | _ \<Rightarrow> False))"

definition parse_verdict :: "json \<Rightarrow> (bool \<times> string \<times> real) option" where
  \<comment> \<open>\<open>outputSchema.parse\<close>, strict\<close>
  "parse_verdict j =
     (case j of
        JObj kvs \<Rightarrow>
          if set (map fst kvs) \<subseteq> {''approved'', ''reason'', ''confidence''}
          then (case (map_of kvs ''approved'', map_of kvs ''reason'', map_of kvs ''confidence'') of
                  (Some (JBool b), Some (JStr r), Some (JNum c)) \<Rightarrow>
                    if 0 \<le> c \<and> c \<le> 1 then Some (b, r, c) else None
                | _ \<Rightarrow> None)
          else None
      | _ \<Rightarrow> None)"

definition performModelCheck :: "'w verification_ports \<Rightarrow> verifiable \<Rightarrow> 'w \<Rightarrow> (bool \<times> string \<times> real) \<times> 'w" where
  "performModelCheck P v w =
     (case vq_ask P v w of
        (Inl e, w') \<Rightarrow> ((False, ''Validator error'', 0), w')
      | (Inr j, w') \<Rightarrow>
          ((case parse_verdict j of None \<Rightarrow> (False, ''Validator error'', 0) | Some x \<Rightarrow> x), w'))"

definition verify :: "'w verification_ports \<Rightarrow> verifiable \<Rightarrow> ('w, verification_result) eff" where
  "verify P v w =
     (if \<not> passedRuleCheck v
      then (Inr \<lparr>ve_approved = False, ve_stage = Rule, ve_reason = ''Failed static safety rules'',
                 ve_confidence = 1\<rparr>, w)
      else (case performModelCheck P v w of
              ((approved, reason, confidence), w') \<Rightarrow>
                if \<not> approved
                then (Inr \<lparr>ve_approved = False, ve_stage = Model,
                           ve_reason = or_string (Some reason) ''AI Validator rejected'',
                           ve_confidence = confidence\<rparr>, w')
                else if confidence < 0.8
                then ethen (vq_enqueue P v ''Low confidence model validation'' confidence)
                       (ereturn \<lparr>ve_approved = False, ve_stage = Human,
                                 ve_reason = ''Flagged for human review'',
                                 ve_confidence = confidence\<rparr>) w'
                else (Inr \<lparr>ve_approved = True, ve_stage = Model, ve_reason = ''All checks passed'',
                           ve_confidence = confidence\<rparr>, w')))"

text \<open>What is approved has passed the rules, was approved by a well-formed reply of the model with a
  confidence of at least 0.8, and was not queued.\<close>

lemma verify_approved:
  assumes "verify P v w = (Inr r, w')" "ve_approved r"
  shows "passedRuleCheck v \<and> (\<exists>j reason c. vq_ask P v w = (Inr j, w')
    \<and> parse_verdict j = Some (True, reason, c) \<and> 0.8 \<le> c \<and> c \<le> 1 \<and> ve_confidence r = c)"
  using assms
  by (auto simp: verify_def performModelCheck_def parse_verdict_def ethen_def ebind_def
      split: if_splits prod.splits sum.splits option.splits json.splits)

subsection \<open>IntentClassifier\<close>

datatype child_intent = AskQuestion | Interrupt | Direct | Affirm | Deny | Unknown

definition starts_with_any :: "string \<Rightarrow> string list \<Rightarrow> bool" where
  "starts_with_any s ws \<longleftrightarrow> list_ex (starts_with s) ws"

definition classify :: "string \<Rightarrow> child_intent" where
  "classify t =
     (let lower = js_lower t
      in if starts_with_any lower [''i want'', ''change'', ''make'', ''let's'', ''can we'', ''stop'', ''go'']
         then Direct
         else if starts_with_any lower [''why'', ''who'', ''what'', ''where'', ''when'', ''how'', ''?'']
         then AskQuestion
         else if starts_with_any lower
                [''yes'', ''yeah'', ''sure'', ''ok'', ''good'', ''cool'', ''love'', ''like'']
         then Affirm
         else if starts_with_any lower
                [''no'', ''nah'', ''hate'', ''dislike'', ''scary'', ''bad'', ''don't'']
         then Deny
         else if starts_with_any lower [''wait'', ''hold on'', ''pause''] then Interrupt
         else Unknown)"

text \<open>An answer that begins with \<open>good\<close> begins with \<open>go\<close> and counts as a directive.\<close>

lemma good_is_a_directive:
  assumes "starts_with (js_lower t) ''good''"
  shows "classify t = Direct"
proof -
  obtain u where "js_lower t = ''good'' @ u" using assms by (auto simp: starts_with_iff)
  then show ?thesis by (simp add: classify_def starts_with_any_def)
qed

subsection \<open>What the guardian lets through\<close>

lemma checkContent_total: "\<exists>r w'. checkContent P s age fallback w = (Inr r, w')"
  by (auto simp: checkContent_def Let_def split: option.splits prod.splits sum.splits bool.splits)

text \<open>C10: The check never throws. A text is called safe only if it has no injection pattern and no
  banned pattern, a well-formed reply of the model said so, and for a child under five none of the
  complex words occurs in it; every other case, an error of the model or a malformed reply included,
  is unsafe, and outside the third layer comes with a text to show instead.\<close>

theorem safe_passed_every_layer:
  "\<exists>r w'. checkContent P s age fallback w = (Inr r, w')
    \<and> (sf_isSafe r \<longleftrightarrow> \<not> injected s \<and> banned_by s = None
        \<and> (\<exists>j reason. fst (ask_model P s (child_age age) w) = Inr j
             \<and> parse_safety j = Some (True, reason))
        \<and> \<not> (child_age age < 5 \<and> too_complex s))
    \<and> (\<not> sf_isSafe r \<longrightarrow> truthy_string (sf_fallback r)
        \<or> (sf_fallback r = fallback
           \<and> child_age age < 5 \<and> too_complex s))"
proof -
  let ?a = "child_age age"
  have or: "or_string f d \<noteq> []" if "d \<noteq> []" for f d
    using that by (cases f) simp_all
  show ?thesis
  proof (cases "injected s \<or> banned_by s \<noteq> None")
    case True
    then show ?thesis by (auto simp: checkContent_def Let_def unsafe_def or split: option.splits)
  next
    case False
    obtain x w1 where ask: "ask_model P s ?a w = (x, w1)" by fastforce
    show ?thesis
      using False
      by (cases x)
         (auto simp: checkContent_def Let_def unsafe_def or ask last_layers_def
           split: option.splits bool.splits if_splits)
  qed
qed


definition agreeable :: "unit safety_ports" where
  \<comment> \<open>a model that finds everything safe\<close>
  "agreeable =
     \<lparr>sp_prompt = (\<lambda>a. []),
      sp_structured = (\<lambda>p m w. (Inr (JObj [(''isSafe'', JBool True)]), w))\<rparr>"

lemma agreeable_says: "ask_model agreeable s a w = (Inr (JObj [(''isSafe'', JBool True)]), w)"
  by (simp add: ask_model_def agreeable_def)

lemma agreeable_parsed: "parse_safety (JObj [(''isSafe'', JBool True)]) = Some (True, None)"
  by (simp add: parse_safety_def)

theorem safe_passed_every_layer_witness:
  "\<exists>r w'. checkContent agreeable ''The moon sleeps.'' (Some 4) None () = (Inr r, w') \<and> sf_isSafe r
    \<and> (\<exists>q v'. checkContent agreeable ''The moon pays taxes.'' (Some 4) None () = (Inr q, v') \<and> \<not> sf_isSafe q)"
proof -
  have a: "\<not> injected ''The moon sleeps.''" "banned_by ''The moon sleeps.'' = None"
    "\<not> too_complex ''The moon sleeps.''" "too_complex ''The moon pays taxes.''"
    by code_simp+
  have young: "child_age (Some 4) < 5" by (simp add: child_age_def)
  show ?thesis
    using safe_passed_every_layer [of agreeable "''The moon sleeps.''" "Some 4" None "()"]
      safe_passed_every_layer [of agreeable "''The moon pays taxes.''" "Some 4" None "()"]
      a young agreeable_parsed
    unfolding agreeable_says by fastforce
qed

subsection \<open>What gets past it, and what does not\<close>

lemma last_layers_strip:
  assumes "\<not> injected s" "banned_by s = None" "ask_model P s (child_age age) w = (Inr j, w')"
    and "parse_safety j = Some (True, reason)" "5 \<le> child_age age"
  shows "checkContent P s age fallback w =
    (Inr \<lparr>sf_isSafe = True, sf_reason = None, sf_fallback = None,
          sf_sanitized = Some (if js_trim (strip_thinking s) \<noteq> js_trim s
                               then js_trim (strip_thinking s) else s)\<rparr>, w')"
  using assms by (simp add: checkContent_def Let_def last_layers_def)

definition split_word :: string where
  "split_word = ''They saw bl<thinking></thinking>ood.''"

text \<open>Sanitising comes after the patterns and can undo them: a banned word that is split by a
  thinking tag passes every layer, and the sanitised text which is then shown has the word in one
  piece.\<close>

lemma sanitising_restores_banned_word:
  assumes "ask_model P split_word (child_age age) w = (Inr j, w')"
    and "parse_safety j = Some (True, reason)" "5 \<le> child_age age"
  shows "\<exists>r shown. checkContent P split_word age fallback w = (Inr r, w')
    \<and> sf_isSafe r \<and> sf_sanitized r = Some shown \<and> banned_by shown \<noteq> None"
proof -
  have pass: "\<not> injected split_word" "banned_by split_word = None" by code_simp+
  have shown: "js_trim (strip_thinking split_word) = ''They saw blood.''"
    "js_trim (strip_thinking split_word) \<noteq> js_trim split_word"
    "banned_by ''They saw blood.'' \<noteq> None" by code_simp+
  show ?thesis
    using last_layers_strip [OF pass assms, of fallback] shown by simp
qed

lemma sanitising_restores_banned_word_witness:
  "\<exists>r shown. checkContent agreeable split_word None None () = (Inr r, ())
    \<and> sf_isSafe r \<and> sf_sanitized r = Some shown \<and> banned_by shown \<noteq> None"
  by (rule sanitising_restores_banned_word [OF agreeable_says agreeable_parsed])
     (simp add: child_age_def)

text \<open>The model sees the first 2000 characters only: two texts that agree on them and contain no
  pattern get the same verdict from it, whatever follows.\<close>

lemma rest_is_not_judged:
  assumes "take 2000 s = take 2000 t" "5 \<le> child_age age"
    and "\<not> injected s" "banned_by s = None" "\<not> injected t" "banned_by t = None"
    and "checkContent P s age fallback w = (Inr r, w')" "checkContent P t age fallback w = (Inr q, v')"
  shows "sf_isSafe r = sf_isSafe q \<and> sf_reason r = sf_reason q \<and> w' = v'"
proof -
  have same: "ask_model P s (child_age age) w = ask_model P t (child_age age) w"
    using assms(1) by (simp add: ask_model_def)
  show ?thesis
    using assms(2-8) unfolding checkContent_def Let_def same
    by (auto simp: last_layers_def unsafe_def Let_def
        split: option.splits prod.splits sum.splits bool.splits if_splits)
qed

lemma rsearch_zs:
  assumes "\<And>p n. rmatch r (p, replicate n (CHR ''z'')) = []"
  shows "\<not> rsearch r p (replicate n (CHR ''z''))"
proof (induction n arbitrary: p)
  case 0
  then show ?case using assms [of p 0] by simp
next
  case (Suc n)
  then show ?case using assms [of p "Suc n"] by simp
qed

lemma not_z:
  "\<not> same_ci (CHR ''i'') (CHR ''z'')" "\<not> same_ci (CHR ''d'') (CHR ''z'')" "\<not> same_ci (CHR ''y'') (CHR ''z'')"
  "\<not> same_ci (CHR ''p'') (CHR ''z'')" "\<not> same_ci (CHR ''D'') (CHR ''z'')" "\<not> same_ci (CHR ''r'') (CHR ''z'')"
  "\<not> same_ci (CHR ''v'') (CHR ''z'')" "\<not> same_ci (CHR ''b'') (CHR ''z'')" "\<not> same_ci (CHR ''k'') (CHR ''z'')"
  "\<not> same_ci (CHR ''m'') (CHR ''z'')" "\<not> same_ci (CHR ''s'') (CHR ''z'')" "\<not> same_ci (CHR ''f'') (CHR ''z'')"
  "\<not> same_ci (CHR ''t'') (CHR ''z'')" "\<not> same_ci (CHR ''n'') (CHR ''z'')" "\<not> same_ci (CHR ''a'') (CHR ''z'')"
  by code_simp+

lemma patterns_without_z:
  assumes "r \<in> set INJECTION_PATTERNS \<union> snd ` set BANNED_PATTERNS"
  shows "\<not> rtest r (replicate n (CHR ''z''))"
  unfolding rtest_def
proof (rule rsearch_zs)
  fix p :: "char option" and n
  show "rmatch r (p, replicate n (CHR ''z'')) = []"
    using assms
    by (cases n)
       (auto simp: INJECTION_PATTERNS_def BANNED_PATTERNS_def dan_or_developer_def alternatives_def
         an_opt_def rseq_def rlit_ci_def rlit_def ropt_def not_z)
qed

lemma zs_pass: "\<not> injected (replicate n (CHR ''z''))" "banned_by (replicate n (CHR ''z'')) = None"
  using patterns_without_z [of _ n]
  by (force simp: injected_def banned_by_def list_ex_iff find_None_iff)+

lemma rest_is_not_judged_witness:
  "\<exists>r q. checkContent agreeable (replicate 2000 (CHR ''z'')) None None () = (Inr r, ())
    \<and> checkContent agreeable (replicate 3000 (CHR ''z'')) None None () = (Inr q, ())
    \<and> sf_isSafe r = sf_isSafe q"
proof -
  obtain r where r: "checkContent agreeable (replicate 2000 (CHR ''z'')) None None () = (Inr r, ())"
    using checkContent_total [of agreeable "replicate 2000 (CHR ''z'')" None None "()"] by auto
  obtain q where q: "checkContent agreeable (replicate 3000 (CHR ''z'')) None None () = (Inr q, ())"
    using checkContent_total [of agreeable "replicate 3000 (CHR ''z'')" None None "()"] by auto
  have "take 2000 (replicate 2000 (CHR ''z'')) = take 2000 (replicate 3000 (CHR ''z''))"
    unfolding take_replicate by simp
  from rest_is_not_judged [OF this _ zs_pass zs_pass r q] have "sf_isSafe r = sf_isSafe q"
    by (simp add: child_age_def)
  then show ?thesis using r q by blast
qed

lemma matches_rlit_ci:
  "list_all2 same_ci w x \<Longrightarrow>
   matches (rlit_ci w) (p, x @ v) ((if x = [] then p else Some (last x)), v)"
proof (induction w x arbitrary: p rule: list_all2_induct)
  case Nil
  then show ?case by (simp add: rlit_ci_def m_eps)
next
  case (Cons c w d x)
  have first: "matches (RChr (same_ci c)) (p, d # x @ v) (Some d, x @ v)"
    using Cons.hyps by (intro m_chr) simp
  have "matches (RSeq (RChr (same_ci c)) (rlit_ci w)) (p, d # x @ v)
      ((if x = [] then Some d else Some (last x)), v)"
    by (rule m_seq [OF first Cons.IH])
  then show ?case by (simp add: rlit_ci_def split: if_splits)
qed

text \<open>The pattern against the prompt \<open>DAN\<close> ignores case, so that every text in which the name Dan
  stands as a word is blocked as an injection, whatever the model would say.\<close>

lemma stories_about_dan_blocked:
  assumes "u = [] \<or> \<not> word_char (last u)" "v = [] \<or> \<not> word_char (hd v)"
    and "checkContent P (u @ ''Dan'' @ v) age fallback w = (Inr r, w')"
  shows "\<not> sf_isSafe r \<and> sf_reason r = Some ''Layer 0 Violation: Prompt injection attempt detected''
    \<and> w' = w"
proof -
  let ?p = "if u = [] then None else Some (last u)"
  have b1: "at_word_boundary (?p, ''Dan'' @ v)"
    using assms(1) by (auto simp: at_word_boundary_def word_char_def)
  have b2: "at_word_boundary (Some (CHR ''n''), v)"
    using assms(2) by (cases v) (auto simp: at_word_boundary_def word_char_def)
  have "list_all2 same_ci ''DAN'' ''Dan''" by code_simp
  from matches_rlit_ci [OF this, of ?p v]
  have lit: "matches (rlit_ci ''DAN'') (?p, ''Dan'' @ v) (Some (CHR ''n''), v)" by simp
  have "matches dan_or_developer (?p, ''Dan'' @ v) (Some (CHR ''n''), v)"
    unfolding dan_or_developer_def rseq_def foldr.simps o_apply id_apply
    by (intro m_alt1 m_seq [OF m_word [OF b1]] m_seq [OF lit] m_seq [OF m_word [OF b2]] m_eps)
  then have "rtest dan_or_developer (u @ ''Dan'' @ v)"
    unfolding rtest_iff by blast
  then have "injected (u @ ''Dan'' @ v)"
    by (simp add: injected_def INJECTION_PATTERNS_def)
  then show ?thesis using assms(3) by (auto simp: checkContent_def Let_def unsafe_def)
qed

lemma stories_about_dan_blocked_witness:
  "\<not> sf_isSafe (unsafe ''Layer 0 Violation: Prompt injection attempt detected''
      (Some ''Content blocked for security.''))
   \<and> (\<exists>r w'. checkContent agreeable ''Good night, Dan.'' None None () = (Inr r, w') \<and> \<not> sf_isSafe r)"
proof -
  obtain r w' where run: "checkContent agreeable (''Good night, '' @ ''Dan'' @ ''.'') None None () = (Inr r, w')"
    using checkContent_total [of agreeable "''Good night, '' @ ''Dan'' @ ''.''" None None "()"] by blast
  from stories_about_dan_blocked [OF _ _ run] have "\<not> sf_isSafe r" by (simp add: word_char_def)
  then show ?thesis using run by (auto simp: unsafe_def)
qed

end
