(* ===== verification/Voices.thy ===== *)
theory Voices
  imports Effects
begin

text \<open>
  Voice profiles: the entity (\<open>api/src/domain/entities/VoiceProfile.ts\<close>), the two use cases that
  make one (\<open>UploadVoiceUseCase\<close>, \<open>SelectVoiceUseCase\<close>) and the repository
  \<open>SupabaseVoiceRepository\<close>.  The clock, the random suffix of an identifier, the file storage
  and the repository are parameters.
\<close>

datatype voice_status = VPending | VProcessing | VReady | VFailed

record voice_profile =
  vp_id :: string
  vp_userId :: string
  vp_name :: string
  vp_sampleUrl :: "string option"
  vp_voiceModelId :: "string option"
  vp_status :: voice_status
  vp_createdAt :: millis
  vp_updatedAt :: "millis option"

definition vp_createPending :: "string \<Rightarrow> string \<Rightarrow> millis \<Rightarrow> string \<Rightarrow> millis \<Rightarrow> voice_profile" where
  "vp_createPending userId name now rnd now2 =
     \<lparr>vp_id = ''voice_'' @ show_int now @ ''_'' @ rnd, vp_userId = userId, vp_name = name,
      vp_sampleUrl = None, vp_voiceModelId = None, vp_status = VPending, vp_createdAt = now2,
      vp_updatedAt = None\<rparr>"

definition vp_setSampleUrl :: "string \<Rightarrow> millis \<Rightarrow> voice_profile \<Rightarrow> voice_profile" where
  "vp_setSampleUrl url now p =
     p\<lparr>vp_sampleUrl := Some url, vp_status := VProcessing, vp_updatedAt := Some now\<rparr>"

definition vp_setStandardVoice :: "string \<Rightarrow> millis \<Rightarrow> voice_profile \<Rightarrow> voice_profile" where
  "vp_setStandardVoice model now p =
     p\<lparr>vp_voiceModelId := Some model, vp_status := VReady, vp_updatedAt := Some now\<rparr>"

definition vp_markReady :: "string \<Rightarrow> millis \<Rightarrow> voice_profile \<Rightarrow> js_error + voice_profile" where
  "vp_markReady model now p =
     (if \<not> truthy_string (vp_sampleUrl p)
      then Inl (Err ''Error'' ''Cannot mark ready without sample URL'')
      else Inr (p\<lparr>vp_voiceModelId := Some model, vp_status := VReady, vp_updatedAt := Some now\<rparr>))"

definition vp_markFailed :: "millis \<Rightarrow> voice_profile \<Rightarrow> voice_profile" where
  "vp_markFailed now p = p\<lparr>vp_status := VFailed, vp_updatedAt := Some now\<rparr>"

definition vp_isReady :: "voice_profile \<Rightarrow> bool" where
  "vp_isReady p \<longleftrightarrow> vp_status p = VReady \<and> truthy_string (vp_voiceModelId p)"

definition vp_hasSample :: "voice_profile \<Rightarrow> bool" where
  "vp_hasSample p \<longleftrightarrow> truthy_string (vp_sampleUrl p)"

subsection \<open>Use cases\<close>

record 'w voice_ports =
  vo_now :: "'w \<Rightarrow> millis \<times> 'w"
  vo_random :: "'w \<Rightarrow> string \<times> 'w"
  vo_upload :: "string \<Rightarrow> string \<Rightarrow> ('w, string) eff"   \<comment> \<open>path and type; the data is left out\<close>
  vo_save :: "voice_profile \<Rightarrow> ('w, unit) eff"

definition new_profile :: "'w voice_ports \<Rightarrow> string \<Rightarrow> string \<Rightarrow> ('w, voice_profile) eff" where
  "new_profile V userId name =
     ebind (eread (vo_now V)) (\<lambda>now. ebind (eread (vo_random V)) (\<lambda>rnd.
     ebind (eread (vo_now V)) (\<lambda>now2. ereturn (vp_createPending userId name now rnd now2))))"

definition selectVoice :: "'w voice_ports \<Rightarrow> string \<Rightarrow> string \<Rightarrow> string \<Rightarrow> ('w, voice_profile) eff" where
  "selectVoice V userId name model =
     ebind (new_profile V userId name) (\<lambda>p0. ebind (eread (vo_now V)) (\<lambda>now.
       let p = vp_setStandardVoice model now p0
       in ethen (vo_save V p) (ereturn p)))"

definition getExtension :: "string \<Rightarrow> string" where
  "getExtension mimeType =
     (if mimeType = ''audio/wav'' then ''wav'' else if mimeType = ''audio/mpeg'' then ''mp3''
      else if mimeType = ''audio/webm'' then ''webm'' else if mimeType = ''audio/x-m4a'' then ''m4a''
      else ''bin'')"

definition upload_failed :: "'w voice_ports \<Rightarrow> voice_profile \<Rightarrow> js_error \<Rightarrow> ('w, voice_profile) eff" where
  \<comment> \<open>the \<open>catch\<close> block: \<open>save(profile).catch(console.error)\<close>, then \<open>throw error\<close>\<close>
  "upload_failed V p e =
     ebind (eread (vo_now V)) (\<lambda>now.
       ethen (etry (vo_save V (vp_markFailed now p)) (\<lambda>_. ereturn ())) (ethrow e))"

definition uploadVoice :: "'w voice_ports \<Rightarrow> string \<Rightarrow> string \<Rightarrow> string \<Rightarrow> ('w, voice_profile) eff" where
  "uploadVoice V userId name mimeType =
     ebind (new_profile V userId name) (\<lambda>p.
       let path = ''users/'' @ userId @ ''/'' @ vp_id p @ ''.'' @ getExtension mimeType
       in (\<lambda>w. case vo_upload V path mimeType w of
            (Inl e, w1) \<Rightarrow> upload_failed V p e w1
          | (Inr url, w1) \<Rightarrow>
              ebind (eread (vo_now V)) (\<lambda>t1. ebind (eread (vo_now V)) (\<lambda>t2.
                let p1 = vp_setSampleUrl url t1 p
                in case vp_markReady url t2 p1 of
                     Inl e \<Rightarrow> upload_failed V p1 e
                   | Inr p2 \<Rightarrow>
                       (\<lambda>w2. case vo_save V p2 w2 of
                          (Inl e, w3) \<Rightarrow> upload_failed V p2 e w3
                        | (Inr _, w3) \<Rightarrow> (Inr p2, w3)))) w1))"

subsection \<open>Rows\<close>

record voice_row =
  vr_id :: string
  vr_user_id :: string
  vr_name :: string
  vr_sample_url :: "string option"
  vr_voice_model_id :: "string option"
  vr_status :: string
  vr_created_at :: millis
  vr_updated_at :: "millis option"

definition voice_status_text :: "voice_status \<Rightarrow> string" where
  "voice_status_text st =
     (case st of VPending \<Rightarrow> ''pending'' | VProcessing \<Rightarrow> ''processing'' | VReady \<Rightarrow> ''ready''
      | VFailed \<Rightarrow> ''failed'')"

definition voice_status_of :: "string \<Rightarrow> voice_status" where
  \<comment> \<open>the cast of \<open>row.status\<close>, on the texts the code writes\<close>
  "voice_status_of t =
     (if t = ''pending'' then VPending else if t = ''processing'' then VProcessing
      else if t = ''ready'' then VReady else VFailed)"

definition voice_of_row :: "voice_row \<Rightarrow> voice_profile" where
  "voice_of_row r =
     \<lparr>vp_id = vr_id r, vp_userId = vr_user_id r, vp_name = vr_name r,
      vp_sampleUrl = or_undefined (vr_sample_url r),
      vp_voiceModelId = or_undefined (vr_voice_model_id r), vp_status = voice_status_of (vr_status r),
      vp_createdAt = vr_created_at r, vp_updatedAt = vr_updated_at r\<rparr>"

definition row_of_voice :: "voice_profile \<Rightarrow> voice_row" where
  "row_of_voice p =
     \<lparr>vr_id = vp_id p, vr_user_id = vp_userId p, vr_name = vp_name p,
      vr_sample_url = or_undefined (vp_sampleUrl p), vr_voice_model_id = or_undefined (vp_voiceModelId p),
      vr_status = voice_status_text (vp_status p), vr_created_at = vp_createdAt p,
      vr_updated_at = vp_updatedAt p\<rparr>"

subsection \<open>The repository\<close>

record 'w voice_db =
  vd_admin :: bool        \<comment> \<open>the service-role client is there\<close>
  vd_anon :: bool         \<comment> \<open>the other client is there\<close>
  vd_production :: bool   \<comment> \<open>\<open>NODE_ENV\<close> is \<open>production\<close>\<close>
  vd_byId :: "string \<Rightarrow> ('w, string + voice_row option) eff"   \<comment> \<open>\<open>Inl\<close> the message of the \<open>error\<close>\<close>
  vd_byUser :: "string \<Rightarrow> ('w, string + voice_row list) eff"
  vd_upsert :: "voice_row \<Rightarrow> ('w, string + unit) eff"

definition with_voice_client :: "'w voice_db \<Rightarrow> ('w, 'a) eff \<Rightarrow> ('w, 'a) eff" where
  "with_voice_client D m =
     (if vd_admin D then m
      else if vd_production D
      then ethrow (Err ''Error'' ''Supabase service role is required for voice profiles in production'')
      else if \<not> vd_anon D then ethrow (Err ''Error'' ''Supabase client not initialized'')
      else m)"

definition vr_findById :: "'w voice_db \<Rightarrow> string \<Rightarrow> ('w, voice_profile option) eff" where
  "vr_findById D i =
     with_voice_client D (ebind (vd_byId D i) (\<lambda>a.
       case a of Inr (Some row) \<Rightarrow> ereturn (Some (voice_of_row row)) | _ \<Rightarrow> ereturn None))"

definition vr_findByUserId :: "'w voice_db \<Rightarrow> string \<Rightarrow> ('w, voice_profile list) eff" where
  "vr_findByUserId D user =
     with_voice_client D (ebind (vd_byUser D user) (\<lambda>a.
       case a of
         Inl msg \<Rightarrow> ethrow (Err ''Error'' (''Failed to fetch voice profiles: '' @ msg))
       | Inr rows \<Rightarrow> ereturn (map voice_of_row rows)))"

definition vr_save :: "'w voice_db \<Rightarrow> voice_profile \<Rightarrow> ('w, unit) eff" where
  "vr_save D p =
     with_voice_client D (ebind (vd_upsert D (row_of_voice p)) (\<lambda>a.
       case a of
         Inl msg \<Rightarrow> ethrow (Err ''Error'' (''Failed to save voice profile: '' @ msg))
       | Inr _ \<Rightarrow> ereturn ()))"

text \<open>In production no voice profile is read or written without the service role.\<close>

lemma no_service_role:
  assumes "\<not> vd_admin D" "vd_production D"
  shows "isl (fst (vr_findById D i w)) \<and> isl (fst (vr_findByUserId D u w)) \<and> isl (fst (vr_save D p w))"
  using assms
  by (simp add: vr_findById_def vr_findByUserId_def vr_save_def with_voice_client_def ethrow_def)

lemma voice_roundtrip:
  assumes "vp_sampleUrl p \<noteq> Some []" "vp_voiceModelId p \<noteq> Some []"
  shows "voice_of_row (row_of_voice p) = p"
  using assms
  by (cases "vp_status p"; cases "vp_sampleUrl p"; cases "vp_voiceModelId p")
     (simp_all add: voice_of_row_def row_of_voice_def voice_status_of_def voice_status_text_def)

text \<open>A profile that an upload returns is ready and was saved; every failure is thrown on, after an
  attempt to save the profile as failed.\<close>

lemma uploaded_is_ready:
  assumes "uploadVoice V userId name mimeType w = (Inr p, w')"
  shows "vp_isReady p \<and> vp_hasSample p \<and> vp_userId p = userId
    \<and> (\<exists>w0. vo_save V p w0 = (Inr (), w'))"
  using assms
  by (auto simp: uploadVoice_def upload_failed_def new_profile_def ebind_def ethen_def eread_def
      ethrow_def etry_def Let_def vp_markReady_def vp_setSampleUrl_def vp_isReady_def
      vp_hasSample_def vp_createPending_def split: prod.splits sum.splits if_splits)

lemma upload_failed_throws: "\<exists>w'. upload_failed V p e w = (Inl e, w')"
  by (auto simp: upload_failed_def ebind_def ethen_def eread_def ethrow_def etry_def ereturn_def
      split: prod.splits sum.splits)

end
