(* ===== verification/Retry.thy ===== *)
theory Retry
  imports Effects
begin

text \<open>
  \<open>withRetry\<close> (\<open>api/src/infrastructure/resilience.ts\<close>): a call is repeated after exponentially
  growing delays.  \<open>nap\<close> is the timer, an effect on the world; the logger is left out.
\<close>

record retry_options =
  ro_maxRetries :: nat
  ro_baseDelayMs :: nat
  ro_maxDelayMs :: nat

definition DEFAULT_OPTIONS :: retry_options where
  "DEFAULT_OPTIONS = \<lparr>ro_maxRetries = 3, ro_baseDelayMs = 1000, ro_maxDelayMs = 10000\<rparr>"

definition retry_delay :: "retry_options \<Rightarrow> nat \<Rightarrow> nat" where
  "retry_delay opts attempt = min (ro_baseDelayMs opts * 2 ^ attempt) (ro_maxDelayMs opts)"

function retry_from ::
    "(nat \<Rightarrow> 'w \<Rightarrow> 'w) \<Rightarrow> retry_options \<Rightarrow> ('w, 'a) eff \<Rightarrow> nat \<Rightarrow> ('w, 'a) eff" where
  \<comment> \<open>the loop from \<open>attempt\<close> on\<close>
  "retry_from nap opts m attempt w =
     (case m w of
        (Inr a, w') \<Rightarrow> (Inr a, w')
      | (Inl e, w') \<Rightarrow>
          if attempt \<ge> ro_maxRetries opts then (Inl e, w')
          else retry_from nap opts m (Suc attempt) (nap (retry_delay opts attempt) w'))"
  by pat_completeness auto
termination
  by (relation "measure (\<lambda>(nap, opts, m, attempt, w). ro_maxRetries opts - attempt)") auto

declare retry_from.simps [simp del]

definition withRetry ::
    "(nat \<Rightarrow> 'w \<Rightarrow> 'w) \<Rightarrow> retry_options \<Rightarrow> ('w, 'a) eff \<Rightarrow> ('w, 'a) eff" where
  "withRetry nap opts m = retry_from nap opts m 0"

subsection \<open>What it promises\<close>

text \<open>The world after \<open>k\<close> failed attempts and the naps after them.\<close>

fun after_failures :: "(nat \<Rightarrow> 'w \<Rightarrow> 'w) \<Rightarrow> retry_options \<Rightarrow> ('w, 'a) eff \<Rightarrow> nat \<Rightarrow> 'w \<Rightarrow> 'w" where
  "after_failures nap opts m 0 w = w"
| "after_failures nap opts m (Suc k) w =
     nap (retry_delay opts k) (snd (m (after_failures nap opts m k w)))"

lemma retry_from_failures:
  assumes "\<And>i. i < k \<Longrightarrow> isl (fst (m (after_failures nap opts m i w)))" "j \<le> k"
    "k \<le> ro_maxRetries opts"
  shows "retry_from nap opts m j (after_failures nap opts m j w)
       = retry_from nap opts m k (after_failures nap opts m k w)"
  using assms(2)
proof (induction j rule: inc_induct)
  case base
  show ?case by simp
next
  case (step i)
  let ?w = "after_failures nap opts m i w"
  have "isl (fst (m ?w))" using assms(1) step by blast
  then obtain e w' where m: "m ?w = (Inl e, w')" by (cases "m ?w") (auto simp: isl_def)
  then have "retry_from nap opts m i ?w
      = retry_from nap opts m (Suc i) (nap (retry_delay opts i) w')"
    using step assms(3) by (subst retry_from.simps) simp
  then show ?case using step.IH m by simp
qed

text \<open>The first attempt that succeeds, among at most \<open>maxRetries + 1\<close>, gives the result.\<close>

lemma withRetry_success:
  assumes "k \<le> ro_maxRetries opts"
    and "\<And>i. i < k \<Longrightarrow> isl (fst (m (after_failures nap opts m i w)))"
    and "m (after_failures nap opts m k w) = (Inr a, w')"
  shows "withRetry nap opts m w = (Inr a, w')"
proof -
  have "withRetry nap opts m w = retry_from nap opts m k (after_failures nap opts m k w)"
    unfolding withRetry_def using retry_from_failures [of k m nap opts w 0] assms(1,2) by simp
  then show ?thesis using assms(3) by (subst (asm) retry_from.simps) simp
qed

text \<open>If all of them fail, the last error is thrown.\<close>

lemma withRetry_failure:
  assumes "\<And>i. i < ro_maxRetries opts \<Longrightarrow> isl (fst (m (after_failures nap opts m i w)))"
    and "m (after_failures nap opts m (ro_maxRetries opts) w) = (Inl e, w')"
  shows "withRetry nap opts m w = (Inl e, w')"
proof -
  have "withRetry nap opts m w = retry_from nap opts m (ro_maxRetries opts)
      (after_failures nap opts m (ro_maxRetries opts) w)"
    unfolding withRetry_def using retry_from_failures [of "ro_maxRetries opts" m nap opts w 0] assms(1) by simp
  then show ?thesis using assms(2) by (subst (asm) retry_from.simps) simp
qed

end
