(* ===== verification/Stories.thy ===== *)
theory Stories
  imports Retry
begin

text \<open>
  Stories: the value object \<open>StoryContent\<close>, the entity \<open>Story\<close> with the schema that
  guards its creation, and the row mapping and queries of \<open>SupabaseStoryRepository\<close>
  (\<open>api/src/domain/value-objects/StoryContent.ts\<close>, \<open>api/src/domain/entities/Story.ts\<close>,
  \<open>api/src/infrastructure/SupabaseStoryRepository.ts\<close>).

  Dates are milliseconds; \<open>toISOString\<close> and \<open>new Date\<close> are inverse to each other and are
  left out.  What \<open>z.string().url()\<close> accepts and what the database answers are parameters.
\<close>

subsection \<open>Splitting at a regular expression\<close>

function split_at :: "(string \<Rightarrow> nat) \<Rightarrow> string \<Rightarrow> string \<Rightarrow> string list" where
  \<comment> \<open>\<open>split\<close>: \<open>sep s\<close> is the length of the separator at the head of \<open>s\<close>, 0 for none;
      \<open>acc\<close> is the current piece, reversed\<close>
  "split_at sep acc [] = [rev acc]"
| "split_at sep acc (c # cs) =
     (if sep (c # cs) = 0 then split_at sep (c # acc) cs
      else rev acc # split_at sep [] (drop (sep (c # cs)) (c # cs)))"
  by pat_completeness auto
termination by (relation "measure (\<lambda>(sep, acc, s). length s)") auto

definition nl :: char where "nl = char_of (10 :: nat)"

definition blank_lines :: "string \<Rightarrow> nat" where
  \<comment> \<open>\<open>/\n\n+/\<close>\<close>
  "blank_lines s = (let n = length (takeWhile (\<lambda>c. c = nl) s) in if 2 \<le> n then n else 0)"

definition white_space :: "string \<Rightarrow> nat" where
  \<comment> \<open>\<open>/\s+/\<close>\<close>
  "white_space s = length (takeWhile js_space s)"

subsection \<open>Content\<close>

datatype audio_hint = Gentle | Excited | Whispered | Normal

record story_chapter =
  ch_title :: string
  ch_content :: string
  ch_audioHint :: "audio_hint option"

record story_content =
  sc_paragraphs :: "string list"
  sc_chapters :: "story_chapter list"
  sc_sleepScore :: real

definition sc_create ::
    "string list \<Rightarrow> story_chapter list option \<Rightarrow> real option \<Rightarrow> js_error + story_content" where
  "sc_create paragraphs chapters score =
     (if paragraphs = [] then Inl (Err ''Error'' ''Story must have at least one paragraph'')
      else Inr \<lparr>sc_paragraphs = paragraphs,
                sc_chapters = (case chapters of None \<Rightarrow> [] | Some cs \<Rightarrow> cs),
                sc_sleepScore = (case score of None \<Rightarrow> 5 | Some x \<Rightarrow> x)\<rparr>)"

definition raw_paragraphs :: "string \<Rightarrow> string list" where
  "raw_paragraphs t = filter (\<lambda>p. p \<noteq> []) (map js_trim (split_at blank_lines [] t))"

definition fromRawText :: "string \<Rightarrow> js_error + story_content" where
  "fromRawText t = sc_create (raw_paragraphs t) None None"

definition getFullText :: "story_content \<Rightarrow> string" where
  "getFullText c = join [nl, nl] (sc_paragraphs c)"

definition getWordCount :: "story_content \<Rightarrow> nat" where
  "getWordCount c =
     length (filter (\<lambda>w. w \<noteq> []) (split_at white_space [] (join '' '' (sc_paragraphs c))))"

definition isBedtimeSuitable :: "story_content \<Rightarrow> bool" where
  "isBedtimeSuitable c \<longleftrightarrow> 7 \<le> sc_sleepScore c"

subsection \<open>Story\<close>

datatype story_status = Generating | Completed | Failed | Blocked

record story =
  st_id :: string
  st_title :: string
  st_content :: story_content
  st_theme :: string
  st_ownerId :: string
  st_status :: story_status
  st_createdAt :: millis
  st_generatedAt :: "millis option"
  st_audioUrl :: "string option"

definition hex_char :: "char \<Rightarrow> bool" where
  "hex_char c =
     (let n = code c in (48 \<le> n \<and> n \<le> 57) \<or> (65 \<le> n \<and> n \<le> 70) \<or> (97 \<le> n \<and> n \<le> 102))"

definition is_uuid :: "string \<Rightarrow> bool" where
  \<comment> \<open>\<open>z.string().uuid()\<close>: 8, 4, 4, 4 and 12 hexadecimal digits between dashes\<close>
  "is_uuid s \<longleftrightarrow>
     (let ps = split_char (CHR ''-'') s
      in map length ps = [8, 4, 4, 4, 12] \<and> list_all (list_all hex_char) ps)"

definition StorySchema :: "(string \<Rightarrow> bool) \<Rightarrow> story \<Rightarrow> bool" where
  "StorySchema is_url s \<longleftrightarrow>
     is_uuid (st_id s) \<and> 1 \<le> length (st_title s) \<and> length (st_title s) \<le> 255
     \<and> is_uuid (st_ownerId s)
     \<and> (case st_audioUrl s of None \<Rightarrow> True | Some u \<Rightarrow> is_url u)"

definition zod_error :: js_error where
  \<comment> \<open>the name that tells a \<open>ZodError\<close>; its text is left out\<close>
  "zod_error = Err ''ZodError'' []"

definition story_create :: "(string \<Rightarrow> bool) \<Rightarrow> story \<Rightarrow> js_error + story" where
  "story_create is_url s = (if StorySchema is_url s then Inr s else Inl zod_error)"

definition story_complete :: "story \<Rightarrow> js_error + story" where
  "story_complete s =
     (if st_status s = Completed then Inl (Err ''Error'' ''Story is already completed'')
      else Inr (s\<lparr>st_status := Completed\<rparr>))"

definition story_fail :: "story \<Rightarrow> story" where
  "story_fail s = s\<lparr>st_status := Failed\<rparr>"

definition isReadable :: "story \<Rightarrow> bool" where
  "isReadable s \<longleftrightarrow> st_status s = Completed \<and> 0 < length (sc_paragraphs (st_content s))"

definition getEstimatedReadingTime :: "story \<Rightarrow> int" where
  "getEstimatedReadingTime s = \<lceil>real (getWordCount (st_content s)) / 150\<rceil>"

definition story_block :: "story \<Rightarrow> story" where
  "story_block s = s\<lparr>st_status := Blocked\<rparr>"

definition isBlocked :: "story \<Rightarrow> bool" where
  "isBlocked s \<longleftrightarrow> st_status s = Blocked"

record public_story =
  pu_id :: string
  pu_title :: string
  pu_content :: story_content
  pu_theme :: string
  pu_status :: story_status
  pu_createdAt :: millis
  pu_generatedAt :: "millis option"
  pu_audioUrl :: "string option"

definition story_toPublicJSON :: "story \<Rightarrow> public_story" where
  "story_toPublicJSON s =
     \<lparr>pu_id = st_id s, pu_title = st_title s, pu_content = st_content s, pu_theme = st_theme s,
      pu_status = st_status s, pu_createdAt = st_createdAt s, pu_generatedAt = st_generatedAt s,
      pu_audioUrl = st_audioUrl s\<rparr>"

subsection \<open>Rows\<close>

record story_row =
  sr_id :: string
  sr_user_id :: string
  sr_title :: string
  sr_content :: string
  sr_theme :: string
  sr_status :: string
  sr_audio_url :: "string option"
  sr_created_at :: millis
  sr_generated_at :: "millis option"

definition status_text :: "story_status \<Rightarrow> string" where
  "status_text st =
     (case st of Generating \<Rightarrow> ''generating'' | Completed \<Rightarrow> ''completed''
      | Failed \<Rightarrow> ''failed'' | Blocked \<Rightarrow> ''blocked'')"

definition status_of :: "string \<Rightarrow> story_status option" where
  "status_of t =
     (if t = ''generating'' then Some Generating else if t = ''completed'' then Some Completed
      else if t = ''failed'' then Some Failed else if t = ''blocked'' then Some Blocked else None)"

definition mapRowToStory :: "(string \<Rightarrow> bool) \<Rightarrow> story_row \<Rightarrow> js_error + story" where
  "mapRowToStory is_url r =
     (case fromRawText (sr_content r) of
        Inl e \<Rightarrow> Inl e
      | Inr c \<Rightarrow>
          (case status_of (sr_status r) of
             None \<Rightarrow> Inl zod_error
           | Some st \<Rightarrow>
               story_create is_url
                 \<lparr>st_id = sr_id r, st_title = sr_title r, st_content = c, st_theme = sr_theme r,
                  st_ownerId = sr_user_id r, st_status = st, st_createdAt = sr_created_at r,
                  st_generatedAt = sr_generated_at r, st_audioUrl = or_undefined (sr_audio_url r)\<rparr>))"

definition mapStoryToRow :: "story \<Rightarrow> story_row" where
  "mapStoryToRow s =
     \<lparr>sr_id = st_id s, sr_user_id = st_ownerId s, sr_title = st_title s,
      sr_content = getFullText (st_content s), sr_theme = st_theme s,
      sr_status = status_text (st_status s), sr_audio_url = or_undefined (st_audioUrl s),
      sr_created_at = st_createdAt s, sr_generated_at = st_generatedAt s\<rparr>"

subsection \<open>Queries\<close>

text \<open>An answer of the client: the \<open>data\<close>, or the message of the \<open>error\<close>.\<close>

type_synonym 'a db_answer = "string + 'a"

record 'w story_db =
  sb_connected :: bool   \<comment> \<open>one of the two clients is there\<close>
  sb_byId :: "string \<Rightarrow> ('w, story_row option db_answer) eff"
  sb_upsert :: "story_row \<Rightarrow> ('w, unit db_answer) eff"
  sb_byUser :: "string \<Rightarrow> nat option \<Rightarrow> ('w, story_row list db_answer) eff"   \<comment> \<open>newest first\<close>
  sb_nap :: "nat \<Rightarrow> 'w \<Rightarrow> 'w"
  sb_isUrl :: "string \<Rightarrow> bool"

definition missing_client :: "string \<Rightarrow> js_error" where
  "missing_client sfx = Err ''Error'' (''Supabase client not initialized'' @ sfx)"

definition lift_sum :: "js_error + 'a \<Rightarrow> ('w, 'a) eff" where
  "lift_sum x = (case x of Inl e \<Rightarrow> ethrow e | Inr a \<Rightarrow> ereturn a)"

fun map_sum_list :: "('a \<Rightarrow> 'e + 'b) \<Rightarrow> 'a list \<Rightarrow> 'e + 'b list" where
  "map_sum_list f [] = Inr []"
| "map_sum_list f (x # xs) =
     (case f x of
        Inl e \<Rightarrow> Inl e
      | Inr y \<Rightarrow> (case map_sum_list f xs of Inl e \<Rightarrow> Inl e | Inr ys \<Rightarrow> Inr (y # ys)))"

abbreviation retrying :: "'w story_db \<Rightarrow> ('w, 'a) eff \<Rightarrow> ('w, 'a) eff" where
  "retrying D m \<equiv> withRetry (sb_nap D) DEFAULT_OPTIONS m"

definition sr_findById :: "'w story_db \<Rightarrow> string \<Rightarrow> ('w, story option) eff" where
  "sr_findById D i =
     (if \<not> sb_connected D then ethrow (missing_client '' - Critical Infrastructure Missing'')
      else retrying D (ebind (sb_byId D i) (\<lambda>a.
        case a of
          Inr (Some row) \<Rightarrow> ebind (lift_sum (mapRowToStory (sb_isUrl D) row)) (\<lambda>s. ereturn (Some s))
        | _ \<Rightarrow> ereturn None)))"

definition sr_save :: "'w story_db \<Rightarrow> story \<Rightarrow> ('w, unit) eff" where
  "sr_save D s =
     (if \<not> sb_connected D then ethrow (missing_client [])
      else retrying D (ebind (sb_upsert D (mapStoryToRow s)) (\<lambda>a.
        case a of
          Inl msg \<Rightarrow> ethrow (Err ''Error'' (''Failed to save story: '' @ msg))
        | Inr _ \<Rightarrow> ereturn ())))"

definition sr_list ::
    "'w story_db \<Rightarrow> string \<Rightarrow> string \<Rightarrow> nat option \<Rightarrow> ('w, story list) eff" where
  "sr_list D what user limit =
     (if \<not> sb_connected D then ethrow (missing_client '' - Critical Infrastructure Missing'')
      else retrying D (ebind (sb_byUser D user limit) (\<lambda>a.
        case a of
          Inl msg \<Rightarrow> ethrow (Err ''Error'' (what @ msg))
        | Inr rows \<Rightarrow> lift_sum (map_sum_list (mapRowToStory (sb_isUrl D)) rows))))"

definition sr_findByUserId :: "'w story_db \<Rightarrow> string \<Rightarrow> ('w, story list) eff" where
  "sr_findByUserId D user = sr_list D ''Failed to fetch stories: '' user None"

definition sr_findRecent :: "'w story_db \<Rightarrow> string \<Rightarrow> nat \<Rightarrow> ('w, story list) eff" where
  "sr_findRecent D user limit = sr_list D ''Failed to fetch recent stories: '' user (Some limit)"

subsection \<open>Reading stories\<close>

definition getStory :: "(string \<Rightarrow> ('w, story option) eff) \<Rightarrow> string \<Rightarrow> string \<Rightarrow> ('w, story) eff" where
  \<comment> \<open>\<open>GetStoryUseCase\<close>\<close>
  "getStory findById userId storyId =
     ebind (findById storyId) (\<lambda>s.
       case s of
         None \<Rightarrow> ethrow (Err ''Error'' ''Story not found'')
       | Some st \<Rightarrow>
           (if st_ownerId st \<noteq> userId
            then ethrow (Err ''Error'' ''Unauthorized: You do not have permission to view this story'')
            else ereturn st))"

datatype history_filter = All | Starred | Recent

definition slice_to :: "int \<Rightarrow> 'a list \<Rightarrow> 'a list" where
  \<comment> \<open>\<open>xs.slice(0, n)\<close>; a negative \<open>n\<close> counts from the end\<close>
  "slice_to n xs = take (if 0 \<le> n then nat n else length xs - nat (- n)) xs"

definition getStoryHistory ::
    "(string \<Rightarrow> ('w, story list) eff) \<Rightarrow> (string \<Rightarrow> int \<Rightarrow> ('w, story list) eff)
      \<Rightarrow> string \<Rightarrow> int option \<Rightarrow> history_filter option \<Rightarrow> ('w, story list \<times> nat) eff" where
  \<comment> \<open>\<open>GetStoryHistoryUseCase\<close>; a limit of 0 is no limit\<close>
  "getStoryHistory byUser recent userId limit flt =
     (if userId = [] then ethrow (Err ''Error'' ''User ID is required'')
      else ebind (if flt = Some Recent
                  then recent userId (case limit of None \<Rightarrow> 10 | Some n \<Rightarrow> n) else byUser userId)
        (\<lambda>stories.
          let kept = (case limit of
                        None \<Rightarrow> stories
                      | Some n \<Rightarrow> if n \<noteq> 0 \<and> int (length stories) > n then slice_to n stories else stories)
          in ereturn (kept, length kept)))"

subsection \<open>Round trips\<close>

fun plain :: "string \<Rightarrow> bool" where
  \<comment> \<open>no blank line inside, no line break at the end\<close>
  "plain [] = True"
| "plain [c] = (c \<noteq> nl)"
| "plain (c # d # cs) = (\<not> (c = nl \<and> d = nl) \<and> plain (d # cs))"

definition tidy :: "string \<Rightarrow> bool" where
  \<comment> \<open>a paragraph as \<open>fromRawText\<close> leaves it\<close>
  "tidy p \<longleftrightarrow> p \<noteq> [] \<and> plain p \<and> \<not> js_space (hd p) \<and> \<not> js_space (last p)"

lemma nl_space [simp]: "js_space nl"
  by (simp add: js_space_def nl_def)

lemma dropWhile_keep: "xs = [] \<or> \<not> P (hd xs) \<Longrightarrow> dropWhile P xs = xs"
  by (cases xs) auto

lemma js_trim_tidy: "p \<noteq> [] \<Longrightarrow> \<not> js_space (hd p) \<Longrightarrow> \<not> js_space (last p) \<Longrightarrow> js_trim p = p"
  by (simp add: js_trim_def dropWhile_keep hd_rev)

lemma dropWhile_hd: "dropWhile P s \<noteq> [] \<Longrightarrow> \<not> P (hd (dropWhile P s))"
  using hd_dropWhile by blast

lemma js_trim_ends:
  assumes "js_trim s \<noteq> []"
  shows "\<not> js_space (hd (js_trim s))" "\<not> js_space (last (js_trim s))"
proof -
  let ?d = "dropWhile js_space s" and ?e = "dropWhile js_space (rev (dropWhile js_space s))"
  have e: "?e \<noteq> []" using assms by (simp add: js_trim_def)
  show "\<not> js_space (last (js_trim s))"
    using dropWhile_hd [OF e] by (simp add: js_trim_def last_rev)
  have d: "?d \<noteq> []" using e by fastforce
  obtain u where u: "rev ?d = u @ ?e" by (metis takeWhile_dropWhile_id)
  then have "?d = rev ?e @ rev u" by (metis rev_append rev_rev_ident)
  then have "hd ?d = hd (rev ?e)" using e by (metis hd_append2 rev_is_Nil_conv)
  then show "\<not> js_space (hd (js_trim s))" using dropWhile_hd [OF d] by (simp add: js_trim_def)
qed

lemma js_trim_infix: "\<exists>u v. s = u @ js_trim s @ v"
proof -
  let ?d = "dropWhile js_space s" and ?e = "dropWhile js_space (rev (dropWhile js_space s))"
  obtain u where u: "s = u @ ?d" by (metis takeWhile_dropWhile_id)
  obtain v where v: "rev ?d = v @ ?e" by (metis takeWhile_dropWhile_id)
  then have "?d = rev ?e @ rev v" by (metis rev_append rev_rev_ident)
  then have "s = u @ js_trim s @ rev v" using u by (simp add: js_trim_def)
  then show ?thesis by blast
qed

lemma blank_none:
  assumes "plain (c # cs)"
  shows "blank_lines ((c # cs) @ t) = 0"
  using assms by (cases cs) (auto simp: blank_lines_def)

lemma plain_Cons: "plain (c # cs) \<Longrightarrow> plain cs"
  by (cases cs) auto

lemma split_plain:
  "plain p \<Longrightarrow> split_at blank_lines acc (p @ t) = split_at blank_lines (rev p @ acc) t"
proof (induction p arbitrary: acc)
  case (Cons c p)
  have "blank_lines (c # p @ t) = 0" using blank_none [OF Cons.prems] by simp
  then show ?case using Cons.IH [OF plain_Cons [OF Cons.prems]] by simp
qed simp

lemma blank_two: "s = [] \<or> hd s \<noteq> nl \<Longrightarrow> blank_lines (nl # nl # s) = 2"
  by (cases s) (auto simp: blank_lines_def)

lemma split_joined:
  assumes "list_all tidy (p # ps)"
  shows "split_at blank_lines [] (join [nl, nl] (p # ps)) = p # ps"
  using assms
proof (induction ps arbitrary: p)
  case Nil
  then show ?case using split_plain [of p "[]" "[]"] by (simp add: tidy_def)
next
  case (Cons q ps)
  let ?t = "join [nl, nl] (q # ps)"
  have t: "?t = [] \<or> hd ?t \<noteq> nl"
    using Cons.prems by (cases ps) (auto simp: tidy_def)
  have "split_at blank_lines [] (join [nl, nl] (p # q # ps)) = split_at blank_lines (rev p) (nl # nl # ?t)"
    using split_plain [of p "[]" "[nl, nl] @ ?t"] Cons.prems by (simp add: tidy_def)
  also have "\<dots> = p # split_at blank_lines [] ?t"
    using blank_two [OF t] by simp
  finally show ?case using Cons by simp
qed

lemma raw_paragraphs_joined:
  assumes "list_all tidy ps" "ps \<noteq> []"
  shows "raw_paragraphs (join [nl, nl] ps) = ps"
proof -
  obtain p qs where ps: "ps = p # qs" using assms(2) by (cases ps) auto
  have "split_at blank_lines [] (join [nl, nl] ps) = ps"
    using split_joined assms(1) unfolding ps by blast
  moreover have "filter (\<lambda>p. p \<noteq> []) (map js_trim ps) = ps"
    using assms(1) by (induction ps) (auto simp: tidy_def js_trim_tidy)
  ultimately show ?thesis by (simp add: raw_paragraphs_def)
qed

text \<open>What \<open>fromRawText\<close> makes is tidy.\<close>

fun no_blank :: "string \<Rightarrow> bool" where
  "no_blank (c # d # cs) = (\<not> (c = nl \<and> d = nl) \<and> no_blank (d # cs))"
| "no_blank s = True"

lemma no_blank_append:
  "no_blank (u @ v) \<longleftrightarrow> no_blank u \<and> no_blank v \<and> (u = [] \<or> v = [] \<or> \<not> (last u = nl \<and> hd v = nl))"
proof (induction u rule: no_blank.induct)
  case (1 c d cs)
  then show ?case by auto
qed (cases v; auto)+

lemma plain_iff: "plain p \<longleftrightarrow> no_blank p \<and> (p = [] \<or> last p \<noteq> nl)"
  by (induction p rule: plain.induct) auto

lemma split_pieces:
  "no_blank (rev acc) \<Longrightarrow> (acc \<noteq> [] \<longrightarrow> hd acc = nl \<longrightarrow> s = [] \<or> hd s \<noteq> nl) \<Longrightarrow>
   q \<in> set (split_at blank_lines acc s) \<Longrightarrow> no_blank q"
proof (induction blank_lines acc s rule: split_at.induct)
  case (1 acc)
  then show ?case by simp
next
  case (2 acc c cs)
  show ?case
  proof (cases "blank_lines (c # cs) = 0")
    case True
    have "no_blank (rev (c # acc))"
      using "2.prems"(1,2) by (cases acc) (auto simp: no_blank_append)
    moreover have "c = nl \<longrightarrow> cs = [] \<or> hd cs \<noteq> nl"
      using True by (cases cs) (auto simp: blank_lines_def Let_def split: if_splits)
    ultimately show ?thesis using "2.hyps"(1) [OF True] "2.prems"(3) True by auto
  next
    case False
    then show ?thesis using "2.hyps"(2) [OF False] "2.prems" by auto
  qed
qed

lemma raw_paragraphs_tidy: "list_all tidy (raw_paragraphs t)"
proof -
  have "tidy (js_trim q)" if "q \<in> set (split_at blank_lines [] t)" "js_trim q \<noteq> []" for q
  proof -
    have "no_blank q" using split_pieces [of "[]" t q] that(1) by simp
    then have "no_blank (js_trim q)" using js_trim_infix [of q] by (metis no_blank_append)
    moreover have "last (js_trim q) \<noteq> nl" using js_trim_ends(2) [OF that(2)] by auto
    ultimately show ?thesis using js_trim_ends [OF that(2)] that(2) by (simp add: tidy_def plain_iff)
  qed
  then show ?thesis by (auto simp: raw_paragraphs_def list_all_iff)
qed

definition tidy_content :: "story_content \<Rightarrow> bool" where
  "tidy_content c \<longleftrightarrow> sc_paragraphs c \<noteq> [] \<and> list_all tidy (sc_paragraphs c)
     \<and> sc_chapters c = [] \<and> sc_sleepScore c = 5"

lemma fromRawText_tidy: "fromRawText t = Inr c \<Longrightarrow> tidy_content c"
  using raw_paragraphs_tidy by (auto simp: fromRawText_def sc_create_def tidy_content_def split: if_splits)

lemma content_roundtrip:
  assumes "tidy_content c"
  shows "fromRawText (getFullText c) = Inr c"
proof -
  have "raw_paragraphs (getFullText c) = sc_paragraphs c"
    using assms raw_paragraphs_joined by (simp add: getFullText_def tidy_content_def)
  then show ?thesis using assms by (simp add: fromRawText_def sc_create_def tidy_content_def)
qed

lemma status_roundtrip [simp]: "status_of (status_text st) = Some st"
  by (cases st) (simp_all add: status_of_def status_text_def)

lemma story_row_roundtrip:
  assumes "tidy_content (st_content s)" "StorySchema is_url s" "st_audioUrl s \<noteq> Some []"
  shows "mapRowToStory is_url (mapStoryToRow s) = Inr s"
  using assms content_roundtrip [OF assms(1)]
  by (cases "st_audioUrl s")
     (simp_all add: mapRowToStory_def mapStoryToRow_def story_create_def or_undefined_def
       truthy_string_def StorySchema_def)

lemma row_story_valid: "mapRowToStory is_url r = Inr s \<Longrightarrow> StorySchema is_url s \<and> tidy_content (st_content s)"
  using fromRawText_tidy
  by (fastforce simp: mapRowToStory_def story_create_def split: sum.splits option.splits if_splits)

subsection \<open>A table of rows\<close>

text \<open>The table \<open>stories\<close> as the database documents it: \<open>upsert\<close> on the key \<open>id\<close>.\<close>

type_synonym story_table = "string \<rightharpoonup> story_row"

definition table_db :: "(string \<Rightarrow> bool) \<Rightarrow> (string \<Rightarrow> nat option \<Rightarrow> story_table \<Rightarrow> story_row list) \<Rightarrow> story_table story_db" where
  "table_db is_url listing =
     \<lparr>sb_connected = True, sb_byId = (\<lambda>i T. (Inr (Inr (T i)), T)),
      sb_upsert = (\<lambda>r T. (Inr (Inr ()), T(sr_id r \<mapsto> r))),
      sb_byUser = (\<lambda>u n T. (Inr (Inr (listing u n T)), T)), sb_nap = (\<lambda>d T. T),
      sb_isUrl = is_url\<rparr>"

lemma withRetry_first: "m w = (Inr a, w') \<Longrightarrow> withRetry nap opts m w = (Inr a, w')"
  by (rule withRetry_success [of 0]) auto

lemma save_run:
  "sr_save (table_db is_url listing) s T = (Inr (), T(st_id s \<mapsto> mapStoryToRow s))"
  by (simp add: sr_save_def table_db_def withRetry_first mapStoryToRow_def)

lemma find_run:
  "T i = Some r \<Longrightarrow> mapRowToStory is_url r = Inr s \<Longrightarrow>
   sr_findById (table_db is_url listing) i T = (Inr (Some s), T)"
  by (simp add: sr_findById_def table_db_def withRetry_first lift_sum_def)

text \<open>C11: a story with a content made from raw text, that its schema accepts, is found again after
  it has been saved exactly as it was, its paragraphs included, whatever else the table holds.\<close>

theorem saved_story_is_found:
  assumes "fromRawText t = Inr c" "story_create is_url s = Inr s'" "st_content s = c"
    "st_audioUrl s \<noteq> Some []"
    and "sr_save (table_db is_url listing) s' T = (r, T')"
  shows "r = Inr () \<and> sr_findById (table_db is_url listing) (st_id s) T' = (Inr (Some s), T')
    \<and> getStory (sr_findById (table_db is_url listing)) (st_ownerId s) (st_id s) T' = (Inr s, T')"
proof -
  have s': "s' = s" "StorySchema is_url s" using assms(2) by (auto simp: story_create_def split: if_splits)
  have "tidy_content (st_content s)" using fromRawText_tidy [OF assms(1)] assms(3) by simp
  then have row: "mapRowToStory is_url (mapStoryToRow s) = Inr s"
    using story_row_roundtrip s'(2) assms(4) by blast
  have T': "T' = T(st_id s \<mapsto> mapStoryToRow s)" "r = Inr ()"
    using assms(5) s'(1) save_run [of is_url listing s T] by auto
  have "sr_findById (table_db is_url listing) (st_id s) T' = (Inr (Some s), T')"
    using T' row by (intro find_run) simp_all
  then show ?thesis using T' by (simp add: getStory_def)
qed

definition sample_uuid :: string where
  "sample_uuid = ''0123abcd-0123-0123-0123-0123456789ab''"

definition sample_story :: story where
  "sample_story =
     \<lparr>st_id = sample_uuid, st_title = ''Moon'',
      st_content = \<lparr>sc_paragraphs = [''One'', ''Two''], sc_chapters = [], sc_sleepScore = 5\<rparr>,
      st_theme = ''sky'', st_ownerId = sample_uuid, st_status = Completed, st_createdAt = 7,
      st_generatedAt = None, st_audioUrl = None\<rparr>"

theorem saved_story_is_found_witness:
  "sr_findById (table_db (\<lambda>_. False) (\<lambda>_ _ _. [])) sample_uuid
     [sample_uuid \<mapsto> mapStoryToRow sample_story]
   = (Inr (Some sample_story), [sample_uuid \<mapsto> mapStoryToRow sample_story])"
proof -
  have raw: "fromRawText ('' One'' @ [nl, nl, nl] @ ''Two'' @ [nl]) = Inr (st_content sample_story)"
    by code_simp
  have ok: "story_create (\<lambda>_. False) sample_story = Inr sample_story" by code_simp
  have save: "sr_save (table_db (\<lambda>_. False) (\<lambda>_ _ _. [])) sample_story Map.empty
      = (Inr (), [sample_uuid \<mapsto> mapStoryToRow sample_story])"
    unfolding save_run by (simp add: sample_story_def)
  have id: "st_id sample_story = sample_uuid" "st_audioUrl sample_story \<noteq> Some []"
    by (simp_all add: sample_story_def)
  from saved_story_is_found [OF raw ok refl id(2) save] show ?thesis unfolding id(1) by blast
qed

end
