(* ===== verification/Companions.thy ===== *)
theory Companions
  imports Stories "HOL-Library.AList"
begin

text \<open>
  Dream companions, which a child unlocks by collecting stories: the catalogue
  (\<open>api/src/domain/entities/DreamCompanion.ts\<close>), \<open>CheckUnlockUseCase\<close>, the repository
  \<open>SupabaseCompanionUnlockRepository\<close> and the route \<open>/companions/progress\<close>.  The client of the
  database is a parameter; the table of unlocks with its primary key is also given as a world of
  its own (\<open>unlock_table\<close>), over which the use case is shown to keep what was unlocked.
\<close>

datatype species = Owl | Fox | Bear | Rabbit | Dragon | Cat

record companion =
  dc_id :: string
  dc_name :: string
  dc_species :: species
  dc_description :: string
  dc_unlockThreshold :: nat
  dc_isUnlocked :: bool
  dc_unlockedAt :: "millis option"

definition AVAILABLE_COMPANIONS :: "companion list" where
  "AVAILABLE_COMPANIONS =
     [\<lparr>dc_id = ''c_luna'', dc_name = ''Luna the Owl'', dc_species = Owl,
       dc_description = ''A wise owl who loves stories about the moon.'',
       dc_unlockThreshold = 3, dc_isUnlocked = False, dc_unlockedAt = None\<rparr>,
      \<lparr>dc_id = ''c_rusty'', dc_name = ''Rusty the Fox'', dc_species = Fox,
       dc_description = ''A clever fox who enjoys adventures in the forest.'',
       dc_unlockThreshold = 5, dc_isUnlocked = False, dc_unlockedAt = None\<rparr>,
      \<lparr>dc_id = ''c_barnaby'', dc_name = ''Barnaby the Bear'', dc_species = Bear,
       dc_description = ''A gentle giant who loves cozy bedtime tales.'',
       dc_unlockThreshold = 10, dc_isUnlocked = False, dc_unlockedAt = None\<rparr>]"

definition dc_unlock :: "millis \<Rightarrow> companion \<Rightarrow> companion" where
  "dc_unlock now c = c\<lparr>dc_isUnlocked := True, dc_unlockedAt := Some now\<rparr>"

definition dc_checkUnlock :: "millis \<Rightarrow> nat \<Rightarrow> companion \<Rightarrow> bool \<times> companion" where
  "dc_checkUnlock now count c =
     (if dc_isUnlocked c then (False, c)
      else if dc_unlockThreshold c \<le> count then (True, dc_unlock now c)
      else (False, c))"

subsection \<open>The use case\<close>

record 'w companion_ports =
  cq_stories :: "string \<Rightarrow> ('w, story list) eff"
  cq_unlocks :: "string \<Rightarrow> ('w, (string \<times> millis) list) eff"
  cq_blocked :: "('w, string list) eff"
  cq_upsert :: "string \<Rightarrow> string \<Rightarrow> millis \<Rightarrow> ('w, unit) eff"
  cq_now :: "'w \<Rightarrow> millis \<times> 'w"

type_synonym unlocks = "string \<rightharpoonup> millis"

definition unlock_due :: "nat \<Rightarrow> string list \<Rightarrow> unlocks \<Rightarrow> companion \<Rightarrow> bool" where
  \<comment> \<open>none of the three \<open>continue\<close>s is taken\<close>
  "unlock_due count blocked m c \<longleftrightarrow>
     dc_id c \<notin> set blocked \<and> \<not> count < dc_unlockThreshold c \<and> m (dc_id c) = None"

fun unlock_loop ::
    "'w companion_ports \<Rightarrow> string \<Rightarrow> nat \<Rightarrow> string list \<Rightarrow> companion list \<Rightarrow> unlocks \<Rightarrow> ('w, unlocks) eff" where
  "unlock_loop P user count blocked [] m = ereturn m"
| "unlock_loop P user count blocked (c # cs) m =
     (if unlock_due count blocked m c
      then ebind (eread (cq_now P)) (\<lambda>now.
             ethen (cq_upsert P user (dc_id c) now)
               (unlock_loop P user count blocked cs (m(dc_id c \<mapsto> now))))
      else unlock_loop P user count blocked cs m)"

definition unlocked_of :: "string list \<Rightarrow> unlocks \<Rightarrow> companion list" where
  \<comment> \<open>the last loop of the use case\<close>
  "unlocked_of blocked m =
     concat (map (\<lambda>c. if dc_id c \<in> set blocked then []
                       else (case m (dc_id c) of
                               None \<Rightarrow> []
                             | Some t \<Rightarrow> [c\<lparr>dc_isUnlocked := True, dc_unlockedAt := Some t\<rparr>]))
       AVAILABLE_COMPANIONS)"

definition map_of_entries :: "(string \<times> millis) list \<Rightarrow> unlocks" where
  \<comment> \<open>\<open>new Map(entries)\<close>: a later entry replaces an earlier one\<close>
  "map_of_entries es = map_of (rev es)"

definition checkUnlock :: "'w companion_ports \<Rightarrow> string \<Rightarrow> ('w, companion list) eff" where
  "checkUnlock P user =
     ebind (cq_stories P user) (\<lambda>stories.
     ebind (cq_unlocks P user) (\<lambda>existing.
     ebind (cq_blocked P) (\<lambda>blocked.
     ebind (unlock_loop P user (length stories) blocked AVAILABLE_COMPANIONS
              (map_of_entries existing)) (\<lambda>m.
       ereturn (unlocked_of blocked m)))))"

subsection \<open>The repository\<close>

record 'w unlock_db =
  ud_connected :: bool
  ud_select :: "string \<Rightarrow> ('w, (string \<times> millis) list db_answer) eff"   \<comment> \<open>oldest first\<close>
  ud_upsert :: "string \<Rightarrow> string \<Rightarrow> millis \<Rightarrow> ('w, unit db_answer) eff"
  ud_nap :: "nat \<Rightarrow> 'w \<Rightarrow> 'w"

definition listUnlockedByUserId :: "'w unlock_db \<Rightarrow> string \<Rightarrow> ('w, (string \<times> millis) list) eff" where
  "listUnlockedByUserId D user =
     (if \<not> ud_connected D then ethrow (missing_client '' - Critical Infrastructure Missing'')
      else withRetry (ud_nap D) DEFAULT_OPTIONS (ebind (ud_select D user) (\<lambda>a.
        case a of
          Inl msg \<Rightarrow> ethrow (Err ''Error'' (''Failed to fetch companion unlocks: '' @ msg))
        | Inr rows \<Rightarrow> ereturn rows)))"

definition upsertUnlock :: "'w unlock_db \<Rightarrow> string \<Rightarrow> string \<Rightarrow> millis \<Rightarrow> ('w, unit) eff" where
  "upsertUnlock D user cid t =
     (if \<not> ud_connected D then ethrow (missing_client [])
      else withRetry (ud_nap D) DEFAULT_OPTIONS (ebind (ud_upsert D user cid t) (\<lambda>a.
        case a of
          Inl msg \<Rightarrow> ethrow (Err ''Error'' (''Failed to upsert companion unlock: '' @ msg))
        | Inr _ \<Rightarrow> ereturn ())))"

subsection \<open>Progress\<close>

record progress =
  pg_storyCount :: nat
  pg_unlocked :: "companion list"
  pg_next :: "(string \<times> nat \<times> nat) option"   \<comment> \<open>companion, threshold, stories that are missing\<close>

definition companions_progress :: "'w companion_ports \<Rightarrow> string \<Rightarrow> ('w, progress) eff" where
  "companions_progress P user =
     ebind (cq_stories P user) (\<lambda>stories.
     ebind (checkUnlock P user) (\<lambda>unlocked.
     ebind (cq_blocked P) (\<lambda>blocked.
       let rest = filter (\<lambda>c. dc_id c \<notin> dc_id ` set unlocked)
                    (filter (\<lambda>c. dc_id c \<notin> set blocked) AVAILABLE_COMPANIONS)
       in ereturn
            \<lparr>pg_storyCount = length stories, pg_unlocked = unlocked,
             pg_next = (case sort_key dc_unlockThreshold rest of
                          [] \<Rightarrow> None
                        | c # _ \<Rightarrow> Some (dc_id c, dc_unlockThreshold c,
                                     dc_unlockThreshold c - length stories))\<rparr>)))"

subsection \<open>The table of unlocks\<close>

record unlock_world =
  uw_unlocks :: "string \<Rightarrow> (string \<times> millis) list"   \<comment> \<open>the rows of a user\<close>
  uw_stories :: "string \<Rightarrow> story list"
  uw_blocked :: "string list"
  uw_clock :: millis

definition unlock_table :: "unlock_world companion_ports" where
  \<comment> \<open>the primary key makes a second row for a companion replace the first\<close>
  "unlock_table =
     \<lparr>cq_stories = (\<lambda>user w. (Inr (uw_stories w user), w)),
      cq_unlocks = (\<lambda>user w. (Inr (uw_unlocks w user), w)),
      cq_blocked = (\<lambda>w. (Inr (uw_blocked w), w)),
      cq_upsert = (\<lambda>user c t w.
        (Inr (), w\<lparr>uw_unlocks := (uw_unlocks w)(user := AList.update c t (uw_unlocks w user))\<rparr>)),
      cq_now = (\<lambda>w. (uw_clock w, w\<lparr>uw_clock := uw_clock w + 1\<rparr>))\<rparr>"

definition keyed :: "string \<Rightarrow> unlock_world \<Rightarrow> bool" where
  "keyed user w \<longleftrightarrow> distinct (map fst (uw_unlocks w user))"

definition unlocks_in :: "string \<Rightarrow> unlock_world \<Rightarrow> unlocks" where
  "unlocks_in user w = map_of (uw_unlocks w user)"

lemma unlock_table_simps [simp]:
  "cq_stories unlock_table user w = (Inr (uw_stories w user), w)"
  "cq_unlocks unlock_table user w = (Inr (uw_unlocks w user), w)"
  "cq_blocked unlock_table w = (Inr (uw_blocked w), w)"
  "cq_upsert unlock_table user c t w =
     (Inr (), w\<lparr>uw_unlocks := (uw_unlocks w)(user := AList.update c t (uw_unlocks w user))\<rparr>)"
  "cq_now unlock_table w = (uw_clock w, w\<lparr>uw_clock := uw_clock w + 1\<rparr>)"
  by (simp_all add: unlock_table_def)

lemma map_of_entries_keyed: "keyed user w \<Longrightarrow> map_of_entries (uw_unlocks w user) = unlocks_in user w"
  using map_of_inject_set [of "rev (uw_unlocks w user)" "uw_unlocks w user"]
  by (simp add: map_of_entries_def keyed_def unlocks_in_def rev_map [symmetric])

text \<open>The loop adds exactly what is due and changes nothing else; its map is the table.\<close>

lemma unlock_loop_table:
  assumes "keyed user w"
  shows "\<exists>w'. unlock_loop unlock_table user n blocked cs (unlocks_in user w) w
         = (Inr (unlocks_in user w'), w')
    \<and> keyed user w' \<and> uw_stories w' = uw_stories w \<and> uw_blocked w' = uw_blocked w
    \<and> unlocks_in user w \<subseteq>\<^sub>m unlocks_in user w'
    \<and> (\<forall>i. unlocks_in user w' i \<noteq> None \<longleftrightarrow>
          unlocks_in user w i \<noteq> None \<or>
          (\<exists>c \<in> set cs. dc_id c = i \<and> i \<notin> set blocked \<and> dc_unlockThreshold c \<le> n))"
  using assms
proof (induction cs arbitrary: w)
  case Nil
  then show ?case by simp
next
  case (Cons c cs)
  show ?case
  proof (cases "unlock_due n blocked (unlocks_in user w) c")
    case False
    then show ?thesis using Cons.IH [OF Cons.prems] by (auto simp: unlock_due_def)
  next
    case True
    define w1 where "w1 = w\<lparr>uw_clock := uw_clock w + 1,
      uw_unlocks := (uw_unlocks w)(user := AList.update (dc_id c) (uw_clock w) (uw_unlocks w user))\<rparr>"
    have k: "keyed user w1"
      using Cons.prems by (simp add: keyed_def w1_def distinct_update)
    have m: "unlocks_in user w1 = (unlocks_in user w)(dc_id c \<mapsto> uw_clock w)"
      by (simp add: unlocks_in_def w1_def update_conv')
    have le: "unlocks_in user w \<subseteq>\<^sub>m unlocks_in user w1"
      using True by (auto simp: m map_le_def unlock_due_def)
    have step: "unlock_loop unlock_table user n blocked (c # cs) (unlocks_in user w) w
        = unlock_loop unlock_table user n blocked cs (unlocks_in user w1) w1"
      using True by (simp add: m ebind_def eread_def ethen_def w1_def [symmetric])
    from Cons.IH [OF k] obtain w' where w': "unlock_loop unlock_table user n blocked cs (unlocks_in user w1) w1
         = (Inr (unlocks_in user w'), w')" "keyed user w'"
        "uw_stories w' = uw_stories w1" "uw_blocked w' = uw_blocked w1"
        "unlocks_in user w1 \<subseteq>\<^sub>m unlocks_in user w'"
        "\<forall>i. unlocks_in user w' i \<noteq> None \<longleftrightarrow> unlocks_in user w1 i \<noteq> None \<or>
          (\<exists>c \<in> set cs. dc_id c = i \<and> i \<notin> set blocked \<and> dc_unlockThreshold c \<le> n)"
      by blast
    have "unlocks_in user w \<subseteq>\<^sub>m unlocks_in user w'" by (rule map_le_trans [OF le w'(5)])
    moreover have "\<forall>i. unlocks_in user w' i \<noteq> None \<longleftrightarrow> unlocks_in user w i \<noteq> None \<or>
          (\<exists>d \<in> set (c # cs). dc_id d = i \<and> i \<notin> set blocked \<and> dc_unlockThreshold d \<le> n)"
      using w'(6) True by (auto simp: m unlock_due_def)
    ultimately show ?thesis using w'(1-4) step by (auto simp: w1_def)
  qed
qed


lemma unlocked_ids:
  "map dc_id (unlocked_of blocked m)
   = filter (\<lambda>i. i \<notin> set blocked \<and> m i \<noteq> None) (map dc_id AVAILABLE_COMPANIONS)"
proof -
  have "map dc_id (concat (map (\<lambda>c. if dc_id c \<in> set blocked then []
                       else (case m (dc_id c) of
                               None \<Rightarrow> []
                             | Some t \<Rightarrow> [c\<lparr>dc_isUnlocked := True, dc_unlockedAt := Some t\<rparr>])) cs))
      = filter (\<lambda>i. i \<notin> set blocked \<and> m i \<noteq> None) (map dc_id cs)" for cs
    by (induction cs) (auto split: option.splits)
  then show ?thesis by (simp add: unlocked_of_def)
qed

text \<open>C22: A check of the unlocks returns exactly the companions that are not blocked and were either
  unlocked before or have their threshold reached by the number of stories; it keeps every earlier
  unlock with its time; and a second check, with the stories and the blocks unchanged, returns the
  same companions and changes nothing.\<close>

theorem unlocks_are_kept:
  assumes "keyed user w"
  shows "\<exists>cs w'. checkUnlock unlock_table user w = (Inr cs, w')
    \<and> map dc_id cs = filter (\<lambda>i. i \<notin> set (uw_blocked w)
          \<and> (unlocks_in user w i \<noteq> None
             \<or> (\<exists>c \<in> set AVAILABLE_COMPANIONS. dc_id c = i
                  \<and> dc_unlockThreshold c \<le> length (uw_stories w user))))
        (map dc_id AVAILABLE_COMPANIONS)
    \<and> unlocks_in user w \<subseteq>\<^sub>m unlocks_in user w'
    \<and> checkUnlock unlock_table user w' = (Inr cs, w')"
proof -
  let ?n = "length (uw_stories w user)" and ?b = "uw_blocked w"
  obtain w' where w': "unlock_loop unlock_table user ?n ?b AVAILABLE_COMPANIONS (unlocks_in user w) w
       = (Inr (unlocks_in user w'), w')"
    "keyed user w'" "uw_stories w' = uw_stories w" "uw_blocked w' = uw_blocked w"
    "unlocks_in user w \<subseteq>\<^sub>m unlocks_in user w'"
    "\<forall>i. unlocks_in user w' i \<noteq> None \<longleftrightarrow> unlocks_in user w i \<noteq> None \<or>
       (\<exists>c \<in> set AVAILABLE_COMPANIONS. dc_id c = i \<and> i \<notin> set ?b \<and> dc_unlockThreshold c \<le> ?n)"
    using unlock_loop_table [OF assms] by blast
  let ?cs = "unlocked_of ?b (unlocks_in user w')"
  have first: "checkUnlock unlock_table user w = (Inr ?cs, w')"
    using w'(1) by (simp add: checkUnlock_def ebind_def map_of_entries_keyed [OF assms])
  have none_due: "\<not> unlock_due ?n ?b (unlocks_in user w') c" if "c \<in> set AVAILABLE_COMPANIONS" for c
    using w'(6) that by (auto simp: unlock_due_def)
  have idle: "unlock_loop unlock_table user ?n ?b ds (unlocks_in user w') w' = (Inr (unlocks_in user w'), w')"
    if "set ds \<subseteq> set AVAILABLE_COMPANIONS" for ds
    using that by (induction ds) (simp_all add: none_due)
  have again: "checkUnlock unlock_table user w' = (Inr ?cs, w')"
    by (simp add: checkUnlock_def ebind_def map_of_entries_keyed [OF w'(2)] w'(3,4) idle)
  have ids: "map dc_id ?cs = filter (\<lambda>i. i \<notin> set ?b
          \<and> (unlocks_in user w i \<noteq> None
             \<or> (\<exists>c \<in> set AVAILABLE_COMPANIONS. dc_id c = i \<and> dc_unlockThreshold c \<le> ?n)))
        (map dc_id AVAILABLE_COMPANIONS)"
    unfolding unlocked_ids by (rule filter_cong [OF refl]) (use w'(6) in blast)
  show ?thesis using first ids w'(5) again by blast
qed

text \<open>Seven stories unlock the owl and the fox; the bear, unlocked before, stays; the blocked fox
  does not show.\<close>

definition sample_unlocks :: "string list \<Rightarrow> unlock_world" where
  "sample_unlocks blocked =
     \<lparr>uw_unlocks = (\<lambda>_. [(''c_barnaby'', 5)]), uw_stories = (\<lambda>_. replicate 7 sample_story),
      uw_blocked = blocked, uw_clock = 100\<rparr>"

theorem unlocks_are_kept_witness:
  "\<exists>cs w'. checkUnlock unlock_table ''u'' (sample_unlocks [''c_rusty'']) = (Inr cs, w')
    \<and> map dc_id cs = [''c_luna'', ''c_barnaby'']
    \<and> checkUnlock unlock_table ''u'' w' = (Inr cs, w')"
proof -
  have "keyed ''u'' (sample_unlocks [''c_rusty''])" by (simp add: keyed_def sample_unlocks_def)
  from unlocks_are_kept [OF this] show ?thesis
    by (auto simp: sample_unlocks_def unlocks_in_def AVAILABLE_COMPANIONS_def)
qed

end
