(* ===== verification/Generation.thy ===== *)
theory Generation
  imports ConductorTheorems Safety Voices Companions Gateway
begin

text \<open>
  Making a story: \<open>GenerateStoryUseCase\<close>
  (\<open>api/src/application/use-cases/GenerateStoryUseCase.ts\<close>), which brings the conductor, the
  model gateway, the safety guardian, the voice and story repositories and the companions together.
  Each stage of \<open>execute\<close> is a definition; \<open>generate_story\<close> is their composition.

  The stream of the gateway is given with all its chunks and the error that ends it, if one does;
  what the gateway does to the world it does when the stream is opened.  Prompts, identifiers, the
  clock, the speech service and the event bus are parameters; logging is left out.
\<close>

record generation_request =
  gr_theme :: string
  gr_childName :: "string option"
  gr_childAge :: "real option"
  gr_duration :: "duration option"
  gr_userId :: "string option"
  gr_voiceProfileId :: "string option"
  gr_mood :: "string option"
  gr_previousStoryId :: "string option"
  gr_requestId :: "string option"
  gr_traceId :: "string option"

record previous_story =
  ps_title :: string
  ps_theme :: string
  ps_structure :: string

record story_vars =
  sv_theme :: string
  sv_childName :: "string option"
  sv_childAge :: "real option"
  sv_duration :: "duration option"
  sv_memory :: "string option"
  sv_previous :: "previous_story option"
  sv_companions :: "string list"
  sv_streaming :: bool

record event_head =
  eh_id :: string
  eh_requestId :: string
  eh_traceId :: "string option"
  eh_timestamp :: millis

datatype generation_event =
    ChunkGenerated event_head string string string string      \<comment> \<open>user, session, story, text\<close>
  | BeatCompleted event_head string string nat nat             \<comment> \<open>user, story, index, total\<close>
  | GenerationCompleted event_head string string string        \<comment> \<open>user, session, story\<close>

record 'w generation_ports =
  ge_conductor :: "'w ports"
  ge_companions :: "'w companion_ports"
  ge_ambient :: "('w, ambient_context) eff option"
  ge_repository :: "'w story_db option"
  ge_stream :: "story_input \<Rightarrow> 'w \<Rightarrow> (string list \<times> js_error option) \<times> 'w"
  ge_generate :: "story_input \<Rightarrow> ('w, story_output) eff"
  ge_prompt :: "story_vars \<Rightarrow> string"
  ge_safety :: "'w safety_ports"
  ge_fallback :: string
  ge_speak :: "(string \<Rightarrow> string option \<Rightarrow> ('w, string) eff) option"   \<comment> \<open>text and voice\<close>
  ge_voices :: "'w voice_db option"
  ge_publish :: "(generation_event \<Rightarrow> ('w, unit) eff) option"
  ge_newId :: "'w \<Rightarrow> string \<times> 'w"
  ge_now :: "'w \<Rightarrow> millis \<times> 'w"
  ge_isUrl :: "string \<Rightarrow> bool"

record generation_result =
  gn_story :: story
  gn_readingTime :: int
  gn_audioUrl :: "string option"
  gn_newCompanions :: "companion list option"

subsection \<open>Before the model is asked\<close>

definition validateRequest :: "generation_request \<Rightarrow> js_error option" where
  "validateRequest r =
     (if js_trim (gr_theme r) = [] then Some (Err ''Error'' ''Theme is required'')
      else (case gr_childAge r of
              None \<Rightarrow> None
            | Some a \<Rightarrow> if a < 2 \<or> a > 12
                        then Some (Err ''Error'' ''Child age must be between 2 and 12'') else None))"

definition unlocked_before :: "'w generation_ports \<Rightarrow> generation_request \<Rightarrow> ('w, companion list) eff" where
  "unlocked_before P r =
     (if truthy_string (gr_userId r) then checkUnlock (ge_companions P) (the (gr_userId r))
      else ereturn [])"

definition environment_of :: "'w generation_ports \<Rightarrow> ('w, ambient_context option) eff" where
  "environment_of P =
     (case ge_ambient P of
        None \<Rightarrow> ereturn None
      | Some m \<Rightarrow> etry (ebind m (\<lambda>a. ereturn (Some a))) (\<lambda>_. ereturn None))"

definition conduct_request ::
    "'w generation_ports \<Rightarrow> generation_request \<Rightarrow> ambient_context option \<Rightarrow> ('w, conduct_result) eff" where
  "conduct_request P r envCtx =
     conductStorySession (ge_conductor P)
       \<lparr>sc_theme = gr_theme r, sc_duration = gr_duration r, sc_style = None,
        sc_childName = gr_childName r, sc_childAge = gr_childAge r\<rparr>
       \<lparr>cx_childName = gr_childName r, cx_childAge = gr_childAge r,
        cx_currentMood = Some (if gr_mood r = Some ''energetic'' then ''energetic''
                               else if gr_mood r = Some ''tired'' then ''tired'' else ''calm''),
        cx_userId = gr_userId r, cx_sessionId = gr_requestId r, cx_traceId = None,
        cx_envContext = envCtx\<rparr>"

definition previous_of :: "'w generation_ports \<Rightarrow> generation_request \<Rightarrow> ('w, previous_story option) eff" where
  \<comment> \<open>the story to tell again\<close>
  "previous_of P r =
     (case (or_undefined (gr_previousStoryId r), ge_repository P) of
        (Some i, Some D) \<Rightarrow>
          ebind (sr_findById D i) (\<lambda>s. ereturn (map_option (\<lambda>st.
            \<lparr>ps_title = st_title st, ps_theme = st_theme st,
             ps_structure = getFullText (st_content st)\<rparr>) s))
      | _ \<Rightarrow> ereturn None)"

definition story_prompt ::
    "'w generation_ports \<Rightarrow> conduct_result \<Rightarrow> previous_story option \<Rightarrow> companion list \<Rightarrow> bool \<Rightarrow> string" where
  "story_prompt P c previous companions streaming =
     ge_prompt P \<lparr>sv_theme = sc_theme (cr_request c), sv_childName = sc_childName (cr_request c),
       sv_childAge = sc_childAge (cr_request c), sv_duration = sc_duration (cr_request c),
       sv_memory = cr_notes c, sv_previous = previous, sv_companions = map dc_name companions,
       sv_streaming = streaming\<rparr>"

subsection \<open>The text\<close>

fun remove_first :: "string \<Rightarrow> string \<Rightarrow> string" where
  \<comment> \<open>\<open>s.replace(p, '')\<close> for a string \<open>p\<close>\<close>
  "remove_first p [] = []"
| "remove_first p (c # cs) =
     (if starts_with (c # cs) p then drop (length p) (c # cs) else c # remove_first p cs)"

definition untitled :: string where "untitled = ''Untitled Story''"

definition title_from :: "string \<Rightarrow> string \<Rightarrow> string" where
  \<comment> \<open>the title after the accumulated text has grown\<close>
  "title_from acc title =
     (if title = untitled \<and> nl \<in> set acc
      then js_trim (remove_first ''Title: '' (hd (split_char nl acc))) else title)"

definition or_unknown :: "string option \<Rightarrow> string" where
  "or_unknown x = or_string x ''unknown''"

definition announce_chunk ::
    "'w generation_ports \<Rightarrow> generation_request \<Rightarrow> string \<Rightarrow> string \<Rightarrow> ('w, unit) eff" where
  "announce_chunk P r storyId chunk =
     (case ge_publish P of
        None \<Rightarrow> ereturn ()
      | Some publish \<Rightarrow>
          ebind (eread (ge_newId P)) (\<lambda>i. ebind (eread (ge_now P)) (\<lambda>now.
            publish (ChunkGenerated
              \<lparr>eh_id = i, eh_requestId = or_unknown (gr_requestId r), eh_traceId = gr_traceId r,
               eh_timestamp = now\<rparr>
              (or_unknown (gr_userId r)) (or_unknown (gr_requestId r)) storyId chunk))))"

fun stream_loop ::
    "'w generation_ports \<Rightarrow> generation_request \<Rightarrow> string \<Rightarrow> string list \<Rightarrow> string \<Rightarrow> string
      \<Rightarrow> ('w, string \<times> string) eff" where
  \<comment> \<open>the accumulated text and the title\<close>
  "stream_loop P r storyId [] acc title = ereturn (acc, title)"
| "stream_loop P r storyId (c # cs) acc title =
     ethen (announce_chunk P r storyId c)
       (stream_loop P r storyId cs (acc @ c) (title_from (acc @ c) title))"

definition story_request :: "conduct_result \<Rightarrow> string \<Rightarrow> story_input" where
  "story_request c prompt =
     \<lparr>si_theme = sc_theme (cr_request c), si_childAge = sc_childAge (cr_request c),
      si_style = Some ''bedtime'', si_customPrompt = Some prompt\<rparr>"

definition stream_text ::
    "'w generation_ports \<Rightarrow> generation_request \<Rightarrow> string \<Rightarrow> story_input \<Rightarrow> ('w, string \<times> string) eff" where
  \<comment> \<open>the \<open>try\<close> block\<close>
  "stream_text P r storyId input w =
     (case ge_stream P input w of
        ((chunks, err), w1) \<Rightarrow>
          ebind (stream_loop P r storyId chunks [] untitled) (\<lambda>res.
            case err of None \<Rightarrow> ereturn res | Some e \<Rightarrow> ethrow e) w1)"

definition generated_text ::
    "'w generation_ports \<Rightarrow> generation_request \<Rightarrow> string \<Rightarrow> conduct_result \<Rightarrow> previous_story option
      \<Rightarrow> companion list \<Rightarrow> ('w, string \<times> string) eff" where
  "generated_text P r storyId c previous companions =
     etry (stream_text P r storyId (story_request c (story_prompt P c previous companions True)))
       (\<lambda>_. ebind (ge_generate P (story_request c (story_prompt P c previous companions False)))
              (\<lambda>g. ereturn (so_content g, so_title g)))"

definition drop_opt :: "char \<Rightarrow> string \<Rightarrow> string" where
  "drop_opt c s = (case s of [] \<Rightarrow> [] | d # ds \<Rightarrow> if d = c then ds else s)"

definition line_end :: "char \<Rightarrow> bool" where
  \<comment> \<open>what \<open>.\<close> does not match: LF and CR\<close>
  "line_end c \<longleftrightarrow> code c = 10 \<or> code c = 13"

definition strip_title :: "string \<Rightarrow> string" where
  \<comment> \<open>\<open>s.replace(/^#? ?Title:? .+\n+/, '')\<close>\<close>
  "strip_title s =
     (let s2 = drop_opt (CHR '' '') (drop_opt (CHR ''#'') s)
      in if starts_with s2 ''Title''
         then (case drop_opt (CHR '':'') (drop 5 s2) of
                 [] \<Rightarrow> s
               | d # r \<Rightarrow>
                   if d = CHR '' '' \<and> takeWhile (\<lambda>c. \<not> line_end c) r \<noteq> []
                   then (case dropWhile (\<lambda>c. \<not> line_end c) r of
                           [] \<Rightarrow> s
                         | e # q \<Rightarrow> if e = nl then dropWhile (\<lambda>c. c = nl) q else s)
                   else s)
         else s)"

definition final_text :: "safety_result \<Rightarrow> string \<Rightarrow> string" where
  \<comment> \<open>a fallback is always given to the check, so that an unsafe result has one\<close>
  "final_text safety generated =
     (if sf_isSafe safety then or_string (sf_sanitized safety) generated
      else (case sf_fallback safety of Some f \<Rightarrow> f | None \<Rightarrow> []))"

definition checked_content :: "'w generation_ports \<Rightarrow> string \<Rightarrow> conduct_result \<Rightarrow> ('w, story_content) eff" where
  "checked_content P generated c =
     ebind (checkContent (ge_safety P) generated (sc_childAge (cr_request c)) (Some (ge_fallback P)))
       (\<lambda>safety. lift_sum (fromRawText (js_trim (strip_title (final_text safety generated)))))"


subsection \<open>Voice, story and unlocks\<close>

definition voice_model :: "'w generation_ports \<Rightarrow> generation_request \<Rightarrow> ('w, string option) eff" where
  "voice_model P r =
     (case (or_undefined (gr_voiceProfileId r), ge_voices P) of
        (Some i, Some V) \<Rightarrow>
          ebind (vr_findById V i) (\<lambda>p. ereturn (case p of
            Some v \<Rightarrow> if vp_isReady v then vp_voiceModelId v else None
          | None \<Rightarrow> None))
      | _ \<Rightarrow> ereturn None)"

definition narration :: "'w generation_ports \<Rightarrow> generation_request \<Rightarrow> story_content \<Rightarrow> ('w, string option) eff" where
  \<comment> \<open>the URL of the audio; a failure is swallowed\<close>
  "narration P r content =
     (case ge_speak P of
        None \<Rightarrow> ereturn None
      | Some speak \<Rightarrow>
          etry (ebind (voice_model P r) (\<lambda>v.
                ebind (speak (join '' '' (sc_paragraphs content)) v) (\<lambda>url. ereturn (Some url))))
            (\<lambda>_. ereturn None))"

definition owner_of :: "generation_request \<Rightarrow> string" where
  "owner_of r = or_string (gr_userId r) ''system''"

definition new_story ::
    "'w generation_ports \<Rightarrow> generation_request \<Rightarrow> string \<Rightarrow> string \<Rightarrow> story_content \<Rightarrow> string option
      \<Rightarrow> ('w, story) eff" where
  "new_story P r storyId title content audioUrl =
     ebind (eread (ge_now P)) (\<lambda>t1. ebind (eread (ge_now P)) (\<lambda>t2.
       lift_sum (story_create (ge_isUrl P)
         \<lparr>st_id = storyId, st_title = title, st_content = content, st_theme = gr_theme r,
          st_ownerId = owner_of r, st_status = Completed, st_createdAt = t1,
          st_generatedAt = Some t2, st_audioUrl = audioUrl\<rparr>)))"

definition persist :: "'w generation_ports \<Rightarrow> generation_request \<Rightarrow> story \<Rightarrow> ('w, unit) eff" where
  "persist P r s =
     (case ge_repository P of
        Some D \<Rightarrow> if truthy_string (gr_userId r) then sr_save D s else ereturn ()
      | None \<Rightarrow> ereturn ())"

definition new_companions ::
    "'w generation_ports \<Rightarrow> generation_request \<Rightarrow> companion list \<Rightarrow> ('w, companion list option) eff" where
  "new_companions P r before =
     (if truthy_string (gr_userId r)
      then ebind (checkUnlock (ge_companions P) (the (gr_userId r))) (\<lambda>after.
             let added = filter (\<lambda>c. dc_id c \<notin> dc_id ` set before) after
             in ereturn (if added = [] then None else Some added))
      else ereturn None)"

fun announce_beats ::
    "(generation_event \<Rightarrow> ('w, unit) eff) \<Rightarrow> 'w generation_ports \<Rightarrow> generation_request \<Rightarrow> story \<Rightarrow> nat
      \<Rightarrow> nat list \<Rightarrow> ('w, unit) eff" where
  "announce_beats publish P r s n [] = ereturn ()"
| "announce_beats publish P r s n (i # is) =
     ebind (eread (ge_now P)) (\<lambda>now.
       ethen (publish (BeatCompleted
           \<lparr>eh_id = st_id s @ ''_beat_'' @ show_nat i, eh_requestId = or_unknown (gr_requestId r),
            eh_traceId = gr_traceId r, eh_timestamp = now\<rparr>
           (or_unknown (gr_userId r)) (st_id s) i n))
         (announce_beats publish P r s n is))"

definition announce_story :: "'w generation_ports \<Rightarrow> generation_request \<Rightarrow> story \<Rightarrow> ('w, unit) eff" where
  "announce_story P r s =
     (case ge_publish P of
        None \<Rightarrow> ereturn ()
      | Some publish \<Rightarrow>
          (let n = length (sc_paragraphs (st_content s)) in
           ethen (announce_beats publish P r s n [0..<n])
             (if truthy_string (gr_userId r)
              then ebind (eread (ge_newId P)) (\<lambda>i. ebind (eread (ge_now P)) (\<lambda>now.
                     publish (GenerationCompleted
                       \<lparr>eh_id = i, eh_requestId = or_string (gr_requestId r) (st_id s),
                        eh_traceId = gr_traceId r, eh_timestamp = now\<rparr>
                       (the (gr_userId r)) (or_string (gr_requestId r) (st_id s)) (st_id s))))
              else ereturn ())))"

subsection \<open>The use case\<close>

definition finish_story ::
    "'w generation_ports \<Rightarrow> generation_request \<Rightarrow> companion list \<Rightarrow> string \<Rightarrow> string \<Rightarrow> story_content
      \<Rightarrow> ('w, generation_result) eff" where
  "finish_story P r before storyId title content =
     ebind (narration P r content) (\<lambda>audioUrl.
     ebind (new_story P r storyId title content audioUrl) (\<lambda>s.
     ethen (persist P r s)
     (ebind (new_companions P r before) (\<lambda>added.
     ethen (announce_story P r s)
       (ereturn \<lparr>gn_story = s, gn_readingTime = getEstimatedReadingTime s, gn_audioUrl = audioUrl,
                 gn_newCompanions = added\<rparr>)))))"

definition write_story ::
    "'w generation_ports \<Rightarrow> generation_request \<Rightarrow> companion list \<Rightarrow> conduct_result \<Rightarrow> ('w, generation_result) eff" where
  \<comment> \<open>from the generation of the text on\<close>
  "write_story P r before c =
     ebind (previous_of P r) (\<lambda>previous.
     ebind (eread (ge_newId P)) (\<lambda>storyId.
     ebind (generated_text P r storyId c previous before) (\<lambda>(generated, title).
     ebind (checked_content P generated c) (\<lambda>content.
       finish_story P r before storyId title content))))"

definition generate_story :: "'w generation_ports \<Rightarrow> generation_request \<Rightarrow> ('w, generation_result) eff" where
  "generate_story P r =
     (case validateRequest r of
        Some e \<Rightarrow> ethrow e
      | None \<Rightarrow>
          ebind (unlocked_before P r) (\<lambda>before.
          ebind (environment_of P) (\<lambda>envCtx.
          ebind (conduct_request P r envCtx) (\<lambda>c.
            write_story P r before c))))"

subsection \<open>What is returned\<close>

lemma ebind_InrE:
  assumes "ebind m f w = (Inr b, w'')"
  obtains a w' where "m w = (Inr a, w')" "f a w' = (Inr b, w'')"
  using assms by (auto simp: ebind_def split: prod.splits sum.splits)

lemma ethen_InrE:
  assumes "ethen m k w = (Inr b, w'')"
  obtains a w' where "m w = (Inr a, w')" "k w' = (Inr b, w'')"
  using assms unfolding ethen_def by (rule ebind_InrE)

lemma lift_sum_InrE: "lift_sum x w = (Inr b, w') \<Longrightarrow> x = Inr b \<and> w' = w"
  by (cases x) (simp_all add: lift_sum_def)

text \<open>What \<open>finish_story\<close> returns is the story of its arguments, and the schema accepts it.\<close>

lemma finish_story_returns:
  assumes "finish_story P r before storyId title content w = (Inr res, w')"
  shows "st_title (gn_story res) = title \<and> st_content (gn_story res) = content
    \<and> st_ownerId (gn_story res) = owner_of r \<and> st_id (gn_story res) = storyId
    \<and> st_status (gn_story res) = Completed
    \<and> StorySchema (ge_isUrl P) (gn_story res)"
proof -
  from assms obtain audioUrl w1 s w2 where
    s: "new_story P r storyId title content audioUrl w1 = (Inr s, w2)" and res: "gn_story res = s"
    unfolding finish_story_def
    by (elim ebind_InrE ethen_InrE) (auto simp: Let_def)
  from s show ?thesis
    unfolding new_story_def res
    by (elim ebind_InrE) (auto dest!: lift_sum_InrE simp: story_create_def split: if_splits)
qed

lemma generate_story_stages:
  assumes "generate_story P r w = (Inr res, w')"
  obtains before c storyId w1 generated title w2 content w3 previous where
    "generated_text P r storyId c previous before w1 = (Inr (generated, title), w2)"
    "checked_content P generated c w2 = (Inr content, w3)"
    "finish_story P r before storyId title content w3 = (Inr res, w')"
proof -
  from assms obtain before c w0 where
    "write_story P r before c w0 = (Inr res, w')"
    unfolding generate_story_def
    by (auto split: option.splits elim!: ebind_InrE)
  then show ?thesis
    unfolding write_story_def
    by (elim ebind_InrE) (auto split: prod.splits elim!: ebind_InrE intro: that)
qed


text \<open>A story that is returned has a user as its owner, whose identifier is a UUID: without a user
  the owner becomes \<open>system\<close>, which the schema of stories refuses, so that generation without a
  user always ends in an error, after the model, the safety check and the speech service have been
  asked.\<close>

lemma stories_need_user:
  "(\<forall>res w'. generate_story P r w = (Inr res, w') \<longrightarrow>
      gr_userId r = Some (st_ownerId (gn_story res)) \<and> is_uuid (st_ownerId (gn_story res)))
   \<and> (\<not> truthy_string (gr_userId r) \<longrightarrow> isl (fst (generate_story P r w)))"
proof -
  have owner: "gr_userId r = Some (st_ownerId (gn_story res)) \<and> is_uuid (st_ownerId (gn_story res))"
    if "generate_story P r w = (Inr res, w')" for res w'
  proof (rule generate_story_stages [OF that])
    fix before c storyId w1 generated title w2 content w3 previous
    assume "finish_story P r before storyId title content w3 = (Inr res, w')"
    from finish_story_returns [OF this] have o: "st_ownerId (gn_story res) = owner_of r"
      "is_uuid (owner_of r)" by (auto simp: StorySchema_def)
    have "\<not> is_uuid ''system''" by code_simp
    then have "truthy_string (gr_userId r)" using o(2) by (auto simp: owner_of_def or_string_def split: option.splits if_splits)
    then show ?thesis using o by (cases "gr_userId r") (auto simp: owner_of_def)
  qed
  moreover have "isl (fst (generate_story P r w))" if "\<not> truthy_string (gr_userId r)"
  proof (cases "generate_story P r w")
    case (Pair x w')
    show ?thesis
    proof (cases x)
      case (Inr res)
      then have "gr_userId r = Some (st_ownerId (gn_story res))" "is_uuid (st_ownerId (gn_story res))"
        using owner Pair by blast+
      moreover have "\<not> is_uuid []" by code_simp
      ultimately show ?thesis using that by auto
    qed (simp add: Pair)
  qed
  ultimately show ?thesis by blast
qed



subsection \<open>A run from beginning to end\<close>

fun stream_title :: "string list \<Rightarrow> string \<Rightarrow> string \<Rightarrow> string" where
  \<comment> \<open>the title that the loop over the chunks ends with\<close>
  "stream_title [] acc title = title"
| "stream_title (c # cs) acc title = stream_title cs (acc @ c) (title_from (acc @ c) title)"

definition publishes :: "'w generation_ports \<Rightarrow> bool" where
  \<comment> \<open>the event bus, if there is one, does not fail\<close>
  "publishes P \<longleftrightarrow> (\<forall>pub e. ge_publish P = Some pub \<longrightarrow> total_eff (pub e))"

lemma announce_total: "publishes P \<Longrightarrow> total_eff (announce_chunk P r i c)"
  by (auto simp: announce_chunk_def publishes_def split: option.split intro!: hoare_rules)

lemma stream_loop_run:
  assumes "publishes P"
  shows "\<exists>w'. stream_loop P r i cs acc title w = (Inr (acc @ concat cs, stream_title cs acc title), w')"
proof (induction cs arbitrary: acc title w)
  case (Cons c cs)
  obtain w1 where "announce_chunk P r i c w = (Inr (), w1)"
    by (rule total_unitE [OF announce_total [OF assms]])
  then show ?case using Cons.IH [of "acc @ c" "title_from (acc @ c) title" w1] by simp
qed simp

lemma narration_total: "total_eff (narration P r c)"
  by (auto simp: narration_def split: option.split intro!: hoare_rules)

lemma announce_beats_total:
  assumes "\<And>e. total_eff (pub e)"
  shows "total_eff (announce_beats pub P r s n is)"
proof (induction "is")
  case Nil
  show ?case unfolding announce_beats.simps by (rule total_ereturn)
next
  case (Cons i "is")
  then show ?case
    unfolding announce_beats.simps by (intro total_ebind total_eread total_ethen assms)
qed

lemma announce_story_total: "publishes P \<Longrightarrow> total_eff (announce_story P r s)"
  by (auto simp: announce_story_def publishes_def Let_def split: option.split
      intro!: hoare_rules announce_beats_total)

text \<open>A safe night for a story: nothing around the model fails, and the user's session can be
  conducted.\<close>

definition good_night ::
    "deployment \<Rightarrow> world generation_ports \<Rightarrow> generation_request \<Rightarrow> string \<Rightarrow> string \<Rightarrow> world \<Rightarrow> bool" where
  "good_night su P r uid sid w \<longleftrightarrow>
     ge_conductor P = redis_ports su \<and> redis_ok (wd_db w) \<and> plain_id uid \<and> plain_id sid
     \<and> su_uuid su uid \<and> is_uuid uid
     \<and> gr_userId r = Some uid \<and> gr_requestId r = Some sid \<and> gr_previousStoryId r = None
     \<and> validateRequest r = None
     \<and> valid_config \<lparr>sc_theme = gr_theme r, sc_duration = gr_duration r, sc_style = None,
                      sc_childName = gr_childName r, sc_childAge = gr_childAge r\<rparr>
     \<and> ge_ambient P = None \<and> publishes P
     \<and> (\<forall>u v. \<exists>cs. checkUnlock (ge_companions P) u v = (Inr cs, v))
     \<and> (\<forall>v. is_uuid (fst (ge_newId P v)))
     \<and> (\<forall>u. ge_isUrl P u)
     \<and> (\<forall>D s. ge_repository P = Some D \<longrightarrow> total_eff (sr_save D s))"

lemma finish_story_runs:
  assumes "good_night su P r uid sid w" "is_uuid i" "1 \<le> length title" "length title \<le> 255"
  shows "\<exists>res w'. finish_story P r before i title content u = (Inr res, w')"
proof -
  note g = assms(1) [unfolded good_night_def]
  obtain audioUrl u1 where audio: "narration P r content u = (Inr audioUrl, u1)"
    by (rule total_effE [OF narration_total])
  have "\<exists>s u2. new_story P r i title content audioUrl u1 = (Inr s, u2)"
    using assms(2-4) g
    by (auto simp: new_story_def story_create_def StorySchema_def owner_of_def lift_sum_def ebind_def
        eread_def plain_id_def split: prod.splits option.split)
  then obtain s u2 where s: "new_story P r i title content audioUrl u1 = (Inr s, u2)" by blast
  obtain u3 where save: "persist P r s u2 = (Inr (), u3)"
  proof (cases "ge_repository P")
    case None
    then show ?thesis using that by (simp add: persist_def)
  next
    case (Some D)
    then have "total_eff (sr_save D s)" using g by blast
    then obtain u3 where "sr_save D s u2 = (Inr (), u3)" by (rule total_unitE)
    then show ?thesis using that Some g by (simp add: persist_def plain_id_def)
  qed
  obtain added u4 where added: "new_companions P r before u3 = (Inr added, u4)"
  proof -
    obtain cs where "checkUnlock (ge_companions P) uid u3 = (Inr cs, u3)" using g by blast
    then show ?thesis using that g by (auto simp: new_companions_def Let_def plain_id_def)
  qed
  obtain u5 where "announce_story P r s u4 = (Inr (), u5)"
    using g by (auto intro: total_unitE [OF announce_story_total])
  then show ?thesis using audio s save added by (simp add: finish_story_def)
qed


lemma write_story_runs:
  assumes g: "good_night su P r uid sid w"
    and stream: "\<And>input v. fst (ge_stream P input v) = (cs, None)"
    and checked: "\<And>v. \<exists>v'. checked_content P (concat cs) c v = (Inr content, v')"
    and title: "1 \<le> length (stream_title cs [] untitled)" "length (stream_title cs [] untitled) \<le> 255"
  shows "\<exists>res w'. write_story P r before c u = (Inr res, w')
    \<and> st_content (gn_story res) = content \<and> st_title (gn_story res) = stream_title cs [] untitled"
proof -
  let ?t = "stream_title cs [] untitled"
  have none: "gr_previousStoryId r = None" and pub: "publishes P" and ids: "\<forall>v. is_uuid (fst (ge_newId P v))"
    using g by (simp_all add: good_night_def)
  obtain i u1 where i: "ge_newId P u = (i, u1)" "is_uuid i"
    using ids by (metis prod.collapse)
  let ?in = "story_request c (story_prompt P c None before True)"
  obtain u2 where u2: "ge_stream P ?in u1 = ((cs, None), u2)"
    using stream by (metis prod.collapse)
  obtain u3 where "stream_loop P r i cs [] untitled u2 = (Inr ([] @ concat cs, ?t), u3)"
    using stream_loop_run [OF pub] by blast
  then have written: "generated_text P r i c None before u1 = (Inr (concat cs, ?t), u3)"
    using u2 by (simp add: generated_text_def stream_text_def)
  obtain u4 where content: "checked_content P (concat cs) c u3 = (Inr content, u4)"
    using checked by blast
  obtain res w' where fin: "finish_story P r before i ?t content u4 = (Inr res, w')"
    using finish_story_runs [OF g i(2) title] by blast
  have "write_story P r before c u = (Inr res, w')"
    using none i(1) written content fin by (simp add: write_story_def previous_of_def ebind_def eread_def)
  then show ?thesis using finish_story_returns [OF fin] by blast
qed

lemma generation_run:
  assumes g: "good_night su P r uid sid w"
    and stream: "\<And>input v. fst (ge_stream P input v) = (cs, None)"
    and checked: "\<And>c v. \<exists>v'. checked_content P (concat cs) (c :: conduct_result) v = (Inr content, v')"
    and title: "1 \<le> length (stream_title cs [] untitled)" "length (stream_title cs [] untitled) \<le> 255"
  shows "\<exists>res w'. generate_story P r w = (Inr res, w')
    \<and> st_content (gn_story res) = content \<and> st_title (gn_story res) = stream_title cs [] untitled"
proof -
  note gs = g [unfolded good_night_def]
  obtain before where before: "unlocked_before P r w = (Inr before, w)"
  proof -
    obtain bs where "checkUnlock (ge_companions P) uid w = (Inr bs, w)" using gs by blast
    then show ?thesis using gs by (intro that [of bs]) (simp add: unlocked_before_def plain_id_def)
  qed
  have env: "environment_of P w = (Inr None, w)" using gs by (simp add: environment_of_def)
  let ?config = "\<lparr>sc_theme = gr_theme r, sc_duration = gr_duration r, sc_style = None,
      sc_childName = gr_childName r, sc_childAge = gr_childAge r\<rparr>"
  let ?ctx = "\<lparr>cx_childName = gr_childName r, cx_childAge = gr_childAge r,
        cx_currentMood = Some (if gr_mood r = Some ''energetic'' then ''energetic''
                               else if gr_mood r = Some ''tired'' then ''tired'' else ''calm''),
        cx_userId = gr_userId r, cx_sessionId = gr_requestId r, cx_traceId = None,
        cx_envContext = None\<rparr>"
  have ctx: "cx_sessionId ?ctx = Some sid" "cx_userId ?ctx = Some uid" "valid_context (su_uuid su) ?ctx"
    using gs by (simp_all add: valid_context_def)
  obtain c w1 where conduct: "conductStorySession (redis_ports su) ?config ?ctx w = (Inr c, w1)"
    using conducting_returns [OF _ _ _ ctx(1,2) _ ctx(3), of w ?config] gs by blast
  obtain res w' where "write_story P r before c w1 = (Inr res, w')"
    "st_content (gn_story res) = content" "st_title (gn_story res) = stream_title cs [] untitled"
    using write_story_runs [OF g stream checked title] by blast
  moreover have "conduct_request P r None w = (Inr c, w1)"
    using conduct gs by (simp add: conduct_request_def)
  ultimately show ?thesis
    using before env gs by (simp add: generate_story_def)
qed

text \<open>When nothing around the model fails, a story is told even if the generated text is stopped by
  the patterns: its content is the fallback. But the title is still the first line of the text that
  was stopped; no check is made of it.\<close>

lemma stopped_text_keeps_title:
  assumes "good_night su P r uid sid w"
    and "\<And>input v. fst (ge_stream P input v) = (cs, None)"
    and "injected (concat cs) \<or> banned_by (concat cs) \<noteq> None"
    and "ge_fallback P \<noteq> []" "fromRawText (js_trim (strip_title (ge_fallback P))) = Inr content"
    and "1 \<le> length (stream_title cs [] untitled)" "length (stream_title cs [] untitled) \<le> 255"
  shows "\<exists>res w'. generate_story P r w = (Inr res, w')
    \<and> st_content (gn_story res) = content \<and> st_title (gn_story res) = stream_title cs [] untitled"
proof (rule generation_run [OF assms(1,2) _ assms(6,7)])
  fix c :: conduct_result and v
  show "\<exists>v'. checked_content P (concat cs) c v = (Inr content, v')"
    using assms(3-5)
    by (auto simp: checked_content_def checkContent_def Let_def unsafe_def ebind_def final_text_def
        lift_sum_def split: option.split)
qed


definition sample_generation :: "string list \<Rightarrow> world generation_ports" where
  \<comment> \<open>a stream with the given chunks, a model that finds everything safe\<close>
  "sample_generation cs =
     \<lparr>ge_conductor = redis_ports sample_setup,
      ge_companions =
        \<lparr>cq_stories = (\<lambda>u w. (Inr [], w)), cq_unlocks = (\<lambda>u w. (Inr [], w)),
         cq_blocked = (\<lambda>w. (Inr [], w)), cq_upsert = (\<lambda>u c t w. (Inr (), w)), cq_now = (\<lambda>w. (0, w))\<rparr>,
      ge_ambient = None, ge_repository = None, ge_stream = (\<lambda>i w. ((cs, None), w)),
      ge_generate = (\<lambda>i w. (Inl (Err ''Error'' ''none''), w)), ge_prompt = (\<lambda>v. ''p''),
      ge_safety =
        \<lparr>sp_prompt = (\<lambda>a. []),
         sp_structured = (\<lambda>p m w. (Inr (JObj [(''isSafe'', JBool True)]), w))\<rparr>,
      ge_fallback = ''Close your eyes.'', ge_speak = None, ge_voices = None, ge_publish = None,
      ge_newId = (\<lambda>w. (sample_uuid, w)), ge_now = (\<lambda>w. (0, w)), ge_isUrl = (\<lambda>u. True)\<rparr>"

definition sample_generation_request :: generation_request where
  "sample_generation_request =
     \<lparr>gr_theme = ''moon'', gr_childName = None, gr_childAge = None, gr_duration = None,
      gr_userId = Some sample_uuid, gr_voiceProfileId = None, gr_mood = None,
      gr_previousStoryId = None, gr_requestId = Some ''s1'', gr_traceId = None\<rparr>"

lemma sample_uuid_ok: "is_uuid sample_uuid" "plain_id sample_uuid"
  by code_simp+

lemma sample_companions:
  "checkUnlock (ge_companions (sample_generation cs)) u w = (Inr [], w)"
  by (simp add: sample_generation_def checkUnlock_def AVAILABLE_COMPANIONS_def unlock_due_def
      unlocked_of_def map_of_entries_def ebind_def)

lemma sample_good_night:
  "good_night sample_setup (sample_generation cs) sample_generation_request sample_uuid ''s1'' sample_world"
proof -
  have "validateRequest sample_generation_request = None" by code_simp
  moreover have "valid_config \<lparr>sc_theme = gr_theme sample_generation_request,
      sc_duration = gr_duration sample_generation_request, sc_style = None,
      sc_childName = gr_childName sample_generation_request,
      sc_childAge = gr_childAge sample_generation_request\<rparr>"
    by (simp add: valid_config_def sample_generation_request_def)
  moreover have "\<forall>u v. \<exists>bs. checkUnlock (ge_companions (sample_generation cs)) u v = (Inr bs, v)"
    using sample_companions by blast
  moreover have "ge_conductor (sample_generation cs) = redis_ports sample_setup"
    "ge_ambient (sample_generation cs) = None" "publishes (sample_generation cs)"
    "\<forall>v. is_uuid (fst (ge_newId (sample_generation cs) v))" "\<forall>u. ge_isUrl (sample_generation cs) u"
    "ge_repository (sample_generation cs) = None" "su_uuid sample_setup sample_uuid"
    by (simp_all add: sample_generation_def publishes_def sample_uuid_ok sample_setup_def)
  moreover have "gr_userId sample_generation_request = Some sample_uuid"
    "gr_requestId sample_generation_request = Some ''s1''"
    "gr_previousStoryId sample_generation_request = None"
    by (simp_all add: sample_generation_request_def)
  ultimately show ?thesis
    using sample_ok sample_ids(1) sample_uuid_ok unfolding good_night_def by simp
qed

definition bad_chunks :: "string list" where
  "bad_chunks = [''Title: Blood and terror'' @ [nl], ''The end.'']"

lemma stopped_text_keeps_title_witness:
  "\<exists>res w'. generate_story (sample_generation bad_chunks) sample_generation_request sample_world = (Inr res, w')
    \<and> sc_paragraphs (st_content (gn_story res)) = [''Close your eyes.'']
    \<and> st_title (gn_story res) = ''Blood and terror'' \<and> banned_by (st_title (gn_story res)) \<noteq> None"
proof -
  let ?content = "\<lparr>sc_paragraphs = [''Close your eyes.''], sc_chapters = [], sc_sleepScore = 5\<rparr>"
  have t: "stream_title bad_chunks [] untitled = ''Blood and terror''" by code_simp
  have b: "banned_by (concat bad_chunks) \<noteq> None" "banned_by ''Blood and terror'' \<noteq> None" by code_simp+
  have f: "ge_fallback (sample_generation bad_chunks) = ''Close your eyes.''"
    "\<And>input v. fst (ge_stream (sample_generation bad_chunks) input v) = (bad_chunks, None)"
    by (simp_all add: sample_generation_def)
  have c: "fromRawText (js_trim (strip_title ''Close your eyes.'')) = Inr ?content" by code_simp
  show ?thesis
    using stopped_text_keeps_title [OF sample_good_night f(2), of ?content] b c unfolding f(1) t by auto
qed

definition good_chunks :: "string list" where
  "good_chunks = [''Title: Moon'' @ [nl], ''The moon sleeps.'']"

lemma sample_told:
  "\<exists>res w'. generate_story (sample_generation good_chunks) sample_generation_request sample_world = (Inr res, w')
    \<and> st_content (gn_story res) = \<lparr>sc_paragraphs = [''The moon sleeps.''], sc_chapters = [], sc_sleepScore = 5\<rparr>
    \<and> st_title (gn_story res) = stream_title good_chunks [] untitled"
proof (rule generation_run [OF sample_good_night])
  show "fst (ge_stream (sample_generation good_chunks) input v) = (good_chunks, None)" for input v
    by (simp add: sample_generation_def)
  have t: "stream_title good_chunks [] untitled = ''Moon''" by code_simp
  show "1 \<le> length (stream_title good_chunks [] untitled)" "length (stream_title good_chunks [] untitled) \<le> 255"
    by (simp_all add: t)
  fix c :: conduct_result and v
  have p: "\<not> injected (concat good_chunks)" "banned_by (concat good_chunks) = None"
    "\<not> too_complex (concat good_chunks)"
    "js_trim (strip_thinking (concat good_chunks)) = js_trim (concat good_chunks)"
    "concat good_chunks \<noteq> []"
    "fromRawText (js_trim (strip_title (concat good_chunks)))
     = Inr \<lparr>sc_paragraphs = [''The moon sleeps.''], sc_chapters = [], sc_sleepScore = 5\<rparr>"
    by code_simp+
  show "\<exists>v'. checked_content (sample_generation good_chunks) (concat good_chunks) c v
      = (Inr \<lparr>sc_paragraphs = [''The moon sleeps.''], sc_chapters = [], sc_sleepScore = 5\<rparr>, v')"
    using p
    by (simp add: checked_content_def checkContent_def Let_def ask_model_def sample_generation_def
        agreeable_parsed last_layers_def final_text_def ebind_def lift_sum_def)
qed

lemma stories_need_user_witness:
  "\<exists>res w'. generate_story (sample_generation good_chunks) sample_generation_request sample_world = (Inr res, w')
    \<and> is_uuid (st_ownerId (gn_story res))
    \<and> isl (fst (generate_story (sample_generation good_chunks) (sample_generation_request\<lparr>gr_userId := None\<rparr>)
              sample_world))"
proof -
  have "\<not> truthy_string (gr_userId (sample_generation_request\<lparr>gr_userId := None\<rparr>))" by simp
  then have "isl (fst (generate_story (sample_generation good_chunks) (sample_generation_request\<lparr>gr_userId := None\<rparr>)
              sample_world))"
    using stories_need_user [of "sample_generation good_chunks"
        "sample_generation_request\<lparr>gr_userId := None\<rparr>" sample_world] by blast
  then show ?thesis
    using sample_told stories_need_user [of "sample_generation good_chunks" sample_generation_request sample_world]
    by blast
qed


end
