(* ===== verification/Sharing.thy ===== *)
theory Sharing
  imports Stories
begin

text \<open>
  Sharing a story or a moment with a link that expires and counts its views: the entity
  \<open>SharedLink\<close>, \<open>CreateShareLinkUseCase\<close>, \<open>GetSharedContentUseCase\<close> and the database
  functions \<open>get_shared_link_by_token\<close> and \<open>increment_shared_link_views\<close>
  (\<open>supabase/migrations/20260129000006_shared_link_logic_cleanup.sql\<close>).

  The use case reads the link, checks it, counts the view and fetches the content in three
  requests to the database; \<open>check_view\<close>, \<open>count_view\<close> and \<open>fetch_view\<close> are these steps, so
  that the interleavings of several readers can be stated.  The server's clock runs in UTC and is
  the database's clock; identifiers and tokens are arguments.
\<close>

datatype link_type = Story | Moment

record shared_link =
  sl_id :: string
  sl_resourceId :: string
  sl_ownerId :: string
  sl_type :: link_type
  sl_token :: string
  sl_maxViews :: int
  sl_currentViews :: int
  sl_expiresAt :: millis
  sl_createdAt :: millis

record moment =
  mo_id :: string
  mo_userId :: string
  mo_storyId :: string
  mo_mediaUrl :: string
  mo_description :: "string option"
  mo_createdAt :: millis

record public_moment =
  pm_id :: string
  pm_storyId :: string
  pm_mediaUrl :: string
  pm_description :: "string option"
  pm_createdAt :: millis

definition moment_toPublicJSON :: "moment \<Rightarrow> public_moment" where
  "moment_toPublicJSON m =
     \<lparr>pm_id = mo_id m, pm_storyId = mo_storyId m, pm_mediaUrl = mo_mediaUrl m,
      pm_description = mo_description m, pm_createdAt = mo_createdAt m\<rparr>"

definition day_ms :: int where "day_ms = 86400000"

definition sl_generate ::
    "string \<Rightarrow> string \<Rightarrow> link_type \<Rightarrow> int \<Rightarrow> int \<Rightarrow> string \<Rightarrow> string \<Rightarrow> millis \<Rightarrow> millis \<Rightarrow> shared_link" where
  \<comment> \<open>the token and the identifier, and the two readings of the clock\<close>
  "sl_generate ownerId resourceId type maxViews days token uuid now now2 =
     \<lparr>sl_id = uuid, sl_resourceId = resourceId, sl_ownerId = ownerId, sl_type = type, sl_token = token,
      sl_maxViews = maxViews, sl_currentViews = 0, sl_expiresAt = now + days * day_ms,
      sl_createdAt = now2\<rparr>"

definition sl_isValid :: "millis \<Rightarrow> shared_link \<Rightarrow> bool" where
  "sl_isValid now l \<longleftrightarrow> now < sl_expiresAt l \<and> sl_currentViews l < sl_maxViews l"

definition sl_incrementView :: "shared_link \<Rightarrow> shared_link" where
  "sl_incrementView l = l\<lparr>sl_currentViews := sl_currentViews l + 1\<rparr>"

subsection \<open>The database\<close>

record share_db =
  sd_links :: "string \<rightharpoonup> shared_link"   \<comment> \<open>by token, which is unique\<close>
  sd_stories :: "string \<rightharpoonup> story"
  sd_moments :: "string \<rightharpoonup> moment"

definition get_shared_link_by_token :: "share_db \<Rightarrow> string \<Rightarrow> shared_link option" where
  "get_shared_link_by_token D token = sd_links D token"

definition increment_shared_link_views :: "millis \<Rightarrow> string \<Rightarrow> share_db \<Rightarrow> share_db" where
  "increment_shared_link_views now token D =
     (case sd_links D token of
        None \<Rightarrow> D
      | Some l \<Rightarrow>
          if sl_expiresAt l > now \<and> sl_currentViews l < sl_maxViews l
          then D\<lparr>sd_links := (sd_links D)(token \<mapsto> l\<lparr>sl_currentViews := sl_currentViews l + 1\<rparr>)\<rparr>
          else D)"

definition insert_link :: "shared_link \<Rightarrow> share_db \<Rightarrow> bool \<times> share_db" where
  \<comment> \<open>false where the unique token is taken\<close>
  "insert_link l D =
     (if sd_links D (sl_token l) \<noteq> None then (False, D)
      else (True, D\<lparr>sd_links := (sd_links D)(sl_token l \<mapsto> l)\<rparr>))"

subsection \<open>Creating a link\<close>

record share_request =
  sh_ownerId :: "string option"   \<comment> \<open>a caller may leave it out\<close>
  sh_resourceId :: string
  sh_type :: link_type
  sh_maxViews :: "int option"
  sh_expiresInDays :: "int option"

definition or_int :: "int option \<Rightarrow> int \<Rightarrow> int" where
  "or_int x d = (case x of None \<Rightarrow> d | Some n \<Rightarrow> if n = 0 then d else n)"

definition may_share :: "share_db \<Rightarrow> share_request \<Rightarrow> js_error option" where
  "may_share D r =
     (case sh_type r of
        Story \<Rightarrow>
          (case sd_stories D (sh_resourceId r) of
             Some s \<Rightarrow> if Some (st_ownerId s) \<noteq> sh_ownerId r
                       then Some (Err ''Error'' ''Not authorized to share this story'') else None
           | None \<Rightarrow> Some (Err ''Error'' ''Not authorized to share this story''))
      | Moment \<Rightarrow>
          (case sd_moments D (sh_resourceId r) of
             Some m \<Rightarrow> if Some (mo_userId m) \<noteq> sh_ownerId r
                       then Some (Err ''Error'' ''Not authorized to share this moment'') else None
           | None \<Rightarrow> Some (Err ''Error'' ''Not authorized to share this moment'')))"

definition createShareLink ::
    "string option \<Rightarrow> share_request \<Rightarrow> string \<Rightarrow> string \<Rightarrow> millis \<Rightarrow> millis \<Rightarrow> share_db
      \<Rightarrow> (js_error + string \<times> millis) \<times> share_db" where
  \<comment> \<open>the first argument is \<open>PUBLIC_APP_URL\<close>\<close>
  "createShareLink appUrl r token uuid now now2 D =
     (case may_share D r of
        Some e \<Rightarrow> (Inl e, D)
      | None \<Rightarrow>
          (let l = sl_generate (or_string (sh_ownerId r) []) (sh_resourceId r) (sh_type r)
                     (or_int (sh_maxViews r) 3) (or_int (sh_expiresInDays r) 2) token uuid now now2
           in case insert_link l D of
                (False, D') \<Rightarrow>
                  (Inl (Err ''Error'' ''Failed to save shared link: duplicate key''), D')
              | (True, D') \<Rightarrow>
                  (Inr (or_string appUrl ''http://localhost:5173'' @ ''/share/'' @ token,
                        sl_expiresAt l), D')))"

subsection \<open>Reading a link\<close>

datatype shared_content = SharedStory public_story | SharedMoment public_moment

datatype shared_result =
    NotFound
  | Expired link_type
  | Content link_type shared_content

definition check_view :: "millis \<Rightarrow> string \<Rightarrow> share_db \<Rightarrow> shared_result + shared_link" where
  \<comment> \<open>\<open>Inl\<close> where the use case returns at once\<close>
  "check_view now token D =
     (case get_shared_link_by_token D token of
        None \<Rightarrow> Inl NotFound
      | Some l \<Rightarrow> if \<not> sl_isValid now l then Inl (Expired (sl_type l)) else Inr l)"

definition count_view :: "millis \<Rightarrow> string \<Rightarrow> share_db \<Rightarrow> share_db" where
  "count_view now token D = increment_shared_link_views now token D"

definition fetch_view :: "shared_link \<Rightarrow> share_db \<Rightarrow> shared_result" where
  "fetch_view l D =
     (case sl_type l of
        Story \<Rightarrow>
          (case sd_stories D (sl_resourceId l) of
             None \<Rightarrow> NotFound
           | Some s \<Rightarrow> Content Story (SharedStory (story_toPublicJSON s)))
      | Moment \<Rightarrow>
          (case sd_moments D (sl_resourceId l) of
             None \<Rightarrow> NotFound
           | Some m \<Rightarrow> Content Moment (SharedMoment (moment_toPublicJSON m))))"

definition getSharedContent :: "millis \<Rightarrow> millis \<Rightarrow> string \<Rightarrow> share_db \<Rightarrow> shared_result \<times> share_db" where
  \<comment> \<open>one reader alone; the times of the check and of the count\<close>
  "getSharedContent now now2 token D =
     (case check_view now token D of
        Inl r \<Rightarrow> (r, D)
      | Inr l \<Rightarrow> (let D' = count_view now2 token D in (fetch_view l D', D')))"

fun is_content :: "shared_result \<Rightarrow> bool" where
  "is_content (Content t c) = True"
| "is_content r = False"

fun read_one_by_one :: "string \<Rightarrow> (millis \<times> millis) list \<Rightarrow> share_db \<Rightarrow> shared_result list \<times> share_db" where
  "read_one_by_one token [] D = ([], D)"
| "read_one_by_one token ((t, t') # ts) D =
     (case getSharedContent t t' token D of
        (r, D1) \<Rightarrow> (case read_one_by_one token ts D1 of (rs, D2) \<Rightarrow> (r # rs, D2)))"

text \<open>Readers whose requests interleave: what each waits for, and the answers so far.\<close>

datatype reader = Counting shared_link | Fetching shared_link

inductive share_step ::
    "string \<Rightarrow> share_db \<times> reader list \<times> shared_result list
      \<Rightarrow> share_db \<times> reader list \<times> shared_result list \<Rightarrow> bool" for token where
  turned_away: "check_view now token D = Inl r \<Longrightarrow> share_step token (D, rs, out) (D, rs, r # out)"
| admitted: "check_view now token D = Inr l \<Longrightarrow>
    share_step token (D, rs, out) (D, Counting l # rs, out)"
| counts: "share_step token (D, us @ Counting l # vs, out)
    (count_view now token D, us @ Fetching l # vs, out)"
| answers: "share_step token (D, us @ Fetching l # vs, out)
    (D, us @ vs, fetch_view l D # out)"

inductive_cases share_stepE: "share_step token s s'"

subsection \<open>Counting\<close>

definition views_ok :: "share_db \<Rightarrow> bool" where
  "views_ok D \<longleftrightarrow> (\<forall>t l. sd_links D t = Some l \<longrightarrow> sl_currentViews l \<le> sl_maxViews l)"

lemma count_views_ok: "views_ok D \<Longrightarrow> views_ok (count_view now token D)"
  by (auto simp: views_ok_def count_view_def increment_shared_link_views_def split: option.splits)

lemma share_step_views_ok: "share_step token s s' \<Longrightarrow> views_ok (fst s) \<Longrightarrow> views_ok (fst s')"
  by (induction rule: share_step.induct) (auto intro: count_views_ok)

definition views_left :: "string \<Rightarrow> share_db \<Rightarrow> nat" where
  "views_left token D =
     (case sd_links D token of None \<Rightarrow> 0 | Some l \<Rightarrow> nat (sl_maxViews l - sl_currentViews l))"

lemma one_reader:
  assumes "getSharedContent t t' token D = (r, D')" "t' < sl_expiresAt (the (sd_links D token))"
  shows "(if is_content r then 1 else 0) + views_left token D' \<le> views_left token D"
  using assms
  by (auto simp: getSharedContent_def check_view_def get_shared_link_by_token_def count_view_def
      increment_shared_link_views_def fetch_view_def sl_isValid_def views_left_def Let_def
      split: option.splits if_splits link_type.splits)


subsection \<open>Readers one after the other\<close>

lemma one_reader_keeps_expiry:
  assumes "getSharedContent t t' token D = (r, D')"
  shows "sl_expiresAt (the (sd_links D' token)) = sl_expiresAt (the (sd_links D token))"
  using assms
  by (auto simp: getSharedContent_def check_view_def get_shared_link_by_token_def count_view_def
      increment_shared_link_views_def Let_def
      split: option.splits if_splits)

text \<open>C20: While the link has not expired, readers that come one after the other get the content at
  most as often as the link has views left; the others are told that it has expired or does not
  exist.\<close>

theorem readers_in_turn_bounded:
  assumes "\<forall>(t, t') \<in> set ts. t' < sl_expiresAt (the (sd_links D token))"
  shows "length (filter is_content (fst (read_one_by_one token ts D))) \<le> views_left token D"
  using assms
proof (induction token ts D rule: read_one_by_one.induct)
  case (2 token t t' ts D)
  obtain r D1 where one: "getSharedContent t t' token D = (r, D1)" by fastforce
  obtain rs D2 where rest: "read_one_by_one token ts D1 = (rs, D2)" by fastforce
  have "length (filter is_content rs) \<le> views_left token D1"
    using 2 one rest one_reader_keeps_expiry [OF one] by fastforce
  moreover have "(if is_content r then 1 else 0) + views_left token D1 \<le> views_left token D"
    using one_reader [OF one] 2(2) by auto
  ultimately show ?case by (simp add: one rest split: if_splits)
qed simp

definition shared_sample :: story where
  "shared_sample =
     \<lparr>st_id = ''s'', st_title = ''The quiet moon'',
      st_content = \<lparr>sc_paragraphs = [''The moon slept.''], sc_chapters = [], sc_sleepScore = 5\<rparr>,
      st_theme = ''moon'', st_ownerId = ''o'', st_status = Completed, st_createdAt = 0,
      st_generatedAt = None, st_audioUrl = None\<rparr>"

definition sample_share :: "int \<Rightarrow> share_db" where
  \<comment> \<open>a database with one story, shared for two days and \<open>n\<close> views\<close>
  "sample_share n =
     \<lparr>sd_links = [''tok'' \<mapsto> sl_generate ''o'' ''s'' Story n 2 ''tok'' ''l'' 0 0],
      sd_stories = [''s'' \<mapsto> shared_sample], sd_moments = Map.empty\<rparr>"

lemmas share_run = getSharedContent_def check_view_def get_shared_link_by_token_def count_view_def
  increment_shared_link_views_def fetch_view_def sl_isValid_def sample_share_def sl_generate_def
  day_ms_def views_left_def

theorem readers_in_turn_bounded_witness:
  "length (filter is_content (fst (read_one_by_one ''tok'' [(1, 2), (3, 4), (5, 6)] (sample_share 2))))
     \<le> 2
   \<and> map is_content (fst (read_one_by_one ''tok'' [(1, 2), (3, 4), (5, 6)] (sample_share 2)))
       = [True, True, False]"
proof -
  have "views_left ''tok'' (sample_share 2) = 2" by (simp add: share_run)
  moreover have "\<forall>(t, t') \<in> set [(1, 2), (3, 4), (5, 6)].
      t' < sl_expiresAt (the (sd_links (sample_share 2) ''tok''))"
    by (simp add: share_run)
  moreover have "map is_content (fst (read_one_by_one ''tok'' [(1, 2), (3, 4), (5, 6)] (sample_share 2)))
       = [True, True, False]"
    by (simp add: share_run)
  ultimately show ?thesis using readers_in_turn_bounded [of "[(1, 2), (3, 4), (5, 6)]" "sample_share 2" "''tok''"]
    by metis
qed

subsection \<open>Readers that overlap\<close>

lemma share_steps_views_ok:
  assumes "(share_step token)\<^sup>*\<^sup>* s s'" "views_ok (fst s)"
  shows "views_ok (fst s')"
  using assms by (induction rule: rtranclp_induct) (auto intro: share_step_views_ok)

lemma all_admitted:
  assumes "check_view now token D = Inr l"
  shows "(share_step token)\<^sup>*\<^sup>* (D, rs, out) (D, replicate n (Counting l) @ rs, out)"
proof (induction n)
  case (Suc n)
  show ?case
    using Suc share_step.admitted [OF assms, of "replicate n (Counting l) @ rs" out]
    by (simp add: rtranclp.rtrancl_into_rtrancl)
qed simp

lemma one_served:
  assumes "sl_type l = Story" "sd_stories D (sl_resourceId l) = Some s"
  shows "(share_step token)\<^sup>*\<^sup>* (D, Counting l # rs, out)
    (count_view now token D, rs, Content Story (SharedStory (story_toPublicJSON s)) # out)"
proof -
  have keep: "sd_stories (count_view now token D) = sd_stories D"
    by (auto simp: count_view_def increment_shared_link_views_def split: option.splits)
  have "share_step token (D, [] @ Counting l # rs, out) (count_view now token D, [] @ Fetching l # rs, out)"
    by (rule share_step.counts)
  moreover have "share_step token (count_view now token D, [] @ Fetching l # rs, out)
      (count_view now token D, [] @ rs, fetch_view l (count_view now token D) # out)"
    by (rule share_step.answers)
  ultimately show ?thesis
    using assms by (simp add: fetch_view_def keep converse_rtranclp_into_rtranclp)
qed

lemma all_served:
  assumes "sl_type l = Story" "sd_stories D (sl_resourceId l) = Some s"
  shows "\<exists>D'. (share_step token)\<^sup>*\<^sup>* (D, replicate n (Counting l), out)
    (D', [], replicate n (Content Story (SharedStory (story_toPublicJSON s))) @ out)"
  using assms(2)
proof (induction n arbitrary: D out)
  case (Suc n)
  let ?c = "Content Story (SharedStory (story_toPublicJSON s))"
  have keep: "sd_stories (count_view 0 token D) = sd_stories D"
    by (auto simp: count_view_def increment_shared_link_views_def split: option.splits)
  obtain D' where "(share_step token)\<^sup>*\<^sup>* (count_view 0 token D, replicate n (Counting l), ?c # out)
      (D', [], replicate n ?c @ ?c # out)"
    using Suc.IH [of "count_view 0 token D" "?c # out"] Suc.prems by (auto simp: keep)
  with one_served [OF assms(1) Suc.prems, of token "replicate n (Counting l)" out 0]
  have "(share_step token)\<^sup>*\<^sup>* (D, replicate (Suc n) (Counting l), out) (D', [], replicate n ?c @ ?c # out)"
    by (simp add: rtranclp_trans)
  then show ?case by (auto simp: replicate_app_Cons_same)
qed auto

text \<open>The count of a link's views never passes its limit, whatever the order of the requests,
  and yet the limit does not hold for what is served: of readers that all check the link before any
  of them counts, every one gets the story, however many they are and even when one view is left.\<close>

lemma overlapping_readers_exceed_limit:
  assumes "views_ok D" "sd_links D token = Some l" "sl_isValid now l" "sl_type l = Story"
    "sd_stories D (sl_resourceId l) = Some s"
  shows "(\<forall>D' rs out. (share_step token)\<^sup>*\<^sup>* (D, [], []) (D', rs, out) \<longrightarrow> views_ok D')
    \<and> (\<exists>D'. (share_step token)\<^sup>*\<^sup>* (D, [], [])
          (D', [], replicate n (Content Story (SharedStory (story_toPublicJSON s)))))"
proof (intro conjI allI impI)
  fix D' rs out
  assume "(share_step token)\<^sup>*\<^sup>* (D, [], []) (D', rs, out)"
  from share_steps_views_ok [OF this] show "views_ok D'" using assms(1) by simp
next
  have "check_view now token D = Inr l"
    using assms(2,3) by (simp add: check_view_def get_shared_link_by_token_def)
  from all_admitted [OF this, of "[]" "[]" n]
  have "(share_step token)\<^sup>*\<^sup>* (D, [], []) (D, replicate n (Counting l), [])" by simp
  moreover obtain D' where "(share_step token)\<^sup>*\<^sup>* (D, replicate n (Counting l), [])
      (D', [], replicate n (Content Story (SharedStory (story_toPublicJSON s))))"
    using all_served [OF assms(4,5), of token n "[]"] by auto
  ultimately show "\<exists>D'. (share_step token)\<^sup>*\<^sup>* (D, [], [])
          (D', [], replicate n (Content Story (SharedStory (story_toPublicJSON s))))"
    using rtranclp_trans by metis
qed

lemma overlapping_readers_exceed_limit_witness:
  "\<exists>D'. (share_step ''tok'')\<^sup>*\<^sup>* (sample_share 1, [], [])
      (D', [], replicate 5 (Content Story (SharedStory (story_toPublicJSON shared_sample))))"
proof -
  have "views_ok (sample_share 1)" by (simp add: views_ok_def sample_share_def sl_generate_def)
  then show ?thesis
    using overlapping_readers_exceed_limit [of "sample_share 1" "''tok''"
        "the (sd_links (sample_share 1) ''tok'')" 0 shared_sample 5]
    by (simp add: share_run)
qed

end
