(* ===== verification/Auth.thy ===== *)
theory Auth
  imports Effects RateLimit
begin

text \<open>
  Who is calling: the configuration of the database client
  (\<open>api/src/infrastructure/supabaseConfig.ts\<close>), \<open>authMiddleware\<close>
  (\<open>api/src/middleware/auth.ts\<close>) and the guard of the administrators' routes
  (\<open>adminAuthMiddleware\<close> of \<open>api/src/routes/feedback.ts\<close>).  The authentication service is the
  argument \<open>getUser\<close>; logging is left out.
\<close>

subsection \<open>Configuration\<close>

record supabase_config =
  cf_url :: string
  cf_anonKey :: string
  cf_serviceKey :: "string option"

definition env_or :: "environment \<Rightarrow> string \<Rightarrow> string \<Rightarrow> string option" where
  \<comment> \<open>\<open>process.env[a] || process.env[b]\<close>\<close>
  "env_or env a b = (if truthy_string (env a) then env a else env b)"

definition config_valid :: "(string \<Rightarrow> bool) \<Rightarrow> environment \<Rightarrow> bool" where
  \<comment> \<open>\<open>SupabaseEnvSchema.safeParse(getEnv()).success\<close>\<close>
  "config_valid is_url env \<longleftrightarrow>
     (case env_or env ''SUPABASE_URL'' ''VITE_SUPABASE_URL'' of None \<Rightarrow> False | Some u \<Rightarrow> is_url u)
     \<and> truthy_string (env_or env ''SUPABASE_ANON_KEY'' ''VITE_SUPABASE_ANON_KEY'')"

definition supabaseConfig :: "(string \<Rightarrow> bool) \<Rightarrow> environment \<Rightarrow> js_error + supabase_config" where
  \<comment> \<open>\<open>Inl\<close> where the module throws while it is loaded\<close>
  "supabaseConfig is_url env =
     (if config_valid is_url env
      then Inr \<lparr>cf_url = or_string (env_or env ''SUPABASE_URL'' ''VITE_SUPABASE_URL'') [],
                cf_anonKey = or_string (env_or env ''SUPABASE_ANON_KEY'' ''VITE_SUPABASE_ANON_KEY'') [],
                cf_serviceKey = env_or env ''SUPABASE_SERVICE_ROLE_KEY'' ''SUPABASE_SERVICE_KEY''\<rparr>
      else if is_production env then Inl (Err ''Error'' ''Invalid Supabase Configuration'')
      else Inr \<lparr>cf_url = [], cf_anonKey = [], cf_serviceKey = None\<rparr>)"

subsection \<open>Authentication\<close>

record api_user =
  au_id :: string
  au_email :: "string option"
  au_role :: "string option"

record auth_request =
  aq_authorization :: "string option"   \<comment> \<open>the header \<open>Authorization\<close>\<close>
  aq_demoMode :: "string option"        \<comment> \<open>the header \<open>x-demo-mode\<close>\<close>

datatype auth_result =
    Denied nat string
  | Passed api_user "string option"     \<comment> \<open>with the access token, where it is set\<close>

definition demo_user :: api_user where
  "demo_user =
     \<lparr>au_id = ''00000000-0000-0000-0000-000000000001'', au_email = Some ''demo@dreamweaver.ai'',
      au_role = Some ''authenticated''\<rparr>"

definition load_test_user :: api_user where
  "load_test_user =
     \<lparr>au_id = ''load_test_user_123'', au_email = Some ''tester@example.com'',
      au_role = Some ''authenticated''\<rparr>"

definition load_test_token :: "environment \<Rightarrow> string \<Rightarrow> bool" where
  "load_test_token env token \<longleftrightarrow>
     token = ''mock_load_test_token'' \<and> \<not> is_production env
     \<and> env ''ENABLE_LOAD_TEST_AUTH'' = Some ''true''"

definition credential :: "environment \<Rightarrow> environment \<Rightarrow> string \<Rightarrow> string \<Rightarrow> string" where
  \<comment> \<open>\<open>process.env[k] || c.env?.[k] || config\<close>\<close>
  "credential env cenv k cfg = or_string (if truthy_string (env k) then env k else cenv k) cfg"

definition authMiddleware ::
    "environment \<Rightarrow> environment \<Rightarrow> supabase_config \<Rightarrow> (string \<Rightarrow> ('w, api_user option) eff)
      \<Rightarrow> auth_request \<Rightarrow> 'w \<Rightarrow> auth_result \<times> 'w" where
  \<comment> \<open>\<open>getUser\<close> answers \<open>None\<close> for an error or no user, and may throw\<close>
  "authMiddleware env cenv cfg getUser rq w =
     (case aq_authorization rq of
        None \<Rightarrow> (Denied 401 ''Unauthorized: Missing or invalid Authorization header'', w)
      | Some h \<Rightarrow>
          if \<not> starts_with h ''Bearer ''
          then (Denied 401 ''Unauthorized: Missing or invalid Authorization header'', w)
          else
            (let token = split_char (CHR '' '') h ! 1
             in if aq_demoMode rq = Some ''true'' then (Passed demo_user None, w)
                else if load_test_token env token then (Passed load_test_user None, w)
                else if credential env cenv ''SUPABASE_URL'' (cf_url cfg) = []
                        \<or> credential env cenv ''SUPABASE_ANON_KEY'' (cf_anonKey cfg) = []
                then (Denied 500 ''Server configuration error'', w)
                else (case getUser token w of
                        (Inl _, w') \<Rightarrow> (Denied 500 ''Internal server error during authentication'', w')
                      | (Inr None, w') \<Rightarrow> (Denied 401 ''Unauthorized: Invalid token'', w')
                      | (Inr (Some u), w') \<Rightarrow> (Passed u (Some token), w'))))"

definition adminAuthMiddleware :: "api_user \<Rightarrow> auth_result" where
  \<comment> \<open>the refusal in the branch is commented out in the code\<close>
  "adminAuthMiddleware u =
     (if au_role u \<noteq> Some ''service_role'' \<and> au_role u \<noteq> Some ''admin''
         \<and> (case au_email u of None \<Rightarrow> False
             | Some m \<Rightarrow> starts_with (rev m) (rev ''@dreamweaver.app''))
      then Passed u None else Passed u None)"

lemma split_has_second: "c \<in> set s \<Longrightarrow> 2 \<le> length (split_char c s)"
  by (induction s) (auto split: list.splits simp: Suc_le_eq)

lemma bearer_has_token:
  assumes "starts_with h ''Bearer ''"
  shows "1 < length (split_char (CHR '' '') h)"
proof -
  have "CHR '' '' \<in> set h" using assms by (auto simp: starts_with_iff)
  from split_has_second [OF this] show ?thesis by simp
qed

text \<open>A caller who is let in carries a bearer header and is the demo user, the load-test user of a
  server that is not in production, or a user the authentication service vouches for.\<close>

lemma authenticated_as:
  assumes "authMiddleware env cenv cfg getUser rq w = (Passed u t, w')"
  shows "\<exists>h. aq_authorization rq = Some h \<and> starts_with h ''Bearer ''
    \<and> (u = demo_user \<and> aq_demoMode rq = Some ''true''
       \<or> u = load_test_user \<and> load_test_token env (split_char (CHR '' '') h ! 1)
       \<or> getUser (split_char (CHR '' '') h ! 1) w = (Inr (Some u), w'))"
  using assms
  by (auto simp: authMiddleware_def Let_def split: option.splits if_splits prod.splits sum.splits)

text \<open>The guard of the administrators' routes refuses nobody.\<close>

lemma admin_guard_admits: "adminAuthMiddleware u = Passed u None"
  by (simp add: adminAuthMiddleware_def)

end
