(* ===== verification/Moderation.thy ===== *)
theory Moderation
  imports Sharing Auth Companions
begin

text \<open>
  Flagging content and reviewing the flags: the entity \<open>Feedback\<close>, \<open>FlagContentUseCase\<close>,
  \<open>ReviewFeedbackUseCase\<close>, the repositories for feedback, moments and moderation blocks, and the
  routes of \<open>api/src/routes/feedback.ts\<close> behind their two guards.

  The world \<open>mod_db\<close> is the database: its tables, and what it accepts as parameters
  (\<open>fb_accepts\<close> for an insert, \<open>fb_updates\<close> for an update).  Identifiers that the database makes
  are arguments.
\<close>

datatype content_type = FStory | FMoment | FCharacter | FConversation
datatype feedback_type = Flag | Rating | Correction
datatype feedback_status = FPending | FReviewed | FResolved
datatype fb_resolution = FDismissed | ActionTaken
datatype review_verdict = Dismissed | BanContent | Warning

record flag_entry =
  fd_id :: string
  fd_userId :: string
  fd_contentId :: string
  fd_contentType :: content_type
  fd_type :: feedback_type
  fd_reason :: "string option"
  fd_details :: "string option"
  fd_status :: feedback_status
  fd_resolution :: "fb_resolution option"
  fd_adminNotes :: "string option"
  fd_resolvedAt :: "millis option"
  fd_createdAt :: millis

record feedback_input =
  fi_userId :: string
  fi_contentId :: string
  fi_contentType :: content_type
  fi_type :: feedback_type
  fi_reason :: "string option"
  fi_details :: "string option"

record mod_block =
  mb_admin :: string
  mb_reason :: "string option"
  mb_notes :: "string option"
  mb_at :: millis

record mod_db =
  md_feedback :: "(string \<times> flag_entry) list"
  md_stories :: story_table
  md_moments :: "(string \<times> moment \<times> bool) list"   \<comment> \<open>the flag: \<open>active\<close>, not \<open>blocked\<close>\<close>
  md_blocks :: "((string \<times> string) \<times> mod_block) list"
  md_clock :: millis

record mod_env =
  me_admin :: bool                          \<comment> \<open>the service-role client is there\<close>
  me_anon :: bool                           \<comment> \<open>the other client is there\<close>
  me_isUrl :: "string \<Rightarrow> bool"
  fb_accepts :: "flag_entry \<Rightarrow> mod_db \<Rightarrow> string option"  \<comment> \<open>the database's objection to an insert\<close>
  fb_updates :: "flag_entry \<Rightarrow> mod_db \<Rightarrow> string option"  \<comment> \<open>and to an update\<close>
  mb_accepts :: "string \<Rightarrow> mod_db \<Rightarrow> string option"    \<comment> \<open>and to a block by an administrator\<close>

definition me_client :: "mod_env \<Rightarrow> bool" where
  "me_client E \<longleftrightarrow> me_admin E \<or> me_anon E"

definition no_client :: js_error where
  "no_client = Err ''Error'' ''Supabase client not initialized''"

definition tick :: "mod_db \<Rightarrow> millis \<times> mod_db" where
  "tick D = (md_clock D, D\<lparr>md_clock := md_clock D + 1\<rparr>)"

subsection \<open>Repositories\<close>

definition fb_create :: "mod_env \<Rightarrow> string \<Rightarrow> feedback_input \<Rightarrow> (mod_db, flag_entry) eff" where
  \<comment> \<open>the first argument is the identifier the database makes\<close>
  "fb_create E newId fi =
     (if \<not> me_client E then ethrow no_client
      else ebind (eread tick) (\<lambda>now. \<lambda>D.
        let f = \<lparr>fd_id = newId, fd_userId = fi_userId fi, fd_contentId = fi_contentId fi,
                 fd_contentType = fi_contentType fi, fd_type = fi_type fi, fd_reason = fi_reason fi,
                 fd_details = fi_details fi, fd_status = FPending, fd_resolution = None,
                 fd_adminNotes = None, fd_resolvedAt = None, fd_createdAt = now\<rparr>
        in case fb_accepts E f D of
             Some msg \<Rightarrow> ethrow (Err ''Error'' (''Failed to create feedback: '' @ msg)) D
           | None \<Rightarrow> ereturn f (D\<lparr>md_feedback := AList.update newId f (md_feedback D)\<rparr>)))"

definition fb_update :: "mod_env \<Rightarrow> flag_entry \<Rightarrow> (mod_db, unit) eff" where
  "fb_update E f =
     (if \<not> me_client E then ethrow no_client
      else (\<lambda>D.
        case fb_updates E f D of
          Some msg \<Rightarrow> ethrow (Err ''Error'' (''Failed to update feedback: '' @ msg)) D
        | None \<Rightarrow>
            (case map_of (md_feedback D) (fd_id f) of
               None \<Rightarrow> ereturn () D
             | Some g \<Rightarrow>
                 ereturn () (D\<lparr>md_feedback := AList.update (fd_id f)
                   (g\<lparr>fd_status := fd_status f, fd_resolution := fd_resolution f,
                     fd_adminNotes := (case fd_adminNotes f of None \<Rightarrow> fd_adminNotes g | Some x \<Rightarrow> Some x),
                     fd_resolvedAt :=
                       (case fd_resolvedAt f of None \<Rightarrow> fd_resolvedAt g | Some x \<Rightarrow> Some x)\<rparr>)
                   (md_feedback D)\<rparr>))))"

definition fb_findById :: "mod_env \<Rightarrow> string \<Rightarrow> (mod_db, flag_entry option) eff" where
  "fb_findById E i =
     (if \<not> me_client E then ethrow no_client else (\<lambda>D. ereturn (map_of (md_feedback D) i) D))"

definition fb_findPending :: "mod_env \<Rightarrow> (mod_db, flag_entry list) eff" where
  \<comment> \<open>newest first\<close>
  "fb_findPending E =
     (if \<not> me_client E then ethrow no_client
      else (\<lambda>D. ereturn (sort_key (\<lambda>f. - fd_createdAt f)
                  (filter (\<lambda>f. fd_status f = FPending) (map snd (md_feedback D)))) D))"

definition active_moments :: "mod_db \<Rightarrow> moment list" where
  "active_moments D = map (fst \<circ> snd) (filter (snd \<circ> snd) (md_moments D))"

definition moment_findByUserId :: "mod_env \<Rightarrow> string \<Rightarrow> (mod_db, moment list) eff" where
  "moment_findByUserId E user =
     (if \<not> me_client E then ethrow no_client
      else (\<lambda>D. ereturn (filter (\<lambda>m. mo_userId m = user) (active_moments D)) D))"

definition moment_findByStoryId :: "mod_env \<Rightarrow> string \<Rightarrow> (mod_db, moment list) eff" where
  "moment_findByStoryId E story =
     (if \<not> me_client E then ethrow no_client
      else (\<lambda>D. ereturn (filter (\<lambda>m. mo_storyId m = story) (active_moments D)) D))"

definition moment_save :: "mod_env \<Rightarrow> moment \<Rightarrow> (mod_db, unit) eff" where
  \<comment> \<open>the column \<open>status\<close> is not written: it stays, or takes its default \<open>active\<close>\<close>
  "moment_save E m =
     (if \<not> me_client E then ethrow no_client
      else (\<lambda>D. ereturn () (D\<lparr>md_moments := AList.update (mo_id m)
             (m, case map_of (md_moments D) (mo_id m) of None \<Rightarrow> True | Some (_, a) \<Rightarrow> a)
             (md_moments D)\<rparr>)))"

definition moment_findById :: "mod_env \<Rightarrow> string \<Rightarrow> (mod_db, moment option) eff" where
  "moment_findById E i =
     (if \<not> me_client E then ethrow no_client
      else (\<lambda>D. ereturn (case map_of (md_moments D) i of Some (m, True) \<Rightarrow> Some m | _ \<Rightarrow> None) D))"

definition moment_block :: "mod_env \<Rightarrow> string \<Rightarrow> (mod_db, bool) eff" where
  \<comment> \<open>whether a row was updated\<close>
  "moment_block E i =
     (if \<not> me_client E then ethrow no_client
      else (\<lambda>D. case map_of (md_moments D) i of
              None \<Rightarrow> ereturn False D
            | Some (m, _) \<Rightarrow> ereturn True (D\<lparr>md_moments := AList.update i (m, False) (md_moments D)\<rparr>)))"

definition moderation_block ::
    "mod_env \<Rightarrow> string \<Rightarrow> string \<Rightarrow> string \<Rightarrow> string option \<Rightarrow> string option \<Rightarrow> (mod_db, unit) eff" where
  "moderation_block E what i admin reason notes =
     (if \<not> me_admin E
      then ethrow (Err ''Error'' ''Supabase service role is required for moderation actions'')
      else ebind (eread tick) (\<lambda>now. \<lambda>D.
        case mb_accepts E admin D of
          Some msg \<Rightarrow> ethrow (Err ''Error'' (''Failed to persist moderation block: '' @ msg)) D
        | None \<Rightarrow> ereturn () (D\<lparr>md_blocks := AList.update (what, i)
            \<lparr>mb_admin = admin, mb_reason = or_undefined reason, mb_notes = or_undefined notes,
             mb_at = now\<rparr> (md_blocks D)\<rparr>)))"

definition listBlockedCharacterIds :: "mod_env \<Rightarrow> (mod_db, string list) eff" where
  "listBlockedCharacterIds E =
     (if \<not> me_admin E
      then ethrow (Err ''Error'' ''Supabase service role is required for moderation actions'')
      else (\<lambda>D. ereturn (filter (\<lambda>i. i \<noteq> [])
                  (map (snd \<circ> fst) (filter (\<lambda>b. fst (fst b) = ''character'') (md_blocks D)))) D))"

definition story_client :: "mod_env \<Rightarrow> mod_db story_db" where
  \<comment> \<open>the client of the story repository on this database; it lists no stories here\<close>
  "story_client E =
     \<lparr>sb_connected = me_client E, sb_byId = (\<lambda>i D. (Inr (Inr (md_stories D i)), D)),
      sb_upsert = (\<lambda>r D. (Inr (Inr ()), D\<lparr>md_stories := (md_stories D)(sr_id r \<mapsto> r)\<rparr>)),
      sb_byUser = (\<lambda>u n D. (Inr (Inr []), D)), sb_nap = (\<lambda>d D. D), sb_isUrl = me_isUrl E\<rparr>"

subsection \<open>Use cases\<close>

definition flagContent :: "mod_env \<Rightarrow> string \<Rightarrow> feedback_input \<Rightarrow> (mod_db, flag_entry) eff" where
  "flagContent E newId fi =
     (if fi_userId fi = [] then ethrow (Err ''Error'' ''UserId is required'')
      else if fi_contentId fi = [] then ethrow (Err ''Error'' ''ContentId is required'')
      else fb_create E newId fi)"

definition ban_content ::
    "mod_env \<Rightarrow> flag_entry \<Rightarrow> string \<Rightarrow> string option \<Rightarrow> (mod_db, string) eff" where
  \<comment> \<open>the action and its description\<close>
  "ban_content E f admin notes =
     (case fd_contentType f of
        FStory \<Rightarrow>
          ebind (sr_findById (story_client E) (fd_contentId f)) (\<lambda>s.
            case s of
              Some st \<Rightarrow> ethen (sr_save (story_client E) (story_block st)) (ereturn ''Content blocked'')
            | None \<Rightarrow> ereturn ''Content not found (already deleted?)'')
      | FMoment \<Rightarrow>
          ebind (moment_block E (fd_contentId f)) (\<lambda>b.
            ereturn (if b then ''Moment blocked'' else ''Moment not found (already deleted?)''))
      | FCharacter \<Rightarrow>
          ethen (moderation_block E ''character'' (fd_contentId f) admin (fd_reason f) notes)
            (ereturn ''Character blocked'')
      | FConversation \<Rightarrow> ereturn ''Content blocked'')"

definition reviewFeedback ::
    "mod_env \<Rightarrow> string \<Rightarrow> string \<Rightarrow> review_verdict \<Rightarrow> string option \<Rightarrow> (mod_db, flag_entry \<times> string) eff" where
  "reviewFeedback E feedbackId admin v notes =
     ebind (fb_findById E feedbackId) (\<lambda>found.
       case found of
         None \<Rightarrow> ethrow (Err ''Error'' ''Feedback not found'')
       | Some f \<Rightarrow>
           ebind (if v = BanContent then ban_content E f admin notes else ereturn ''No action taken'')
             (\<lambda>action. ebind (eread tick) (\<lambda>now.
                let f' = f\<lparr>fd_status := FResolved,
                           fd_resolution := Some (if v = Dismissed then FDismissed else ActionTaken),
                           fd_adminNotes := notes, fd_resolvedAt := Some now\<rparr>
                in ethen (fb_update E f') (ereturn (f', action)))))"


subsection \<open>Routes\<close>

record api =
  ap_env :: environment
  ap_cenv :: environment
  ap_config :: supabase_config
  ap_getUser :: "string \<Rightarrow> (mod_db, api_user option) eff"

datatype 'a reply = Reply (rep_status: nat) (rep_body: "string + 'a")

definition authenticated ::
    "api \<Rightarrow> auth_request \<Rightarrow> (api_user \<Rightarrow> mod_db \<Rightarrow> 'a reply \<times> mod_db) \<Rightarrow> mod_db \<Rightarrow> 'a reply \<times> mod_db" where
  \<comment> \<open>\<open>authMiddleware\<close> before a handler\<close>
  "authenticated A rq handler D =
     (case authMiddleware (ap_env A) (ap_cenv A) (ap_config A) (ap_getUser A) rq D of
        (Denied st msg, D') \<Rightarrow> (Reply st (Inl msg), D')
      | (Passed u t, D') \<Rightarrow> handler u D')"

definition administrator ::
    "(api_user \<Rightarrow> mod_db \<Rightarrow> 'a reply \<times> mod_db) \<Rightarrow> api_user \<Rightarrow> mod_db \<Rightarrow> 'a reply \<times> mod_db" where
  \<comment> \<open>\<open>adminAuthMiddleware\<close> before a handler\<close>
  "administrator handler u D =
     (case adminAuthMiddleware u of
        Denied st msg \<Rightarrow> (Reply st (Inl msg), D)
      | Passed _ _ \<Rightarrow> handler u D)"

record flag_body =
  rb_contentId :: string
  rb_contentType :: string
  rb_type :: string
  rb_reason :: "string option"
  rb_details :: "string option"

definition content_type_of :: "string \<Rightarrow> content_type option" where
  "content_type_of t =
     (if t = ''story'' then Some FStory else if t = ''moment'' then Some FMoment
      else if t = ''character'' then Some FCharacter
      else if t = ''conversation'' then Some FConversation else None)"

definition feedback_type_of :: "string \<Rightarrow> feedback_type option" where
  "feedback_type_of t =
     (if t = ''flag'' then Some Flag else if t = ''rating'' then Some Rating
      else if t = ''correction'' then Some Correction else None)"

definition review_verdict_of :: "string \<Rightarrow> review_verdict option" where
  "review_verdict_of t =
     (if t = ''dismissed'' then Some Dismissed else if t = ''ban_content'' then Some BanContent
      else if t = ''warning'' then Some Warning else None)"

definition parse_flag :: "string \<Rightarrow> flag_body \<Rightarrow> feedback_input option" where
  \<comment> \<open>\<open>createFeedbackSchema\<close>, with the caller as the user\<close>
  "parse_flag userId b =
     (if \<not> is_uuid (rb_contentId b) then None
      else (case (content_type_of (rb_contentType b), feedback_type_of (rb_type b)) of
              (Some ct, Some ft) \<Rightarrow>
                Some \<lparr>fi_userId = userId, fi_contentId = rb_contentId b, fi_contentType = ct,
                      fi_type = ft, fi_reason = rb_reason b, fi_details = rb_details b\<rparr>
            | _ \<Rightarrow> None))"

definition reply_of :: "(js_error \<Rightarrow> string) \<Rightarrow> (mod_db, 'a) eff \<Rightarrow> mod_db \<Rightarrow> 'a reply \<times> mod_db" where
  "reply_of message m D =
     (case m D of
        (Inl e, D') \<Rightarrow> (Reply 500 (Inl (message e)), D')
      | (Inr a, D') \<Rightarrow> (Reply 200 (Inr a), D'))"

definition route_flag ::
    "api \<Rightarrow> mod_env \<Rightarrow> string \<Rightarrow> auth_request \<Rightarrow> flag_body \<Rightarrow> mod_db \<Rightarrow> flag_entry reply \<times> mod_db" where
  \<comment> \<open>\<open>POST /feedback\<close>\<close>
  "route_flag A E newId rq b =
     authenticated A rq (\<lambda>u D.
       case parse_flag (au_id u) b of
         None \<Rightarrow> (Reply 400 (Inl ''Validation''), D)
       | Some fi \<Rightarrow> reply_of (\<lambda>_. ''Failed to submit feedback'') (flagContent E newId fi) D)"

definition route_pending :: "api \<Rightarrow> mod_env \<Rightarrow> auth_request \<Rightarrow> mod_db \<Rightarrow> flag_entry list reply \<times> mod_db" where
  \<comment> \<open>\<open>GET /feedback/admin/pending\<close>\<close>
  "route_pending A E rq =
     authenticated A rq (administrator (\<lambda>u. reply_of (\<lambda>_. ''Internal Error'') (fb_findPending E)))"

record resolve_body =
  vb_adminId :: string
  vb_resolution :: string
  vb_adminNotes :: "string option"

definition route_resolve ::
    "api \<Rightarrow> mod_env \<Rightarrow> string \<Rightarrow> auth_request \<Rightarrow> resolve_body \<Rightarrow> mod_db
      \<Rightarrow> (flag_entry \<times> string) reply \<times> mod_db" where
  \<comment> \<open>\<open>POST /feedback/admin/:id/resolve\<close>\<close>
  "route_resolve A E fid rq b =
     authenticated A rq (administrator (\<lambda>u D.
       case review_verdict_of (vb_resolution b) of
         None \<Rightarrow> (Reply 400 (Inl ''Validation''), D)
       | Some v \<Rightarrow>
           reply_of err_message (reviewFeedback E fid (vb_adminId b) v (vb_adminNotes b)) D))"


subsection \<open>Who may block, and what a block does\<close>

lemma story_client_save:
  "me_client E \<Longrightarrow> sr_save (story_client E) s D
     = (Inr (), D\<lparr>md_stories := (md_stories D)(st_id s \<mapsto> mapStoryToRow s)\<rparr>)"
  by (simp add: sr_save_def story_client_def withRetry_first mapStoryToRow_def)

lemma story_client_find:
  "me_client E \<Longrightarrow> md_stories D i = Some r \<Longrightarrow> mapRowToStory (me_isUrl E) r = Inr s \<Longrightarrow>
   sr_findById (story_client E) i D = (Inr (Some s), D)"
  by (simp add: sr_findById_def story_client_def withRetry_first lift_sum_def)

lemma demo_admitted:
  assumes "aq_authorization rq = Some h" "starts_with h ''Bearer ''" "aq_demoMode rq = Some ''true''"
  shows "authenticated A rq handler D = handler demo_user D"
  using assms by (simp add: authenticated_def authMiddleware_def Let_def)

lemma administrator_open [simp]: "administrator handler u D = handler u D"
  by (simp add: administrator_def admin_guard_admits)

lemma row_story_block:
  assumes "mapRowToStory is_url r = Inr s"
  shows "st_id s = sr_id r \<and> mapRowToStory is_url (mapStoryToRow (story_block s)) = Inr (story_block s)"
proof
  show "st_id s = sr_id r"
    using assms by (auto simp: mapRowToStory_def story_create_def split: sum.splits option.splits if_splits)
  have "StorySchema is_url (story_block s)" "tidy_content (st_content (story_block s))"
    using row_story_valid [OF assms] by (simp_all add: StorySchema_def story_block_def)
  moreover have "st_audioUrl (story_block s) \<noteq> Some []"
    using assms by (auto simp: mapRowToStory_def story_create_def story_block_def or_undefined_def
        truthy_string_def split: sum.splits option.splits if_splits)
  ultimately show "mapRowToStory is_url (mapStoryToRow (story_block s)) = Inr (story_block s)"
    by (intro story_row_roundtrip)
qed

lemma ban_story_run:
  assumes "me_client E" "fd_contentType f = FStory" "md_stories D (fd_contentId f) = Some r"
    "mapRowToStory (me_isUrl E) r = Inr s"
  shows "ban_content E f admin nts D = (Inr ''Content blocked'',
    D\<lparr>md_stories := (md_stories D)(st_id s \<mapsto> mapStoryToRow (story_block s))\<rparr>)"
proof -
  have "st_id (story_block s) = st_id s" by (simp add: story_block_def)
  then show ?thesis
    using assms story_client_find [OF assms(1,3,4)] story_client_save [OF assms(1), of "story_block s" D]
    by (simp add: ban_content_def)
qed


definition sample_api :: api where
  \<comment> \<open>production, an authentication service that accepts nobody\<close>
  "sample_api =
     \<lparr>ap_env = [''NODE_ENV'' \<mapsto> ''production''], ap_cenv = Map.empty,
      ap_config = \<lparr>cf_url = ''https://db'', cf_anonKey = ''k'', cf_serviceKey = None\<rparr>,
      ap_getUser = (\<lambda>t D. (Inr None, D))\<rparr>"

definition sample_mod_env :: mod_env where
  \<comment> \<open>a database that refuses every update of a flag\<close>
  "sample_mod_env =
     \<lparr>me_admin = True, me_anon = True, me_isUrl = (\<lambda>_. False), fb_accepts = (\<lambda>_ _. None),
      fb_updates = (\<lambda>_ _. Some ''column feedback.resolution does not exist''),
      mb_accepts = (\<lambda>_ _. None)\<rparr>"

definition sample_flag :: flag_entry where
  "sample_flag =
     \<lparr>fd_id = ''f'', fd_userId = ''u'', fd_contentId = sample_uuid, fd_contentType = FStory,
      fd_type = Flag, fd_reason = None, fd_details = None, fd_status = FPending,
      fd_resolution = None, fd_adminNotes = None, fd_resolvedAt = None, fd_createdAt = 0\<rparr>"

definition sample_mod_db :: mod_db where
  "sample_mod_db =
     \<lparr>md_feedback = [(''f'', sample_flag)],
      md_stories = [sample_uuid \<mapsto> mapStoryToRow sample_story],
      md_moments = [(''m'', \<lparr>mo_id = ''m'', mo_userId = ''u'', mo_storyId = ''s'', mo_mediaUrl = ''x'',
                              mo_description = None, mo_createdAt = 0\<rparr>, True)],
      md_blocks = [], md_clock = 9\<rparr>"


text \<open>Blocking a story hides it from nobody: a valid link still serves it, marked as blocked, and
  its owner still reads it. A blocked moment, in contrast, is no longer found.\<close>

lemma blocked_story_still_served:
  assumes "isBlocked s" "sd_stories D (sl_resourceId l) = Some s"
    and "sd_links D token = Some l" "sl_isValid now l" "sl_type l = Story"
    and "findById i w = (Inr (Some s), w')"
    and "moment_block E j M = (Inr True, M')"
  shows "fst (getSharedContent now now2 token D) = Content Story (SharedStory (story_toPublicJSON s))
    \<and> pu_status (story_toPublicJSON s) = Blocked
    \<and> getStory findById (st_ownerId s) i w = (Inr s, w')
    \<and> moment_findById E j M' = (Inr None, M')"
proof -
  have keep: "sd_stories (count_view now2 token D) = sd_stories D"
    by (auto simp: count_view_def increment_shared_link_views_def split: option.splits)
  have "fst (getSharedContent now now2 token D) = Content Story (SharedStory (story_toPublicJSON s))"
    using assms(2-5) keep
    by (simp add: getSharedContent_def check_view_def get_shared_link_by_token_def fetch_view_def Let_def)
  moreover have "pu_status (story_toPublicJSON s) = Blocked"
    using assms(1) by (simp add: story_toPublicJSON_def isBlocked_def)
  moreover have "getStory findById (st_ownerId s) i w = (Inr s, w')"
    using assms(6) by (simp add: getStory_def)
  moreover have "moment_findById E j M' = (Inr None, M')"
    using assms(7)
    by (auto simp: moment_block_def moment_findById_def update_conv' split: if_splits option.splits prod.splits)
  ultimately show ?thesis by blast
qed


lemma blocked_story_still_served_witness:
  "\<exists>c. fst (getSharedContent 1 2 ''tok''
        (sample_share 3\<lparr>sd_stories := [''s'' \<mapsto> story_block shared_sample]\<rparr>)) = Content Story c"
proof -
  let ?s = "story_block shared_sample"
  let ?D = "sample_share 3\<lparr>sd_stories := [''s'' \<mapsto> ?s]\<rparr>"
  let ?l = "the (sd_links ?D ''tok'')"
  have blocked: "isBlocked ?s" by (simp add: isBlocked_def story_block_def)
  have l: "sd_stories ?D (sl_resourceId ?l) = Some ?s" "sd_links ?D ''tok'' = Some ?l"
      "sl_isValid 1 ?l" "sl_type ?l = Story"
    by (simp_all add: share_run)
  have find: "(\<lambda>i w. (Inr (Some ?s), w)) ''s'' () = (Inr (Some ?s), ())" by simp
  obtain M' where M': "moment_block sample_mod_env ''m'' sample_mod_db = (Inr True, M')"
    by (simp add: moment_block_def sample_mod_env_def sample_mod_db_def me_client_def)
  show ?thesis
    using blocked_story_still_served [where findById = "\<lambda>i w. (Inr (Some ?s), w)" and i = "''s''" and w = "()" and w' = "()", OF blocked l find M'] by blast
qed

end
