(* ===== verification/ToolRouter.thy ===== *)
theory ToolRouter
  imports Stories Conductor Safety "HOL-Library.List_Lexorder" "HOL-Library.Char_ord"
    "HOL-Library.Multiset"
begin

text \<open>
  The tools of a live session: \<open>ToolExecutionRouter\<close>
  (\<open>api/src/application/use-cases/Live/ToolExecutionRouter.ts\<close>) and the audit log
  \<open>SupabaseToolAuditLog\<close>.  The arguments of a call are a \<^typ>\<open>json\<close> value, checked as the
  schemas check them; the texts of validation errors, identifiers, the clock, the memory and the
  hash function are parameters.  Logging is left out.
\<close>

record tool_request =
  tq_sessionId :: string
  tq_userId :: string
  tq_requestId :: "string option"
  tq_traceId :: "string option"
  tq_toolCallId :: "string option"
  tq_toolName :: string
  tq_arguments :: json

record tool_response =
  tp_result :: json
  tp_error :: "string option"

record tool_audit =
  ta_userId :: string
  ta_sessionId :: string
  ta_requestId :: "string option"
  ta_traceId :: "string option"
  ta_toolName :: string
  ta_toolCallId :: "string option"
  ta_allowed :: bool
  ta_args :: json
  ta_result :: json
  ta_error :: "string option"
  ta_occurredAt :: millis

record 'w tool_ports =
  tr_conductor :: "'w ports"
  tr_store :: "string \<Rightarrow> memory_type \<Rightarrow> memory_context \<Rightarrow> ('w, unit) eff"
  tr_status :: "'w \<Rightarrow> bool \<times> real"                 \<comment> \<open>monitoring, and the confidence\<close>
  tr_repository :: "'w story_db option"
  tr_audit :: "(tool_audit \<Rightarrow> ('w, unit) eff) option"
  tr_invalid :: "string \<Rightarrow> json \<Rightarrow> string"          \<comment> \<open>the message of a \<open>ZodError\<close>\<close>
  tr_newId :: "'w \<Rightarrow> string \<times> 'w"
  tr_now :: "'w \<Rightarrow> millis \<times> 'w"
  tr_isUrl :: "string \<Rightarrow> bool"

subsection \<open>Arguments\<close>

datatype tool_args =
    SaveMemory string memory_type
  | CheckSleep
  | SuggestTheme
  | SaveGeneratedStory string string "string option"   \<comment> \<open>title, content, theme\<close>

definition sized :: "nat \<Rightarrow> json option \<Rightarrow> string option" where
  \<comment> \<open>\<open>z.string().min(1).max(n)\<close>\<close>
  "sized n j =
     (case j of Some (JStr s) \<Rightarrow> if 1 \<le> length s \<and> length s \<le> n then Some s else None | _ \<Rightarrow> None)"

definition parse_save_memory :: "json \<Rightarrow> tool_args option" where
  "parse_save_memory j =
     (case j of
        JObj kvs \<Rightarrow>
          (case (sized 4000 (map_of kvs ''content''), map_of kvs ''memoryType'') of
             (Some c, Some (JStr t)) \<Rightarrow>
               if t = ''PREFERENCE'' then Some (SaveMemory c PREFERENCE)
               else if t = ''EPISODIC'' then Some (SaveMemory c EPISODIC) else None
           | _ \<Rightarrow> None)
      | _ \<Rightarrow> None)"

definition parse_empty :: "tool_args \<Rightarrow> json \<Rightarrow> tool_args option" where
  \<comment> \<open>\<open>emptyArgsSchema\<close>, strict\<close>
  "parse_empty a j = (case j of JObj kvs \<Rightarrow> if kvs = [] then Some a else None | _ \<Rightarrow> None)"

definition parse_save_story :: "json \<Rightarrow> tool_args option" where
  "parse_save_story j =
     (case j of
        JObj kvs \<Rightarrow>
          (case (sized 200 (map_of kvs ''title''), sized 20000 (map_of kvs ''content'')) of
             (Some t, Some c) \<Rightarrow>
               (case map_of kvs ''theme'' of
                  None \<Rightarrow> Some (SaveGeneratedStory t c None)
                | Some x \<Rightarrow> map_option (\<lambda>th. SaveGeneratedStory t c (Some th)) (sized 100 (Some x)))
           | _ \<Rightarrow> None)
      | _ \<Rightarrow> None)"

definition parse_tool :: "'w tool_ports \<Rightarrow> tool_request \<Rightarrow> string + tool_args" where
  "parse_tool P rq =
     (let name = tq_toolName rq; j = tq_arguments rq;
          checked = (\<lambda>x. case x of None \<Rightarrow> Inl (tr_invalid P name j) | Some a \<Rightarrow> Inr a)
      in if name = ''save_memory'' then checked (parse_save_memory j)
         else if name = ''check_sleep_status'' then checked (parse_empty CheckSleep j)
         else if name = ''suggest_theme'' then checked (parse_empty SuggestTheme j)
         else if name = ''save_generated_story'' then checked (parse_save_story j)
         else Inl ''Unknown tool'')"

subsection \<open>Handlers\<close>

definition respond :: "json \<Rightarrow> tool_response" where
  "respond j = \<lparr>tp_result = j, tp_error = None\<rparr>"

definition refuse :: "string \<Rightarrow> tool_response" where
  "refuse e = \<lparr>tp_result = JNull, tp_error = Some e\<rparr>"

definition handleCheckSleep :: "bool \<times> real \<Rightarrow> tool_response" where
  "handleCheckSleep st =
     respond (JObj [(''isMonitoring'', JBool (fst st)), (''confidence'', JNum (snd st)),
       (''status'', JStr (if snd st > 0.8 then ''ASLEEP'' else ''AWAKE''))])"

definition handleSuggestTheme :: "'w tool_ports \<Rightarrow> string \<Rightarrow> ('w, tool_response) eff" where
  "handleSuggestTheme P user =
     ebind (generateSuggestions (tr_conductor P)
              \<lparr>cx_childName = None, cx_childAge = None, cx_currentMood = None, cx_userId = Some user,
               cx_sessionId = None, cx_traceId = None, cx_envContext = None\<rparr>)
       (\<lambda>ss. ereturn (respond (JObj [(''suggestions'', JArr (map (\<lambda>s.
          JObj [(''theme'', JStr (sg_theme s)), (''reasoning'', JStr (sg_reasoning s))]) ss))])))"

definition handleSaveGeneratedStory ::
    "'w tool_ports \<Rightarrow> string \<Rightarrow> string \<Rightarrow> string \<Rightarrow> string option \<Rightarrow> ('w, tool_response) eff" where
  "handleSaveGeneratedStory P user title content theme =
     (case tr_repository P of
        None \<Rightarrow> ereturn (refuse ''Persistence not enabled.'')
      | Some D \<Rightarrow>
          ebind (eread (tr_newId P)) (\<lambda>i.
          ebind (lift_sum (fromRawText content)) (\<lambda>c.
          ebind (eread (tr_now P)) (\<lambda>t1. ebind (eread (tr_now P)) (\<lambda>t2.
          ebind (lift_sum (story_create (tr_isUrl P)
                   \<lparr>st_id = i, st_title = title, st_content = c,
                    st_theme = or_string theme ''Live Session'', st_ownerId = user,
                    st_status = Completed, st_createdAt = t1, st_generatedAt = Some t2,
                    st_audioUrl = None\<rparr>)) (\<lambda>s.
          ethen (sr_save D s)
            (ereturn (respond (JObj [(''success'', JBool True), (''storyId'', JStr (st_id s))])))))))))"

definition run_tool :: "'w tool_ports \<Rightarrow> tool_request \<Rightarrow> tool_args \<Rightarrow> ('w, tool_response) eff" where
  "run_tool P rq a =
     (case a of
        SaveMemory c t \<Rightarrow>
          ethen (tr_store P c t \<lparr>mc_userId = tq_userId rq, mc_sessionId = Some (tq_sessionId rq)\<rparr>)
            (ereturn (respond (JObj [(''success'', JBool True), (''message'', JStr ''Memory saved.'')])))
      | CheckSleep \<Rightarrow> (\<lambda>w. ereturn (handleCheckSleep (tr_status P w)) w)
      | SuggestTheme \<Rightarrow> handleSuggestTheme P (tq_userId rq)
      | SaveGeneratedStory t c th \<Rightarrow> handleSaveGeneratedStory P (tq_userId rq) t c th)"

definition audit_of :: "tool_request \<Rightarrow> millis \<Rightarrow> bool \<Rightarrow> tool_response \<Rightarrow> tool_audit" where
  "audit_of rq now allowed resp =
     \<lparr>ta_userId = tq_userId rq, ta_sessionId = tq_sessionId rq, ta_requestId = tq_requestId rq,
      ta_traceId = tq_traceId rq, ta_toolName = tq_toolName rq, ta_toolCallId = tq_toolCallId rq,
      ta_allowed = allowed, ta_args = tq_arguments rq, ta_result = tp_result resp,
      ta_error = tp_error resp, ta_occurredAt = now\<rparr>"

definition write_audit :: "'w tool_ports \<Rightarrow> tool_audit \<Rightarrow> ('w, unit) eff" where
  "write_audit P a = (case tr_audit P of None \<Rightarrow> ereturn () | Some put \<Rightarrow> put a)"

definition execute_tool :: "'w tool_ports \<Rightarrow> tool_request \<Rightarrow> ('w, tool_response) eff" where
  \<comment> \<open>\<open>ToolExecutionRouter.execute\<close>\<close>
  "execute_tool P rq =
     ebind (eread (tr_now P)) (\<lambda>now.
       case parse_tool P rq of
         Inl e \<Rightarrow> ethen (write_audit P (audit_of rq now False (refuse e))) (ereturn (refuse e))
       | Inr a \<Rightarrow>
           etry (ebind (run_tool P rq a) (\<lambda>resp.
                  ethen (write_audit P (audit_of rq now True resp)) (ereturn resp)))
             (\<lambda>e. let resp = refuse (err_message e)
                   in ethen (write_audit P (audit_of rq now True resp)) (ereturn resp)))"


subsection \<open>The audit log\<close>

primrec stable :: "json \<Rightarrow> json" where
  \<comment> \<open>the replacer of \<open>stableStringify\<close>: the keys of every object in order\<close>
  "stable JNull = JNull"
| "stable (JBool b) = JBool b"
| "stable (JNum x) = JNum x"
| "stable (JStr t) = JStr t"
| "stable (JArr js) = JArr (map stable js)"
| "stable (JObj kvs) = JObj (sort_key fst (map (map_prod id stable) kvs))"

record audit_row =
  aw_record :: tool_audit
  aw_args_hash :: string
  aw_result_hash :: string

definition audit_write ::
    "(json \<Rightarrow> string) \<Rightarrow> (string \<Rightarrow> string) \<Rightarrow> (audit_row \<Rightarrow> ('w, string option) eff) \<Rightarrow> tool_audit
      \<Rightarrow> ('w, unit) eff" where
  \<comment> \<open>\<open>JSON.stringify\<close>, SHA-256 and the insertion, which answers the message of an error; an error
      that is answered and one that is thrown are both only logged\<close>
  "audit_write stringify hash ins a =
     etry (ebind (ins \<lparr>aw_record = a, aw_args_hash = hash (stringify (stable (ta_args a))),
                       aw_result_hash = hash (stringify (stable (ta_result a)))\<rparr>)
             (\<lambda>_. ereturn ()))
       (\<lambda>_. ereturn ())"

lemma audit_write_total: "total_eff (audit_write stringify hash ins a)"
  unfolding audit_write_def by (intro total_etry total_ereturn)

text \<open>The hashes do not depend on the order of an object's keys.\<close>

lemma distinct_map_fst_sort:
  "distinct (map fst (sort_key fst (map (map_prod id f) kvs))) = distinct (map fst kvs)"
proof -
  have "mset (map fst (sort_key fst (map (map_prod id f) kvs))) = mset (map fst kvs)"
    by (simp add: image_mset.compositionality comp_def)
  then show ?thesis by (rule mset_eq_imp_distinct_iff)
qed

lemma sorted_by_key_unique:
  assumes "sorted (map fst xs)" "sorted (map fst ys)" "distinct (map fst xs)" "set xs = set ys"
    "distinct (map fst ys)"
  shows "xs = (ys :: ((string \<times> 'b) list))"
proof -
  have "map fst xs = map fst ys"
    using sorted_distinct_set_unique [OF assms(1,3,2,5)] assms(4) by simp
  moreover have maps: "map_of xs = map_of ys" using map_of_inject_set [OF assms(3,5)] assms(4) by simp
  moreover have "snd (xs ! i) = snd (ys ! i)" if "i < length ys" for i
  proof -
    have n: "length xs = length ys" "fst (xs ! i) = fst (ys ! i)"
      using calculation(1) that by (metis length_map, metis length_map nth_map)
    have "xs ! i \<in> set xs" "ys ! i \<in> set ys" using that n(1) by simp_all
    then have "map_of xs (fst (xs ! i)) = Some (snd (xs ! i))" "map_of ys (fst (ys ! i)) = Some (snd (ys ! i))"
      using assms(3,5) by (simp_all add: map_of_is_SomeI)
    then show ?thesis using maps n(2) by simp
  qed
  moreover have len: "length xs = length ys" using calculation(1) by (metis length_map)
  moreover have "fst (xs ! i) = fst (ys ! i)" if "i < length ys" for i
    using calculation(1) len that by (metis nth_map)
  ultimately show ?thesis by (metis nth_equalityI prod.expand)
qed

lemma stable_ignores_order:
  assumes "mset kvs = mset kvs'" "distinct (map fst kvs)"
  shows "stable (JObj kvs) = stable (JObj kvs')"
proof -
  have "distinct (map fst kvs')"
    using assms mset_eq_imp_distinct_iff [of "map fst kvs" "map fst kvs'"] by simp
  moreover have "set kvs = set kvs'" using assms(1) by (rule mset_eq_setD)
  ultimately have "sort_key fst (map (map_prod id stable) kvs) = sort_key fst (map (map_prod id stable) kvs')"
    using assms(2) by (intro sorted_by_key_unique) (simp_all add: distinct_map_fst_sort)
  then show ?thesis by simp
qed


subsection \<open>What a tool call does\<close>

text \<open>C21: Every call is answered and audited, after what the tool does and with the answer it gives: a
  call whose arguments are refused runs no tool and is audited as not allowed, every other one as
  allowed, errors of the tool included.\<close>

theorem tool_calls_audited:
  assumes "tr_audit P = Some put" "\<And>a. total_eff (put a)"
  shows "\<exists>resp w1. execute_tool P rq w
        = (Inr resp, snd (put (audit_of rq (fst (tr_now P w)) (\<not> isl (parse_tool P rq)) resp) w1))
    \<and> w1 = (case parse_tool P rq of
             Inl _ \<Rightarrow> snd (tr_now P w) | Inr a \<Rightarrow> snd (run_tool P rq a (snd (tr_now P w))))
    \<and> (case parse_tool P rq of
         Inl e \<Rightarrow> resp = refuse e
       | Inr a \<Rightarrow> (case fst (run_tool P rq a (snd (tr_now P w))) of
                    Inl e \<Rightarrow> resp = refuse (err_message e) | Inr x \<Rightarrow> resp = x))"
proof -
  obtain now w0 where now: "tr_now P w = (now, w0)" by fastforce
  have logged: "write_audit P a v = (Inr (), snd (put a v))" for a v
  proof -
    obtain v' where "put a v = (Inr (), v')" by (rule total_unitE [OF assms(2)])
    then show ?thesis using assms(1) by (simp add: write_audit_def)
  qed
  show ?thesis
  proof (cases "parse_tool P rq")
    case (Inl e)
    then show ?thesis
      by (simp add: execute_tool_def now ebind_def eread_def ethen_def logged)
  next
    case (Inr a)
    obtain x w1 where run: "run_tool P rq a w0 = (x, w1)" by fastforce
    show ?thesis
      using Inr run
      by (cases x) (simp_all add: execute_tool_def now ebind_def eread_def ethen_def etry_def logged Let_def)
  qed
qed

definition idle_conductor :: "'w ports" where
  \<comment> \<open>a conductor without a session and without a memory, whose model is out of reach\<close>
  "idle_conductor =
     \<lparr>po_now = (\<lambda>w. (0, w)), po_random = (\<lambda>w. ([], w)), po_get = (\<lambda>i w. (Inr None, w)),
      po_set = (\<lambda>i v w. (Inr (), w)), po_memory = None,
      po_think = (\<lambda>obs tr w. (Inl (Err ''Error'' ''offline''), w)), po_save_trace = None,
      po_assess = (\<lambda>ev w. (Inr (assessFailure ev), w)), po_wait = (\<lambda>ms w. w), po_gate = False,
      po_observation = (\<lambda>v. []), po_start_trigger = (\<lambda>t. t), po_uuid = is_uuid,
      po_schema_error = []\<rparr>"

definition sample_tools :: "'w story_db option \<Rightarrow> (tool_audit \<Rightarrow> ('w, unit) eff) option \<Rightarrow> 'w tool_ports" where
  "sample_tools db put =
     \<lparr>tr_conductor = idle_conductor, tr_store = (\<lambda>c t ctx w. (Inl (Err ''Error'' ''memory full''), w)),
      tr_status = (\<lambda>w. (True, 0.9)), tr_repository = db, tr_audit = put,
      tr_invalid = (\<lambda>n j. ''invalid''), tr_newId = (\<lambda>w. (sample_uuid, w)), tr_now = (\<lambda>w. (0, w)),
      tr_isUrl = (\<lambda>u. False)\<rparr>"

definition sample_call :: "string \<Rightarrow> json \<Rightarrow> tool_request" where
  "sample_call name j =
     \<lparr>tq_sessionId = ''s'', tq_userId = sample_uuid, tq_requestId = None, tq_traceId = None,
      tq_toolCallId = None, tq_toolName = name, tq_arguments = j\<rparr>"

definition log_tools :: "tool_audit list tool_ports" where
  \<comment> \<open>the world is the audit log\<close>
  "log_tools = sample_tools None (Some (\<lambda>a w. (Inr (), a # w)))"

theorem tool_calls_audited_witness:
  "\<exists>resp a. execute_tool log_tools (sample_call ''save_memory''
        (JObj [(''content'', JStr ''likes owls''), (''memoryType'', JStr ''EPISODIC'')])) [] = (Inr resp, [a])
    \<and> tp_error resp = Some ''memory full'' \<and> ta_error a = Some ''memory full'' \<and> ta_allowed a"
proof -
  let ?rq = "sample_call ''save_memory''
        (JObj [(''content'', JStr ''likes owls''), (''memoryType'', JStr ''EPISODIC'')])"
  let ?put = "\<lambda>a (w :: tool_audit list). (Inr () :: js_error + unit, a # w)"
  have log: "tr_audit log_tools = Some ?put" "\<And>a. total_eff (?put a)"
    "tr_now log_tools [] = (0, [])"
    by (simp_all add: log_tools_def sample_tools_def total_eff_def)
  have p: "parse_tool log_tools ?rq = Inr (SaveMemory ''likes owls'' EPISODIC)"
    by (simp add: parse_tool_def parse_save_memory_def sized_def sample_call_def)
  have r: "run_tool log_tools ?rq (SaveMemory ''likes owls'' EPISODIC) [] = (Inl (Err ''Error'' ''memory full''), [])"
    by (simp add: run_tool_def log_tools_def sample_tools_def)
  show ?thesis
    using tool_calls_audited [OF log(1,2), of ?rq "[]"] unfolding log(3) p
    by (auto simp: r audit_of_def refuse_def)
qed

text \<open>A story that the live model hands to \<open>save_generated_story\<close> is stored and found again with
  the paragraphs of its text, whatever they say; unlike a generated story it passes no safety check.\<close>

lemma live_story_stored_unchecked:
  assumes "tr_repository P = Some (table_db is_url listing)" "tr_audit P = None"
    and "parse_tool P rq = Inr (SaveGeneratedStory title content theme)"
    and "raw_paragraphs content \<noteq> []" "is_uuid (tq_userId rq)"
    and "\<And>T. tr_newId P T = (newId T, T)" "\<And>T. is_uuid (newId T)" "\<And>T. tr_now P T = (0, T)"
    and "\<And>u. tr_isUrl P u = is_url u"
  shows "\<exists>resp T' i s. execute_tool P rq T = (Inr resp, T') \<and> tp_error resp = None
    \<and> sr_findById (table_db is_url listing) i T' = (Inr (Some s), T')
    \<and> st_title s = title \<and> sc_paragraphs (st_content s) = raw_paragraphs content
    \<and> st_ownerId s = tq_userId rq \<and> st_status s = Completed"
proof -
  let ?c = "\<lparr>sc_paragraphs = raw_paragraphs content, sc_chapters = [], sc_sleepScore = 5\<rparr>"
  let ?s = "\<lparr>st_id = newId T, st_title = title, st_content = ?c,
             st_theme = or_string theme ''Live Session'', st_ownerId = tq_userId rq,
             st_status = Completed, st_createdAt = 0, st_generatedAt = Some 0, st_audioUrl = None\<rparr>"
  let ?T = "T(newId T \<mapsto> mapStoryToRow ?s)"
  have title: "1 \<le> length title" "length title \<le> 200"
    using assms(3)
    by (auto simp: parse_tool_def parse_save_story_def parse_save_memory_def parse_empty_def sized_def
        Let_def split: if_splits option.splits json.splits)
  have c: "fromRawText content = Inr ?c"
    using assms(4) by (simp add: fromRawText_def sc_create_def)
  have schema: "StorySchema is_url ?s"
    using title assms(5,7) by (simp add: StorySchema_def)
  then have made: "story_create (tr_isUrl P) ?s = Inr ?s"
    using title assms(5,7,9) by (simp add: story_create_def StorySchema_def)
  have save: "sr_save (table_db is_url listing) ?s T = (Inr (), ?T)"
    using save_run [of is_url listing ?s T] by simp
  have run: "run_tool P rq (SaveGeneratedStory title content theme) T
      = (Inr (respond (JObj [(''success'', JBool True), (''storyId'', JStr (newId T))])), ?T)"
    using assms(1,6,8) c made save
    by (simp add: run_tool_def handleSaveGeneratedStory_def lift_sum_def ebind_def eread_def ethen_def)
  have exec: "execute_tool P rq T
      = (Inr (respond (JObj [(''success'', JBool True), (''storyId'', JStr (newId T))])), ?T)"
    using assms(2,3,8) run
    by (simp add: execute_tool_def ebind_def eread_def ethen_def etry_def write_audit_def)
  have "mapRowToStory is_url (mapStoryToRow ?s) = Inr ?s"
    using story_row_roundtrip [of ?s is_url] fromRawText_tidy [OF c] schema by simp
  then have "sr_findById (table_db is_url listing) (newId T) ?T = (Inr (Some ?s), ?T)"
    by (intro find_run) simp_all
  then show ?thesis using exec by (intro exI [of _ "?s"] exI conjI) (auto simp: respond_def)
qed


lemma live_story_stored_unchecked_witness:
  "\<exists>T' i s. sr_findById (table_db (\<lambda>_. False) (\<lambda>_ _ _. [])) i T' = (Inr (Some s), T')
    \<and> sc_paragraphs (st_content s) = [''Blood and terror.''] \<and> banned_by ''Blood and terror.'' \<noteq> None"
proof -
  let ?D = "table_db (\<lambda>_. False) (\<lambda>_ _ _. [])"
  let ?P = "sample_tools (Some ?D) None"
  let ?rq = "sample_call ''save_generated_story''
    (JObj [(''title'', JStr ''Night''), (''content'', JStr ''Blood and terror.'')])"
  have p: "tr_repository ?P = Some ?D" "tr_audit ?P = None" "\<And>T. tr_newId ?P T = (sample_uuid, T)"
    "\<And>T. tr_now ?P T = (0, T)" "\<And>u. tr_isUrl ?P u = False" "tq_userId ?rq = sample_uuid"
    by (simp_all add: sample_tools_def sample_call_def)
  have args: "parse_tool ?P ?rq = Inr (SaveGeneratedStory ''Night'' ''Blood and terror.'' None)"
    by (simp add: parse_tool_def parse_save_story_def sized_def sample_call_def)
  have c: "raw_paragraphs ''Blood and terror.'' = [''Blood and terror.'']"
    "banned_by ''Blood and terror.'' \<noteq> None" "is_uuid sample_uuid" by code_simp+
  then have "raw_paragraphs ''Blood and terror.'' \<noteq> []" "is_uuid (tq_userId ?rq)" using p(6) by simp_all
  from live_story_stored_unchecked [OF p(1,2) args this p(3) c(3) p(4,5)] c show ?thesis by fastforce
qed

end
