(* ===== verification/EventBus.thy ===== *)
theory EventBus
  imports JsPrelude
begin

text \<open>
  The event buses of the server: \<open>InMemoryEventBus\<close> and \<open>SupabaseEventBus\<close>
  (\<open>api/src/infrastructure/events\<close>), and those of the web application
  (\<open>src/src/infrastructure/events\<close>).

  The hosted bus remembers the identifiers it has seen, notifies its subscribers one after the
  other, and stores events in batches: a full batch is sent by the publisher that filled it, an
  incomplete one by a timer.  Its state changes in the steps of \<open>bus_step\<close>, between two of which
  the event loop may run any other: the answer to an insert, a row announced by the database, the
  next handler of a running notification.  \<open>bus_exec\<close> runs one step and is undefined where the
  step cannot happen.

  A handler is a name, since a \<open>Set\<close> of functions compares them by identity; what the handlers do
  is the steps that follow.  The table is \<open>domain_events\<close> as \<open>supabase/migrations\<close> makes it; the
  type \<open>uuid\<close> and the table of users of the database are arguments.
\<close>

record domain_event =
  de_id :: string
  de_requestId :: string
  de_traceId :: "string option"
  de_type :: string
  de_payload :: json
  de_timestamp :: millis

subsection \<open>A set of handlers, and the walk over it\<close>

type_synonym handler = nat

type_synonym handler_set = "handler option list"
  \<comment> \<open>in the order of insertion; a deleted entry is left empty, as a walk under way skips it\<close>

definition hs_add :: "handler \<Rightarrow> handler_set \<Rightarrow> handler_set" where
  "hs_add h s = (if Some h \<in> set s then s else s @ [Some h])"

definition hs_delete :: "handler \<Rightarrow> handler_set \<Rightarrow> handler_set" where
  "hs_delete h s = map (\<lambda>e. if e = Some h then None else e) s"

fun hs_members :: "handler_set \<Rightarrow> handler list" where
  \<comment> \<open>\<open>Array.from\<close>\<close>
  "hs_members [] = []"
| "hs_members (None # s) = hs_members s"
| "hs_members (Some h # s) = h # hs_members s"

definition hs_next :: "nat \<Rightarrow> handler_set \<Rightarrow> (handler \<times> nat) option" where
  \<comment> \<open>the next entry of a walk that has come to index \<open>k\<close>, and where it goes on\<close>
  "hs_next k s =
     map_option (\<lambda>i. (the (s ! i), Suc i)) (find (\<lambda>i. s ! i \<noteq> None) [k..<length s])"

lemma hs_members_append [simp]: "hs_members (s @ t) = hs_members s @ hs_members t"
  by (induction s rule: hs_members.induct) auto

lemma set_hs_members [simp]: "h \<in> set (hs_members s) \<longleftrightarrow> Some h \<in> set s"
  by (induction s rule: hs_members.induct) auto

lemma hs_members_add: "hs_members (hs_add h s) = (if h \<in> set (hs_members s) then hs_members s
    else hs_members s @ [h])"
  by (simp add: hs_add_def)

lemma hs_members_delete: "hs_members (hs_delete h s) = filter (\<lambda>x. x \<noteq> h) (hs_members s)"
  unfolding hs_delete_def by (induction s rule: hs_members.induct) auto

lemma hs_next_Some:
  assumes "hs_next k s = Some (h, k')"
  shows "k < k'" "k' \<le> length s" "s ! (k' - 1) = Some h" "hs_members (take k' s) = hs_members (take k s) @ [h]"
proof -
  from assms obtain i where find: "find (\<lambda>i. s ! i \<noteq> None) [k..<length s] = Some i"
    and hk: "h = the (s ! i)" "k' = Suc i" by (auto simp: hs_next_def)
  from find obtain n where n: "k + n < length s" and i: "i = k + n" and si: "s ! i = Some h"
    and skipped': "\<forall>j<n. s ! (k + j) = None"
  proof -
    from find obtain m where m: "m < length [k..<length s]" "s ! ([k..<length s] ! m) \<noteq> None"
      "i = [k..<length s] ! m" "\<forall>j<m. \<not> s ! ([k..<length s] ! j) \<noteq> None"
      unfolding find_Some_iff by blast
    then show thesis using hk by (intro that [of m]) auto
  qed
  have skipped: "s ! j = None" if "k \<le> j" "j < i" for j
    using skipped' that i by (metis add_diff_cancel_left' add_less_cancel_left le_iff_add)
  have none: "hs_members (take m (drop k s)) = []" if "m \<le> n" for m
    using that
  proof (induction m)
    case (Suc m)
    then have "take (Suc m) (drop k s) = take m (drop k s) @ [s ! (k + m)]"
      using n by (simp add: take_Suc_conv_app_nth)
    moreover have "s ! (k + m) = None" using Suc i by (intro skipped) auto
    ultimately show ?case using Suc by simp
  qed simp
  have "take i s = take k s @ take n (drop k s)" using i by (simp add: take_add)
  then have "hs_members (take i s) = hs_members (take k s)" using none [of n] by simp
  moreover have "take (Suc i) s = take i s @ [s ! i]" using i n by (simp add: take_Suc_conv_app_nth)
  ultimately show "hs_members (take k' s) = hs_members (take k s) @ [h]" by (simp add: hk(2) si)
  show "k < k'" "k' \<le> length s" "s ! (k' - 1) = Some h" using i n si by (simp_all add: hk(2))
qed

subsection \<open>Subscriptions\<close>

type_synonym subscriptions = "string \<rightharpoonup> handler_set"

definition handlers_of :: "subscriptions \<Rightarrow> string \<Rightarrow> handler_set" where
  "handlers_of S t = (case S t of None \<Rightarrow> [] | Some s \<Rightarrow> s)"

definition bus_subscribe :: "string \<Rightarrow> handler \<Rightarrow> subscriptions \<Rightarrow> subscriptions" where
  "bus_subscribe t h S = S(t \<mapsto> hs_add h (handlers_of S t))"

definition bus_unsubscribe :: "string \<Rightarrow> handler \<Rightarrow> subscriptions \<Rightarrow> subscriptions" where
  \<comment> \<open>the function \<open>subscribe\<close> returns; the set it closes over is the one in the map\<close>
  "bus_unsubscribe t h S = S(t \<mapsto> hs_delete h (handlers_of S t))"

definition snapshot :: "subscriptions \<Rightarrow> domain_event \<Rightarrow> handler list" where
  \<comment> \<open>\<open>InMemoryEventBus.publish\<close>, and both buses of the web application: every handler
      subscribed now is started, in order, and none stops another by throwing\<close>
  "snapshot S e = (case S (de_type e) of None \<Rightarrow> [] | Some s \<Rightarrow> hs_members s)"

definition getSubscriberCount :: "subscriptions \<Rightarrow> string \<Rightarrow> nat" where
  "getSubscriberCount S t = (case S t of None \<Rightarrow> 0 | Some s \<Rightarrow> length (hs_members s))"

definition bus_clear :: "subscriptions \<Rightarrow> subscriptions" where
  "bus_clear S = Map.empty"

text \<open>What the users of a bus rely on, whichever bus it is.\<close>

locale event_subscriptions =
  fixes sub :: "string \<Rightarrow> handler \<Rightarrow> 'b \<Rightarrow> 'b"
    and unsub :: "string \<Rightarrow> handler \<Rightarrow> 'b \<Rightarrow> 'b"
    and subscribed :: "'b \<Rightarrow> string \<Rightarrow> handler list"
  assumes subscribed_sub: "subscribed (sub t h b) t' =
      (if t' = t \<and> h \<notin> set (subscribed b t) then subscribed b t @ [h] else subscribed b t')"
    and subscribed_unsub: "subscribed (unsub t h b) t' =
      (if t' = t then filter (\<lambda>x. x \<noteq> h) (subscribed b t) else subscribed b t')"
begin

lemma subscribed_twice: "subscribed (sub t h (sub t h b)) t' = subscribed (sub t h b) t'"
  by (auto simp: subscribed_sub)

lemma unsubscribed: "h \<notin> set (subscribed (unsub t h b) t)"
  by (simp add: subscribed_unsub)

lemma sub_unsub: "h \<notin> set (subscribed b t) \<Longrightarrow> subscribed (unsub t h (sub t h b)) t' = subscribed b t'"
  by (auto simp: subscribed_sub subscribed_unsub filter_id_conv)

lemma sub_keeps_once: "distinct (subscribed b t') \<Longrightarrow> distinct (subscribed (sub t h b) t')"
  by (auto simp: subscribed_sub)

lemma unsub_keeps_once: "distinct (subscribed b t') \<Longrightarrow> distinct (subscribed (unsub t h b) t')"
  by (auto simp: subscribed_unsub)

end

interpretation mem_bus: event_subscriptions bus_subscribe bus_unsubscribe "\<lambda>S t. hs_members (handlers_of S t)"
  by unfold_locales
     (auto simp: bus_subscribe_def bus_unsubscribe_def handlers_of_def hs_members_add hs_members_delete
        split: option.splits)

lemma snapshot_handlers: "snapshot S e = hs_members (handlers_of S (de_type e))"
  by (simp add: snapshot_def handlers_of_def split: option.split)

subsection \<open>The table\<close>

record event_row =
  er_id :: string
  er_user :: "string option"
  er_requestId :: string
  er_traceId :: "string option"
  er_type :: string
  er_payload :: json
  er_occurred :: millis

record table_env =
  te_uuid :: "string \<Rightarrow> bool"           \<comment> \<open>what the type \<open>uuid\<close> reads\<close>
  te_user :: "string \<Rightarrow> bool"           \<comment> \<open>the rows of \<open>auth.users\<close>\<close>

definition refusal :: "table_env \<Rightarrow> event_row list \<Rightarrow> event_row list \<Rightarrow> string option" where
  \<comment> \<open>the code of the error of one insert of these rows\<close>
  "refusal E rows T =
     (if \<exists>r\<in>set rows. \<not> te_uuid E (er_id r) \<or> (case er_user r of None \<Rightarrow> False | Some u \<Rightarrow> \<not> te_uuid E u)
      then Some ''22P02''
      else if \<exists>r\<in>set rows. er_payload r = JNull then Some ''23502''
      else if \<not> distinct (map er_id (T @ rows)) then Some ''23505''
      else if \<exists>r\<in>set rows. (case er_user r of None \<Rightarrow> False | Some u \<Rightarrow> \<not> te_user E u) then Some ''23503''
      else None)"

definition insert_events :: "table_env \<Rightarrow> event_row list \<Rightarrow> event_row list \<Rightarrow> string option \<times> event_row list" where
  \<comment> \<open>one statement: all of the rows or none\<close>
  "insert_events E rows T =
     (case refusal E rows T of Some c \<Rightarrow> (Some c, T) | None \<Rightarrow> (None, T @ rows))"

subsection \<open>\<open>SupabaseEventBus\<close>\<close>

definition BATCH_SIZE :: nat where "BATCH_SIZE = 25"

record hosted_bus =
  hb_handlers :: subscriptions
  hb_processed :: "string list"       \<comment> \<open>\<open>processedEventIds\<close>, in the order of insertion\<close>
  hb_queue :: "event_row list"        \<comment> \<open>\<open>eventQueue\<close>\<close>
  hb_timer :: bool                    \<comment> \<open>\<open>flushTimer\<close> is set\<close>

definition user_of_payload :: "json \<Rightarrow> string option" where
  "user_of_payload p =
     (case p of
        JObj kvs \<Rightarrow> (case map_of kvs ''userId'' of Some (JStr u) \<Rightarrow> Some u | _ \<Rightarrow> None)
      | _ \<Rightarrow> None)"

definition row_of_event :: "domain_event \<Rightarrow> event_row" where
  "row_of_event e =
     \<lparr>er_id = de_id e, er_user = user_of_payload (de_payload e), er_requestId = de_requestId e,
      er_traceId = de_traceId e, er_type = de_type e, er_payload = de_payload e,
      er_occurred = de_timestamp e\<rparr>"

definition event_of_row :: "event_row \<Rightarrow> domain_event" where
  \<comment> \<open>of a row the database announces\<close>
  "event_of_row r =
     \<lparr>de_id = er_id r, de_requestId = er_requestId r, de_traceId = er_traceId r, de_type = er_type r,
      de_payload = er_payload r, de_timestamp = er_occurred r\<rparr>"

definition remember :: "string \<Rightarrow> hosted_bus \<Rightarrow> hosted_bus" where
  "remember i b =
     (let ids = hb_processed b @ [i]
      in b\<lparr>hb_processed := if length ids > 2000 then drop 500 ids else ids\<rparr>)"

definition flush_take :: "hosted_bus \<Rightarrow> event_row list option \<times> hosted_bus" where
  \<comment> \<open>\<open>flushEvents\<close> up to the insert\<close>
  "flush_take b =
     (let b1 = b\<lparr>hb_timer := False\<rparr>
      in if hb_queue b1 = [] then (None, b1) else (Some (hb_queue b1), b1\<lparr>hb_queue := []\<rparr>))"

definition enqueue :: "domain_event \<Rightarrow> hosted_bus \<Rightarrow> event_row list option \<times> hosted_bus" where
  \<comment> \<open>and the batch to be sent, where this event fills it\<close>
  "enqueue e b =
     (let b1 = b\<lparr>hb_queue := hb_queue b @ [row_of_event e]\<rparr>
      in if length (hb_queue b1) \<ge> BATCH_SIZE then flush_take b1
         else if \<not> hb_timer b1 then (None, b1\<lparr>hb_timer := True\<rparr>)
         else (None, b1))"

record bus_world =
  bw_bus :: hosted_bus
  bw_inserts :: "(event_row list \<times> domain_event option) list"
    \<comment> \<open>sent and not answered, with the event whose publisher waits for the answer\<close>
  bw_notifying :: "(domain_event \<times> nat) list"   \<comment> \<open>and how far each walk over the handlers is\<close>
  bw_table :: "event_row list"
  bw_logged :: "(event_row list \<times> string option) list"   \<comment> \<open>the answers to the inserts\<close>
  bw_calls :: "(handler \<times> string) list"   \<comment> \<open>the handlers called, each with its event\<close>

definition notify :: "domain_event \<Rightarrow> bus_world \<Rightarrow> bus_world" where
  "notify e w =
     (if hb_handlers (bw_bus w) (de_type e) = None then w
      else w\<lparr>bw_notifying := bw_notifying w @ [(e, 0)]\<rparr>)"

definition publish_event :: "domain_event \<Rightarrow> bus_world \<Rightarrow> bus_world" where
  \<comment> \<open>\<open>publish\<close> up to the answer of the insert, or up to the first handler\<close>
  "publish_event e w =
     (if de_id e \<in> set (hb_processed (bw_bus w)) then w
      else (case enqueue e (remember (de_id e) (bw_bus w)) of
              (Some batch, b) \<Rightarrow>
                w\<lparr>bw_bus := b, bw_inserts := bw_inserts w @ [(batch, Some e)]\<rparr>
            | (None, b) \<Rightarrow> notify e (w\<lparr>bw_bus := b\<rparr>)))"

definition timer_fires :: "bus_world \<Rightarrow> bus_world" where
  "timer_fires w =
     (case flush_take (bw_bus w) of
        (None, b) \<Rightarrow> w\<lparr>bw_bus := b\<rparr>
      | (Some batch, b) \<Rightarrow> w\<lparr>bw_bus := b, bw_inserts := bw_inserts w @ [(batch, None)]\<rparr>)"

definition insert_answered :: "table_env \<Rightarrow> nat \<Rightarrow> bool \<Rightarrow> bus_world \<Rightarrow> bus_world" where
  \<comment> \<open>the insert is run, or the request is lost; the client returns the error either way\<close>
  "insert_answered E i reached w =
     (let (batch, waiting) = bw_inserts w ! i;
          (code, T) = (if reached then insert_events E batch (bw_table w) else (Some [], bw_table w));
          w1 = w\<lparr>bw_inserts := take i (bw_inserts w) @ drop (Suc i) (bw_inserts w),
                 bw_table := T, bw_logged := bw_logged w @ [(batch, code)]\<rparr>
      in case waiting of None \<Rightarrow> w1 | Some e \<Rightarrow> notify e w1)"

definition realtime :: "event_row \<Rightarrow> bus_world \<Rightarrow> bus_world" where
  \<comment> \<open>a row inserted by this process or by another\<close>
  "realtime r w =
     (if er_id r = [] then w
      else if er_id r \<in> set (hb_processed (bw_bus w)) then w
      else notify (event_of_row r)
             (w\<lparr>bw_bus := (bw_bus w)\<lparr>hb_processed := hb_processed (bw_bus w) @ [er_id r]\<rparr>\<rparr>))"

definition call_next :: "nat \<Rightarrow> bus_world \<Rightarrow> bus_world" where
  \<comment> \<open>the handler before has returned or thrown, which is caught\<close>
  "call_next i w =
     (let (e, k) = bw_notifying w ! i
      in case hs_next k (handlers_of (hb_handlers (bw_bus w)) (de_type e)) of
           None \<Rightarrow> w\<lparr>bw_notifying := take i (bw_notifying w) @ drop (Suc i) (bw_notifying w)\<rparr>
         | Some (h, k') \<Rightarrow>
             w\<lparr>bw_notifying := (bw_notifying w)[i := (e, k')],
               bw_calls := bw_calls w @ [(h, de_id e)]\<rparr>)"

definition with_handlers :: "(subscriptions \<Rightarrow> subscriptions) \<Rightarrow> bus_world \<Rightarrow> bus_world" where
  "with_handlers f w = w\<lparr>bw_bus := (bw_bus w)\<lparr>hb_handlers := f (hb_handlers (bw_bus w))\<rparr>\<rparr>"

datatype bus_step =
    Publish domain_event
  | Subscribe string handler
  | Unsubscribe string handler
  | TimerFires
  | Answered nat bool
  | Announced event_row
  | NextHandler nat

fun bus_exec :: "table_env \<Rightarrow> bus_step \<Rightarrow> bus_world \<Rightarrow> bus_world option" where
  "bus_exec E (Publish e) w = Some (publish_event e w)"
| "bus_exec E (Subscribe t h) w = Some (with_handlers (bus_subscribe t h) w)"
| "bus_exec E (Unsubscribe t h) w = Some (with_handlers (bus_unsubscribe t h) w)"
| "bus_exec E TimerFires w = (if hb_timer (bw_bus w) then Some (timer_fires w) else None)"
| "bus_exec E (Answered i reached) w =
     (if i < length (bw_inserts w) then Some (insert_answered E i reached w) else None)"
| "bus_exec E (Announced r) w = Some (realtime r w)"
| "bus_exec E (NextHandler i) w =
     (if i < length (bw_notifying w) then Some (call_next i w) else None)"

fun bus_run :: "table_env \<Rightarrow> bus_step list \<Rightarrow> bus_world \<Rightarrow> bus_world option" where
  "bus_run E [] w = Some w"
| "bus_run E (s # ss) w = (case bus_exec E s w of None \<Rightarrow> None | Some w' \<Rightarrow> bus_run E ss w')"

definition new_bus :: bus_world where
  "new_bus =
     \<lparr>bw_bus = \<lparr>hb_handlers = Map.empty, hb_processed = [], hb_queue = [], hb_timer = False\<rparr>,
      bw_inserts = [], bw_notifying = [], bw_table = [], bw_logged = [], bw_calls = []\<rparr>"

interpretation hosted: event_subscriptions "\<lambda>t h. with_handlers (bus_subscribe t h)"
  "\<lambda>t h. with_handlers (bus_unsubscribe t h)" "\<lambda>w t. hs_members (handlers_of (hb_handlers (bw_bus w)) t)"
  by unfold_locales (simp_all add: with_handlers_def mem_bus.subscribed_sub mem_bus.subscribed_unsub)

end
