(* ===== verification/EventBusTheorems.thy ===== *)
theory EventBusTheorems
  imports EventBus "HOL-Library.Multiset"
begin

text \<open>
  What holds of the hosted event bus in every interleaving of its steps: its invariant, where the
  published events are, that a handler is called at most once for an event, and what becomes of a
  batch with the event of a beat.
\<close>

subsection \<open>Runs\<close>

lemma bus_run_append:
  "bus_run E (ss @ ss') w = (case bus_run E ss w of None \<Rightarrow> None | Some w1 \<Rightarrow> bus_run E ss' w1)"
  by (induction ss arbitrary: w) (auto split: option.splits)

lemma bus_run_snoc:
  "bus_run E (ss @ [s]) w = (case bus_run E ss w of None \<Rightarrow> None | Some w1 \<Rightarrow> bus_exec E s w1)"
  by (simp add: bus_run_append split: option.split)

lemma bus_run_induct [consumes 1, case_names start step]:
  assumes "bus_run E ss w0 = Some w"
    and "P [] w0"
    and "\<And>ss s w w'. \<lbrakk>bus_run E ss w0 = Some w; P ss w; bus_exec E s w = Some w'\<rbrakk> \<Longrightarrow> P (ss @ [s]) w'"
  shows "P ss w"
  using assms(1)
proof (induction ss arbitrary: w rule: rev_induct)
  case Nil
  then show ?case using assms(2) by simp
next
  case (snoc s ss)
  then obtain w1 where "bus_run E ss w0 = Some w1" "bus_exec E s w1 = Some w"
    by (auto simp: bus_run_snoc split: option.splits)
  then show ?case using snoc.IH assms(3) by blast
qed

lemma notify_simps [simp]:
  "bw_bus (notify e w) = bw_bus w" "bw_inserts (notify e w) = bw_inserts w"
  "bw_table (notify e w) = bw_table w" "bw_logged (notify e w) = bw_logged w"
  "bw_calls (notify e w) = bw_calls w"
  by (simp_all add: notify_def)

lemma call_next_simps [simp]:
  "bw_bus (call_next i w) = bw_bus w" "bw_inserts (call_next i w) = bw_inserts w"
  "bw_table (call_next i w) = bw_table w" "bw_logged (call_next i w) = bw_logged w"
  by (simp_all add: call_next_def split: prod.split option.split)

lemma with_handlers_simps [simp]:
  "bw_bus (with_handlers f w) = (bw_bus w)\<lparr>hb_handlers := f (hb_handlers (bw_bus w))\<rparr>"
  "bw_inserts (with_handlers f w) = bw_inserts w" "bw_notifying (with_handlers f w) = bw_notifying w"
  "bw_table (with_handlers f w) = bw_table w" "bw_logged (with_handlers f w) = bw_logged w"
  "bw_calls (with_handlers f w) = bw_calls w"
  by (simp_all add: with_handlers_def)

lemma remember_simps [simp]:
  "hb_handlers (remember i b) = hb_handlers b" "hb_queue (remember i b) = hb_queue b"
  "hb_timer (remember i b) = hb_timer b"
  by (simp_all add: remember_def Let_def)

lemma set_remember: "set (hb_processed (remember i b)) \<subseteq> insert i (set (hb_processed b))"
  by (auto simp: remember_def Let_def dest: in_set_dropD)

lemma remembers: "i \<in> set (hb_processed (remember i b))"
  by (auto simp: remember_def Let_def)

lemma distinct_remember:
  "distinct (hb_processed b) \<Longrightarrow> i \<notin> set (hb_processed b) \<Longrightarrow> distinct (hb_processed (remember i b))"
  by (auto simp: remember_def Let_def dest: in_set_dropD)

lemma enqueue_simps:
  assumes "enqueue e b = (send, b')"
  shows "hb_handlers b' = hb_handlers b" "hb_processed b' = hb_processed b"
  using assms by (auto simp: enqueue_def flush_take_def Let_def split: if_splits)

lemma publish_simps:
  "hb_processed (bw_bus (publish_event e w)) =
     (if de_id e \<in> set (hb_processed (bw_bus w)) then hb_processed (bw_bus w)
      else hb_processed (remember (de_id e) (bw_bus w)))"
  "hb_handlers (bw_bus (publish_event e w)) = hb_handlers (bw_bus w)"
  "bw_table (publish_event e w) = bw_table w" "bw_logged (publish_event e w) = bw_logged w"
  "bw_calls (publish_event e w) = bw_calls w"
proof -
  obtain send b where "enqueue e (remember (de_id e) (bw_bus w)) = (send, b)" by fastforce
  moreover note enqueue_simps [OF this]
  ultimately show
    "hb_processed (bw_bus (publish_event e w)) =
       (if de_id e \<in> set (hb_processed (bw_bus w)) then hb_processed (bw_bus w)
        else hb_processed (remember (de_id e) (bw_bus w)))"
    "hb_handlers (bw_bus (publish_event e w)) = hb_handlers (bw_bus w)"
    "bw_table (publish_event e w) = bw_table w" "bw_logged (publish_event e w) = bw_logged w"
    "bw_calls (publish_event e w) = bw_calls w"
    by (simp_all add: publish_event_def split: option.split)
qed

subsection \<open>The invariant of the bus\<close>

definition bus_ok :: "bus_world \<Rightarrow> bool" where
  "bus_ok w \<longleftrightarrow>
     distinct (hb_processed (bw_bus w))
     \<and> length (hb_queue (bw_bus w)) < BATCH_SIZE
     \<and> (hb_queue (bw_bus w) \<noteq> [] \<longrightarrow> hb_timer (bw_bus w))
     \<and> (\<forall>(batch, waiting)\<in>set (bw_inserts w). batch \<noteq> [] \<and> length batch \<le> BATCH_SIZE)"

lemma bus_ok_publish:
  assumes "bus_ok w"
  shows "bus_ok (publish_event e w)"
proof (cases "de_id e \<in> set (hb_processed (bw_bus w))")
  case True
  then show ?thesis using assms by (simp add: publish_event_def)
next
  case False
  obtain send b where eq: "enqueue e (remember (de_id e) (bw_bus w)) = (send, b)" by fastforce
  have "distinct (hb_processed b)"
    using assms False enqueue_simps(2) [OF eq] by (simp add: bus_ok_def distinct_remember)
  then show ?thesis
    using assms False eq
    by (auto simp: bus_ok_def publish_event_def enqueue_def flush_take_def BATCH_SIZE_def Let_def
          split: if_splits)
qed

lemma insert_answered_inserts [simp]:
  "bw_bus (insert_answered E i r w) = bw_bus w"
  "bw_inserts (insert_answered E i r w) = take i (bw_inserts w) @ drop (Suc i) (bw_inserts w)"
  "bw_calls (insert_answered E i r w) = bw_calls w"
  by (simp_all add: insert_answered_def Let_def split: prod.split option.split)

lemma realtime_inserts [simp]:
  "bw_inserts (realtime r w) = bw_inserts w" "bw_table (realtime r w) = bw_table w"
  "bw_logged (realtime r w) = bw_logged w" "bw_calls (realtime r w) = bw_calls w"
  "hb_queue (bw_bus (realtime r w)) = hb_queue (bw_bus w)"
  "hb_timer (bw_bus (realtime r w)) = hb_timer (bw_bus w)"
  "hb_handlers (bw_bus (realtime r w)) = hb_handlers (bw_bus w)"
  by (simp_all add: realtime_def)

lemma bus_ok_timer: "bus_ok w \<Longrightarrow> bus_ok (timer_fires w)"
  by (auto simp: bus_ok_def timer_fires_def flush_take_def BATCH_SIZE_def Let_def)

lemma bus_ok_answered: "bus_ok w \<Longrightarrow> bus_ok (insert_answered E i r w)"
  by (auto simp: bus_ok_def dest: in_set_takeD in_set_dropD)

lemma bus_ok_realtime: "bus_ok w \<Longrightarrow> bus_ok (realtime r w)"
  by (simp add: bus_ok_def realtime_def)

lemma bus_ok_exec:
  assumes "bus_ok w" "bus_exec E s w = Some w'"
  shows "bus_ok w'"
  using assms
  by (cases s)
     (auto simp: bus_ok_def [of "with_handlers f w" for f] bus_ok_def [of "call_next i w" for i]
        intro: bus_ok_publish bus_ok_timer bus_ok_answered bus_ok_realtime split: if_splits
        dest: bus_ok_def [THEN iffD1])

lemma bus_ok_new: "bus_ok new_bus"
  by (simp add: bus_ok_def new_bus_def BATCH_SIZE_def)

text \<open>C23: However publications, timers, answers of the database and announced rows interleave, the
  bus remembers each identifier once, keeps fewer than a batch of events in memory, and never
  keeps one without a timer that will send it; what it sends are batches of 1 to 25 rows.\<close>
theorem bus_invariant:
  assumes "bus_run E ss new_bus = Some w"
  shows "bus_ok w"
  using assms by (induction rule: bus_run_induct) (blast intro: bus_ok_new bus_ok_exec)+

subsection \<open>Where the events are\<close>

definition bus_rows :: "bus_world \<Rightarrow> event_row list" where
  \<comment> \<open>answered, sent and not answered, not sent\<close>
  "bus_rows w = concat (map fst (bw_logged w)) @ concat (map fst (bw_inserts w)) @ hb_queue (bw_bus w)"

definition announced_ids :: "bus_step list \<Rightarrow> string set" where
  "announced_ids ss = {er_id r | r. Announced r \<in> set ss}"

definition published_ids :: "bus_step list \<Rightarrow> string set" where
  "published_ids ss = {de_id e | e. Publish e \<in> set ss}"

lemma ids_of_steps [simp]:
  "announced_ids [] = {}" "published_ids [] = {}"
  "announced_ids (ss @ [s]) = (case s of Announced r \<Rightarrow> insert (er_id r) (announced_ids ss) | _ \<Rightarrow> announced_ids ss)"
  "published_ids (ss @ [s]) = (case s of Publish e \<Rightarrow> insert (de_id e) (published_ids ss) | _ \<Rightarrow> published_ids ss)"
  by (auto simp: announced_ids_def published_ids_def split: bus_step.split)

lemma bus_rows_enqueue:
  assumes "enqueue e b = (send, b')"
  shows "(case send of None \<Rightarrow> [] | Some batch \<Rightarrow> batch) @ hb_queue b' = hb_queue b @ [row_of_event e]"
  using assms by (auto simp: enqueue_def flush_take_def Let_def split: if_splits)

lemma bus_rows_publish:
  "mset (bus_rows (publish_event e w)) =
     (if de_id e \<in> set (hb_processed (bw_bus w)) then mset (bus_rows w)
      else mset (bus_rows w) + {#row_of_event e#})"
proof (cases "de_id e \<in> set (hb_processed (bw_bus w))")
  case False
  obtain send b where eq: "enqueue e (remember (de_id e) (bw_bus w)) = (send, b)" by fastforce
  show ?thesis using False eq bus_rows_enqueue [OF eq]
    by (cases send) (auto simp: publish_event_def bus_rows_def)
qed (simp add: publish_event_def)

definition stored_rows :: "bus_world \<Rightarrow> event_row list" where
  \<comment> \<open>the rows of the batches whose insert was accepted\<close>
  "stored_rows w = concat (map fst (filter (\<lambda>(rows, code). code = None) (bw_logged w)))"

definition accounted :: "bus_step list \<Rightarrow> bus_world \<Rightarrow> bool" where
  "accounted ss w \<longleftrightarrow>
     set (hb_processed (bw_bus w)) \<subseteq> er_id ` set (bus_rows w) \<union> announced_ids ss
     \<and> published_ids ss \<subseteq> er_id ` set (bus_rows w) \<union> announced_ids ss
     \<and> er_id ` set (bus_rows w) \<subseteq> published_ids ss
     \<and> bw_table w = stored_rows w"

lemma bus_rows_answered:
  "i < length (bw_inserts w) \<Longrightarrow> mset (bus_rows (insert_answered E i r w)) = mset (bus_rows w)"
proof -
  assume i: "i < length (bw_inserts w)"
  obtain batch waiting where b: "bw_inserts w ! i = (batch, waiting)" by fastforce
  have "concat (map fst (bw_inserts w)) =
      concat (map fst (take i (bw_inserts w))) @ batch @ concat (map fst (drop (Suc i) (bw_inserts w)))"
    using i b by (metis concat.simps(2) concat_append fst_conv id_take_nth_drop list.simps(9) map_append)
  moreover have "map fst (bw_logged (insert_answered E i r w)) = map fst (bw_logged w) @ [batch]"
    using b by (simp add: insert_answered_def Let_def split: prod.split option.split)
  ultimately show ?thesis by (simp add: bus_rows_def)
qed

lemma stored_answered:
  assumes "bw_table w = stored_rows w"
  shows "bw_table (insert_answered E i r w) = stored_rows (insert_answered E i r w)"
  using assms
  by (auto simp: insert_answered_def insert_events_def stored_rows_def Let_def
        split: prod.splits option.splits if_splits)

lemma rows_kept [simp]:
  "bus_rows (with_handlers f w) = bus_rows w" "bus_rows (call_next i w) = bus_rows w"
  "stored_rows (with_handlers f w) = stored_rows w" "stored_rows (call_next i w) = stored_rows w"
  by (simp_all add: bus_rows_def stored_rows_def)

lemma accounted_exec:
  assumes "accounted ss w" "bus_exec E s w = Some w'"
  shows "accounted (ss @ [s]) w'"
proof (cases s)
  case (Publish e)
  have rows: "set (bus_rows w') = (if de_id e \<in> set (hb_processed (bw_bus w)) then set (bus_rows w)
      else insert (row_of_event e) (set (bus_rows w)))"
    using assms(2) Publish bus_rows_publish [of e w] by (auto dest!: arg_cong [where f = set_mset])
  moreover have "set (hb_processed (bw_bus w')) \<subseteq> insert (de_id e) (set (hb_processed (bw_bus w)))"
    using assms(2) Publish set_remember [of "de_id e" "bw_bus w"]
    by (auto simp: publish_simps split: if_splits)
  moreover have "bw_table w' = bw_table w" "bw_logged w' = bw_logged w"
    using assms(2) Publish by (auto simp: publish_simps)
  moreover have "er_id (row_of_event e) = de_id e" by (simp add: row_of_event_def)
  ultimately show ?thesis
    using assms(1) Publish unfolding accounted_def stored_rows_def by (simp split: if_splits) blast+
next
  case TimerFires
  then have "bus_rows w' = bus_rows w" "hb_processed (bw_bus w') = hb_processed (bw_bus w)"
      "bw_table w' = bw_table w" "bw_logged w' = bw_logged w"
    using assms(2) by (auto simp: bus_rows_def timer_fires_def flush_take_def Let_def split: if_splits)
  then show ?thesis using assms(1) TimerFires by (simp add: accounted_def stored_rows_def)
next
  case (Answered i r)
  then have "set (bus_rows w') = set (bus_rows w)" "bw_bus w' = bw_bus w"
    using assms(2) mset_eq_setD [OF bus_rows_answered [of i w E r]] by (auto split: if_splits)
  then show ?thesis using assms Answered stored_answered [of w E i r]
    by (simp add: accounted_def split: if_splits)
next
  case (Announced r)
  then have "bus_rows w' = bus_rows w" using assms(2) by (auto simp: bus_rows_def)
  moreover have "set (hb_processed (bw_bus w')) \<subseteq> insert (er_id r) (set (hb_processed (bw_bus w)))"
    using Announced assms(2) by (auto simp: realtime_def split: if_splits)
  ultimately show ?thesis using assms Announced by (auto simp: accounted_def stored_rows_def)
qed (use assms in \<open>auto simp: accounted_def split: if_splits\<close>)


subsection \<open>Each handler at most once\<close>

definition waiting :: "bus_world \<Rightarrow> domain_event list" where
  "waiting w = List.map_filter snd (bw_inserts w)"

definition active :: "bus_world \<Rightarrow> string list" where
  "active w = map de_id (waiting w) @ map (de_id \<circ> fst) (bw_notifying w)"

abbreviation handler_entries :: "bus_world \<Rightarrow> string \<Rightarrow> handler_set" where
  "handler_entries w \<equiv> handlers_of (hb_handlers (bw_bus w))"

definition once_ok :: "string set \<Rightarrow> bus_world \<Rightarrow> bool" where
  "once_ok K w \<longleftrightarrow>
     set (hb_processed (bw_bus w)) \<subseteq> K \<and> distinct (hb_processed (bw_bus w))
     \<and> distinct (active w) \<and> set (active w) \<subseteq> set (hb_processed (bw_bus w))
     \<and> snd ` set (bw_calls w) \<subseteq> set (hb_processed (bw_bus w)) \<and> distinct (bw_calls w)
     \<and> (\<forall>t. distinct (hs_members (handler_entries w t)))
     \<and> (\<forall>e\<in>set (waiting w). \<forall>h. (h, de_id e) \<notin> set (bw_calls w))
     \<and> (\<forall>(e, k)\<in>set (bw_notifying w). \<forall>h. (h, de_id e) \<in> set (bw_calls w)
          \<longrightarrow> h \<in> set (hs_members (take k (handler_entries w (de_type e)))))"

lemma once_walks:
  "\<lbrakk>once_ok K w; (e, k) \<in> set (bw_notifying w); (h, de_id e) \<in> set (bw_calls w)\<rbrakk>
   \<Longrightarrow> Some h \<in> set (take k (handler_entries w (de_type e)))"
  by (auto simp: once_ok_def dest!: bspec)

lemma once_fresh:
  "\<lbrakk>once_ok K w; i \<notin> set (hb_processed (bw_bus w))\<rbrakk>
   \<Longrightarrow> i \<notin> set (active w) \<and> (\<forall>h. (h, i) \<notin> set (bw_calls w))"
  by (force simp: once_ok_def)

lemma waiting_send [simp]:
  "waiting (w\<lparr>bw_bus := b, bw_inserts := bw_inserts w @ [(batch, wt)]\<rparr>) =
     waiting w @ (case wt of None \<Rightarrow> [] | Some e \<Rightarrow> [e])"
  by (simp add: waiting_def map_filter_def split: option.split)

lemma waiting_bus [simp]: "waiting (w\<lparr>bw_bus := b\<rparr>) = waiting w"
  by (simp add: waiting_def)

lemma remember_all:
  assumes "finite K" "card K \<le> 2000" "insert i (set (hb_processed b)) \<subseteq> K"
    "distinct (hb_processed b)" "i \<notin> set (hb_processed b)"
  shows "hb_processed (remember i b) = hb_processed b @ [i]"
proof -
  have "distinct (hb_processed b @ [i])" "set (hb_processed b @ [i]) \<subseteq> K" using assms by auto
  then have "length (hb_processed b @ [i]) \<le> 2000"
    by (metis assms(1,2) card_mono distinct_card le_trans)
  then show ?thesis by (simp add: remember_def Let_def)
qed

lemma once_notify:
  assumes "once_ok K w" "de_id e \<in> set (hb_processed (bw_bus w))" "de_id e \<notin> set (active w)"
    "\<forall>h. (h, de_id e) \<notin> set (bw_calls w)"
  shows "once_ok K (notify e w)"
  using assms by (auto simp: once_ok_def notify_def active_def waiting_def)

lemma once_publish:
  assumes K: "finite K" "card K \<le> 2000" "de_id e \<in> K" and w: "once_ok K w"
  shows "once_ok K (publish_event e w)"
proof (cases "de_id e \<in> set (hb_processed (bw_bus w))")
  case True
  then show ?thesis using w by (simp add: publish_event_def)
next
  case False
  obtain send b where eq: "enqueue e (remember (de_id e) (bw_bus w)) = (send, b)" by fastforce
  have proc: "hb_processed b = hb_processed (bw_bus w) @ [de_id e]" "hb_handlers b = hb_handlers (bw_bus w)"
    using remember_all [of K "de_id e" "bw_bus w"] K w False enqueue_simps [OF eq]
    by (simp_all add: once_ok_def)
  have ok: "once_ok K (w\<lparr>bw_bus := b\<rparr>)"
    using w K(3) False by (auto simp: once_ok_def proc active_def)
  have fresh: "de_id e \<notin> set (active w)" "\<forall>h. (h, de_id e) \<notin> set (bw_calls w)"
    using once_fresh [OF w False] by simp_all
  show ?thesis
  proof (cases send)
    case None
    then have "publish_event e w = notify e (w\<lparr>bw_bus := b\<rparr>)" using False eq by (simp add: publish_event_def)
    then show ?thesis using once_notify [OF ok, of e] fresh by (simp add: proc active_def)
  next
    case (Some batch)
    then have "publish_event e w = w\<lparr>bw_bus := b, bw_inserts := bw_inserts w @ [(batch, Some e)]\<rparr>"
      using False eq by (simp add: publish_event_def)
    moreover have "once_ok K \<dots>"
      using ok fresh
      by (auto simp: once_ok_def active_def proc)
    ultimately show ?thesis by simp
  qed
qed

lemma once_timer: "once_ok K w \<Longrightarrow> once_ok K (timer_fires w)"
  by (auto simp: once_ok_def timer_fires_def flush_take_def Let_def active_def)

lemma once_answered:
  assumes w: "once_ok K w" and i: "i < length (bw_inserts w)"
  shows "once_ok K (insert_answered E i r w)"
proof -
  obtain batch wt where b: "bw_inserts w ! i = (batch, wt)" by fastforce
  define rest where "rest = take i (bw_inserts w) @ drop (Suc i) (bw_inserts w)"
  have split: "bw_inserts w = take i (bw_inserts w) @ (batch, wt) # drop (Suc i) (bw_inserts w)"
    using i b by (metis id_take_nth_drop)
  have wset: "waiting w = List.map_filter snd (take i (bw_inserts w))
      @ (case wt of None \<Rightarrow> [] | Some e \<Rightarrow> [e]) @ List.map_filter snd (drop (Suc i) (bw_inserts w))"
    unfolding waiting_def by (subst split) (simp add: map_filter_def split: option.split)
  obtain code T where ans: "(if r then insert_events E batch (bw_table w) else (Some [], bw_table w)) = (code, T)"
    by fastforce
  define w1 where "w1 = w\<lparr>bw_inserts := rest, bw_table := T, bw_logged := bw_logged w @ [(batch, code)]\<rparr>"
  have rest: "waiting w1 = List.map_filter snd (take i (bw_inserts w)) @ List.map_filter snd (drop (Suc i) (bw_inserts w))"
    by (simp add: w1_def rest_def waiting_def map_filter_def)
  have ok: "once_ok K w1"
    using w wset unfolding once_ok_def
    by (auto simp: w1_def rest [unfolded w1_def] active_def split: option.splits)
  have "insert_answered E i r w = (case wt of None \<Rightarrow> w1 | Some e \<Rightarrow> notify e w1)"
    using b ans by (simp add: insert_answered_def w1_def rest_def Let_def split: option.split)
  moreover have "once_ok K (notify e w1)" if "wt = Some e" for e
  proof (rule once_notify [OF ok])
    define A where "A = map de_id (List.map_filter snd (take i (bw_inserts w)))"
    define B where "B = map de_id (List.map_filter snd (drop (Suc i) (bw_inserts w))) @ map (de_id \<circ> fst) (bw_notifying w)"
    have act: "active w = A @ de_id e # B" "active w1 = A @ B"
      unfolding active_def wset rest using that by (simp_all add: A_def B_def w1_def)
    show "de_id e \<in> set (hb_processed (bw_bus w1))"
      using w act by (simp add: once_ok_def w1_def)
    show "de_id e \<notin> set (active w1)" using w unfolding once_ok_def act by auto
    show "\<forall>h. (h, de_id e) \<notin> set (bw_calls w1)"
      using w that unfolding once_ok_def wset by (simp add: w1_def)
  qed
  ultimately show ?thesis using ok by (simp split: option.split)
qed

lemma once_realtime:
  assumes w: "once_ok K w" and "er_id r \<in> K"
  shows "once_ok K (realtime r w)"
proof (cases "er_id r = [] \<or> er_id r \<in> set (hb_processed (bw_bus w))")
  case False
  define w1 where "w1 = w\<lparr>bw_bus := (bw_bus w)\<lparr>hb_processed := hb_processed (bw_bus w) @ [er_id r]\<rparr>\<rparr>"
  have "once_ok K w1" using assms False by (auto simp: once_ok_def w1_def active_def)
  moreover have "active w1 = active w" "bw_calls w1 = bw_calls w"
      "er_id r \<in> set (hb_processed (bw_bus w1))" by (simp_all add: w1_def active_def)
  ultimately have "once_ok K (notify (event_of_row r) w1)"
    using once_fresh [OF w, of "er_id r"] False
    by (intro once_notify) (simp_all add: event_of_row_def)
  then show ?thesis using False by (simp add: realtime_def w1_def)
qed (use w in \<open>auto simp: realtime_def\<close>)

lemma once_subscribe:
  assumes "once_ok K w"
  shows "once_ok K (with_handlers (bus_subscribe t h) w)"
proof -
  have grow: "\<exists>ys. handlers_of (bus_subscribe t h S) t' = handlers_of S t' @ ys" for S t'
    by (auto simp: bus_subscribe_def handlers_of_def hs_add_def)
  have "Some h' \<in> set (take k (handlers_of (bus_subscribe t h S) t'))"
    if "Some h' \<in> set (take k (handlers_of S t'))" for h' k S t'
    using that grow [of S t'] by auto
  then have "\<forall>(e, k)\<in>set (bw_notifying w). \<forall>h'. (h', de_id e) \<in> set (bw_calls w) \<longrightarrow>
      h' \<in> set (hs_members (take k (handlers_of (bus_subscribe t h (hb_handlers (bw_bus w))) (de_type e))))"
    by (auto dest: once_walks [OF assms])
  then show ?thesis
    using assms mem_bus.sub_keeps_once [of "hb_handlers (bw_bus w)"]
    unfolding once_ok_def by (simp add: active_def waiting_def)
qed

lemma once_call:
  assumes w: "once_ok K w" and i: "i < length (bw_notifying w)"
  shows "once_ok K (call_next i w)"
proof -
  obtain e k where ek: "bw_notifying w ! i = (e, k)" by fastforce
  define s where "s = handler_entries w (de_type e)"
  have split: "bw_notifying w = take i (bw_notifying w) @ (e, k) # drop (Suc i) (bw_notifying w)"
    using i ek by (metis id_take_nth_drop)
  have member: "(e, k) \<in> set (bw_notifying w)" using i ek by (metis nth_mem)
  have ids: "map (de_id \<circ> fst) (bw_notifying w) = map (de_id \<circ> fst) (take i (bw_notifying w))
      @ de_id e # map (de_id \<circ> fst) (drop (Suc i) (bw_notifying w))"
    by (subst split) simp
  show ?thesis
  proof (cases "hs_next k s")
    case None
    then have "call_next i w = w\<lparr>bw_notifying := take i (bw_notifying w) @ drop (Suc i) (bw_notifying w)\<rparr>"
      using ek by (simp add: call_next_def s_def)
    then show ?thesis
      using w ids unfolding once_ok_def
      by (auto simp: active_def waiting_def dest: in_set_takeD in_set_dropD once_walks [OF w])
  next
    case (Some hk)
    then obtain h k' where hk: "hs_next k s = Some (h, k')" by (cases hk) auto
    have next_eq: "call_next i w = w\<lparr>bw_notifying := (bw_notifying w)[i := (e, k')],
        bw_calls := bw_calls w @ [(h, de_id e)]\<rparr>"
      using ek hk by (simp add: call_next_def s_def)
    have taken: "hs_members (take k' s) = hs_members (take k s) @ [h]" by (rule hs_next_Some(4) [OF hk])
    have "distinct (hs_members s)" using w by (simp add: once_ok_def s_def)
    then have "distinct (hs_members (take k' s))"
      by (metis append_take_drop_id distinct_append hs_members_append)
    then have "h \<notin> set (hs_members (take k s))" using taken by simp
    then have new: "(h, de_id e) \<notin> set (bw_calls w)"
      using once_walks [OF w member] by (auto simp: s_def)
    have upd: "(bw_notifying w)[i := (e, k')] = take i (bw_notifying w) @ (e, k') # drop (Suc i) (bw_notifying w)"
      using i by (simp add: upd_conv_take_nth_drop)
    have others: "de_id e \<notin> set (map (de_id \<circ> fst) (take i (bw_notifying w)))"
        "de_id e \<notin> set (map (de_id \<circ> fst) (drop (Suc i) (bw_notifying w)))"
        "de_id e \<notin> set (map de_id (waiting w))"
        "de_id e \<in> set (hb_processed (bw_bus w))"
      using w unfolding once_ok_def active_def ids by auto
    have act: "active (call_next i w) = active w"
      by (simp add: active_def next_eq upd waiting_def ids)
    have old: "h' \<in> set (hs_members (take k' s))" if "(h', de_id e) \<in> set (bw_calls w)" for h'
      using once_walks [OF w member that] taken by (simp add: s_def)
    have walks: "\<forall>h'. (h', de_id e') \<in> set (bw_calls (call_next i w))
        \<longrightarrow> h' \<in> set (hs_members (take j (handler_entries w (de_type e'))))"
      if "(e', j) \<in> set ((bw_notifying w)[i := (e, k')])" for e' j
    proof (cases "(e', j) = (e, k')")
      case True
      have "h \<in> set (hs_members (take k' s))" by (simp only: taken) simp
      then show ?thesis using True old by (auto simp: next_eq s_def)
    next
      case False
      then have "(e', j) \<in> set (take i (bw_notifying w)) \<union> set (drop (Suc i) (bw_notifying w))"
        using that upd by auto
      then have "de_id e' \<noteq> de_id e" "(e', j) \<in> set (bw_notifying w)"
        using others by (force dest: in_set_takeD in_set_dropD)+
      then show ?thesis by (auto simp: next_eq dest: once_walks [OF w])
    qed
    have "\<forall>e'\<in>set (waiting w). de_id e' \<noteq> de_id e"
      using others(3) by (metis imageI list.set_map)
    then show ?thesis
      using w new others(4) walks act unfolding once_ok_def
      by (auto simp: next_eq waiting_def)
  qed
qed

definition step_ids :: "bus_step list \<Rightarrow> string set" where
  "step_ids ss = published_ids ss \<union> announced_ids ss"

lemma finite_step_ids: "finite (step_ids ss)"
proof -
  have "step_ids ss = (\<Union>s\<in>set ss. case s of Publish e \<Rightarrow> {de_id e} | Announced r \<Rightarrow> {er_id r} | _ \<Rightarrow> {})"
    by (auto simp: step_ids_def published_ids_def announced_ids_def split: bus_step.splits)
  then show ?thesis by (simp split: bus_step.split)
qed

lemma once_exec:
  assumes "finite K" "card K \<le> 2000" "step_ids [s] \<subseteq> K" "\<forall>t h. s \<noteq> Unsubscribe t h"
    and "once_ok K w" "bus_exec E s w = Some w'"
  shows "once_ok K w'"
  using assms
  by (cases s)
     (auto simp: step_ids_def published_ids_def announced_ids_def split: if_splits
        intro: once_publish once_subscribe once_timer once_answered once_realtime once_call)

text \<open>C25: While no handler unsubscribes and the bus meets no more than 2000 different events, every
  handler is called at most once for each event, whether it is published here, published twice,
  or also comes back from the database.\<close>
theorem called_at_most_once:
  assumes "bus_run E ss new_bus = Some w"
    and "\<forall>t h. Unsubscribe t h \<notin> set ss" and "card (step_ids ss) \<le> 2000"
  shows "distinct (bw_calls w)"
proof -
  have "step_ids ss' \<subseteq> step_ids ss \<longrightarrow> set ss' \<subseteq> set ss \<longrightarrow> once_ok (step_ids ss) w'"
    if "bus_run E ss' new_bus = Some w'" for ss' w'
    using that
  proof (induction rule: bus_run_induct)
    case start
    show ?case by (simp add: once_ok_def new_bus_def active_def waiting_def handlers_of_def map_filter_def)
  next
    case (step ss' s v v')
    then show ?case
      using assms(2,3) finite_step_ids [of ss]
      by (intro impI once_exec [of "step_ids ss" s v E v'])
         (auto simp: step_ids_def published_ids_def announced_ids_def)
  qed
  from this [OF assms(1)] show ?thesis by (simp add: once_ok_def)
qed

subsection \<open>The events of a story\<close>

definition beat_id :: "string \<Rightarrow> nat \<Rightarrow> string" where
  \<comment> \<open>the stable identifier \<open>GenerateStoryUseCase\<close> gives a beat\<close>
  "beat_id storyId i = storyId @ ''_beat_'' @ show_nat i"

definition uuid_chars :: "string \<Rightarrow> bool" where
  \<comment> \<open>the documented input of the type \<open>uuid\<close> has no other characters\<close>
  "uuid_chars s \<longleftrightarrow> set s \<subseteq> set ''0123456789abcdefABCDEF-{}''"

lemma beat_id_no_uuid: "\<not> uuid_chars (beat_id sid i)"
  by (simp add: uuid_chars_def beat_id_def)

lemma publish_few:
  assumes "length (hb_queue (bw_bus w)) + length evs < BATCH_SIZE"
  obtains w' rows where "bus_run E (map Publish evs) w = Some w'"
    "bw_inserts w' = bw_inserts w" "bw_table w' = bw_table w" "hb_queue (bw_bus w') = hb_queue (bw_bus w) @ rows"
    "length rows \<le> length evs"
    "\<forall>e\<in>set evs. de_id e \<notin> set (hb_processed (bw_bus w)) \<longrightarrow> de_id e \<in> er_id ` set rows"
    "rows \<noteq> [] \<longrightarrow> hb_timer (bw_bus w')"
proof -
  have "\<exists>w' rows. bus_run E (map Publish evs) w = Some w'
      \<and> bw_inserts w' = bw_inserts w \<and> bw_table w' = bw_table w
      \<and> hb_queue (bw_bus w') = hb_queue (bw_bus w) @ rows \<and> length rows \<le> length evs
      \<and> (\<forall>e\<in>set evs. de_id e \<notin> set (hb_processed (bw_bus w)) \<longrightarrow> de_id e \<in> er_id ` set rows)
      \<and> set (hb_processed (bw_bus w')) \<subseteq> set (hb_processed (bw_bus w)) \<union> er_id ` set rows
      \<and> (rows \<noteq> [] \<longrightarrow> hb_timer (bw_bus w'))"
    using assms
  proof (induction evs rule: rev_induct)
    case Nil
    then show ?case by auto
  next
    case (snoc e evs)
    then obtain v rows where v: "bus_run E (map Publish evs) w = Some v"
        "bw_inserts v = bw_inserts w" "bw_table v = bw_table w" "hb_queue (bw_bus v) = hb_queue (bw_bus w) @ rows"
        "length rows \<le> length evs"
        "\<forall>e\<in>set evs. de_id e \<notin> set (hb_processed (bw_bus w)) \<longrightarrow> de_id e \<in> er_id ` set rows"
        "set (hb_processed (bw_bus v)) \<subseteq> set (hb_processed (bw_bus w)) \<union> er_id ` set rows"
        "rows \<noteq> [] \<longrightarrow> hb_timer (bw_bus v)" by auto
    have run: "bus_run E (map Publish (evs @ [e])) w = Some (publish_event e v)"
      using v(1) by (simp add: bus_run_snoc)
    show ?case
    proof (cases "de_id e \<in> set (hb_processed (bw_bus v))")
      case True
      then have "publish_event e v = v" by (simp add: publish_event_def)
      then show ?thesis using v run True by (intro exI [of _ v] exI [of _ rows]) auto
    next
      case False
      define b where "b = (remember (de_id e) (bw_bus v))
          \<lparr>hb_queue := hb_queue (bw_bus v) @ [row_of_event e], hb_timer := True\<rparr>"
      have "enqueue e (remember (de_id e) (bw_bus v)) = (None, b)"
        using snoc.prems v(4,5) by (simp add: enqueue_def b_def Let_def)
      then have pub: "publish_event e v = notify e (v\<lparr>bw_bus := b\<rparr>)" using False by (simp add: publish_event_def)
      have "er_id (row_of_event e) = de_id e" by (simp add: row_of_event_def)
      then show ?thesis
        using v run pub set_remember [of "de_id e" "bw_bus v"]
        by (intro exI [of _ "publish_event e v"] exI [of _ "rows @ [row_of_event e]"]) (auto simp: b_def)
    qed
  qed
  then show thesis using that by blast
qed

lemma non_uuid_refused:
  "\<lbrakk>r \<in> set rows; \<not> te_uuid E (er_id r)\<rbrakk> \<Longrightarrow> refusal E rows T \<noteq> None"
  by (auto simp: refusal_def)

text \<open>The events a story publishes between two firings of the timer are not stored as soon as one
  of them is a beat, whose identifier is no UUID: the one insert of the batch is refused, the
  chunks and the completion of the story with it, and the bus keeps none of them.\<close>
lemma beats_lose_their_batch:
  assumes "\<And>s. te_uuid E s \<Longrightarrow> uuid_chars s"
    and "length (hb_queue (bw_bus w)) + length evs < BATCH_SIZE"
    and "e \<in> set evs" "de_id e = beat_id sid i" "de_id e \<notin> set (hb_processed (bw_bus w))"
  shows "\<exists>w'. bus_run E (map Publish evs @ [TimerFires, Answered (length (bw_inserts w)) reached]) w = Some w'
    \<and> bw_table w' = bw_table w \<and> bw_inserts w' = bw_inserts w \<and> hb_queue (bw_bus w') = []"
proof -
  obtain v rows where v: "bus_run E (map Publish evs) w = Some v" "bw_inserts v = bw_inserts w"
      "bw_table v = bw_table w" "hb_queue (bw_bus v) = hb_queue (bw_bus w) @ rows"
      "\<forall>e\<in>set evs. de_id e \<notin> set (hb_processed (bw_bus w)) \<longrightarrow> de_id e \<in> er_id ` set rows"
      "rows \<noteq> [] \<longrightarrow> hb_timer (bw_bus v)"
    by (rule publish_few [OF assms(2), of E])
  define batch where "batch = hb_queue (bw_bus w) @ rows"
  obtain r where r: "r \<in> set rows" "er_id r = beat_id sid i" using v(5) assms(3-5) by force
  then have timer: "hb_timer (bw_bus v)" using v(6) by auto
  have ne: "batch \<noteq> []" using r(1) by (auto simp: batch_def)
  define v1 where "v1 = v\<lparr>bw_bus := (bw_bus v)\<lparr>hb_timer := False, hb_queue := []\<rparr>,
      bw_inserts := bw_inserts w @ [(batch, None)]\<rparr>"
  have fired: "timer_fires v = v1"
    using ne v(2,4) by (simp add: timer_fires_def flush_take_def v1_def batch_def Let_def)
  have "\<not> te_uuid E (er_id r)" using assms(1) r(2) beat_id_no_uuid by metis
  then obtain c where "refusal E batch (bw_table w) = Some c"
    using r(1) non_uuid_refused [of r batch E] by (auto simp: batch_def)
  then have "bw_table (insert_answered E (length (bw_inserts w)) reached v1) = bw_table w"
    using v(3) by (simp add: insert_answered_def v1_def insert_events_def)
  then show ?thesis
    using v(1) timer fired by (simp add: bus_run_append) (simp add: v1_def)
qed

subsection \<open>Examples\<close>

definition sample_table :: table_env where
  "sample_table = \<lparr>te_uuid = uuid_chars, te_user = (\<lambda>_. True)\<rparr>"

definition sample_event :: "string \<Rightarrow> domain_event" where
  "sample_event i =
     \<lparr>de_id = i, de_requestId = ''r'', de_traceId = None, de_type = ''STORY_BEAT_COMPLETED'',
      de_payload = JObj [(''userId'', JStr ''ab'')], de_timestamp = 0\<rparr>"

definition sample_steps :: "bus_step list" where
  "sample_steps =
     [Subscribe ''STORY_BEAT_COMPLETED'' 7, Publish (sample_event ''a''), NextHandler 0,
      Publish (sample_event ''a''), TimerFires, Answered 0 True, Announced (row_of_event (sample_event ''a'')),
      Announced (row_of_event (sample_event ''b'')), NextHandler 0, NextHandler 0]"

definition sample_world :: bus_world where
  "sample_world = the (bus_run sample_table sample_steps new_bus)"

lemma sample_world_run: "bus_run sample_table sample_steps new_bus = Some sample_world"
proof -
  have "bus_run sample_table sample_steps new_bus \<noteq> None" by code_simp
  then show ?thesis by (simp add: sample_world_def)
qed

theorem bus_invariant_witness: "bus_ok sample_world \<and> hb_processed (bw_bus sample_world) = [''a'', ''b'']"
proof
  show "hb_processed (bw_bus sample_world) = [''a'', ''b'']" by code_simp
qed (rule bus_invariant [OF sample_world_run])


theorem called_at_most_once_witness:
  "distinct (bw_calls sample_world) \<and> bw_calls sample_world = [(7, ''a''), (7, ''b'')]"
proof
  have "step_ids sample_steps \<subseteq> {''a'', ''b''}"
    by (auto simp: step_ids_def published_ids_def announced_ids_def sample_steps_def sample_event_def row_of_event_def)
  then have "card (step_ids sample_steps) \<le> card {''a'', ''b''}" by (intro card_mono) auto
  then have "card (step_ids sample_steps) \<le> 2000" by (simp add: card_insert_if)
  moreover have "\<forall>t h. Unsubscribe t h \<notin> set sample_steps" by (simp add: sample_steps_def)
  ultimately show "distinct (bw_calls sample_world)" by (intro called_at_most_once [OF sample_world_run])
  show "bw_calls sample_world = [(7, ''a''), (7, ''b'')]" by code_simp
qed

lemma beats_lose_their_batch_witness:
  "\<exists>w'. bus_run sample_table (map Publish [sample_event ''c'', sample_event (beat_id ''ab'' 0)]
        @ [TimerFires, Answered (length (bw_inserts sample_world)) True]) sample_world = Some w'
    \<and> bw_table w' = bw_table sample_world \<and> bw_inserts w' = bw_inserts sample_world \<and> hb_queue (bw_bus w') = []"
proof (rule beats_lose_their_batch [of _ _ _ "sample_event (beat_id ''ab'' 0)" "''ab''" 0])
  show "length (hb_queue (bw_bus sample_world)) + length [sample_event ''c'', sample_event (beat_id ''ab'' 0)] < BATCH_SIZE"
    by code_simp
  show "de_id (sample_event (beat_id ''ab'' 0)) \<notin> set (hb_processed (bw_bus sample_world))" by code_simp
qed (simp_all add: sample_table_def sample_event_def)

end
