(* ===== verification/Families.thy ===== *)
theory Families
  imports Effects "HOL-Library.AList"
begin

text \<open>
  Families: the entity \<open>Family\<close>, \<open>SupabaseFamilyRepository\<close>, \<open>FamilyService\<close> and the routes
  (\<open>api/src/domain/entities/Family.ts\<close>, \<open>api/src/infrastructure/SupabaseFamilyRepository.ts\<close>,
  \<open>api/src/domain/services/FamilyService.ts\<close>, \<open>api/src/routes/family.ts\<close>), over the tables
  \<open>families\<close> and \<open>family_members\<close> of \<open>supabase/migrations/20260128000000_init_schema.sql\<close>: the
  key of a member is the family and the user, and its family exists.  What else the database may
  object to (a user it does not know, a lost connection) is an argument.  The routes are those of
  a caller \<open>authMiddleware\<close> has let through.
\<close>

datatype family_role = Parent | Child | Grandparent | Caregiver

record family_member =
  fm_userId :: string
  fm_role :: family_role
  fm_permissions :: "string list"

record family =
  fa_id :: string
  fa_name :: string
  fa_members :: "family_member list"
  fa_createdAt :: millis

definition family_new :: "string \<Rightarrow> string \<Rightarrow> string \<Rightarrow> millis \<Rightarrow> family" where
  \<comment> \<open>\<open>Family.create\<close>\<close>
  "family_new i name creator now =
     \<lparr>fa_id = i, fa_name = name,
      fa_members = [\<lparr>fm_userId = creator, fm_role = Parent, fm_permissions = [''admin'']\<rparr>],
      fa_createdAt = now\<rparr>"

definition isMember :: "family \<Rightarrow> string \<Rightarrow> bool" where
  "isMember f u \<longleftrightarrow> list_ex (\<lambda>m. fm_userId m = u) (fa_members f)"

definition family_addMember :: "string \<Rightarrow> family_role \<Rightarrow> family \<Rightarrow> js_error + family" where
  "family_addMember u role f =
     (if find (\<lambda>m. fm_userId m = u) (fa_members f) \<noteq> None
      then Inl (Err ''Error'' ''User already in family'')
      else Inr (f\<lparr>fa_members := fa_members f @ [\<lparr>fm_userId = u, fm_role = role, fm_permissions = []\<rparr>]\<rparr>))"

subsection \<open>The tables\<close>

type_synonym member_row = "string \<times> family_member"   \<comment> \<open>the family and the member\<close>

record family_tables =
  ft_families :: "(string \<times> string \<times> millis) list"
  ft_members :: "member_row list"

record family_env =
  fe_configured :: bool
  fe_family_objection :: "string \<Rightarrow> family_tables \<Rightarrow> string option"
  fe_member_objection :: "member_row list \<Rightarrow> family_tables \<Rightarrow> string option"

definition row_key :: "member_row \<Rightarrow> string \<times> string" where
  "row_key r = (fst r, fm_userId (snd r))"

definition put_row :: "member_row \<Rightarrow> member_row list \<Rightarrow> member_row list" where
  "put_row r rs =
     (if row_key r \<in> row_key ` set rs then map (\<lambda>x. if row_key x = row_key r then r else x) rs
      else rs @ [r])"

definition refused_members :: "family_env \<Rightarrow> member_row list \<Rightarrow> family_tables \<Rightarrow> string option" where
  "refused_members E rows T =
     (case fe_member_objection E rows T of
        Some msg \<Rightarrow> Some msg
      | None \<Rightarrow>
          if \<not> fst ` set rows \<subseteq> fst ` set (ft_families T) then Some ''foreign key violation'' else None)"

definition upsert_family :: "family_env \<Rightarrow> string \<Rightarrow> string \<Rightarrow> millis \<Rightarrow> family_tables \<Rightarrow> string option \<times> family_tables" where
  "upsert_family E i name created T =
     (case fe_family_objection E i T of
        Some msg \<Rightarrow> (Some msg, T)
      | None \<Rightarrow> (None, T\<lparr>ft_families := AList.update i (name, created) (ft_families T)\<rparr>))"

definition upsert_members :: "family_env \<Rightarrow> member_row list \<Rightarrow> family_tables \<Rightarrow> string option \<times> family_tables" where
  \<comment> \<open>one statement, which may not meet a key twice\<close>
  "upsert_members E rows T =
     (case refused_members E rows T of
        Some msg \<Rightarrow> (Some msg, T)
      | None \<Rightarrow>
          if \<not> distinct (map row_key rows) then (Some ''cannot affect row a second time'', T)
          else (None, T\<lparr>ft_members := fold put_row rows (ft_members T)\<rparr>))"

definition insert_member :: "family_env \<Rightarrow> member_row \<Rightarrow> family_tables \<Rightarrow> string option \<times> family_tables" where
  "insert_member E r T =
     (case refused_members E [r] T of
        Some msg \<Rightarrow> (Some msg, T)
      | None \<Rightarrow>
          if row_key r \<in> row_key ` set (ft_members T) then (Some ''duplicate key'', T)
          else (None, T\<lparr>ft_members := ft_members T @ [r]\<rparr>))"

subsection \<open>The repository\<close>

definition getClient :: "family_env \<Rightarrow> (family_tables, unit) eff" where
  "getClient E =
     (if fe_configured E then ereturn ()
      else ethrow (Err ''Error'' ''Supabase Service Role credentials required for SupabaseFamilyRepository''))"

definition fam_save :: "family_env \<Rightarrow> family \<Rightarrow> (family_tables, unit) eff" where
  "fam_save E f =
     ethen (getClient E) (\<lambda>T.
       case upsert_family E (fa_id f) (fa_name f) (fa_createdAt f) T of
         (Some _, T1) \<Rightarrow> ethrow (Err ''Error'' ''Database error saving family'') T1
       | (None, T1) \<Rightarrow>
           if fa_members f = [] then ereturn () T1
           else (case upsert_members E (map (Pair (fa_id f)) (fa_members f)) T1 of
                   (Some _, T2) \<Rightarrow> ethrow (Err ''Error'' ''Database error saving family members'') T2
                 | (None, T2) \<Rightarrow> ereturn () T2))"

definition family_of :: "family_tables \<Rightarrow> string \<Rightarrow> family option" where
  "family_of T i =
     (case map_of (ft_families T) i of
        None \<Rightarrow> None
      | Some (name, created) \<Rightarrow>
          Some \<lparr>fa_id = i, fa_name = name, fa_members = map snd (filter (\<lambda>r. fst r = i) (ft_members T)),
                fa_createdAt = created\<rparr>)"

definition fam_findById :: "family_env \<Rightarrow> string \<Rightarrow> (family_tables, family option) eff" where
  "fam_findById E i = ethen (getClient E) (\<lambda>T. ereturn (family_of T i) T)"

definition memberships :: "family_tables \<Rightarrow> string \<Rightarrow> string list" where
  "memberships T u = map fst (filter (\<lambda>r. fm_userId (snd r) = u) (ft_members T))"

definition fam_findByUserId :: "family_env \<Rightarrow> string \<Rightarrow> (family_tables, family option) eff" where
  \<comment> \<open>\<open>single()\<close> is an error unless there is exactly one row\<close>
  "fam_findByUserId E u =
     ethen (getClient E) (\<lambda>T.
       case memberships T u of [i] \<Rightarrow> fam_findById E i T | _ \<Rightarrow> ereturn None T)"

definition fam_addMember :: "family_env \<Rightarrow> string \<Rightarrow> string \<Rightarrow> (family_tables, unit) eff" where
  "fam_addMember E familyId u =
     ethen (getClient E) (\<lambda>T.
       case insert_member E (familyId, \<lparr>fm_userId = u, fm_role = Parent, fm_permissions = []\<rparr>) T of
         (Some msg, T1) \<Rightarrow> ethrow (Err ''PostgrestError'' msg) T1
       | (None, T1) \<Rightarrow> ereturn () T1)"

subsection \<open>The service and its routes\<close>

definition createFamily :: "family_env \<Rightarrow> string \<Rightarrow> millis \<Rightarrow> string \<Rightarrow> string \<Rightarrow> (family_tables, family) eff" where
  \<comment> \<open>the new identifier and the clock first\<close>
  "createFamily E i now name creator =
     (let f = family_new i name creator now in ethen (fam_save E f) (ereturn f))"

definition addMemberToFamily :: "family_env \<Rightarrow> string \<Rightarrow> string \<Rightarrow> (family_tables, unit) eff" where
  "addMemberToFamily E familyId u = fam_addMember E familyId u"

datatype family_reply = Failure nat string | FamilyFound "family option" | Done

definition post_family :: "family_env \<Rightarrow> string \<Rightarrow> millis \<Rightarrow> string \<Rightarrow> string option \<Rightarrow> family_tables \<Rightarrow> family_reply \<times> family_tables" where
  \<comment> \<open>\<open>POST /family\<close> with the caller and the \<open>name\<close> of the body\<close>
  "post_family E i now caller name T =
     (if \<not> truthy_string name then (Failure 400 ''Name is required'', T)
      else case createFamily E i now (the name) caller T of
             (Inl _, T') \<Rightarrow> (Failure 500 ''Failed to create family'', T')
           | (Inr f, T') \<Rightarrow> (FamilyFound (Some f), T'))"

definition get_family :: "family_env \<Rightarrow> string \<Rightarrow> family_tables \<Rightarrow> family_reply \<times> family_tables" where
  \<comment> \<open>\<open>GET /family/me\<close>\<close>
  "get_family E caller T =
     (case fam_findByUserId E caller T of
        (Inl _, T') \<Rightarrow> (Failure 500 ''Failed to fetch family'', T')
      | (Inr f, T') \<Rightarrow> (FamilyFound f, T'))"

definition post_invite :: "family_env \<Rightarrow> string \<Rightarrow> string option \<Rightarrow> family_tables \<Rightarrow> family_reply \<times> family_tables" where
  \<comment> \<open>\<open>POST /family/invite\<close>\<close>
  "post_invite E caller target T =
     (if \<not> truthy_string target then (Failure 400 ''Target User ID required for MVP invite'', T)
      else case fam_findByUserId E caller T of
             (Inl _, T1) \<Rightarrow> (Failure 500 ''Failed to invite member'', T1)
           | (Inr None, T1) \<Rightarrow> (Failure 404 ''You are not in a family'', T1)
           | (Inr (Some f), T1) \<Rightarrow>
               (case addMemberToFamily E (fa_id f) (the target) T1 of
                  (Inl _, T2) \<Rightarrow> (Failure 500 ''Failed to invite member'', T2)
                | (Inr _, T2) \<Rightarrow> (Done, T2)))"

datatype family_request =
    PostFamily string millis string "string option"
  | GetFamily string
  | PostInvite string "string option"

fun serve_family :: "family_env \<Rightarrow> family_request \<Rightarrow> family_tables \<Rightarrow> family_reply \<times> family_tables" where
  "serve_family E (PostFamily i now u name) T = post_family E i now u name T"
| "serve_family E (GetFamily u) T = get_family E u T"
| "serve_family E (PostInvite u target) T = post_invite E u target T"

fun serve_families :: "family_env \<Rightarrow> family_request list \<Rightarrow> family_tables \<Rightarrow> family_tables" where
  "serve_families E [] T = T"
| "serve_families E (q # qs) T = serve_families E qs (snd (serve_family E q T))"

subsection \<open>The entity\<close>

definition distinct_members :: "family \<Rightarrow> bool" where
  "distinct_members f \<longleftrightarrow> distinct (map fm_userId (fa_members f))"

lemma addMember_Inr:
  assumes "family_addMember u role f = Inr f'"
  shows "isMember f' u \<and> (\<forall>v. isMember f v \<longrightarrow> isMember f' v) \<and> (distinct_members f \<longrightarrow> distinct_members f')"
  using assms
  by (auto simp: family_addMember_def isMember_def list_ex_iff distinct_members_def find_None_iff split: if_splits)

lemma addMember_known: "isMember f u \<Longrightarrow> family_addMember u role f = Inl (Err ''Error'' ''User already in family'')"
  by (auto simp: family_addMember_def isMember_def list_ex_iff find_None_iff)

subsection \<open>The tables stay well-formed\<close>

definition tables_ok :: "family_tables \<Rightarrow> bool" where
  "tables_ok T \<longleftrightarrow>
     distinct (map fst (ft_families T)) \<and> distinct (map row_key (ft_members T))
     \<and> fst ` set (ft_members T) \<subseteq> fst ` set (ft_families T)"

lemma put_row_keys:
  "map row_key (put_row r rs) = (if row_key r \<in> row_key ` set rs then map row_key rs else map row_key rs @ [row_key r])"
  by (auto simp: put_row_def)

lemma put_rows_keys: "distinct (map row_key rs) \<Longrightarrow> distinct (map row_key (fold put_row rows rs))"
proof (induction rows arbitrary: rs)
  case (Cons r rows)
  have "distinct (map row_key (put_row r rs))" using Cons.prems by (simp add: put_row_keys)
  then show ?case using Cons.IH by simp
qed simp

lemma put_rows_families: "fst ` set (fold put_row rows rs) \<subseteq> fst ` set rs \<union> fst ` set rows"
proof (induction rows arbitrary: rs)
  case (Cons r rows)
  have "fst ` set (put_row r rs) \<subseteq> fst ` set rs \<union> {fst r}" by (auto simp: put_row_def)
  moreover have "fst ` set (fold put_row rows (put_row r rs)) \<subseteq> fst ` set (put_row r rs) \<union> fst ` set rows"
    by (rule Cons.IH)
  ultimately have "fst ` set (fold put_row rows (put_row r rs)) \<subseteq> fst ` set rs \<union> {fst r} \<union> fst ` set rows"
    by blast
  then show ?case by simp
qed simp

lemma upsert_members_ok:
  assumes "tables_ok T"
  shows "tables_ok (snd (upsert_members E rows T))"
proof (cases "refused_members E rows T = None \<and> distinct (map row_key rows)")
  case True
  then have rows: "fst ` set rows \<subseteq> fst ` set (ft_families T)"
    by (auto simp: refused_members_def split: option.splits if_splits)
  have old: "fst ` set (ft_members T) \<subseteq> fst ` set (ft_families T)" "distinct (map row_key (ft_members T))"
    using assms by (simp_all add: tables_ok_def)
  have "fst ` set (fold put_row rows (ft_members T)) \<subseteq> fst ` set (ft_members T) \<union> fst ` set rows"
    by (rule put_rows_families)
  also have "\<dots> \<subseteq> fst ` set (ft_families T)" using old(1) rows by (rule Un_least)
  finally have new: "fst ` set (fold put_row rows (ft_members T)) \<subseteq> fst ` set (ft_families T)" .
  have "snd (upsert_members E rows T) = T\<lparr>ft_members := fold put_row rows (ft_members T)\<rparr>"
    using True by (simp add: upsert_members_def)
  moreover have "distinct (map fst (ft_families T))" using assms by (simp add: tables_ok_def)
  ultimately show ?thesis using new put_rows_keys [OF old(2)] by (simp only: tables_ok_def) simp
qed (use assms in \<open>auto simp: upsert_members_def split: option.split\<close>)

lemma insert_member_ok:
  assumes "tables_ok T"
  shows "tables_ok (snd (insert_member E r T))"
  using assms by (auto simp: insert_member_def refused_members_def tables_ok_def split: option.splits if_splits)

lemma save_ok:
  assumes "tables_ok T"
  shows "tables_ok (snd (fam_save E f T))"
proof (cases "fe_configured E \<and> fe_family_objection E (fa_id f) T = None")
  case False
  then show ?thesis using assms by (auto simp: fam_save_def getClient_def upsert_family_def ethen_def ebind_def)
next
  case True
  define T1 where "T1 = T\<lparr>ft_families := AList.update (fa_id f) (fa_name f, fa_createdAt f) (ft_families T)\<rparr>"
  have T1: "tables_ok T1"
    using assms by (auto simp: tables_ok_def T1_def update_keys dom_update distinct_update image_iff)
  obtain e T2 where T2: "upsert_members E (map (Pair (fa_id f)) (fa_members f)) T1 = (e, T2)" by fastforce
  then have "tables_ok T2" using upsert_members_ok [OF T1, of E "map (Pair (fa_id f)) (fa_members f)"] by simp
  moreover have "snd (fam_save E f T) = (if fa_members f = [] then T1 else T2)"
    using True T2 by (simp add: fam_save_def getClient_def upsert_family_def T1_def [symmetric] split: option.split)
  ultimately show ?thesis using T1 by simp
qed

lemma find_same [simp]:
  "snd (fam_findById E i T) = T" "snd (fam_findByUserId E u T) = T"
  by (simp_all add: fam_findById_def fam_findByUserId_def getClient_def ethen_def ebind_def split: list.split)

lemma addMemberToFamily_ok: "tables_ok T \<Longrightarrow> tables_ok (snd (addMemberToFamily E i u T))"
  using insert_member_ok [of T E]
  by (auto simp: addMemberToFamily_def fam_addMember_def getClient_def ethen_def ebind_def
        split: prod.split option.split) (metis snd_conv)+

lemma serve_family_ok: "tables_ok T \<Longrightarrow> tables_ok (snd (serve_family E q T))"
proof (cases q)
  case (PostFamily i now u name)
  assume "tables_ok T"
  then have "tables_ok (snd (createFamily E i now n u T))" for n
    using save_ok [of T E "family_new i n u now"]
    by (auto simp: createFamily_def Let_def ethen_def ebind_def split: prod.split sum.split)
  then show ?thesis using PostFamily \<open>tables_ok T\<close>
    by (auto simp: post_family_def split: prod.split sum.split) (metis snd_conv)+
next
  case (GetFamily u)
  assume ok: "tables_ok T"
  obtain x T1 where f: "fam_findByUserId E u T = (x, T1)" by fastforce
  then have "T1 = T" using find_same(2) [of E u T] by simp
  then show ?thesis using GetFamily ok f by (auto simp: get_family_def split: sum.split)
next
  case (PostInvite u target)
  assume ok: "tables_ok T"
  obtain x T1 where f: "fam_findByUserId E u T = (x, T1)" by fastforce
  then have "T1 = T" using find_same(2) [of E u T] by simp
  then show ?thesis using PostInvite ok f addMemberToFamily_ok [OF ok]
    by (auto simp: post_invite_def split: prod.split sum.split option.split) (metis snd_conv)+
qed


subsection \<open>Creating a family\<close>

text \<open>A family created for a user who is in none is found again by that user exactly as it was
  returned, with the user as its only member and its administrator.\<close>
lemma created_family_is_found:
  assumes "fe_configured E" "tables_ok T" "memberships T u = []" "i \<notin> fst ` set (ft_families T)" "name \<noteq> []"
    and "fe_family_objection E i T = None" "\<And>rows T'. fe_member_objection E rows T' = None"
  shows "\<exists>f T'. post_family E i now u (Some name) T = (FamilyFound (Some f), T')
    \<and> get_family E u T' = (FamilyFound (Some f), T')
    \<and> fa_members f = [\<lparr>fm_userId = u, fm_role = Parent, fm_permissions = [''admin'']\<rparr>] \<and> fa_name f = name"
proof -
  define f where "f = family_new i name u now"
  define row where "row = (i, \<lparr>fm_userId = u, fm_role = Parent, fm_permissions = [''admin'']\<rparr>)"
  define T1 where "T1 = T\<lparr>ft_families := AList.update i (name, now) (ft_families T)\<rparr>"
  define T' where "T' = T1\<lparr>ft_members := ft_members T @ [row]\<rparr>"
  have fresh: "i \<notin> fst ` set (ft_members T)" using assms(2,4) by (auto simp: tables_ok_def)
  then have "put_row row (ft_members T) = ft_members T @ [row]"
    by (force simp: put_row_def row_key_def row_def)
  moreover have "refused_members E [row] T1 = None"
    using assms(7) by (simp add: refused_members_def T1_def row_def dom_update)
  ultimately have "upsert_members E [row] T1 = (None, T')"
    by (simp add: upsert_members_def T'_def T1_def)
  then have save: "fam_save E f T = (Inr (), T')"
    using assms(1,6)
    by (simp add: fam_save_def getClient_def upsert_family_def f_def family_new_def T1_def row_def)
  have mine: "memberships T' u = [i]"
    using assms(3) by (simp add: memberships_def T'_def row_def)
  have "filter (\<lambda>r. fst r = i) (ft_members T) = []" using fresh by (force simp: filter_empty_conv)
  then have "family_of T' i = Some f"
    by (simp add: family_of_def T'_def T1_def row_def f_def family_new_def update_conv)
  then have "get_family E u T' = (FamilyFound (Some f), T')"
    using mine assms(1) by (simp add: get_family_def fam_findByUserId_def fam_findById_def getClient_def)
  moreover have "post_family E i now u (Some name) T = (FamilyFound (Some f), T')"
    using save assms(5) by (simp add: post_family_def createFamily_def f_def Let_def)
  ultimately show ?thesis by (auto simp: f_def family_new_def)
qed

subsection \<open>Invitations\<close>

text \<open>A member of any family can invite a user who is already in another one, without being asked
  for a permission and without the consent of that user, who from then on is told to be in no
  family, and can invite nobody.\<close>
lemma invitation_hides_family:
  assumes "fe_configured E" "memberships T u = [own]" "memberships T v = [other]" "own \<noteq> other" "u \<noteq> []"
    and "family_of T own = Some f" "family_of T other = Some g"
    and "fe_member_objection E [(other, \<lparr>fm_userId = u, fm_role = Parent, fm_permissions = []\<rparr>)] T = None"
  shows "get_family E u T = (FamilyFound (Some f), T)
    \<and> (\<exists>T'. post_invite E v (Some u) T = (Done, T')
         \<and> get_family E u T' = (FamilyFound None, T')
         \<and> (\<forall>w. w \<noteq> [] \<longrightarrow> post_invite E u (Some w) T' = (Failure 404 ''You are not in a family'', T')))"
proof -
  define row where "row = (other, \<lparr>fm_userId = u, fm_role = Parent, fm_permissions = []\<rparr>)"
  define T' where "T' = T\<lparr>ft_members := ft_members T @ [row]\<rparr>"
  have found: "fam_findByUserId E u T = (Inr (Some f), T)" "fam_findByUserId E v T = (Inr (Some g), T)"
    using assms by (simp_all add: fam_findByUserId_def fam_findById_def getClient_def)
  have g: "fa_id g = other" "other \<in> fst ` set (ft_families T)"
    using assms(7) by (auto simp: family_of_def map_of_eq_None_iff [symmetric] split: option.splits
        dest: map_of_SomeD intro: rev_image_eqI)
  have "row_key row \<notin> row_key ` set (ft_members T)"
  proof
    assume "row_key row \<in> row_key ` set (ft_members T)"
    then obtain m where "(other, m) \<in> set (ft_members T)" "fm_userId m = u"
      by (auto simp: row_key_def row_def)
    then have "other \<in> set (memberships T u)" by (force simp: memberships_def)
    then show False using assms(2,4) by simp
  qed
  moreover have "refused_members E [row] T = None"
    using assms(8) g(2) by (simp add: refused_members_def row_def)
  ultimately have "addMemberToFamily E other u T = (Inr (), T')"
    using assms(1) by (simp add: addMemberToFamily_def fam_addMember_def insert_member_def row_def T'_def getClient_def)
  then have invite: "post_invite E v (Some u) T = (Done, T')"
    using found(2) g(1) assms(5) by (simp add: post_invite_def)
  have "memberships T' u = [own, other]"
    using assms(2) by (simp add: memberships_def T'_def row_def)
  then have "fam_findByUserId E u T' = (Inr None, T')"
    using assms(1) by (simp add: fam_findByUserId_def getClient_def)
  then show ?thesis using found(1) invite by (auto simp: get_family_def post_invite_def)
qed

definition sample_families :: family_env where
  "sample_families =
     \<lparr>fe_configured = True, fe_family_objection = (\<lambda>_ _. None), fe_member_objection = (\<lambda>_ _. None)\<rparr>"

definition no_families :: family_tables where
  "no_families = \<lparr>ft_families = [], ft_members = []\<rparr>"

definition two_families :: family_tables where
  "two_families =
     serve_families sample_families
       [PostFamily ''f1'' 1 ''ann'' (Some ''A''), PostFamily ''f2'' 2 ''bob'' (Some ''B'')] no_families"


lemma created_family_is_found_witness:
  "\<exists>f T'. post_family sample_families ''f3'' 3 ''eve'' (Some ''E'') two_families = (FamilyFound (Some f), T')
    \<and> get_family sample_families ''eve'' T' = (FamilyFound (Some f), T')
    \<and> fa_members f = [\<lparr>fm_userId = ''eve'', fm_role = Parent, fm_permissions = [''admin'']\<rparr>] \<and> fa_name f = ''E''"
proof (rule created_family_is_found)
  show "tables_ok two_families" by code_simp
  show "memberships two_families ''eve'' = []" by code_simp
  show "''f3'' \<notin> fst ` set (ft_families two_families)" by code_simp
qed (simp_all add: sample_families_def)

lemma invitation_hides_family_witness:
  "get_family sample_families ''ann'' two_families = (FamilyFound (family_of two_families ''f1''), two_families)
    \<and> (\<exists>T'. post_invite sample_families ''bob'' (Some ''ann'') two_families = (Done, T')
         \<and> get_family sample_families ''ann'' T' = (FamilyFound None, T')
         \<and> (\<forall>w. w \<noteq> [] \<longrightarrow> post_invite sample_families ''ann'' (Some w) T'
              = (Failure 404 ''You are not in a family'', T')))"
proof -
  have m: "memberships two_families ''ann'' = [''f1'']" "memberships two_families ''bob'' = [''f2'']"
    by code_simp+
  have "family_of two_families ''f1'' \<noteq> None" "family_of two_families ''f2'' \<noteq> None" by code_simp+
  then obtain f g where fg: "family_of two_families ''f1'' = Some f" "family_of two_families ''f2'' = Some g"
    by auto
  show ?thesis unfolding fg(1)
    by (rule invitation_hides_family [OF _ m _ _ fg]) (simp_all add: sample_families_def)
qed

end
