(* ===== verification/Digests.thy ===== *)
theory Digests
  imports Sharing
begin

text \<open>
  Mail: \<open>SmtpEmailService\<close> and \<open>MockEmailService\<close>, the weekly digest
  (\<open>SendWeeklyDigestUseCase\<close>), the job that sends it (\<open>api/src/routes/cron.ts\<close>) and the routes
  of shared links (\<open>api/src/routes/share.ts\<close>), composed with \<open>CreateShareLinkUseCase\<close> as
  \<open>api/src/di/container.ts\<close> wires them.

  The digests of one batch of the job run at the same time; here they run one after the other,
  which the results, kept in the order of the users, do not show.  The server's clock runs in
  UTC.  The constant parts of the texts in HTML, the queries that list stories and moments, the
  users' profiles and preferences and the random token of a link are arguments.
\<close>

subsection \<open>Mail\<close>

type_synonym mail = "string \<times> string \<times> string"   \<comment> \<open>to, subject, text\<close>

record mailbox =
  mb_disk :: "mail list"
  mb_delivered :: "mail list"

record mail_env =
  ml_transporter :: bool
  ml_disk :: "mail \<Rightarrow> bool"          \<comment> \<open>the file can be written\<close>
  ml_accepts :: "mail \<Rightarrow> bool"       \<comment> \<open>the server takes the mail\<close>

definition writeToDisk :: "mail_env \<Rightarrow> mail \<Rightarrow> mailbox \<Rightarrow> mailbox" where
  "writeToDisk E m B = (if ml_disk E m then B\<lparr>mb_disk := mb_disk B @ [m]\<rparr> else B)"

definition smtp_send :: "mail_env \<Rightarrow> mail \<Rightarrow> mailbox \<Rightarrow> bool \<times> mailbox" where
  "smtp_send E m B =
     (let B1 = writeToDisk E m B
      in if ml_transporter E
         then (if ml_accepts E m then (True, B1\<lparr>mb_delivered := mb_delivered B1 @ [m]\<rparr>) else (True, B1))
         else (True, B1))"

definition mock_send :: "mail_env \<Rightarrow> mail \<Rightarrow> mailbox \<Rightarrow> bool \<times> mailbox" where
  "mock_send E m B = (True, writeToDisk E m B)"

subsection \<open>The weekly digest\<close>

record share_draw =
  dr_token :: string
  dr_uuid :: string
  dr_now :: millis
  dr_now2 :: millis

record digest_world =
  dw_share :: share_db
  dw_mail :: mailbox

record digest_env =
  dg_now :: millis
  dg_recent :: "string \<Rightarrow> nat \<Rightarrow> share_db \<Rightarrow> js_error + story list"   \<comment> \<open>newest first\<close>
  dg_moments :: "string \<Rightarrow> share_db \<Rightarrow> js_error + moment list"
  dg_draw :: "string \<Rightarrow> share_draw"
  dg_appUrl :: "string option"
  dg_mail :: mail_env
  dg_parts :: "nat \<Rightarrow> string"      \<comment> \<open>the constant parts of the text\<close>
  dg_subject :: "string \<times> string"   \<comment> \<open>before and after the child's name\<close>

definition create_link ::
    "digest_env \<Rightarrow> string option \<Rightarrow> string \<Rightarrow> string \<Rightarrow> link_type \<Rightarrow> int \<Rightarrow> int
      \<Rightarrow> (digest_world, string \<times> millis) eff" where
  \<comment> \<open>\<open>createShareLinkUseCase.execute\<close>; the second argument is the owner of the request, the third
      names the caller whose token is drawn\<close>
  "create_link P owner who resource type days views w =
     (let d = dg_draw P who
      in case createShareLink (dg_appUrl P)
           \<lparr>sh_ownerId = owner, sh_resourceId = resource, sh_type = type, sh_maxViews = Some views,
            sh_expiresInDays = Some days\<rparr> (dr_token d) (dr_uuid d) (dr_now d) (dr_now2 d) (dw_share w) of
           (r, D) \<Rightarrow> (r, w\<lparr>dw_share := D\<rparr>))"

definition send_mail :: "digest_env \<Rightarrow> mail \<Rightarrow> (digest_world, bool) eff" where
  "send_mail P m w = (case smtp_send (dg_mail P) m (dw_mail w) of (b, B) \<Rightarrow> (Inr b, w\<lparr>dw_mail := B\<rparr>))"

record digest_input =
  di_userId :: string
  di_email :: string
  di_childName :: string

record digest_output =
  do_sent :: bool
  do_storiesCount :: nat
  do_highlightMoment :: "string option"

definition first_of_each :: "string list \<Rightarrow> string list" where
  \<comment> \<open>\<open>[...new Set(xs)]\<close>\<close>
  "first_of_each xs = rev (remdups (rev xs))"

definition generateEmailHtml ::
    "(nat \<Rightarrow> string) \<Rightarrow> string \<Rightarrow> nat \<Rightarrow> nat \<Rightarrow> string \<Rightarrow> string list \<Rightarrow> string \<Rightarrow> string" where
  "generateEmailHtml part childName stories moments title themes url =
     part 0 @ childName @ part 1 @ childName @ part 2 @ show_nat stories @ part 3 @ show_nat moments
     @ part 4 @ title @ part 5 @ url @ part 6
     @ concat (map (\<lambda>t. ''<span class=\"theme-tag\">'' @ t @ ''</span>'') (take 3 (first_of_each themes)))
     @ part 7"

definition week_ago :: "millis \<Rightarrow> millis" where "week_ago now = now - 7 * day_ms"

definition weekly_moments :: "millis \<Rightarrow> moment list \<Rightarrow> moment list" where
  "weekly_moments now ms = sort_key (\<lambda>m. - mo_createdAt m) (filter (\<lambda>m. week_ago now \<le> mo_createdAt m) ms)"

definition highlight :: "moment list \<Rightarrow> story list \<Rightarrow> link_type \<times> string \<times> string" where
  \<comment> \<open>the type, the resource and the title, of the first moment, or else of the first story\<close>
  "highlight ms ss =
     (case ms of
        m # _ \<Rightarrow> (Moment, mo_id m,
           or_string (mo_description m) (or_string (Some (st_title (hd ss))) ''A Magical Adventure''))
      | [] \<Rightarrow> (Story, st_id (hd ss), or_string (Some (st_title (hd ss))) ''A Magical Adventure''))"

definition sendWeeklyDigest :: "digest_env \<Rightarrow> digest_input \<Rightarrow> (digest_world, digest_output) eff" where
  "sendWeeklyDigest P i =
     ebind (\<lambda>w. lift_sum (dg_recent P (di_userId i) 50 (dw_share w)) w) (\<lambda>stories.
     let ss = filter (\<lambda>s. week_ago (dg_now P) \<le> st_createdAt s) stories
     in if ss = [] then ereturn \<lparr>do_sent = False, do_storiesCount = 0, do_highlightMoment = None\<rparr>
        else ebind (\<lambda>w. lift_sum (dg_moments P (di_userId i) (dw_share w)) w) (\<lambda>moments.
          let ms = weekly_moments (dg_now P) moments;
              (type, resource, title) = highlight ms ss
          in ebind (create_link P None (di_userId i) resource type 2 3) (\<lambda>(url, expires).
             ebind (send_mail P
                 (di_email i, fst (dg_subject P) @ di_childName i @ snd (dg_subject P),
                  generateEmailHtml (dg_parts P) (di_childName i) (length ss) (length ms) title
                    (map st_theme ss) url))
               (\<lambda>sent. ereturn \<lparr>do_sent = sent, do_storiesCount = length ss,
                                do_highlightMoment = Some title\<rparr>))))"

subsection \<open>The job\<close>

record user_profile =
  up_email :: "string option"
  up_childName :: "string option"

datatype digest_result =
    Processed string digest_output
  | Skipped string
  | DigestError string string     \<comment> \<open>the user and the error\<close>

record cron_env =
  ce_production :: bool
  ce_secret :: "string option"
  ce_admin :: bool
  ce_user :: "string \<Rightarrow> user_profile option"
  ce_enabled :: "string \<Rightarrow> bool option"     \<comment> \<open>\<open>weekly_digest_enabled\<close>, where there is a row\<close>
  ce_active :: "share_db \<Rightarrow> string + string list"   \<comment> \<open>the owners of the last week's stories, 2000 rows at most\<close>

definition processUserDigest :: "cron_env \<Rightarrow> digest_env \<Rightarrow> string \<Rightarrow> (digest_world, digest_result) eff" where
  "processUserDigest C P u =
     (if \<not> ce_admin C then ereturn (DigestError u ''No admin client'')
      else (case ce_user C u of
              None \<Rightarrow> ereturn (DigestError u ''Failed to load user profile'')
            | Some p \<Rightarrow>
                if \<not> truthy_string (up_email p) then ereturn (DigestError u ''Missing email'')
                else if ce_enabled C u = Some False then ereturn (Skipped u)
                else ebind (sendWeeklyDigest P
                       \<lparr>di_userId = u, di_email = the (up_email p),
                        di_childName = or_string (up_childName p) ''Your child''\<rparr>)
                     (\<lambda>out. ereturn (Processed u out))))"

definition settled :: "cron_env \<Rightarrow> digest_env \<Rightarrow> string \<Rightarrow> digest_world \<Rightarrow> digest_result \<times> digest_world" where
  \<comment> \<open>one entry of \<open>Promise.allSettled\<close>, and what the loop makes of it\<close>
  "settled C P u w =
     (case processUserDigest C P u w of
        (Inl e, w') \<Rightarrow> (DigestError u (error_string e), w')
      | (Inr r, w') \<Rightarrow> (r, w'))"

fun run_batch :: "cron_env \<Rightarrow> digest_env \<Rightarrow> string list \<Rightarrow> digest_world \<Rightarrow> digest_result list \<times> digest_world" where
  "run_batch C P [] w = ([], w)"
| "run_batch C P (u # us) w =
     (case settled C P u w of (r, w1) \<Rightarrow> (case run_batch C P us w1 of (rs, w2) \<Rightarrow> (r # rs, w2)))"

function run_batches :: "cron_env \<Rightarrow> digest_env \<Rightarrow> string list \<Rightarrow> digest_world \<Rightarrow> digest_result list \<times> digest_world" where
  "run_batches C P us w =
     (if us = [] then ([], w)
      else (case run_batch C P (take 10 us) w of
              (rs, w1) \<Rightarrow> (case run_batches C P (drop 10 us) w1 of (rs', w2) \<Rightarrow> (rs @ rs', w2))))"
  by pat_completeness auto
termination by (relation "measure (\<lambda>(C, P, us, w). length us)") auto

declare run_batches.simps [simp del]

datatype cron_reply = CronDenied nat string | CronDone "digest_result list"

definition weekly_digest :: "cron_env \<Rightarrow> digest_env \<Rightarrow> string option \<Rightarrow> digest_world \<Rightarrow> cron_reply \<times> digest_world" where
  \<comment> \<open>\<open>GET /cron/weekly-digest\<close> with its \<open>Authorization\<close> header; an unset secret reads \<open>undefined\<close>\<close>
  "weekly_digest C P auth w =
     (if ce_production C \<and>
         (\<not> truthy_string auth \<or>
          auth \<noteq> Some (''Bearer '' @ (case ce_secret C of None \<Rightarrow> ''undefined'' | Some s \<Rightarrow> s)))
      then (CronDenied 401 ''Unauthorized'', w)
      else if \<not> ce_admin C then (CronDenied 500 ''Supabase service role is required for cron jobs'', w)
      else (case ce_active C (dw_share w) of
              Inl msg \<Rightarrow> (CronDenied 500 (''Failed to fetch active users: '' @ msg), w)
            | Inr owners \<Rightarrow>
                (case run_batches C P (first_of_each (filter (\<lambda>u. u \<noteq> []) owners)) w of
                   (rs, w') \<Rightarrow> (CronDone rs, w'))))"

subsection \<open>The routes of shared links\<close>

datatype 'a http_reply = Http nat "string + 'a"

record share_body =
  sy_resourceId :: string
  sy_type :: string
  sy_expiresInDays :: "int option"
  sy_maxViews :: "int option"
  sy_email :: string              \<comment> \<open>\<open>grandmaEmail\<close>, read by the second route only\<close>

definition link_type_of :: "string \<Rightarrow> link_type option" where
  "link_type_of t = (if t = ''STORY'' then Some Story else if t = ''MOMENT'' then Some Moment else None)"

definition or_default :: "int option \<Rightarrow> int \<Rightarrow> int" where
  "or_default x d = (case x of None \<Rightarrow> d | Some n \<Rightarrow> n)"

definition parse_share :: "share_body \<Rightarrow> (string \<times> link_type \<times> int \<times> int) option" where
  \<comment> \<open>\<open>createShareLinkSchema\<close>, for whole numbers\<close>
  "parse_share b =
     (let days = or_default (sy_expiresInDays b) 2; views = or_default (sy_maxViews b) 3
      in if sy_resourceId b = [] \<or> days < 1 \<or> 30 < days \<or> views < 1 \<or> 3 < views then None
         else (case link_type_of (sy_type b) of
                 None \<Rightarrow> None
               | Some t \<Rightarrow> Some (sy_resourceId b, t, days, views)))"

definition share_failure :: "js_error \<Rightarrow> 'a http_reply" where
  "share_failure e =
     Http (if err_message e = ''Not authorized to share this story''
              \<or> err_message e = ''Not authorized to share this moment'' then 403 else 500)
       (Inl (err_message e))"

definition post_share ::
    "digest_env \<Rightarrow> string \<Rightarrow> share_body \<Rightarrow> digest_world \<Rightarrow> (string \<times> millis) http_reply \<times> digest_world" where
  \<comment> \<open>\<open>POST /share\<close> of a caller\<close>
  "post_share P caller b w =
     (case parse_share b of
        None \<Rightarrow> (Http 400 (Inl ''Validation Error''), w)
      | Some (resource, t, days, views) \<Rightarrow>
          (case create_link P (Some caller) caller resource t days views w of
             (Inl e, w') \<Rightarrow> (share_failure e, w')
           | (Inr link, w') \<Rightarrow> (Http 200 (Inr link), w')))"

definition post_share_email ::
    "digest_env \<Rightarrow> (string \<Rightarrow> bool) \<Rightarrow> (string \<Rightarrow> millis \<Rightarrow> int \<Rightarrow> string) \<Rightarrow> string \<Rightarrow> share_body
      \<Rightarrow> digest_world \<Rightarrow> (bool \<times> string \<times> millis) http_reply \<times> digest_world" where
  \<comment> \<open>\<open>POST /share/email\<close>; the format of an address and the text are arguments\<close>
  "post_share_email P is_email html caller b w =
     (case (if is_email (sy_email b) then parse_share b else None) of
        None \<Rightarrow> (Http 400 (Inl ''Validation Error''), w)
      | Some (resource, t, days, views) \<Rightarrow>
          (case ebind (create_link P (Some caller) caller resource t days views) (\<lambda>(url, expires).
                ebind (send_mail P
                    (sy_email b,
                     if t = Moment then ''A bedtime moment was shared with you''
                     else ''A bedtime story was shared with you'', html url expires views))
                  (\<lambda>sent. ereturn (sent, url, expires))) w of
             (Inl e, w') \<Rightarrow> (share_failure e, w')
           | (Inr r, w') \<Rightarrow> (Http 200 (Inr r), w')))"

definition get_share :: "millis \<Rightarrow> millis \<Rightarrow> string \<Rightarrow> share_db \<Rightarrow> (link_type \<times> shared_content) http_reply \<times> share_db" where
  \<comment> \<open>\<open>GET /share/:token\<close>\<close>
  "get_share now now2 token D =
     (if token = [] then (Http 400 (Inl ''Invalid Token''), D)
      else (case getSharedContent now now2 token D of
              (NotFound, D') \<Rightarrow> (Http 404 (Inl ''Link not found''), D')
            | (Expired t, D') \<Rightarrow> (Http 410 (Inl ''Link has expired''), D')
            | (Content t c, D') \<Rightarrow> (Http 200 (Inr (t, c)), D')))"

subsection \<open>Mail is always reported as sent\<close>

lemma smtp_send_True: "fst (smtp_send E m B) = True"
  by (simp add: smtp_send_def Let_def)

lemma lost_mail: "ml_transporter E \<Longrightarrow> \<not> ml_accepts E m \<Longrightarrow> \<not> ml_disk E m \<Longrightarrow> smtp_send E m B = (True, B)"
  by (simp add: smtp_send_def writeToDisk_def)

subsection \<open>What the digest shows\<close>

lemma set_first_of_each [simp]: "set (first_of_each xs) = set xs"
  by (simp add: first_of_each_def)

lemma distinct_first_of_each [simp]: "distinct (first_of_each xs)"
  by (simp add: first_of_each_def)

lemma weekly_moments_newest:
  assumes "weekly_moments now ms = m # rest"
  shows "m \<in> set ms \<and> week_ago now \<le> mo_createdAt m
    \<and> (\<forall>m'\<in>set ms. mo_createdAt m' \<le> mo_createdAt m)"
proof -
  let ?f = "filter (\<lambda>m. week_ago now \<le> mo_createdAt m) ms"
  have "sorted (map (\<lambda>m. - mo_createdAt m) (sort_key (\<lambda>m. - mo_createdAt m) ?f))" by (rule sorted_sort_key)
  then have "sorted (map (\<lambda>m. - mo_createdAt m) (m # rest))"
    by (simp only: assms [unfolded weekly_moments_def])
  then have best: "\<forall>x\<in>set (m # rest). mo_createdAt x \<le> mo_createdAt m" by auto
  have elems: "set (m # rest) = set ?f"
    using assms unfolding weekly_moments_def by (metis set_sort)
  then have m: "m \<in> set ?f" by auto
  have "mo_createdAt m' \<le> mo_createdAt m" if "m' \<in> set ms" for m'
  proof (cases "week_ago now \<le> mo_createdAt m'")
    case True
    then have "m' \<in> set ?f" using that by simp
    then show ?thesis using best elems by auto
  next
    case False
    then show ?thesis using m by auto
  qed
  then show ?thesis using m by auto
qed

subsection \<open>No digest is ever sent\<close>

lemma unowned_refused:
  assumes "sh_ownerId r = None"
  obtains e where "may_share D r = Some (Err ''Error'' e)"
    "e = ''Not authorized to share this story'' \<or> e = ''Not authorized to share this moment''"
proof (cases "sh_type r")
  case Story
  then have "may_share D r = Some (Err ''Error'' ''Not authorized to share this story'')"
    using assms by (simp add: may_share_def split: option.split)
  then show thesis using that by simp
next
  case Moment
  then have "may_share D r = Some (Err ''Error'' ''Not authorized to share this moment'')"
    using assms by (simp add: may_share_def split: option.split)
  then show thesis using that by simp
qed

lemma unowned_link:
  obtains e where "create_link P None who resource t days views w = (Inl (Err ''Error'' e), w)"
    "e = ''Not authorized to share this story'' \<or> e = ''Not authorized to share this moment''"
proof -
  define r where "r = \<lparr>sh_ownerId = None, sh_resourceId = resource, sh_type = t, sh_maxViews = Some views,
      sh_expiresInDays = Some days\<rparr>"
  have "sh_ownerId r = None" by (simp add: r_def)
  then obtain e where e: "may_share (dw_share w) r = Some (Err ''Error'' e)"
    "e = ''Not authorized to share this story'' \<or> e = ''Not authorized to share this moment''"
    by (rule unowned_refused)
  then have "create_link P None who resource t days views w = (Inl (Err ''Error'' e), w)"
    by (simp add: create_link_def createShareLink_def r_def [symmetric])
  then show thesis using e(2) that by blast
qed

lemma digest_outcome:
  "(\<exists>e. sendWeeklyDigest P i w = (Inl e, w))
   \<or> sendWeeklyDigest P i w = (Inr \<lparr>do_sent = False, do_storiesCount = 0, do_highlightMoment = None\<rparr>, w)"
proof (cases "dg_recent P (di_userId i) 50 (dw_share w)")
  case (Inl e)
  then show ?thesis by (simp add: sendWeeklyDigest_def lift_sum_def)
next
  case (Inr stories)
  define ss where "ss = filter (\<lambda>s. week_ago (dg_now P) \<le> st_createdAt s) stories"
  show ?thesis
  proof (cases "ss = [] \<or> (\<exists>e. dg_moments P (di_userId i) (dw_share w) = Inl e)")
    case True
    then show ?thesis using Inr by (auto simp: sendWeeklyDigest_def lift_sum_def ss_def [symmetric])
  next
    case False
    then obtain moments where ms: "dg_moments P (di_userId i) (dw_share w) = Inr moments"
      by (cases "dg_moments P (di_userId i) (dw_share w)") auto
    obtain t resource title where h: "highlight (weekly_moments (dg_now P) moments) ss = (t, resource, title)"
      by (metis prod_cases3)
    obtain e where "create_link P None (di_userId i) resource t 2 3 w = (Inl (Err ''Error'' e), w)"
      by (rule unowned_link)
    then show ?thesis using Inr False ms h
      by (simp add: sendWeeklyDigest_def lift_sum_def ss_def [symmetric])
  qed
qed

lemma settled_unsent:
  "\<exists>r. settled C P u w = (r, w) \<and> (\<forall>v out. r = Processed v out \<longrightarrow> \<not> do_sent out)"
proof -
  have "\<exists>x. processUserDigest C P u w = (x, w) \<and> (\<forall>v out. x = Inr (Processed v out) \<longrightarrow> \<not> do_sent out)"
  proof (cases "ce_user C u")
    case (Some p)
    from digest_outcome [of P "\<lparr>di_userId = u, di_email = the (up_email p),
          di_childName = or_string (up_childName p) ''Your child''\<rparr>" w]
    show ?thesis using Some by (auto simp: processUserDigest_def)
  qed (simp add: processUserDigest_def)
  then show ?thesis by (auto simp: settled_def split: sum.split prod.split)
qed

lemma batch_unsent:
  "\<exists>rs. run_batch C P us w = (rs, w) \<and> (\<forall>v out. Processed v out \<in> set rs \<longrightarrow> \<not> do_sent out)"
proof (induction us)
  case (Cons u us)
  then show ?case using settled_unsent [of C P u w] by (auto split: prod.splits)
qed simp

lemma batches_unsent:
  "\<exists>rs. run_batches C P us w = (rs, w) \<and> (\<forall>v out. Processed v out \<in> set rs \<longrightarrow> \<not> do_sent out)"
proof (induction us rule: length_induct)
  case (1 us)
  show ?case
  proof (cases "us = []")
    case False
    then obtain rs' where rest: "run_batches C P (drop 10 us) w = (rs', w)"
      "\<forall>v out. Processed v out \<in> set rs' \<longrightarrow> \<not> do_sent out"
      using 1 by (metis length_drop diff_less length_greater_0_conv zero_less_numeral)
    obtain rs where "run_batch C P (take 10 us) w = (rs, w)"
      "\<forall>v out. Processed v out \<in> set rs \<longrightarrow> \<not> do_sent out" using batch_unsent by blast
    then show ?thesis using False rest by (subst run_batches.simps) auto
  qed (simp add: run_batches.simps)
qed

text \<open>The weekly job sends no digest to anybody, whatever stories there are: it asks for the shared
  link of a digest without naming the owner, so the link is refused for every user who has a
  story, and users without one are skipped.  No mail is written and no link is made.\<close>
lemma weekly_digest_sends_nothing:
  "\<exists>rep. weekly_digest C P auth w = (rep, w)
    \<and> (\<forall>rs v out. rep = CronDone rs \<longrightarrow> Processed v out \<in> set rs \<longrightarrow> \<not> do_sent out)"
proof -
  have "\<exists>rs. run_batches C P us w = (rs, w) \<and> (\<forall>v out. Processed v out \<in> set rs \<longrightarrow> \<not> do_sent out)" for us
    by (rule batches_unsent)
  note b = this
  show ?thesis
  proof (cases "ce_active C (dw_share w)")
    case (Inl msg)
    then show ?thesis by (auto simp: weekly_digest_def)
  next
    case (Inr owners)
    then show ?thesis using b [of "first_of_each (filter (\<lambda>u. u \<noteq> []) owners)"]
      by (auto simp: weekly_digest_def)
  qed
qed

text \<open>In production without \<open>CRON_SECRET\<close> a caller is let in with the header \<open>Bearer undefined\<close>.\<close>

lemma unset_secret_admits:
  assumes "ce_production C" "ce_secret C = None" "ce_admin C" "ce_active C (dw_share w) = Inr owners"
  shows "\<exists>rs. weekly_digest C P (Some ''Bearer undefined'') w = (CronDone rs, w)"
  using assms batches_unsent [of C P "first_of_each (filter (\<lambda>u. u \<noteq> []) owners)" w]
  by (auto simp: weekly_digest_def)

definition sample_digest :: digest_env where
  "sample_digest =
     \<lparr>dg_now = 7, dg_recent = (\<lambda>u n D. Inr (if u = ''ann'' then [sample_story] else [])),
      dg_moments = (\<lambda>u D. Inr []), dg_draw = (\<lambda>u. \<lparr>dr_token = ''t'', dr_uuid = ''i'', dr_now = 7, dr_now2 = 7\<rparr>),
      dg_appUrl = None, dg_mail = \<lparr>ml_transporter = True, ml_disk = (\<lambda>_. True), ml_accepts = (\<lambda>_. True)\<rparr>,
      dg_parts = (\<lambda>_. []), dg_subject = ([], [])\<rparr>"

definition sample_cron :: cron_env where
  "sample_cron =
     \<lparr>ce_production = True, ce_secret = Some ''s'', ce_admin = True,
      ce_user = (\<lambda>u. Some \<lparr>up_email = Some ''a@b.c'', up_childName = None\<rparr>),
      ce_enabled = (\<lambda>u. None), ce_active = (\<lambda>D. Inr [''ann'', ''bob'', ''ann''])\<rparr>"

definition sample_dw :: digest_world where
  "sample_dw =
     \<lparr>dw_share = \<lparr>sd_links = Map.empty, sd_stories = [sample_uuid \<mapsto> sample_story], sd_moments = Map.empty\<rparr>,
      dw_mail = \<lparr>mb_disk = [], mb_delivered = []\<rparr>\<rparr>"

lemma weekly_digest_sends_nothing_witness:
  "\<exists>rs. weekly_digest sample_cron sample_digest (Some ''Bearer s'') sample_dw = (CronDone rs, sample_dw)
    \<and> rs = [DigestError ''ann'' ''Error: Not authorized to share this story'',
            Processed ''bob'' \<lparr>do_sent = False, do_storiesCount = 0, do_highlightMoment = None\<rparr>]
    \<and> \<not> do_sent \<lparr>do_sent = False, do_storiesCount = 0, do_highlightMoment = None\<rparr>"
proof -
  let ?rs = "[DigestError ''ann'' ''Error: Not authorized to share this story'',
    Processed ''bob'' \<lparr>do_sent = False, do_storiesCount = 0, do_highlightMoment = None\<rparr>]"
  have "fst (weekly_digest sample_cron sample_digest (Some ''Bearer s'') sample_dw) = CronDone ?rs"
    by code_simp
  then show ?thesis
    using weekly_digest_sends_nothing [of sample_cron sample_digest "Some ''Bearer s''" sample_dw]
    by (metis fst_conv list.set_intros(1) list.set_intros(2))
qed

end
