(* ===== verification/HostedMemory.thy ===== *)
theory HostedMemory
  imports Effects AgentMemory
begin

text \<open>
  The agent's memory in the hosted database: \<open>SupabaseAgentMemory\<close>
  (\<open>api/src/infrastructure/memory/SupabaseAgentMemory.ts\<close>) over the tables \<open>agent_memories\<close>,
  \<open>theme_outcomes\<close> and \<open>preference_pairs\<close>, the view \<open>theme_scores\<close>
  (\<open>supabase/migrations/20260128000002_logic.sql\<close>) and the function \<open>match_memories\<close>
  (\<open>supabase/migrations/20260202000014_memory_vector_search.sql\<close>).

  Arguments are the embedding service, the distance of the vector extension, whether a request
  to the database succeeds, and what else it may object to in a row.  The components of a vector
  are real numbers; equal distances and equal times are listed in the order of insertion.
\<close>

record memory_row =
  rw_id :: string
  rw_user :: string
  rw_session :: "string option"
  rw_type :: memory_type
  rw_content :: string
  rw_embedding :: "real list option"
  rw_confidence :: real
  rw_metadata :: "dict option"
  rw_created :: millis

record hosted_world =
  hm_rows :: "memory_row list"
  hm_outcomes :: "(string \<times> string \<times> outcome) list"     \<comment> \<open>user, theme\<close>
  hm_pairs :: "(string \<times> string \<times> string) list"        \<comment> \<open>user, winner, loser\<close>
  hm_clock :: millis

record hosted_env =
  he_anonKey :: bool
  he_values :: "(string \<Rightarrow> real list option) option"
    \<comment> \<open>with a key of the service: the vector of a good answer\<close>
  he_distance :: "real list \<Rightarrow> real list \<Rightarrow> real"
  he_rpc :: "hosted_world \<Rightarrow> bool"         \<comment> \<open>the call of \<open>match_memories\<close> succeeds\<close>
  he_select :: "hosted_world \<Rightarrow> bool"
  he_objection :: "memory_row \<Rightarrow> hosted_world \<Rightarrow> string option"
  he_newId :: "hosted_world \<Rightarrow> string"
  he_tracks :: "hosted_world \<Rightarrow> bool"      \<comment> \<open>the inserts of outcomes and preferences succeed\<close>

definition hm_getClient :: "hosted_env \<Rightarrow> string option \<Rightarrow> (hosted_world, unit) eff" where
  \<comment> \<open>the access token of the context\<close>
  "hm_getClient E token =
     (if truthy_string token \<and> \<not> he_anonKey E
      then ethrow (Err ''Error'' ''Supabase anon key required for scoped memory access'')
      else ereturn ())"

definition embedText :: "hosted_env \<Rightarrow> string \<Rightarrow> real list option" where
  "embedText E t =
     (case he_values E of
        None \<Rightarrow> None
      | Some f \<Rightarrow>
          (case f t of
             None \<Rightarrow> None
           | Some vs \<Rightarrow>
               if length vs \<noteq> 1536 then None
               else (let norm = sqrt (foldl (\<lambda>sum v. sum + v * v) 0 vs)
                     in if norm \<le> 0 then None else Some (map (\<lambda>v. v / norm) vs))))"

subsection \<open>The queries\<close>

fun like :: "string \<Rightarrow> string \<Rightarrow> bool" where
  \<comment> \<open>the pattern of \<open>LIKE\<close>\<close>
  "like [] s = (s = [])"
| "like (p # ps) [] = (p = CHR ''%'' \<and> like ps [])"
| "like (p # ps) (c # s) =
     (if p = CHR ''%'' then like ps (c # s) \<or> like (p # ps) s
      else if p = CHR ''_'' then like ps s
      else if p = char_of (92 :: nat) then
        (case ps of [] \<Rightarrow> False | q # qs \<Rightarrow> q = c \<and> like qs s)
      else p = c \<and> like ps s)"

definition ilike_contains :: "string \<Rightarrow> string \<Rightarrow> bool" where
  \<comment> \<open>\<open>content ILIKE '%query%'\<close>\<close>
  "ilike_contains query content = like (''%'' @ js_lower query @ ''%'') (js_lower content)"

definition record_of_row :: "memory_row \<Rightarrow> memory_record" where
  "record_of_row r =
     \<lparr>mr_id = rw_id r, mr_type = rw_type r, mr_content = rw_content r, mr_confidence = rw_confidence r,
      mr_timestamp = rw_created r, mr_metadata = rw_metadata r\<rparr>"

definition match_memories :: "hosted_env \<Rightarrow> real list \<Rightarrow> string \<Rightarrow> nat \<Rightarrow> memory_row list \<Rightarrow> memory_row list" where
  "match_memories E e user limit rows =
     take limit (sort_key (\<lambda>r. he_distance E (case rw_embedding r of None \<Rightarrow> [] | Some v \<Rightarrow> v) e)
       (filter (\<lambda>r. rw_user r = user \<and> rw_embedding r \<noteq> None) rows))"

definition keyword_rows ::
    "string \<Rightarrow> memory_context \<Rightarrow> memory_type option \<Rightarrow> nat \<Rightarrow> memory_row list \<Rightarrow> memory_row list" where
  \<comment> \<open>newest first\<close>
  "keyword_rows query ctx type limit rows =
     take limit (sort_key (\<lambda>r. - rw_created r)
       (filter (\<lambda>r. rw_user r = mc_userId ctx
          \<and> (case type of None \<Rightarrow> True | Some t \<Rightarrow> rw_type r = t)
          \<and> (type = Some EPISODIC \<and> truthy_string (mc_sessionId ctx) \<longrightarrow> rw_session r = mc_sessionId ctx)
          \<and> (query \<noteq> [] \<and> query \<noteq> ''*'' \<longrightarrow> ilike_contains query (rw_content r))) rows))"

definition keyword_search ::
    "hosted_env \<Rightarrow> string option \<Rightarrow> string \<Rightarrow> memory_context \<Rightarrow> memory_type option \<Rightarrow> nat
      \<Rightarrow> (hosted_world, memory_record list) eff" where
  "keyword_search E token query ctx type limit =
     ethen (hm_getClient E token) (\<lambda>W.
       ereturn (if he_select E W then map record_of_row (keyword_rows query ctx type limit (hm_rows W)) else []) W)"

definition hm_retrieve ::
    "hosted_env \<Rightarrow> string option \<Rightarrow> string \<Rightarrow> memory_context \<Rightarrow> memory_type option \<Rightarrow> nat option
      \<Rightarrow> (hosted_world, memory_record list) eff" where
  "hm_retrieve E token query ctx type limit W =
     (let n = (case limit of None \<Rightarrow> 5 | Some k \<Rightarrow> k);
          keyword = keyword_search E token query ctx type n W
      in if query = [] \<or> query = ''*'' then keyword
         else (case embedText E query of
                 None \<Rightarrow> keyword
               | Some e \<Rightarrow>
                   (case hm_getClient E token W of
                      (Inl _, _) \<Rightarrow> keyword
                    | (Inr _, _) \<Rightarrow>
                        (let rows = match_memories E e (mc_userId ctx) n (hm_rows W)
                         in if he_rpc E W \<and> rows \<noteq> []
                            then ereturn (map record_of_row
                                   (case type of None \<Rightarrow> rows | Some t \<Rightarrow> filter (\<lambda>r. rw_type r = t) rows)) W
                            else keyword))))"

definition hm_store ::
    "hosted_env \<Rightarrow> string option \<Rightarrow> string \<Rightarrow> memory_type \<Rightarrow> memory_context \<Rightarrow> dict option
      \<Rightarrow> (hosted_world, unit) eff" where
  "hm_store E token content type ctx md =
     ethen (hm_getClient E token) (\<lambda>W.
       let r = \<lparr>rw_id = he_newId E W, rw_user = mc_userId ctx, rw_session = or_undefined (mc_sessionId ctx),
                rw_type = type, rw_content = content, rw_embedding = embedText E content,
                rw_confidence = 1, rw_metadata = md, rw_created = hm_clock W\<rparr>
       in case he_objection E r W of
            Some msg \<Rightarrow> ethrow (Err ''Error'' (''Failed to store memory: '' @ msg)) W
          | None \<Rightarrow> ereturn () (W\<lparr>hm_rows := hm_rows W @ [r], hm_clock := hm_clock W + 1\<rparr>))"

definition hm_trackOutcome ::
    "hosted_env \<Rightarrow> string option \<Rightarrow> string \<Rightarrow> outcome \<Rightarrow> memory_context \<Rightarrow> (hosted_world, unit) eff" where
  "hm_trackOutcome E token theme oc ctx =
     ethen (hm_getClient E token) (\<lambda>W.
       ereturn () (if he_tracks E W then W\<lparr>hm_outcomes := hm_outcomes W @ [(mc_userId ctx, theme, oc)]\<rparr> else W))"

definition hm_trackPreferencePair ::
    "hosted_env \<Rightarrow> string option \<Rightarrow> string \<Rightarrow> string \<Rightarrow> memory_context \<Rightarrow> (hosted_world, unit) eff" where
  "hm_trackPreferencePair E token win lose ctx =
     ethen (hm_getClient E token) (\<lambda>W.
       ereturn () (if he_tracks E W then W\<lparr>hm_pairs := hm_pairs W @ [(mc_userId ctx, win, lose)]\<rparr> else W))"

definition outcome_score :: "outcome \<Rightarrow> real" where
  "outcome_score oc = (if oc = POSITIVE then 1 else - 0.5)"

definition theme_scores :: "string \<Rightarrow> (string \<times> string \<times> outcome) list \<Rightarrow> scores" where
  \<comment> \<open>the rows of the view for a user\<close>
  "theme_scores user outcomes =
     (let mine = map snd (filter (\<lambda>(u, t, oc). u = user) outcomes)
      in map (\<lambda>t. (t, sum_list (map (\<lambda>(t', oc). outcome_score oc) (filter (\<lambda>(t', oc). t' = t) mine))))
           (remdups (map fst mine)))"

definition hm_getThemeStats ::
    "hosted_env \<Rightarrow> string option \<Rightarrow> memory_context \<Rightarrow> nat option \<Rightarrow> (hosted_world, scores) eff" where
  "hm_getThemeStats E token ctx limit =
     ethen (hm_getClient E token) (\<lambda>W.
       ereturn (if he_select E W
                then top_scores (theme_scores (mc_userId ctx) (hm_outcomes W))
                       (case limit of None \<Rightarrow> 3 | Some n \<Rightarrow> n)
                else []) W)"

subsection \<open>Whose memories are found\<close>

lemma hm_retrieve_cases:
  assumes "hm_retrieve E token q ctx ty l W = (Inr ms, W')"
  obtains (keyword) "W' = W" "he_select E W"
      "ms = map record_of_row (keyword_rows q ctx ty (case l of None \<Rightarrow> 5 | Some k \<Rightarrow> k) (hm_rows W))"
    | (failed) "W' = W" "ms = []"
    | (semantic) e where "W' = W" "embedText E q = Some e" "q \<noteq> ''*''"
      "ms = map record_of_row (filter (\<lambda>r. case ty of None \<Rightarrow> True | Some t \<Rightarrow> rw_type r = t)
              (match_memories E e (mc_userId ctx) (case l of None \<Rightarrow> 5 | Some k \<Rightarrow> k) (hm_rows W)))"
  using assms
  by (auto simp: hm_retrieve_def keyword_search_def hm_getClient_def Let_def
        split: if_splits option.splits)

definition row_fits :: "memory_context \<Rightarrow> memory_type option \<Rightarrow> memory_row \<Rightarrow> bool" where
  "row_fits ctx ty r \<longleftrightarrow> rw_user r = mc_userId ctx \<and> (case ty of None \<Rightarrow> True | Some t \<Rightarrow> rw_type r = t)"

lemma set_keyword_rows:
  "r \<in> set (keyword_rows q ctx ty n rows) \<Longrightarrow> r \<in> set rows \<and> row_fits ctx ty r
     \<and> (ty = Some EPISODIC \<and> truthy_string (mc_sessionId ctx) \<longrightarrow> rw_session r = mc_sessionId ctx)"
  by (auto simp: keyword_rows_def row_fits_def dest!: in_set_takeD)

lemma set_match_memories:
  "r \<in> set (match_memories E e user n rows) \<Longrightarrow> r \<in> set rows \<and> rw_user r = user"
  by (auto simp: match_memories_def dest!: in_set_takeD)

text \<open>What is retrieved was stored for the user of the context and has the type asked for; there
  is no more of it than the limit, and without a word to search for it also belongs to the session
  when episodes are asked for.\<close>
lemma retrieved_is_own:
  assumes "hm_retrieve E token q ctx ty l W = (Inr ms, W')"
  shows "W' = W \<and> length ms \<le> (case l of None \<Rightarrow> 5 | Some n \<Rightarrow> n)
    \<and> (\<forall>m\<in>set ms. \<exists>r\<in>set (hm_rows W). m = record_of_row r \<and> row_fits ctx ty r
         \<and> (q = ''*'' \<and> ty = Some EPISODIC \<and> truthy_string (mc_sessionId ctx) \<longrightarrow> rw_session r = mc_sessionId ctx))"
  using assms
proof (cases rule: hm_retrieve_cases)
  case keyword
  let ?n = "case l of None \<Rightarrow> 5 | Some n \<Rightarrow> n"
  have "\<exists>r\<in>set (hm_rows W). m = record_of_row r \<and> row_fits ctx ty r
         \<and> (q = ''*'' \<and> ty = Some EPISODIC \<and> truthy_string (mc_sessionId ctx) \<longrightarrow> rw_session r = mc_sessionId ctx)"
    if "m \<in> set ms" for m
  proof -
    from that obtain r where r: "r \<in> set (keyword_rows q ctx ty ?n (hm_rows W))" "m = record_of_row r"
      unfolding keyword(3) by auto
    show ?thesis using set_keyword_rows [OF r(1)] r(2) by blast
  qed
  moreover have "length ms \<le> ?n" unfolding keyword(3) by (simp add: keyword_rows_def)
  ultimately show ?thesis using keyword(1) by simp
next
  case failed
  then show ?thesis by simp
next
  case (semantic e)
  let ?n = "case l of None \<Rightarrow> 5 | Some n \<Rightarrow> n"
  have "length (match_memories E e (mc_userId ctx) ?n (hm_rows W)) \<le> ?n" by (simp add: match_memories_def)
  then have "length ms \<le> ?n" unfolding semantic(4) length_map by (rule le_trans [OF length_filter_le])
  moreover have "\<exists>r\<in>set (hm_rows W). m = record_of_row r \<and> row_fits ctx ty r" if "m \<in> set ms" for m
  proof -
    from that obtain r where r: "r \<in> set (match_memories E e (mc_userId ctx) ?n (hm_rows W))"
      "case ty of None \<Rightarrow> True | Some t \<Rightarrow> rw_type r = t" "m = record_of_row r"
      unfolding semantic(4) by auto
    show ?thesis using set_match_memories [OF r(1)] r(2,3) by (auto simp: row_fits_def)
  qed
  ultimately show ?thesis using semantic(1,3) by simp
qed

text \<open>The search for a phrase ignores the session: an episode of any other session of the user is
  returned whenever it is among the nearest, although the context names a session.\<close>
lemma search_ignores_session:
  assumes "q \<noteq> []" "q \<noteq> ''*''" "embedText E q = Some e" "he_rpc E W"
    and "token = None \<or> he_anonKey E"
    and "r \<in> set (match_memories E e user n (hm_rows W))" "rw_type r = EPISODIC"
  shows "\<exists>ms. hm_retrieve E token q \<lparr>mc_userId = user, mc_sessionId = Some sid\<rparr> (Some EPISODIC) (Some n) W
      = (Inr ms, W) \<and> record_of_row r \<in> set ms"
proof -
  have "match_memories E e user n (hm_rows W) \<noteq> []" using assms(6) by auto
  then show ?thesis using assms by (auto simp: hm_retrieve_def hm_getClient_def Let_def)
qed

subsection \<open>Storing and scoring\<close>

lemma stored_is_listed:
  assumes "hm_store E token c t ctx md W = (Inr (), W')"
  shows "\<exists>r. hm_rows W' = hm_rows W @ [r] \<and> rw_content r = c \<and> rw_type r = t \<and> rw_user r = mc_userId ctx
    \<and> rw_session r = or_undefined (mc_sessionId ctx) \<and> rw_metadata r = md"
  using assms by (auto simp: hm_store_def hm_getClient_def Let_def split: if_splits option.splits)

definition tally :: "outcome \<Rightarrow> string \<Rightarrow> string \<Rightarrow> (string \<times> string \<times> outcome) list \<Rightarrow> nat" where
  "tally oc user theme outcomes = length (filter (\<lambda>x. x = (user, theme, oc)) outcomes)"

lemma theme_score_tally:
  assumes "(t, s) \<in> set (theme_scores u outcomes)"
  shows "s = real (tally POSITIVE u t outcomes) - real (tally NEGATIVE u t outcomes) / 2"
proof -
  let ?mine = "map snd (filter (\<lambda>(v, t, oc). v = u) outcomes)"
  have "s = sum_list (map (\<lambda>(t', oc). outcome_score oc) (filter (\<lambda>(t', oc). t' = t) ?mine))"
    using assms by (auto simp: theme_scores_def Let_def)
  also have "\<dots> = real (tally POSITIVE u t outcomes) - real (tally NEGATIVE u t outcomes) / 2"
  proof (induction outcomes)
    case (Cons x xs)
    obtain v t' oc where x: "x = (v, t', oc)" by (cases x)
    show ?case using Cons.IH unfolding x
      by (cases oc) (auto simp: outcome_score_def tally_def add_divide_distrib)
  qed (simp add: tally_def)
  finally show ?thesis .
qed

text \<open>A theme rejected once scores below a theme never tried, where the local memories start at 1.\<close>

lemma rejected_scores_differ:
  "theme_scores u [(u, t, NEGATIVE)] = [(t, - 0.5)]
   \<and> im_themeScores (im_trackOutcome \<lparr>im_memories = [], im_themeScores = []\<rparr> t NEGATIVE ctx) = [(t, 0.5)]"
  by (simp add: theme_scores_def outcome_score_def im_trackOutcome_def or_number_def)

end
