(* ===== verification/Recall.thy ===== *)
theory Recall
  imports Conductor HostedMemory
begin

text \<open>
  What is remembered of a session: \<open>ProcessConversationTurnUseCase\<close>, \<open>GetSuggestionsUseCase\<close>,
  \<open>LogInteractionUseCase\<close>, \<open>MemorySummarizationService\<close> and \<open>SessionConsolidator\<close>
  (\<open>api/src/application\<close>, \<open>api/src/domain/services\<close>), with the routes of \<open>conversation.ts\<close> and
  \<open>suggestions.ts\<close> behind \<open>authMiddleware\<close>.

  The agent is the conductor of \<open>Conductor\<close>; the memory, the session store, the ambient context
  and the model's extraction of facts are ports.  A fact the model returns has the properties its
  schema requires.
\<close>

record fact_item =
  fi_fact :: string
  fi_confidence :: real
  fi_line :: real

record 'w recall_ports =
  re_agent :: "'w ports"
  re_retrieve :: "string \<Rightarrow> memory_context \<Rightarrow> memory_type option \<Rightarrow> nat option \<Rightarrow> ('w, memory_record list) eff"
  re_store :: "string \<Rightarrow> memory_type \<Rightarrow> memory_context \<Rightarrow> dict option \<Rightarrow> ('w, unit) eff"
  re_trackOutcome :: "string \<Rightarrow> outcome \<Rightarrow> memory_context \<Rightarrow> ('w, unit) eff"
  re_get :: "string \<Rightarrow> ('w, dict session option) eff"
  re_ambient :: "('w, ambient_context) eff option"
  re_extract :: "string \<Rightarrow> ('w, fact_item list) eff"   \<comment> \<open>of a transcript\<close>
  re_traceId :: "'w \<Rightarrow> string \<times> 'w"

subsection \<open>A turn\<close>

definition agent_ctx :: "string \<Rightarrow> string \<Rightarrow> string option \<Rightarrow> ambient_context option \<Rightarrow> agent_context" where
  "agent_ctx uid sid traceId env =
     \<lparr>cx_childName = None, cx_childAge = None, cx_currentMood = None, cx_userId = Some uid,
      cx_sessionId = Some sid, cx_traceId = traceId, cx_envContext = env\<rparr>"

definition turn_metadata :: "string \<Rightarrow> string \<Rightarrow> dict" where
  "turn_metadata traceId role = [''traceId'' \<mapsto> JStr traceId, ''role'' \<mapsto> JStr role]"

definition processConversationTurn ::
    "'w recall_ports \<Rightarrow> string \<Rightarrow> string \<Rightarrow> string \<Rightarrow> string option
      \<Rightarrow> ('w, string \<times> reasoning_trace list) eff" where
  "processConversationTurn P uid sid message trace_id =
     (let ctx = \<lparr>mc_userId = uid, mc_sessionId = Some sid\<rparr>
      in ebind (case or_undefined trace_id of Some t \<Rightarrow> ereturn t | None \<Rightarrow> eread (re_traceId P)) (\<lambda>t.
         ethen (re_store P message EPISODIC ctx (Some (turn_metadata t ''user'')))
         (ebind (processTurn (re_agent P) message (agent_ctx uid sid (Some t) None)) (\<lambda>(reply, trace).
            ethen (re_store P reply EPISODIC ctx (Some (turn_metadata t ''agent'')))
              (ereturn (reply, trace))))))"

definition getSuggestions ::
    "'w recall_ports \<Rightarrow> string \<Rightarrow> string \<Rightarrow> string option \<Rightarrow> ('w, suggestion list) eff" where
  "getSuggestions P uid sid trace_id =
     ebind (case re_ambient P of
              None \<Rightarrow> ereturn None
            | Some amb \<Rightarrow> etry (ebind amb (\<lambda>a. ereturn (Some a))) (\<lambda>_. ereturn None))
       (\<lambda>env. generateSuggestions (re_agent P) (agent_ctx uid sid trace_id env))"

datatype interaction = StoryCompleted | StorySkipped | VolumeDown

definition logInteraction :: "'w recall_ports \<Rightarrow> string \<Rightarrow> string \<Rightarrow> interaction \<Rightarrow> ('w, unit) eff" where
  "logInteraction P uid theme i =
     re_trackOutcome P theme (if i = StoryCompleted then POSITIVE else NEGATIVE)
       \<lparr>mc_userId = uid, mc_sessionId = None\<rparr>"

subsection \<open>Their routes\<close>

datatype 'a turn_reply = TurnReply nat "string + 'a"

definition reply_500 :: "string \<Rightarrow> ('w, 'a) eff \<Rightarrow> 'w \<Rightarrow> 'a turn_reply \<times> 'w" where
  "reply_500 msg m w =
     (case m w of
        (Inl _, w') \<Rightarrow> (TurnReply 500 (Inl msg), w')
      | (Inr a, w') \<Rightarrow> (TurnReply 200 (Inr a), w'))"

definition post_turn ::
    "'w recall_ports \<Rightarrow> string \<Rightarrow> string \<Rightarrow> string \<Rightarrow> string option \<Rightarrow> 'w
      \<Rightarrow> (string \<times> reasoning_trace list) turn_reply \<times> 'w" where
  \<comment> \<open>\<open>POST /conversations/turn\<close>: the caller, \<open>sessionId\<close>, \<open>message\<close> and the trace of the request\<close>
  "post_turn P caller sid message trace_id w =
     (if sid = [] \<or> message = [] \<or> 1000 < length message then (TurnReply 400 (Inl ''Validation Error''), w)
      else reply_500 ''Failed to process conversation turn''
             (processConversationTurn P caller sid message trace_id) w)"

definition get_suggestions ::
    "'w recall_ports \<Rightarrow> string \<Rightarrow> string option \<Rightarrow> string option \<Rightarrow> 'w \<Rightarrow> suggestion list turn_reply \<times> 'w" where
  \<comment> \<open>\<open>GET /suggestions\<close>\<close>
  "get_suggestions P caller sid trace_id =
     reply_500 ''Failed to retrieve suggestions''
       (getSuggestions P caller (or_string sid ''current_session'') trace_id)"

definition interaction_of :: "string \<Rightarrow> interaction option" where
  "interaction_of t =
     (if t = ''story_completed'' then Some StoryCompleted
      else if t = ''story_skipped'' then Some StorySkipped else None)"

definition post_interaction :: "'w recall_ports \<Rightarrow> string \<Rightarrow> string \<Rightarrow> string \<Rightarrow> 'w \<Rightarrow> unit turn_reply \<times> 'w" where
  \<comment> \<open>\<open>POST /suggestions/feedback\<close>: the caller, \<open>theme\<close> and \<open>type\<close>\<close>
  "post_interaction P caller theme t w =
     (case (if theme = [] then None else interaction_of t) of
        None \<Rightarrow> (TurnReply 400 (Inl ''Validation Error''), w)
      | Some i \<Rightarrow> reply_500 [] (logInteraction P caller theme i) w)"

subsection \<open>Consolidation\<close>

definition transcript_of :: "memory_record list \<Rightarrow> string" where
  "transcript_of ms =
     join [char_of (10 :: nat)]
       (map (\<lambda>(i, m). ''[Line '' @ show_nat i @ ''] '' @ mr_content m) (enumerate 0 ms))"

definition cited :: "memory_record list \<Rightarrow> real \<Rightarrow> memory_record option" where
  \<comment> \<open>\<open>rawMemories[item.lineReference]\<close>\<close>
  "cited ms x =
     (if 0 \<le> x \<and> x < real (length ms) \<and> of_int \<lfloor>x\<rfloor> = x then Some (ms ! nat \<lfloor>x\<rfloor>) else None)"

definition anchor :: "string \<Rightarrow> memory_record list \<Rightarrow> fact_item \<Rightarrow> dict" where
  \<comment> \<open>a property that is \<open>undefined\<close> is not stored\<close>
  "anchor sid ms f =
     [''anchor'' \<mapsto>
        JObj ([(''sessionId'', JStr sid), (''transcriptOffset'', JNum (fi_line f))] @
          (case (case cited ms (fi_line f) of None \<Rightarrow> None | Some m \<Rightarrow> prop_of (mr_metadata m) ''traceId'') of
             None \<Rightarrow> [] | Some t \<Rightarrow> [(''traceId'', t)]))]"

fun store_facts ::
    "'w recall_ports \<Rightarrow> string \<Rightarrow> memory_context \<Rightarrow> memory_record list \<Rightarrow> fact_item list \<Rightarrow> ('w, unit) eff" where
  "store_facts P sid ctx ms [] = ereturn ()"
| "store_facts P sid ctx ms (f # fs) =
     ethen (re_store P (fi_fact f) SEMANTIC ctx (Some (anchor sid ms f))) (store_facts P sid ctx ms fs)"

definition summarizeSession :: "'w recall_ports \<Rightarrow> string \<Rightarrow> string \<Rightarrow> ('w, unit) eff" where
  "summarizeSession P sid uid =
     (let ctx = \<lparr>mc_userId = uid, mc_sessionId = Some sid\<rparr>
      in ebind (re_retrieve P ''*'' ctx (Some EPISODIC) (Some 50)) (\<lambda>ms.
         if ms = [] then ereturn ()
         else etry (ebind (re_extract P (transcript_of ms)) (store_facts P sid ctx ms)) (\<lambda>_. ereturn ())))"

definition known_session :: "string option \<Rightarrow> string option" where
  "known_session sid = (case or_undefined sid of Some s \<Rightarrow> if s = ''unknown'' then None else Some s | None \<Rightarrow> None)"

definition handleSleepDetected ::
    "'w recall_ports \<Rightarrow> payload_context option \<Rightarrow> string \<Rightarrow> ('w, unit) eff" where
  \<comment> \<open>the context of the payload and the identifier of the request\<close>
  "handleSleepDetected P pc requestId =
     (case known_session (Some (or_string (case pc of None \<Rightarrow> None | Some c \<Rightarrow> pc_sessionId c) requestId)) of
        None \<Rightarrow> ereturn ()
      | Some sid \<Rightarrow>
          ebind (case or_undefined (case pc of None \<Rightarrow> None | Some c \<Rightarrow> pc_userId c) of
                   Some u \<Rightarrow> ereturn (Some u)
                 | None \<Rightarrow> ebind (re_get P sid) (\<lambda>s. ereturn (map_option ss_userId s)))
            (\<lambda>u. case or_undefined u of
                   None \<Rightarrow> ereturn ()
                 | Some uid \<Rightarrow> etry (summarizeSession P sid uid) (\<lambda>_. ereturn ())))"

definition consolidate_beat :: "'w recall_ports \<Rightarrow> real \<Rightarrow> real \<Rightarrow> string \<Rightarrow> ('w, unit) eff" where
  \<comment> \<open>\<open>handleStoryBeat\<close>: index and number of the beats and the identifier of the request\<close>
  "consolidate_beat P beatIndex totalBeats requestId =
     (if totalBeats - 1 \<le> beatIndex
      then (case known_session (Some requestId) of
              None \<Rightarrow> ereturn ()
            | Some sid \<Rightarrow>
                etry (ebind (re_get P sid) (\<lambda>s.
                        case or_undefined (map_option ss_userId s) of
                          None \<Rightarrow> ereturn ()
                        | Some uid \<Rightarrow> summarizeSession P sid uid))
                  (\<lambda>_. ereturn ()))
      else ereturn ())"

end
