(* ===== verification/RecallTheorems.thy ===== *)
theory RecallTheorems
  imports Recall
begin

text \<open>
  What the composition of turns, memory and consolidation gives: with a local memory a session is
  never consolidated, with the hosted one every fact the model extracts is stored, with the
  session, the line and the trace it comes from.
\<close>

subsection \<open>Errors end here\<close>

lemma consolidate_beat_total: "total_eff (consolidate_beat P i n requestId)"
  unfolding consolidate_beat_def
  by (simp add: total_etry total_ereturn split: option.split)

lemma reply_500_status: "reply_500 msg m w = (TurnReply st b, w') \<Longrightarrow> st = 200 \<and> (\<exists>a. b = Inr a) \<or> st = 500 \<and> b = Inl msg"
  by (auto simp: reply_500_def split: prod.splits sum.splits)

subsection \<open>A local memory\<close>

definition turn_free :: "im_memory \<Rightarrow> bool" where
  "turn_free s \<longleftrightarrow>
     (\<forall>m\<in>set (im_memories s). mr_type m = EPISODIC \<longrightarrow> prop_of (mr_metadata m) ''sessionId'' = None)"

definition volatile_retrieve ::
    "string \<Rightarrow> memory_context \<Rightarrow> memory_type option \<Rightarrow> nat option \<Rightarrow> (im_memory, memory_record list) eff" where
  "volatile_retrieve q ctx ty l s = (Inr (im_retrieve s q ctx ty l), s)"

definition volatile_store ::
    "(im_memory \<Rightarrow> millis \<times> string) \<Rightarrow> string \<Rightarrow> memory_type \<Rightarrow> memory_context \<Rightarrow> dict option \<Rightarrow> (im_memory, unit) eff" where
  \<comment> \<open>with the clock and the random part of the identifier\<close>
  "volatile_store draw c ty ctx md s = (case draw s of (now, rnd) \<Rightarrow> (Inr (), im_store s c ty ctx md now rnd))"

fun run_turns :: "'w recall_ports \<Rightarrow> (string \<times> string \<times> string \<times> string option) list \<Rightarrow> 'w \<Rightarrow> 'w" where
  "run_turns P [] w = w"
| "run_turns P ((uid, sid, message, t) # ts) w =
     run_turns P ts (snd (processConversationTurn P uid sid message t w))"

lemma turn_free_init: "turn_free (im_init now)"
  by (auto simp: turn_free_def im_init_def procedural_defaults_def)

lemma turn_free_store:
  "hoare turn_free (volatile_store draw c EPISODIC ctx (Some (turn_metadata t role))) (\<lambda>_. True)"
  by (auto simp: hoare_def volatile_store_def turn_free_def im_store_def memory_entry_def turn_metadata_def
        split: prod.splits)

lemma turn_free_turn:
  assumes "re_store P = volatile_store draw"
    and "\<And>m uid sid t. hoare turn_free (processTurn (re_agent P) m (agent_ctx uid sid (Some t) None)) (\<lambda>_. True)"
    and "\<And>s. turn_free s \<Longrightarrow> turn_free (snd (re_traceId P s))"
  shows "hoare turn_free (processConversationTurn P uid sid message t) (\<lambda>_. True)"
  unfolding processConversationTurn_def Let_def assms(1)
  by (intro hoare_ebind [where P = "\<lambda>_. True"] hoare_option hoare_ethen hoare_prod hoare_ereturn
        turn_free_store assms(2) hoare_eread assms(3)) simp_all

lemma turn_free_run:
  assumes "re_store P = volatile_store draw"
    and "\<And>m uid sid t. hoare turn_free (processTurn (re_agent P) m (agent_ctx uid sid (Some t) None)) (\<lambda>_. True)"
    and "\<And>s. turn_free s \<Longrightarrow> turn_free (snd (re_traceId P s))"
    and "turn_free s"
  shows "turn_free (run_turns P ts s)"
  using assms(4)
proof (induction ts arbitrary: s)
  case (Cons q ts)
  then show ?case using hoare_snd [OF turn_free_turn [OF assms(1-3)]] by (cases q) simp
qed simp

lemma turn_free_nothing: "turn_free s \<Longrightarrow> sid \<noteq> [] \<Longrightarrow>
    im_retrieve s ''*'' \<lparr>mc_userId = uid, mc_sessionId = Some sid\<rparr> (Some EPISODIC) l = []"
  by (auto simp: im_retrieve_def memory_filter_def turn_free_def filter_empty_conv)

text \<open>With the volatile memory no session is ever consolidated: whatever turns have been spoken,
  the summary of any session finds no episode and learns no fact, since a turn is stored without
  the session its retrieval asks for.\<close>
lemma local_sessions_never_consolidated:
  assumes "re_retrieve P = volatile_retrieve" "re_store P = volatile_store draw"
    and "\<And>m uid sid t. hoare turn_free (processTurn (re_agent P) m (agent_ctx uid sid (Some t) None)) (\<lambda>_. True)"
    and "\<And>s. turn_free s \<Longrightarrow> turn_free (snd (re_traceId P s))"
    and "sid \<noteq> []"
  shows "summarizeSession P sid uid (run_turns P ts (im_init now)) = (Inr (), run_turns P ts (im_init now))"
proof -
  have "turn_free (run_turns P ts (im_init now))" by (rule turn_free_run [OF assms(2-4) turn_free_init])
  then show ?thesis using turn_free_nothing assms(1,5)
    by (simp add: summarizeSession_def volatile_retrieve_def Let_def)
qed

subsection \<open>The hosted memory\<close>

lemma store_facts_run:
  assumes "re_store P = hm_store E None" "\<And>r W. he_objection E r W = None"
  shows "\<exists>W' rs. store_facts P sid ctx ms fs W = (Inr (), W') \<and> hm_rows W' = hm_rows W @ rs
    \<and> map rw_content rs = map fi_fact fs \<and> map rw_metadata rs = map (\<lambda>f. Some (anchor sid ms f)) fs
    \<and> (\<forall>r\<in>set rs. rw_type r = SEMANTIC \<and> rw_user r = mc_userId ctx)"
proof (induction fs arbitrary: W)
  case Nil
  show ?case by (intro exI [of _ W] exI [of _ "[]"]) simp
next
  case (Cons f fs)
  define r where "r = \<lparr>rw_id = he_newId E W, rw_user = mc_userId ctx,
      rw_session = or_undefined (mc_sessionId ctx), rw_type = SEMANTIC, rw_content = fi_fact f,
      rw_embedding = embedText E (fi_fact f), rw_confidence = 1,
      rw_metadata = Some (anchor sid ms f), rw_created = hm_clock W\<rparr>"
  define W1 where "W1 = W\<lparr>hm_rows := hm_rows W @ [r], hm_clock := hm_clock W + 1\<rparr>"
  have first: "re_store P (fi_fact f) SEMANTIC ctx (Some (anchor sid ms f)) W = (Inr (), W1)"
    by (simp add: assms hm_store_def hm_getClient_def Let_def W1_def r_def)
  obtain W' rs where "store_facts P sid ctx ms fs W1 = (Inr (), W')" "hm_rows W' = hm_rows W1 @ rs"
    "map rw_content rs = map fi_fact fs" "map rw_metadata rs = map (\<lambda>f. Some (anchor sid ms f)) fs"
    "\<forall>r\<in>set rs. rw_type r = SEMANTIC \<and> rw_user r = mc_userId ctx"
    using Cons.IH by blast
  then show ?case using first
    by (intro exI [of _ W'] exI [of _ "r # rs"]) (simp add: W1_def r_def)
qed


subsection \<open>Examples\<close>

definition silent_agent :: "'w ports" where
  \<comment> \<open>an agent whose schema accepts no context\<close>
  "silent_agent =
     \<lparr>po_now = (\<lambda>w. (0, w)), po_random = (\<lambda>w. ([], w)), po_get = (\<lambda>_. ereturn None),
      po_set = (\<lambda>_ _. ereturn ()), po_memory = None, po_think = (\<lambda>_ _. ethrow (Err [] [])),
      po_save_trace = None, po_assess = (\<lambda>_. ethrow (Err [] [])), po_wait = (\<lambda>_ w. w), po_gate = False,
      po_observation = (\<lambda>_. []), po_start_trigger = (\<lambda>t. t), po_uuid = (\<lambda>_. False),
      po_schema_error = ''invalid''\<rparr>"

lemma silent_turn: "processTurn silent_agent m (agent_ctx uid sid t env) w = (Inl (Err ''ZodError'' ''invalid''), w)"
  by (simp add: processTurn_def parse_schema_def valid_context_def agent_ctx_def silent_agent_def Let_def)

definition sample_recall :: "im_memory recall_ports" where
  "sample_recall =
     \<lparr>re_agent = silent_agent, re_retrieve = volatile_retrieve, re_store = volatile_store (\<lambda>_. (7, ''x'')),
      re_trackOutcome = (\<lambda>_ _ _. ereturn ()), re_get = (\<lambda>_. ereturn None), re_ambient = None,
      re_extract = (\<lambda>_. ereturn []), re_traceId = (\<lambda>s. (''trace'', s))\<rparr>"

lemma local_sessions_never_consolidated_witness:
  "summarizeSession sample_recall ''s'' ''u'' (run_turns sample_recall [(''u'', ''s'', ''hello'', None)] (im_init 0))
     = (Inr (), run_turns sample_recall [(''u'', ''s'', ''hello'', None)] (im_init 0))
   \<and> map mr_content (im_memories (run_turns sample_recall [(''u'', ''s'', ''hello'', None)] (im_init 0)))
       = map mr_content (im_memories (im_init 0)) @ [''hello'']"
proof
  show "summarizeSession sample_recall ''s'' ''u'' (run_turns sample_recall [(''u'', ''s'', ''hello'', None)] (im_init 0))
     = (Inr (), run_turns sample_recall [(''u'', ''s'', ''hello'', None)] (im_init 0))"
  proof (rule local_sessions_never_consolidated)
    show "re_retrieve sample_recall = volatile_retrieve"
      "re_store sample_recall = volatile_store (\<lambda>_. (7, ''x''))" by (simp_all add: sample_recall_def)
    show "hoare turn_free (processTurn (re_agent sample_recall) m (agent_ctx uid sid (Some t) None)) (\<lambda>_. True)" for m uid sid t
      by (simp add: sample_recall_def hoare_def silent_turn)
  qed (simp_all add: sample_recall_def)
  show "map mr_content (im_memories (run_turns sample_recall [(''u'', ''s'', ''hello'', None)] (im_init 0)))
       = map mr_content (im_memories (im_init 0)) @ [''hello'']"
    by (simp add: processConversationTurn_def sample_recall_def volatile_store_def silent_turn
        im_store_def memory_entry_def Let_def ethen_def ebind_def eread_def)
qed

definition sample_hosted :: hosted_env where
  "sample_hosted =
     \<lparr>he_anonKey = True, he_values = None, he_distance = (\<lambda>_ _. 0), he_rpc = (\<lambda>_. True), he_select = (\<lambda>_. True),
      he_objection = (\<lambda>_ _. None), he_newId = (\<lambda>_. ''i''), he_tracks = (\<lambda>_. True)\<rparr>"

definition sample_rows :: hosted_world where
  "sample_rows =
     \<lparr>hm_rows = [\<lparr>rw_id = ''a'', rw_user = ''u'', rw_session = Some ''s'', rw_type = EPISODIC,
        rw_content = ''I like owls'', rw_embedding = None, rw_confidence = 1,
        rw_metadata = Some (turn_metadata ''t1'' ''user''), rw_created = 1\<rparr>],
      hm_outcomes = [], hm_pairs = [], hm_clock = 2\<rparr>"

definition sample_hosted_recall :: "hosted_world recall_ports" where
  "sample_hosted_recall =
     \<lparr>re_agent = silent_agent, re_retrieve = hm_retrieve sample_hosted None, re_store = hm_store sample_hosted None,
      re_trackOutcome = hm_trackOutcome sample_hosted None, re_get = (\<lambda>_. ereturn None), re_ambient = None,
      re_extract = (\<lambda>_. ereturn [\<lparr>fi_fact = ''Likes owls'', fi_confidence = 1, fi_line = 0\<rparr>]),
      re_traceId = (\<lambda>s. (''trace'', s))\<rparr>"

lemma sample_lines:
  "keyword_rows ''*'' \<lparr>mc_userId = ''u'', mc_sessionId = Some ''s''\<rparr> (Some EPISODIC) 50 (hm_rows sample_rows)
     = hm_rows sample_rows"
  by (simp add: keyword_rows_def sample_rows_def)


end
