(* ===== verification/Curation.thy ===== *)
theory Curation
  imports Safety Sharing AgentMemory
begin

text \<open>
  The memory curator, which looks for a golden moment when a story has been told:
  \<open>AnalyzeSessionForMomentsUseCase\<close>
  (\<open>api/src/application/use-cases/AnalyzeSessionForMomentsUseCase.ts\<close>), composed with the
  verification pipeline of \<open>Safety\<close>.  The memory, the stories, the model and the table of moments
  are ports; the model's reply is a \<^typ>\<open>json\<close> value, which the strict schema of the code checks.
\<close>

record 'w curator_ports =
  cu_retrieve :: "string \<Rightarrow> memory_context \<Rightarrow> memory_type option \<Rightarrow> nat option \<Rightarrow> ('w, memory_record list) eff"
  cu_recent :: "string \<Rightarrow> nat \<Rightarrow> ('w, story list) eff"
  cu_ask :: "string \<Rightarrow> ('w, json) eff"      \<comment> \<open>the curator's prompt, its schema and a transcript\<close>
  cu_pipeline :: "'w verification_ports"
  cu_save :: "moment \<Rightarrow> ('w, unit) eff"
  cu_newId :: "'w \<Rightarrow> string \<times> 'w"
  cu_now :: "'w \<Rightarrow> millis \<times> 'w"

definition parse_finding :: "json \<Rightarrow> (bool \<times> string \<times> real) option" where
  "parse_finding j =
     (case j of
        JObj kvs \<Rightarrow>
          if set (map fst kvs) \<subseteq> {''found'', ''description'', ''confidence''}
          then (case (map_of kvs ''found'', map_of kvs ''description'', map_of kvs ''confidence'') of
                  (Some (JBool b), Some (JStr d), Some (JNum c)) \<Rightarrow>
                    if 0 \<le> c \<and> c \<le> 1 then Some (b, d, c) else None
                | _ \<Rightarrow> None)
          else None
      | _ \<Rightarrow> None)"

definition significant :: "bool \<times> string \<times> real \<Rightarrow> bool" where
  "significant f = (case f of (found, d, c) \<Rightarrow> found \<and> 0 < length (js_trim d) \<and> 0.6 \<le> c)"

definition moment_item :: "string \<Rightarrow> string \<Rightarrow> moment \<Rightarrow> verifiable" where
  "moment_item uid sid m =
     \<lparr>vi_type = GoldenMoment,
      vi_content = JObj (case mo_description m of None \<Rightarrow> [] | Some d \<Rightarrow> [(''description'', JStr d)]),
      vi_metadata = [''userId'' \<mapsto> JStr uid, ''sessionId'' \<mapsto> JStr sid, ''resourceId'' \<mapsto> JStr (mo_id m)]\<rparr>"

definition anchor_story :: "story list \<Rightarrow> (string \<times> string) option" where
  \<comment> \<open>the newest story and its audio\<close>
  "anchor_story ss =
     (case ss of [] \<Rightarrow> None
      | s # _ \<Rightarrow> (case or_undefined (st_audioUrl s) of None \<Rightarrow> None | Some a \<Rightarrow> Some (st_id s, a)))"

definition curate :: "'w curator_ports \<Rightarrow> string \<Rightarrow> string \<Rightarrow> string \<Rightarrow> string \<times> string \<Rightarrow> ('w, unit) eff" where
  "curate P uid sid d a =
     ebind (eread (cu_newId P)) (\<lambda>i. ebind (eread (cu_now P)) (\<lambda>now.
       let m = \<lparr>mo_id = i, mo_userId = uid, mo_storyId = fst a, mo_mediaUrl = snd a,
                mo_description = Some d, mo_createdAt = now\<rparr>
       in ebind (verify (cu_pipeline P) (moment_item uid sid m)) (\<lambda>v.
            if \<not> ve_approved v then ereturn () else cu_save P m)))"

definition analyzeTranscript :: "'w curator_ports \<Rightarrow> string \<Rightarrow> string \<Rightarrow> string \<Rightarrow> ('w, unit) eff" where
  "analyzeTranscript P transcript uid sid =
     ebind (cu_ask P transcript) (\<lambda>j.
       case parse_finding j of
         None \<Rightarrow> ethrow (Err ''ZodError'' [])
       | Some f \<Rightarrow>
           if \<not> significant f then ereturn ()
           else ebind (cu_recent P uid 1) (\<lambda>ss.
             case anchor_story ss of
               None \<Rightarrow> ereturn ()
             | Some a \<Rightarrow> curate P uid sid (fst (snd f)) a))"

definition newline :: string where "newline = [char_of (10 :: nat)]"

definition story_transcript :: "story \<Rightarrow> string" where
  "story_transcript s =
     ''Story Title: '' @ st_title s @ newline @ newline @ join newline (sc_paragraphs (st_content s))"

definition analyzeSession :: "'w curator_ports \<Rightarrow> string \<Rightarrow> string \<Rightarrow> ('w, unit) eff" where
  "analyzeSession P sid uid =
     etry (ebind (cu_retrieve P ''session_end'' \<lparr>mc_userId = uid, mc_sessionId = Some sid\<rparr> (Some EPISODIC) (Some 20)) (\<lambda>ms.
         if ms = [] then
           ebind (cu_recent P uid 1) (\<lambda>ss.
             case ss of
               [] \<Rightarrow> ereturn ()
             | s # _ \<Rightarrow> analyzeTranscript P
                 (story_transcript s) uid sid)
         else analyzeTranscript P (join newline (map mr_content ms)) uid sid))
       (\<lambda>_. ereturn ())"

subsection \<open>What becomes a moment\<close>

definition reads_only :: "('w \<Rightarrow> moment list) \<Rightarrow> 'w curator_ports \<Rightarrow> bool" where
  \<comment> \<open>of the ports, only \<open>cu_save\<close> changes the moments, by adding one\<close>
  "reads_only moments P \<longleftrightarrow>
     (\<forall>q c t n w. moments (snd (cu_retrieve P q c t n w)) = moments w)
     \<and> (\<forall>u n w. moments (snd (cu_recent P u n w)) = moments w)
     \<and> (\<forall>t w. moments (snd (cu_ask P t w)) = moments w)
     \<and> (\<forall>v w. moments (snd (vq_ask (cu_pipeline P) v w)) = moments w)
     \<and> (\<forall>v r c w. moments (snd (vq_enqueue (cu_pipeline P) v r c w)) = moments w)
     \<and> (\<forall>w. moments (snd (cu_newId P w)) = moments w) \<and> (\<forall>w. moments (snd (cu_now P w)) = moments w)
     \<and> (\<forall>m w r w'. cu_save P m w = (r, w') \<longrightarrow> moments w' = moments w \<or> moments w' = moments w @ [m])"

definition deserved :: "'w curator_ports \<Rightarrow> string \<Rightarrow> string \<Rightarrow> moment \<Rightarrow> bool" where
  \<comment> \<open>the moment was found by a confident model in a transcript, and approved by the pipeline\<close>
  "deserved P uid sid m \<longleftrightarrow>
     mo_userId m = uid \<and> mo_mediaUrl m \<noteq> []
     \<and> (\<exists>transcript w w' j c. cu_ask P transcript w = (Inr j, w')
          \<and> parse_finding j = Some (True, the (mo_description m), c) \<and> 0.6 \<le> c
          \<and> 0 < length (js_trim (the (mo_description m))))
     \<and> (\<exists>d. mo_description m = Some d \<and> 10 \<le> length d)
     \<and> (\<exists>w w' j reason c. vq_ask (cu_pipeline P) (moment_item uid sid m) w = (Inr j, w')
          \<and> parse_verdict j = Some (True, reason, c) \<and> 0.8 \<le> c)
     \<and> (\<exists>ss w w'. cu_recent P uid 1 w = (Inr ss, w') \<and> anchor_story ss = Some (mo_storyId m, mo_mediaUrl m))"

abbreviation adds_deserved :: "('w \<Rightarrow> moment list) \<Rightarrow> 'w curator_ports \<Rightarrow> string \<Rightarrow> string \<Rightarrow> 'w \<Rightarrow> 'w \<Rightarrow> bool" where
  "adds_deserved moments P uid sid w w' \<equiv>
     moments w' = moments w \<or> (\<exists>m. moments w' = moments w @ [m] \<and> deserved P uid sid m)"

lemma ebind_cases:
  assumes "ebind m f w = (r, w')"
  obtains (fails) e where "m w = (Inl e, w')" "r = Inl e"
    | (goes_on) a w1 where "m w = (Inr a, w1)" "f a w1 = (r, w')"
  using assms by (cases "m w") (auto simp: ebind_def split: sum.splits)

lemma verify_keeps:
  assumes "reads_only moments P" "verify (cu_pipeline P) v w = (r, w')"
  shows "moments w' = moments w"
proof -
  have ask: "moments (snd (vq_ask (cu_pipeline P) v w)) = moments w" for v w
    using assms(1) by (simp add: reads_only_def)
  have enq: "moments (snd (vq_enqueue (cu_pipeline P) v x c w)) = moments w" for v x c w
    using assms(1) by (simp add: reads_only_def)
  obtain a w1 where m: "performModelCheck (cu_pipeline P) v w = (a, w1)" by fastforce
  then have "moments w1 = moments w"
    using ask [of v w] by (auto simp: performModelCheck_def split: prod.splits sum.splits)
  moreover have "moments w' = moments w \<or> moments w' = moments w1"
    using assms(2) m enq [of v "''Low confidence model validation''" "snd (snd a)" w1]
    by (auto simp: verify_def ethen_def split: if_splits prod.splits elim!: ebind_cases)
  ultimately show ?thesis by auto
qed

lemma reads_only_eq:
  assumes "reads_only moments P"
  shows "cu_retrieve P q c t n w = (x, w') \<Longrightarrow> moments w' = moments w"
    and "cu_recent P u k w = (y, w') \<Longrightarrow> moments w' = moments w"
    and "cu_ask P tr w = (z, w') \<Longrightarrow> moments w' = moments w"
  using assms unfolding reads_only_def by (metis snd_conv)+

lemma curate_deserved:
  assumes P: "reads_only moments P"
    and ask: "cu_ask P transcript v = (Inr j, v')" "parse_finding j = Some (found, d, c)" "significant (found, d, c)"
    and recent: "cu_recent P uid 1 u = (Inr ss, u')" "anchor_story ss = Some a"
    and run: "curate P uid sid d a w = (r, w')"
  shows "adds_deserved moments P uid sid w w'"
proof -
  obtain i w1 where i: "cu_newId P w = (i, w1)" by fastforce
  obtain now w2 where now: "cu_now P w1 = (now, w2)" by fastforce
  define m where "m = \<lparr>mo_id = i, mo_userId = uid, mo_storyId = fst a, mo_mediaUrl = snd a,
      mo_description = Some d, mo_createdAt = now\<rparr>"
  obtain x w3 where v: "verify (cu_pipeline P) (moment_item uid sid m) w2 = (x, w3)" by fastforce
  have "moments (snd (cu_newId P w)) = moments w" "moments (snd (cu_now P w1)) = moments w1"
    using P by (simp_all add: reads_only_def)
  then have w3: "moments w3 = moments w" using verify_keeps [OF P v] i now by simp
  have rest: "ebind (verify (cu_pipeline P) (moment_item uid sid m))
      (\<lambda>v. if \<not> ve_approved v then ereturn () else cu_save P m) w2 = (r, w')"
    using run i now by (simp add: curate_def Let_def m_def cong: if_cong)
  show ?thesis
  proof (cases "\<exists>res. x = Inr res \<and> ve_approved res")
    case False
    then have "w' = w3" using rest v by (cases x) auto
    then show ?thesis using w3 by simp
  next
    case True
    then obtain res where res: "x = Inr res" "ve_approved res" by auto
    then have "cu_save P m w3 = (r, w')" using rest v by simp
    then have saved: "moments w' = moments w3 \<or> moments w' = moments w3 @ [m]"
      using P by (simp add: reads_only_def)
    obtain j' reason c' where j': "passedRuleCheck (moment_item uid sid m)"
      "vq_ask (cu_pipeline P) (moment_item uid sid m) w2 = (Inr j', w3)"
      "parse_verdict j' = Some (True, reason, c')" "0.8 \<le> c'"
      using verify_approved [OF v [unfolded res(1)] res(2)] by auto
    have "10 \<le> length d" using j'(1) by (simp add: passedRuleCheck_def moment_item_def m_def)
    moreover have "snd a \<noteq> []"
      using recent(2) by (auto simp: anchor_story_def or_undefined_def split: list.splits option.splits if_splits)
    ultimately have "deserved P uid sid m"
    proof -
      have sig: "found" "0 < length (js_trim d)" "0.6 \<le> c" using ask(3) by (auto simp: significant_def)
      have m: "mo_userId m = uid" "mo_mediaUrl m = snd a" "mo_storyId m = fst a" "mo_description m = Some d"
        by (simp_all add: m_def)
      have "anchor_story ss = Some (mo_storyId m, mo_mediaUrl m)" using recent(2) m by simp
      moreover have "parse_finding j = Some (True, the (mo_description m), c)" using ask(2) sig m by simp
      ultimately show ?thesis
        unfolding deserved_def
        using ask(1) recent(1) j'(2-4) sig m \<open>10 \<le> length d\<close> \<open>snd a \<noteq> []\<close> by (metis option.sel)
    qed
    then show ?thesis using saved w3 by auto
  qed
qed

lemma transcript_deserved:
  assumes P: "reads_only moments P" and run: "analyzeTranscript P transcript uid sid w = (r, w')"
  shows "adds_deserved moments P uid sid w w'"
  using run unfolding analyzeTranscript_def
proof (cases rule: ebind_cases)
  case (fails e)
  have "moments (snd (cu_ask P transcript w)) = moments w" using P by (simp add: reads_only_def)
  then show ?thesis using fails by simp
next
  case (goes_on j w1)
  have w1: "moments w1 = moments w" using reads_only_eq [OF P] goes_on(1) by blast
  show ?thesis
  proof (cases "parse_finding j")
    case None
    then show ?thesis using goes_on(2) w1 by simp
  next
    case (Some f)
    obtain found d c where f: "f = (found, d, c)" by (cases f) auto
    show ?thesis
    proof (cases "significant f")
      case False
      then show ?thesis using goes_on(2) w1 Some by simp
    next
      case True
      obtain x w2 where ss: "cu_recent P uid 1 w1 = (x, w2)" by fastforce
      then have w2: "moments w2 = moments w1" by (rule reads_only_eq(2) [OF P])
      show ?thesis
      proof (cases "\<exists>ss a. x = Inr ss \<and> anchor_story ss = Some a")
        case False
        then have "w' = w2" using goes_on(2) Some True ss by (cases x) (auto split: option.splits)
        then show ?thesis using w1 w2 by simp
      next
        case anchored: True
        then obtain ss' a where sa: "x = Inr ss'" "anchor_story ss' = Some a" by auto
        then have "curate P uid sid d a w2 = (r, w')" using goes_on(2) Some True ss f by simp
        from curate_deserved [OF P goes_on(1) Some [unfolded f] True [unfolded f] ss [unfolded sa(1)] sa(2) this]
        show ?thesis using w1 w2 by simp
      qed
    qed
  qed
qed

text \<open>C28: The curator never fails, and it adds at most one moment: one of the user of the session, with
  a description of at least ten characters that the model found in a transcript with a confidence
  of 0.6 or more, anchored at the audio of the newest story, and approved by the pipeline with a
  confidence of 0.8 or more.\<close>
theorem moments_are_deserved:
  assumes P: "reads_only moments P"
  shows "\<exists>w'. analyzeSession P sid uid w = (Inr (), w') \<and> adds_deserved moments P uid sid w w'"
proof -
  let ?ctx = "\<lparr>mc_userId = uid, mc_sessionId = Some sid\<rparr>"
  define body where "body = ebind (cu_retrieve P ''session_end'' ?ctx (Some EPISODIC) (Some 20)) (\<lambda>ms.
         if ms = [] then
           ebind (cu_recent P uid 1) (\<lambda>ss.
             case ss of
               [] \<Rightarrow> ereturn ()
             | s # _ \<Rightarrow> analyzeTranscript P
                 (story_transcript s) uid sid)
         else analyzeTranscript P (join newline (map mr_content ms)) uid sid)"
  obtain r w' where run: "body w = (r, w')" by fastforce
  then have "analyzeSession P sid uid w = (Inr (), w')"
    unfolding analyzeSession_def body_def [symmetric] by (cases r) simp_all
  moreover have "adds_deserved moments P uid sid w w'"
    using run unfolding body_def
  proof (cases rule: ebind_cases)
    case (fails e)
    then show ?thesis using reads_only_eq [OF P] by blast
  next
    case (goes_on ms w1)
    have w1: "moments w1 = moments w" using reads_only_eq [OF P] goes_on(1) by blast
    show ?thesis
    proof (cases "ms = []")
      case False
      then have "analyzeTranscript P (join newline (map mr_content ms)) uid sid w1 = (r, w')"
        using goes_on(2) by simp
      from transcript_deserved [OF P this] show ?thesis unfolding w1 .
    next
      case True
      then have run': "ebind (cu_recent P uid 1) (\<lambda>ss.
             case ss of
               [] \<Rightarrow> ereturn ()
             | s # _ \<Rightarrow> analyzeTranscript P
                 (story_transcript s) uid sid) w1 = (r, w')"
        using goes_on(2) by simp
      from run' show ?thesis
      proof (cases rule: ebind_cases)
        case (fails e)
        then show ?thesis using reads_only_eq [OF P] w1 by metis
      next
        case (goes_on ss w2)
        have "moments w2 = moments w1" using reads_only_eq [OF P] goes_on(1) by blast
        then have w2: "moments w2 = moments w" using w1 by simp
        show ?thesis
        proof (cases ss)
          case Nil
          then show ?thesis using goes_on(2) w2 by simp
        next
          case (Cons s rest)
          then have "analyzeTranscript P (story_transcript s) uid sid w2 = (r, w')" using goes_on(2) by simp
          from transcript_deserved [OF P this] show ?thesis unfolding w2 .
        qed
      qed
    qed
  qed
  ultimately show ?thesis by blast
qed

text \<open>The local memories search for the words \<open>session_end\<close>, so that only an episode that says them is
  found, not the last turns of the session.\<close>

lemma local_search_needs_the_words:
  "m \<in> set (im_retrieve s ''session_end'' ctx ty l) \<Longrightarrow> str_includes (js_lower (mr_content m)) (js_lower ''session_end'')"
  by (auto simp: im_retrieve_def memory_filter_def dest!: in_set_takeD)

subsection \<open>An example\<close>

definition told_story :: story where
  "told_story = sample_story\<lparr>st_audioUrl := Some ''https://a''\<rparr>"

definition sample_curator :: "moment list curator_ports" where
  "sample_curator =
     \<lparr>cu_retrieve = (\<lambda>_ _ _ _. ereturn []), cu_recent = (\<lambda>_ _. ereturn [told_story]),
      cu_ask = (\<lambda>_. ereturn (JObj [(''found'', JBool True), (''description'', JStr ''She waved at the moon''),
        (''confidence'', JNum 1)])),
      cu_pipeline = \<lparr>vq_ask = (\<lambda>_. ereturn (JObj [(''approved'', JBool True), (''reason'', JStr ''ok''),
        (''confidence'', JNum 1)])), vq_enqueue = (\<lambda>_ _ _. ereturn ())\<rparr>,
      cu_save = (\<lambda>m w. (Inr (), w @ [m])), cu_newId = (\<lambda>w. (sample_uuid, w)), cu_now = (\<lambda>w. (9, w))\<rparr>"

lemma sample_curator_reads: "reads_only (\<lambda>w. w) sample_curator"
  by (simp add: reads_only_def sample_curator_def)

theorem moments_are_deserved_witness:
  "(\<exists>w'. analyzeSession sample_curator ''s'' sample_uuid [] = (Inr (), w')
      \<and> adds_deserved (\<lambda>w. w) sample_curator sample_uuid ''s'' [] w')
   \<and> length (snd (analyzeSession sample_curator ''s'' sample_uuid [])) = 1"
proof
  have "snd (analyzeSession sample_curator ''s'' sample_uuid [])
      = [\<lparr>mo_id = sample_uuid, mo_userId = sample_uuid, mo_storyId = sample_uuid, mo_mediaUrl = ''https://a'',
          mo_description = Some ''She waved at the moon'', mo_createdAt = 9\<rparr>]"
    by code_simp
  then show "length (snd (analyzeSession sample_curator ''s'' sample_uuid [])) = 1" by simp
qed (use moments_are_deserved [OF sample_curator_reads, of "''s''" sample_uuid "[]"] in simp)

end
