(* ===== verification/LiveRoutes.thy ===== *)
theory LiveRoutes
  imports ToolRouter Tickets SessionTheorems RateLimit
begin

text \<open>
  The routes of a live session (\<open>api/src/routes/live.ts\<close>) with \<open>LiveSessionFactory\<close>
  (\<open>api/src/application/factories/LiveSessionFactory.ts\<close>).  The session store, the ticket store, the
  clock, new identifiers and the text of the prompt are fields of \<open>live_ports\<close>; the tools are those
  of theory \<open>ToolRouter\<close>.  A body is the JSON value that was sent, or \<open>None\<close> where it is no JSON.  The
  caller is the identifier of the user \<open>authMiddleware\<close> lets in (theory \<open>Auth\<close>).  \<open>redis_live\<close> are the
  ports over the Redis store and the table of tickets.
\<close>

datatype 'a live_reply = LiveReply (lr_status: nat) (lr_body: "string + 'a")

subsection \<open>The configuration of a session\<close>

record tool_declaration =
  td_name :: string
  td_description :: string
  td_properties :: "(string \<times> string list option \<times> string) list"
    \<comment> \<open>strings, with the values of an \<open>enum\<close> and a description\<close>
  td_required :: "string list"

record live_config =
  lc_model :: string
  lc_system_instruction :: string
  lc_response_modalities :: "string list"
  lc_voice_name :: string
  lc_tools :: "tool_declaration list"

definition live_tools :: "tool_declaration list" where
  "live_tools =
     [\<lparr>td_name = ''save_memory'',
       td_description = ''Save a user preference or fact to their long-term memory.'',
       td_properties = [(''content'', None, ''The fact to remember''),
         (''memoryType'', Some [''PREFERENCE'', ''EPISODIC''], ''Type of memory'')],
       td_required = [''content'', ''memoryType'']\<rparr>,
      \<lparr>td_name = ''check_sleep_status'',
       td_description = ''Check if the child is asleep based on audio sensor data.'',
       td_properties = [(''_unused'', None, ''Ignored parameter'')], td_required = [''_unused'']\<rparr>,
      \<lparr>td_name = ''suggest_theme'',
       td_description = ''Get a story theme suggestion based on past favorites.'',
       td_properties = [(''_unused'', None, ''Ignored parameter'')], td_required = [''_unused'']\<rparr>]"

definition createSessionConfig ::
    "environment \<Rightarrow> (string option \<Rightarrow> real option \<Rightarrow> string) \<Rightarrow> string option \<Rightarrow> real option \<Rightarrow> live_config" where
  "createSessionConfig env getLiveSystemPrompt childName childAge =
     \<lparr>lc_model = or_string (env ''GEMINI_LIVE_MODEL'') ''models/gemini-2.5-flash-native-audio-latest'',
      lc_system_instruction = getLiveSystemPrompt childName childAge,
      lc_response_modalities = [''AUDIO''], lc_voice_name = ''Puck'', lc_tools = live_tools\<rparr>"

subsection \<open>The ports\<close>

record 'w live_ports =
  lv_env :: environment
  lv_get :: "string \<Rightarrow> ('w, dict session option) eff"
  lv_set :: "string \<Rightarrow> dict session \<Rightarrow> ('w, unit) eff"
  lv_patch :: "string \<Rightarrow> session_patch \<Rightarrow> ('w, unit) eff"
  lv_issue :: "string \<Rightarrow> ('w, string) eff"
  lv_validate :: "string \<Rightarrow> ('w, string option) eff"
  lv_newId :: "'w \<Rightarrow> string \<times> 'w"
  lv_now :: "'w \<Rightarrow> millis \<times> 'w"
  lv_prompt :: "string option \<Rightarrow> real option \<Rightarrow> string"
  lv_tools :: "'w tool_ports"

definition answer :: "string \<Rightarrow> ('w, 'a live_reply) eff \<Rightarrow> 'w \<Rightarrow> 'a live_reply \<times> 'w" where
  \<comment> \<open>the \<open>catch\<close> of a route: status 500 with its message\<close>
  "answer msg m w =
     (case m w of (Inl _, w') \<Rightarrow> (LiveReply 500 (Inl msg), w') | (Inr r, w') \<Rightarrow> (r, w'))"

subsection \<open>Schemas of the bodies\<close>

definition any_string :: "json \<Rightarrow> string option" where
  "any_string j = (case j of JStr s \<Rightarrow> Some s | _ \<Rightarrow> None)"

definition some_string :: "json \<Rightarrow> string option" where
  \<comment> \<open>\<open>z.string().min(1)\<close>\<close>
  "some_string j = (case j of JStr s \<Rightarrow> if s = [] then None else Some s | _ \<Rightarrow> None)"

definition whole_between :: "real \<Rightarrow> real \<Rightarrow> json \<Rightarrow> real option" where
  \<comment> \<open>\<open>z.number().int().min(lo).max(hi)\<close>\<close>
  "whole_between lo hi j =
     (case j of JNum x \<Rightarrow> if of_int \<lfloor>x\<rfloor> = x \<and> lo \<le> x \<and> x \<le> hi then Some x else None | _ \<Rightarrow> None)"

definition optional :: "(json \<Rightarrow> 'a option) \<Rightarrow> json option \<Rightarrow> 'a option option" where
  \<comment> \<open>\<open>.optional()\<close>; the outer \<open>None\<close> is an invalid value\<close>
  "optional f j = (case j of None \<Rightarrow> Some None | Some v \<Rightarrow> map_option Some (f v))"

definition members :: "json option \<Rightarrow> (string \<times> json) list option" where
  "members body = (case body of Some (JObj kvs) \<Rightarrow> Some kvs | _ \<Rightarrow> None)"

definition parse_ticket :: "json option \<Rightarrow> string option" where
  \<comment> \<open>\<open>consumeTicketSchema\<close>\<close>
  "parse_ticket body =
     (case members body of
        None \<Rightarrow> None
      | Some kvs \<Rightarrow> (case map_of kvs ''ticket'' of None \<Rightarrow> None | Some j \<Rightarrow> some_string j))"

record init_body =
  ib_childName :: "string option"
  ib_childAge :: "real option"
  ib_sessionId :: "string option"

definition parse_init :: "json option \<Rightarrow> init_body option" where
  \<comment> \<open>\<open>initSchema\<close>\<close>
  "parse_init body =
     (case members body of
        None \<Rightarrow> None
      | Some kvs \<Rightarrow>
          (case (optional any_string (map_of kvs ''childName''),
                 optional (whole_between 0 18) (map_of kvs ''childAge''),
                 optional some_string (map_of kvs ''sessionId'')) of
             (Some n, Some a, Some i) \<Rightarrow> Some \<lparr>ib_childName = n, ib_childAge = a, ib_sessionId = i\<rparr>
           | _ \<Rightarrow> None))"

record tool_payload =
  pl_sessionId :: string
  pl_toolName :: string
  pl_arguments :: json
  pl_toolCallId :: "string option"
  pl_traceId :: "string option"

definition tool_names :: "string list" where
  "tool_names = [''save_memory'', ''check_sleep_status'', ''suggest_theme'', ''save_generated_story'']"

definition parse_call :: "json option \<Rightarrow> tool_payload option" where
  \<comment> \<open>\<open>toolCallSchema\<close>; arguments that are absent are taken as \<open>null\<close>: no tool accepts either, and
      the audit log stores \<open>null\<close> for both\<close>
  "parse_call body =
     (case members body of
        None \<Rightarrow> None
      | Some kvs \<Rightarrow>
          (case (map_of kvs ''sessionId'', map_of kvs ''toolName'',
                 optional some_string (map_of kvs ''toolCallId''),
                 optional some_string (map_of kvs ''traceId'')) of
             (Some (JStr s), Some (JStr n), Some i, Some t) \<Rightarrow>
               if s \<noteq> [] \<and> n \<in> set tool_names
               then Some \<lparr>pl_sessionId = s, pl_toolName = n,
                          pl_arguments = (case map_of kvs ''arguments'' of None \<Rightarrow> JNull | Some a \<Rightarrow> a),
                          pl_toolCallId = i, pl_traceId = t\<rparr>
               else None
           | _ \<Rightarrow> None))"

subsection \<open>The routes\<close>

definition post_consume ::
    "'w live_ports \<Rightarrow> string option \<Rightarrow> json option \<Rightarrow> 'w \<Rightarrow> string live_reply \<times> 'w" where
  \<comment> \<open>\<open>POST /tickets/consume\<close> with the header \<open>x-worker-token\<close>; an error of the store is caught by
      \<open>app.onError\<close>\<close>
  "post_consume P provided body w =
     (case (lv_env P ''WS_WORKER_INTERNAL_TOKEN'', provided) of
        (Some expected, Some token) \<Rightarrow>
          if expected = [] \<or> token = [] \<or> token \<noteq> expected then (LiveReply 403 (Inl ''Forbidden''), w)
          else (case parse_ticket body of
                  None \<Rightarrow> (LiveReply 400 (Inl ''Validation Error''), w)
                | Some t \<Rightarrow>
                    (case lv_validate P t w of
                       (Inl _, w') \<Rightarrow> (LiveReply 500 (Inl ''Internal Server Error''), w')
                     | (Inr u, w') \<Rightarrow>
                         (if truthy_string u then LiveReply 200 (Inr (the u))
                          else LiveReply 403 (Inl ''Forbidden''), w')))
      | _ \<Rightarrow> (LiveReply 403 (Inl ''Forbidden''), w))"

record live_grant =
  lg_config :: live_config
  lg_ticket :: string
  lg_sessionId :: string
  lg_traceId :: string

definition live_state :: "string \<Rightarrow> string \<Rightarrow> string \<Rightarrow> millis \<Rightarrow> dict session" where
  "live_state sid uid trace now =
     \<lparr>ss_sessionId = sid, ss_userId = uid, ss_phase = IDLE, ss_activeIntent = IDLE_INTENT,
      ss_emotionalTone = 0.5, ss_activeGoal = None, ss_activeGoals = None, ss_sessionStartTime = None,
      ss_lastSuggestedTheme = None, ss_lastMomentTimestamp = None,
      ss_context = [''traceId'' \<mapsto> JStr trace], ss_updatedAt = now, ss_history = None\<rparr>"

definition grant :: "'w live_ports \<Rightarrow> string \<Rightarrow> string \<Rightarrow> live_config \<Rightarrow> string \<Rightarrow> ('w, live_grant) eff" where
  \<comment> \<open>the state of the session, then the ticket\<close>
  "grant P sid uid config trace =
     ebind (eread (lv_now P)) (\<lambda>now.
     ethen (lv_set P sid (live_state sid uid trace now))
       (ebind (lv_issue P uid) (\<lambda>t.
          ereturn \<lparr>lg_config = config, lg_ticket = t, lg_sessionId = sid, lg_traceId = trace\<rparr>)))"

definition init_live ::
    "'w live_ports \<Rightarrow> string \<Rightarrow> string \<Rightarrow> init_body \<Rightarrow> ('w, live_grant live_reply) eff" where
  "init_live P trace uid b =
     ebind (if truthy_string (ib_sessionId b) then ereturn (the (ib_sessionId b)) else eread (lv_newId P))
       (\<lambda>sid. ebind (grant P sid uid
                 (createSessionConfig (lv_env P) (lv_prompt P) (ib_childName b) (ib_childAge b)) trace)
          (\<lambda>g. ereturn (LiveReply 200 (Inr g))))"

definition post_init ::
    "'w live_ports \<Rightarrow> string \<Rightarrow> string \<Rightarrow> json option \<Rightarrow> 'w \<Rightarrow> live_grant live_reply \<times> 'w" where
  \<comment> \<open>\<open>POST /init\<close>: the trace of the request and the caller\<close>
  "post_init P trace caller body w =
     (case parse_init body of
        None \<Rightarrow> (LiveReply 400 (Inl ''Validation Error''), w)
      | Some b \<Rightarrow> answer ''Failed to initialize session'' (init_live P trace caller b) w)"

definition processed_of :: "dict \<Rightarrow> json list" where
  "processed_of ctx = (case ctx ''processedToolCallIds'' of Some (JArr js) \<Rightarrow> js | _ \<Rightarrow> [])"

definition is_string :: "json \<Rightarrow> bool" where
  "is_string j = (case j of JStr s \<Rightarrow> True | _ \<Rightarrow> False)"

definition next_processed :: "dict \<Rightarrow> string \<Rightarrow> json list" where
  \<comment> \<open>\<open>slice(-200)\<close>\<close>
  "next_processed ctx i = push_capped 200 (filter is_string (processed_of ctx)) (JStr i)"

definition call_trace :: "dict \<Rightarrow> tool_payload \<Rightarrow> string \<Rightarrow> string" where
  "call_trace ctx p trace =
     or_string (case ctx ''traceId'' of Some (JStr t) \<Rightarrow> Some t | _ \<Rightarrow> pl_traceId p) trace"

definition request_of :: "string \<Rightarrow> string \<Rightarrow> string \<Rightarrow> dict \<Rightarrow> tool_payload \<Rightarrow> tool_request" where
  "request_of uid rid trace ctx p =
     \<lparr>tq_sessionId = pl_sessionId p, tq_userId = uid, tq_requestId = Some rid,
      tq_traceId = Some (call_trace ctx p trace), tq_toolCallId = pl_toolCallId p,
      tq_toolName = pl_toolName p, tq_arguments = pl_arguments p\<rparr>"

definition run_call ::
    "'w live_ports \<Rightarrow> string \<Rightarrow> string \<Rightarrow> string \<Rightarrow> dict \<Rightarrow> tool_payload \<Rightarrow> ('w, tool_response live_reply) eff" where
  "run_call P uid rid trace ctx p =
     ebind (execute_tool (lv_tools P) (request_of uid rid trace ctx p)) (\<lambda>r. ereturn (LiveReply 200 (Inr r)))"

definition tool_after ::
    "'w live_ports \<Rightarrow> string \<Rightarrow> string \<Rightarrow> string \<Rightarrow> tool_payload \<Rightarrow> dict session option
      \<Rightarrow> ('w, tool_response live_reply) eff" where
  \<comment> \<open>the handler from the answer of \<open>sessionState.get\<close> on\<close>
  "tool_after P uid rid trace p st =
     (case st of
        None \<Rightarrow> ereturn (LiveReply 403 (Inl ''Forbidden''))
      | Some s \<Rightarrow>
          if ss_userId s \<noteq> uid then ereturn (LiveReply 403 (Inl ''Forbidden''))
          else (let ctx = ss_context s
                in case pl_toolCallId p of
                     None \<Rightarrow> run_call P uid rid trace ctx p
                   | Some i \<Rightarrow>
                       if JStr i \<in> set (processed_of ctx)
                       then ereturn (LiveReply 409 (Inl ''Duplicate tool call''))
                       else ethen (lv_patch P (pl_sessionId p) (empty_patch\<lparr>pt_context :=
                                     Some (ctx(''processedToolCallIds'' \<mapsto> JArr (next_processed ctx i)))\<rparr>))
                              (run_call P uid rid trace ctx p)))"

definition tool_call ::
    "'w live_ports \<Rightarrow> string \<Rightarrow> string \<Rightarrow> string \<Rightarrow> tool_payload \<Rightarrow> ('w, tool_response live_reply) eff" where
  "tool_call P uid rid trace p =
     ebind (lv_get P (pl_sessionId p)) (tool_after P uid rid trace p)"

definition post_tool ::
    "'w live_ports \<Rightarrow> jsnum option \<Rightarrow> string \<Rightarrow> string \<Rightarrow> string \<Rightarrow> json option \<Rightarrow> 'w
      \<Rightarrow> tool_response live_reply \<times> 'w" where
  \<comment> \<open>\<open>POST /tool\<close>: the header \<open>content-length\<close> as \<open>Number\<close> reads it, the request, its trace, the caller\<close>
  "post_tool P len rid trace caller body w =
     (if (case len of Some (Fin x) \<Rightarrow> 64 * 1024 < x | _ \<Rightarrow> False)
      then (LiveReply 413 (Inl ''Payload Too Large''), w)
      else (case parse_call body of
              None \<Rightarrow> (LiveReply 400 (Inl ''Validation Error''), w)
            | Some p \<Rightarrow> answer ''Tool execution failed'' (tool_call P caller rid trace p) w))"

end
