(* ===== verification/LiveRoutesTheorems.thy ===== *)
theory LiveRoutesTheorems
  imports LiveRoutes
begin

text \<open>
  What the routes of a live session do over the Redis store: who owns a session that is opened
  twice, how long the identifier of a tool call is refused when it comes again, and which calls of
  the declared tools are accepted.
\<close>

record live_world =
  lw_db :: redis_db
  lw_now :: millis
  lw_tickets :: ws_tickets
  lw_draws :: nat

record live_setup =
  le_env :: environment
  le_users :: "string \<Rightarrow> bool"            \<comment> \<open>who is in \<open>auth.users\<close>\<close>
  le_admin :: bool                        \<comment> \<open>the service role is configured\<close>
  le_uuid :: "nat \<Rightarrow> string"
  le_prompt :: "string option \<Rightarrow> real option \<Rightarrow> string"
  le_tools :: "live_world tool_ports"

definition thrown :: js_error where
  \<comment> \<open>the routes answer every error of a store alike\<close>
  "thrown = Err ''Error'' []"

definition redis_live :: "live_setup \<Rightarrow> live_world live_ports" where
  "redis_live S =
     \<lparr>lv_env = le_env S,
      lv_get = (\<lambda>sid w. (Inr (redis_get (lw_db w) (lw_now w) sid), w)),
      lv_set = (\<lambda>sid v w. case redis_set (lw_db w) (lw_now w) sid v of
                  Inl _ \<Rightarrow> (Inl thrown, w) | Inr db \<Rightarrow> (Inr (), w\<lparr>lw_db := db\<rparr>)),
      lv_patch = (\<lambda>sid pat w. case redis_patch (lw_db w) (lw_now w) sid pat of
                  Inl _ \<Rightarrow> (Inl thrown, w) | Inr db \<Rightarrow> (Inr (), w\<lparr>lw_db := db\<rparr>)),
      lv_issue = (\<lambda>u w. case sb_issue (le_users S) (le_admin S) None (lw_now w) u None
                           (le_uuid S (lw_draws w)) (lw_tickets w) of
                  (Inl _, T) \<Rightarrow> (Inl thrown, w\<lparr>lw_tickets := T, lw_draws := Suc (lw_draws w)\<rparr>)
                | (Inr t, T) \<Rightarrow> (Inr t, w\<lparr>lw_tickets := T, lw_draws := Suc (lw_draws w)\<rparr>)),
      lv_validate = (\<lambda>t w. case sb_validate (le_admin S) None (lw_now w) t (lw_tickets w) of
                  (Inl _, T) \<Rightarrow> (Inl thrown, w\<lparr>lw_tickets := T\<rparr>)
                | (Inr u, T) \<Rightarrow> (Inr u, w\<lparr>lw_tickets := T\<rparr>)),
      lv_newId = (\<lambda>w. (le_uuid S (lw_draws w), w\<lparr>lw_draws := Suc (lw_draws w)\<rparr>)),
      lv_now = (\<lambda>w. (lw_now w, w)),
      lv_prompt = le_prompt S,
      lv_tools = le_tools S\<rparr>"

lemma redis_live_simps [simp]:
  "lv_env (redis_live S) = le_env S"
  "lv_get (redis_live S) sid w = (Inr (redis_get (lw_db w) (lw_now w) sid), w)"
  "lv_now (redis_live S) w = (lw_now w, w)"
  "lv_newId (redis_live S) w = (le_uuid S (lw_draws w), w\<lparr>lw_draws := Suc (lw_draws w)\<rparr>)"
  "lv_tools (redis_live S) = le_tools S"
  by (simp_all add: redis_live_def)

lemma live_set_up: "rd_up (lw_db w) \<Longrightarrow> lv_set (redis_live S) sid v w =
    (Inr (), w\<lparr>lw_db := redis_put (lw_db w) (lw_now w) sid v\<rparr>)"
  by (simp add: redis_live_def redis_set_put)

lemma live_issue_keeps:
  "lv_issue (redis_live S) u w = (r, w') \<Longrightarrow> lw_db w' = lw_db w \<and> lw_now w' = lw_now w"
  by (auto simp: redis_live_def split: prod.splits sum.splits)

lemma live_state_sel [simp]:
  "ss_userId (live_state sid uid trace now) = uid"
  "ss_context (live_state sid uid trace now) = [''traceId'' \<mapsto> JStr trace]"
  by (simp_all add: live_state_def)

subsection \<open>Opening a session\<close>

lemma grant_db:
  assumes "rd_up (lw_db w)" "grant (redis_live S) sid uid config trace w = (r, w')"
  shows "lw_db w' = redis_put (lw_db w) (lw_now w) sid (live_state sid uid trace (lw_now w)) \<and> lw_now w' = lw_now w"
  using assms(2) live_issue_keeps [of S uid]
  by (auto simp: grant_def eread_def ebind_def ethen_def live_set_up [OF assms(1)] ereturn_def
      split: prod.splits sum.splits)

lemma init_writes:
  assumes "rd_up (lw_db w)" "parse_init body = Some b" "ib_sessionId b = Some sid" "sid \<noteq> []"
    and "post_init (redis_live S) trace uid body w = (r, w')"
  shows "lw_db w' = redis_put (lw_db w) (lw_now w) sid (live_state sid uid trace (lw_now w))"
    "lw_now w' = lw_now w"
proof -
  let ?c = "createSessionConfig (lv_env (redis_live S)) (lv_prompt (redis_live S)) (ib_childName b) (ib_childAge b)"
  obtain g w2 where g: "grant (redis_live S) sid uid ?c trace w = (g, w2)" by fastforce
  have "w' = w2"
    using assms(2-5) g
    by (auto simp: post_init_def init_live_def answer_def ebind_def ereturn_def split: sum.splits)
  then show "lw_db w' = redis_put (lw_db w) (lw_now w) sid (live_state sid uid trace (lw_now w))"
    "lw_now w' = lw_now w" using grant_db [OF assms(1) g] by simp_all
qed

text \<open>C30: Whoever knows the identifier of a live session can take it over: opening it again makes the
  caller its owner, whatever was stored, and for the rest of the day the former owner's tool calls
  are refused.  The identifiers of the calls that ran are forgotten with it.\<close>

theorem known_session_is_taken_over:
  assumes "redis_ok (lw_db w)" "plain_id sid" "plain_id mallory" "alice \<noteq> mallory"
    and "parse_init body = Some b" "ib_sessionId b = Some sid"
    and "post_init (redis_live S) trace mallory body w = (r, w1)"
    and "lw_now w \<le> t" "t < lw_now w + ttl_ms"
    and "parse_call call = Some p" "pl_sessionId p = sid"
  shows "post_tool (redis_live S) None rid trace' alice call (w1\<lparr>lw_now := t\<rparr>)
      = (LiveReply 403 (Inl ''Forbidden''), w1\<lparr>lw_now := t\<rparr>)
    \<and> (\<exists>s. redis_get (lw_db w1) t sid = Some s \<and> ss_userId s = mallory \<and> processed_of (ss_context s) = [])"
proof -
  have up: "rd_up (lw_db w)" by (rule redis_okD(1) [OF assms(1)])
  have ne: "sid \<noteq> []" using assms(2) by (simp add: plain_id_def)
  let ?v = "live_state sid mallory trace (lw_now w)"
  have d: "lw_db w1 = redis_put (lw_db w) (lw_now w) sid ?v"
    by (rule init_writes(1) [OF up assms(5,6) ne assms(7)])
  have "plain_id (ss_userId ?v)" using assms(3) by simp
  from redis_get_put_same [OF assms(1,2) this assms(8,9)]
  obtain s where s: "redis_get (lw_db w1) t sid = Some s" "core s = core ?v" using d by auto
  have f: "ss_userId s = mallory" "ss_context s = [''traceId'' \<mapsto> JStr trace]"
    using core_eqD(2,4) [OF s(2)] by simp_all
  then have "processed_of (ss_context s) = []" by (simp add: processed_of_def)
  moreover have "post_tool (redis_live S) None rid trace' alice call (w1\<lparr>lw_now := t\<rparr>)
      = (LiveReply 403 (Inl ''Forbidden''), w1\<lparr>lw_now := t\<rparr>)"
    using assms(4,10,11) s(1) f(1)
    by (simp add: post_tool_def tool_call_def tool_after_def answer_def)
  ultimately show ?thesis using s(1) f(1) by blast
qed

subsection \<open>Calls that come again\<close>

fun tool_calls ::
    "live_setup \<Rightarrow> string \<Rightarrow> (millis \<times> string \<times> string \<times> tool_payload) list \<Rightarrow> live_world
      \<Rightarrow> tool_response live_reply list \<times> live_world" where
  \<comment> \<open>calls of one user, one after the other: the time, the request, its trace, the payload\<close>
  "tool_calls S uid [] w = ([], w)"
| "tool_calls S uid ((t, rid, trace, p) # cs) w =
     (let (r, w1) = answer ''Tool execution failed'' (tool_call (redis_live S) uid rid trace p) (w\<lparr>lw_now := t\<rparr>);
          (rs, w2) = tool_calls S uid cs w1
      in (r # rs, w2))"

definition tracks :: "millis \<Rightarrow> string \<Rightarrow> string \<Rightarrow> string list \<Rightarrow> redis_db \<Rightarrow> bool" where
  \<comment> \<open>the session opened at \<open>t0\<close> remembers the calls \<open>L\<close>\<close>
  "tracks t0 uid sid L db \<longleftrightarrow> rd_up db \<and> rd_lookup db (lookup_key sid) = Some (uid, t0 + ttl_ms) \<and>
     (\<exists>s e. rd_sessions db (strict_key uid sid) = Some (s, e) \<and> t0 + ttl_ms \<le> e \<and> ss_userId s = uid \<and>
        processed_of (ss_context s) = map JStr L)"

lemma tracks_get:
  assumes "tracks t0 uid sid L db" "t < t0 + ttl_ms" "uid \<noteq> []"
  shows "\<exists>s. redis_get db t sid = Some s \<and> ss_userId s = uid \<and> processed_of (ss_context s) = map JStr L"
  using assms by (auto simp: tracks_def redis_get_def resolveKey_def live_def)

lemma filter_strings [simp]: "filter is_string (map JStr L) = map JStr L"
  by (induction L) (auto simp: is_string_def)

lemma push_capped_map: "push_capped n (map f L) (f x) = map f (push_capped n L x)"
  by (simp add: push_capped_def drop_map [symmetric])

lemma tracks_patch:
  assumes "tracks t0 uid sid L db" "t0 \<le> t" "t < t0 + ttl_ms" "uid \<noteq> []"
    and "redis_get db t sid = Some s" "processed_of (ss_context s) = map JStr L"
  shows "\<exists>db'. redis_patch db t sid (empty_patch\<lparr>pt_context :=
            Some ((ss_context s)(''processedToolCallIds'' \<mapsto> JArr (next_processed (ss_context s) i)))\<rparr>) = Inr db'
          \<and> tracks t0 uid sid (push_capped 200 L i) db'"
  using assms
  by (auto simp: tracks_def redis_patch_def resolveKey_def live_def patch_script_def Let_def json_patch_def
      empty_patch_def apply_patch_def processed_of_def [of "(_ :: dict)(_ := _)"] next_processed_def push_capped_map)

lemma tracks_init:
  assumes "rd_up (lw_db w)" "parse_init body = Some b" "ib_sessionId b = Some sid" "sid \<noteq> []"
    and "post_init (redis_live S) trace uid body w = (r, w')"
  shows "tracks (lw_now w) uid sid [] (lw_db w')"
  using assms(1) unfolding tracks_def init_writes(1) [OF assms]
  by (auto simp: redis_put_up processed_of_def update_result_def split: option.splits)

lemma run_call_result:
  assumes "\<And>rq v. lw_db (snd (execute_tool (le_tools S) rq v)) = lw_db v"
    and "answer msg (run_call (redis_live S) uid rid trace ctx p) w = (r, w')"
  shows "lr_status r \<noteq> 409" "lw_db w' = lw_db w"
proof -
  obtain x v where x: "execute_tool (le_tools S) (request_of uid rid trace ctx p) w = (x, v)" by fastforce
  then have "lw_db v = lw_db w" using assms(1) by (metis snd_conv)
  then show "lr_status r \<noteq> 409" "lw_db w' = lw_db w"
    using assms(2) x by (auto simp: answer_def run_call_def ebind_def ereturn_def split: sum.splits)
qed

lemma one_call:
  assumes keep: "\<And>rq v. lw_db (snd (execute_tool (le_tools S) rq v)) = lw_db v"
    and tr: "tracks t0 uid sid L (lw_db w)" and t: "t0 \<le> lw_now w" "lw_now w < t0 + ttl_ms"
    and u: "uid \<noteq> []" and p: "pl_sessionId p = sid"
    and run: "answer msg (tool_call (redis_live S) uid rid trace p) w = (r, w')"
  shows "case pl_toolCallId p of
      None \<Rightarrow> lr_status r \<noteq> 409 \<and> tracks t0 uid sid L (lw_db w')
    | Some i \<Rightarrow> if i \<in> set L then r = LiveReply 409 (Inl ''Duplicate tool call'') \<and> w' = w
        else lr_status r \<noteq> 409 \<and> tracks t0 uid sid (push_capped 200 L i) (lw_db w')"
proof -
  obtain s where s: "redis_get (lw_db w) (lw_now w) sid = Some s" "ss_userId s = uid"
    "processed_of (ss_context s) = map JStr L"
    using tracks_get [OF tr t(2) u] by blast
  have after: "answer msg (tool_after (redis_live S) uid rid trace p (Some s)) w = (r, w')"
    using run s(1) p by (simp add: answer_def tool_call_def)
  show ?thesis
  proof (cases "pl_toolCallId p")
    case None
    then have "answer msg (run_call (redis_live S) uid rid trace (ss_context s) p) w = (r, w')"
      using after s(2) by (simp add: tool_after_def Let_def)
    from run_call_result [OF keep this] show ?thesis using None tr by simp
  next
    case (Some i)
    show ?thesis
    proof (cases "i \<in> set L")
      case True
      then show ?thesis
        using after s(2,3) Some by (auto simp: tool_after_def Let_def answer_def)
    next
      case False
      let ?pat = "empty_patch\<lparr>pt_context :=
            Some ((ss_context s)(''processedToolCallIds'' \<mapsto> JArr (next_processed (ss_context s) i)))\<rparr>"
      obtain db' where db': "redis_patch (lw_db w) (lw_now w) sid ?pat = Inr db'"
        "tracks t0 uid sid (push_capped 200 L i) db'"
        using tracks_patch [OF tr t u s(1,3), of i] by blast
      have "lv_patch (redis_live S) sid ?pat w = (Inr (), w\<lparr>lw_db := db'\<rparr>)"
        using db'(1) by (simp add: redis_live_def)
      then have "answer msg (run_call (redis_live S) uid rid trace (ss_context s) p) (w\<lparr>lw_db := db'\<rparr>) = (r, w')"
        using after s(2,3) Some False p by (simp add: tool_after_def Let_def answer_def image_iff)
      from run_call_result [OF keep this] show ?thesis using Some False db'(2) by simp
    qed
  qed
qed

definition recent :: "'a \<Rightarrow> nat \<Rightarrow> 'a list \<Rightarrow> bool" where
  "recent i k L \<longleftrightarrow> (\<exists>A B. L = A @ i # B \<and> length B \<le> k)"

lemma recent_in: "recent i k L \<Longrightarrow> i \<in> set L"
  by (auto simp: recent_def)

lemma recent_Suc: "recent i k L \<Longrightarrow> recent i (Suc k) L"
  unfolding recent_def by (metis le_SucI)

lemma recent_pushed: "recent i 0 (push_capped 200 L i)"
  by (auto simp: recent_def push_capped_def)

lemma recent_push:
  assumes "recent i k L" "Suc k < 200"
  shows "recent i (Suc k) (push_capped 200 L j)"
proof -
  obtain A B where L: "L = A @ i # B" "length B \<le> k" using assms(1) unfolding recent_def by blast
  then have "push_capped 200 L j = drop (length L + 1 - 200) A @ i # (B @ [j])"
    using assms(2) by (auto simp: push_capped_def)
  then show ?thesis using L(2) unfolding recent_def by (metis Suc_le_mono length_append_singleton)
qed

definition calls_in :: "millis \<Rightarrow> string \<Rightarrow> (millis \<times> string \<times> string \<times> tool_payload) list \<Rightarrow> bool" where
  "calls_in t0 sid cs \<longleftrightarrow> (\<forall>(t, rid, trace, p) \<in> set cs. t0 \<le> t \<and> t < t0 + ttl_ms \<and> pl_sessionId p = sid)"

lemma calls_in_simps [simp]:
  "calls_in t0 sid []"
  "calls_in t0 sid ((t, rid, trace, p) # cs) \<longleftrightarrow>
     t0 \<le> t \<and> t < t0 + ttl_ms \<and> pl_sessionId p = sid \<and> calls_in t0 sid cs"
  "calls_in t0 sid (cs @ ds) \<longleftrightarrow> calls_in t0 sid cs \<and> calls_in t0 sid ds"
  unfolding calls_in_def by (simp_all add: ball_Un)

lemma tool_calls_append:
  "tool_calls S uid (cs @ ds) w =
     (let (rs, w1) = tool_calls S uid cs w; (qs, w2) = tool_calls S uid ds w1 in (rs @ qs, w2))"
  by (induction S uid cs w rule: tool_calls.induct) (simp_all add: Let_def split: prod.split)

lemma length_tool_calls: "tool_calls S uid cs w = (rs, w') \<Longrightarrow> length rs = length cs"
  by (induction S uid cs w arbitrary: rs w' rule: tool_calls.induct) (auto simp: Let_def split: prod.splits)

lemma tracks_calls:
  assumes "\<And>rq v. lw_db (snd (execute_tool (le_tools S) rq v)) = lw_db v" "uid \<noteq> []"
    and "calls_in t0 sid cs" "tracks t0 uid sid L (lw_db w)" "tool_calls S uid cs w = (rs, w')"
  shows "\<exists>L'. tracks t0 uid sid L' (lw_db w')"
  using assms(3-5)
proof (induction cs arbitrary: w rs L)
  case Nil
  then show ?case by auto
next
  case (Cons c cs)
  obtain t rid trace p where c: "c = (t, rid, trace, p)" by (cases c) auto
  obtain r w1 where r: "answer ''Tool execution failed'' (tool_call (redis_live S) uid rid trace p)
      (w\<lparr>lw_now := t\<rparr>) = (r, w1)" by fastforce
  obtain rs1 where rest: "tool_calls S uid cs w1 = (rs1, w')"
    using Cons.prems(3) c r by (auto simp: Let_def split: prod.splits)
  have "\<exists>L1. tracks t0 uid sid L1 (lw_db w1)"
    using one_call [OF assms(1) _ _ _ assms(2) _ r, of t0 sid L] Cons.prems(1,2) c
    by (auto split: option.splits if_splits)
  then show ?case using Cons.IH [OF _ _ rest] Cons.prems(1) c by auto
qed

lemma recent_calls:
  assumes "\<And>rq v. lw_db (snd (execute_tool (le_tools S) rq v)) = lw_db v" "uid \<noteq> []"
    and "calls_in t0 sid cs" "tracks t0 uid sid L (lw_db w)" "tool_calls S uid cs w = (rs, w')"
    and "recent i k L" "k + length cs < 200"
  shows "\<exists>L'. tracks t0 uid sid L' (lw_db w') \<and> i \<in> set L'"
  using assms(3-7)
proof (induction cs arbitrary: w rs L k)
  case Nil
  then show ?case using recent_in [OF Nil.prems(4)] by auto
next
  case (Cons c cs)
  obtain t rid trace p where c: "c = (t, rid, trace, p)" by (cases c) auto
  obtain r w1 where r: "answer ''Tool execution failed'' (tool_call (redis_live S) uid rid trace p)
      (w\<lparr>lw_now := t\<rparr>) = (r, w1)" by fastforce
  obtain rs1 where rest: "tool_calls S uid cs w1 = (rs1, w')"
    using Cons.prems(3) c r by (auto simp: Let_def split: prod.splits)
  have "\<exists>L1. tracks t0 uid sid L1 (lw_db w1) \<and> recent i (Suc k) L1"
    using one_call [OF assms(1) _ _ _ assms(2) _ r, of t0 sid L] Cons.prems(1,2) c
      recent_Suc [OF Cons.prems(4)] recent_push [OF Cons.prems(4)] Cons.prems(5)
    by (auto split: option.splits if_splits)
  then show ?case using Cons.IH [OF _ _ rest, of _ "Suc k"] Cons.prems(1,5) c by auto
qed

text \<open>C29: The identifier of a tool call that was let through is refused for the next 199 calls of
  its session, for a day after the session was opened: none of them runs the tool again.\<close>

theorem tool_call_runs_once:
  assumes "\<And>rq v. lw_db (snd (execute_tool (le_tools S) rq v)) = lw_db v" "uid \<noteq> []"
    and "rd_up (lw_db w)" "parse_init body = Some b" "ib_sessionId b = Some sid" "sid \<noteq> []"
    and "post_init (redis_live S) trace uid body w = (granted, w0)"
    and "calls_in (lw_now w) sid (xs @ [(t, rid, tr, p)] @ ys @ [(t', rid', tr', p')])"
    and "pl_toolCallId p = Some i" "pl_toolCallId p' = Some i" "length ys < 200"
    and "tool_calls S uid (xs @ [(t, rid, tr, p)] @ ys) w0 = (rs, w1)"
    and "lr_status (rs ! length xs) \<noteq> 409"
  shows "tool_calls S uid [(t', rid', tr', p')] w1
    = ([LiveReply 409 (Inl ''Duplicate tool call'')], w1\<lparr>lw_now := t'\<rparr>)"
proof -
  obtain rs1 v1 where xs: "tool_calls S uid xs w0 = (rs1, v1)" by fastforce
  obtain L where L: "tracks (lw_now w) uid sid L (lw_db v1)"
    using tracks_calls [OF assms(1,2) _ tracks_init [OF assms(3-7)] xs] assms(8) by auto
  obtain r v2 where r: "answer ''Tool execution failed'' (tool_call (redis_live S) uid rid tr p)
      (v1\<lparr>lw_now := t\<rparr>) = (r, v2)" by fastforce
  obtain rs2 where ys: "tool_calls S uid ys v2 = (rs2, w1)" and rs: "rs = rs1 @ r # rs2"
    using assms(12) r by (auto simp: tool_calls_append xs Let_def split: prod.splits)
  have no_dup: "lr_status r \<noteq> 409" using assms(13) length_tool_calls [OF xs] rs by (simp add: nth_append)
  have pushed: "tracks (lw_now w) uid sid (push_capped 200 L i) (lw_db v2)"
    using one_call [OF assms(1) _ _ _ assms(2) _ r, of "lw_now w" sid L] L assms(8,9)
      no_dup by (auto split: if_splits)
  have "calls_in (lw_now w) sid ys" using assms(8) by simp
  from recent_calls [OF assms(1,2) this pushed ys recent_pushed] assms(11)
  obtain L' where "tracks (lw_now w) uid sid L' (lw_db w1)" "i \<in> set L'" by auto
  moreover obtain r' v3 where r': "answer ''Tool execution failed'' (tool_call (redis_live S) uid rid' tr' p')
      (w1\<lparr>lw_now := t'\<rparr>) = (r', v3)" by fastforce
  ultimately have "r' = LiveReply 409 (Inl ''Duplicate tool call'') \<and> v3 = w1\<lparr>lw_now := t'\<rparr>"
    using one_call [OF assms(1) _ _ _ assms(2) _ r', of "lw_now w" sid L'] assms(8,10)
    by auto
  then show ?thesis using r' by simp
qed

text \<open>Two calls with one identifier that both read the session before either records it both run.\<close>

lemma overlapping_calls_both_run:
  assumes keep: "\<And>rq v. lw_db (snd (execute_tool (le_tools S) rq v)) = lw_db v"
    and tr: "tracks t0 uid sid L (lw_db w)" "t0 \<le> lw_now w" "lw_now w < t0 + ttl_ms" "uid \<noteq> []"
    and p: "pl_sessionId p = sid" "pl_toolCallId p = Some i" "i \<notin> set L"
    and s: "redis_get (lw_db w) (lw_now w) sid = Some s"
    and one: "answer msg (tool_after (redis_live S) uid rid trace p (Some s)) w = (r1, w1)"
    and two: "answer msg (tool_after (redis_live S) uid rid trace p (Some s)) (w1\<lparr>lw_now := lw_now w\<rparr>) = (r2, w2)"
  shows "lr_status r1 \<noteq> 409" "lr_status r2 \<noteq> 409"
proof -
  have d: "processed_of (ss_context s) = map JStr L" "ss_userId s = uid"
    using tracks_get [OF tr(1,3,4)] s by auto
  have *: "lr_status r \<noteq> 409"
    if "answer msg (tool_after (redis_live S) uid rid trace p (Some s)) v = (r, v')" for r v v'
  proof -
    let ?pat = "empty_patch\<lparr>pt_context :=
          Some ((ss_context s)(''processedToolCallIds'' \<mapsto> JArr (next_processed (ss_context s) i)))\<rparr>"
    have g: "answer msg (ethen (lv_patch (redis_live S) sid ?pat)
        (run_call (redis_live S) uid rid trace (ss_context s) p)) v = (r, v')"
      using that p d by (simp add: tool_after_def Let_def answer_def image_iff)
    obtain x u where x: "lv_patch (redis_live S) sid ?pat v = (x, u)" by fastforce
    show ?thesis
    proof (cases x)
      case (Inl e)
      then show ?thesis using g x by (auto simp: answer_def)
    next
      case (Inr y)
      then have "answer msg (run_call (redis_live S) uid rid trace (ss_context s) p) u = (r, v')"
        using g x by (simp add: answer_def)
      from run_call_result(1) [OF keep this] show ?thesis .
    qed
  qed
  show "lr_status r1 \<noteq> 409" "lr_status r2 \<noteq> 409" using *[OF one] *[OF two] by simp_all
qed

subsection \<open>The tools a model is told of\<close>

definition declared_call :: "tool_declaration \<Rightarrow> json \<Rightarrow> bool" where
  \<comment> \<open>the arguments follow the schema of the declaration\<close>
  "declared_call d j \<longleftrightarrow>
     (case j of
        JObj kvs \<Rightarrow>
          list_all (\<lambda>k. map_of kvs k \<noteq> None) (td_required d)
          \<and> list_all (\<lambda>(k, values, _). case map_of kvs k of
                None \<Rightarrow> True
              | Some (JStr s) \<Rightarrow> (case values of None \<Rightarrow> True | Some vs \<Rightarrow> s \<in> set vs)
              | Some _ \<Rightarrow> False) (td_properties d)
      | _ \<Rightarrow> False)"

lemma declared_needs_unused:
  assumes "d \<in> set live_tools" "td_name d \<noteq> ''save_memory''" "declared_call d j"
  shows "td_name d = ''check_sleep_status'' \<or> td_name d = ''suggest_theme''" "parse_empty a j = None"
  using assms by (auto simp: live_tools_def declared_call_def parse_empty_def split: json.splits)

text \<open>Both tools without arguments are declared to the model with a required placeholder, and
  both refuse every call that has it: a model that keeps to the declarations never learns whether
  the child sleeps nor gets a suggestion; the call is answered with an error and nothing is run.\<close>

lemma declared_calls_are_refused:
  assumes "d \<in> set live_tools" "td_name d \<noteq> ''save_memory''" "declared_call d (pl_arguments p)"
    and "pl_toolName p = td_name d" "tr_audit (lv_tools P) = Some put" "\<And>a. total_eff (put a)"
  shows "\<exists>msg w'. run_call P uid rid trace ctx p w = (Inr (LiveReply 200 (Inr (refuse msg))), w')
    \<and> w' = snd (put (audit_of (request_of uid rid trace ctx p) (fst (tr_now (lv_tools P) w)) False (refuse msg))
                  (snd (tr_now (lv_tools P) w)))"
proof -
  let ?rq = "request_of uid rid trace ctx p"
  have inv: "parse_tool (lv_tools P) ?rq = Inl (tr_invalid (lv_tools P) (td_name d) (pl_arguments p))"
    using declared_needs_unused [OF assms(1-3)] assms(4)
    by (auto simp: parse_tool_def request_of_def Let_def)
  obtain now w0 where now: "tr_now (lv_tools P) w = (now, w0)" by fastforce
  let ?msg = "tr_invalid (lv_tools P) (td_name d) (pl_arguments p)"
  obtain v where "put (audit_of ?rq now False (refuse ?msg)) w0 = (Inr (), v)"
    by (rule total_unitE [OF assms(6)])
  then have "run_call P uid rid trace ctx p w = (Inr (LiveReply 200 (Inr (refuse ?msg))), v)
      \<and> v = snd (put (audit_of ?rq (fst (tr_now (lv_tools P) w)) False (refuse ?msg)) (snd (tr_now (lv_tools P) w)))"
    using inv now assms(5) by (simp add: run_call_def execute_tool_def eread_def ebind_def ethen_def write_audit_def ereturn_def)
  then show ?thesis by blast
qed

subsection \<open>Samples\<close>

definition quiet_tools :: "'w tool_ports" where
  "quiet_tools = sample_tools None None"

definition sample_live :: live_setup where
  "sample_live =
     \<lparr>le_env = (\<lambda>_. None), le_users = (\<lambda>_. True), le_admin = True, le_uuid = (\<lambda>n. replicate n (CHR ''t'')),
      le_prompt = (\<lambda>n a. []), le_tools = quiet_tools\<rparr>"

lemma idle_tools_keep: "snd (execute_tool quiet_tools rq v) = v"
  by (auto simp: execute_tool_def quiet_tools_def sample_tools_def ebind_def eread_def ethen_def etry_def
      run_tool_def handleSuggestTheme_def generateSuggestions_def idle_conductor_def
      handleSaveGeneratedStory_def write_audit_def ereturn_def Let_def
      split: sum.splits prod.splits tool_args.splits)

definition open_body :: "string \<Rightarrow> json option" where
  "open_body sid = Some (JObj [(''sessionId'', JStr sid)])"

definition call_body :: "string \<Rightarrow> string \<Rightarrow> json option" where
  "call_body sid i = Some (JObj [(''sessionId'', JStr sid), (''toolName'', JStr ''check_sleep_status''),
     (''arguments'', JObj []), (''toolCallId'', JStr i)])"

definition sample_payload :: "string \<Rightarrow> string \<Rightarrow> tool_payload" where
  "sample_payload sid i =
     \<lparr>pl_sessionId = sid, pl_toolName = ''check_sleep_status'', pl_arguments = JObj [],
      pl_toolCallId = Some i, pl_traceId = None\<rparr>"

definition new_live_world :: live_world where
  "new_live_world = \<lparr>lw_db = empty_redis, lw_now = 0, lw_tickets = [], lw_draws = 0\<rparr>"

lemma parsed_samples:
  "parse_init (open_body ''s'') = Some \<lparr>ib_childName = None, ib_childAge = None, ib_sessionId = Some ''s''\<rparr>"
  "parse_call (call_body ''s'' i) = (if i = [] then None else Some (sample_payload ''s'' i))"
  by (simp_all add: parse_init_def parse_call_def open_body_def call_body_def members_def optional_def
      some_string_def tool_names_def sample_payload_def)

theorem known_session_is_taken_over_witness:
  "\<exists>r0 w0 r1 w1. post_init (redis_live sample_live) ''x'' ''u'' (open_body ''s'') new_live_world = (r0, w0)
    \<and> post_init (redis_live sample_live) ''y'' ''t'' (open_body ''s'') (w0\<lparr>lw_now := 5\<rparr>) = (r1, w1)
    \<and> lr_status (fst (post_tool (redis_live sample_live) None ''r'' ''x'' ''u'' (call_body ''s'' ''c'') w0)) = 200
    \<and> lr_status (fst (post_tool (redis_live sample_live) None ''r'' ''x'' ''u'' (call_body ''s'' ''c'')
         (w1\<lparr>lw_now := 6\<rparr>))) = 403"
proof -
  let ?S = "redis_live sample_live"
  let ?b = "\<lparr>ib_childName = None, ib_childAge = None, ib_sessionId = Some ''s''\<rparr>"
  obtain r0 w0 where 0: "post_init ?S ''x'' ''u'' (open_body ''s'') new_live_world = (r0, w0)" by fastforce
  obtain r1 w1 where 1: "post_init ?S ''y'' ''t'' (open_body ''s'') (w0\<lparr>lw_now := 5\<rparr>) = (r1, w1)" by fastforce
  have up: "rd_up (lw_db new_live_world)" by (simp add: new_live_world_def empty_redis_def)
  have ib: "ib_sessionId ?b = Some ''s''" by simp
  note w0 = init_writes [OF up parsed_samples(1) ib _ 0, simplified]
  have ok: "redis_ok (lw_db (w0\<lparr>lw_now := 5\<rparr>))"
    using redis_ok_put [OF empty_redis_ok(1) plain_samples(2)] plain_samples(1) w0(1)
    by (simp add: new_live_world_def)
  have p: "parse_call (call_body ''s'' ''c'') = Some (sample_payload ''s'' ''c'')" by (simp add: parsed_samples)
  have "post_tool ?S None ''r'' ''x'' ''u'' (call_body ''s'' ''c'') (w1\<lparr>lw_now := 6\<rparr>)
      = (LiveReply 403 (Inl ''Forbidden''), w1\<lparr>lw_now := 6\<rparr>)"
    by (rule known_session_is_taken_over [THEN conjunct1, OF ok plain_samples(2,3) _ parsed_samples(1) ib 1 _ _ p])
      (simp_all add: ttl_ms_def sample_payload_def)
  moreover have "lr_status (fst (post_tool ?S None ''r'' ''x'' ''u'' (call_body ''s'' ''c'') w0)) = 200"
  proof -
    have tr: "tracks 0 ''u'' ''s'' [] (lw_db w0)" and now: "lw_now w0 = 0"
      using tracks_init [OF up parsed_samples(1) ib _ 0] w0(2) by (simp_all add: new_live_world_def)
    obtain s where s: "redis_get (lw_db w0) 0 ''s'' = Some s" "ss_userId s = ''u''" "processed_of (ss_context s) = []"
      using tracks_get [OF tr, of 0] by (auto simp: ttl_ms_def)
    let ?pat = "empty_patch\<lparr>pt_context :=
            Some ((ss_context s)(''processedToolCallIds'' \<mapsto> JArr (next_processed (ss_context s) ''c'')))\<rparr>"
    obtain db where "redis_patch (lw_db w0) 0 ''s'' ?pat = Inr db"
      using tracks_patch [OF tr _ _ _ s(1), of "''c''"] s(3) by (auto simp: ttl_ms_def)
    then show ?thesis
      using s now p
      by (simp add: post_tool_def answer_def tool_call_def tool_after_def Let_def sample_payload_def
          redis_live_def run_call_def sample_live_def quiet_tools_def sample_tools_def request_of_def
          execute_tool_def parse_tool_def parse_empty_def run_tool_def eread_def write_audit_def)
  qed
  ultimately show ?thesis using 0 1 by auto
qed

theorem tool_call_runs_once_witness:
  "\<exists>r w0 r1 w1. post_init (redis_live sample_live) ''x'' ''u'' (open_body ''s'') new_live_world = (r, w0)
    \<and> tool_calls sample_live ''u'' [(1, ''r'', ''x'', sample_payload ''s'' ''c'')] w0 = ([r1], w1)
    \<and> lr_status r1 \<noteq> 409
    \<and> tool_calls sample_live ''u'' [(2, ''q'', ''x'', sample_payload ''s'' ''c'')] w1
      = ([LiveReply 409 (Inl ''Duplicate tool call'')], w1\<lparr>lw_now := 2\<rparr>)"
proof -
  let ?S = "redis_live sample_live"
  let ?b = "\<lparr>ib_childName = None, ib_childAge = None, ib_sessionId = Some ''s''\<rparr>"
  let ?p = "sample_payload ''s'' ''c''"
  have keep: "lw_db (snd (execute_tool (le_tools sample_live) rq v)) = lw_db v" for rq v
    by (simp add: sample_live_def idle_tools_keep)
  obtain r w0 where 0: "post_init ?S ''x'' ''u'' (open_body ''s'') new_live_world = (r, w0)" by fastforce
  have up: "rd_up (lw_db new_live_world)" by (simp add: new_live_world_def empty_redis_def)
  have ib: "ib_sessionId ?b = Some ''s''" by simp
  have t0: "lw_now new_live_world = 0" by (simp add: new_live_world_def)
  have tr: "tracks 0 ''u'' ''s'' [] (lw_db w0)"
    using tracks_init [OF up parsed_samples(1) ib _ 0] t0 by simp
  obtain r1 w1 where one: "answer ''Tool execution failed'' (tool_call ?S ''u'' ''r'' ''x'' ?p) (w0\<lparr>lw_now := 1\<rparr>) = (r1, w1)"
    by fastforce
  have ne: "lr_status r1 \<noteq> 409"
    using one_call [OF keep _ _ _ _ _ one, of 0 "''s''" "[]"] tr by (simp add: ttl_ms_def sample_payload_def)
  have run: "tool_calls sample_live ''u'' ([] @ [(1, ''r'', ''x'', ?p)] @ []) w0 = ([r1], w1)"
    using one by simp
  have "tool_calls sample_live ''u'' [(2, ''q'', ''x'', ?p)] w1
      = ([LiveReply 409 (Inl ''Duplicate tool call'')], w1\<lparr>lw_now := 2\<rparr>)"
    by (rule tool_call_runs_once [OF keep _ up parsed_samples(1) ib _ 0 _ _ _ _ run])
      (simp_all add: ne t0 ttl_ms_def sample_payload_def)
  then show ?thesis using 0 run ne by auto
qed

definition unused_call :: tool_payload where
  "unused_call = (sample_payload ''s'' ''c'')\<lparr>pl_arguments := JObj [(''_unused'', JStr [])]\<rparr>"

definition log_live :: "tool_audit list live_ports" where
  \<comment> \<open>the world is the audit log\<close>
  "log_live =
     \<lparr>lv_env = (\<lambda>_. None), lv_get = (\<lambda>i w. (Inr None, w)), lv_set = (\<lambda>i v w. (Inr (), w)),
      lv_patch = (\<lambda>i v w. (Inr (), w)), lv_issue = (\<lambda>u w. (Inr [], w)), lv_validate = (\<lambda>t w. (Inr None, w)),
      lv_newId = (\<lambda>w. ([], w)), lv_now = (\<lambda>w. (0, w)), lv_prompt = (\<lambda>n a. []), lv_tools = log_tools\<rparr>"

lemma declared_calls_are_refused_witness:
  "\<exists>msg a. run_call log_live ''u'' ''r'' ''x'' Map.empty unused_call [] = (Inr (LiveReply 200 (Inr (refuse msg))), [a])
    \<and> ta_allowed a = False"
proof -
  let ?d = "live_tools ! 1"
  let ?put = "\<lambda>a (w :: tool_audit list). (Inr () :: js_error + unit, a # w)"
  have d: "?d \<in> set live_tools" "td_name ?d \<noteq> ''save_memory''" "declared_call ?d (pl_arguments unused_call)"
    "pl_toolName unused_call = td_name ?d"
    by (simp_all add: live_tools_def declared_call_def unused_call_def sample_payload_def)
  have l: "tr_audit (lv_tools log_live) = Some ?put" "\<And>a. total_eff (?put a)"
    "tr_now (lv_tools log_live) [] = (0, [])"
    by (simp_all add: log_live_def log_tools_def sample_tools_def total_eff_def)
  show ?thesis
    using declared_calls_are_refused [OF d l(1,2), of "''u''" "''r''" "''x''" Map.empty "[]"] unfolding l(3)
    by (auto simp: audit_of_def)
qed

end
