(* ===== verification/LiveWorker.thy ===== *)
theory LiveWorker
  imports LiveRoutesTheorems
begin

text \<open>
  The worker that carries a live session (\<open>ws-worker/src/index.ts\<close>): who may open a socket
  (\<open>handleLiveWebSocket\<close> up to the ticket, over the API's route \<open>/live/tickets/consume\<close>), and the
  relay between the client's socket and that of Gemini, one function per event handler.  A frame is
  a text or the bytes of an \<open>ArrayBuffer\<close>.  \<open>JSON.parse\<close>, \<open>JSON.stringify\<close>, \<open>TextDecoder\<close> and the
  codes a socket's \<open>close\<close> accepts are fields of \<open>worker_env\<close>; \<open>toUpperCase\<close> is exact on the code
  units below 256 whose capital is one such unit too.  What is sent and closed is recorded in the order of
  the calls.  Logging, and the counters it prints, are left out.
\<close>

subsection \<open>Admission\<close>

record worker_config =
  wc_api_base :: string                   \<comment> \<open>\<open>DW_API_BASE_URL\<close>\<close>
  wc_token :: string                      \<comment> \<open>\<open>WS_WORKER_INTERNAL_TOKEN\<close>\<close>
  wc_origins :: "string option"           \<comment> \<open>\<open>ALLOWED_ORIGINS\<close>\<close>

record upgrade_request =
  ur_pathname :: string
  ur_upgrade :: "string option"
  ur_origin :: "string option"
  ur_protocols :: "string option"         \<comment> \<open>\<open>Sec-WebSocket-Protocol\<close>\<close>

datatype upgrade = Rejected nat string | Admitted string   \<comment> \<open>the user\<close>

definition parseAllowedOrigins :: "string option \<Rightarrow> string list" where
  "parseAllowedOrigins raw =
     filter (\<lambda>s. s \<noteq> []) (map js_trim (split_char (CHR '','') (or_string raw [])))"

definition parseTicketFromProtocols :: "string option \<Rightarrow> string option" where
  "parseTicketFromProtocols header =
     (case or_undefined header of
        None \<Rightarrow> None
      | Some h \<Rightarrow>
          (case find (\<lambda>p. starts_with p ''ticket.'') (map js_trim (split_char (CHR '','') h)) of
             None \<Rightarrow> None
           | Some p \<Rightarrow> (let t = drop (length ''ticket.'') p in if t = [] then None else Some t)))"

definition consume_url :: "string \<Rightarrow> string" where
  "consume_url raw =
     (let base = rev (dropWhile (\<lambda>c. c = CHR ''/'') (rev raw))
      in base @ (if starts_with (rev base) (rev ''/api/v1'') then ''/live/tickets/consume''
                 else ''/api/v1/live/tickets/consume''))"

type_synonym 'w fetcher = "string \<Rightarrow> string \<Rightarrow> json \<Rightarrow> ('w, nat \<times> json option) eff"
  \<comment> \<open>a \<open>POST\<close> to the address with the header \<open>x-worker-token\<close> and the body: status and JSON of the answer\<close>

definition consumeWsTicket :: "worker_config \<Rightarrow> 'w fetcher \<Rightarrow> string \<Rightarrow> ('w, string option) eff" where
  "consumeWsTicket C fetch ticket =
     ebind (fetch (consume_url (wc_api_base C)) (wc_token C) (JObj [(''ticket'', JStr ticket)])) (\<lambda>(status, body).
       if \<not> (200 \<le> status \<and> status < 300) then ereturn None
       else (case body of
               None \<Rightarrow> ethrow (Err ''SyntaxError'' [])
             | Some (JObj kvs) \<Rightarrow>
                 ereturn (case map_of kvs ''userId'' of Some j \<Rightarrow> some_string j | None \<Rightarrow> None)
             | Some _ \<Rightarrow> ereturn None))"

definition handleLiveWebSocket :: "worker_config \<Rightarrow> 'w fetcher \<Rightarrow> upgrade_request \<Rightarrow> ('w, upgrade) eff" where
  "handleLiveWebSocket C fetch rq =
     (case or_undefined (ur_upgrade rq) of
        None \<Rightarrow> ereturn (Rejected 426 ''Expected Upgrade: websocket'')
      | Some h \<Rightarrow>
          if js_lower h \<noteq> ''websocket'' then ereturn (Rejected 426 ''Expected Upgrade: websocket'')
          else if (let os = parseAllowedOrigins (wc_origins C)
                   in os \<noteq> [] \<and> (case or_undefined (ur_origin rq) of None \<Rightarrow> True | Some g \<Rightarrow> g \<notin> set os))
          then ereturn (Rejected 403 ''Forbidden'')
          else (case parseTicketFromProtocols (ur_protocols rq) of
                  None \<Rightarrow> ereturn (Rejected 401 ''Unauthorized'')
                | Some t \<Rightarrow>
                    ebind (consumeWsTicket C fetch t) (\<lambda>u.
                      ereturn (case u of None \<Rightarrow> Rejected 403 ''Forbidden'' | Some x \<Rightarrow> Admitted x))))"

definition worker_fetch :: "worker_config \<Rightarrow> 'w fetcher \<Rightarrow> upgrade_request \<Rightarrow> ('w, upgrade) eff" where
  "worker_fetch C fetch rq =
     (if ur_pathname rq = ''/api/v1/live/ws'' then handleLiveWebSocket C fetch rq
      else ereturn (Rejected 404 ''Not Found''))"

definition api_fetch :: "string \<Rightarrow> 'w live_ports \<Rightarrow> 'w fetcher" where
  \<comment> \<open>the API behind an address: its route that consumes tickets; other addresses are not found\<close>
  "api_fetch base P url token body w =
     (if url = base @ ''/api/v1/live/tickets/consume''
      then (case post_consume P (Some token) (Some body) w of
              (r, w') \<Rightarrow>
                (Inr (lr_status r, Some (case lr_body r of
                   Inl msg \<Rightarrow> JObj [(''error'', JStr msg)] | Inr u \<Rightarrow> JObj [(''userId'', JStr u)])), w'))
      else (Inr (404, Some (JObj [])), w))"

subsection \<open>The relay\<close>

datatype frame = Text string | Binary string

datatype side = Client | Gemini

record relay =
  wr_geminiOpen :: bool
  wr_isClosing :: bool
  wr_queue :: "frame list"                    \<comment> \<open>\<open>audioBufferQueue\<close>\<close>
  wr_textWindowStart :: millis
  wr_textCount :: nat
  wr_toGemini :: "frame list"                 \<comment> \<open>sent\<close>
  wr_toClient :: "frame list"
  wr_closed :: "(side \<times> nat \<times> string) list"  \<comment> \<open>the calls of \<open>close\<close> that were accepted\<close>

record worker_env =
  we_parse :: "string \<Rightarrow> json option"
  we_stringify :: "json \<Rightarrow> string"
  we_decode :: "string \<Rightarrow> string"
  we_closable :: "nat \<Rightarrow> bool"

definition MAX_TEXT_BYTES :: nat where "MAX_TEXT_BYTES = 64 * 1024"
definition MAX_AUDIO_BYTES :: nat where "MAX_AUDIO_BYTES = 64 * 1024"
definition TEXT_WINDOW_MS :: int where "TEXT_WINDOW_MS = 60 * 1000"
definition MAX_TEXT_MESSAGES_PER_WINDOW :: nat where "MAX_TEXT_MESSAGES_PER_WINDOW = 120"

definition new_relay :: "millis \<Rightarrow> relay" where
  "new_relay now =
     \<lparr>wr_geminiOpen = False, wr_isClosing = False, wr_queue = [], wr_textWindowStart = now,
      wr_textCount = 0, wr_toGemini = [], wr_toClient = [], wr_closed = []\<rparr>"

definition close_socket :: "worker_env \<Rightarrow> side \<Rightarrow> nat \<Rightarrow> string \<Rightarrow> relay \<Rightarrow> relay" where
  \<comment> \<open>\<open>try { socket.close(code, reason) } catch { }\<close>\<close>
  "close_socket E s n reason r =
     (if we_closable E n then r\<lparr>wr_closed := wr_closed r @ [(s, n, reason)]\<rparr> else r)"

definition safeClose :: "worker_env \<Rightarrow> side \<Rightarrow> nat option \<Rightarrow> string option \<Rightarrow> relay \<Rightarrow> relay" where
  "safeClose E source given reason r =
     (if wr_isClosing r then r
      else (let n = (case given of None \<Rightarrow> 1000 | Some c \<Rightarrow> if c = 0 then 1000 else c);
                r1 = r\<lparr>wr_isClosing := True\<rparr>
            in case source of
                 Client \<Rightarrow>
                   close_socket E Client n (or_string reason ''Client closed'')
                     (close_socket E Gemini n (or_string reason ''Client closed'') r1)
               | Gemini \<Rightarrow>
                   close_socket E Gemini n (or_string reason ''Gemini closed'')
                     (close_socket E Client n (or_string reason ''Gemini closed'') r1)))"

definition b64 :: "nat \<Rightarrow> char" where
  "b64 n = (''ABCDEFGHIJKLMNOPQRSTUVWXYZabcdefghijklmnopqrstuvwxyz0123456789+/'' ! (n mod 64))"

fun btoa :: "string \<Rightarrow> string" where
  "btoa [] = []"
| "btoa [a] = [b64 (code a div 4), b64 (code a * 16), CHR ''='', CHR ''='']"
| "btoa [a, b] =
     [b64 (code a div 4), b64 (code a * 16 + code b div 16), b64 (code b * 4), CHR ''='']"
| "btoa (a # b # c # ds) =
     b64 (code a div 4) # b64 (code a * 16 + code b div 16) # b64 (code b * 4 + code c div 64)
       # b64 (code c) # btoa ds"

definition quoted :: "string \<Rightarrow> string" where
  "quoted s = CHR 0x22 # s @ [CHR 0x22]"

definition audio_message :: "string \<Rightarrow> string" where
  \<comment> \<open>\<open>JSON.stringify\<close> of the audio message; neither its keys nor Base64 needs an escape\<close>
  "audio_message bytes =
     ''{'' @ quoted ''realtime_input'' @ '':{'' @ quoted ''media_chunks'' @ '':[{'' @ quoted ''mime_type'' @ '':''
     @ quoted ''audio/pcm;rate=16000'' @ '','' @ quoted ''data'' @ '':'' @ quoted (btoa bytes) @ ''}]}}''"

definition json_text :: "worker_env \<Rightarrow> string \<Rightarrow> string option" where
  \<comment> \<open>bytes that are a JSON object or array\<close>
  "json_text E bytes =
     (let d = we_decode E bytes; t = js_trim d
      in if length bytes \<le> MAX_TEXT_BYTES \<and> (starts_with t ''{'' \<or> starts_with t ''['') \<and> we_parse E d \<noteq> None
         then Some d else None)"

definition field :: "json \<Rightarrow> string \<Rightarrow> json option option" where
  \<comment> \<open>\<open>j[k]\<close>; the outer \<open>None\<close> is the error for \<open>null\<close>, the inner one is \<open>undefined\<close>\<close>
  "field j k = (case j of JNull \<Rightarrow> None | JObj kvs \<Rightarrow> Some (map_of kvs k) | _ \<Rightarrow> Some None)"

definition sanitise :: "worker_env \<Rightarrow> string \<Rightarrow> string" where
  "sanitise E d =
     (if str_includes d (quoted ''sessionId'') \<or> str_includes d (quoted ''traceId'')
      then (case we_parse E d of
              None \<Rightarrow> d
            | Some j \<Rightarrow>
                (case field j ''setup'' of
                   None \<Rightarrow> d
                 | Some s \<Rightarrow> we_stringify E (JObj (case s of None \<Rightarrow> [] | Some v \<Rightarrow> [(''setup'', v)]))))
      else d)"

definition js_upper_char :: "char \<Rightarrow> char" where
  "js_upper_char c =
     (let n = code c
      in if (97 \<le> n \<and> n \<le> 122) \<or> (224 \<le> n \<and> n \<le> 254 \<and> n \<noteq> 247) then char_of (n - 32) else c)"

definition set_key :: "string \<Rightarrow> json \<Rightarrow> (string \<times> json) list \<Rightarrow> (string \<times> json) list" where
  "set_key k v kvs = map (\<lambda>(k', v'). (k', if k' = k then v else v')) kvs"

fun all_upper :: "json list \<Rightarrow> json list option" where
  \<comment> \<open>\<open>mods.map((m) => m.toUpperCase())\<close>\<close>
  "all_upper [] = Some []"
| "all_upper (JStr s # js) = map_option (\<lambda>rest. JStr (map js_upper_char s) # rest) (all_upper js)"
| "all_upper (j # js) = None"

definition normalise :: "worker_env \<Rightarrow> string \<Rightarrow> string" where
  "normalise E d =
     (case we_parse E d of
        Some (JObj kvs) \<Rightarrow>
          (case map_of kvs ''setup'' of
             Some (JObj setup) \<Rightarrow>
               (case map_of setup ''generation_config'' of
                  Some (JObj gen) \<Rightarrow>
                    (case map_of gen ''response_modalities'' of
                       Some (JArr mods) \<Rightarrow>
                         (if list_ex is_string mods
                          then (case all_upper mods of
                                  None \<Rightarrow> d
                                | Some ms \<Rightarrow> we_stringify E (JObj [(''setup'',
                                    JObj (set_key ''generation_config''
                                      (JObj (set_key ''response_modalities'' (JArr ms) gen)) setup))]))
                          else d)
                     | _ \<Rightarrow> d)
                | _ \<Rightarrow> d)
           | _ \<Rightarrow> d)
      | _ \<Rightarrow> d)"

definition prepare :: "worker_env \<Rightarrow> frame \<Rightarrow> bool \<times> string" where
  \<comment> \<open>what is to be forwarded of a client's frame, and whether it counts as audio\<close>
  "prepare E f =
     (let (audio, d) =
            (case f of
               Text s \<Rightarrow> (False, s)
             | Binary b \<Rightarrow> (case json_text E b of Some s \<Rightarrow> (False, s) | None \<Rightarrow> (True, audio_message b)))
      in (audio \<or> str_includes d (quoted ''realtime_input''),
          if str_includes d (quoted ''setup'') then normalise E (sanitise E d) else d))"

definition forward :: "worker_env \<Rightarrow> string \<Rightarrow> bool \<Rightarrow> relay \<Rightarrow> relay" where
  \<comment> \<open>\<open>sent\<close> is false where \<open>send\<close> throws\<close>
  "forward E d sent r =
     (if wr_geminiOpen r
      then (if sent then r\<lparr>wr_toGemini := wr_toGemini r @ [Text d]\<rparr>
            else safeClose E Gemini (Some 1011) (Some ''Send failed'') r)
      else (let q = wr_queue r @ [Text d] in r\<lparr>wr_queue := (if length q > 50 then tl q else q)\<rparr>))"

definition client_message :: "worker_env \<Rightarrow> millis \<Rightarrow> frame \<Rightarrow> bool \<Rightarrow> relay \<Rightarrow> relay" where
  \<comment> \<open>every frame has become a text before its size is tested\<close>
  "client_message E now f sent r =
     (if wr_isClosing r then r
      else (let (audio, d) = prepare E f
            in if length d > MAX_TEXT_BYTES then close_socket E Client 1009 ''Message too big'' r
               else if audio then forward E d sent r
               else (let r1 = (if now - wr_textWindowStart r > TEXT_WINDOW_MS
                               then r\<lparr>wr_textWindowStart := now, wr_textCount := 0\<rparr> else r);
                         r2 = r1\<lparr>wr_textCount := wr_textCount r1 + 1\<rparr>
                     in if wr_textCount r2 > MAX_TEXT_MESSAGES_PER_WINDOW
                        then close_socket E Client 1008 ''Rate limit'' r2
                        else forward E d sent r2)))"

definition gemini_open :: "relay \<Rightarrow> relay" where
  "gemini_open r = r\<lparr>wr_geminiOpen := True, wr_toGemini := wr_toGemini r @ wr_queue r, wr_queue := []\<rparr>"

definition gemini_message :: "worker_env \<Rightarrow> frame \<Rightarrow> bool \<Rightarrow> relay \<Rightarrow> relay" where
  "gemini_message E f sent r =
     (if wr_isClosing r then r
      else (let out = (case f of Text s \<Rightarrow> Text s
                       | Binary b \<Rightarrow> (case json_text E b of Some s \<Rightarrow> Text s | None \<Rightarrow> Binary b))
            in if sent then r\<lparr>wr_toClient := wr_toClient r @ [out]\<rparr>
               else safeClose E Gemini (Some 1011) (Some ''Relay failed'') r))"

datatype relay_event =
    GeminiOpen
  | GeminiMessage frame bool
  | GeminiClose nat string
  | GeminiError
  | ClientMessage millis frame bool
  | ClientClose nat string
  | ClientError

fun relay_step :: "worker_env \<Rightarrow> relay_event \<Rightarrow> relay \<Rightarrow> relay" where
  "relay_step E GeminiOpen r = gemini_open r"
| "relay_step E (GeminiMessage f sent) r = gemini_message E f sent r"
| "relay_step E (GeminiClose c why) r = safeClose E Gemini (Some c) (Some why) r"
| "relay_step E GeminiError r = safeClose E Gemini (Some 1011) (Some ''Gemini error'') r"
| "relay_step E (ClientMessage now f sent) r = client_message E now f sent r"
| "relay_step E (ClientClose c why) r = safeClose E Client (Some c) (Some why) r"
| "relay_step E ClientError r = safeClose E Client (Some 1011) (Some ''Client error'') r"

definition relay_run :: "worker_env \<Rightarrow> relay_event list \<Rightarrow> relay \<Rightarrow> relay" where
  "relay_run E es r = fold (relay_step E) es r"

end
