(* ===== verification/LiveWorkerTheorems.thy ===== *)
theory LiveWorkerTheorems
  imports LiveWorker "HOL-Library.Sublist"
begin

text \<open>
  What the socket worker promises: who gets through its upgrade, what reaches Gemini and in which
  order, how many texts a client may send, and what happens to the socket of Gemini when the client
  goes away.
\<close>

subsection \<open>Admission\<close>

lemma split_no_sep [simp]: "c \<notin> set s \<Longrightarrow> split_char c s = [s]"
  by (rule split_char_no_sep)

lemma trim_tidy:
  assumes "s \<noteq> []" "\<forall>c\<in>set s. \<not> js_space c"
  shows "js_trim s = s" "js_trim (CHR '' '' # s) = s"
proof -
  have d: "dropWhile js_space s = s" "dropWhile js_space (rev s) = rev s"
    using assms by (simp_all add: dropWhile_eq_self_iff hd_rev)
  show "js_trim s = s" using d by (simp add: js_trim_def)
  have "js_space (CHR '' '')" by (simp add: js_space_def)
  then show "js_trim (CHR '' '' # s) = s" using d by (simp add: js_trim_def)
qed

definition ticket_header :: "string \<Rightarrow> string option" where
  "ticket_header t = Some (''dw.live.v1, ticket.'' @ t)"

definition tidy_ticket :: "string \<Rightarrow> bool" where
  "tidy_ticket t \<longleftrightarrow> t \<noteq> [] \<and> CHR '','' \<notin> set t \<and> (\<forall>c\<in>set t. \<not> js_space c)"

lemma ticket_of_header:
  assumes "tidy_ticket t"
  shows "parseTicketFromProtocols (ticket_header t) = Some t"
proof -
  have s: "split_char (CHR '','') (''dw.live.v1, ticket.'' @ t) = [''dw.live.v1'', '' ticket.'' @ t]"
    using assms by (simp add: tidy_ticket_def)
  have "js_trim ('' ticket.'' @ t) = ''ticket.'' @ t"
    using trim_tidy(2) [of "''ticket.'' @ t"] assms by (auto simp: tidy_ticket_def js_space_def)
  moreover have "js_trim ''dw.live.v1'' = ''dw.live.v1''"
    by (rule trim_tidy(1)) (simp_all add: js_space_def)
  ultimately show ?thesis
    using assms by (simp add: parseTicketFromProtocols_def ticket_header_def s tidy_ticket_def)
qed

definition open_to :: "worker_config \<Rightarrow> upgrade_request \<Rightarrow> bool" where
  \<comment> \<open>an upgrade from an origin that is allowed, if any is named\<close>
  "open_to C rq \<longleftrightarrow> ur_pathname rq = ''/api/v1/live/ws''
     \<and> (\<exists>h. ur_upgrade rq = Some h \<and> js_lower h = ''websocket'')
     \<and> (parseAllowedOrigins (wc_origins C) = [] \<or>
        (\<exists>g. ur_origin rq = Some g \<and> g \<noteq> [] \<and> g \<in> set (parseAllowedOrigins (wc_origins C))))"

definition trusted :: "worker_config \<Rightarrow> string \<Rightarrow> live_setup \<Rightarrow> bool" where
  \<comment> \<open>the worker knows the API and its token\<close>
  "trusted C base S \<longleftrightarrow> consume_url (wc_api_base C) = base @ ''/api/v1/live/tickets/consume''
     \<and> le_env S ''WS_WORKER_INTERNAL_TOKEN'' = Some (wc_token C) \<and> wc_token C \<noteq> [] \<and> le_admin S"

lemma validate_live:
  "le_admin S \<Longrightarrow> lv_validate (redis_live S) t w =
    (Inr (or_undefined (fst (consume_ws_ticket (lw_now w) t (lw_tickets w)))),
     w\<lparr>lw_tickets := snd (consume_ws_ticket (lw_now w) t (lw_tickets w))\<rparr>)"
  by (simp add: redis_live_def sb_validate_def split: prod.split)

lemma upgrade_run:
  assumes "open_to C rq" "trusted C base S" "parseTicketFromProtocols (ur_protocols rq) = Some t" "t \<noteq> []"
  shows "worker_fetch C (api_fetch base (redis_live S)) rq w =
    (Inr (case or_undefined (fst (consume_ws_ticket (lw_now w) t (lw_tickets w))) of
            None \<Rightarrow> Rejected 403 ''Forbidden'' | Some u \<Rightarrow> Admitted u),
     w\<lparr>lw_tickets := snd (consume_ws_ticket (lw_now w) t (lw_tickets w))\<rparr>)"
proof -
  have up: "or_undefined (ur_upgrade rq) = Some h \<Longrightarrow> js_lower h = ''websocket''" for h
    using assms(1) by (auto simp: open_to_def or_undefined_def truthy_string_def js_lower_def split: if_splits)
  obtain h where h: "or_undefined (ur_upgrade rq) = Some h"
    using assms(1) by (auto simp: open_to_def or_undefined_def truthy_string_def js_lower_def)
  have g: "\<not> (let os = parseAllowedOrigins (wc_origins C)
      in os \<noteq> [] \<and> (case or_undefined (ur_origin rq) of None \<Rightarrow> True | Some g \<Rightarrow> g \<notin> set os))"
    using assms(1) by (auto simp: open_to_def Let_def)
  have p: "post_consume (redis_live S) (Some (wc_token C)) (Some (JObj [(''ticket'', JStr t)])) w =
      (case lv_validate (redis_live S) t w of
         (Inl _, w') \<Rightarrow> (LiveReply 500 (Inl ''Internal Server Error''), w')
       | (Inr u, w') \<Rightarrow> (if truthy_string u then LiveReply 200 (Inr (the u)) else LiveReply 403 (Inl ''Forbidden''), w'))"
    using assms(2,4) by (simp add: post_consume_def trusted_def parse_ticket_def members_def some_string_def)
  have path: "ur_pathname rq = ''/api/v1/live/ws''" using assms(1) by (simp add: open_to_def)
  show ?thesis
    using assms(2,3) g up [OF h] h path
    by (auto simp: worker_fetch_def handleLiveWebSocket_def consumeWsTicket_def trusted_def api_fetch_def p
        validate_live ebind_def ereturn_def or_undefined_def some_string_def truthy_string_def split: option.splits)
qed

lemma granted_ticket:
  assumes "grant (redis_live S) sid uid config trace w = (Inr g, w')"
  shows "map_of (lw_tickets w') (lg_ticket g)
    = Some \<lparr>wt_user_id = uid, wt_expires_at = lw_now w + 90000, wt_consumed_at = None\<rparr>" "lw_now w' = lw_now w"
proof -
  obtain x v where v: "lv_set (redis_live S) sid (live_state sid uid trace (lw_now w)) w = (x, v)" by fastforce
  then have now: "lw_now v = lw_now w" by (auto simp: redis_live_def split: sum.splits)
  have i: "lv_issue (redis_live S) uid v = (Inr (lg_ticket g), w')"
    using assms v by (auto simp: grant_def eread_def ebind_def ethen_def ereturn_def split: prod.splits sum.splits)
  then show "map_of (lw_tickets w') (lg_ticket g)
    = Some \<lparr>wt_user_id = uid, wt_expires_at = lw_now w + 90000, wt_consumed_at = None\<rparr>" "lw_now w' = lw_now w"
    using now by (auto simp: redis_live_def sb_issue_def insert_ticket_def ticket_ttl_ms_def default_ttl_def
        map_add_def split: prod.splits sum.splits if_splits option.splits)
qed

text \<open>C31: The ticket that \<open>/init\<close> hands out opens one socket: within its ninety seconds the worker
  admits its holder as the user who opened the session, and presented again it is refused.\<close>

theorem granted_ticket_opens_one_socket:
  assumes "post_init (redis_live S) trace uid body w0 = (LiveReply 200 (Inr g), w1)" "uid \<noteq> []"
    and "tidy_ticket (lg_ticket g)" "trusted C base S" "open_to C rq" "ur_protocols rq = ticket_header (lg_ticket g)"
    and "lw_now w0 \<le> t" "t < lw_now w0 + 90000"
  shows "\<exists>w2. worker_fetch C (api_fetch base (redis_live S)) rq (w1\<lparr>lw_now := t\<rparr>) = (Inr (Admitted uid), w2)
    \<and> (\<forall>t'. worker_fetch C (api_fetch base (redis_live S)) rq (w2\<lparr>lw_now := t'\<rparr>)
         = (Inr (Rejected 403 ''Forbidden''), w2\<lparr>lw_now := t'\<rparr>))"
proof -
  obtain b where b: "parse_init body = Some b" using assms(1) by (auto simp: post_init_def split: option.splits)
  obtain sid config v where v: "grant (redis_live S) sid uid config trace v = (Inr g, w1)" "lw_now v = lw_now w0"
    using assms(1) b by (auto simp: post_init_def answer_def init_live_def eread_def ebind_def ereturn_def
        split: sum.splits prod.splits if_splits)
  let ?k = "\<lparr>wt_user_id = uid, wt_expires_at = lw_now w0 + 90000, wt_consumed_at = None\<rparr>"
  have k: "map_of (lw_tickets w1) (lg_ticket g) = Some ?k" using granted_ticket(1) [OF v(1)] v(2) by simp
  let ?T = "AList.update (lg_ticket g) (?k\<lparr>wt_consumed_at := Some t\<rparr>) (lw_tickets w1)"
  let ?w2 = "w1\<lparr>lw_now := t, lw_tickets := ?T\<rparr>"
  have h: "parseTicketFromProtocols (ur_protocols rq) = Some (lg_ticket g)" "lg_ticket g \<noteq> []"
    using ticket_of_header [OF assms(3)] assms(3,6) by (simp_all add: tidy_ticket_def)
  have "worker_fetch C (api_fetch base (redis_live S)) rq (w1\<lparr>lw_now := t\<rparr>) = (Inr (Admitted uid), ?w2)"
    using assms(2,8) k by (simp add: upgrade_run [OF assms(5,4) h] consume_ws_ticket_def or_undefined_def truthy_string_def)
  moreover have "worker_fetch C (api_fetch base (redis_live S)) rq (?w2\<lparr>lw_now := t'\<rparr>)
      = (Inr (Rejected 403 ''Forbidden''), ?w2\<lparr>lw_now := t'\<rparr>)" for t'
    by (simp add: upgrade_run [OF assms(5,4) h] consume_ws_ticket_def update_conv or_undefined_def truthy_string_def)
  ultimately show ?thesis by blast
qed

subsection \<open>What is relayed\<close>

lemma close_socket_sel [simp]:
  "wr_queue (close_socket E s n why r) = wr_queue r" "wr_toGemini (close_socket E s n why r) = wr_toGemini r"
  "wr_geminiOpen (close_socket E s n why r) = wr_geminiOpen r" "wr_isClosing (close_socket E s n why r) = wr_isClosing r"
  "wr_textCount (close_socket E s n why r) = wr_textCount r"
  "wr_textWindowStart (close_socket E s n why r) = wr_textWindowStart r"
  by (simp_all add: close_socket_def)

lemma safeClose_sel [simp]:
  "wr_queue (safeClose E s n why r) = wr_queue r" "wr_toGemini (safeClose E s n why r) = wr_toGemini r"
  "wr_geminiOpen (safeClose E s n why r) = wr_geminiOpen r" "wr_isClosing (safeClose E s n why r)"
  "wr_textCount (safeClose E s n why r) = wr_textCount r"
  "wr_textWindowStart (safeClose E s n why r) = wr_textWindowStart r"
  by (simp_all add: safeClose_def Let_def split: side.split)

definition offered :: "worker_env \<Rightarrow> relay_event \<Rightarrow> frame list" where
  "offered E e = (case e of ClientMessage now f sent \<Rightarrow> [Text (snd (prepare E f))] | _ \<Rightarrow> [])"

definition small :: "frame \<Rightarrow> bool" where
  "small f \<longleftrightarrow> (case f of Text s \<Rightarrow> length s \<le> MAX_TEXT_BYTES | Binary b \<Rightarrow> False)"

definition relay_ok :: "relay \<Rightarrow> bool" where
  "relay_ok r \<longleftrightarrow> length (wr_queue r) \<le> 50 \<and> (wr_geminiOpen r \<longrightarrow> wr_queue r = [])
     \<and> list_all small (wr_toGemini r @ wr_queue r)"

definition outbound :: "relay \<Rightarrow> frame list" where
  \<comment> \<open>sent to Gemini, or waiting for its socket\<close>
  "outbound r = wr_toGemini r @ wr_queue r"

lemma forward_ok:
  assumes "relay_ok r" "length d \<le> MAX_TEXT_BYTES"
  shows "relay_ok (forward E d sent r)" "subseq (outbound (forward E d sent r)) (outbound r @ [Text d])"
proof -
  have "subseq (tl q) q" for q :: "frame list" by (cases q) auto
  then have "subseq (wr_toGemini r @ tl (wr_queue r @ [Text d])) (wr_toGemini r @ wr_queue r @ [Text d])"
    by (simp only: subseq_append')
  then show "subseq (outbound (forward E d sent r)) (outbound r @ [Text d])"
    using assms(1) by (auto simp: outbound_def relay_ok_def forward_def Let_def)
  have "list_all small (tl (wr_queue r @ [Text d]))" if "list_all small (wr_queue r)"
    using that assms(2) by (cases "wr_queue r") (auto simp: small_def)
  then show "relay_ok (forward E d sent r)"
    using assms by (auto simp: relay_ok_def forward_def Let_def small_def)
qed

lemma relay_ok_counts:
  "relay_ok (r\<lparr>wr_textWindowStart := t\<rparr>) = relay_ok r" "outbound (r\<lparr>wr_textWindowStart := t\<rparr>) = outbound r"
  "relay_ok (r\<lparr>wr_textCount := n\<rparr>) = relay_ok r" "outbound (r\<lparr>wr_textCount := n\<rparr>) = outbound r"
  by (simp_all add: relay_ok_def outbound_def)

lemma relay_ok_close:
  "relay_ok (close_socket E s n why r) = relay_ok r" "outbound (close_socket E s n why r) = outbound r"
  "relay_ok (safeClose E s m w r) = relay_ok r" "outbound (safeClose E s m w r) = outbound r"
  by (simp_all add: relay_ok_def outbound_def)

lemma client_message_ok:
  assumes "relay_ok r"
  shows "relay_ok (client_message E now f sent r)"
    "subseq (outbound (client_message E now f sent r)) (outbound r @ offered E (ClientMessage now f sent))"
proof -
  obtain audio d where p: "prepare E f = (audio, d)" by fastforce
  have f: "length d \<le> MAX_TEXT_BYTES \<Longrightarrow> relay_ok v \<Longrightarrow> outbound v = outbound r
      \<Longrightarrow> relay_ok (forward E d sent v) \<and> subseq (outbound (forward E d sent v)) (outbound r @ [Text d])" for v
    using forward_ok [of v d E sent] by simp
  have "subseq (outbound r @ []) (outbound r @ [Text d])" by (simp only: subseq_append' list_emb_Nil)
  then have s: "subseq (outbound r) (outbound r @ [Text d])" by simp
  show "relay_ok (client_message E now f sent r)"
    "subseq (outbound (client_message E now f sent r)) (outbound r @ offered E (ClientMessage now f sent))"
    using assms s f by (auto simp: client_message_def p Let_def offered_def relay_ok_counts relay_ok_close)
qed

lemma relay_step_ok:
  assumes "relay_ok r"
  shows "relay_ok (relay_step E e r) \<and> subseq (outbound (relay_step E e r)) (outbound r @ offered E e)"
proof (cases e)
  case GeminiOpen
  then show ?thesis
    using assms by (simp add: relay_ok_def outbound_def gemini_open_def offered_def)
next
  case (GeminiMessage f sent)
  have "relay_ok (gemini_message E f sent r) \<and> outbound (gemini_message E f sent r) = outbound r"
    using assms by (simp add: gemini_message_def Let_def relay_ok_close) (simp add: relay_ok_def outbound_def)
  then show ?thesis using GeminiMessage by (simp add: offered_def)
next
  case (ClientMessage now f sent)
  then show ?thesis using client_message_ok [OF assms] by simp
qed (use assms in \<open>simp_all add: relay_ok_close offered_def\<close>)

lemma relay_run_ok:
  assumes "relay_ok r"
  shows "relay_ok (relay_run E es r) \<and> subseq (outbound (relay_run E es r)) (outbound r @ concat (map (offered E) es))"
  using assms
proof (induction es arbitrary: r)
  case Nil
  then show ?case by (simp add: relay_run_def)
next
  case (Cons e es)
  let ?v = "relay_step E e r"
  have v: "relay_ok ?v" "subseq (outbound ?v) (outbound r @ offered E e)"
    using relay_step_ok [OF Cons.prems] by simp_all
  from v(2) have "subseq (outbound ?v @ concat (map (offered E) es)) (outbound r @ concat (map (offered E) (e # es)))"
    using list_emb_append_mono [OF v(2) subseq_order.order_refl] by simp
  moreover have "relay_ok (relay_run E es ?v)
      \<and> subseq (outbound (relay_run E es ?v)) (outbound ?v @ concat (map (offered E) es))"
    by (rule Cons.IH [OF v(1)])
  ultimately show ?case unfolding relay_run_def fold_Cons comp_def by (metis subseq_order.trans)
qed

text \<open>C32: Whatever the two sockets do, at most fifty messages wait for Gemini, none of them once its
  socket is open; every message that waits or was sent has at most 64 K characters; and what was
  sent and what waits are messages of the client, in the order they came, no message twice.\<close>

theorem relay_keeps_order:
  "relay_ok (relay_run E es (new_relay now))
   \<and> subseq (wr_toGemini (relay_run E es (new_relay now)) @ wr_queue (relay_run E es (new_relay now)))
     (concat (map (offered E) es))"
  using relay_run_ok [of "new_relay now" E es] by (simp_all add: relay_ok_def new_relay_def outbound_def)

subsection \<open>How many texts a client may send\<close>

definition counts :: "worker_env \<Rightarrow> frame \<Rightarrow> relay \<Rightarrow> bool" where
  \<comment> \<open>the message is a text under the limit of the window\<close>
  "counts E f r \<longleftrightarrow> \<not> wr_isClosing r \<and> \<not> fst (prepare E f) \<and> length (snd (prepare E f)) \<le> MAX_TEXT_BYTES"

definition window_of :: "millis \<Rightarrow> relay \<Rightarrow> millis \<times> nat" where
  \<comment> \<open>the window and its count after a text that counts\<close>
  "window_of now r =
     (if now - wr_textWindowStart r > TEXT_WINDOW_MS then (now, 1)
      else (wr_textWindowStart r, wr_textCount r + 1))"

definition passes :: "worker_env \<Rightarrow> millis \<Rightarrow> frame \<Rightarrow> relay \<Rightarrow> bool" where
  "passes E now f r \<longleftrightarrow> counts E f r \<and> snd (window_of now r) \<le> MAX_TEXT_MESSAGES_PER_WINDOW"

fun passed :: "worker_env \<Rightarrow> relay_event list \<Rightarrow> relay \<Rightarrow> millis list" where
  \<comment> \<open>the times of the texts that are let through\<close>
  "passed E [] r = []"
| "passed E (e # es) r =
     (case e of ClientMessage now f sent \<Rightarrow> if passes E now f r then [now] else [] | _ \<Rightarrow> [])
       @ passed E es (relay_step E e r)"

fun in_order :: "millis \<Rightarrow> relay_event list \<Rightarrow> bool" where
  "in_order t0 [] = True"
| "in_order t0 (ClientMessage now f sent # es) = (t0 \<le> now \<and> in_order now es)"
| "in_order t0 (e # es) = in_order t0 es"

lemma forward_window [simp]:
  "wr_textCount (forward E d sent r) = wr_textCount r"
  "wr_textWindowStart (forward E d sent r) = wr_textWindowStart r"
  by (simp_all add: forward_def Let_def)

lemma message_window:
  "(wr_textWindowStart (client_message E now f sent r), wr_textCount (client_message E now f sent r))
     = (if counts E f r then window_of now r else (wr_textWindowStart r, wr_textCount r))"
  by (cases "prepare E f") (auto simp: client_message_def counts_def window_of_def Let_def)

text \<open>A text that is let through has been sent, has been put in the queue, or its sending failed; one
  that counts and is not let through makes the worker close the client's socket.\<close>

lemma passes_iff:
  assumes "counts E f r"
  shows "client_message E now f sent r =
     (let r1 = r\<lparr>wr_textWindowStart := fst (window_of now r), wr_textCount := snd (window_of now r)\<rparr>
      in if passes E now f r then forward E (snd (prepare E f)) sent r1
         else close_socket E Client 1008 ''Rate limit'' r1)"
  using assms
  by (cases "prepare E f") (auto simp: client_message_def counts_def passes_def window_of_def Let_def)

lemma other_window:
  "(\<And>now f sent. e \<noteq> ClientMessage now f sent) \<Longrightarrow>
   wr_textWindowStart (relay_step E e r) = wr_textWindowStart r \<and> wr_textCount (relay_step E e r) = wr_textCount r"
  by (cases e) (auto simp: gemini_open_def gemini_message_def Let_def)

abbreviation upto :: "millis \<Rightarrow> millis list \<Rightarrow> nat" where
  "upto b ts \<equiv> length (filter (\<lambda>t. t \<le> b) ts)"

definition room_left :: "relay \<Rightarrow> nat" where
  "room_left r = MAX_TEXT_MESSAGES_PER_WINDOW - wr_textCount r"

lemma passed_late:
  assumes "in_order t0 es" "b < t0"
  shows "upto b (passed E es r) = 0"
  using assms
proof (induction es arbitrary: r t0)
  case (Cons e es)
  then show ?case by (cases e) auto
qed simp

lemma passed_message:
  "passed E (ClientMessage now f sent # es) r =
     (if passes E now f r then now # passed E es (client_message E now f sent r)
      else passed E es (client_message E now f sent r))"
  by simp

text \<open>Within the present window.\<close>

lemma passed_in_window:
  assumes "in_order t0 es" "b \<le> wr_textWindowStart r + TEXT_WINDOW_MS"
  shows "upto b (passed E es r) \<le> room_left r"
  using assms
proof (induction es arbitrary: r t0)
  case Nil
  then show ?case by simp
next
  case (Cons e es)
  show ?case
  proof (cases "\<exists>now f sent. e = ClientMessage now f sent")
    case False
    then have w: "wr_textWindowStart (relay_step E e r) = wr_textWindowStart r"
      "wr_textCount (relay_step E e r) = wr_textCount r" using other_window by blast+
    have "in_order t0 es" using Cons.prems(1) False by (cases e) auto
    from Cons.IH [OF this] have "upto b (passed E es (relay_step E e r)) \<le> room_left (relay_step E e r)"
      using w Cons.prems(2) by simp
    then show ?thesis using False w by (cases e) (auto simp: room_left_def)
  next
    case True
    then obtain now f sent where e: "e = ClientMessage now f sent" by blast
    let ?v = "client_message E now f sent r"
    have io: "in_order now es" using Cons.prems(1) e by simp
    note w = message_window [of E now f sent r]
    show ?thesis
    proof (cases "counts E f r \<and> now - wr_textWindowStart r > TEXT_WINDOW_MS")
      case True
      then have "b < now" using Cons.prems(2) by linarith
      then have "upto b (passed E es ?v) = 0" "\<not> now \<le> b" using passed_late [OF io] by simp_all
      then show ?thesis unfolding e passed_message by auto
    next
      case False
      then have "wr_textWindowStart ?v = wr_textWindowStart r"
        using w by (auto simp: window_of_def split: if_splits)
      then have ih: "upto b (passed E es ?v) \<le> room_left ?v" using Cons.IH [OF io] Cons.prems(2) by simp
      have "room_left ?v + (if passes E now f r then 1 else 0) \<le> room_left r"
        using w False by (auto simp: room_left_def passes_def window_of_def split: if_splits)
      then show ?thesis using ih unfolding e passed_message by (auto split: if_splits)
    qed
  qed
qed

lemma message_cases:
  obtains (fresh) "wr_textWindowStart (client_message E now f sent r) = now"
      "room_left (client_message E now f sent r) = MAX_TEXT_MESSAGES_PER_WINDOW - 1"
  | (same) "wr_textWindowStart (client_message E now f sent r) = wr_textWindowStart r"
      "room_left (client_message E now f sent r) + (if passes E now f r then 1 else 0) \<le> room_left r"
proof (cases "counts E f r \<and> now - wr_textWindowStart r > TEXT_WINDOW_MS")
  case True
  then show thesis
    using message_window [of E now f sent r] by (intro fresh) (simp_all add: room_left_def window_of_def)
next
  case False
  then have "wr_textWindowStart (client_message E now f sent r) = wr_textWindowStart r"
    "room_left (client_message E now f sent r) + (if passes E now f r then 1 else 0) \<le> room_left r"
    using message_window [of E now f sent r]
    by (auto simp: room_left_def passes_def window_of_def split: if_splits)
  then show thesis by (rule same)
qed

lemma other_step:
  assumes "\<nexists>now f sent. e = ClientMessage now f sent"
  shows "passed E (e # es) r = passed E es (relay_step E e r)" "in_order t0 (e # es) = in_order t0 es"
    "room_left (relay_step E e r) = room_left r"
  using assms other_window [of e E r] by (cases e; auto simp: room_left_def)+

text \<open>Within a minute of any moment at most one new window begins.\<close>

lemma passed_next_window:
  assumes "in_order t0 es" "b \<le> t0 + TEXT_WINDOW_MS"
  shows "upto b (passed E es r) \<le> room_left r + MAX_TEXT_MESSAGES_PER_WINDOW"
  using assms
proof (induction es arbitrary: r t0)
  case Nil
  then show ?case by simp
next
  case (Cons e es)
  show ?case
  proof (cases "\<exists>now f sent. e = ClientMessage now f sent")
    case False
    then show ?thesis using Cons.IH [of t0 "relay_step E e r"] Cons.prems other_step [OF False] by metis
  next
    case True
    then obtain now f sent where e: "e = ClientMessage now f sent" by blast
    let ?v = "client_message E now f sent r"
    have io: "in_order now es" and b: "b \<le> now + TEXT_WINDOW_MS" using Cons.prems e by simp_all
    show ?thesis
    proof (cases rule: message_cases [of E now f sent r])
      case fresh
      then have "upto b (passed E es ?v) \<le> MAX_TEXT_MESSAGES_PER_WINDOW - 1"
        using passed_in_window [OF io, of b ?v] b by simp
      then show ?thesis unfolding e passed_message
        by (auto simp: MAX_TEXT_MESSAGES_PER_WINDOW_def)
    next
      case same
      then show ?thesis using Cons.IH [OF io b, of ?v] unfolding e passed_message by (auto split: if_splits)
    qed
  qed
qed

abbreviation in_minute :: "millis \<Rightarrow> millis list \<Rightarrow> nat" where
  "in_minute a ts \<equiv> length (filter (\<lambda>t. a \<le> t \<and> t \<le> a + TEXT_WINDOW_MS) ts)"

lemma in_minute_upto: "in_minute a ts \<le> upto (a + TEXT_WINDOW_MS) ts"
  by (induction ts) auto

text \<open>In any minute at most 240 texts of a client are let through, twice the limit of a window:
  the windows begin with a text, so a minute meets two of them.\<close>

lemma texts_per_minute:
  assumes "in_order t0 es"
  shows "in_minute a (passed E es r) \<le> 2 * MAX_TEXT_MESSAGES_PER_WINDOW"
  using assms
proof (induction es arbitrary: r t0)
  case Nil
  then show ?case by simp
next
  case (Cons e es)
  show ?case
  proof (cases "\<exists>now f sent. e = ClientMessage now f sent")
    case False
    then show ?thesis using Cons.IH [of t0 "relay_step E e r"] Cons.prems other_step [OF False] by metis
  next
    case True
    then obtain now f sent where e: "e = ClientMessage now f sent" by blast
    let ?v = "client_message E now f sent r" and ?b = "a + TEXT_WINDOW_MS"
    have io: "in_order now es" using Cons.prems e by simp
    show ?thesis
    proof (cases "passes E now f r \<and> a \<le> now \<and> now \<le> ?b")
      case False
      then show ?thesis using Cons.IH [OF io, of ?v] unfolding e passed_message by auto
    next
      case True
      have "upto ?b (passed E es ?v) + 1 \<le> 2 * MAX_TEXT_MESSAGES_PER_WINDOW"
      proof (cases rule: message_cases [of E now f sent r])
        case fresh
        then show ?thesis
          using passed_in_window [OF io, of ?b ?v E] True by (simp add: MAX_TEXT_MESSAGES_PER_WINDOW_def)
      next
        case same
        then have "room_left ?v + 1 \<le> MAX_TEXT_MESSAGES_PER_WINDOW"
          using True by (simp add: room_left_def split: if_splits)
        then show ?thesis using passed_next_window [OF io, of ?b E ?v] True by simp
      qed
      then show ?thesis using True in_minute_upto [of a "passed E es ?v"] unfolding e passed_message by simp
    qed
  qed
qed

text \<open>A message that contains the key of an audio message is never limited: any number of them
  is sent to Gemini, whatever else they say, and none is counted.\<close>

lemma marked_texts_are_unlimited:
  assumes "wr_geminiOpen r" "\<not> wr_isClosing r"
    and "list_all (\<lambda>d. str_includes d (quoted ''realtime_input'') \<and> \<not> str_includes d (quoted ''setup'')
           \<and> length d \<le> MAX_TEXT_BYTES) ds"
  shows "relay_run E (map (\<lambda>d. ClientMessage now (Text d) True) ds) r
    = r\<lparr>wr_toGemini := wr_toGemini r @ map Text ds\<rparr>"
  using assms
proof (induction ds arbitrary: r)
  case Nil
  then show ?case by (simp add: relay_run_def)
next
  case (Cons d ds)
  have "client_message E now (Text d) True r = r\<lparr>wr_toGemini := wr_toGemini r @ [Text d]\<rparr>"
    using Cons.prems by (simp add: client_message_def prepare_def forward_def)
  then show ?case using Cons.IH [of "r\<lparr>wr_toGemini := wr_toGemini r @ [Text d]\<rparr>"] Cons.prems
    by (simp add: relay_run_def)
qed

subsection \<open>Sizes\<close>

lemma length_btoa: "length (btoa b) = 4 * ((length b + 2) div 3)"
  by (induction b rule: btoa.induct) (auto, presburger)

lemma length_audio_message: "length (audio_message b) = 4 * ((length b + 2) div 3) + 84"
  by (simp add: audio_message_def quoted_def length_btoa)

lemma includes_skip: "c \<notin> set x \<Longrightarrow> str_includes (x @ y) (c # p) = str_includes y (c # p)"
  by (induction x) auto

lemma starts_delimited:
  "c \<notin> set x \<Longrightarrow> c \<notin> set y \<Longrightarrow> starts_with (x @ c # u) (y @ [c]) \<longleftrightarrow> x = y"
proof (induction x arbitrary: y)
  case Nil
  then show ?case by (cases y) auto
next
  case (Cons d x)
  then show ?case by (cases y) auto
qed

lemma b64_plain: "b64 n \<noteq> CHR 0x22"
proof -
  have "b64 n \<in> set ''ABCDEFGHIJKLMNOPQRSTUVWXYZabcdefghijklmnopqrstuvwxyz0123456789+/''"
    unfolding b64_def by (rule nth_mem) simp
  then show ?thesis by auto
qed

lemma btoa_plain: "CHR 0x22 \<notin> set (btoa b)"
  using b64_plain [symmetric] by (induction b rule: btoa.induct) auto

lemma audio_is_no_setup: "\<not> str_includes (audio_message b) (quoted ''setup'')"
proof -
  have "btoa b \<noteq> ''setup''" using length_btoa [of b] by (auto dest: arg_cong [of _ _ length]) presburger
  then have "\<not> starts_with (btoa b @ CHR 0x22 # ''}]}}'') (''setup'' @ [CHR 0x22])"
    using starts_delimited [of "CHR 0x22" "btoa b" "''setup''"] btoa_plain by simp
  moreover have "\<not> str_includes (btoa b @ CHR 0x22 # ''}]}}'') (CHR 0x22 # ''setup'' @ [CHR 0x22])"
    using includes_skip [OF btoa_plain] by simp
  ultimately show ?thesis by (simp add: audio_message_def quoted_def)
qed

text \<open>Bytes are turned into a text before their size is tested, so the limit for audio is that of the
  text they become: 49089 bytes pass, one more byte closes the client's socket, although the code
  names a limit of 65536 bytes for audio.\<close>

lemma audio_limit:
  assumes "\<not> wr_isClosing r" "json_text E b = None"
  shows "client_message E now (Binary b) sent r =
    (if length b \<le> 49089 then forward E (audio_message b) sent r
     else close_socket E Client 1009 ''Message too big'' r)"
proof -
  have "(length b + 2) div 3 < 16364 \<longleftrightarrow> length b + 2 < 16364 * 3"
    by (rule div_less_iff_less_mult) simp
  then have "MAX_TEXT_BYTES < length (audio_message b) \<longleftrightarrow> \<not> length b \<le> 49089"
    unfolding length_audio_message MAX_TEXT_BYTES_def by linarith
  then show ?thesis using assms by (simp add: client_message_def prepare_def audio_is_no_setup)
qed

subsection \<open>The end of a session\<close>

lemma closing_stays:
  "wr_isClosing r \<Longrightarrow> wr_isClosing (relay_step E e r) \<and> wr_closed (relay_step E e r) = wr_closed r"
  by (cases e) (simp_all add: safeClose_def client_message_def gemini_message_def gemini_open_def)

lemma closing_run: "wr_isClosing r \<Longrightarrow> wr_closed (relay_run E es r) = wr_closed r"
proof (induction es arbitrary: r)
  case (Cons e es)
  then show ?case using closing_stays [OF Cons.prems, of E e] by (simp add: relay_run_def)
qed (simp add: relay_run_def)

text \<open>A client that goes away without a status (code 1005, which \<open>close\<close> does not accept) leaves
  the socket of Gemini behind: its closing fails silently, and nothing that happens later closes it.\<close>

lemma gone_client_keeps_gemini:
  assumes "\<not> we_closable E 1005" "\<not> wr_isClosing r"
  shows "wr_closed (relay_run E (ClientClose 1005 why # es) r) = wr_closed r"
proof -
  let ?v = "relay_step E (ClientClose 1005 why) r"
  have v: "wr_isClosing ?v" "wr_closed ?v = wr_closed r"
    using assms by (simp_all add: safeClose_def close_socket_def)
  have "relay_run E (ClientClose 1005 why # es) r = relay_run E es ?v" by (simp add: relay_run_def)
  then show ?thesis using closing_run [OF v(1)] v(2) by simp
qed

text \<open>Before Gemini's socket is open the queue drops its oldest message: fifty messages after the
  setup, the setup is gone, and Gemini is sent the others alone.\<close>

lemma queued_messages:
  assumes "\<not> wr_geminiOpen r" "\<not> wr_isClosing r" "length (wr_queue r) + length bs \<le> 50"
    and "list_all (\<lambda>b. json_text E b = None \<and> length b \<le> 49089) bs"
  shows "relay_run E (map (\<lambda>b. ClientMessage now (Binary b) True) bs) r
    = r\<lparr>wr_queue := wr_queue r @ map (Text \<circ> audio_message) bs\<rparr>"
  using assms
proof (induction bs arbitrary: r)
  case Nil
  then show ?case by (simp add: relay_run_def)
next
  case (Cons b bs)
  let ?v = "r\<lparr>wr_queue := wr_queue r @ [Text (audio_message b)]\<rparr>"
  have "client_message E now (Binary b) True r = ?v"
    using Cons.prems by (simp add: audio_limit forward_def Let_def)
  moreover have "relay_run E (map (\<lambda>b. ClientMessage now (Binary b) True) bs) ?v
      = ?v\<lparr>wr_queue := wr_queue ?v @ map (Text \<circ> audio_message) bs\<rparr>"
    by (rule Cons.IH) (use Cons.prems in simp_all)
  ultimately show ?case by (simp add: relay_run_def)
qed

subsection \<open>Samples\<close>

definition plain_worker :: worker_env where
  \<comment> \<open>nothing is JSON; \<open>close\<close> takes the codes the standard lets a program use\<close>
  "plain_worker =
     \<lparr>we_parse = (\<lambda>_. None), we_stringify = (\<lambda>_. []), we_decode = (\<lambda>b. b),
      we_closable = (\<lambda>n. 1000 \<le> n \<and> n < 5000 \<and> n \<notin> {1004, 1005, 1006, 1015})\<rparr>"

definition sample_worker :: worker_config where
  "sample_worker = \<lparr>wc_api_base = ''https://dw'', wc_token = ''k'', wc_origins = Some ''https://app''\<rparr>"

definition sample_api_server :: live_setup where
  "sample_api_server = sample_live\<lparr>le_uuid := (\<lambda>n. ''t''),
     le_env := (\<lambda>k. if k = ''WS_WORKER_INTERNAL_TOKEN'' then Some ''k'' else None)\<rparr>"

definition sample_upgrade :: upgrade_request where
  "sample_upgrade =
     \<lparr>ur_pathname = ''/api/v1/live/ws'', ur_upgrade = Some ''websocket'', ur_origin = Some ''https://app'',
      ur_protocols = ticket_header ''t''\<rparr>"

lemma sample_admission:
  "trusted sample_worker ''https://dw'' sample_api_server" "open_to sample_worker sample_upgrade"
  by (simp_all add: trusted_def sample_worker_def sample_api_server_def sample_live_def consume_url_def Let_def
      open_to_def sample_upgrade_def parseAllowedOrigins_def js_lower_def js_lower_char_def js_trim_def js_space_def)

lemma sample_issue:
  "lw_tickets w = [] \<Longrightarrow> lv_issue (redis_live sample_api_server) u w =
    (Inr ''t'', w\<lparr>lw_tickets := [(''t'', \<lparr>wt_user_id = u, wt_expires_at = lw_now w + 90000, wt_consumed_at = None\<rparr>)],
       lw_draws := Suc (lw_draws w)\<rparr>)"
  by (simp add: redis_live_def sb_issue_def insert_ticket_def sample_api_server_def sample_live_def
      ticket_ttl_ms_def default_ttl_def)

theorem granted_ticket_opens_one_socket_witness:
  "\<exists>g w1 w2. post_init (redis_live sample_api_server) ''x'' ''u'' (open_body ''s'') new_live_world
      = (LiveReply 200 (Inr g), w1)
    \<and> worker_fetch sample_worker (api_fetch ''https://dw'' (redis_live sample_api_server)) sample_upgrade
        (w1\<lparr>lw_now := 89999\<rparr>) = (Inr (Admitted ''u''), w2)
    \<and> worker_fetch sample_worker (api_fetch ''https://dw'' (redis_live sample_api_server)) sample_upgrade w2
        = (Inr (Rejected 403 ''Forbidden''), w2)"
proof -
  let ?S = "redis_live sample_api_server"
  let ?w = "new_live_world\<lparr>lw_db := redis_put empty_redis 0 ''s'' (live_state ''s'' ''u'' ''x'' 0)\<rparr>"
  have set: "lv_set ?S ''s'' v new_live_world = (Inr (), new_live_world\<lparr>lw_db := redis_put empty_redis 0 ''s'' v\<rparr>)" for v
    by (simp add: live_set_up new_live_world_def empty_redis_def)
  obtain g w1 where 1: "post_init ?S ''x'' ''u'' (open_body ''s'') new_live_world = (LiveReply 200 (Inr g), w1)"
    and t: "lg_ticket g = ''t''"
  proof
    show "post_init ?S ''x'' ''u'' (open_body ''s'') new_live_world
      = (LiveReply 200 (Inr \<lparr>lg_config = createSessionConfig (lv_env ?S) (lv_prompt ?S) None None,
            lg_ticket = ''t'', lg_sessionId = ''s'', lg_traceId = ''x''\<rparr>), snd (lv_issue ?S ''u'' ?w))"
      using sample_issue [of ?w "''u''"]
      by (simp add: post_init_def parsed_samples answer_def init_live_def grant_def eread_def set
          ebind_def ethen_def ereturn_def) (simp add: new_live_world_def)
  qed simp
  have h: "ur_protocols sample_upgrade = ticket_header (lg_ticket g)" "tidy_ticket (lg_ticket g)"
    using t by (simp_all add: sample_upgrade_def tidy_ticket_def js_space_def)
  have now: "lw_now new_live_world = 0" by (simp add: new_live_world_def)
  obtain w2 where 2: "worker_fetch sample_worker (api_fetch ''https://dw'' ?S) sample_upgrade (w1\<lparr>lw_now := 89999\<rparr>)
      = (Inr (Admitted ''u''), w2)"
    "\<And>t'. worker_fetch sample_worker (api_fetch ''https://dw'' ?S) sample_upgrade (w2\<lparr>lw_now := t'\<rparr>)
      = (Inr (Rejected 403 ''Forbidden''), w2\<lparr>lw_now := t'\<rparr>)"
    using granted_ticket_opens_one_socket [OF 1 _ h(2) sample_admission h(1), of 89999] now by auto
  from 2(2) [of "lw_now w2"]
  have "worker_fetch sample_worker (api_fetch ''https://dw'' ?S) sample_upgrade w2 = (Inr (Rejected 403 ''Forbidden''), w2)"
    by simp
  then show ?thesis using 1 2(1) by blast
qed

lemma sample_text: "prepare plain_worker (Text ''hi'') = (False, ''hi'')"
  by (simp add: prepare_def quoted_def)

definition texts :: "nat \<Rightarrow> millis \<Rightarrow> relay_event list" where
  "texts n now = replicate n (ClientMessage now (Text ''hi'') True)"

lemma one_text:
  assumes "\<not> wr_isClosing r" "snd (window_of now r) \<le> 120"
  shows "passes plain_worker now (Text ''hi'') r"
    "\<not> wr_isClosing (client_message plain_worker now (Text ''hi'') True r)"
    "(wr_textWindowStart (client_message plain_worker now (Text ''hi'') True r),
      wr_textCount (client_message plain_worker now (Text ''hi'') True r)) = window_of now r"
proof -
  have c: "counts plain_worker (Text ''hi'') r"
    using assms(1) by (simp add: counts_def sample_text MAX_TEXT_BYTES_def)
  show "passes plain_worker now (Text ''hi'') r"
    using c assms(2) by (simp add: passes_def MAX_TEXT_MESSAGES_PER_WINDOW_def)
  then show "\<not> wr_isClosing (client_message plain_worker now (Text ''hi'') True r)"
    using passes_iff [OF c, of now True] assms(1) by (simp add: Let_def forward_def)
  show "(wr_textWindowStart (client_message plain_worker now (Text ''hi'') True r),
      wr_textCount (client_message plain_worker now (Text ''hi'') True r)) = window_of now r"
    using message_window [of plain_worker now "Text ''hi''" True r] c by simp
qed

lemma texts_pass:
  assumes "\<not> wr_isClosing r" "now - wr_textWindowStart r \<le> TEXT_WINDOW_MS" "wr_textCount r + n \<le> 120"
  shows "passed plain_worker (texts n now @ es) r = replicate n now
      @ passed plain_worker es (relay_run plain_worker (texts n now) r)
    \<and> \<not> wr_isClosing (relay_run plain_worker (texts n now) r)
    \<and> wr_textWindowStart (relay_run plain_worker (texts n now) r) = wr_textWindowStart r
    \<and> wr_textCount (relay_run plain_worker (texts n now) r) = wr_textCount r + n"
  using assms
proof (induction n arbitrary: r)
  case 0
  then show ?case by (simp add: texts_def relay_run_def)
next
  case (Suc n)
  let ?v = "client_message plain_worker now (Text ''hi'') True r"
  have w: "window_of now r = (wr_textWindowStart r, wr_textCount r + 1)"
    using Suc.prems(2) by (simp add: window_of_def)
  note v = one_text [of r now, unfolded w snd_conv prod.inject, OF Suc.prems(1)]
  have n: "wr_textCount r + 1 \<le> 120" using Suc.prems(3) by simp
  have "passed plain_worker (texts n now @ es) ?v = replicate n now
      @ passed plain_worker es (relay_run plain_worker (texts n now) ?v)
    \<and> \<not> wr_isClosing (relay_run plain_worker (texts n now) ?v)
    \<and> wr_textWindowStart (relay_run plain_worker (texts n now) ?v) = wr_textWindowStart ?v
    \<and> wr_textCount (relay_run plain_worker (texts n now) ?v) = wr_textCount ?v + n"
    by (rule Suc.IH) (use v [OF n] Suc.prems in simp_all)
  then show ?case using v [OF n] by (simp add: texts_def relay_run_def passed_message)
qed

lemma in_order_mono: "in_order t es \<Longrightarrow> s \<le> t \<Longrightarrow> in_order s es"
  by (induction t es rule: in_order.induct) auto

lemma in_order_texts: "t0 \<le> now \<Longrightarrow> in_order now es \<Longrightarrow> in_order t0 (texts n now @ es)"
  unfolding texts_def by (induction n arbitrary: t0) (auto intro: in_order_mono)

lemma texts_per_minute_witness:
  "in_minute 60000 (passed plain_worker (texts 120 60000 @ texts 1 60001 @ texts 119 60001) (new_relay 0)) = 240"
proof -
  let ?r = "new_relay 0" and ?es = "texts 120 60000 @ texts 1 60001 @ texts 119 60001"
  have io: "in_order 0 ?es"
    using in_order_texts [of 60001 60001 "[]" 119] by (intro in_order_texts) (simp_all add: in_order_texts)
  have "in_minute 60000 (passed plain_worker ?es ?r) \<le> 240"
    using texts_per_minute [OF io, of 60000 plain_worker ?r] by (simp add: MAX_TEXT_MESSAGES_PER_WINDOW_def)
  moreover
  let ?v = "relay_run plain_worker (texts 120 60000) ?r"
  let ?u = "client_message plain_worker 60001 (Text ''hi'') True ?v"
  have v: "passed plain_worker ?es ?r = replicate 120 60000 @ passed plain_worker (texts 1 60001 @ texts 119 60001) ?v"
    "\<not> wr_isClosing ?v" "wr_textWindowStart ?v = 0"
    using texts_pass [of ?r 60000 120 "texts 1 60001 @ texts 119 60001"]
    by (simp_all add: new_relay_def TEXT_WINDOW_MS_def)
  have w: "window_of 60001 ?v = (60001, 1)" using v(3) by (simp add: window_of_def TEXT_WINDOW_MS_def)
  note u = one_text [OF v(2), of 60001, unfolded w snd_conv prod.inject]
  have "passed plain_worker (texts 1 60001 @ texts 119 60001) ?v = 60001 # passed plain_worker (texts 119 60001 @ []) ?u"
    using u by (simp add: texts_def passed_message)
  moreover have "passed plain_worker (texts 119 60001 @ []) ?u = replicate 119 60001"
    using texts_pass [of ?u 60001 119 "[]"] u by (simp add: TEXT_WINDOW_MS_def)
  ultimately show ?thesis using v(1) by (simp add: TEXT_WINDOW_MS_def)
qed

lemma marked_texts_are_unlimited_witness:
  "wr_toGemini (relay_run plain_worker (map (\<lambda>d. ClientMessage 0 (Text d) True)
      (replicate 1000 (quoted ''realtime_input'' @ ''or not''))) (gemini_open (new_relay 0)))
    = map Text (replicate 1000 (quoted ''realtime_input'' @ ''or not''))"
proof -
  let ?ds = "replicate 1000 (quoted ''realtime_input'' @ ''or not'')"
  have "list_all (\<lambda>d. str_includes d (quoted ''realtime_input'') \<and> \<not> str_includes d (quoted ''setup'')
           \<and> length d \<le> MAX_TEXT_BYTES) ?ds"
    by (simp add: list_all_iff quoted_def MAX_TEXT_BYTES_def)
  from marked_texts_are_unlimited [OF _ _ this, of "gemini_open (new_relay 0)" plain_worker 0]
  show ?thesis by (simp add: gemini_open_def new_relay_def del: map_replicate)
qed

lemma gone_client_keeps_gemini_witness:
  "wr_closed (relay_run plain_worker [ClientClose 1005 [], GeminiMessage (Text ''hi'') True, GeminiError]
     (gemini_open (new_relay 0))) = []"
  using gone_client_keeps_gemini [where E = plain_worker and r = "gemini_open (new_relay 0)" and why = "[]"
      and es = "[GeminiMessage (Text ''hi'') True, GeminiError]"]
  by (simp add: plain_worker_def gemini_open_def new_relay_def)

text \<open>The setup is the message that fifty others push out.\<close>

lemma setup_is_pushed_out:
  fixes b :: string
  assumes "json_text plain_worker b = None" "length b \<le> 49089"
  shows "wr_toGemini (relay_run plain_worker (ClientMessage 0 (Text (quoted ''setup'')) True
      # map (\<lambda>b. ClientMessage 0 (Binary b) True) (replicate 50 b) @ [GeminiOpen]) (new_relay 0))
    = replicate 50 (Text (audio_message b))"
proof -
  let ?r = "(new_relay 0)\<lparr>wr_queue := [Text (quoted ''setup'')], wr_textCount := 1\<rparr>"
  have s: "client_message plain_worker 0 (Text (quoted ''setup'')) True (new_relay 0) = ?r"
    by (simp add: client_message_def prepare_def quoted_def normalise_def sanitise_def plain_worker_def
        new_relay_def forward_def Let_def MAX_TEXT_BYTES_def TEXT_WINDOW_MS_def MAX_TEXT_MESSAGES_PER_WINDOW_def)
  let ?v = "?r\<lparr>wr_queue := Text (quoted ''setup'') # replicate 49 (Text (audio_message b))\<rparr>"
  have "relay_run plain_worker (map (\<lambda>b. ClientMessage 0 (Binary b) True) (replicate 49 b)) ?r = ?v"
    using queued_messages [of ?r "replicate 49 b" plain_worker 0] assms
    by (simp add: new_relay_def list_all_iff)
  moreover have "client_message plain_worker 0 (Binary b) True ?v
      = ?v\<lparr>wr_queue := replicate 50 (Text (audio_message b))\<rparr>"
    using assms audio_limit [of ?v plain_worker b 0 True]
    by (simp add: new_relay_def forward_def Let_def replicate_append_same flip: replicate_Suc)
  moreover have "map (\<lambda>b. ClientMessage 0 (Binary b) True) (replicate 50 b)
      = map (\<lambda>b. ClientMessage 0 (Binary b) True) (replicate 49 b) @ [ClientMessage 0 (Binary b) True]"
    by (simp add: replicate_append_same flip: replicate_Suc)
  ultimately have "relay_run plain_worker (map (\<lambda>b. ClientMessage 0 (Binary b) True) (replicate 50 b)) ?r
      = ?v\<lparr>wr_queue := replicate 50 (Text (audio_message b))\<rparr>"
    by (simp only: relay_run_def fold_append comp_def fold.simps id_apply relay_step.simps)
  moreover have "relay_run plain_worker (ClientMessage 0 (Text (quoted ''setup'')) True # es @ [GeminiOpen]) (new_relay 0)
      = gemini_open (relay_run plain_worker es ?r)" for es
    by (simp only: relay_run_def fold_append comp_def fold.simps id_apply relay_step.simps s)
  ultimately show ?thesis by (simp add: gemini_open_def new_relay_def del: map_replicate)
qed

end
