(* ===== verification/UserRoutes.thy ===== *)
theory UserRoutes
  imports Generation Voices Moderation Digests LiveRoutes
begin

text \<open>
  The routes through which a user reaches stories, moments, voices and preferences
  (\<open>api/src/routes/story.ts\<close>, \<open>moments.ts\<close>, \<open>voice.ts\<close>, \<open>user.ts\<close>, \<open>auth.ts\<close>), the routes that
  report on the server (\<open>health.ts\<close>, \<open>meta.ts\<close>) and what the application checks when it starts
  (\<open>app.ts\<close>).  The caller is the user \<open>authMiddleware\<close> lets in.  An error that a route does not catch
  is answered by \<open>app.onError\<close>.
\<close>

definition uncaught :: "('w, 'a http_reply) eff \<Rightarrow> 'w \<Rightarrow> 'a http_reply \<times> 'w" where
  "uncaught m w =
     (case m w of (Inl _, w') \<Rightarrow> (Http 500 (Inl ''Internal Server Error''), w') | (Inr r, w') \<Rightarrow> (r, w'))"

definition caught :: "(js_error \<Rightarrow> string) \<Rightarrow> ('w, 'a http_reply) eff \<Rightarrow> 'w \<Rightarrow> 'a http_reply \<times> 'w" where
  "caught message m w =
     (case m w of (Inl e, w') \<Rightarrow> (Http 500 (Inl (message e)), w') | (Inr r, w') \<Rightarrow> (r, w'))"

abbreviation ok :: "'a \<Rightarrow> 'a http_reply" where "ok a \<equiv> Http 200 (Inr a)"

subsection \<open>Stories\<close>

definition number_between :: "real \<Rightarrow> real \<Rightarrow> json \<Rightarrow> real option" where
  "number_between lo hi j = (case j of JNum x \<Rightarrow> if lo \<le> x \<and> x \<le> hi then Some x else None | _ \<Rightarrow> None)"

definition duration_named :: "json \<Rightarrow> duration option" where
  "duration_named j =
     (case j of
        JStr t \<Rightarrow> (if t = ''short'' then Some Short else if t = ''medium'' then Some Medium
                   else if t = ''long'' then Some Long else None)
      | _ \<Rightarrow> None)"

definition parse_generate :: "string \<Rightarrow> string \<Rightarrow> json option \<Rightarrow> generation_request option" where
  \<comment> \<open>\<open>generateStorySchema\<close>, with the user and the trace of the request\<close>
  "parse_generate uid trace body =
     (case members body of
        None \<Rightarrow> None
      | Some kvs \<Rightarrow>
          (case (sized 100 (map_of kvs ''theme''), optional any_string (map_of kvs ''childName''),
                 optional (number_between 0 18) (map_of kvs ''childAge''),
                 optional duration_named (map_of kvs ''duration''),
                 optional some_string (map_of kvs ''previousStoryId''),
                 optional some_string (map_of kvs ''requestId'')) of
             (Some th, Some n, Some a, Some d, Some p, Some r) \<Rightarrow>
               Some \<lparr>gr_theme = th, gr_childName = n, gr_childAge = a,
                     gr_duration = Some (case d of None \<Rightarrow> Medium | Some x \<Rightarrow> x), gr_userId = Some uid,
                     gr_voiceProfileId = None, gr_mood = None, gr_previousStoryId = p, gr_requestId = r,
                     gr_traceId = Some trace\<rparr>
           | _ \<Rightarrow> None))"

definition post_generate ::
    "'w generation_ports \<Rightarrow> (json option \<Rightarrow> string) \<Rightarrow> string \<Rightarrow> string \<Rightarrow> json option \<Rightarrow> 'w
      \<Rightarrow> generation_result http_reply \<times> 'w" where
  \<comment> \<open>\<open>POST /stories/generate\<close>; \<open>invalid\<close> is the message of the error of a bad body\<close>
  "post_generate P invalid trace caller body w =
     (case parse_generate caller trace body of
        None \<Rightarrow> (Http 400 (Inl (invalid body)), w)
      | Some r \<Rightarrow> caught err_message (ebind (generate_story P r) (\<lambda>g. ereturn (ok g))) w)"

definition generate_stream ::
    "'w generation_ports \<Rightarrow> string \<Rightarrow> string \<Rightarrow> json option \<Rightarrow> 'w \<Rightarrow> (string list \<times> js_error option) http_reply \<times> 'w"
where
  \<comment> \<open>\<open>POST /stories/generate/stream\<close>: what is written, and the error that ends the stream; the status
      has been sent before the story is generated\<close>
  "generate_stream P trace caller body w =
     (case parse_generate caller trace body of
        None \<Rightarrow> (Http 400 (Inl ''Validation Error''), w)
      | Some r \<Rightarrow>
          (case generate_story P r w of
             (Inl e, w') \<Rightarrow> (ok ([], Some e), w')
           | (Inr g, w') \<Rightarrow>
               (ok (map (\<lambda>t. t @ [nl, nl])
                      (st_title (gn_story g) # sc_paragraphs (st_content (gn_story g))), None), w')))"

record story_line =
  ln_id :: string
  ln_title :: string
  ln_theme :: string
  ln_status :: story_status
  ln_readingTime :: int
  ln_created :: millis
  ln_generated :: "millis option"

definition story_line_of :: "story \<Rightarrow> story_line" where
  "story_line_of s =
     \<lparr>ln_id = st_id s, ln_title = st_title s, ln_theme = st_theme s, ln_status = st_status s,
      ln_readingTime = getEstimatedReadingTime s, ln_created = st_createdAt s, ln_generated = st_generatedAt s\<rparr>"

definition get_stories ::
    "'w story_db \<Rightarrow> string \<Rightarrow> string option \<Rightarrow> 'w \<Rightarrow> (story_line list \<times> nat) http_reply \<times> 'w" where
  \<comment> \<open>\<open>GET /stories\<close> with the query \<open>limit\<close>; a limit that is no number is none\<close>
  "get_stories D caller limit =
     caught err_message
       (ebind (getStoryHistory (sr_findByUserId D) (\<lambda>u n. sr_findRecent D u (nat n)) caller
                 (map_option floor (js_parse_int (or_string limit ''20''))) None)
          (\<lambda>(ss, n). ereturn (ok (map story_line_of ss, n))))"

definition get_story ::
    "(string \<Rightarrow> ('w, story option) eff) \<Rightarrow> string \<Rightarrow> string \<Rightarrow> 'w
      \<Rightarrow> (story_line \<times> story_content \<times> string option) http_reply \<times> 'w" where
  \<comment> \<open>\<open>GET /stories/:id\<close>\<close>
  "get_story findById caller i w =
     (case getStory findById caller i w of
        (Inr s, w') \<Rightarrow> (ok (story_line_of s, st_content s, st_audioUrl s), w')
      | (Inl e, w') \<Rightarrow>
          (if err_message e = ''Story not found'' then Http 404 (Inl ''Story not found'')
           else if starts_with (err_message e) ''Unauthorized'' then Http 403 (Inl ''Unauthorized'')
           else Http 500 (Inl ''Failed to retrieve story''), w'))"

subsection \<open>Moments\<close>

record moment_view =
  mv_id :: string
  mv_storyId :: string
  mv_description :: "string option"
  mv_mediaUrl :: string
  mv_createdAt :: millis

definition moment_view_of :: "moment \<Rightarrow> moment_view" where
  "moment_view_of m =
     \<lparr>mv_id = mo_id m, mv_storyId = mo_storyId m, mv_description = mo_description m,
      mv_mediaUrl = mo_mediaUrl m, mv_createdAt = mo_createdAt m\<rparr>"

definition safe_limit :: "string option \<Rightarrow> nat" where
  "safe_limit limit =
     (case or_undefined limit of
        None \<Rightarrow> 50
      | Some q \<Rightarrow> (case js_parse_int q of None \<Rightarrow> 50 | Some x \<Rightarrow> nat (max 1 (min 200 \<lfloor>x\<rfloor>))))"

definition get_moments ::
    "mod_env \<Rightarrow> string \<Rightarrow> string option \<Rightarrow> string option \<Rightarrow> mod_db \<Rightarrow> moment_view list http_reply \<times> mod_db" where
  \<comment> \<open>\<open>GET /moments\<close> with the queries \<open>limit\<close> and \<open>storyId\<close>\<close>
  "get_moments E caller limit storyId =
     uncaught (ebind (case or_undefined storyId of
                        Some s \<Rightarrow> moment_findByStoryId E s | None \<Rightarrow> moment_findByUserId E caller)
       (\<lambda>ms. ereturn (ok (map moment_view_of (take (safe_limit limit)
               (sort_key (\<lambda>m. - mo_createdAt m) (filter (\<lambda>m. mo_userId m = caller) ms)))))))"

definition get_moment :: "mod_env \<Rightarrow> string \<Rightarrow> string \<Rightarrow> mod_db \<Rightarrow> moment_view http_reply \<times> mod_db" where
  \<comment> \<open>\<open>GET /moments/:id\<close>\<close>
  "get_moment E caller i D =
     (if i = [] then (Http 400 (Inl ''Invalid ID''), D)
      else uncaught (ebind (moment_findById E i) (\<lambda>m. ereturn
             (case m of
                None \<Rightarrow> Http 404 (Inl ''Not found'')
              | Some x \<Rightarrow> if mo_userId x \<noteq> caller then Http 403 (Inl ''Forbidden'') else ok (moment_view_of x)))) D)"

subsection \<open>Voices\<close>

definition get_voices :: "'w voice_db \<Rightarrow> string \<Rightarrow> 'w \<Rightarrow> voice_profile list http_reply \<times> 'w" where
  "get_voices D caller =
     caught (\<lambda>_. ''Failed to load voice profiles'') (ebind (vr_findByUserId D caller) (\<lambda>ps. ereturn (ok ps)))"

definition get_voice :: "'w voice_db \<Rightarrow> string \<Rightarrow> string \<Rightarrow> 'w \<Rightarrow> voice_profile http_reply \<times> 'w" where
  "get_voice D caller i =
     caught (\<lambda>_. ''Failed to load voice profile'') (ebind (vr_findById D i) (\<lambda>p. ereturn
       (case p of
          None \<Rightarrow> Http 404 (Inl ''Not Found'')
        | Some x \<Rightarrow> if vp_userId x \<noteq> caller then Http 403 (Inl ''Forbidden'') else ok x)))"

definition allowedMimeTypes :: "string list" where
  "allowedMimeTypes = [''audio/wav'', ''audio/mpeg'', ''audio/webm'', ''audio/x-m4a'']"

definition MAX_UPLOAD_BYTES :: nat where "MAX_UPLOAD_BYTES = 10 * 1024 * 1024"

datatype upload_body =
    JsonUpload "json option"
  | FormUpload "(nat \<times> string) option" "string option"   \<comment> \<open>size and type of the file, and the name\<close>
  | NoForm string                                        \<comment> \<open>a body that is no form: the error\<close>

definition named_or :: "string option \<Rightarrow> string" where
  "named_or n = (let t = js_trim (or_string n ''My Voice'') in if t = [] then ''My Voice'' else t)"

definition read_upload :: "(string \<Rightarrow> nat) \<Rightarrow> upload_body \<Rightarrow> (nat \<times> string) + string \<times> string \<times> nat" where
  \<comment> \<open>a refusal, or the name, the type and the size; \<open>bytes\<close> counts what a Base64 text stands for\<close>
  "read_upload bytes b =
     (case b of
        NoForm e \<Rightarrow> Inl (500, e)
      | FormUpload None n \<Rightarrow> Inl (400, ''File is required'')
      | FormUpload (Some (len, t)) n \<Rightarrow> Inr (named_or n, t, len)
      | JsonUpload j \<Rightarrow>
          (let get = (\<lambda>k. case members j of
                        None \<Rightarrow> None | Some kvs \<Rightarrow> (case map_of kvs k of Some v \<Rightarrow> any_string v | None \<Rightarrow> None));
               mime = or_string (get ''mimeType'') []; d = or_string (get ''dataBase64'') []
           in if mime = [] \<or> d = [] then Inl (400, ''Invalid upload body'')
              else Inr (named_or (get ''name''), mime, bytes d)))"

definition post_upload ::
    "'w voice_ports \<Rightarrow> (string \<Rightarrow> nat) \<Rightarrow> string \<Rightarrow> upload_body \<Rightarrow> 'w \<Rightarrow> voice_profile http_reply \<times> 'w" where
  \<comment> \<open>\<open>POST /voice/upload\<close>\<close>
  "post_upload V bytes caller b w =
     (case read_upload bytes b of
        Inl (n, e) \<Rightarrow> (Http n (Inl e), w)
      | Inr (name, mime, len) \<Rightarrow>
          if len > MAX_UPLOAD_BYTES then (Http 413 (Inl ''File too large''), w)
          else if mime \<notin> set allowedMimeTypes then (Http 415 (Inl ''Unsupported file type''), w)
          else caught err_message (ebind (uploadVoice V caller name mime) (\<lambda>p. ereturn (ok p))) w)"

definition post_select ::
    "'w voice_ports \<Rightarrow> string \<Rightarrow> string option \<Rightarrow> string option \<Rightarrow> 'w \<Rightarrow> voice_profile http_reply \<times> 'w" where
  \<comment> \<open>\<open>POST /voice/select\<close> with the texts \<open>voiceModelId\<close> and \<open>name\<close>\<close>
  "post_select V caller model name w =
     (if \<not> truthy_string model \<or> \<not> truthy_string name
      then (Http 400 (Inl ''Missing voiceModelId or name''), w)
      else caught err_message (ebind (selectVoice V caller (the name) (the model)) (\<lambda>p. ereturn (ok p))) w)"

subsection \<open>Preferences\<close>

record preferences =
  pf_mic_enabled :: bool
  pf_reminders_enabled :: bool
  pf_weekly_digest_enabled :: bool

type_synonym preference_table = "string \<rightharpoonup> preferences"

definition default_preferences :: preferences where
  "default_preferences =
     \<lparr>pf_mic_enabled = True, pf_reminders_enabled = False, pf_weekly_digest_enabled = True\<rparr>"

definition a_bool :: "json \<Rightarrow> bool option" where
  "a_bool j = (case j of JBool b \<Rightarrow> Some b | _ \<Rightarrow> None)"

definition parse_preferences :: "json option \<Rightarrow> (bool option \<times> bool option \<times> bool option) option" where
  \<comment> \<open>\<open>preferencesSchema\<close>\<close>
  "parse_preferences body =
     (case members body of
        None \<Rightarrow> None
      | Some kvs \<Rightarrow>
          (case (optional a_bool (map_of kvs ''mic_enabled''), optional a_bool (map_of kvs ''reminders_enabled''),
                 optional a_bool (map_of kvs ''weekly_digest_enabled'')) of
             (Some m, Some r, Some d) \<Rightarrow> Some (m, r, d)
           | _ \<Rightarrow> None))"

definition get_preferences ::
    "bool \<Rightarrow> string option \<Rightarrow> string \<Rightarrow> preference_table \<Rightarrow> preferences http_reply" where
  \<comment> \<open>\<open>GET /user/preferences\<close>: whether there is a service role, and what the database objects\<close>
  "get_preferences admin fault caller T =
     (if \<not> admin then Http 500 (Inl ''Supabase service role is required'')
      else case fault of
             Some e \<Rightarrow> Http 500 (Inl e)
           | None \<Rightarrow> ok (case T caller of None \<Rightarrow> default_preferences | Some p \<Rightarrow> p))"

definition put_preferences ::
    "bool \<Rightarrow> string option \<Rightarrow> string \<Rightarrow> json option \<Rightarrow> preference_table \<Rightarrow> preferences http_reply \<times> preference_table" where
  \<comment> \<open>\<open>PUT /user/preferences\<close>\<close>
  "put_preferences admin fault caller body T =
     (case parse_preferences body of
        None \<Rightarrow> (Http 400 (Inl ''Validation Error''), T)
      | Some (m, r, d) \<Rightarrow>
          if \<not> admin then (Http 500 (Inl ''Supabase service role is required''), T)
          else (let row = \<lparr>pf_mic_enabled = (case m of None \<Rightarrow> True | Some b \<Rightarrow> b),
                           pf_reminders_enabled = (case r of None \<Rightarrow> False | Some b \<Rightarrow> b),
                           pf_weekly_digest_enabled = (case d of None \<Rightarrow> True | Some b \<Rightarrow> b)\<rparr>
                in case fault of
                     Some e \<Rightarrow> (Http 500 (Inl e), T)
                   | None \<Rightarrow> (ok row, T(caller \<mapsto> row))))"

definition get_me :: "api_user \<Rightarrow> string \<times> string option \<times> string" where
  \<comment> \<open>\<open>GET /user/me\<close>: the identifier, the address and the name\<close>
  "get_me u =
     (au_id u, au_email u,
      or_string (case au_email u of None \<Rightarrow> None | Some e \<Rightarrow> Some (split_char (CHR ''@'') e ! 0)) ''User'')"

subsection \<open>Tickets and reports\<close>

definition post_ticket :: "'w live_ports \<Rightarrow> string \<Rightarrow> 'w \<Rightarrow> string http_reply \<times> 'w" where
  \<comment> \<open>\<open>POST /auth/ticket\<close>\<close>
  "post_ticket P caller = uncaught (ebind (lv_issue P caller) (\<lambda>t. ereturn (ok t)))"

definition env_set :: "environment \<Rightarrow> string \<Rightarrow> bool" where
  "env_set env k = truthy_string (env k)"

definition readiness :: "environment \<Rightarrow> (string \<times> bool \<times> bool) list" where
  \<comment> \<open>the checks: name, whether it passes, whether it must\<close>
  "readiness env =
     (let prod = is_production env; cloning = (env ''VOICE_CLONING_ENABLED'' = Some ''true'')
      in [(''SUPABASE_URL'', env_set env ''SUPABASE_URL'', prod),
          (''SUPABASE_ANON_KEY'', env_set env ''SUPABASE_ANON_KEY'', prod),
          (''SUPABASE_SERVICE_ROLE_KEY'',
             env_set env ''SUPABASE_SERVICE_ROLE_KEY'' \<or> env_set env ''SUPABASE_SERVICE_KEY'', prod),
          (''GEMINI_API_KEY'', env_set env ''GEMINI_API_KEY'', prod),
          (''REDIS_URL'', env_set env ''REDIS_URL'', prod),
          (''UPSTASH_REDIS_REST_URL'', env_set env ''UPSTASH_REDIS_REST_URL'', prod),
          (''UPSTASH_REDIS_REST_TOKEN'', env_set env ''UPSTASH_REDIS_REST_TOKEN'', prod),
          (''WS_WORKER_INTERNAL_TOKEN'', env_set env ''WS_WORKER_INTERNAL_TOKEN'', prod),
          (''GOOGLE_TTS_API_KEY'', env_set env ''GOOGLE_TTS_API_KEY'', prod),
          (''HUGGINGFACE_API_KEY'', \<not> cloning \<or> env_set env ''HUGGINGFACE_API_KEY'', prod \<and> cloning)])"

definition get_ready :: "environment \<Rightarrow> (string \<times> bool \<times> bool) list http_reply" where
  \<comment> \<open>\<open>GET /health/ready\<close>; a report is sent with either status\<close>
  "get_ready env =
     (let checks = readiness env
      in Http (if filter (\<lambda>(k, passed, required). required \<and> \<not> passed) checks = [] then 200 else 503) (Inr checks))"

definition gemini_models :: "environment \<Rightarrow> string \<times> string \<times> string" where
  \<comment> \<open>\<open>GET /meta/gemini-models\<close>\<close>
  "gemini_models env =
     (let base = or_string (env ''GEMINI_MODEL'') ''gemini-3-flash-preview''
      in (or_string (env ''GEMINI_MODEL_FLASH'') base, or_string (env ''GEMINI_MODEL_PRO'') base,
          or_string (env ''GEMINI_LIVE_MODEL'') ''models/gemini-live-2.5-flash-native-audio''))"

subsection \<open>The start of the application\<close>

definition getAllowedOrigins :: "environment \<Rightarrow> string list" where
  "getAllowedOrigins env =
     (let parsed = filter (\<lambda>o1. o1 \<noteq> []) (map js_trim (split_char (CHR '','') (or_string (env ''ALLOWED_ORIGINS'') [])))
      in if parsed \<noteq> [] then parsed else [''http://localhost:5173'', ''http://localhost:3000''])"

definition missing_env :: "environment \<Rightarrow> string list" where
  "missing_env env =
     (let lack = (\<lambda>k present. if present then [] else [k])
      in lack ''SUPABASE_URL'' (env_set env ''SUPABASE_URL'' \<or> env_set env ''VITE_SUPABASE_URL'')
       @ lack ''SUPABASE_ANON_KEY'' (env_set env ''SUPABASE_ANON_KEY'' \<or> env_set env ''VITE_SUPABASE_ANON_KEY'')
       @ lack ''SUPABASE_SERVICE_ROLE_KEY''
           (env_set env ''SUPABASE_SERVICE_ROLE_KEY'' \<or> env_set env ''SUPABASE_SERVICE_KEY'')
       @ lack ''WS_WORKER_INTERNAL_TOKEN'' (env_set env ''WS_WORKER_INTERNAL_TOKEN'')
       @ lack ''GEMINI_API_KEY'' (env ''USE_MOCK_AI'' = Some ''true'' \<or> env_set env ''GEMINI_API_KEY''))"

definition assertRequiredEnvForProd :: "environment \<Rightarrow> js_error option" where
  "assertRequiredEnvForProd env =
     (if \<not> is_production env \<or> missing_env env = [] then None
      else Some (Err ''Error'' (''Missing required environment variables: '' @ join '', '' (missing_env env))))"

end
