(* ===== verification/UserRoutesTheorems.thy ===== *)
theory UserRoutesTheorems
  imports UserRoutes
begin

text \<open>
  What the routes of a user answer: only what the caller owns, the moments of a list in order and
  within its limit, and what saving one preference does to the others.
\<close>

subsection \<open>Only what the caller owns\<close>

text \<open>C33: A story, a moment or a voice is answered only to its owner, as it is stored, and reading it
  changes nothing beyond what the repository does.\<close>

theorem only_owners_read:
  assumes "get_story byId u i w = (Http 200 (Inr v), w1)"
    and "get_moment E u j D = (Http 200 (Inr mv), D1)"
    and "get_voice V u k x = (Http 200 (Inr p), x1)"
  shows "(\<exists>s. byId i w = (Inr (Some s), w1) \<and> st_ownerId s = u
      \<and> v = (story_line_of s, st_content s, st_audioUrl s))
    \<and> (\<exists>m. (m, True) \<in> snd ` set (md_moments D) \<and> mo_userId m = u \<and> mv = moment_view_of m \<and> D1 = D)
    \<and> vr_findById V k x = (Inr (Some p), x1) \<and> vp_userId p = u"
proof (intro conjI)
  show "\<exists>s. byId i w = (Inr (Some s), w1) \<and> st_ownerId s = u \<and> v = (story_line_of s, st_content s, st_audioUrl s)"
    using assms(1)
    by (auto simp: get_story_def getStory_def ebind_def ereturn_def ethrow_def
        split: sum.splits prod.splits option.splits if_splits)
  show "\<exists>m. (m, True) \<in> snd ` set (md_moments D) \<and> mo_userId m = u \<and> mv = moment_view_of m \<and> D1 = D"
    using assms(2)
    by (auto simp: get_moment_def uncaught_def moment_findById_def ebind_def ereturn_def ethrow_def
        image_iff dest!: map_of_SomeD split: sum.splits prod.splits option.splits if_splits bool.splits)
      (metis snd_conv)+
  show "vr_findById V k x = (Inr (Some p), x1)" "vp_userId p = u"
    using assms(3)
    by (auto simp: get_voice_def caught_def ebind_def ereturn_def
        split: sum.splits prod.splits option.splits if_splits)
qed

definition own_moments :: "string \<Rightarrow> string option \<Rightarrow> mod_db \<Rightarrow> moment list" where
  "own_moments u storyId D =
     filter (\<lambda>m. mo_userId m = u \<and> (case or_undefined storyId of None \<Rightarrow> True | Some s \<Rightarrow> mo_storyId m = s))
       (active_moments D)"

lemma safe_limit_bounds: "1 \<le> safe_limit q" "safe_limit q \<le> 200"
  by (auto simp: safe_limit_def split: option.splits)

lemma moments_run:
  assumes "me_client E"
  shows "get_moments E u q storyId D
    = (ok (map moment_view_of (take (safe_limit q) (sort_key (\<lambda>m. - mo_createdAt m) (own_moments u storyId D)))), D)"
  using assms
  by (auto simp: get_moments_def uncaught_def moment_findByStoryId_def moment_findByUserId_def ebind_def
      ereturn_def own_moments_def conj_commute split: option.splits)

text \<open>The list of moments holds the newest of the caller's own active moments (of the story that
  was asked for), newest first: all of them where they are within the limit, which is between 1 and
  200 whatever the query says; no moment that is left out is newer than one that is listed.\<close>

lemma newest_own_moments:
  assumes "me_client E"
  shows "\<exists>ms rest. get_moments E u q storyId D = (ok (map moment_view_of ms), D)
    \<and> mset (ms @ rest) = mset (own_moments u storyId D)
    \<and> length ms = min (safe_limit q) (length (own_moments u storyId D)) \<and> 1 \<le> safe_limit q \<and> safe_limit q \<le> 200
    \<and> sorted_wrt (\<lambda>a b. mo_createdAt b \<le> mo_createdAt a) (ms @ rest)"
proof -
  let ?all = "sort_key (\<lambda>m. - mo_createdAt m) (own_moments u storyId D)"
  let ?ms = "take (safe_limit q) ?all" and ?rest = "drop (safe_limit q) ?all"
  have "sorted (map (\<lambda>m. - mo_createdAt m) ?all)" by simp
  then have "sorted_wrt (\<lambda>a b. mo_createdAt b \<le> mo_createdAt a) ?all" by (simp add: sorted_wrt_map)
  moreover have "get_moments E u q storyId D = (ok (map moment_view_of ?ms), D)"
    using moments_run [OF assms] by simp
  moreover have "length ?ms = min (safe_limit q) (length (own_moments u storyId D))" by (simp add: min.commute)
  ultimately show ?thesis using safe_limit_bounds
    by (intro exI [of _ ?ms] exI [of _ ?rest] conjI) simp_all
qed

subsection \<open>Preferences\<close>

definition with_preferences :: "preference_table \<Rightarrow> cron_env \<Rightarrow> cron_env" where
  \<comment> \<open>the job reads the same table\<close>
  "with_preferences T C = C\<lparr>ce_enabled := (\<lambda>u. map_option pf_weekly_digest_enabled (T u))\<rparr>"

text \<open>Saving one preference sets the others to their defaults: a user who has switched the weekly
  digest off and then saves the microphone alone is sent the digest again.\<close>

lemma saving_one_preference_resets_the_rest:
  assumes "T u = Some p" "\<not> pf_weekly_digest_enabled p" "parse_preferences body = Some (Some b, None, None)"
    and "ce_admin C" "ce_user C u = Some prof" "up_email prof = Some mail" "mail \<noteq> []"
  shows "processUserDigest (with_preferences T C) P u w = (Inr (Skipped u), w)
    \<and> (let T' = T(u \<mapsto> default_preferences\<lparr>pf_mic_enabled := b\<rparr>)
       in put_preferences True None u body T
          = (ok (default_preferences\<lparr>pf_mic_enabled := b\<rparr>), T')
        \<and> processUserDigest (with_preferences T' C) P u w
          = ebind (sendWeeklyDigest P \<lparr>di_userId = u, di_email = mail,
               di_childName = or_string (up_childName prof) ''Your child''\<rparr>) (\<lambda>out. ereturn (Processed u out)) w)"
  using assms
  by (simp add: put_preferences_def processUserDigest_def with_preferences_def default_preferences_def
      truthy_string_def Let_def)

subsection \<open>Samples\<close>

definition sample_voice :: voice_profile where
  "sample_voice =
     \<lparr>vp_id = ''v'', vp_userId = ''u'', vp_name = ''Mum'', vp_sampleUrl = None, vp_voiceModelId = None,
      vp_status = VPending, vp_createdAt = 0, vp_updatedAt = None\<rparr>"

definition sample_voices :: "unit voice_db" where
  "sample_voices =
     \<lparr>vd_admin = True, vd_anon = True, vd_production = False, vd_byId = (\<lambda>i w. (Inr (Inr (Some (row_of_voice sample_voice))), w)),
      vd_byUser = (\<lambda>i w. (Inr (Inr []), w)), vd_upsert = (\<lambda>r w. (Inr (Inr ()), w))\<rparr>"

theorem only_owners_read_witness:
  "\<exists>m. (m, True) \<in> snd ` set (md_moments sample_mod_db) \<and> mo_userId m = ''u''
     \<and> get_moment sample_mod_env ''u'' ''m'' sample_mod_db = (Http 200 (Inr (moment_view_of m)), sample_mod_db)"
proof -
  let ?s = "sample_story\<lparr>st_ownerId := ''u''\<rparr>"
  have 1: "get_story (\<lambda>i w. (Inr (Some ?s), w)) ''u'' ''i'' ()
      = (Http 200 (Inr (story_line_of ?s, st_content ?s, st_audioUrl ?s)), ())"
    by (simp add: get_story_def getStory_def)
  obtain mv where 2: "get_moment sample_mod_env ''u'' ''m'' sample_mod_db = (Http 200 (Inr mv), sample_mod_db)"
    by (simp add: get_moment_def uncaught_def moment_findById_def sample_mod_env_def sample_mod_db_def me_client_def)
  obtain p where 3: "get_voice sample_voices ''u'' ''v'' () = (Http 200 (Inr p), ())"
    by (simp add: get_voice_def caught_def vr_findById_def with_voice_client_def sample_voices_def
        voice_of_row_def row_of_voice_def sample_voice_def)
  from only_owners_read [OF 1 2 3] 2 show ?thesis by auto
qed

lemma newest_own_moments_witness:
  "\<exists>ms. get_moments sample_mod_env ''u'' (Some ''0'') None sample_mod_db = (ok (map moment_view_of ms), sample_mod_db)
     \<and> length ms = 1"
proof -
  have c: "me_client sample_mod_env" by (simp add: sample_mod_env_def me_client_def)
  obtain ms rest where "get_moments sample_mod_env ''u'' (Some ''0'') None sample_mod_db
      = (ok (map moment_view_of ms), sample_mod_db)"
    "length ms = min (safe_limit (Some ''0'')) (length (own_moments ''u'' None sample_mod_db))" "1 \<le> safe_limit (Some ''0'')"
    using newest_own_moments [OF c, of "''u''" "Some ''0''" None sample_mod_db] by blast
  moreover have "length (own_moments ''u'' None sample_mod_db) = 1"
    by (simp add: own_moments_def active_moments_def sample_mod_db_def)
  ultimately show ?thesis by (intro exI [of _ ms]) simp
qed

definition quiet_prefs :: preferences where
  "quiet_prefs = default_preferences\<lparr>pf_weekly_digest_enabled := False\<rparr>"

lemma saving_one_preference_resets_the_rest_witness:
  "\<exists>C T'. processUserDigest (with_preferences [''u'' \<mapsto> quiet_prefs] C) sample_digest ''u'' sample_dw
        = (Inr (Skipped ''u''), sample_dw)
     \<and> put_preferences True None ''u'' (Some (JObj [(''mic_enabled'', JBool False)])) [''u'' \<mapsto> quiet_prefs]
        = (ok (default_preferences\<lparr>pf_mic_enabled := False\<rparr>), T')"
proof -
  let ?C = "sample_cron\<lparr>ce_admin := True, ce_user := (\<lambda>u. Some \<lparr>up_email = Some ''u@x'', up_childName = None\<rparr>)\<rparr>"
  have t: "[''u'' \<mapsto> quiet_prefs] ''u'' = Some quiet_prefs" "\<not> pf_weekly_digest_enabled quiet_prefs"
    by (simp_all add: quiet_prefs_def)
  have b: "parse_preferences (Some (JObj [(''mic_enabled'', JBool False)])) = Some (Some False, None, None)"
    by (simp add: parse_preferences_def members_def optional_def a_bool_def)
  have c: "ce_admin ?C" "ce_user ?C ''u'' = Some \<lparr>up_email = Some ''u@x'', up_childName = None\<rparr>"
    "up_email \<lparr>up_email = Some ''u@x'', up_childName = None\<rparr> = Some ''u@x''" "''u@x'' \<noteq> []" by simp_all
  from saving_one_preference_resets_the_rest [where T = "[''u'' \<mapsto> quiet_prefs]" and u = "''u''", OF t b c,
      of sample_digest sample_dw]
  show ?thesis unfolding Let_def by blast
qed

end
