(* ===== verification/LiveRelay.thy ===== *)
theory LiveRelay
  imports LiveWorker
begin

text \<open>
  Live sessions on the server itself: the upgrade of a socket (\<open>api/src/index.ts\<close>), the session with
  Gemini (\<open>GeminiLiveSession.ts\<close>) and the relay between it and a client
  (\<open>api/src/infrastructure/services/GeminiLiveRelay.ts\<close>), one function per event handler.  A relay may
  start several sessions: they are kept in a list, in the order in which they were started, and
  \<open>rl_current\<close> is the one the variable \<open>liveSession\<close> holds.  The wait inside \<open>startSession\<close> is the time
  between the events \<open>ClientSays\<close> and \<open>Started\<close>.  JSON, Base64 and the texts of the prompts are
  fields of \<open>relay_env\<close>.  What the sentinel makes of the audio is the subject of theory \<open>Sentinel\<close>;
  logging is left out.
\<close>

subsection \<open>The upgrade of a socket\<close>

record server_request =
  sq_pathname :: string
  sq_headers :: "string \<Rightarrow> string option"
  sq_ticket :: "string option"              \<comment> \<open>the query parameter \<open>ticket\<close>\<close>

datatype socket_kind = LiveSocket | EventsSocket

datatype server_upgrade = Refused nat | Upgraded socket_kind string   \<comment> \<open>for the user\<close>

definition kind_of_path :: "string \<Rightarrow> socket_kind option" where
  "kind_of_path p =
     (if p = ''/api/v1/live/ws'' then Some LiveSocket
      else if p = ''/api/v1/events/ws'' then Some EventsSocket else None)"

definition server_ticket :: "environment \<Rightarrow> server_request \<Rightarrow> string option" where
  \<comment> \<open>a ticket among the protocols replaces the one of the query, up to its first dot\<close>
  "server_ticket env rq =
     (let query = (if is_production env then None else sq_ticket rq)
      in case or_undefined (sq_headers rq ''sec-websocket-protocol'') of
           None \<Rightarrow> query
         | Some ps \<Rightarrow>
             (case find (\<lambda>p. starts_with p ''ticket.'') (map js_trim (split_char (CHR '','') ps)) of
                None \<Rightarrow> query
              | Some p \<Rightarrow> Some (split_char (CHR ''.'') p ! 1)))"

definition server_upgrade ::
    "environment \<Rightarrow> string list \<Rightarrow> (string \<Rightarrow> ('w, bool) eff) \<Rightarrow> (string \<Rightarrow> ('w, string option) eff)
      \<Rightarrow> server_request \<Rightarrow> 'w \<Rightarrow> server_upgrade \<times> 'w" where
  \<comment> \<open>\<open>server.on('upgrade')\<close>: the allowed origins, \<open>verifyRateLimit\<close> and \<open>ticketStore.validate\<close>; where the
      limiter throws the socket is destroyed without an answer, written 0\<close>
  "server_upgrade env origins allow validate rq w =
     (case kind_of_path (sq_pathname rq) of
        None \<Rightarrow> (Refused 404, w)
      | Some k \<Rightarrow>
          (case allow (extractClientIp (sq_headers rq)) w of
             (Inl _, w1) \<Rightarrow> (Refused 0, w1)
           | (Inr False, w1) \<Rightarrow> (Refused 429, w1)
           | (Inr True, w1) \<Rightarrow>
               if (case or_undefined (sq_headers rq ''origin'') of None \<Rightarrow> True | Some g \<Rightarrow> g \<notin> set origins)
               then (Refused 403, w1)
               else (case or_undefined (server_ticket env rq) of
                       None \<Rightarrow> (Refused 401, w1)
                     | Some t \<Rightarrow>
                         (case validate t w1 of
                            (Inl _, w2) \<Rightarrow> (Refused 500, w2)
                          | (Inr u, w2) \<Rightarrow>
                              (if truthy_string u then Upgraded k (the u) else Refused 403, w2)))))"

definition events_reach :: "string option \<Rightarrow> string option \<Rightarrow> bool" where
  \<comment> \<open>the filter of an events socket: its user, and the user of the payload\<close>
  "events_reach userId payloadUserId \<longleftrightarrow> truthy_string userId \<and> payloadUserId = userId"

subsection \<open>Values without a type\<close>

definition js_truthy :: "json option \<Rightarrow> bool" where
  "js_truthy j =
     (case j of None \<Rightarrow> False | Some JNull \<Rightarrow> False | Some (JBool b) \<Rightarrow> b | Some (JNum x) \<Rightarrow> x \<noteq> 0
      | Some (JStr s) \<Rightarrow> s \<noteq> [] | Some _ \<Rightarrow> True)"

definition or_json :: "json option \<Rightarrow> json option \<Rightarrow> json option" where
  \<comment> \<open>\<open>a || b\<close>\<close>
  "or_json a b = (if js_truthy a then a else b)"

definition get_field :: "json option \<Rightarrow> string \<Rightarrow> json option" where
  \<comment> \<open>\<open>a?.[k]\<close>\<close>
  "get_field j k = (case j of Some (JObj kvs) \<Rightarrow> map_of kvs k | _ \<Rightarrow> None)"

definition first_item :: "json option \<Rightarrow> json option" where
  \<comment> \<open>\<open>a?.[0]\<close>\<close>
  "first_item j =
     (case j of
        Some (JArr (x # _)) \<Rightarrow> Some x | Some (JStr (c # _)) \<Rightarrow> Some (JStr [c])
      | Some (JObj kvs) \<Rightarrow> map_of kvs ''0'' | _ \<Rightarrow> None)"

definition upper_letter :: "char \<Rightarrow> bool" where
  "upper_letter c \<longleftrightarrow> 65 \<le> code c \<and> code c \<le> 90"

definition snake_key :: "string \<Rightarrow> string" where
  \<comment> \<open>\<open>key.replace(/([A-Z])/g, '_$1').toLowerCase()\<close>\<close>
  "snake_key k = js_lower (concat (map (\<lambda>c. if upper_letter c then [CHR ''_'', c] else [c]) k))"

fun put_key :: "string \<Rightarrow> json \<Rightarrow> (string \<times> json) list \<Rightarrow> (string \<times> json) list" where
  "put_key k v [] = [(k, v)]"
| "put_key k v ((k', v') # kvs) = (if k' = k then (k, v) # kvs else (k', v') # put_key k v kvs)"

definition snake_keys :: "(string \<times> json) list \<Rightarrow> (string \<times> json) list" where
  "snake_keys kvs = fold (\<lambda>(k, v). put_key (snake_key k) v) kvs []"

primrec toSnakeCase :: "json \<Rightarrow> json" where
  "toSnakeCase JNull = JNull"
| "toSnakeCase (JBool b) = JBool b"
| "toSnakeCase (JNum x) = JNum x"
| "toSnakeCase (JStr s) = JStr s"
| "toSnakeCase (JArr js) = JArr (map toSnakeCase js)"
| "toSnakeCase (JObj kvs) = JObj (snake_keys (map (map_prod id toSnakeCase) kvs))"

subsection \<open>A session with Gemini\<close>

record live_options =
  lo_systemInstruction :: "json option"
  lo_model :: "string option"
  lo_tools :: "json option"
  lo_generationConfig :: "json option"

definition setup_message :: "environment \<Rightarrow> live_options \<Rightarrow> json" where
  \<comment> \<open>sent when the socket opens; what is \<open>undefined\<close> is not written\<close>
  "setup_message env opt =
     JObj [(''setup'', JObj (
       [(''model'', JStr (or_string (or_undefined (lo_model opt))
           (or_string (env ''GEMINI_LIVE_MODEL'') ''models/gemini-2.5-flash-native-audio-latest''))),
        (''generation_config'', toSnakeCase
           (if js_truthy (lo_generationConfig opt) then the (lo_generationConfig opt)
            else JObj [(''response_modalities'', JArr [JStr ''AUDIO''])]))]
       @ (if js_truthy (lo_systemInstruction opt)
          then [(''system_instruction'',
                 JObj [(''parts'', JArr [JObj [(''text'', the (lo_systemInstruction opt))]])])] else [])
       @ (if js_truthy (lo_tools opt) then [(''tools'', toSnakeCase (the (lo_tools opt)))] else [])))]"

record gemini_session =
  gs_setup :: json
  gs_isOpen :: bool
  gs_sent :: "json list"
  gs_leaving :: bool                        \<comment> \<open>\<open>close\<close> was called on the open socket\<close>

definition new_session :: "environment \<Rightarrow> live_options \<Rightarrow> gemini_session" where
  "new_session env opt =
     \<lparr>gs_setup = setup_message env opt, gs_isOpen = False, gs_sent = [], gs_leaving = False\<rparr>"

definition session_open :: "gemini_session \<Rightarrow> gemini_session" where
  "session_open g = g\<lparr>gs_isOpen := True, gs_sent := gs_sent g @ [gs_setup g]\<rparr>"

definition send_json :: "json \<Rightarrow> gemini_session \<Rightarrow> gemini_session" where
  \<comment> \<open>a socket that is closing takes nothing more\<close>
  "send_json j g = (if gs_isOpen g \<and> \<not> gs_leaving g then g\<lparr>gs_sent := gs_sent g @ [j]\<rparr> else g)"

definition sendAudio :: "string \<Rightarrow> gemini_session \<Rightarrow> gemini_session" where
  "sendAudio chunk = send_json
     (JObj [(''realtime_input'', JObj [(''media_chunks'', JArr [JObj
        [(''mime_type'', JStr ''audio/pcm;rate=16000''), (''data'', JStr (btoa chunk))]])])])"

definition sendText :: "string \<Rightarrow> gemini_session \<Rightarrow> gemini_session" where
  "sendText t = send_json
     (JObj [(''client_content'', JObj
        [(''turns'', JArr [JObj [(''role'', JStr ''user''), (''parts'', JArr [JObj [(''text'', JStr t)]])]]),
         (''turn_complete'', JBool True)])])"

definition sendToolResponse :: "json \<Rightarrow> gemini_session \<Rightarrow> gemini_session" where
  "sendToolResponse j = send_json (JObj [(''tool_response'', j)])"

definition disconnect :: "gemini_session \<Rightarrow> gemini_session" where
  \<comment> \<open>a socket that is still connecting is left alone\<close>
  "disconnect g = (if gs_isOpen g then g\<lparr>gs_leaving := True\<rparr> else g)"

subsection \<open>Messages of Gemini\<close>

record relay_env =
  rv_env :: environment
  rv_apiKey :: bool
  rv_conductor_prompt :: string
  rv_pacing :: string                       \<comment> \<open>\<open>getSleepPacingOverrideInstruction\<close>\<close>
  rv_parse :: "string \<Rightarrow> json option"
  rv_bytes :: "string \<Rightarrow> string"            \<comment> \<open>what a Base64 text stands for\<close>

datatype live_signal = SAudio string | SText string | SToolCall json | SInterruption | SError json

definition part_signals :: "relay_env \<Rightarrow> json \<Rightarrow> live_signal list \<times> bool" where
  \<comment> \<open>one part of a turn, and whether it was read to its end: an error ends the message\<close>
  "part_signals E part =
     (if part = JNull then ([], False)
      else (let t = get_field (Some part) ''text'';
                inline = or_json (get_field (Some part) ''inlineData'') (get_field (Some part) ''inline_data'')
            in if js_truthy t \<and> \<not> is_string (the t) then ([], False)
               else (let said = (case t of Some (JStr s) \<Rightarrow> if s = [] then [] else [SText s] | _ \<Rightarrow> [])
                     in if \<not> js_truthy inline then (said, True)
                        else (case or_json (get_field inline ''mimeType'') (get_field inline ''mime_type'') of
                                Some (JStr m) \<Rightarrow>
                                  if \<not> starts_with m ''audio'' then (said, True)
                                  else (case get_field inline ''data'' of
                                          Some (JStr d) \<Rightarrow> (said @ [SAudio (rv_bytes E d)], True)
                                        | _ \<Rightarrow> (said, False))
                              | m \<Rightarrow> (said, \<not> js_truthy m)))))"

fun parts_signals :: "relay_env \<Rightarrow> json list \<Rightarrow> live_signal list \<times> bool" where
  "parts_signals E [] = ([], True)"
| "parts_signals E (p # ps) =
     (case part_signals E p of
        (xs, False) \<Rightarrow> (xs, False)
      | (xs, True) \<Rightarrow> (case parts_signals E ps of (ys, fine) \<Rightarrow> (xs @ ys, fine)))"

definition content_signals :: "relay_env \<Rightarrow> json option \<Rightarrow> live_signal list \<times> bool" where
  "content_signals E content =
     (if \<not> js_truthy content then ([], True)
      else (let turn = or_json (get_field content ''modelTurn'') (get_field content ''model_turn'');
                parts = get_field turn ''parts'';
                stop = (if js_truthy (get_field content ''interrupted'') then [SInterruption] else [])
            in if \<not> js_truthy parts then (stop, True)
               else (case parts of
                       Some (JArr ps) \<Rightarrow>
                         (case parts_signals E ps of (xs, True) \<Rightarrow> (xs @ stop, True) | (xs, False) \<Rightarrow> (xs, False))
                     | Some (JStr s) \<Rightarrow> (stop, True)
                     | _ \<Rightarrow> ([], False))))"

definition handleMessage :: "relay_env \<Rightarrow> string \<Rightarrow> live_signal list" where
  \<comment> \<open>what the handlers are called with, for the bytes of a message\<close>
  "handleMessage E d =
     (if \<not> starts_with d ''{'' then [SAudio d]
      else (case rv_parse E d of
              None \<Rightarrow> []
            | Some msg \<Rightarrow>
                let get = get_field (Some msg)
                in if js_truthy (get ''setupComplete'') then []
                   else if js_truthy (get ''error'') then [SError (the (get ''error''))]
                   else (case content_signals E (or_json (get ''serverContent'') (get ''server_content'')) of
                           (xs, False) \<Rightarrow> xs
                         | (xs, True) \<Rightarrow>
                             (let call = or_json (get ''toolCall'') (get ''tool_call'')
                              in xs @ (if js_truthy call then [SToolCall (the call)] else [])))))"

subsection \<open>The relay\<close>

datatype client_out =
    OutAudio string
  | OutText string
  | OutInterrupted
  | OutSleep real "string option"
  | OutGoogleError json
  | OutUpstreamClosed nat string
  | OutFailed string

record live_relay =
  rl_sid :: string
  rl_user :: "string option"
  rl_sessions :: "gemini_session list"
  rl_current :: "nat option"                \<comment> \<open>\<open>liveSession\<close>\<close>
  rl_active :: bool
  rl_buffer :: "string list"                \<comment> \<open>\<open>audioBufferQueue\<close>\<close>
  rl_starting :: "(json \<times> string option) list"   \<comment> \<open>calls of \<open>startSession\<close> that wait\<close>
  rl_subscribed :: "nat list"               \<comment> \<open>sleep handlers, by the session that registered them\<close>
  rl_clientOpen :: bool
  rl_out :: "client_out list"
  rl_closes :: "(nat \<times> string) list"
  rl_analyses :: "(string \<times> string) list"  \<comment> \<open>moment analyses: session and user\<close>

definition handleConnection :: "millis \<Rightarrow> string option \<Rightarrow> live_relay" where
  "handleConnection now userId =
     \<lparr>rl_sid = ''live_'' @ show_int now @ ''_'' @ or_string userId ''anon'', rl_user = userId,
      rl_sessions = [], rl_current = None, rl_active = False, rl_buffer = [], rl_starting = [],
      rl_subscribed = [], rl_clientOpen = True, rl_out = [], rl_closes = [], rl_analyses = []\<rparr>"

definition tell :: "client_out \<Rightarrow> live_relay \<Rightarrow> live_relay" where
  "tell x r = (if rl_clientOpen r then r\<lparr>rl_out := rl_out r @ [x]\<rparr> else r)"

definition at_session :: "nat \<Rightarrow> (gemini_session \<Rightarrow> gemini_session) \<Rightarrow> live_relay \<Rightarrow> live_relay" where
  "at_session i f r =
     (if i < length (rl_sessions r) then r\<lparr>rl_sessions := (rl_sessions r)[i := f (rl_sessions r ! i)]\<rparr> else r)"

definition to_current :: "(gemini_session \<Rightarrow> gemini_session) \<Rightarrow> live_relay \<Rightarrow> live_relay" where
  "to_current f r = (case rl_current r of None \<Rightarrow> r | Some i \<Rightarrow> at_session i f r)"

definition options_of :: "relay_env \<Rightarrow> json \<Rightarrow> live_options" where
  "options_of E config =
     (let c = Some config
      in \<lparr>lo_systemInstruction = or_json
            (get_field (first_item (get_field (get_field c ''systemInstruction'') ''parts'')) ''text'')
            (Some (JStr (rv_conductor_prompt E))),
          lo_model = (case get_field c ''model'' of Some (JStr m) \<Rightarrow> Some m | _ \<Rightarrow> None),
          lo_tools = get_field c ''tools'',
          lo_generationConfig = or_json (get_field c ''generationConfig'') (get_field c ''generation_config'')\<rparr>)"

definition no_key :: string where
  "no_key = ''Gemini API Key not configured (checked constructor and process.env)''"

definition startSession :: "relay_env \<Rightarrow> live_relay \<Rightarrow> live_relay" where
  \<comment> \<open>the oldest call that waits goes on\<close>
  "startSession E r =
     (case rl_starting r of
        [] \<Rightarrow> r
      | (config, trace) # waiting \<Rightarrow>
          let r1 = r\<lparr>rl_starting := waiting\<rparr>
          in if \<not> rv_apiKey E
             then (tell (OutFailed no_key) r1)\<lparr>rl_clientOpen := False, rl_closes := rl_closes r @ [(1011, take 100 (''Failed to start: '' @ no_key))]\<rparr>
             else (let i = length (rl_sessions r);
                       g = new_session (rv_env E) (options_of E config)
                   in r1\<lparr>rl_sessions := rl_sessions r @ [fold sendAudio (rl_buffer r) g],
                         rl_current := Some i, rl_active := True, rl_buffer := [],
                         rl_subscribed := rl_subscribed r @ [i]\<rparr>))"

definition client_audio :: "string \<Rightarrow> live_relay \<Rightarrow> live_relay" where
  "client_audio chunk r =
     (if rl_active r \<and> rl_current r \<noteq> None then to_current (sendAudio chunk) r
      else (let q = rl_buffer r @ [chunk] in r\<lparr>rl_buffer := (if length q > 50 then tl q else q)\<rparr>))"

definition client_text :: "relay_env \<Rightarrow> string \<Rightarrow> live_relay \<Rightarrow> live_relay" where
  "client_text E d r =
     (case rv_parse E d of
        None \<Rightarrow> r
      | Some msg \<Rightarrow>
          let get = get_field (Some msg)
          in if msg = JNull then r
             else if js_truthy (get ''setup'') \<and> \<not> rl_active r
             then r\<lparr>rl_sid := (case get ''sessionId'' of Some (JStr s) \<Rightarrow> if s = [] then rl_sid r else s | _ \<Rightarrow> rl_sid r),
                    rl_starting := rl_starting r @ [(the (get ''setup''),
                      case get ''traceId'' of Some (JStr t) \<Rightarrow> Some t | _ \<Rightarrow> None)]\<rparr>
             else if \<not> rl_active r then r
             else (let content = or_json (get ''clientContent'') (get ''client_content'');
                       said = get_field (first_item (get_field (first_item (get_field content ''turns'')) ''parts'')) ''text'';
                       answer = (if js_truthy (get ''toolResponse'')
                                 then to_current (sendToolResponse (the (get ''toolResponse''))) else id)
                   in if \<not> js_truthy said then answer r
                      else (case said of Some (JStr t) \<Rightarrow> answer (to_current (sendText t) r) | _ \<Rightarrow> r)))"

definition client_gone :: "live_relay \<Rightarrow> live_relay" where
  "client_gone r = to_current disconnect (r\<lparr>rl_clientOpen := False\<rparr>)"

definition on_signal :: "live_signal \<Rightarrow> live_relay \<Rightarrow> live_relay" where
  \<comment> \<open>the relay registers no handler for tool calls\<close>
  "on_signal s r =
     (case s of
        SAudio a \<Rightarrow> tell (OutAudio a) r | SText t \<Rightarrow> tell (OutText t) r | SInterruption \<Rightarrow> tell OutInterrupted r
      | SError e \<Rightarrow> tell (OutGoogleError e) r | SToolCall j \<Rightarrow> r)"

definition gemini_closed :: "nat \<Rightarrow> nat \<Rightarrow> string \<Rightarrow> live_relay \<Rightarrow> live_relay" where
  "gemini_closed i n why r =
     (let r1 = at_session i (\<lambda>g. g\<lparr>gs_isOpen := False\<rparr>) r;
          r2 = (if n \<noteq> 0 \<and> n \<noteq> 1000 \<and> n \<noteq> 1005 then tell (OutUpstreamClosed n (or_string (Some why) ''No Reason'')) r1 else r1)
      in r2\<lparr>rl_subscribed := removeAll i (rl_subscribed r2), rl_clientOpen := False, rl_closes := rl_closes r2 @ [(1000, ''Session ended'')]\<rparr>)"

record sleep_payload =
  sp_sessionId :: "string option"
  sp_userId :: "string option"
  sp_confidence :: "real option"
  sp_cue :: "string option"

definition sleep_handler :: "relay_env \<Rightarrow> sleep_payload \<Rightarrow> live_relay \<Rightarrow> live_relay" where
  "sleep_handler E p r =
     (if sp_sessionId p \<noteq> Some (rl_sid r) \<or> sp_userId p \<noteq> rl_user r then r
      else if \<not> rl_clientOpen r then r
      else (let r1 = to_current (sendText (rv_pacing E))
                       (tell (OutSleep (case sp_confidence p of None \<Rightarrow> 1 | Some c \<Rightarrow> c) (sp_cue p)) r)
            in if truthy_string (rl_user r)
               then r1\<lparr>rl_analyses := rl_analyses r @ [(rl_sid r, the (rl_user r))]\<rparr> else r1))"

definition sleep_event :: "relay_env \<Rightarrow> sleep_payload \<Rightarrow> live_relay \<Rightarrow> live_relay" where
  \<comment> \<open>every handler that is subscribed\<close>
  "sleep_event E p r = ((sleep_handler E p) ^^ length (rl_subscribed r)) r"

datatype live_event =
    ClientSays string
  | ClientAudio string
  | ClientGone
  | Started
  | GeminiOpened nat
  | GeminiSays nat string
  | GeminiClosed nat nat string
  | SleepCued sleep_payload

fun live_step :: "relay_env \<Rightarrow> live_event \<Rightarrow> live_relay \<Rightarrow> live_relay" where
  "live_step E (ClientSays d) r = client_text E d r"
| "live_step E (ClientAudio a) r = client_audio a r"
| "live_step E ClientGone r = client_gone r"
| "live_step E Started r = startSession E r"
| "live_step E (GeminiOpened i) r = at_session i session_open r"
| "live_step E (GeminiSays i d) r = (if i < length (rl_sessions r) then fold on_signal (handleMessage E d) r else r)"
| "live_step E (GeminiClosed i n why) r = (if i < length (rl_sessions r) then gemini_closed i n why r else r)"
| "live_step E (SleepCued p) r = sleep_event E p r"

definition live_run :: "relay_env \<Rightarrow> live_event list \<Rightarrow> live_relay \<Rightarrow> live_relay" where
  "live_run E es r = fold (live_step E) es r"

end
