(* ===== verification/LiveClient.thy ===== *)
theory LiveClient
  imports LiveRelay LiveRoutes
begin

text \<open>
  The live session in the browser: the hook \<open>useGeminiLive\<close>
  (\<open>src/src/presentation/hooks/useGeminiLive.ts\<close>), one function per handler over the state of its
  references.  A frame of the socket, the answer of a request and a block of the microphone are
  events; \<open>JSON.parse\<close> and \<open>atob\<close> are fields of \<open>client_env\<close>.  The audio graph and the identifiers
  and times of log entries are left out.  \<open>config_json\<close> is the configuration of \<open>LiveSessionFactory\<close> as
  the route \<open>/live/init\<close> answers it.
\<close>

subsection \<open>The configuration as it is sent\<close>

definition strings_json :: "string list \<Rightarrow> json" where
  "strings_json xs = JArr (map JStr xs)"

definition declaration_json :: "tool_declaration \<Rightarrow> json" where
  "declaration_json d =
     JObj [(''name'', JStr (td_name d)), (''description'', JStr (td_description d)),
       (''parameters'', JObj [(''type'', JStr ''object''),
          (''properties'', JObj (map (\<lambda>(k, values, about).
             (k, JObj ([(''type'', JStr ''string'')]
                  @ (case values of None \<Rightarrow> [] | Some vs \<Rightarrow> [(''enum'', strings_json vs)])
                  @ [(''description'', JStr about)]))) (td_properties d))),
          (''required'', strings_json (td_required d))])]"

definition config_json :: "live_config \<Rightarrow> json" where
  "config_json c =
     JObj [(''model'', JStr (lc_model c)),
       (''system_instruction'', JObj [(''parts'', JArr [JObj [(''text'', JStr (lc_system_instruction c))]])]),
       (''generation_config'', JObj [
          (''response_modalities'', strings_json (lc_response_modalities c)),
          (''speech_config'', JObj [(''voice_config'', JObj [(''prebuilt_voice_config'',
             JObj [(''voice_name'', JStr (lc_voice_name c))])])])]),
       (''tools'', JArr [JObj [(''function_declarations'', JArr (map declaration_json (lc_tools c)))]])]"

definition grant_json :: "live_grant \<Rightarrow> json" where
  \<comment> \<open>what \<open>/live/init\<close> answers\<close>
  "grant_json g =
     JObj [(''config'', config_json (lg_config g)), (''ticket'', JStr (lg_ticket g)),
       (''sessionId'', JStr (lg_sessionId g)), (''traceId'', JStr (lg_traceId g))]"

subsection \<open>The state of the hook\<close>

record client_env =
  ce_parse :: "string \<Rightarrow> json option"
  ce_atob :: "json \<Rightarrow> string option"        \<comment> \<open>\<open>None\<close> where it throws\<close>

record live_hook =
  lh_token :: "string option"               \<comment> \<open>\<open>session?.access_token\<close>\<close>
  lh_connected :: bool
  lh_speaking :: bool
  lh_error :: "string option"
  lh_sessionId :: string
  lh_traceId :: "string option"
  lh_config :: "json option"                \<comment> \<open>the configuration \<open>onopen\<close> will send\<close>
  lh_protocols :: "string list option"      \<comment> \<open>the socket of \<open>wsRef\<close> and its protocols\<close>
  lh_open :: bool
  lh_sent :: "json list"
  lh_requests :: "(string \<times> json) list"     \<comment> \<open>path and body\<close>
  lh_played :: "string list"                \<comment> \<open>what the streamer has queued\<close>
  lh_cues :: nat                            \<comment> \<open>events \<open>dreamweaver:sleep_cue\<close>\<close>
  lh_logs :: "(string \<times> string) list"

definition new_hook :: "string option \<Rightarrow> live_hook" where
  "new_hook tok =
     \<lparr>lh_token = tok, lh_connected = False, lh_speaking = False, lh_error = None,
      lh_sessionId = ''current-session'', lh_traceId = None, lh_config = None, lh_protocols = None,
      lh_open = False, lh_sent = [], lh_requests = [], lh_played = [], lh_cues = 0, lh_logs = []\<rparr>"

definition addLog :: "string \<Rightarrow> string \<Rightarrow> live_hook \<Rightarrow> live_hook" where
  \<comment> \<open>\<open>[...prev.slice(-49), entry]\<close>\<close>
  "addLog kind txt h =
     h\<lparr>lh_logs := drop (length (lh_logs h) - 49) (lh_logs h) @ [(kind, txt)]\<rparr>"

definition hook_send :: "json \<Rightarrow> live_hook \<Rightarrow> live_hook" where
  "hook_send j h = (if lh_open h then h\<lparr>lh_sent := lh_sent h @ [j]\<rparr> else h)"

definition leave_hook :: "live_hook \<Rightarrow> live_hook" where
  \<comment> \<open>\<open>disconnect\<close>\<close>
  "leave_hook h = h\<lparr>lh_open := False, lh_connected := False\<rparr>"

subsection \<open>To connect\<close>

definition connect_failed :: "string \<Rightarrow> live_hook \<Rightarrow> live_hook" where
  "connect_failed msg h = h\<lparr>lh_error := Some msg, lh_connected := False\<rparr>"

definition connect_call :: "string \<Rightarrow> string \<Rightarrow> real \<Rightarrow> live_hook \<Rightarrow> live_hook" where
  \<comment> \<open>up to the request, for a new identifier\<close>
  "connect_call newId childName childAge h =
     (let h1 = h\<lparr>lh_error := None\<rparr>
      in if \<not> truthy_string (lh_token h) then connect_failed ''Not authenticated'' h1
         else h1\<lparr>lh_sessionId := newId,
                 lh_requests := lh_requests h @ [(''/api/v1/live/init'', JObj
                   [(''sessionId'', JStr newId), (''childName'', JStr childName), (''childAge'', JNum childAge)])]\<rparr>)"

definition connect_answer :: "nat \<Rightarrow> json option \<Rightarrow> live_hook \<Rightarrow> live_hook" where
  \<comment> \<open>the answer: its status, and its text where that is JSON; an error that is no string is shown as the
      text of the status\<close>
  "connect_answer status parsed h =
     (if \<not> (200 \<le> status \<and> status < 300)
      then connect_failed (case get_field parsed ''error'' of
               Some (JStr s) \<Rightarrow> if s = [] then ''Failed to init session ('' @ show_nat status @ '')'' else s
             | _ \<Rightarrow> ''Failed to init session ('' @ show_nat status @ '')'') h
      else (case get_field parsed ''ticket'' of
              Some (JStr t) \<Rightarrow>
                if t = [] then connect_failed ''Missing live ticket'' h
                else h\<lparr>lh_traceId := (case get_field parsed ''traceId'' of
                                      Some (JStr x) \<Rightarrow> if x = [] then None else Some x | _ \<Rightarrow> None),
                       lh_config := get_field parsed ''config'',
                       lh_protocols := Some [''dw.live.v1'', ''ticket.'' @ t]\<rparr>
            | _ \<Rightarrow> connect_failed ''Missing live ticket'' h))"

definition setup_frame :: "json option \<Rightarrow> json" where
  \<comment> \<open>\<open>JSON.stringify({ setup: config })\<close>\<close>
  "setup_frame config = JObj (case config of None \<Rightarrow> [] | Some c \<Rightarrow> [(''setup'', c)])"

definition text_frame :: "string \<Rightarrow> json" where
  "text_frame t =
     JObj [(''client_content'', JObj [
       (''turns'', JArr [JObj [(''role'', JStr ''user''), (''parts'', JArr [JObj [(''text'', JStr t)]])]]),
       (''turn_complete'', JBool True)])]"

definition greeting_frame :: json where
  "greeting_frame = text_frame ''Please start the bedtime ritual now with a short calming greeting and begin guiding the session.''"

definition socket_opened :: "live_hook \<Rightarrow> live_hook" where
  "socket_opened h =
     hook_send greeting_frame (hook_send (setup_frame (lh_config h))
       (addLog ''system'' ''Connected to Gemini Live'' (h\<lparr>lh_connected := True, lh_open := True\<rparr>)))"

definition socket_failed :: "live_hook \<Rightarrow> live_hook" where
  "socket_failed h = leave_hook (h\<lparr>lh_error := Some ''Connection error''\<rparr>)"

definition socket_closed :: "nat \<Rightarrow> live_hook \<Rightarrow> live_hook" where
  "socket_closed n h =
     (addLog ''system'' (''Connection Closed ('' @ show_nat n @ '')'') h)\<lparr>lh_open := False, lh_connected := False\<rparr>"

subsection \<open>The microphone\<close>

definition mic_frame :: "string \<Rightarrow> json" where
  "mic_frame bytes =
     JObj [(''realtime_input'', JObj [(''media_chunks'', JArr [JObj
        [(''mime_type'', JStr ''audio/pcm;rate=16000''), (''data'', JStr (btoa bytes))]])])]"

definition mic_block :: "string \<Rightarrow> live_hook \<Rightarrow> live_hook" where
  "mic_block bytes h = hook_send (mic_frame bytes) h"

subsection \<open>Frames of the socket\<close>

definition play :: "string \<Rightarrow> live_hook \<Rightarrow> live_hook" where
  "play a h = h\<lparr>lh_speaking := True, lh_played := lh_played h @ [a]\<rparr>"

definition handleToolCall :: "json \<Rightarrow> live_hook \<Rightarrow> live_hook" where
  \<comment> \<open>up to the request; an error is only logged to the console\<close>
  "handleToolCall call h =
     (if \<not> truthy_string (lh_token h) then h
      else (case get_field (Some call) ''name'' of
              Some (JStr n) \<Rightarrow>
                let h1 = addLog ''decision'' (''Executing Tool: '' @ n) h
                in h1\<lparr>lh_requests := lh_requests h @ [(''/api/v1/live/tool'', JObj (
                     [(''toolName'', JStr n)]
                     @ (case get_field (Some call) ''args'' of None \<Rightarrow> [] | Some a \<Rightarrow> [(''arguments'', a)])
                     @ [(''sessionId'', JStr (lh_sessionId h)),
                        (''traceId'', case lh_traceId h of None \<Rightarrow> JNull | Some t \<Rightarrow> JStr t)]
                     @ (case get_field (Some call) ''id'' of
                          Some (JStr i) \<Rightarrow> [(''toolCallId'', JStr i)] | _ \<Rightarrow> [])))]\<rparr>
            | _ \<Rightarrow> h))"

definition tool_answer :: "json \<Rightarrow> json option \<Rightarrow> live_hook \<Rightarrow> live_hook" where
  \<comment> \<open>the answer of the tool goes back to the model; \<open>None\<close> is an answer that is no JSON\<close>
  "tool_answer call parsed h =
     (case parsed of
        None \<Rightarrow> h
      | Some JNull \<Rightarrow> h
      | Some _ \<Rightarrow>
          let given = (\<lambda>k v. case v of None \<Rightarrow> [] | Some x \<Rightarrow> [(k, x)]);
              err = get_field parsed ''error'';
              res = (if js_truthy err then Some (JObj [(''error'', the err)]) else get_field parsed ''result'')
          in hook_send (JObj [(''toolResponse'', JObj [(''functionResponses'', JArr [JObj (
               given ''name'' (get_field (Some call) ''name'') @ given ''id'' (get_field (Some call) ''id'')
               @ [(''response'', JObj (given ''result'' res))])])])]) h)"

definition inline_audio :: "client_env \<Rightarrow> json option \<Rightarrow> live_hook \<Rightarrow> live_hook option" where
  \<comment> \<open>the audio of the first part; \<open>None\<close> where reading it throws outside the \<open>try\<close>\<close>
  "inline_audio C content h =
     (let inline = get_field (first_item (get_field (get_field content ''modelTurn'') ''parts'')) ''inlineData'';
          bytes = get_field inline ''data''
      in case get_field inline ''mimeType'' of
           None \<Rightarrow> Some h
         | Some JNull \<Rightarrow> Some h
         | Some (JStr m) \<Rightarrow>
             if \<not> (starts_with m ''audio/pcm'' \<and> js_truthy bytes) then Some h
             else Some (case ce_atob C (the bytes) of None \<Rightarrow> h | Some a \<Rightarrow> play a h)
         | Some _ \<Rightarrow> None)"

definition server_text :: "client_env \<Rightarrow> json \<Rightarrow> live_hook \<Rightarrow> live_hook" where
  "server_text C data h =
     (if data = JNull then h
      else (let content = get_field (Some data) ''serverContent''
            in case inline_audio C content h of
                 None \<Rightarrow> h
               | Some h1 \<Rightarrow>
                   let h2 = (if js_truthy (get_field content ''interrupted'')
                             then (addLog ''safety'' ''Interrupted by Server (User Speaking)'' h1)
                                    \<lparr>lh_played := [], lh_speaking := False\<rparr> else h1);
                       h3 = (if js_truthy (get_field content ''turnComplete'') then h2\<lparr>lh_speaking := False\<rparr> else h2);
                       h4 = (if js_truthy (get_field (get_field content ''sleepDetection'') ''isAsleep'')
                             then h3\<lparr>lh_cues := Suc (lh_cues h3)\<rparr> else h3);
                       call = get_field (Some data) ''toolCall''
                   in if \<not> js_truthy call then h4
                      else (case first_item (get_field call ''functionCalls'') of
                              None \<Rightarrow> h4 | Some c \<Rightarrow> handleToolCall c h4)))"

definition handleServerMessage :: "client_env \<Rightarrow> bool \<Rightarrow> string \<Rightarrow> live_hook \<Rightarrow> live_hook" where
  \<comment> \<open>a frame: whether it is binary, and its data\<close>
  "handleServerMessage C binary d h =
     (if binary then play d h
      else (case ce_parse C d of None \<Rightarrow> h | Some data \<Rightarrow> server_text C data h))"

datatype hook_event =
    HookConnect string string real
  | HookAnswer nat "json option"
  | HookOpened
  | HookFailed
  | HookClosed nat
  | HookMic string
  | HookFrame bool string
  | HookToolAnswer json "json option"
  | HookDisconnect

fun hook_step :: "client_env \<Rightarrow> hook_event \<Rightarrow> live_hook \<Rightarrow> live_hook" where
  "hook_step C (HookConnect i n a) h = connect_call i n a h"
| "hook_step C (HookAnswer s j) h = connect_answer s j h"
| "hook_step C HookOpened h = socket_opened h"
| "hook_step C HookFailed h = socket_failed h"
| "hook_step C (HookClosed n) h = socket_closed n h"
| "hook_step C (HookMic b) h = mic_block b h"
| "hook_step C (HookFrame bin d) h = handleServerMessage C bin d h"
| "hook_step C (HookToolAnswer call j) h = tool_answer call j h"
| "hook_step C HookDisconnect h = leave_hook h"

end
