(* ===== verification/LiveRelayTheorems.thy ===== *)
theory LiveRelayTheorems
  imports LiveClient LiveRoutesTheorems
begin

text \<open>
  What a live session on the server keeps: the invariant of a relay and its sessions over every
  sequence of events, and what becomes of the browser's messages (theory \<open>LiveClient\<close>) in it.
\<close>

subsection \<open>The invariant of a relay\<close>

definition session_ok :: "relay_env \<Rightarrow> gemini_session \<Rightarrow> bool" where
  \<comment> \<open>nothing precedes the configuration, which is made of a message of the client\<close>
  "session_ok E g \<longleftrightarrow> (\<exists>config. gs_setup g = setup_message (rv_env E) (options_of E config))
     \<and> (if gs_sent g = [] then \<not> gs_isOpen g else hd (gs_sent g) = gs_setup g)"

definition relay_ok :: "relay_env \<Rightarrow> live_relay \<Rightarrow> bool" where
  "relay_ok E r \<longleftrightarrow>
     list_all (session_ok E) (rl_sessions r) \<and> length (rl_buffer r) \<le> 50
     \<and> rl_active r = (rl_current r \<noteq> None)
     \<and> rl_current r = (if rl_sessions r = [] then None else Some (length (rl_sessions r) - 1))
     \<and> distinct (rl_subscribed r) \<and> set (rl_subscribed r) \<subseteq> {..<length (rl_sessions r)}"

lemma relay_okE:
  assumes "relay_ok E r"
  shows "\<And>g. g \<in> set (rl_sessions r) \<Longrightarrow> session_ok E g" and "length (rl_buffer r) \<le> 50"
    and "rl_active r = (rl_current r \<noteq> None)"
    and "rl_current r = (if rl_sessions r = [] then None else Some (length (rl_sessions r) - 1))"
    and "distinct (rl_subscribed r)" and "\<And>i. i \<in> set (rl_subscribed r) \<Longrightarrow> i < length (rl_sessions r)"
  using assms by (auto simp: relay_ok_def list_all_iff)

lemma session_ok_send: "session_ok E g \<Longrightarrow> session_ok E (send_json j g)"
  by (auto simp: session_ok_def send_json_def split: if_splits)

lemma session_ok_open: "session_ok E g \<Longrightarrow> session_ok E (session_open g)"
  by (auto simp: session_ok_def session_open_def split: if_splits)

lemma session_ok_audio: "session_ok E g \<Longrightarrow> session_ok E (sendAudio c g)"
  by (simp add: sendAudio_def session_ok_send)

lemma session_ok_disconnect: "session_ok E g \<Longrightarrow> session_ok E (disconnect g)"
  by (auto simp: session_ok_def disconnect_def)

lemma closed_audio: "\<not> gs_isOpen g \<Longrightarrow> fold sendAudio cs g = g"
  by (induction cs) (auto simp: sendAudio_def send_json_def)

lemma new_session_closed [simp]: "\<not> gs_isOpen (new_session env opt)"
  by (simp add: new_session_def)

lemma session_ok_new: "session_ok E (fold sendAudio cs (new_session (rv_env E) (options_of E config)))"
  by (simp add: closed_audio) (auto simp: session_ok_def new_session_def)

lemma relay_ok_tell: "relay_ok E r \<Longrightarrow> relay_ok E (tell x r)"
  by (simp add: relay_ok_def tell_def)

lemma relay_ok_at:
  assumes "relay_ok E r" and "\<And>g. session_ok E g \<Longrightarrow> session_ok E (f g)"
  shows "relay_ok E (at_session i f r)"
  using assms by (auto simp: relay_ok_def at_session_def list_all_length nth_list_update)

lemma relay_ok_current:
  assumes "relay_ok E r" and "\<And>g. session_ok E g \<Longrightarrow> session_ok E (f g)"
  shows "relay_ok E (to_current f r)"
  using assms by (simp add: to_current_def relay_ok_at split: option.split)

lemmas relay_ok_sends =
  relay_ok_current [OF _ session_ok_send] relay_ok_current [OF _ session_ok_audio]
  relay_ok_current [OF _ session_ok_disconnect]

lemma relay_ok_start:
  assumes "relay_ok E r"
  shows "relay_ok E (startSession E r)"
proof (cases "rl_starting r")
  case Nil
  then show ?thesis using assms by (simp add: startSession_def)
next
  case (Cons p waiting)
  obtain config trace where p: "p = (config, trace)" by force
  show ?thesis
  proof (cases "rv_apiKey E")
    case True
    have "length (rl_sessions r) \<notin> set (rl_subscribed r)" using relay_okE(6) [OF assms] by blast
    then show ?thesis using assms Cons p True
      by (auto simp: startSession_def Let_def relay_ok_def session_ok_new less_Suc_eq)
  next
    case False
    then show ?thesis using assms Cons p
      by (simp add: startSession_def Let_def relay_ok_def tell_def)
  qed
qed

lemma relay_ok_answers:
  assumes "relay_ok E r"
  shows "relay_ok E (to_current (sendToolResponse j) r)" and "relay_ok E (to_current (sendText x) r)"
    and "relay_ok E (r\<lparr>rl_sid := i, rl_starting := q\<rparr>)"
  using assms by (simp_all add: sendToolResponse_def sendText_def relay_ok_sends) (simp add: relay_ok_def)

lemma client_text_rule:
  assumes "P r"
    and "\<And>i q. \<not> rl_active r \<Longrightarrow> P (r\<lparr>rl_sid := i, rl_starting := q\<rparr>)"
    and tool: "\<And>j r'. P r' \<Longrightarrow> P (to_current (sendToolResponse j) r')"
    and saying: "\<And>t. P (to_current (sendText t) r)"
  shows "P (client_text E d r)"
proof (cases "rv_parse E d")
  case None
  then show ?thesis using assms(1) by (simp add: client_text_def)
next
  case (Some msg)
  define said where "said = get_field (first_item (get_field (first_item (get_field
    (or_json (get_field (Some msg) ''clientContent'') (get_field (Some msg) ''client_content''))
       ''turns'')) ''parts'')) ''text''"
  define answer where "answer = (if js_truthy (get_field (Some msg) ''toolResponse'')
    then to_current (sendToolResponse (the (get_field (Some msg) ''toolResponse''))) else id)"
  have ans: "P r' \<Longrightarrow> P (answer r')" for r'
    by (simp add: answer_def tool)
  have "P (answer r)"
    and "P (case said of Some (JStr t) \<Rightarrow> answer (to_current (sendText t) r) | _ \<Rightarrow> r)"
    using assms(1) by (simp_all add: ans saying split: option.split json.split)
  then show ?thesis using assms(1,2)
    by (simp add: client_text_def Some Let_def flip: said_def answer_def)
qed

lemma relay_ok_text: "relay_ok E r \<Longrightarrow> relay_ok E (client_text E d r)"
  by (rule client_text_rule) (simp_all add: relay_ok_answers)

lemma relay_ok_signals: "relay_ok E r \<Longrightarrow> relay_ok E (fold on_signal xs r)"
  by (induction xs arbitrary: r) (simp_all add: on_signal_def relay_ok_tell split: live_signal.split)

lemma relay_ok_sleep:
  assumes "relay_ok E r"
  shows "relay_ok E (sleep_event E p r)"
proof -
  have one: "relay_ok E (sleep_handler E p r')" if "relay_ok E r'" for r'
  proof -
    have "relay_ok E (to_current (sendText (rv_pacing E)) (tell x r'))" for x
      using that by (simp add: sendText_def relay_ok_sends relay_ok_tell)
    then show ?thesis using that
      by (simp add: sleep_handler_def Let_def relay_ok_def)
  qed
  have "relay_ok E ((sleep_handler E p ^^ n) r)" for n
    by (induction n) (simp_all add: assms one)
  then show ?thesis by (simp add: sleep_event_def)
qed

lemma relay_ok_closed:
  assumes "relay_ok E r"
  shows "relay_ok E (gemini_closed i n why r)"
proof -
  have "relay_ok E (at_session i (\<lambda>g. g\<lparr>gs_isOpen := False\<rparr>) r)"
    by (rule relay_ok_at [OF assms]) (auto simp: session_ok_def split: if_splits)
  then show ?thesis
    by (auto simp: gemini_closed_def Let_def relay_ok_def tell_def distinct_removeAll)
qed

lemma relay_ok_step: "relay_ok E r \<Longrightarrow> relay_ok E (live_step E e r)"
proof (cases e)
  case (ClientAudio a)
  moreover assume "relay_ok E r"
  ultimately show ?thesis
    by (auto simp: client_audio_def Let_def relay_ok_sends) (auto simp: relay_ok_def split: if_splits)
next
  case ClientGone
  moreover assume "relay_ok E r"
  then have "relay_ok E (r\<lparr>rl_clientOpen := False\<rparr>)" by (simp add: relay_ok_def)
  ultimately show ?thesis by (simp add: client_gone_def relay_ok_sends)
qed (simp_all add: relay_ok_text relay_ok_start relay_ok_at session_ok_open relay_ok_signals
      relay_ok_closed relay_ok_sleep)

lemma relay_ok_run: "relay_ok E r \<Longrightarrow> relay_ok E (live_run E es r)"
  by (induction es arbitrary: r) (simp_all add: live_run_def relay_ok_step)

lemma relay_ok_new: "relay_ok E (handleConnection now u)"
  by (simp add: relay_ok_def handleConnection_def)

text \<open>A client that is gone is told nothing more, and no moment is looked for.\<close>

definition silent_since :: "live_relay \<Rightarrow> live_relay \<Rightarrow> bool" where
  "silent_since r r' \<longleftrightarrow>
     \<not> rl_clientOpen r' \<and> rl_out r' = rl_out r \<and> rl_analyses r' = rl_analyses r"

lemma silent_tell: "silent_since r r' \<Longrightarrow> tell x r' = r'"
  by (simp add: silent_since_def tell_def)

lemma silent_at: "silent_since r (at_session i f r') = silent_since r r'"
  by (simp add: at_session_def silent_since_def)

lemma silent_current: "silent_since r (to_current f r') = silent_since r r'"
  by (simp add: to_current_def silent_at split: option.split)

lemma silent_signals: "silent_since r r' \<Longrightarrow> fold on_signal xs r' = r'"
  by (induction xs) (simp_all add: on_signal_def silent_tell split: live_signal.split)

lemma silent_sleep: "silent_since r r' \<Longrightarrow> (sleep_handler E p ^^ n) r' = r'"
  by (induction n) (simp_all add: sleep_handler_def silent_since_def)

lemma silent_text: "silent_since r r' \<Longrightarrow> silent_since r (client_text E d r')"
  by (rule client_text_rule) (simp_all add: silent_current, simp add: silent_since_def)

lemma silent_step:
  assumes "silent_since r r'"
  shows "silent_since r (live_step E e r')"
proof (cases e)
  case Started
  with assms show ?thesis
    by (simp add: startSession_def Let_def tell_def split: list.split) (simp add: silent_since_def)
next
  case (ClientAudio a)
  with assms show ?thesis
    by (simp add: client_audio_def Let_def silent_current) (simp add: silent_since_def)
next
  case ClientGone
  with assms show ?thesis by (simp add: client_gone_def silent_current) (simp add: silent_since_def)
next
  case (GeminiClosed i n why)
  with assms show ?thesis
    by (simp add: gemini_closed_def Let_def silent_tell silent_at)
       (simp add: silent_since_def at_session_def)
qed (use assms in \<open>simp_all add: silent_text silent_at silent_signals silent_sleep sleep_event_def\<close>)

lemma silent_run: "silent_since r r' \<Longrightarrow> silent_since r (live_run E es r')"
  by (induction es arbitrary: r') (simp_all add: live_run_def silent_step)

text \<open>C34: on every sequence of events of a connection (messages and audio of the client, its leaving, the
  start of sessions, their opening, messages and closing, sleep cues) each session with Gemini sends
  nothing before it is open and its first message is the setup made of a message of the client; at
  most 50 blocks of audio wait; the relay is active exactly when it has a session, and its current one
  is the last; a sleep handler is registered at most once per session.  A client that is gone is told
  nothing more by whatever follows, and no analysis of moments is started for it.
\<close>

theorem relay_invariant:
  "let r = live_run E es (handleConnection now u)
   in relay_ok E r
      \<and> (rl_clientOpen r \<or> rl_out (live_run E es' r) = rl_out r
            \<and> rl_analyses (live_run E es' r) = rl_analyses r)"
proof -
  define r where "r = live_run E es (handleConnection now u)"
  have "relay_ok E r" by (simp add: r_def relay_ok_run relay_ok_new)
  moreover have "silent_since r (live_run E es' r)" if "\<not> rl_clientOpen r"
    using that by (intro silent_run) (simp add: silent_since_def)
  ultimately show ?thesis by (simp add: silent_since_def flip: r_def) blast
qed

theorem relay_invariant_witness:
  "let E = \<lparr>rv_env = (\<lambda>_. None), rv_apiKey = True, rv_conductor_prompt = ''p'', rv_pacing = ''slow'',
            rv_parse = (\<lambda>d. if d = ''setup'' then Some (JObj [(''setup'', JObj [(''model'', JStr ''m'')])]) else None),
            rv_bytes = (\<lambda>d. d)\<rparr>;
       r = live_run E [ClientAudio ''a'', ClientSays ''setup'', Started, GeminiOpened 0, ClientGone]
             (handleConnection 7 (Some ''u''))
   in relay_ok E r \<and> rl_out (live_run E [GeminiSays 0 ''sound''] r) = []"
  using relay_invariant [of "\<lparr>rv_env = (\<lambda>_. None), rv_apiKey = True, rv_conductor_prompt = ''p'', rv_pacing = ''slow'',
            rv_parse = (\<lambda>d. if d = ''setup'' then Some (JObj [(''setup'', JObj [(''model'', JStr ''m'')])]) else None),
            rv_bytes = (\<lambda>d. d)\<rparr>" "[ClientAudio ''a'', ClientSays ''setup'', Started, GeminiOpened 0, ClientGone]"
      7 "Some ''u''" "[GeminiSays 0 ''sound'']"]
  by (simp add: Let_def live_run_def client_audio_def client_text_def get_field_def js_truthy_def
      startSession_def client_gone_def to_current_def at_session_def handleConnection_def
      handleMessage_def on_signal_def tell_def)

subsection \<open>The browser on this server\<close>

lemmas client_reading =
  client_text_def get_field_def js_truthy_def or_json_def first_item_def setup_frame_def
  text_frame_def greeting_frame_def mic_frame_def config_json_def

lemma read_setup:
  assumes "rv_parse E d = Some (setup_frame (Some (config_json c)))" and "\<not> rl_active r"
  shows "client_text E d r = r\<lparr>rl_starting := rl_starting r @ [(config_json c, None)]\<rparr>"
  using assms by (simp add: client_reading Let_def)

lemma read_text:
  assumes "rv_parse E d = Some (text_frame t)" and "t \<noteq> []"
  shows "client_text E d r = (if rl_active r then to_current (sendText t) r else r)"
  using assms by (simp add: client_reading Let_def)

lemma read_microphone:
  assumes "rv_parse E d = Some (mic_frame b)"
  shows "client_text E d r = r"
  using assms by (simp add: client_reading Let_def)

lemma granted_options:
  "options_of E (config_json c) =
     \<lparr>lo_systemInstruction = Some (JStr (rv_conductor_prompt E)), lo_model = Some (lc_model c),
      lo_tools = get_field (Some (config_json c)) ''tools'',
      lo_generationConfig = get_field (Some (config_json c)) ''generation_config''\<rparr>"
  by (simp add: options_of_def config_json_def get_field_def first_item_def or_json_def js_truthy_def)

lemma steps:
  "live_run E [] r = r" "live_run E (e # es) r = live_run E es (live_step E e r)"
  "live_run E (es @ es') r = live_run E es' (live_run E es r)"
  by (simp_all add: live_run_def)

lemma microphone_run:
  "rv_parse E d = Some (mic_frame b) \<Longrightarrow> live_run E (replicate n (ClientSays d)) r = r"
  by (induction n) (simp_all add: steps read_microphone)

lemma started_session:
  assumes "rl_starting r = [(config, trace)]" and "rv_apiKey E" and "rl_sessions r = []"
  shows "startSession E r = r\<lparr>rl_starting := [], rl_sessions := [new_session (rv_env E) (options_of E config)],
    rl_current := Some 0, rl_active := True, rl_buffer := [], rl_subscribed := rl_subscribed r @ [0]\<rparr>"
  using assms by (simp add: startSession_def Let_def closed_audio)

lemma closed_text: "\<not> gs_isOpen g \<Longrightarrow> sendText t g = g"
  by (simp add: sendText_def send_json_def)

text \<open>C35: the first messages of the browser do not reach Gemini through the relay of the server: its setup
  carries the configuration \<open>/live/init\<close> answered, and the greeting follows it at once, so it arrives
  before the session is open, whether it is read before or after \<open>startSession\<close> goes on; the microphone
  is sent as JSON, which the relay does not read.  All that Gemini is sent is the setup, and its
  instruction is the prompt of the conductor, not the one in the configuration, which is named
  \<open>system_instruction\<close> there and read as \<open>systemInstruction\<close>.
\<close>

theorem browser_is_not_heard:
  assumes "rv_parse E d1 = Some (setup_frame (Some (config_json c)))"
    and "rv_parse E d2 = Some greeting_frame" and "rv_parse E d3 = Some (mic_frame b)" and "rv_apiKey E"
    and es: "es \<in> {[ClientSays d1, ClientSays d2, Started], [ClientSays d1, Started, ClientSays d2]}"
  shows "map gs_sent (rl_sessions (live_run E (es @ [GeminiOpened 0] @ replicate n (ClientSays d3))
             (handleConnection now u)))
       = [[setup_message (rv_env E)
            \<lparr>lo_systemInstruction = Some (JStr (rv_conductor_prompt E)), lo_model = Some (lc_model c),
             lo_tools = get_field (Some (config_json c)) ''tools'',
             lo_generationConfig = get_field (Some (config_json c)) ''generation_config''\<rparr>]]"
proof -
  let ?r = "handleConnection now u"
  let ?g = "new_session (rv_env E) (options_of E (config_json c))"
  have greet: "client_text E d2 r = (if rl_active r then to_current (sendText t) r else r)"
    if "t = ''Please start the bedtime ritual now with a short calming greeting and begin guiding the session.''" for r t
    using assms(2) that by (intro read_text) (simp_all add: greeting_frame_def)
  let ?r1 = "?r\<lparr>rl_starting := [(config_json c, None)]\<rparr>"
  have new: "rl_sessions ?r = []" "\<not> rl_active ?r" "rl_starting ?r = []"
    by (simp_all add: handleConnection_def)
  have 1: "live_step E (ClientSays d1) ?r = ?r1"
    using read_setup [OF assms(1) new(2)] by (simp add: new)
  have start: "startSession E ?r1 = ?r1\<lparr>rl_starting := [], rl_sessions := [?g], rl_current := Some 0,
      rl_active := True, rl_buffer := [], rl_subscribed := rl_subscribed ?r1 @ [0]\<rparr>"
    using assms(4) new by (intro started_session) simp_all
  have 2: "client_text E d2 ?r1 = ?r1" "client_text E d2 (startSession E ?r1) = startSession E ?r1"
    using new by (simp_all add: start greet to_current_def at_session_def closed_text)
  have "live_run E es ?r = live_step E Started ?r1"
    using es 1 2 by (auto simp: steps)
  then have "rl_sessions (live_run E (es @ [GeminiOpened 0] @ replicate n (ClientSays d3)) ?r)
      = [session_open ?g]"
    by (simp add: steps microphone_run [OF assms(3)] at_session_def start)
  then show ?thesis by (simp add: session_open_def new_session_def granted_options)
qed

theorem browser_is_not_heard_witness:
  "let c = createSessionConfig (\<lambda>_. None) (\<lambda>_ _. ''a story for Mia'') (Some ''Mia'') (Some 5);
       E = \<lparr>rv_env = (\<lambda>_. None), rv_apiKey = True, rv_conductor_prompt = ''the conductor'', rv_pacing = ''slow'',
            rv_parse = (\<lambda>d. if d = ''setup'' then Some (setup_frame (Some (config_json c)))
              else if d = ''greet'' then Some greeting_frame
              else if d = ''mic'' then Some (mic_frame ''bytes'') else None),
            rv_bytes = (\<lambda>d. d)\<rparr>
   in map gs_sent (rl_sessions (live_run E
           ([ClientSays ''setup'', ClientSays ''greet'', Started] @ [GeminiOpened 0] @ replicate 3 (ClientSays ''mic''))
           (handleConnection 7 (Some ''u''))))
       = [[setup_message (rv_env E)
            \<lparr>lo_systemInstruction = Some (JStr ''the conductor''), lo_model = Some (lc_model c),
             lo_tools = get_field (Some (config_json c)) ''tools'',
             lo_generationConfig = get_field (Some (config_json c)) ''generation_config''\<rparr>]]"
proof -
  define c where "c = createSessionConfig (\<lambda>_. None) (\<lambda>_ _. ''a story for Mia'') (Some ''Mia'') (Some 5)"
  define E where "E = \<lparr>rv_env = (\<lambda>_. None), rv_apiKey = True, rv_conductor_prompt = ''the conductor'',
            rv_pacing = ''slow'',
            rv_parse = (\<lambda>d. if d = ''setup'' then Some (setup_frame (Some (config_json c)))
              else if d = ''greet'' then Some greeting_frame
              else if d = ''mic'' then Some (mic_frame ''bytes'') else None),
            rv_bytes = (\<lambda>d. d)\<rparr>"
  show ?thesis
    unfolding Let_def c_def [symmetric] E_def [symmetric]
    using browser_is_not_heard [of E "''setup''" c "''greet''" "''mic''" "''bytes''"
        "[ClientSays ''setup'', ClientSays ''greet'', Started]" 3 7 "Some ''u''"]
    by (simp add: E_def)
qed

text \<open>
  What \<open>toSnakeCase\<close> makes of the schema of a tool: a parameter is renamed, the list of the required
  ones is not.
\<close>

lemma renamed_parameter:
  "toSnakeCase (declaration_json (hd live_tools)) =
     JObj [(''name'', JStr ''save_memory''),
       (''description'', JStr ''Save a user preference or fact to their long-term memory.''),
       (''parameters'', JObj [(''type'', JStr ''object''),
          (''properties'', JObj [
             (''content'', JObj [(''type'', JStr ''string''), (''description'', JStr ''The fact to remember'')]),
             (''memory_type'', JObj [(''type'', JStr ''string''),
                (''enum'', strings_json [''PREFERENCE'', ''EPISODIC'']), (''description'', JStr ''Type of memory'')])]),
          (''required'', strings_json [''content'', ''memoryType''])])]"
  by code_simp

subsection \<open>The requests of the browser\<close>

lemma granted_session:
  assumes "post_init P trace uid body w = (LiveReply 200 (Inr g), w')" and "parse_init body = Some b"
    and "truthy_string (ib_sessionId b)"
  shows "lg_sessionId g = the (ib_sessionId b)" and "lg_traceId g = trace"
  using assms
  by (auto simp: post_init_def answer_def init_live_def grant_def ebind_def ethen_def eread_def ereturn_def
      split: prod.splits sum.splits)

lemma init_request_parses:
  assumes "i \<noteq> []" and "whole_between 0 18 (JNum age) = Some age"
  shows "parse_init (Some (JObj [(''sessionId'', JStr i), (''childName'', JStr n), (''childAge'', JNum age)]))
       = Some \<lparr>ib_childName = Some n, ib_childAge = Some age, ib_sessionId = Some i\<rparr>"
  using assms by (simp add: parse_init_def members_def optional_def any_string_def some_string_def)

text \<open>C36: the requests of the browser are those the routes accept.  After a successful \<open>connect\<close> the session
  granted is the one the hook has named, its socket offers the ticket that was issued, and the body of
  every tool call it relays is parsed by \<open>/live/tool\<close> to that call, in that session and under the trace
  of the request that opened it.
\<close>

theorem browser_requests_are_accepted:
  assumes "truthy_string (lh_token h)" and "i \<noteq> []" and age: "whole_between 0 18 (JNum age) = Some age"
    and ok: "post_init P trace uid (Some (snd (last (lh_requests (connect_call i name age h))))) w
           = (LiveReply 200 (Inr g), w')"
    and "trace \<noteq> []" and "lg_ticket g \<noteq> []"
    and h': "h' = connect_answer 200 (Some (grant_json g)) (connect_call i name age h)"
    and call: "map_of call ''name'' = Some (JStr n)" "n \<in> set tool_names"
      "map_of call ''args'' = Some x" "map_of call ''id'' = Some (JStr k)" "k \<noteq> []"
  shows "lg_sessionId g = i \<and> lh_protocols h' = Some [''dw.live.v1'', ''ticket.'' @ lg_ticket g]
    \<and> parse_call (Some (snd (last (lh_requests (handleToolCall (JObj call) h')))))
        = Some \<lparr>pl_sessionId = i, pl_toolName = n, pl_arguments = x, pl_toolCallId = Some k, pl_traceId = Some trace\<rparr>"
proof -
  let ?h1 = "connect_call i name age h"
  have h1: "lh_requests ?h1 = lh_requests h @ [(''/api/v1/live/init'', JObj
        [(''sessionId'', JStr i), (''childName'', JStr name), (''childAge'', JNum age)])]"
    "lh_sessionId ?h1 = i" "lh_token ?h1 = lh_token h"
    using assms(1) by (simp_all add: connect_call_def Let_def)
  have body: "parse_init (Some (snd (last (lh_requests ?h1))))
      = Some \<lparr>ib_childName = Some name, ib_childAge = Some age, ib_sessionId = Some i\<rparr>"
    using assms(2) age by (simp add: h1 init_request_parses)
  have g: "lg_sessionId g = i" "lg_traceId g = trace"
    using granted_session [OF ok body] assms(2) by (simp_all add: truthy_string_def)
  have h2: "lh_sessionId h' = i" "lh_token h' = lh_token h" "lh_traceId h' = Some trace"
      "lh_protocols h' = Some [''dw.live.v1'', ''ticket.'' @ lg_ticket g]"
    using assms(5,6) g h1 by (simp_all add: h' connect_answer_def grant_json_def get_field_def)
  have "snd (last (lh_requests (handleToolCall (JObj call) h')))
      = JObj [(''toolName'', JStr n), (''arguments'', x), (''sessionId'', JStr i),
              (''traceId'', JStr trace), (''toolCallId'', JStr k)]"
    using assms(1) call by (simp add: handleToolCall_def get_field_def h2 Let_def)
  then have "parse_call (Some (snd (last (lh_requests (handleToolCall (JObj call) h')))))
        = Some \<lparr>pl_sessionId = i, pl_toolName = n, pl_arguments = x, pl_toolCallId = Some k, pl_traceId = Some trace\<rparr>"
    using assms(2,5) call by (simp add: parse_call_def members_def optional_def some_string_def)
  then show ?thesis using g h2 by simp
qed

definition granting_live :: "unit live_ports" where
  "granting_live =
     \<lparr>lv_env = (\<lambda>_. None), lv_get = (\<lambda>_ w. (Inr None, w)), lv_set = (\<lambda>_ _ w. (Inr (), w)),
      lv_patch = (\<lambda>_ _ w. (Inr (), w)), lv_issue = (\<lambda>_ w. (Inr ''t1'', w)), lv_validate = (\<lambda>_ w. (Inr None, w)),
      lv_newId = (\<lambda>w. (''n'', w)), lv_now = (\<lambda>w. (0, w)), lv_prompt = (\<lambda>_ _. ''prompt''),
      lv_tools = quiet_tools\<rparr>"

theorem browser_requests_are_accepted_witness:
  "let h1 = connect_call ''s1'' ''Mia'' 5 (new_hook (Some ''token''));
       config = createSessionConfig (\<lambda>_. None) (\<lambda>_ _. ''prompt'') (Some ''Mia'') (Some 5);
       g = \<lparr>lg_config = config, lg_ticket = ''t1'', lg_sessionId = ''s1'', lg_traceId = ''x''\<rparr>;
       h2 = connect_answer 200 (Some (grant_json g)) h1;
       call = [(''name'', JStr ''suggest_theme''), (''args'', JObj []), (''id'', JStr ''c1'')]
   in post_init granting_live ''x'' ''u'' (Some (snd (last (lh_requests h1)))) () = (LiveReply 200 (Inr g), ())
      \<and> lh_protocols h2 = Some [''dw.live.v1'', ''ticket.t1'']
      \<and> parse_call (Some (snd (last (lh_requests (handleToolCall (JObj call) h2)))))
          = Some \<lparr>pl_sessionId = ''s1'', pl_toolName = ''suggest_theme'', pl_arguments = JObj [],
                  pl_toolCallId = Some ''c1'', pl_traceId = Some ''x''\<rparr>"
proof -
  let ?h = "new_hook (Some ''token'')" and ?h1 = "connect_call ''s1'' ''Mia'' 5 (new_hook (Some ''token''))"
  let ?c = "createSessionConfig (\<lambda>_. None) (\<lambda>_ _. ''prompt'') (Some ''Mia'') (Some 5)"
  let ?g = "\<lparr>lg_config = ?c, lg_ticket = ''t1'', lg_sessionId = ''s1'', lg_traceId = ''x''\<rparr>"
  have tok: "truthy_string (lh_token ?h)" by (simp add: new_hook_def truthy_string_def)
  have age: "whole_between 0 18 (JNum 5) = Some 5" by (simp add: whole_between_def)
  have body: "parse_init (Some (snd (last (lh_requests ?h1))))
      = Some \<lparr>ib_childName = Some ''Mia'', ib_childAge = Some 5, ib_sessionId = Some ''s1''\<rparr>"
    using tok age by (simp add: connect_call_def Let_def init_request_parses)
  have ok: "post_init granting_live ''x'' ''u'' (Some (snd (last (lh_requests ?h1)))) () = (LiveReply 200 (Inr ?g), ())"
    by (simp add: post_init_def body answer_def init_live_def grant_def granting_live_def ebind_def ethen_def
        eread_def ereturn_def truthy_string_def)
  show ?thesis
    using ok browser_requests_are_accepted [OF tok _ age ok _ _ refl,
        of "[(''name'', JStr ''suggest_theme''), (''args'', JObj []), (''id'', JStr ''c1'')]"
           "''suggest_theme''" "JObj []" "''c1''"]
    by (simp add: tool_names_def Let_def)
qed

text \<open>A frame with several calls is handled like one with its first call alone.\<close>

lemma only_first_call_runs:
  assumes "get_field (Some data) ''toolCall'' = Some (JObj [(''functionCalls'', JArr (c # cs))])"
    and "get_field (Some data) ''serverContent'' = None" and "data \<noteq> JNull"
  shows "server_text C data h = handleToolCall c h"
  using assms by (simp add: server_text_def Let_def inline_audio_def get_field_def first_item_def js_truthy_def)

text \<open>Without a trace the body carries \<open>null\<close>, which the route does not accept.\<close>

lemma call_without_trace_is_refused:
  assumes "truthy_string (lh_token h)" and "lh_traceId h = None" and "map_of call ''name'' = Some (JStr n)"
  shows "parse_call (Some (snd (last (lh_requests (handleToolCall (JObj call) h))))) = None"
  using assms
  by (simp add: handleToolCall_def get_field_def Let_def parse_call_def members_def optional_def some_string_def
      split: option.split json.split)

lemma fifty_logs:
  assumes "length (lh_logs h) \<le> 50"
  shows "length (lh_logs (hook_step C e h)) \<le> 50"
proof -
  have log: "length (lh_logs (addLog k t h')) \<le> 50" for k t h' by (simp add: addLog_def)
  have tool: "length (lh_logs (handleToolCall c h')) \<le> 50" if "length (lh_logs h') \<le> 50" for c h'
    using that by (simp add: handleToolCall_def log Let_def split: option.split json.split)
  have inline: "inline_audio C j h' = Some h'' \<Longrightarrow> lh_logs h'' = lh_logs h'" for j h' h''
    by (auto simp: inline_audio_def Let_def play_def split: option.splits json.splits if_splits)
  have "length (lh_logs (server_text C data h)) \<le> 50" for data
    using assms inline [of _ h]
    by (auto simp: server_text_def Let_def log tool split: option.split)
  then show ?thesis using assms
    by (cases e) (simp_all add: log connect_call_def connect_failed_def connect_answer_def Let_def
        socket_opened_def hook_send_def socket_failed_def leave_hook_def socket_closed_def mic_block_def
        handleServerMessage_def play_def tool_answer_def split: option.split json.split)
qed

end
