(* ===== verification/Speech.thy ===== *)
theory Speech
  imports RateLimit Effects JsRegex
begin

text \<open>
  Speech: \<open>GoogleTTSAdapter.ts\<close>, \<open>GoogleCloudVoiceAdapter.ts\<close> and \<open>CompositeTTSAdapter.ts\<close>
  (\<open>api/src/infrastructure/adapters/\<close>).  A request of the hosted services answers with an
  \<open>http_answer\<close> or throws; the requests, the clock, the access token of a service account and the text
  of a value are fields of \<open>speech_ports\<close>.  Console output is left out, and so are the names an object
  of JavaScript inherits where a voice is looked up in a table.
\<close>

record http_answer =
  ha_status :: nat
  ha_statusText :: string
  ha_text :: "js_error + string"
  ha_json :: "js_error + json"

definition answered_ok :: "http_answer \<Rightarrow> bool" where
  "answered_ok a \<longleftrightarrow> 200 \<le> ha_status a \<and> ha_status a < 300"

record synthesize_input =
  si_text :: string
  si_voice :: "string option"               \<comment> \<open>\<open>voiceProfile?.voiceModelId\<close>\<close>
  si_rate :: "real option"
  si_pitch :: "real option"

record synthesize_output =
  so_audioUrl :: string
  so_audio :: "json option"
  so_seconds :: real

record speech_request =
  sr_text :: string
  sr_voice :: string
  sr_rate :: "real option"                  \<comment> \<open>rate and pitch, where the request has them\<close>
  sr_pitch :: "real option"

record clone_output =
  co_voiceModelId :: "json option"
  co_ready :: bool                          \<comment> \<open>the status is \<open>ready\<close>\<close>

record 'w speech_ports =
  sc_env :: environment
  sc_google :: "speech_request \<Rightarrow> ('w, http_answer) eff"       \<comment> \<open>\<open>v1/text:synthesize\<close>\<close>
  sc_cloud :: "speech_request \<Rightarrow> ('w, http_answer) eff"        \<comment> \<open>\<open>v1beta1/text:synthesize\<close>\<close>
  sc_create :: "string \<Rightarrow> string \<Rightarrow> string \<Rightarrow> ('w, http_answer) eff"
    \<comment> \<open>\<open>customVoices\<close>: the path, the token and the sample\<close>
  sc_list :: "('w, http_answer) eff"
  sc_token :: "('w, string) eff"
  sc_sample :: "string \<Rightarrow> ('w, string) eff"                    \<comment> \<open>the bytes behind an address\<close>
  sc_now :: "'w \<Rightarrow> millis \<times> 'w"
  sc_string :: "json option \<Rightarrow> string"

definition lift_error :: "js_error + 'a \<Rightarrow> ('w, 'a) eff" where
  "lift_error x = (case x of Inl e \<Rightarrow> ethrow e | Inr a \<Rightarrow> ereturn a)"

definition property_of :: "json \<Rightarrow> string \<Rightarrow> js_error + json option" where
  \<comment> \<open>\<open>data.k\<close>\<close>
  "property_of j k =
     (case j of
        JNull \<Rightarrow> Inl (Err ''TypeError'' (''Cannot read properties of null (reading '' @ k @ '')''))
      | JObj kvs \<Rightarrow> Inr (map_of kvs k)
      | _ \<Rightarrow> Inr None)"

subsection \<open>Words\<close>

fun space_runs :: "bool \<Rightarrow> string \<Rightarrow> nat" where
  "space_runs inside [] = 0"
| "space_runs inside (c # cs) =
     (if js_space c then (if inside then 0 else 1) + space_runs True cs else space_runs False cs)"

definition word_count :: "string \<Rightarrow> nat" where
  \<comment> \<open>\<open>split(/\s+/).length\<close>\<close>
  "word_count s = Suc (space_runs False s)"

subsection \<open>The standard voices\<close>

definition mapVoiceIdToGoogle :: "string \<Rightarrow> string" where
  "mapVoiceIdToGoogle v =
     (case map_of [(''en-US-Chirp-HD-F'', ''en-US-Neural2-F''), (''en-US-Chirp-HD-M'', ''en-US-Neural2-D''),
                   (''luna'', ''en-US-Neural2-F''), (''atlas'', ''en-US-Neural2-D'')] v of
        Some g \<Rightarrow> g | None \<Rightarrow> v)"

definition or_number :: "real option \<Rightarrow> real \<Rightarrow> real" where
  \<comment> \<open>\<open>x || d\<close> on numbers\<close>
  "or_number x d = (case x of None \<Rightarrow> d | Some r \<Rightarrow> if r = 0 then d else r)"

definition data_url :: "'w speech_ports \<Rightarrow> json option \<Rightarrow> string" where
  "data_url P audio = ''data:audio/mp3;base64,'' @ sc_string P audio"

definition callGoogleTTS :: "'w speech_ports \<Rightarrow> synthesize_input \<Rightarrow> ('w, synthesize_output) eff" where
  "callGoogleTTS P i =
     ebind (sc_google P \<lparr>sr_text = si_text i,
              sr_voice = mapVoiceIdToGoogle (or_string (si_voice i) ''en-US-Neural2-F''),
              sr_rate = Some (or_number (si_rate i) 1), sr_pitch = Some (or_number (si_pitch i) 0)\<rparr>) (\<lambda>a.
       if \<not> answered_ok a
       then ebind (lift_error (ha_text a)) (\<lambda>t. ethrow (Err ''Error''
              (''Google TTS API Failed: '' @ show_nat (ha_status a) @ '' '' @ ha_statusText a @ '' - '' @ t)))
       else ebind (lift_error (ha_json a)) (\<lambda>j.
            ebind (lift_error (property_of j ''audioContent'')) (\<lambda>audio.
              ereturn \<lparr>so_audioUrl = data_url P audio, so_audio = audio,
                       so_seconds = max 1 (of_int \<lceil>real (word_count (si_text i)) / 2.5\<rceil>)\<rparr>)))"

definition google_synthesize :: "'w speech_ports \<Rightarrow> synthesize_input \<Rightarrow> ('w, synthesize_output) eff" where
  "google_synthesize P i =
     (if \<not> truthy_string (sc_env P ''GOOGLE_TTS_API_KEY'')
      then ethrow (Err ''Error'' ''GOOGLE_TTS_API_KEY is missing'') else callGoogleTTS P i)"

definition google_voices :: "(string \<times> string) list" where
  \<comment> \<open>identifier and name\<close>
  "google_voices = [(''en-US-Chirp-HD-F'', ''Luna (Female)''), (''en-US-Chirp-HD-M'', ''Atlas (Male)'')]"

subsection \<open>Custom voices\<close>

definition journey :: string where "journey = ''en-US-Journey-D''"

definition custom_voice :: "string option \<Rightarrow> bool" where
  "custom_voice v \<longleftrightarrow> (case v of None \<Rightarrow> False | Some m \<Rightarrow> starts_with m ''projects/'')"

definition cloud_voice :: "string option \<Rightarrow> string" where
  "cloud_voice v =
     (case or_undefined v of
        None \<Rightarrow> journey
      | Some m \<Rightarrow> if starts_with m ''projects/'' then m
                  else if \<not> starts_with m ''http'' then m else journey)"

definition refused_message :: "'w speech_ports \<Rightarrow> json \<Rightarrow> js_error + string" where
  \<comment> \<open>\<open>error.error?.message\<close> as a text\<close>
  "refused_message P j =
     (case property_of j ''error'' of
        Inl e \<Rightarrow> Inl e
      | Inr (Some (JObj kvs)) \<Rightarrow> Inr (sc_string P (map_of kvs ''message''))
      | Inr _ \<Rightarrow> Inr (sc_string P None))"

function cloud_speak :: "'w speech_ports \<Rightarrow> synthesize_input \<Rightarrow> 'w \<Rightarrow> (js_error + synthesize_output) \<times> 'w" where
  "cloud_speak P i w =
     (case sc_cloud P \<lparr>sr_text = si_text i, sr_voice = cloud_voice (si_voice i), sr_rate = None, sr_pitch = None\<rparr> w of
        (Inl e, w1) \<Rightarrow> (Inl e, w1)
      | (Inr a, w1) \<Rightarrow>
          if \<not> answered_ok a
          then (case ha_json a of
                  Inl e \<Rightarrow> (Inl e, w1)
                | Inr j \<Rightarrow>
                    if custom_voice (si_voice i) \<and> 400 \<le> ha_status a
                    then cloud_speak P (i\<lparr>si_voice := Some journey\<rparr>) w1
                    else (case refused_message P j of
                            Inl e \<Rightarrow> (Inl e, w1)
                          | Inr m \<Rightarrow> (Inl (Err ''Error'' (''Google Cloud TTS Failed: ''
                                        @ show_nat (ha_status a) @ '' - '' @ m)), w1)))
          else (case ha_json a of
                  Inl e \<Rightarrow> (Inl e, w1)
                | Inr j \<Rightarrow>
                    (case property_of j ''audioContent'' of
                       Inl e \<Rightarrow> (Inl e, w1)
                     | Inr audio \<Rightarrow>
                         (Inr \<lparr>so_audioUrl = data_url P audio, so_audio = audio,
                               so_seconds = real (length (si_text i)) / 15\<rparr>, w1))))"
  by pat_completeness auto

termination cloud_speak
  by (relation "measure (\<lambda>(P, i, w). if custom_voice (si_voice i) then 1 else 0)")
    (auto simp: custom_voice_def journey_def split: option.splits)

declare cloud_speak.simps [simp del]

definition cloud_synthesize :: "'w speech_ports \<Rightarrow> synthesize_input \<Rightarrow> ('w, synthesize_output) eff" where
  "cloud_synthesize P i =
     (if \<not> truthy_string (sc_env P ''GOOGLE_TTS_API_KEY'')
      then ethrow (Err ''Error'' ''Google Cloud TTS API Key is missing'') else cloud_speak P i)"

definition voices_path :: "environment \<Rightarrow> string" where
  "voices_path env =
     ''projects/'' @ or_string (env ''GOOGLE_PROJECT_ID'') [] @ ''/locations/''
       @ or_string (env ''GOOGLE_TTS_REGION'') ''us-east4'' @ ''/customVoices''"

definition create_voice :: "'w speech_ports \<Rightarrow> string \<Rightarrow> ('w, clone_output) eff" where
  \<comment> \<open>the body of the \<open>try\<close>, for the address of the sample\<close>
  "create_voice P url =
     ebind (sc_token P) (\<lambda>token.
     ebind (sc_sample P url) (\<lambda>bytes.
     ebind (sc_create P (voices_path (sc_env P)) token bytes) (\<lambda>a.
       if \<not> answered_ok a
       then ebind (lift_error (ha_json a)) (\<lambda>_. ebind (eread (sc_now P)) (\<lambda>now.
              ereturn \<lparr>co_voiceModelId = Some (JStr (voices_path (sc_env P) @ ''/dormant-fallback-'' @ show_int now)),
                       co_ready = True\<rparr>))
       else ebind (lift_error (ha_json a)) (\<lambda>j.
            ebind (lift_error (property_of j ''name'')) (\<lambda>n.
              ereturn \<lparr>co_voiceModelId = n, co_ready = True\<rparr>)))))"

definition cloneVoice :: "'w speech_ports \<Rightarrow> string \<Rightarrow> ('w, clone_output) eff" where
  "cloneVoice P url =
     (if \<not> truthy_string (sc_env P ''GOOGLE_PROJECT_ID'')
      then ebind (eread (sc_now P)) (\<lambda>now.
             ereturn \<lparr>co_voiceModelId = Some (JStr (''mock-ref-'' @ show_int now)), co_ready = True\<rparr>)
      else etry (create_voice P url)
             (\<lambda>_. ereturn \<lparr>co_voiceModelId = Some (JStr (voices_path (sc_env P) @ ''/error-fallback'')),
                           co_ready = True\<rparr>))"

definition neural_voice :: "string \<Rightarrow> bool" where
  "neural_voice n \<longleftrightarrow> str_includes n ''Neural2'' \<or> str_includes n ''Journey''"

definition voice_line :: "'w speech_ports \<Rightarrow> json \<Rightarrow> (string \<times> string) option" where
  \<comment> \<open>name and label; \<open>None\<close> where the name is no text, on which \<open>includes\<close> throws\<close>
  "voice_line P v =
     (case v of
        JObj kvs \<Rightarrow>
          (case map_of kvs ''name'' of
             Some (JStr n) \<Rightarrow> Some (n, n @ '' ('' @ sc_string P (map_of kvs ''ssmlGender'') @ '')'')
           | _ \<Rightarrow> None)
      | _ \<Rightarrow> None)"

definition listed :: "'w speech_ports \<Rightarrow> http_answer \<Rightarrow> (string \<times> string) list" where
  "listed P a =
     (if \<not> answered_ok a then []
      else (case ha_json a of
              Inr (JObj kvs) \<Rightarrow>
                (case map_of kvs ''voices'' of
                   Some (JArr vs) \<Rightarrow>
                     (case those (map (voice_line P) vs) of
                        None \<Rightarrow> [] | Some ls \<Rightarrow> take 20 (filter (\<lambda>(n, _). neural_voice n) ls))
                 | _ \<Rightarrow> [])
            | _ \<Rightarrow> []))"

definition cloud_listVoices :: "'w speech_ports \<Rightarrow> 'w \<Rightarrow> (string \<times> string) list \<times> 'w" where
  "cloud_listVoices P w =
     (if \<not> truthy_string (sc_env P ''GOOGLE_TTS_API_KEY'') then ([], w)
      else (case sc_list P w of (Inl _, w') \<Rightarrow> ([], w') | (Inr a, w') \<Rightarrow> (listed P a, w')))"

definition supportsCloning :: "'w speech_ports \<Rightarrow> bool" where
  "supportsCloning P \<longleftrightarrow> truthy_string (sc_env P ''GOOGLE_TTS_API_KEY'')"

subsection \<open>The composite\<close>

definition synthesize :: "'w speech_ports \<Rightarrow> synthesize_input \<Rightarrow> ('w, synthesize_output) eff" where
  "synthesize P i =
     (if starts_with (or_string (si_voice i) []) ''http'' then cloud_synthesize P i else google_synthesize P i)"

subsection \<open>Which voice speaks\<close>

text \<open>Falling back asks once more and no further.\<close>

lemma cloud_falls_back_once:
  assumes "\<not> custom_voice (si_voice i)"
    and "sc_cloud P \<lparr>sr_text = si_text i, sr_voice = cloud_voice (si_voice i), sr_rate = None, sr_pitch = None\<rparr> w = (r, w1)"
  shows "snd (cloud_speak P i w) = w1"
  using assms by (subst cloud_speak.simps) (auto split: sum.split option.split)

lemma starts_with_append: "starts_with (p @ s) p"
  by (induction p) simp_all

lemma starts_with_prefix: "starts_with s p \<longleftrightarrow> (\<exists>t. s = p @ t)"
  by (induction s p rule: starts_with.induct) auto

lemma http_voice_is_journey:
  assumes "starts_with m ''http''"
  shows "cloud_voice (Some m) = journey" and "\<not> custom_voice (Some m)"
  using assms by (auto simp: cloud_voice_def custom_voice_def starts_with_prefix or_undefined_def truthy_string_def)

lemma http_voice_is_ignored:
  assumes "starts_with m ''http''"
  shows "cloud_synthesize P (i\<lparr>si_voice := Some m\<rparr>) = cloud_synthesize P (i\<lparr>si_voice := None\<rparr>)"
proof -
  have none: "cloud_voice None = journey" "\<not> custom_voice None"
    by (simp_all add: cloud_voice_def custom_voice_def or_undefined_def truthy_string_def)
  have "cloud_speak P (i\<lparr>si_voice := Some m\<rparr>) w = cloud_speak P (i\<lparr>si_voice := None\<rparr>) w" for w
    using http_voice_is_journey [OF assms] none
    by (subst (1 2) cloud_speak.simps) (simp split: sum.split prod.split)
  then show ?thesis by (simp add: cloud_synthesize_def fun_eq_iff)
qed

text \<open>What the service creates carries the path it was created under.\<close>

definition names_under_path :: "'w speech_ports \<Rightarrow> bool" where
  "names_under_path P \<longleftrightarrow>
     (\<forall>path t b w a w' kvs n. sc_create P path t b w = (Inr a, w') \<longrightarrow> ha_json a = Inr (JObj kvs)
        \<longrightarrow> map_of kvs ''name'' = Some (JStr n) \<longrightarrow> starts_with n path)"

lemma names_under_pathD:
  assumes "names_under_path P" and "sc_create P path t b w = (Inr a, w')" and "ha_json a = Inr j"
    and "property_of j ''name'' = Inr (Some (JStr n))"
  shows "starts_with n path"
proof (cases j)
  case (JObj kvs)
  then have "map_of kvs ''name'' = Some (JStr n)" using assms(4) by (simp add: property_of_def)
  then show ?thesis using assms(1-3) JObj unfolding names_under_path_def by blast
qed (use assms(4) in \<open>simp_all add: property_of_def\<close>)

lemma path_is_no_url: "starts_with v (voices_path env) \<Longrightarrow> \<not> starts_with v ''http''"
  by (auto simp: voices_path_def starts_with_prefix)

lemma cloned_voice_is_no_url:
  assumes "cloneVoice P url w = (Inr c, w')" and "co_voiceModelId c = Some (JStr v)" and "names_under_path P"
  shows "\<not> starts_with v ''http''"
proof -
  let ?path = "voices_path (sc_env P)"
  have "starts_with v ?path" if "create_voice P url w = (Inr c, w')"
    using that assms(2)
    by (auto simp: create_voice_def ebind_def eread_def ereturn_def ethrow_def lift_error_def
        starts_with_append intro: names_under_pathD [OF assms(3)] split: if_splits sum.splits prod.splits)
  moreover have "starts_with (?path @ x) ?path" for x by (rule starts_with_append)
  ultimately have "starts_with v ?path \<or> (\<exists>now. v = ''mock-ref-'' @ show_int now)"
    using assms(1,2)
    by (auto simp: cloneVoice_def ebind_def etry_def eread_def ereturn_def split: if_splits sum.splits prod.splits)
  then show ?thesis using path_is_no_url by auto
qed

text \<open>C37: a cloned voice never speaks.  The composite sends a voice to the adapter that made it only if
  its identifier looks like an address, and no identifier \<open>cloneVoice\<close> answers does, so a cloned voice
  goes to the standard service instead, as if it were one of its names; and a voice that is an address
  reaches the cloning adapter, which ignores it and speaks with its default voice.\<close>

theorem clones_never_speak:
  assumes "cloneVoice P url w = (Inr c, w')" and "co_voiceModelId c = Some (JStr v)" and "names_under_path P"
    and "starts_with m ''http''"
  shows "synthesize P (i\<lparr>si_voice := Some v\<rparr>) = google_synthesize P (i\<lparr>si_voice := Some v\<rparr>)
    \<and> synthesize P (i\<lparr>si_voice := Some m\<rparr>) = cloud_synthesize P (i\<lparr>si_voice := None\<rparr>)"
proof -
  have "\<not> starts_with (or_string (Some v) []) ''http''"
    using cloned_voice_is_no_url [OF assms(1-3)] by simp
  moreover have "starts_with (or_string (Some m) []) ''http''" using assms(4) by auto
  ultimately show ?thesis
    using http_voice_is_ignored [OF assms(4), of P i] by (simp add: synthesize_def)
qed

definition sample_speech :: "unit speech_ports" where
  "sample_speech =
     \<lparr>sc_env = [''GOOGLE_TTS_API_KEY'' \<mapsto> ''key'', ''GOOGLE_PROJECT_ID'' \<mapsto> ''dream''],
      sc_google = (\<lambda>_ w. (Inl (Err ''Error'' ''down''), w)), sc_cloud = (\<lambda>_ w. (Inl (Err ''Error'' ''down''), w)),
      sc_create = (\<lambda>path _ _ w. (Inr \<lparr>ha_status = 200, ha_statusText = ''OK'', ha_text = Inr [],
                     ha_json = Inr (JObj [(''name'', JStr (path @ ''/7''))])\<rparr>, w)),
      sc_list = (\<lambda>w. (Inl (Err ''Error'' ''down''), w)), sc_token = (\<lambda>w. (Inr ''token'', w)),
      sc_sample = (\<lambda>_ w. (Inr ''bytes'', w)), sc_now = (\<lambda>w. (0, w)), sc_string = (\<lambda>_. [])\<rparr>"

theorem clones_never_speak_witness:
  "cloneVoice sample_speech ''https://store/sample'' ()
     = (Inr \<lparr>co_voiceModelId = Some (JStr ''projects/dream/locations/us-east4/customVoices/7''), co_ready = True\<rparr>, ())
   \<and> synthesize sample_speech \<lparr>si_text = ''hush'', si_voice = Some ''projects/dream/locations/us-east4/customVoices/7'',
         si_rate = None, si_pitch = None\<rparr>
     = google_synthesize sample_speech \<lparr>si_text = ''hush'',
         si_voice = Some ''projects/dream/locations/us-east4/customVoices/7'', si_rate = None, si_pitch = None\<rparr>"
proof -
  let ?v = "''projects/dream/locations/us-east4/customVoices/7''"
  have c: "cloneVoice sample_speech ''https://store/sample'' () = (Inr \<lparr>co_voiceModelId = Some (JStr ?v), co_ready = True\<rparr>, ())"
    by (simp add: cloneVoice_def create_voice_def ebind_def etry_def lift_error_def property_of_def
        answered_ok_def sample_speech_def voices_path_def truthy_string_def)
  have "names_under_path sample_speech"
    by (auto simp: names_under_path_def sample_speech_def starts_with_append)
  from clones_never_speak [OF c _ this, of ?v "''http''" "\<lparr>si_text = ''hush'', si_voice = None, si_rate = None, si_pitch = None\<rparr>"]
  show ?thesis using c by simp
qed

end
