(* ===== verification/DemoRoutes.thy ===== *)
theory DemoRoutes
  imports UserRoutes Recall Speech
begin

text \<open>
  The routes of the public demonstration (\<open>api/src/routes/demo.ts\<close>) with \<open>DemoAuthService.ts\<close>.  They
  ask for no authentication: every caller is \<open>demo_user\<close>.  The model, the speech service, the cache,
  the memory, the stories and the use case of generation are fields of \<open>demo_ports\<close>; where the code
  races them against a timer, an answer that comes too late is an error of theirs.  A body is
  \<open>None\<close> where it is no JSON or comes too late.  The identifiers of the request and the times of the
  stages, which only label the replies, are left out, and so is console
  output; the pictographs at the end of the messages are dropped.
\<close>

subsection \<open>Bodies\<close>

definition demo_themes :: "string list" where
  "demo_themes = [''space'', ''ocean'', ''forest'', ''dinosaurs'', ''magic'', ''friendship'']"

definition story_themes :: "string list" where
  "story_themes = demo_themes @ [''trains'', ''animals'']"

definition one_of :: "string list \<Rightarrow> json \<Rightarrow> string option" where
  "one_of xs j = (case j of JStr s \<Rightarrow> if s \<in> set xs then Some s else None | _ \<Rightarrow> None)"

definition name_32 :: "json \<Rightarrow> string option" where
  \<comment> \<open>\<open>z.string().min(1).max(32)\<close>\<close>
  "name_32 j = (case j of JStr s \<Rightarrow> if s \<noteq> [] \<and> length s \<le> 32 then Some s else None | _ \<Rightarrow> None)"

definition any_bool :: "json \<Rightarrow> bool option" where
  "any_bool j = (case j of JBool b \<Rightarrow> Some b | _ \<Rightarrow> None)"

definition with_default :: "'a \<Rightarrow> (json \<Rightarrow> 'a option) \<Rightarrow> json option \<Rightarrow> 'a option" where
  "with_default d f j = (case j of None \<Rightarrow> Some d | Some v \<Rightarrow> f v)"

definition strict_members :: "string list \<Rightarrow> json \<Rightarrow> (string \<times> json) list option" where
  \<comment> \<open>\<open>.strict()\<close>\<close>
  "strict_members keys j =
     (case j of JObj kvs \<Rightarrow> if set (map fst kvs) \<subseteq> set keys then Some kvs else None | _ \<Rightarrow> None)"

record demo_story_body =
  db_theme :: string
  db_childName :: "string option"
  db_childAge :: "real option"

definition parse_demo_story :: "json \<Rightarrow> demo_story_body option" where
  "parse_demo_story j =
     (case strict_members [''theme'', ''childName'', ''childAge''] j of
        None \<Rightarrow> None
      | Some kvs \<Rightarrow>
          (case (with_default ''space'' (one_of story_themes) (map_of kvs ''theme''),
                 optional name_32 (map_of kvs ''childName''),
                 optional (whole_between 2 12) (map_of kvs ''childAge'')) of
             (Some t, Some n, Some a) \<Rightarrow> Some \<lparr>db_theme = t, db_childName = n, db_childAge = a\<rparr>
           | _ \<Rightarrow> None))"

record demo_input =
  di_childName :: string
  di_childAge :: real
  di_theme :: string
  di_voiceId :: "string option"
  di_demoMode :: bool

definition parse_demo_session :: "string list \<Rightarrow> json \<Rightarrow> demo_input option" where
  \<comment> \<open>\<open>demoSessionSchema\<close> and, with the further key \<open>demoMode\<close>, \<open>demoSessionFullSchema\<close>\<close>
  "parse_demo_session extra j =
     (case strict_members ([''childName'', ''childAge'', ''theme'', ''voiceId''] @ extra) j of
        None \<Rightarrow> None
      | Some kvs \<Rightarrow>
          (case (with_default ''Luna'' name_32 (map_of kvs ''childName''),
                 with_default 5 (whole_between 2 12) (map_of kvs ''childAge''),
                 with_default ''space'' (one_of demo_themes) (map_of kvs ''theme''),
                 optional any_string (map_of kvs ''voiceId''),
                 with_default True any_bool (map_of kvs ''demoMode'')) of
             (Some n, Some a, Some t, Some v, Some m) \<Rightarrow>
               Some \<lparr>di_childName = n, di_childAge = a, di_theme = t, di_voiceId = v, di_demoMode = m\<rparr>
           | _ \<Rightarrow> None))"

definition luna :: demo_input where
  "luna = \<lparr>di_childName = ''Luna'', di_childAge = 5, di_theme = ''space'', di_voiceId = None, di_demoMode = True\<rparr>"

definition demo_input_of :: "string list \<Rightarrow> json option \<Rightarrow> demo_input" where
  \<comment> \<open>a body that cannot be read is \<open>{}\<close>, and one that is refused is replaced\<close>
  "demo_input_of extra body =
     (case parse_demo_session extra (case body of None \<Rightarrow> JObj [] | Some j \<Rightarrow> j) of
        None \<Rightarrow> luna | Some i \<Rightarrow> i)"

definition isDemoMode :: "(string \<Rightarrow> string option) \<Rightarrow> bool option \<Rightarrow> bool" where
  "isDemoMode headers mode \<longleftrightarrow> headers ''x-demo-mode'' = Some ''true'' \<or> mode = Some True"

subsection \<open>The ports\<close>

record 'w demo_ports =
  dm_live :: "'w live_ports"
  dm_increment :: "string \<Rightarrow> real \<Rightarrow> ('w, real) eff"          \<comment> \<open>key and seconds\<close>
  dm_model :: "string \<Rightarrow> string \<Rightarrow> ('w, string) eff"           \<comment> \<open>model and prompt; the text of the answer\<close>
  dm_parse :: "string \<Rightarrow> js_error + json"
  dm_string :: "json option \<Rightarrow> string"                        \<comment> \<open>\<open>String(v)\<close>\<close>
  dm_speak :: "string \<Rightarrow> string option \<Rightarrow> ('w, string option \<times> real option) eff"
    \<comment> \<open>text and voice; address and seconds\<close>
  dm_generate :: "generation_request \<Rightarrow> ('w, generation_result) eff"
  dm_store :: "string \<Rightarrow> memory_type \<Rightarrow> memory_context \<Rightarrow> dict option \<Rightarrow> ('w, unit) eff"
  dm_stories :: "'w story_db"
  dm_voices :: "'w voice_ports"

abbreviation dm_env :: "'w demo_ports \<Rightarrow> environment" where
  "dm_env P \<equiv> lv_env (dm_live P)"

definition demo_model :: "environment \<Rightarrow> string" where
  "demo_model env = or_string (env ''GEMINI_MODEL_FLASH'') ''gemini-2.0-flash''"

definition read_reply :: "'w demo_ports \<Rightarrow> string \<Rightarrow> js_error + json" where
  \<comment> \<open>\<open>JSON.parse\<close> and the first access to a field\<close>
  "read_reply P t =
     (case dm_parse P t of
        Inl e \<Rightarrow> Inl e
      | Inr JNull \<Rightarrow> Inl (Err ''TypeError'' ''Cannot read properties of null (reading 'title')'')
      | Inr j \<Rightarrow> Inr j)"

definition field :: "json \<Rightarrow> string \<Rightarrow> json option" where
  "field j k = (case j of JObj kvs \<Rightarrow> map_of kvs k | _ \<Rightarrow> None)"

subsection \<open>A story\<close>

definition demo_limit :: "'w demo_ports \<Rightarrow> (string \<Rightarrow> string option) \<Rightarrow> 'w \<Rightarrow> bool \<times> 'w" where
  \<comment> \<open>whether the address is over its ten requests of the hour; an error lets it pass\<close>
  "demo_limit P headers w =
     (case dm_increment P (''demo:story:'' @ extractClientIp headers) (60 * 60) w of
        (Inl _, w') \<Rightarrow> (False, w')
      | (Inr n, w') \<Rightarrow> (n > 10, w'))"

definition demo_story_prompt :: "demo_story_body \<Rightarrow> string" where
  "demo_story_prompt b =
     join [nl] [''Write a bedtime story (approx 150-200 words).'', ''Theme: '' @ db_theme b,
       ''Child name: '' @ or_string (db_childName b) ''a child'', ''Style: calm, soothing'',
       ''Return JSON with title and content.'']"

definition tell_demo_story ::
    "'w demo_ports \<Rightarrow> demo_story_body \<Rightarrow> 'w \<Rightarrow> (json option \<times> json option) live_reply \<times> 'w" where
  \<comment> \<open>title and content as the model wrote them\<close>
  "tell_demo_story P b w =
     (case dm_model P (demo_model (dm_env P)) (demo_story_prompt b) w of
        (Inl e, w') \<Rightarrow> (LiveReply 500 (Inl (or_string (Some (err_message e)) ''Story generation failed'')), w')
      | (Inr t, w') \<Rightarrow>
          (case read_reply P t of
             Inl e \<Rightarrow> (LiveReply 500 (Inl (or_string (Some (err_message e)) ''Story generation failed'')), w')
           | Inr j \<Rightarrow> (LiveReply 200 (Inr (field j ''title'', field j ''content'')), w')))"

definition post_demo_story ::
    "'w demo_ports \<Rightarrow> (string \<Rightarrow> string option) \<Rightarrow> json option \<Rightarrow> 'w
      \<Rightarrow> (json option \<times> json option) live_reply \<times> 'w" where
  "post_demo_story P headers body w =
     (if dm_env P ''PUBLIC_DEMO_ENABLED'' = Some ''false'' then (LiveReply 404 (Inl ''Not Found''), w)
      else (case demo_limit P headers w of
        (True, w1) \<Rightarrow> (LiveReply 429 (Inl ''Demo rate limit exceeded. Please try again later.''), w1)
      | (False, w1) \<Rightarrow>
          (case parse_demo_story (case body of None \<Rightarrow> JObj [(''theme'', JStr ''space'')] | Some j \<Rightarrow> j) of
             None \<Rightarrow> (LiveReply 400 (Inl ''Validation Error''), w1)
           | Some b \<Rightarrow>
               if or_undefined (dm_env P ''GEMINI_API_KEY'') = None
               then (LiveReply 500 (Inl ''AI service not configured''), w1)
               else tell_demo_story P b w1)))"

subsection \<open>A session\<close>

datatype demo_stage =
    Welcome string real                                   \<comment> \<open>name and age of the child\<close>
  | StoryTold "json option" string "real option" nat      \<comment> \<open>title, content, score, words\<close>
  | Narration bool "real option" "string option"
  | SleepMonitoring "real option" "real option" real
  | FadeOut string
  | MomentStage string bool                               \<comment> \<open>the moment and \<open>savedToVault\<close>\<close>

definition demo_session_prompt :: "demo_input \<Rightarrow> string" where
  "demo_session_prompt i =
     join [nl] [''Write a captivating bedtime story.'', ''Theme: '' @ di_theme i, ''Child: '' @ di_childName i,
       ''Age: '' @ show_int \<lfloor>di_childAge i\<rfloor>, ''Style: calm and magical'',
       ''Duration: medium (about 300-400 words)'', '''', ''REQUIREMENTS:'',
       ''1. SAFE: No violence, fear, or overstimulation.'',
       ''2. CALMING: Use soothing vocabulary and steady pacing.'',
       ''3. PERSONAL: Weave in the child's name naturally.'',
       ''4. STRUCTURE: Title and flowing narrative.'',
       ''5. SLEEP_SCORE: Rate from 1-10 how sleep-inducing this story is (aim for 7-9).'', '''',
       ''Return JSON with title, content, and sleepScore.'']"

definition score_of :: "json \<Rightarrow> real option" where
  \<comment> \<open>the schema given to the model demands a number; anything else is left out\<close>
  "score_of j = (case field j ''sleepScore'' of Some (JNum x) \<Rightarrow> Some x | _ \<Rightarrow> None)"

definition narrate ::
    "'w demo_ports \<Rightarrow> demo_input \<Rightarrow> json \<Rightarrow> string \<Rightarrow> 'w \<Rightarrow> (string option \<times> real option) \<times> 'w" where
  "narrate P i j content w =
     (case dm_speak P (dm_string P (field j ''title'') @ ''. '' @ content) (or_undefined (di_voiceId i)) w of
        (Inl _, w') \<Rightarrow> ((None, Some (of_int \<lceil>real (word_count content) / 2.5\<rceil>)), w')
      | (Inr a, w') \<Rightarrow> (a, w'))"

definition demo_stages ::
    "demo_input \<Rightarrow> json \<Rightarrow> string \<Rightarrow> string option \<times> real option \<Rightarrow> demo_stage list" where
  "demo_stages i j content audio =
     [Welcome (di_childName i) (di_childAge i),
      StoryTold (field j ''title'') content (score_of j) (word_count content),
      Narration (truthy_string (fst audio)) (snd audio) (fst audio),
      SleepMonitoring (map_option (\<lambda>s. min 10 (s + 1)) (score_of j)) (map_option (\<lambda>s. min 10 (s + 2)) (score_of j)) 10,
      FadeOut (''Sweet dreams, '' @ di_childName i @ ''...''),
      MomentStage (di_childName i @ '' loved the '' @ di_theme i
        @ '' adventure and asked \"Can we go there tomorrow?\"'') True]"

definition demo_session ::
    "'w demo_ports \<Rightarrow> demo_input \<Rightarrow> 'w \<Rightarrow> demo_stage list live_reply \<times> 'w" where
  \<comment> \<open>a content that is no string throws outside every \<open>try\<close>\<close>
  "demo_session P i w =
     (case dm_model P (demo_model (dm_env P)) (demo_session_prompt i) w of
        (Inl e, w1) \<Rightarrow> (LiveReply 500 (Inl (''Story generation failed: '' @ err_message e)), w1)
      | (Inr t, w1) \<Rightarrow>
          (case read_reply P t of
             Inl e \<Rightarrow> (LiveReply 500 (Inl (''Story generation failed: '' @ err_message e)), w1)
           | Inr j \<Rightarrow>
               (case field j ''content'' of
                  Some (JStr content) \<Rightarrow>
                    (case narrate P i j content w1 of
                       (audio, w2) \<Rightarrow> (LiveReply 200 (Inr (demo_stages i j content audio)), w2))
                | _ \<Rightarrow> (LiveReply 500 (Inl ''Internal Server Error''), w1))))"

definition post_demo_session ::
    "'w demo_ports \<Rightarrow> json option \<Rightarrow> 'w \<Rightarrow> demo_stage list live_reply \<times> 'w" where
  "post_demo_session P body w =
     (if or_undefined (dm_env P ''GEMINI_API_KEY'') = None then (LiveReply 500 (Inl ''AI not configured''), w)
      else demo_session P (demo_input_of [] body) w)"

subsection \<open>A session that is stored\<close>

definition demo_request :: "string \<Rightarrow> string \<Rightarrow> demo_input \<Rightarrow> generation_request" where
  "demo_request rid trace i =
     \<lparr>gr_theme = di_theme i, gr_childName = Some (di_childName i), gr_childAge = Some (di_childAge i),
      gr_duration = Some Short, gr_userId = Some (au_id demo_user), gr_voiceProfileId = di_voiceId i,
      gr_mood = None, gr_previousStoryId = None, gr_requestId = Some rid, gr_traceId = Some trace\<rparr>"

definition demo_memory :: "'w demo_ports \<Rightarrow> demo_input \<Rightarrow> story \<Rightarrow> ('w, bool) eff" where
  \<comment> \<open>whether the memory was created\<close>
  "demo_memory P i s =
     etry (ethen (dm_store P (di_childName i @ '' loved the '' @ di_theme i @ '' adventure \"'' @ st_title s @ ''\"'')
              EPISODIC \<lparr>mc_userId = au_id demo_user, mc_sessionId = None\<rparr>
              (Some [''storyId'' \<mapsto> JStr (st_id s), ''theme'' \<mapsto> JStr (di_theme i)]))
            (ereturn True))
       (\<lambda>_. ereturn False)"

definition post_demo_full ::
    "'w demo_ports \<Rightarrow> string \<Rightarrow> string \<Rightarrow> (string \<Rightarrow> string option) \<Rightarrow> json option \<Rightarrow> 'w
      \<Rightarrow> (story \<times> string option \<times> bool) live_reply \<times> 'w" where
  \<comment> \<open>the story, the address of its audio and whether a memory was created\<close>
  "post_demo_full P rid trace headers body w =
     (let i = demo_input_of [''demoMode''] body
      in if \<not> isDemoMode headers (Some (di_demoMode i)) then (LiveReply 400 (Inl ''Demo mode required''), w)
         else (case ebind (dm_generate P (demo_request rid trace i)) (\<lambda>g.
                  ebind (demo_memory P i (gn_story g)) (\<lambda>m.
                    ereturn (gn_story g, gn_audioUrl g, m))) w of
                 (Inl e, w') \<Rightarrow> (LiveReply 500 (Inl (or_string (Some (err_message e)) ''Story generation failed'')), w')
               | (Inr r, w') \<Rightarrow> (LiveReply 200 (Inr r), w')))"

definition get_demo_history :: "'w demo_ports \<Rightarrow> 'w \<Rightarrow> public_story list live_reply \<times> 'w" where
  "get_demo_history P w =
     (case sr_findRecent (dm_stories P) (au_id demo_user) 20 w of
        (Inl e, w') \<Rightarrow> (LiveReply 500 (Inl (err_message e)), w')
      | (Inr ss, w') \<Rightarrow> (LiveReply 200 (Inr (map story_toPublicJSON ss)), w'))"

subsection \<open>Live sessions and voices\<close>

definition post_demo_tool ::
    "'w demo_ports \<Rightarrow> string \<Rightarrow> string \<Rightarrow> json option \<Rightarrow> 'w \<Rightarrow> tool_response live_reply \<times> 'w" where
  \<comment> \<open>\<open>POST /live/tool\<close>, as \<open>post_tool\<close> for the user of the demonstration\<close>
  "post_demo_tool P rid trace body w =
     (case parse_call body of
        None \<Rightarrow> (LiveReply 400 (Inl ''Validation Error''), w)
      | Some p \<Rightarrow> answer ''Tool execution failed'' (tool_call (dm_live P) (au_id demo_user) rid trace p) w)"

definition parse_demo_init :: "json option \<Rightarrow> string option \<times> real option" where
  \<comment> \<open>\<open>liveInitSchema\<close>; a body that is refused is replaced\<close>
  "parse_demo_init body =
     (let refused = (Some ''Child'', Some 5)
      in case body of
           None \<Rightarrow> refused
         | Some j \<Rightarrow>
             (case strict_members [''childName'', ''childAge''] j of
                None \<Rightarrow> refused
              | Some kvs \<Rightarrow>
                  (case (optional any_string (map_of kvs ''childName''),
                         optional (whole_between 0 18) (map_of kvs ''childAge'')) of
                     (Some n, Some a) \<Rightarrow> (n, a) | _ \<Rightarrow> refused)))"

definition init_demo :: "'w live_ports \<Rightarrow> string \<Rightarrow> string option \<times> real option \<Rightarrow> ('w, live_grant live_reply) eff" where
  "init_demo L trace b =
     ebind (eread (lv_newId L)) (\<lambda>sid.
     ebind (grant L sid (au_id demo_user) (createSessionConfig (lv_env L) (lv_prompt L) (fst b) (snd b)) trace)
       (\<lambda>g. ereturn (LiveReply 200 (Inr g))))"

definition post_demo_init ::
    "'w demo_ports \<Rightarrow> string \<Rightarrow> json option \<Rightarrow> 'w \<Rightarrow> live_grant live_reply \<times> 'w" where
  \<comment> \<open>the trace is the one of the request\<close>
  "post_demo_init P trace body =
     answer ''Failed to init demo session'' (init_demo (dm_live P) trace (parse_demo_init body))"

definition post_demo_voice ::
    "'w demo_ports \<Rightarrow> string option \<Rightarrow> string option \<Rightarrow> 'w \<Rightarrow> (string \<times> string \<times> string option) live_reply \<times> 'w" where
  \<comment> \<open>the type of the file, where there is one, and the name, where it is a text; the identifier, name and
      address of the voice\<close>
  "post_demo_voice P file name w =
     (case file of
        None \<Rightarrow> (LiveReply 400 (Inl ''No file uploaded''), w)
      | Some t \<Rightarrow>
          (case uploadVoice (dm_voices P) (au_id demo_user) (case name of None \<Rightarrow> ''My Voice'' | Some n \<Rightarrow> n)
                  (or_string (Some t) ''audio/webm'') w of
             (Inl e, w') \<Rightarrow> (LiveReply 500 (Inl (or_string (Some (err_message e)) ''Voice upload failed'')), w')
           | (Inr p, w') \<Rightarrow> (LiveReply 200 (Inr (vp_id p, vp_name p, vp_sampleUrl p)), w')))"

end
