(* ===== verification/DemoTheorems.thy ===== *)
theory DemoTheorems
  imports DemoRoutes LiveRoutesTheorems
begin

text \<open>
  What the public demonstration promises: which of its routes the switch \<open>PUBLIC_DEMO_ENABLED\<close> closes,
  what is told to its visitors, and whose sessions its tools serve.
\<close>

subsection \<open>The switch\<close>

definition with_env :: "environment \<Rightarrow> 'w demo_ports \<Rightarrow> 'w demo_ports" where
  "with_env env P = P\<lparr>dm_live := (dm_live P)\<lparr>lv_env := env\<rparr>\<rparr>"

lemma with_env_fields [simp]:
  "dm_env (with_env env P) = env" "dm_increment (with_env env P) = dm_increment P"
  "dm_model (with_env env P) = dm_model P" "dm_parse (with_env env P) = dm_parse P"
  "dm_string (with_env env P) = dm_string P" "dm_speak (with_env env P) = dm_speak P"
  "dm_generate (with_env env P) = dm_generate P" "dm_store (with_env env P) = dm_store P"
  "dm_stories (with_env env P) = dm_stories P" "dm_voices (with_env env P) = dm_voices P"
  "dm_live (with_env env P) = (dm_live P)\<lparr>lv_env := env\<rparr>"
  by (simp_all add: with_env_def)

lemma demo_model_other [simp]: "k \<noteq> ''GEMINI_MODEL_FLASH'' \<Longrightarrow> demo_model (env(k := v)) = demo_model env"
  by (simp add: demo_model_def)

lemma tool_after_env [simp]: "tool_after (L\<lparr>lv_env := env\<rparr>) = tool_after L"
  by (simp add: tool_after_def run_call_def Let_def fun_eq_iff split: option.split)

lemma tool_call_env [simp]: "tool_call (L\<lparr>lv_env := env\<rparr>) = tool_call L"
  by (simp add: tool_call_def fun_eq_iff)

lemma grant_env [simp]: "grant (L\<lparr>lv_env := env\<rparr>) = grant L"
  by (simp add: grant_def fun_eq_iff)

lemma createSessionConfig_other [simp]:
  "k \<noteq> ''GEMINI_LIVE_MODEL'' \<Longrightarrow> createSessionConfig (env(k := v)) = createSessionConfig env"
  by (simp add: createSessionConfig_def fun_eq_iff)

text \<open>The switch that is documented to disable the demonstration closes one route.  With
  \<open>PUBLIC_DEMO_ENABLED\<close> set to \<open>false\<close> a request for a story is not found, and the other routes (a
  session with its paid calls of the model and of the speech service, a stored session, the history, a
  live session with its ticket and its tools, the upload of a voice) answer every request as they do
  without it.\<close>

lemma disabled_demo_stays_open:
  "let P' = with_env ((dm_env P)(''PUBLIC_DEMO_ENABLED'' \<mapsto> ''false'')) P
   in post_demo_story P' headers body w = (LiveReply 404 (Inl ''Not Found''), w)
      \<and> post_demo_session P' body w = post_demo_session P body w
      \<and> post_demo_full P' rid trace headers body w = post_demo_full P rid trace headers body w
      \<and> get_demo_history P' w = get_demo_history P w
      \<and> post_demo_tool P' rid trace body w = post_demo_tool P rid trace body w
      \<and> post_demo_init P' trace body w = post_demo_init P trace body w
      \<and> post_demo_voice P' file name w = post_demo_voice P file name w"
proof -
  let ?P' = "with_env ((dm_env P)(''PUBLIC_DEMO_ENABLED'' \<mapsto> ''false'')) P"
  have "read_reply ?P' = read_reply P" "narrate ?P' = narrate P" "demo_memory ?P' = demo_memory P"
    by (simp_all add: read_reply_def narrate_def demo_memory_def fun_eq_iff)
  then have "post_demo_session ?P' body w = post_demo_session P body w"
      "post_demo_full ?P' rid trace headers body w = post_demo_full P rid trace headers body w"
    by (simp_all add: post_demo_session_def demo_session_def post_demo_full_def Let_def
        cong: sum.case_cong prod.case_cong option.case_cong json.case_cong)
  moreover have "post_demo_init ?P' trace body w = post_demo_init P trace body w"
    by (simp add: post_demo_init_def init_demo_def)
  ultimately show ?thesis
    by (simp add: post_demo_story_def get_demo_history_def post_demo_tool_def post_demo_voice_def
        cong: option.case_cong)
qed

subsection \<open>What is told\<close>

lemma patterns_are_unsafe:
  assumes "injected s \<or> banned_by s \<noteq> None"
  shows "\<exists>r. checkContent S s age fallback v = (Inr r, v) \<and> \<not> sf_isSafe r"
  using assms by (auto simp: checkContent_def Let_def unsafe_def split: option.split)

text \<open>The short story of the demonstration is told as the model wrote it: with a key and under the
  limit, every title and content the model answers reach the visitor unchanged, also a content the
  guardian of the production route refuses whatever its model says.\<close>

lemma demo_story_is_unchecked:
  assumes "dm_env P ''PUBLIC_DEMO_ENABLED'' \<noteq> Some ''false''"
    and "or_undefined (dm_env P ''GEMINI_API_KEY'') \<noteq> None"
    and "demo_limit P headers w = (False, w1)" and "parse_demo_story j = Some b"
    and "dm_model P (demo_model (dm_env P)) (demo_story_prompt b) w1 = (Inr t, w2)"
    and "dm_parse P t = Inr (JObj [(''title'', JStr title), (''content'', JStr content)])"
    and "injected content \<or> banned_by content \<noteq> None"
  shows "post_demo_story P headers (Some j) w = (LiveReply 200 (Inr (Some (JStr title), Some (JStr content))), w2)
    \<and> (\<exists>r. checkContent S content age fallback v = (Inr r, v) \<and> \<not> sf_isSafe r)"
  using assms patterns_are_unsafe [OF assms(7)]
  by (simp add: post_demo_story_def tell_demo_story_def read_reply_def field_def)

definition sample_demo :: "unit demo_ports" where
  "sample_demo =
     \<lparr>dm_live =
        \<lparr>lv_env = [''GEMINI_API_KEY'' \<mapsto> ''key''], lv_get = (\<lambda>_ w. (Inr None, w)), lv_set = (\<lambda>_ _ w. (Inr (), w)),
         lv_patch = (\<lambda>_ _ w. (Inr (), w)), lv_issue = (\<lambda>_ w. (Inr ''t1'', w)), lv_validate = (\<lambda>_ w. (Inr None, w)),
         lv_newId = (\<lambda>w. (''n'', w)), lv_now = (\<lambda>w. (0, w)), lv_prompt = (\<lambda>_ _. ''prompt''),
         lv_tools = quiet_tools\<rparr>,
      dm_increment = (\<lambda>_ _ w. (Inr 1, w)), dm_model = (\<lambda>_ _ w. (Inr ''answer'', w)),
      dm_parse = (\<lambda>_. Inr (JObj [(''title'', JStr ''The knight''), (''content'', JStr ''They saw blood.'')])),
      dm_string = (\<lambda>_. []), dm_speak = (\<lambda>_ _ w. (Inr (None, None), w)),
      dm_generate = (\<lambda>_ w. (Inl (Err ''Error'' ''none''), w)), dm_store = (\<lambda>_ _ _ _ w. (Inr (), w)),
      dm_stories = \<lparr>sb_connected = False, sb_byId = (\<lambda>_ w. (Inr (Inr None), w)), sb_upsert = (\<lambda>_ w. (Inr (Inr ()), w)),
        sb_byUser = (\<lambda>_ _ w. (Inr (Inr []), w)), sb_nap = (\<lambda>_ w. w), sb_isUrl = (\<lambda>_. True)\<rparr>,
      dm_voices = \<lparr>vo_now = (\<lambda>w. (0, w)), vo_random = (\<lambda>w. (''r'', w)), vo_upload = (\<lambda>_ _ w. (Inr ''url'', w)),
        vo_save = (\<lambda>_ w. (Inr (), w))\<rparr>\<rparr>"

lemma demo_story_is_unchecked_witness:
  "post_demo_story sample_demo (\<lambda>_. None) (Some (JObj [])) ()
     = (LiveReply 200 (Inr (Some (JStr ''The knight''), Some (JStr ''They saw blood.''))), ())
   \<and> (\<exists>r. checkContent agreeable ''They saw blood.'' None None () = (Inr r, ()) \<and> \<not> sf_isSafe r)"
proof -
  have "injected ''They saw blood.'' \<or> banned_by ''They saw blood.'' \<noteq> None" by code_simp
  moreover have "parse_demo_story (JObj []) = Some \<lparr>db_theme = ''space'', db_childName = None, db_childAge = None\<rparr>"
    by (simp add: parse_demo_story_def strict_members_def with_default_def optional_def)
  ultimately show ?thesis
    by (intro demo_story_is_unchecked [where b = "\<lparr>db_theme = ''space'', db_childName = None, db_childAge = None\<rparr>"])
      (simp_all add: sample_demo_def demo_limit_def)
qed

subsection \<open>Whose sessions\<close>

text \<open>The tools serve sessions of the demonstration only, and the check of its mode refuses nothing but
  a body that denies it.\<close>

lemma demo_tools_refuse_others:
  assumes "parse_call body = Some p" and "lv_get (dm_live P) (pl_sessionId p) w = (Inr st, w')"
    and "case st of None \<Rightarrow> True | Some s \<Rightarrow> ss_userId s \<noteq> au_id demo_user"
  shows "post_demo_tool P rid trace body w = (LiveReply 403 (Inl ''Forbidden''), w')"
  using assms
  by (auto simp: post_demo_tool_def answer_def tool_call_def ebind_def tool_after_def split: option.splits)

lemma only_an_explicit_no:
  assumes "isDemoMode headers (Some (di_demoMode (demo_input_of [''demoMode''] body))) = False"
  shows "\<exists>kvs. body = Some (JObj kvs) \<and> map_of kvs ''demoMode'' = Some (JBool False)"
  using assms
  by (auto simp: isDemoMode_def demo_input_of_def luna_def parse_demo_session_def strict_members_def
      with_default_def any_bool_def split: option.splits json.splits if_splits)

lemma demo_session_is_told_saved:
  assumes "post_demo_session P body w = (LiveReply 200 (Inr stages), w')"
  shows "\<exists>m. last stages = MomentStage m True"
  using assms
  by (auto simp: post_demo_session_def demo_session_def demo_stages_def
      split: if_splits prod.splits sum.splits option.splits json.splits)

end
