(* ===== verification/DemoClient.thy ===== *)
theory DemoClient
  imports LiveRelayTheorems DemoRoutes
begin

text \<open>
  The live session of the demonstration in the browser: the hook \<open>useDemoGeminiLive\<close>
  (\<open>src/src/presentation/hooks/useDemoGeminiLive.ts\<close>), where it differs from \<open>useGeminiLive\<close>
  (theory \<open>LiveClient\<close>, whose state and frames it shares): it needs no token, its setup names the
  session, its microphone is sent as binary frames, and \<open>disconnect\<close> forgets the socket.
\<close>

record demo_hook =
  dh_hook :: live_hook
  dh_audio :: "string list"                 \<comment> \<open>binary frames that were sent\<close>

definition new_demo_hook :: demo_hook where
  "new_demo_hook = \<lparr>dh_hook = (new_hook None)\<lparr>lh_sessionId := ''demo-session''\<rparr>, dh_audio = []\<rparr>"

definition at_hook :: "(live_hook \<Rightarrow> live_hook) \<Rightarrow> demo_hook \<Rightarrow> demo_hook" where
  "at_hook f d = d\<lparr>dh_hook := f (dh_hook d)\<rparr>"

definition demo_connect_call :: "string \<Rightarrow> real \<Rightarrow> live_hook \<Rightarrow> live_hook" where
  "demo_connect_call childName childAge h =
     h\<lparr>lh_error := None, lh_requests := lh_requests h @ [(''/api/v1/demo/live/init'', JObj
        [(''childName'', JStr childName), (''childAge'', JNum childAge)])]\<rparr>"

definition demo_connect_answer :: "nat \<Rightarrow> json option \<Rightarrow> live_hook \<Rightarrow> live_hook" where
  \<comment> \<open>as \<open>connect_answer\<close>\<close>
  "demo_connect_answer status parsed h =
     (let failed = ''Failed to init demo session ('' @ show_nat status @ '')''
      in if \<not> (200 \<le> status \<and> status < 300)
         then connect_failed (case get_field parsed ''error'' of
                  Some (JStr s) \<Rightarrow> if s = [] then failed else s | _ \<Rightarrow> failed) h
         else (case get_field parsed ''ticket'' of
                 Some (JStr t) \<Rightarrow>
                   if t = [] then connect_failed ''Missing live ticket'' h
                   else h\<lparr>lh_sessionId := (case get_field parsed ''sessionId'' of
                                           Some (JStr i) \<Rightarrow> i | _ \<Rightarrow> lh_sessionId h),
                          lh_traceId := (case get_field parsed ''traceId'' of
                                         Some (JStr x) \<Rightarrow> if x = [] then None else Some x | _ \<Rightarrow> None),
                          lh_config := get_field parsed ''config'',
                          lh_protocols := Some [''dw.live.v1'', ''ticket.'' @ t]\<rparr>
               | _ \<Rightarrow> connect_failed ''Missing live ticket'' h))"

definition demo_setup_frame :: "live_hook \<Rightarrow> json" where
  "demo_setup_frame h =
     JObj ((case lh_config h of None \<Rightarrow> [] | Some c \<Rightarrow> [(''setup'', c)])
       @ [(''sessionId'', JStr (lh_sessionId h)),
          (''traceId'', case lh_traceId h of None \<Rightarrow> JNull | Some t \<Rightarrow> JStr t)])"

definition demo_socket_opened :: "live_hook \<Rightarrow> live_hook" where
  \<comment> \<open>the entry of the log is written by an effect on \<open>isConnected\<close>\<close>
  "demo_socket_opened h =
     addLog ''system'' ''Connected to Demo Live''
       (hook_send greeting_frame (hook_send (demo_setup_frame h) (h\<lparr>lh_connected := True, lh_open := True\<rparr>)))"

definition demo_socket_closed :: "live_hook \<Rightarrow> live_hook" where
  "demo_socket_closed h = h\<lparr>lh_open := False, lh_connected := False\<rparr>"

definition demo_leave :: "live_hook \<Rightarrow> live_hook" where
  "demo_leave h = h\<lparr>lh_open := False, lh_connected := False, lh_protocols := None\<rparr>"

definition demo_mic_block :: "string \<Rightarrow> demo_hook \<Rightarrow> demo_hook" where
  "demo_mic_block bytes d = (if lh_open (dh_hook d) then d\<lparr>dh_audio := dh_audio d @ [bytes]\<rparr> else d)"

definition demo_tool_call :: "json \<Rightarrow> live_hook \<Rightarrow> live_hook" where
  "demo_tool_call call h =
     (case get_field (Some call) ''name'' of
        Some (JStr n) \<Rightarrow>
          h\<lparr>lh_requests := lh_requests h @ [(''/api/v1/demo/live/tool'', JObj (
              [(''toolName'', JStr n)]
              @ (case get_field (Some call) ''args'' of None \<Rightarrow> [] | Some a \<Rightarrow> [(''arguments'', a)])
              @ [(''sessionId'', JStr (lh_sessionId h)),
                 (''traceId'', case lh_traceId h of None \<Rightarrow> JNull | Some t \<Rightarrow> JStr t)]
              @ (case get_field (Some call) ''id'' of
                   Some (JStr i) \<Rightarrow> [(''toolCallId'', JStr i)] | _ \<Rightarrow> [])))]\<rparr>
      | _ \<Rightarrow> h)"

definition demo_server_text :: "client_env \<Rightarrow> json \<Rightarrow> live_hook \<Rightarrow> live_hook" where
  \<comment> \<open>an interruption and the end of a turn come before the audio of the same frame\<close>
  "demo_server_text C data h =
     (if data = JNull then h
      else (let content = get_field (Some data) ''serverContent'';
                h1 = (if js_truthy (get_field content ''interrupted'')
                      then h\<lparr>lh_played := [], lh_speaking := False\<rparr> else h);
                h2 = (if js_truthy (get_field content ''turnComplete'') then h1\<lparr>lh_speaking := False\<rparr> else h1)
            in case inline_audio C content h2 of
                 None \<Rightarrow> h2
               | Some h3 \<Rightarrow>
                   let h4 = (if js_truthy (get_field (get_field content ''sleepDetection'') ''isAsleep'')
                             then h3\<lparr>lh_cues := Suc (lh_cues h3)\<rparr> else h3);
                       call = get_field (Some data) ''toolCall''
                   in if \<not> js_truthy call then h4
                      else (case first_item (get_field call ''functionCalls'') of
                              None \<Rightarrow> h4 | Some c \<Rightarrow> demo_tool_call c h4)))"

definition demo_server_message :: "client_env \<Rightarrow> bool \<Rightarrow> string \<Rightarrow> live_hook \<Rightarrow> live_hook" where
  "demo_server_message C binary d h =
     (if binary then play d h
      else (case ce_parse C d of None \<Rightarrow> h | Some data \<Rightarrow> demo_server_text C data h))"

subsection \<open>The demonstration on this server\<close>

text \<open>The visitor of the demonstration is heard where the user of the product is not: the relay takes
  the session the setup names, and a binary frame reaches Gemini once its socket is open.\<close>

lemma demo_is_heard:
  assumes "rv_parse E d = Some (demo_setup_frame h)" and "lh_config h = Some c" and "js_truthy (Some c)"
    and "lh_sessionId h \<noteq> []" and "rv_apiKey E"
  shows "let r = live_run E [ClientSays d, Started, GeminiOpened 0, ClientAudio bytes] (handleConnection now u)
    in rl_sid r = lh_sessionId h
       \<and> (\<exists>setup. map gs_sent (rl_sessions r) = [[setup, JObj [(''realtime_input'', JObj [(''media_chunks'',
             JArr [JObj [(''mime_type'', JStr ''audio/pcm;rate=16000''), (''data'', JStr (btoa bytes))]])])]]])"
proof -
  let ?r = "handleConnection now u"
  let ?q = "case lh_traceId h of None \<Rightarrow> None | Some t \<Rightarrow> Some t"
  have "client_text E d ?r = ?r\<lparr>rl_sid := lh_sessionId h, rl_starting := [(c, ?q)]\<rparr>"
    using assms(1-4)
    by (simp add: client_text_def demo_setup_frame_def get_field_def handleConnection_def Let_def
        split: option.split)
  moreover have "startSession E (?r\<lparr>rl_sid := lh_sessionId h, rl_starting := [(c, ?q)]\<rparr>)
      = ?r\<lparr>rl_sid := lh_sessionId h, rl_starting := [], rl_sessions := [new_session (rv_env E) (options_of E c)],
           rl_current := Some 0, rl_active := True, rl_buffer := [], rl_subscribed := [0]\<rparr>"
    using assms(5) by (simp add: startSession_def handleConnection_def Let_def)
  ultimately show ?thesis
    by (simp add: steps at_session_def client_audio_def to_current_def session_open_def sendAudio_def
        send_json_def new_session_def)
qed

text \<open>Its request to open a session is the one the route parses.\<close>

lemma demo_init_parses:
  assumes "whole_between 0 18 (JNum age) = Some age"
  shows "parse_demo_init (Some (snd (last (lh_requests (demo_connect_call n age h))))) = (Some n, Some age)"
  using assms
  by (simp add: demo_connect_call_def parse_demo_init_def strict_members_def optional_def any_string_def)

end
