(* ===== verification/Container.thy ===== *)
theory Container
  imports Auth
begin

text \<open>
  The choice of adapters when the server starts (\<open>api/src/di/container.ts\<close>), in the order of the
  fields of \<open>ServiceContainer\<close>; an error in one of them stops the start.  The constructors that can
  throw are those of the event bus, of the session store and of the hosted memory.  The services that
  do not depend on the environment, and the parsed numbers of the gateway, are left out.
\<close>

datatype cache_choice = UpstashCache string string | MemoryCache
datatype ai_choice = MockAI | GeminiAI
datatype bus_choice = HostedBus | LocalBus
datatype memory_choice = HostedMemory | FileMemory
datatype state_choice = HttpRedis string string | TcpRedis string | MemoryState
datatype tickets_choice = HostedTickets | MemoryTickets

record services =
  sv_cache :: cache_choice
  sv_ai :: ai_choice
  sv_bus :: bus_choice
  sv_agentMemory :: memory_choice
  sv_state :: state_choice
  sv_tickets :: tickets_choice

definition fatal :: "string \<Rightarrow> js_error + 'a" where
  "fatal m = Inl (Err ''Error'' m)"

definition upstash :: "environment \<Rightarrow> (string \<times> string) option" where
  "upstash env =
     (case (or_undefined (env ''UPSTASH_REDIS_REST_URL''), or_undefined (env ''UPSTASH_REDIS_REST_TOKEN'')) of
        (Some u, Some t) \<Rightarrow> Some (u, t) | _ \<Rightarrow> None)"

definition hosted :: "environment \<Rightarrow> bool" where
  \<comment> \<open>\<open>supabaseUrl && supabaseServiceKey\<close>\<close>
  "hosted env \<longleftrightarrow> truthy_string (env ''SUPABASE_URL'')
     \<and> truthy_string (env_or env ''SUPABASE_SERVICE_ROLE_KEY'' ''SUPABASE_SERVICE_KEY'')"

definition createCacheAdapter :: "environment \<Rightarrow> js_error + cache_choice" where
  "createCacheAdapter env =
     (case upstash env of
        Some (u, t) \<Rightarrow> Inr (UpstashCache u t)
      | None \<Rightarrow>
          if is_production env
          then fatal ''FATAL: UPSTASH_REDIS_REST_URL and UPSTASH_REDIS_REST_TOKEN are required in production''
          else Inr MemoryCache)"

definition create_ai :: "environment \<Rightarrow> js_error + ai_choice" where
  "create_ai env =
     (if is_production env \<and> env ''USE_MOCK_AI'' = Some ''true''
      then fatal ''FATAL: USE_MOCK_AI must not be enabled in production''
      else if env ''USE_MOCK_AI'' = Some ''true'' then Inr MockAI else Inr GeminiAI)"

definition createTTSAdapter :: "environment \<Rightarrow> js_error + unit" where
  "createTTSAdapter env =
     (if is_production env \<and> \<not> truthy_string (env ''GOOGLE_TTS_API_KEY'')
      then fatal ''FATAL: GOOGLE_TTS_API_KEY is required in production for TTS''
      else if is_production env \<and> env ''VOICE_CLONING_ENABLED'' = Some ''true''
              \<and> \<not> truthy_string (env ''HUGGINGFACE_API_KEY'')
      then fatal ''FATAL: HUGGINGFACE_API_KEY is required when VOICE_CLONING_ENABLED=true''
      else Inr ())"

definition new_hosted_bus :: "environment \<Rightarrow> js_error + bus_choice" where
  \<comment> \<open>the constructor of \<open>SupabaseEventBus\<close>\<close>
  "new_hosted_bus env =
     (if truthy_string (env ''SUPABASE_URL'') \<and> truthy_string (env ''SUPABASE_SERVICE_ROLE_KEY'')
      then Inr HostedBus
      else fatal ''SupabaseEventBus requires SUPABASE_URL and SUPABASE_SERVICE_ROLE_KEY (Fail-Fast)'')"

definition createEventBus :: "environment \<Rightarrow> js_error + bus_choice" where
  "createEventBus env =
     (if hosted env then new_hosted_bus env
      else if is_production env
      then fatal ''FATAL: SupabaseEventBus requires SUPABASE_URL and SUPABASE_SERVICE_ROLE_KEY in production''
      else Inr LocalBus)"

definition new_hosted_memory :: "environment \<Rightarrow> js_error + memory_choice" where
  \<comment> \<open>the constructor of \<open>SupabaseAgentMemory\<close>\<close>
  "new_hosted_memory env =
     (if truthy_string (env ''SUPABASE_URL'') \<and> truthy_string (env ''SUPABASE_SERVICE_ROLE_KEY'')
      then Inr HostedMemory else fatal ''Supabase credentials required for SupabaseAgentMemory'')"

definition createAgentMemory :: "environment \<Rightarrow> js_error + memory_choice" where
  "createAgentMemory env =
     (if hosted env
      then (if is_production env \<and> \<not> truthy_string (env ''SUPABASE_ANON_KEY'')
            then fatal ''FATAL: SUPABASE_ANON_KEY is required in production for RLS-scoped memory access''
            else new_hosted_memory env)
      else if is_production env
      then fatal ''FATAL: SupabaseAgentMemory is required in production. Set SUPABASE_URL and SUPABASE_SERVICE_ROLE_KEY.''
      else Inr FileMemory)"

definition new_redis_state :: "string \<Rightarrow> string option \<Rightarrow> js_error + state_choice" where
  \<comment> \<open>the constructor of \<open>RedisSessionState\<close>\<close>
  "new_redis_state url token =
     (if starts_with url ''https://''
      then (case or_undefined token of
              None \<Rightarrow> fatal ''Upstash Redis requires a token'' | Some t \<Rightarrow> Inr (HttpRedis url t))
      else Inr (TcpRedis url))"

definition createSessionState :: "environment \<Rightarrow> js_error + state_choice" where
  "createSessionState env =
     (case upstash env of
        Some (u, t) \<Rightarrow> new_redis_state u (Some t)
      | None \<Rightarrow>
          (case or_undefined (env ''REDIS_URL'') of
             Some u \<Rightarrow> new_redis_state u None
           | None \<Rightarrow>
               if is_production env
               then fatal ''FATAL: UPSTASH_REDIS_REST_URL/TOKEN or REDIS_URL is required in production for Session State''
               else Inr MemoryState))"

definition createTicketStore :: "environment \<Rightarrow> js_error + tickets_choice" where
  "createTicketStore env =
     (if hosted env then Inr HostedTickets
      else if is_production env
      then fatal ''FATAL: SupabaseTicketStore is required in production. Set SUPABASE_URL and SUPABASE_SERVICE_ROLE_KEY environment variables.''
      else Inr MemoryTickets)"

definition and_then :: "js_error + 'a \<Rightarrow> ('a \<Rightarrow> js_error + 'b) \<Rightarrow> js_error + 'b" where
  "and_then x f = (case x of Inl e \<Rightarrow> Inl e | Inr a \<Rightarrow> f a)"

definition serviceContainer :: "environment \<Rightarrow> js_error + services" where
  "serviceContainer env =
     and_then (createCacheAdapter env) (\<lambda>c.
     and_then (create_ai env) (\<lambda>a.
     and_then (createTTSAdapter env) (\<lambda>_.
     and_then (createEventBus env) (\<lambda>b.
     and_then (createAgentMemory env) (\<lambda>m.
     and_then (createSessionState env) (\<lambda>s.
     and_then (createTicketStore env) (\<lambda>t.
       Inr \<lparr>sv_cache = c, sv_ai = a, sv_bus = b, sv_agentMemory = m, sv_state = s, sv_tickets = t\<rparr>)))))))"

subsection \<open>What a server that has started runs on\<close>

lemma and_then_Inr: "and_then x f = Inr b \<longleftrightarrow> (\<exists>a. x = Inr a \<and> f a = Inr b)"
  by (cases x) (simp_all add: and_then_def)

lemmas creations =
  createCacheAdapter_def create_ai_def createTTSAdapter_def createEventBus_def new_hosted_bus_def
  createAgentMemory_def new_hosted_memory_def createSessionState_def new_redis_state_def
  createTicketStore_def fatal_def

lemma started:
  assumes "serviceContainer env = Inr v"
  shows "createCacheAdapter env = Inr (sv_cache v)" and "create_ai env = Inr (sv_ai v)"
    and "createTTSAdapter env = Inr ()" and "createEventBus env = Inr (sv_bus v)"
    and "createAgentMemory env = Inr (sv_agentMemory v)" and "createSessionState env = Inr (sv_state v)"
    and "createTicketStore env = Inr (sv_tickets v)"
  using assms by (auto simp: serviceContainer_def and_then_Inr)

lemma production_choices:
  assumes "is_production env" and "serviceContainer env = Inr v"
  shows "(\<exists>u t. sv_cache v = UpstashCache u t \<and> upstash env = Some (u, t) \<and> sv_state v \<noteq> MemoryState)
    \<and> sv_ai v = GeminiAI \<and> sv_bus v = HostedBus \<and> sv_agentMemory v = HostedMemory \<and> sv_tickets v = HostedTickets"
  using started [OF assms(2)] assms(1)
  by (auto simp: creations split: if_splits option.splits prod.splits)

text \<open>C38: in production a server that starts runs on persistent services alone (the shared cache, the real
  model, the hosted bus, memory and tickets, a Redis session store), whatever the environment is, and
  outside production the bus, the memory and the tickets are all hosted or all local, so that no server
  starts on a mixture of them.
\<close>

theorem production_is_persistent:
  assumes "serviceContainer env = Inr v"
  shows "(is_production env \<longrightarrow> sv_cache v \<noteq> MemoryCache \<and> sv_ai v = GeminiAI \<and> sv_state v \<noteq> MemoryState
            \<and> hosted env)
    \<and> (if hosted env then sv_bus v = HostedBus \<and> sv_agentMemory v = HostedMemory \<and> sv_tickets v = HostedTickets
       else sv_bus v = LocalBus \<and> sv_agentMemory v = FileMemory \<and> sv_tickets v = MemoryTickets)"
  using started [OF assms] production_choices [OF _ assms]
  by (auto simp: creations split: if_splits option.splits prod.splits)

definition production_env :: environment where
  "production_env =
     [''NODE_ENV'' \<mapsto> ''production'', ''UPSTASH_REDIS_REST_URL'' \<mapsto> ''https://cache'',
      ''UPSTASH_REDIS_REST_TOKEN'' \<mapsto> ''t'', ''SUPABASE_URL'' \<mapsto> ''https://db'',
      ''SUPABASE_SERVICE_ROLE_KEY'' \<mapsto> ''k'', ''SUPABASE_ANON_KEY'' \<mapsto> ''a'', ''GOOGLE_TTS_API_KEY'' \<mapsto> ''g'']"

theorem production_is_persistent_witness:
  "\<exists>v. serviceContainer production_env = Inr v \<and> sv_cache v \<noteq> MemoryCache \<and> sv_bus v = HostedBus"
proof -
  obtain v where v: "serviceContainer production_env = Inr v"
    and h: "hosted production_env" "is_production production_env"
    by (simp add: serviceContainer_def and_then_def creations production_env_def hosted_def upstash_def
        env_or_def truthy_string_def or_undefined_def is_production_def)
  then show ?thesis using production_is_persistent [OF v] by auto
qed

text \<open>
  The name \<open>SUPABASE_SERVICE_KEY\<close>, which the container accepts in place of the other, stops the start:
  the constructor of the bus it chooses asks for the other.
\<close>

lemma other_key_stops_start:
  assumes "truthy_string (env ''SUPABASE_URL'')" and "truthy_string (env ''SUPABASE_SERVICE_KEY'')"
    and "\<not> truthy_string (env ''SUPABASE_SERVICE_ROLE_KEY'')"
  shows "isl (serviceContainer env)"
proof -
  have "hosted env" using assms by (simp add: hosted_def env_or_def)
  then have "isl (createEventBus env)" using assms(3) by (simp add: creations)
  then have "\<not> (\<exists>v. serviceContainer env = Inr v)" using started(4) by fastforce
  then show ?thesis by (cases "serviceContainer env") auto
qed

end
