(* ===== verification/Browser.thy ===== *)
theory Browser
  imports Goals Effects "HOL-Library.Word" "HOL-Library.List_Lexorder" "HOL-Library.Char_ord"
begin

text \<open>
  The parts of the web application (\<open>src/src/\<close>) that compute: the encoder of recordings
  (\<open>infrastructure/audio/wav.ts\<close>), the store of stories for use without a network
  (\<open>infrastructure/cache/MediaVault.ts\<close>), the addresses of requests
  (\<open>infrastructure/api/apiClient.ts\<close>) and the entities \<open>ActiveGoal.ts\<close> and \<open>GoldenMoment.ts\<close> of its
  domain.  Rendering and decoding of audio and \<open>IndexedDB\<close> itself are not modelled: the vault is the
  list of its records in the order of their keys, as \<open>getAll\<close> answers it.
\<close>

subsection \<open>Recordings\<close>

definition le16 :: "16 word \<Rightarrow> 8 word list" where
  "le16 w = [ucast w, ucast (drop_bit 8 w)]"

definition le32 :: "32 word \<Rightarrow> 8 word list" where
  "le32 w = [ucast w, ucast (drop_bit 8 w), ucast (drop_bit 16 w), ucast (drop_bit 24 w)]"

definition ascii_bytes :: "string \<Rightarrow> 8 word list" where
  "ascii_bytes s = map (\<lambda>c. word_of_nat (code c)) s"

definition js_trunc :: "real \<Rightarrow> int" where
  "js_trunc x = (if x < 0 then \<lceil>x\<rceil> else \<lfloor>x\<rfloor>)"

definition clip :: "jsnum \<Rightarrow> real" where
  \<comment> \<open>\<open>Math.max(-1, Math.min(1, v || 0))\<close>\<close>
  "clip v = (case v of Fin x \<Rightarrow> max (- 1) (min 1 x) | PInf \<Rightarrow> 1 | NInf \<Rightarrow> - 1 | NaN \<Rightarrow> 0)"

definition quantised :: "jsnum \<Rightarrow> int" where
  "quantised v = (let x = clip v in js_trunc (if x < 0 then x * 32768 else x * 32767))"

definition wav_header :: "nat \<Rightarrow> nat \<Rightarrow> 8 word list" where
  \<comment> \<open>for a sample rate and a size of the data\<close>
  "wav_header rate dataSize =
     ascii_bytes ''RIFF'' @ le32 (word_of_nat (44 + dataSize - 8)) @ ascii_bytes ''WAVE'' @ ascii_bytes ''fmt ''
     @ le32 16 @ le16 1 @ le16 1 @ le32 (word_of_nat rate) @ le32 (word_of_nat (rate * 2)) @ le16 2 @ le16 16
     @ ascii_bytes ''data'' @ le32 (word_of_nat dataSize)"

definition encodeWavFromAudioBuffer :: "nat \<Rightarrow> jsnum list \<Rightarrow> 8 word list" where
  "encodeWavFromAudioBuffer rate xs =
     wav_header rate (length xs * 2) @ concat (map (\<lambda>v. le16 (word_of_int (quantised v))) xs)"

text \<open>Reading the bytes back.\<close>

definition read16 :: "8 word list \<Rightarrow> 16 word" where
  "read16 bs = or (ucast (bs ! 0)) (push_bit 8 (ucast (bs ! 1)))"

definition read32 :: "8 word list \<Rightarrow> 32 word" where
  "read32 bs = or (ucast (bs ! 0)) (or (push_bit 8 (ucast (bs ! 1)))
     (or (push_bit 16 (ucast (bs ! 2))) (push_bit 24 (ucast (bs ! 3)))))"

fun read_samples :: "8 word list \<Rightarrow> int list" where
  "read_samples (a # b # bs) = sint (read16 [a, b]) # read_samples bs"
| "read_samples _ = []"

lemma read16_le16: "read16 (le16 w) = w"
  by (rule bit_word_eqI) (auto simp: read16_def le16_def bit_simps)

lemma read32_le32: "read32 (le32 w) = w"
proof (rule bit_word_eqI)
  fix n assume n: "n < LENGTH(32)"
  have "bit (read32 (le32 w)) n \<longleftrightarrow> n < 8 \<and> bit w n \<or> 8 \<le> n \<and> n - 8 < 8 \<and> bit w (8 + (n - 8))
      \<or> 16 \<le> n \<and> n - 16 < 8 \<and> bit w (16 + (n - 16)) \<or> 24 \<le> n \<and> n - 24 < 8 \<and> bit w (24 + (n - 24))"
  proof -
    have "n - k < 32" for k using n by simp
    then show ?thesis
      using n by (simp add: read32_def le32_def bit_or_iff bit_push_bit_iff bit_unsigned_iff bit_drop_bit_eq)
  qed
  also have "\<dots> \<longleftrightarrow> bit w n"
  proof -
    have "n - 8 < 8" if "\<not> n < 8" "n < 16" using that by simp
    moreover have "n - 16 < 8" if "\<not> n < 16" "n < 24" using that by simp
    moreover have "n - 24 < 8" using n by simp
    ultimately show ?thesis by (cases "n < 8"; cases "n < 16"; cases "n < 24") auto
  qed
  finally show "bit (read32 (le32 w)) n = bit w n" .
qed

lemma quantised_range: "- 32768 \<le> quantised v \<and> quantised v \<le> 32767"
proof -
  have c: "- 1 \<le> clip v" "clip v \<le> 1" by (simp_all add: clip_def split: jsnum.split)
  show ?thesis
  proof (cases "clip v < 0")
    case True
    then have "\<lceil>clip v * 32768\<rceil> \<le> 0" by (simp add: ceiling_le_iff)
    moreover have "- 32768 \<le> \<lceil>clip v * 32768\<rceil>"
      using c(1) le_of_int_ceiling [of "clip v * 32768"] by linarith
    ultimately show ?thesis using True by (simp add: quantised_def js_trunc_def)
  next
    case False
    then have "0 \<le> \<lfloor>clip v * 32767\<rfloor>" "\<lfloor>clip v * 32767\<rfloor> \<le> 32767" using c by (simp_all add: floor_le_iff)
    then show ?thesis using False by (simp add: quantised_def js_trunc_def Let_def)
  qed
qed

lemma sint_quantised: "sint (word_of_int (quantised v) :: 16 word) = quantised v"
  using quantised_range [of v] by (simp add: signed_of_int signed_take_bit_int_eq_self)

lemma read_samples_le16: "read_samples (le16 w @ bs) = sint w # read_samples bs"
  using read16_le16 [of w] by (simp add: le16_def)

lemma read_samples_encoded:
  "read_samples (concat (map (\<lambda>v. le16 (word_of_int (quantised v))) xs)) = map quantised xs"
  by (induction xs) (simp_all add: read_samples_le16 sint_quantised)

lemma length_encoded: "length (concat (map (\<lambda>v. le16 (f v)) xs)) = 2 * length xs"
  by (induction xs) (simp_all add: le16_def)

lemma header_fields:
  "length (wav_header rate n) = 44" "take 4 (wav_header rate n) = ascii_bytes ''RIFF''"
  "read32 (take 4 (drop 4 (wav_header rate n))) = word_of_nat (44 + n - 8)"
  "read32 (take 4 (drop 24 (wav_header rate n))) = word_of_nat rate"
  "read32 (take 4 (drop 28 (wav_header rate n))) = word_of_nat (rate * 2)"
  "read32 (take 4 (drop 40 (wav_header rate n))) = word_of_nat n"
proof -
  have l: "length (le32 w) = 4" "length (le16 u) = 2" "length (ascii_bytes s) = length s" for w u s
    by (simp_all add: le32_def le16_def ascii_bytes_def)
  show "length (wav_header rate n) = 44" "take 4 (wav_header rate n) = ascii_bytes ''RIFF''"
    "read32 (take 4 (drop 4 (wav_header rate n))) = word_of_nat (44 + n - 8)"
    "read32 (take 4 (drop 24 (wav_header rate n))) = word_of_nat rate"
    "read32 (take 4 (drop 28 (wav_header rate n))) = word_of_nat (rate * 2)"
    "read32 (take 4 (drop 40 (wav_header rate n))) = word_of_nat n"
    by (simp_all add: wav_header_def l read32_le32)
qed

text \<open>C39: a recording is written so that it is read back.  The file is 44 bytes and two per sample,
  the sizes, the rate and the byte rate in its header are those of the recording, and its samples are
  the values of the buffer, cut to the range from -1 to 1 (a value that is no number is 0) and rounded
  towards zero, each of which fits in 16 bits.\<close>

theorem wav_is_read_back:
  assumes "44 + 2 * length xs < 2 ^ 32" and "rate * 2 < 2 ^ 32"
  shows "let bs = encodeWavFromAudioBuffer rate xs
    in length bs = 44 + 2 * length xs \<and> take 4 bs = ascii_bytes ''RIFF''
       \<and> unat (read32 (take 4 (drop 4 bs))) + 8 = length bs
       \<and> unat (read32 (take 4 (drop 24 bs))) = rate \<and> unat (read32 (take 4 (drop 28 bs))) = 2 * rate
       \<and> unat (read32 (take 4 (drop 40 bs))) = 2 * length xs
       \<and> read_samples (drop 44 bs) = map quantised xs
       \<and> list_all (\<lambda>q. - 32768 \<le> q \<and> q \<le> 32767) (read_samples (drop 44 bs))"
proof -
  let ?h = "wav_header rate (length xs * 2)"
  have small: "unat (word_of_nat k :: 32 word) = k" if "k < 2 ^ 32" for k
    using that by (simp add: unsigned_of_nat take_bit_nat_eq_self)
  have h: "length ?h = 44" by (rule header_fields)
  define bs where "bs = encodeWavFromAudioBuffer rate xs"
  have bs: "bs = ?h @ concat (map (\<lambda>v. le16 (word_of_int (quantised v))) xs)"
    by (simp add: bs_def encodeWavFromAudioBuffer_def)
  have len: "length bs = 44 + 2 * length xs"
    using h length_encoded [of "\<lambda>v. word_of_int (quantised v)" xs] by (simp add: bs)
  have riff: "take 4 bs = ascii_bytes ''RIFF''" using h header_fields(2) by (simp add: bs)
  have front: "take 4 (drop k bs) = take 4 (drop k ?h)" if "k \<le> 40" for k using that h by (simp add: bs)
  have total: "unat (read32 (take 4 (drop 4 bs))) = 44 + length xs * 2 - 8"
    unfolding front [of 4, simplified] header_fields using assms(1) by (intro small) simp
  have rate: "unat (read32 (take 4 (drop 24 bs))) = rate" "unat (read32 (take 4 (drop 28 bs))) = rate * 2"
    unfolding front [of 24, simplified] front [of 28, simplified] header_fields
    using assms(2) by (intro small; simp)+
  have size: "unat (read32 (take 4 (drop 40 bs))) = length xs * 2"
    unfolding front [of 40, simplified] header_fields using assms(1) by (intro small) simp
  have "drop 44 bs = concat (map (\<lambda>v. le16 (word_of_int (quantised v))) xs)" using h by (simp add: bs)
  then have "read_samples (drop 44 bs) = map quantised xs" by (simp add: read_samples_encoded)
  then show ?thesis
    using len riff total rate size quantised_range by (simp add: Let_def list_all_iff flip: bs_def)
qed

theorem wav_is_read_back_witness:
  "let bs = encodeWavFromAudioBuffer 22050 [Fin (1 / 2), Fin (- 2), NaN]
   in length bs = 50 \<and> unat (read32 (take 4 (drop 24 bs))) = 22050
      \<and> read_samples (drop 44 bs) = [16383, - 32768, 0]"
proof -
  have "map quantised [Fin (1 / 2), Fin (- 2), NaN] = [16383, - 32768, 0]"
    by (simp add: quantised_def clip_def js_trunc_def floor_eq_iff)
  then show ?thesis
    using wav_is_read_back [of "[Fin (1 / 2), Fin (- 2), NaN]" 22050] by (simp add: Let_def)
qed

subsection \<open>Stories without a network\<close>

record story_record =
  sy_id :: string
  sy_title :: string
  sy_content :: string
  sy_theme :: string
  sy_createdAt :: millis

definition put_record :: "story_record \<Rightarrow> story_record list \<Rightarrow> story_record list" where
  \<comment> \<open>\<open>db.put\<close>: the record of the key is replaced\<close>
  "put_record s v = insort_key sy_id s (filter (\<lambda>t. sy_id t \<noteq> sy_id s) v)"

definition deleteStory :: "string \<Rightarrow> story_record list \<Rightarrow> story_record list" where
  "deleteStory i v = filter (\<lambda>t. sy_id t \<noteq> i) v"

definition offline_story :: "string \<Rightarrow> story_record list \<Rightarrow> story_record option" where
  \<comment> \<open>\<open>getStory\<close>\<close>
  "offline_story i v = find (\<lambda>t. sy_id t = i) v"

definition saveStory :: "story_record \<Rightarrow> story_record list \<Rightarrow> story_record list" where
  "saveStory s v =
     put_record s
       (if length v \<ge> 50
        then (case sort_key sy_createdAt v of [] \<Rightarrow> v | oldest # _ \<Rightarrow> deleteStory (sy_id oldest) v)
        else v)"

definition vault_ok :: "story_record list \<Rightarrow> bool" where
  "vault_ok v \<longleftrightarrow> sorted (map sy_id v) \<and> distinct (map sy_id v) \<and> length v \<le> 50"

lemma filter_ok: "vault_ok v \<Longrightarrow> vault_ok (filter P v)"
  by (auto simp: vault_ok_def sorted_filter distinct_map_filter intro: order_trans [OF length_filter_le])

lemma put_ok:
  assumes "vault_ok v" and "length (filter (\<lambda>t. sy_id t \<noteq> sy_id s) v) < 50"
  shows "vault_ok (put_record s v)"
  using assms filter_ok [OF assms(1), of "\<lambda>t. sy_id t \<noteq> sy_id s"]
  by (auto simp: vault_ok_def put_record_def sorted_insort_key distinct_insort_key)

lemma oldest_is_stored:
  assumes "sort_key f v = x # xs"
  shows "x \<in> set v" and "\<And>t. t \<in> set v \<Longrightarrow> f x \<le> f t"
proof -
  have eq: "set v = set (x # xs)" using assms by (metis set_sort)
  then show "x \<in> set v" by simp
  have "sorted (map f (x # xs))" using assms by (metis sorted_sort_key)
  then show "f x \<le> f t" if "t \<in> set v" for t using that eq by auto
qed

lemma find_by_key: "\<lbrakk>distinct (map f v); s \<in> set v\<rbrakk> \<Longrightarrow> find (\<lambda>t. f t = f s) v = Some s"
  by (induction v) (auto simp: image_iff)

lemma length_without:
  assumes "distinct (map f w)" and "y \<in> set w"
  shows "length (filter (\<lambda>t. f t \<noteq> f y) w) = length w - 1"
proof -
  have "inj_on f (set w)" using assms(1) by (simp add: distinct_map)
  then have "filter (\<lambda>t. f t \<noteq> f y) w = filter (\<lambda>t. t \<noteq> y) w"
    using assms(2) by (intro filter_cong) (auto dest: inj_onD)
  also have "\<dots> = remove1 y w"
    using assms(1)
    by (simp add: distinct_remove1_removeAll removeAll_filter_not_eq distinct_map) (rule filter_cong, auto)
  finally show ?thesis using assms(2) by (simp add: length_remove1)
qed

lemma vault_room:
  assumes "vault_ok v"
  shows "\<exists>v'. saveStory s v = put_record s v' \<and> vault_ok v' \<and> length v' < 50
    \<and> (if length v < 50 then v' = v
         else \<exists>x\<in>set v. v' = deleteStory (sy_id x) v \<and> (\<forall>t\<in>set v. sy_createdAt x \<le> sy_createdAt t))"
proof (cases "length v < 50")
  case True
  then show ?thesis using assms by (intro exI [of _ v]) (simp add: saveStory_def)
next
  case False
  then have full: "length v = 50" using assms by (simp add: vault_ok_def)
  obtain x xs where x: "sort_key sy_createdAt v = x # xs"
    using full by (metis length_0_conv length_sort list.exhaust zero_neq_numeral)
  note old = oldest_is_stored [OF x]
  have "length (deleteStory (sy_id x) v) < length v"
    unfolding deleteStory_def by (rule length_filter_less [OF old(1)]) simp
  then show ?thesis
    using full old x filter_ok [OF assms]
    by (intro exI [of _ "deleteStory (sy_id x) v"]) (auto simp: saveStory_def deleteStory_def)
qed

text \<open>C40: the vault of stories keeps its records sorted and distinct by key and never more than fifty.
  A story that is saved is found under its key, and every other story stays, except that a full vault
  gives up one, and one that no other story of it is older than.\<close>

theorem vault_gives_up_the_oldest:
  assumes "vault_ok v"
  shows "vault_ok (saveStory s v) \<and> offline_story (sy_id s) (saveStory s v) = Some s
    \<and> (\<forall>t\<in>set v. sy_id t \<noteq> sy_id s \<longrightarrow> t \<in> set (saveStory s v)
          \<or> length v = 50 \<and> (\<forall>u\<in>set v. sy_createdAt t \<le> sy_createdAt u))"
proof -
  obtain v' where v': "saveStory s v = put_record s v'" "vault_ok v'" "length v' < 50"
    and kept: "if length v < 50 then v' = v
         else \<exists>x\<in>set v. v' = deleteStory (sy_id x) v \<and> (\<forall>t\<in>set v. sy_createdAt x \<le> sy_createdAt t)"
    using vault_room [OF assms] by blast
  have set: "set (put_record s v') = insert s {t \<in> set v'. sy_id t \<noteq> sy_id s}"
    by (simp add: put_record_def set_insort_key)
  have ok: "vault_ok (saveStory s v)"
    using v' by (simp add: put_ok order.strict_trans1 [OF length_filter_le])
  have "offline_story (sy_id s) (saveStory s v) = Some s"
    using ok set unfolding offline_story_def by (intro find_by_key) (auto simp: vault_ok_def v'(1))
  moreover have "t \<in> set (saveStory s v) \<or> length v = 50 \<and> (\<forall>u\<in>set v. sy_createdAt t \<le> sy_createdAt u)"
    if "t \<in> set v" "sy_id t \<noteq> sy_id s" for t
  proof (cases "length v < 50")
    case False
    then obtain x where x: "x \<in> set v" "v' = deleteStory (sy_id x) v" "\<forall>t\<in>set v. sy_createdAt x \<le> sy_createdAt t"
      using kept by auto
    have "length v = 50" using False assms by (simp add: vault_ok_def)
    moreover have "t = x" if "sy_id t = sy_id x"
      using that x(1) \<open>t \<in> set v\<close> assms by (auto simp: vault_ok_def distinct_map dest: inj_onD)
    ultimately show ?thesis using that x set by (auto simp: v'(1) deleteStory_def)
  qed (use kept that set in \<open>auto simp: v'(1)\<close>)
  ultimately show ?thesis using ok by auto
qed

theorem vault_gives_up_the_oldest_witness:
  "let story = (\<lambda>i n. \<lparr>sy_id = i, sy_title = ''t'', sy_content = ''c'', sy_theme = ''space'', sy_createdAt = n\<rparr>)
   in offline_story ''b'' (saveStory (story ''b'' 2) [story ''a'' 1]) = Some (story ''b'' 2)
      \<and> story ''a'' 1 \<in> set (saveStory (story ''b'' 2) [story ''a'' 1])"
  using vault_gives_up_the_oldest [of
      "[\<lparr>sy_id = ''a'', sy_title = ''t'', sy_content = ''c'', sy_theme = ''space'', sy_createdAt = 1\<rparr>]"
      "\<lparr>sy_id = ''b'', sy_title = ''t'', sy_content = ''c'', sy_theme = ''space'', sy_createdAt = 2\<rparr>"]
  by (simp add: vault_ok_def)

text \<open>A story that a full vault holds already still pushes out the oldest when it is saved again.\<close>

lemma saving_again_loses_a_story:
  assumes "vault_ok v" and "length v = 50" and "s \<in> set v"
    and "sort_key sy_createdAt v = x # xs" and "sy_id x \<noteq> sy_id s"
  shows "length (saveStory s v) = 49"
proof -
  have x: "x \<in> set v" using oldest_is_stored(1) [OF assms(4)] .
  have d: "distinct (map sy_id v)" using assms(1) by (simp add: vault_ok_def)
  have "s \<in> set (deleteStory (sy_id x) v)" using assms(3,5) by (auto simp: deleteStory_def)
  then have "length (filter (\<lambda>t. sy_id t \<noteq> sy_id s) (deleteStory (sy_id x) v)) = 48"
    using length_without [OF d x] length_without [of sy_id "deleteStory (sy_id x) v" s] d assms(2)
    by (simp add: deleteStory_def distinct_map_filter)
  then show ?thesis using assms(2,4) by (simp add: saveStory_def put_record_def)
qed

subsection \<open>Addresses of requests\<close>

definition stripTrailingSlash :: "string \<Rightarrow> string" where
  \<comment> \<open>\<open>value.replace(/\/+$/, '')\<close>\<close>
  "stripTrailingSlash v = rev (dropWhile (\<lambda>c. c = CHR ''/'') (rev v))"

definition ends_with :: "string \<Rightarrow> string \<Rightarrow> bool" where
  "ends_with s t \<longleftrightarrow> starts_with (rev s) (rev t)"

definition normalizeApiBase :: "string \<Rightarrow> string" where
  "normalizeApiBase base = stripTrailingSlash (js_trim base)"

definition normalizePath :: "string \<Rightarrow> string" where
  "normalizePath path =
     (let t = js_trim path
      in if t = [] then ''/'' else if starts_with t ''/'' then t else CHR ''/'' # t)"

definition joinUrl :: "string \<Rightarrow> string \<Rightarrow> string" where
  "joinUrl base path =
     (if base = [] then path
      else (let b = stripTrailingSlash base; p = normalizePath path
            in if ends_with b ''/api/v1'' \<and> starts_with p ''/api/v1/''
               then b @ drop (length ''/api/v1'') p else b @ p))"

definition stripApiVersionFromBase :: "string \<Rightarrow> string" where
  "stripApiVersionFromBase base =
     (let b = stripTrailingSlash base
      in if ends_with b ''/api/v1'' then take (length b - length ''/api/v1'') b else b)"

definition apiFetch :: "string \<Rightarrow> bool \<Rightarrow> string \<Rightarrow> (string \<times> string) list \<Rightarrow> string \<times> (string \<times> string) list" where
  \<comment> \<open>the address and the headers of the request, for the configured base and whether the browser is in
      the mode of the demonstration; the names of headers are in lower case\<close>
  "apiFetch raw demo path headers =
     (joinUrl (normalizeApiBase raw) path,
      if demo then filter (\<lambda>(k, _). k \<noteq> ''x-demo-mode'') headers @ [(''x-demo-mode'', ''true'')] else headers)"

lemma starts_with_self: "starts_with (p @ s) p"
  by (induction p) simp_all

lemma ends_with_append: "ends_with (s @ t) t"
  by (simp add: ends_with_def starts_with_self)

text \<open>The version of the interface is written once, whether or not the base has it.\<close>

lemma version_is_not_doubled:
  assumes "b \<noteq> []" and "last b \<noteq> CHR ''/''" and "js_trim (''/api/v1/'' @ p) = ''/api/v1/'' @ p"
    and "\<not> ends_with b ''/api/v1''"
  shows "joinUrl (b @ ''/api/v1'') (''/api/v1/'' @ p) = b @ ''/api/v1/'' @ p"
    and "joinUrl b (''/api/v1/'' @ p) = b @ ''/api/v1/'' @ p"
proof -
  have strip: "stripTrailingSlash (c @ [x]) = c @ [x]" if "x \<noteq> CHR ''/''" for c x
    using that by (simp add: stripTrailingSlash_def)
  have 1: "stripTrailingSlash (b @ ''/api/v1'') = b @ ''/api/v1''"
    using strip [of "CHR ''1''" "b @ ''/api/v''"] by simp
  have 2: "stripTrailingSlash b = b"
    using strip [of "last b" "butlast b"] assms(1,2) by simp
  have path: "normalizePath (''/api/v1/'' @ p) = ''/api/v1/'' @ p"
    using assms(3) by (simp add: normalizePath_def)
  show "joinUrl (b @ ''/api/v1'') (''/api/v1/'' @ p) = b @ ''/api/v1/'' @ p"
    unfolding joinUrl_def Let_def 1 path using assms(1) ends_with_append [of b "''/api/v1''"] by simp
  show "joinUrl b (''/api/v1/'' @ p) = b @ ''/api/v1/'' @ p"
    unfolding joinUrl_def Let_def 2 path using assms(1,4) by simp
qed

subsection \<open>Goals and moments of the browser\<close>

definition wg_isActive :: "active_goal \<Rightarrow> bool" where
  "wg_isActive g \<longleftrightarrow> ag_status g = GActive"

definition wg_updateProgress :: "jsnum \<Rightarrow> active_goal \<Rightarrow> js_error + active_goal" where
  "wg_updateProgress x g =
     (if ag_status g \<noteq> GActive then Inl (Err ''Error'' ''Cannot update progress on non-active goal'')
      else Inr (g\<lparr>ag_progress := js_min (Fin 100) (js_max (Fin 0) x)\<rparr>))"

definition wg_markAchieved :: "millis \<Rightarrow> active_goal \<Rightarrow> js_error + active_goal" where
  "wg_markAchieved now g =
     (if ag_status g \<noteq> GActive then Inl (Err ''Error'' ''Cannot achieve non-active goal'')
      else Inr (g\<lparr>ag_status := GAchieved, ag_progress := Fin 100, ag_achievedAt := Some now\<rparr>))"

definition wg_abandon :: "active_goal \<Rightarrow> js_error + active_goal" where
  "wg_abandon g =
     (if ag_status g \<noteq> GActive then Inl (Err ''Error'' ''Cannot abandon non-active goal'')
      else Inr (g\<lparr>ag_status := GAbandoned\<rparr>))"

definition wg_getRemainingMinutes :: "millis \<Rightarrow> active_goal \<Rightarrow> real" where
  "wg_getRemainingMinutes now g = max 0 (real_of_int (ag_targetTime g - now) / 60000)"

text \<open>A goal leaves the state \<open>active\<close> once, and nothing changes it afterwards; the entity of the server
  (theory \<open>Goals\<close>) has no such guard and agrees with this one on active goals.\<close>

lemma settled_goals_stay:
  "\<not> wg_isActive g \<Longrightarrow> isl (wg_updateProgress x g) \<and> isl (wg_markAchieved now g) \<and> isl (wg_abandon g)"
  "wg_isActive g \<Longrightarrow> wg_updateProgress x g = Inr (ag_updateProgress x g)
     \<and> wg_markAchieved now g = Inr (ag_markAchieved now g)"
  by (simp_all add: wg_isActive_def wg_updateProgress_def wg_markAchieved_def wg_abandon_def
      ag_updateProgress_def ag_markAchieved_def)

datatype web_moment_type = WQuestion | WMilestone | WQuote | WInteraction

record web_moment =
  wm_id :: string
  wm_storyId :: string
  wm_userId :: string
  wm_type :: web_moment_type
  wm_title :: string
  wm_quote :: "string option"
  wm_audioClipUrl :: "string option"
  wm_audioDurationSeconds :: "real option"
  wm_tags :: "string list"
  wm_isStarred :: bool
  wm_timestamp :: millis

definition wm_createNew ::
    "string \<Rightarrow> string \<Rightarrow> web_moment_type \<Rightarrow> string \<Rightarrow> string option \<Rightarrow> string list option
      \<Rightarrow> millis \<Rightarrow> string \<Rightarrow> millis \<Rightarrow> web_moment" where
  "wm_createNew story user type title quote tags now rnd now2 =
     \<lparr>wm_id = ''moment_'' @ show_int now @ ''_'' @ rnd, wm_storyId = story, wm_userId = user, wm_type = type,
      wm_title = title, wm_quote = quote, wm_audioClipUrl = None, wm_audioDurationSeconds = None,
      wm_tags = (case tags of None \<Rightarrow> [] | Some ts \<Rightarrow> ts), wm_isStarred = False, wm_timestamp = now2\<rparr>"

definition wm_setAudioClip :: "string \<Rightarrow> real \<Rightarrow> web_moment \<Rightarrow> web_moment" where
  "wm_setAudioClip url seconds m = m\<lparr>wm_audioClipUrl := Some url, wm_audioDurationSeconds := Some seconds\<rparr>"

definition wm_toggleStar :: "web_moment \<Rightarrow> web_moment" where
  "wm_toggleStar m = m\<lparr>wm_isStarred := \<not> wm_isStarred m\<rparr>"

definition wm_star :: "web_moment \<Rightarrow> web_moment" where
  "wm_star m = m\<lparr>wm_isStarred := True\<rparr>"

definition normalized_tag :: "string \<Rightarrow> string" where
  \<comment> \<open>\<open>tag.toLowerCase().replace(/[^a-z0-9]/g, '')\<close>\<close>
  "normalized_tag t =
     filter (\<lambda>c. 97 \<le> code c \<and> code c \<le> 122 \<or> 48 \<le> code c \<and> code c \<le> 57) (js_lower t)"

definition wm_addTag :: "string \<Rightarrow> web_moment \<Rightarrow> web_moment" where
  "wm_addTag t m =
     (if normalized_tag t \<in> set (wm_tags m) then m else m\<lparr>wm_tags := wm_tags m @ [normalized_tag t]\<rparr>)"

definition wm_removeTag :: "string \<Rightarrow> web_moment \<Rightarrow> web_moment" where
  "wm_removeTag t m = m\<lparr>wm_tags := filter (\<lambda>u. u \<noteq> normalized_tag t) (wm_tags m)\<rparr>"

definition wm_formatDuration :: "web_moment \<Rightarrow> string" where
  "wm_formatDuration m =
     (case wm_audioDurationSeconds m of
        None \<Rightarrow> ''0:00''
      | Some d \<Rightarrow>
          if d = 0 then ''0:00''
          else (let mins = \<lfloor>d / 60\<rfloor>; secs = show_int \<lfloor>d - 60 * of_int (js_trunc (d / 60))\<rfloor>
                in show_int mins @ '':'' @ replicate (2 - length secs) (CHR ''0'') @ secs))"

text \<open>Tags that are added stay distinct and can be removed; a tag given when the moment is made is kept
  as it is, so one that is not normalized cannot be removed.\<close>

lemma tags_stay_distinct: "distinct (wm_tags m) \<Longrightarrow> distinct (wm_tags (wm_addTag t m))"
  by (simp add: wm_addTag_def)

lemma added_tag_is_removed: "normalized_tag t \<notin> set (wm_tags (wm_removeTag t (wm_addTag t m)))"
  by (simp add: wm_removeTag_def)

lemma given_tag_stays: "\<lbrakk>u \<in> set (wm_tags m); normalized_tag u \<noteq> u\<rbrakk> \<Longrightarrow> u \<in> set (wm_tags (wm_removeTag u m))"
  by (simp add: wm_removeTag_def)

end
