(* ===== verification/Spec2Isabelle.thy ===== *)
theory Spec2Isabelle
  imports SessionTheorems DecisionTheorems SentinelTheorems RateLimitTheorems Tickets GatewayTheorems
    Generation Moderation ToolRouter EventBusTheorems Families Digests RecallTheorems Curation
    LiveWorkerTheorems UserRoutesTheorems LiveRelayTheorems DemoTheorems DemoClient Container Browser
begin

text \<open>
  DreamWeaver: a verification library for a bedtime-story service: the server (the TypeScript code
  under \<open>api/src/\<close> and the database functions under \<open>supabase/migrations/\<close> it relies on), the worker
  that relays live sessions (\<open>ws-worker/src/index.ts\<close>) and what the web application (\<open>src/src/\<close>)
  computes.

  \<^bold>\<open>The program.\<close>  A request for a story goes through \<open>authMiddleware\<close> and the rate limiter to
  \<open>GenerateStoryUseCase\<close>: the conductor agent reasons about the session (state in Redis or in
  memory, agent memory, ambient context) with the help of the model gateway, the gateway writes the
  text, the safety guardian checks it, the story is stored, companions are unlocked and events are
  published.  A live session calls tools (\<open>ToolExecutionRouter\<close>), streams audio to the sleep
  sentinel and opens its socket with a single-use ticket, on the worker or on the server itself; the
  browser drives both with one hook.  The demonstration serves the same use cases without
  authentication.  Stories and moments are shared by links,
  flagged and reviewed.

  \<^bold>\<open>The theories\<close>, with the files they model:

  \<^item> \<open>JsPrelude\<close>: numbers with NaN, strings, JSON, decimal numerals, capped lists; \<open>JsNumbers\<close>: number
    formatting and parsing; \<open>JsRegex\<close>: an executable matcher with its declarative reading;
    \<open>Effects\<close>: asynchronous code as functions of a world, with an invariant calculus.
  \<^item> \<open>Goals\<close>, \<open>Ambient\<close>, \<open>Phases\<close>: \<open>ActiveGoal.ts\<close>, \<open>AmbientContextService.ts\<close>,
    \<open>AtomOfThoughtEngine.ts\<close>.
  \<^item> \<open>SessionState\<close> (the contract of the stores as locales), \<open>SessionRedis\<close>
    (\<open>RedisSessionState.ts\<close> with its Lua scripts) and \<open>SessionMemory\<close> (\<open>InMemorySessionState.ts\<close>
    over a heap, because the stored object is handed out), \<open>SessionTheorems\<close>.
  \<^item> \<open>Resilience\<close> (both \<open>ResilienceEngine.ts\<close>, \<open>QualityGate.ts\<close>), \<open>AgentMemory\<close> (the volatile and the
    file-backed memory).
  \<^item> \<open>Conductor\<close> (\<open>BedtimeConductorAgent.ts\<close>, every handler), \<open>ConductorStore\<close> (its lemmas over any
    store that keeps the contract), \<open>ConductorRedis\<close> (the interpretation on the Redis store),
    \<open>ConductorRuns\<close>, \<open>ConductorTheorems\<close>, \<open>DecisionTheorems\<close>.
  \<^item> \<open>Sentinel\<close>, \<open>SentinelTheorems\<close>: \<open>SleepSentinelAgent.ts\<close>, \<open>ManageSleepCycleUseCase.ts\<close>.
  \<^item> \<open>RateLimit\<close>, \<open>RateLimitTheorems\<close>: \<open>middleware/rateLimit.ts\<close>; \<open>Tickets\<close>: both ticket stores;
    \<open>Caches\<close>: both cache adapters.
  \<^item> \<open>Gateway\<close>, \<open>GatewayRuns\<close>, \<open>GatewayTheorems\<close>: \<open>GeminiAIGateway.ts\<close>.
  \<^item> \<open>HostedMemory\<close> (\<open>SupabaseAgentMemory.ts\<close>), \<open>Recall\<close>, \<open>RecallTheorems\<close> (conversation turns,
    suggestions, interactions, summaries of a session and their consolidation, with the routes
    \<open>conversation.ts\<close> and \<open>suggestions.ts\<close>), \<open>Curation\<close> (\<open>AnalyzeSessionForMomentsUseCase.ts\<close>).
  \<^item> \<open>EventBus\<close>, \<open>EventBusTheorems\<close>: \<open>InMemoryEventBus.ts\<close>, \<open>SupabaseEventBus.ts\<close>.
  \<^item> \<open>Families\<close> (\<open>SupabaseFamilyRepository.ts\<close>, \<open>routes/family.ts\<close>), \<open>Digests\<close> (the mail
    services, \<open>SendWeeklyDigestUseCase.ts\<close>, the scheduled job and the routes that share).
  \<^item> \<open>Retry\<close> (\<open>resilience.ts\<close>), \<open>Stories\<close> (\<open>Story.ts\<close>, \<open>StoryContent.ts\<close>,
    \<open>SupabaseStoryRepository.ts\<close> and the reading use cases), \<open>Voices\<close>, \<open>Companions\<close>, \<open>Sharing\<close>
    (links and their views), \<open>Auth\<close>, \<open>Moderation\<close> (flags, reviews, blocks and their routes),
    \<open>Safety\<close> (\<open>SafetyGuardian.ts\<close>, \<open>VerificationPipeline.ts\<close>, \<open>IntentClassifier.ts\<close>),
    \<open>Generation\<close> (\<open>GenerateStoryUseCase.ts\<close>) and \<open>ToolRouter\<close> (\<open>ToolExecutionRouter.ts\<close>,
    \<open>SupabaseToolAuditLog.ts\<close>).
  \<^item> \<open>LiveRoutes\<close>, \<open>LiveRoutesTheorems\<close> (\<open>routes/live.ts\<close>, \<open>LiveSessionFactory.ts\<close>), \<open>LiveWorker\<close>,
    \<open>LiveWorkerTheorems\<close> (the worker: upgrade and every handler of its two sockets), \<open>LiveRelay\<close>
    (\<open>index.ts\<close>, \<open>GeminiLiveSession.ts\<close>, \<open>GeminiLiveRelay.ts\<close>), \<open>LiveClient\<close>
    (\<open>useGeminiLive.ts\<close>) and \<open>LiveRelayTheorems\<close>, which puts the browser on the relay.
  \<^item> \<open>UserRoutes\<close>, \<open>UserRoutesTheorems\<close>: the routes of stories, moments, voices, preferences and
    reports (\<open>routes/story.ts\<close>, \<open>moments.ts\<close>, \<open>voice.ts\<close>, \<open>user.ts\<close>, \<open>auth.ts\<close>, \<open>health.ts\<close>,
    \<open>meta.ts\<close>, the checks of \<open>app.ts\<close>); \<open>DemoRoutes\<close>, \<open>DemoTheorems\<close> (\<open>routes/demo.ts\<close>) and
    \<open>DemoClient\<close> (\<open>useDemoGeminiLive.ts\<close>).
  \<^item> \<open>Speech\<close> (the adapters of speech and their composite), \<open>Container\<close> (\<open>di/container.ts\<close>) and
    \<open>Browser\<close> (\<open>wav.ts\<close>, \<open>MediaVault.ts\<close>, \<open>apiClient.ts\<close>, the entities of goals and moments of
    the web application).

  \<^bold>\<open>Conventions.\<close>  A class is a record of its state, an operation a function to the result and
  the new state.  Code that awaits is an \<open>eff\<close>: a function from a world to an error or a result
  and the world afterwards.  What the code imports from outside (database client, model, mail, the
  clock, random identifiers) is a field of a \<open>ports\<close> record, so that every lemma holds for all
  behaviours of it; where a property needs what such a service documents, it is a hypothesis, and
  its witness instantiates the port.  Errors are values: every \<open>throw\<close> and early return of the
  source is a branch.  Numbers are exact reals or integers, a hash is computed on 32-bit words,
  strings are sequences of code units below 256, times are milliseconds.

  \<^bold>\<open>What the lemmas show.\<close>  The stores keep their invariants and satisfy the contracts
  (\<open>session_store\<close>, \<open>rate_store\<close>, \<open>ticket_store\<close>, \<open>cache\<close>, \<open>event_subscriptions\<close>) through
  interpretations on the modelled code; the conductor keeps at most five well-formed goals under every sequence of
  events, always answers a turn and ends each session within three questions to the model; tickets
  are used once and both stores refine one specification; the circuit opens after the configured
  failures; a saved story is read back unchanged; told content has passed every layer of the
  guardian; each tool call is audited once; unlocks are kept; every published event is stored, queued
  or in a refused batch, and reaches a handler at most once; stored facts carry the anchor of a turn
  they cite; a suggested moment has passed both judgements.  A tool call of a live session runs once, a
  ticket opens one socket, the worker keeps the order of a client's messages, the relay of the server
  sends nothing before the setup and nothing to a client that is gone, and the requests of the browser
  are those the routes accept; a recording is read back from its bytes, the vault of stories gives up
  its oldest only, and a server in production runs on persistent services or does not start.  Other
  lemmas state where the code departs from its intent: a guard of the administrators' routes that
  admits everybody, blocked stories that are still served, share links that overlapping readers
  exceed, sanitising that restores a banned word, titles, live stories and demonstration stories that
  no check sees, a session that another user takes over by its name, a browser that the relay of the
  server does not hear, cloned voices that never speak, a weekly digest that sends nothing.

  \<^bold>\<open>Bounds.\<close>  No loop of the models needs fuel: \<open>retry_from\<close> ends after \<open>maxRetries\<close> attempts,
  \<open>conduct_loop\<close> counts its three attempts down, \<open>strip_thinking\<close> and \<open>split_at\<close> shorten their
  input, \<open>cloud_speak\<close> falls back to a voice that does not fall back, and a stream is the finite list
  of its chunks.

  \<^bold>\<open>Not modelled.\<close>  What is left is output or one call of something outside the repository: the
  pages, components and contexts of the React application and its thin clients of the API, the audio
  graph of the browser, the description of the API in \<open>docs.ts\<close> (a constant), the adapters for file
  storage, the review queue and the trace file, the texts of the prompts (constants and templates with
  no logic beyond the choice of a section), logging, tracing and scripts.  Within modelled files,
  console output and logging are left out, and so are the identifiers and times that only label a
  reply.
\<close>

end
